(* ===== verification/Prelude.thy ===== *)
theory Prelude
  imports Main "HOL-Library.Sublist" "HOL-Library.Product_Lexorder"
begin

text \<open>
  What the components share: the fragment of Go's standard library that the modelled code
  uses (\<open>strings\<close>, \<open>strconv\<close>, \<open>time\<close> arithmetic, \<open>sort.SliceStable\<close>), the reply type of
  the HTTP handlers, the error values, and the generic lemmas the component proofs rest on.

  Strings are byte strings. Case folding and white space are those of ASCII, which is what the
  status words, node names and cron fields of the control plane are made of. An instant is
  the number of nanoseconds since Go's zero time, so \<open>t.IsZero()\<close> is \<open>t = 0\<close>; a
  duration is a number of nanoseconds.
\<close>

named_theorems handler_simps \<open>defining equations that unfold one request handler\<close>
named_theorems status_simps \<open>evaluation of the status vocabulary on its literals\<close>

type_synonym instant = int
type_synonym duration = int

subsection \<open>Durations\<close>

text \<open>Integer division of Go truncates towards zero.\<close>

definition trunc_div :: "int \<Rightarrow> int \<Rightarrow> int" where
  "trunc_div a b = sgn a * sgn b * (\<bar>a\<bar> div \<bar>b\<bar>)"

definition nanosecond :: duration where "nanosecond = 1"
definition millisecond :: duration where "millisecond = 1000000"
definition second :: duration where "second = 1000000000"
definition minute :: duration where "minute = 60 * 1000000000"
definition hour :: duration where "hour = 3600 * 1000000000"

lemmas duration_units = nanosecond_def millisecond_def second_def minute_def hour_def

definition milliseconds :: "duration \<Rightarrow> int" where
  "milliseconds d = trunc_div d millisecond"

lemma trunc_div_nonneg: "0 \<le> a \<Longrightarrow> 0 < b \<Longrightarrow> trunc_div a b = a div b"
  by (cases "a = 0") (auto simp: trunc_div_def)

lemma milliseconds_nonneg [intro]: "0 \<le> d \<Longrightarrow> 0 \<le> milliseconds d"
  by (simp add: milliseconds_def trunc_div_nonneg millisecond_def pos_imp_zdiv_nonneg_iff)

lemma milliseconds_0 [simp]: "milliseconds 0 = 0"
  by (simp add: milliseconds_def trunc_div_def)

text \<open>A 64-bit machine integer wraps around; \<open>time.Time.Sub\<close> saturates instead.\<close>

definition wrap64 :: "int \<Rightarrow> int" where
  "wrap64 i = (i + 2 ^ 63) mod 2 ^ 64 - 2 ^ 63"

definition time_Sub :: "instant \<Rightarrow> instant \<Rightarrow> duration" where
  "time_Sub a b = max (- (2 ^ 63)) (min (2 ^ 63 - 1) (a - b))"

lemma wrap64_id: "- (2 ^ 63) \<le> i \<Longrightarrow> i < 2 ^ 63 \<Longrightarrow> wrap64 i = i"
  by (simp add: wrap64_def)

lemma wrap64_range: "- (2 ^ 63) \<le> wrap64 i \<and> wrap64 i < 2 ^ 63"
  by (simp add: wrap64_def)

subsection \<open>Strings\<close>

definition is_space :: "char \<Rightarrow> bool" where
  "is_space c \<longleftrightarrow> c \<in> set [CHR '' '', CHR 0x09, CHR 0x0A, CHR 0x0B, CHR 0x0C, CHR 0x0D]"

definition TrimSpace :: "string \<Rightarrow> string" where
  "TrimSpace s = rev (dropWhile is_space (rev (dropWhile is_space s)))"

definition lower_char :: "char \<Rightarrow> char" where
  "lower_char c = (let n = (of_char c :: nat) in if 65 \<le> n \<and> n \<le> 90 then char_of (n + 32) else c)"

definition ToLower :: "string \<Rightarrow> string" where
  "ToLower s = map lower_char s"

abbreviation HasPrefix :: "string \<Rightarrow> string \<Rightarrow> bool" where
  "HasPrefix s p \<equiv> prefix p s"

abbreviation HasSuffix :: "string \<Rightarrow> string \<Rightarrow> bool" where
  "HasSuffix s p \<equiv> suffix p s"

definition Contains :: "string \<Rightarrow> string \<Rightarrow> bool" where
  "Contains s p \<longleftrightarrow> sublist p s"

definition TrimPrefix :: "string \<Rightarrow> string \<Rightarrow> string" where
  "TrimPrefix s p = (if prefix p s then drop (length p) s else s)"

definition TrimSuffix :: "string \<Rightarrow> string \<Rightarrow> string" where
  "TrimSuffix s p = (if suffix p s then take (length s - length p) s else s)"

text \<open>\<open>strings.Split\<close> on a one-byte separator.\<close>

fun split_on :: "char \<Rightarrow> string \<Rightarrow> string list" where
  "split_on c [] = [[]]"
| "split_on c (x # xs) =
     (if x = c then [] # split_on c xs
      else (case split_on c xs of [] \<Rightarrow> [[x]] | w # ws \<Rightarrow> (x # w) # ws))"

text \<open>\<open>strings.Fields\<close>: the maximal runs of non-space characters.\<close>

fun fields_from :: "string \<Rightarrow> string \<Rightarrow> string list" where
  "fields_from w [] = (if w = [] then [] else [w])"
| "fields_from w (x # xs) =
     (if is_space x then (if w = [] then fields_from [] xs else w # fields_from [] xs)
      else fields_from (w @ [x]) xs)"

definition Fields :: "string \<Rightarrow> string list" where
  "Fields s = fields_from [] s"

text \<open>\<open>strings.Join\<close>.\<close>

fun Join :: "string list \<Rightarrow> string \<Rightarrow> string" where
  "Join [] sep = []"
| "Join [x] sep = x"
| "Join (x # y # xs) sep = x @ sep @ Join (y # xs) sep"

text \<open>\<open>strings.Index\<close>: where a substring first occurs.\<close>

fun str_index :: "string \<Rightarrow> string \<Rightarrow> nat option" where
  "str_index [] p = (if p = [] then Some 0 else None)"
| "str_index (c # s) p = (if prefix p (c # s) then Some 0 else map_option Suc (str_index s p))"

lemma str_index_first:
  assumes "c \<notin> set xs"
  shows "str_index (xs @ c # ys) (c # p) = (if prefix p ys then Some (length xs)
     else map_option (\<lambda>n. Suc (length xs + n)) (str_index ys (c # p)))"
  using assms by (induction xs) (auto simp: option.map_comp o_def)

text \<open>A word between single quotes, as the error messages have it.\<close>

definition quoted :: "string \<Rightarrow> string" where
  "quoted s = [CHR 0x27] @ s @ [CHR 0x27]"

text \<open>\<open>fmt\<close>'s \<open>%q\<close> on printable characters and the common escapes.\<close>

definition go_quote :: "string \<Rightarrow> string" where
  "go_quote s = [CHR 0x22] @ concat (map (\<lambda>ch.
       if ch = CHR 0x22 then [CHR 0x5C, CHR 0x22]
       else if ch = CHR 0x5C then [CHR 0x5C, CHR 0x5C]
       else if ch = CHR 0x0A then [CHR 0x5C, CHR ''n'']
       else if ch = CHR 0x09 then [CHR 0x5C, CHR ''t'']
       else if ch = CHR 0x0D then [CHR 0x5C, CHR ''r'']
       else [ch]) s) @ [CHR 0x22]"

lemma split_on_nonempty [simp]: "split_on c s \<noteq> []"
  by (induction s) (auto split: list.splits)

lemma Contains_append [simp]: "Contains (xs @ p @ ys) p"
  by (auto simp: Contains_def sublist_def)

lemma Contains_mid: "Contains (p @ ys) p"
  using Contains_append [of "[]" p ys] by simp

lemma lower_char_idem [simp]: "lower_char (lower_char c) = lower_char c"
  by (auto simp: lower_char_def Let_def)

lemma ToLower_idem [simp]: "ToLower (ToLower s) = ToLower s"
  by (simp add: ToLower_def)

lemma dropWhile_idem_rev:
  "dropWhile P (rev (dropWhile P (rev (dropWhile P s)))) = rev (dropWhile P (rev (dropWhile P s)))"
proof (cases "dropWhile P (rev (dropWhile P s)) = []")
  case True
  show ?thesis by (simp only: True rev.simps dropWhile.simps)
next
  case False
  let ?u = "dropWhile P s"
  have ne: "?u \<noteq> []" using False by (metis dropWhile.simps(1) rev.simps(1))
  have h: "\<not> P (hd ?u)" using ne by (rule hd_dropWhile)
  have "\<exists>v. rev ?u = v @ dropWhile P (rev ?u)"
    by (metis takeWhile_dropWhile_id)
  then obtain v where "rev ?u = v @ dropWhile P (rev ?u)" ..
  then have "?u = rev (dropWhile P (rev ?u)) @ rev v"
    by (metis rev_append rev_rev_ident)
  then have "hd (rev (dropWhile P (rev ?u))) = hd ?u"
    using False by (metis hd_append2 rev_is_Nil_conv)
  with h False show ?thesis
    by (metis dropWhile_eq_self_iff)
qed

lemma TrimSpace_idem [simp]: "TrimSpace (TrimSpace s) = TrimSpace s"
  by (simp add: TrimSpace_def dropWhile_idem_rev dropWhile_idem)

lemma char_eq_code: "c = d \<longleftrightarrow> (of_char c :: nat) = of_char d"
  by simp

lemma is_space_code: "is_space c \<longleftrightarrow> (of_char c :: nat) \<in> {9, 10, 11, 12, 13, 32}"
  unfolding is_space_def by (simp add: char_eq_code) auto

lemma lower_char_space [simp]: "is_space (lower_char c) = is_space c"
  by (simp add: is_space_code lower_char_def Let_def)

lemma dropWhile_lower: "dropWhile is_space (map lower_char s) = map lower_char (dropWhile is_space s)"
  by (simp add: dropWhile_map o_def)

lemma TrimSpace_ToLower: "TrimSpace (ToLower s) = ToLower (TrimSpace s)"
  by (simp add: TrimSpace_def ToLower_def dropWhile_lower rev_map)

lemma ToLower_TrimSpace_idem: "ToLower (TrimSpace (ToLower (TrimSpace s))) = ToLower (TrimSpace s)"
  by (simp add: TrimSpace_ToLower)

subsection \<open>Decimal numbers: \<open>fmt\<close>'s \<open>%d\<close> and \<open>strconv.Atoi\<close>\<close>

definition digit :: "nat \<Rightarrow> char" where
  "digit d = char_of (48 + d)"

fun show_nat :: "nat \<Rightarrow> string" where
  "show_nat n = (if n < 10 then [digit n] else show_nat (n div 10) @ [digit (n mod 10)])"

declare show_nat.simps [simp del]

definition show_int :: "int \<Rightarrow> string" where
  "show_int i = (if i < 0 then ''-'' @ show_nat (nat (- i)) else show_nat (nat i))"

definition is_digit :: "char \<Rightarrow> bool" where
  "is_digit c \<longleftrightarrow> 48 \<le> (of_char c :: nat) \<and> (of_char c :: nat) \<le> 57"

definition digit_val :: "char \<Rightarrow> nat" where
  "digit_val c = of_char c - 48"

fun read_digits :: "nat \<Rightarrow> string \<Rightarrow> nat option" where
  "read_digits acc [] = Some acc"
| "read_digits acc (c # cs) = (if is_digit c then read_digits (10 * acc + digit_val c) cs else None)"

definition read_nat :: "string \<Rightarrow> nat option" where
  "read_nat s = (if s = [] then None else read_digits 0 s)"

definition in_int64 :: "int \<Rightarrow> bool" where
  "in_int64 i \<longleftrightarrow> - (2 ^ 63) \<le> i \<and> i < 2 ^ 63"

definition Atoi :: "string \<Rightarrow> int option" where
  "Atoi s =
     (let r = (case s of
                 [] \<Rightarrow> None
               | c # cs \<Rightarrow> if c = CHR ''-'' then map_option (\<lambda>n. - int n) (read_nat cs)
                           else if c = CHR ''+'' then map_option int (read_nat cs)
                           else map_option int (read_nat s))
      in case r of None \<Rightarrow> None | Some i \<Rightarrow> if in_int64 i then Some i else None)"

lemma digit_facts:
  assumes "d < 10"
  shows "is_digit (digit d)" and "digit_val (digit d) = d"
  using assms by (simp_all add: is_digit_def digit_def digit_val_def)

lemma read_digits_append:
  "read_digits acc (xs @ ys) =
     (case read_digits acc xs of None \<Rightarrow> None | Some a \<Rightarrow> read_digits a ys)"
  by (induction xs arbitrary: acc) auto

lemma read_digits_show_nat: "read_digits acc (show_nat n) = Some (acc * 10 ^ length (show_nat n) + n)"
proof (induction n arbitrary: acc rule: show_nat.induct)
  case (1 n)
  show ?case
  proof (cases "n < 10")
    case True
    then show ?thesis by (simp add: show_nat.simps [of n] digit_facts)
  next
    case False
    with "1.IH" have "read_digits acc (show_nat (n div 10)) =
        Some (acc * 10 ^ length (show_nat (n div 10)) + n div 10)" by simp
    with False show ?thesis
      by (simp add: show_nat.simps [of n] read_digits_append digit_facts algebra_simps)
  qed
qed

lemma show_nat_nonempty [simp]: "show_nat n \<noteq> []"
  by (subst show_nat.simps) simp

lemma show_nat_digits: "c \<in> set (show_nat n) \<Longrightarrow> is_digit c"
proof (induction n rule: show_nat.induct)
  case (1 n)
  then show ?case
    by (cases "n < 10") (auto simp: show_nat.simps [of n] digit_facts)
qed

lemma read_nat_show_nat [simp]: "read_nat (show_nat n) = Some n"
  by (simp add: read_nat_def read_digits_show_nat)

lemma digit_not_sign: "is_digit c \<Longrightarrow> c \<noteq> CHR ''-'' \<and> c \<noteq> CHR ''+''"
  by (auto simp: is_digit_def)

lemma Atoi_show_int:
  assumes "in_int64 i"
  shows "Atoi (show_int i) = Some i"
proof (cases "i < 0")
  case True
  with assms show ?thesis by (simp add: Atoi_def show_int_def)
next
  case False
  obtain c cs where s: "show_nat (nat i) = c # cs"
    by (cases "show_nat (nat i)") auto
  then have "is_digit c"
    by (metis show_nat_digits list.set_intros(1))
  then have "c \<noteq> CHR ''-''" and "c \<noteq> CHR ''+''"
    by (simp_all add: digit_not_sign)
  moreover have "read_nat (c # cs) = Some (nat i)"
    using s read_nat_show_nat by metis
  ultimately show ?thesis
    using False assms s by (simp add: Atoi_def show_int_def)
qed

subsection \<open>Descending keys\<close>

text \<open>
  \<open>sort.SliceStable\<close> with a lexicographic comparison is a stable sort by a key. A
  component that is compared with \<open>>\<close> is wrapped in \<open>Desc\<close>, whose order is reversed.
\<close>

datatype 'a desc = Desc (undesc: 'a)

instantiation desc :: (linorder) linorder
begin

definition less_eq_desc :: "'a desc \<Rightarrow> 'a desc \<Rightarrow> bool" where
  "less_eq_desc a b \<longleftrightarrow> undesc b \<le> undesc a"

definition less_desc :: "'a desc \<Rightarrow> 'a desc \<Rightarrow> bool" where
  "less_desc a b \<longleftrightarrow> undesc b < undesc a"

instance
  by standard (auto simp: less_eq_desc_def less_desc_def intro: desc.expand)

end

lemma Desc_le [simp]: "Desc a \<le> Desc b \<longleftrightarrow> b \<le> a"
  by (simp add: less_eq_desc_def)

lemma Desc_less [simp]: "Desc a < Desc b \<longleftrightarrow> b < a"
  by (simp add: less_desc_def)

subsection \<open>Errors and replies\<close>

text \<open>
  A Go \<open>error\<close> is its message and the sentinel it wraps, which \<open>errors.Is\<close> looks for.
\<close>

datatype sentinel = ErrTerminalStatusConflict | ErrExecutionNotFound | ErrAlreadyTerminal

record goerr =
  err_msg :: string
  err_is :: "sentinel option"

definition Errorf :: "string \<Rightarrow> goerr" where
  "Errorf m = \<lparr>err_msg = m, err_is = None\<rparr>"

definition wrapErr :: "string \<Rightarrow> goerr \<Rightarrow> goerr" where
  "wrapErr m e = e\<lparr>err_msg := m @ err_msg e\<rparr>"

lemma Errorf_sel [simp]: "err_msg (Errorf m) = m" "err_is (Errorf m) = None"
  by (simp_all add: Errorf_def)

lemma wrapErr_sel [simp]: "err_msg (wrapErr m e) = m @ err_msg e" "err_is (wrapErr m e) = err_is e"
  by (simp_all add: wrapErr_def)

text \<open>
  The JSON object a handler writes. An instant that the code renders with
  \<open>Format(time.RFC3339)\<close> stays an instant, and a stored payload that it decodes stays the
  text (\<open>JRaw\<close>).
\<close>

datatype json = JNull | JBool bool | JInt int | JStr string | JTime instant | JRaw string
  | JArr "json list" | JObj "(string \<times> json) list"

record reply =
  code :: nat
  body :: "(string \<times> json) list"

definition JSONreply :: "nat \<Rightarrow> (string \<times> json) list \<Rightarrow> reply" where
  "JSONreply c b = \<lparr>code = c, body = b\<rparr>"

lemma JSONreply_sel [simp]: "code (JSONreply c b) = c" "body (JSONreply c b) = b"
  by (simp_all add: JSONreply_def)

definition json_opt :: "string option \<Rightarrow> json" where
  "json_opt s = (case s of None \<Rightarrow> JNull | Some x \<Rightarrow> JStr x)"

text \<open>A Go map literal with later assignments: the last assignment to a key wins.\<close>

fun set_field :: "string \<Rightarrow> json \<Rightarrow> (string \<times> json) list \<Rightarrow> (string \<times> json) list" where
  "set_field k v [] = [(k, v)]"
| "set_field k v ((k', v') # m) = (if k' = k then (k, v) # m else (k', v') # set_field k v m)"

lemma map_of_set_field [simp]: "map_of (set_field k v m) = (map_of m)(k \<mapsto> v)"
  by (induction k v m rule: set_field.induct) auto

subsection \<open>Refinement\<close>

text \<open>
  A component and the abstract machine it implements: both answer an operation and move to a new
  state, and a relation between their states is kept. A run of permitted operations then gives
  the same answers.
\<close>

fun run_machine :: "('op \<Rightarrow> 's \<Rightarrow> 'o \<times> 's) \<Rightarrow> 'op list \<Rightarrow> 's \<Rightarrow> 'o list \<times> 's" where
  "run_machine step [] s = ([], s)"
| "run_machine step (op # ops) s =
     (case step op s of (out, s1) \<Rightarrow> (case run_machine step ops s1 of (outs, s2) \<Rightarrow> (out # outs, s2)))"

locale refinement =
  fixes impl :: "'op \<Rightarrow> 'c \<Rightarrow> 'o \<times> 'c"
    and spec :: "'op \<Rightarrow> 'a \<Rightarrow> 'o \<times> 'a"
    and R :: "'c \<Rightarrow> 'a \<Rightarrow> bool"
    and permitted :: "'op \<Rightarrow> bool"
  assumes simulates: "R c a \<Longrightarrow> permitted op \<Longrightarrow>
    fst (impl op c) = fst (spec op a) \<and> R (snd (impl op c)) (snd (spec op a))"
begin

lemma runs_refine:
  "R c a \<Longrightarrow> list_all permitted ops \<Longrightarrow>
     fst (run_machine impl ops c) = fst (run_machine spec ops a)
     \<and> R (snd (run_machine impl ops c)) (snd (run_machine spec ops a))"
proof (induction ops arbitrary: c a)
  case (Cons op ops)
  obtain o1 c1 where c: "impl op c = (o1, c1)" by fastforce
  obtain o2 a1 where a: "spec op a = (o2, a1)" by fastforce
  from simulates [OF Cons.prems(1), of op] Cons.prems(2) c a have "o1 = o2" "R c1 a1" by simp_all
  with Cons.IH [of c1 a1] Cons.prems(2) c a show ?case
    by (cases "run_machine impl ops c1"; cases "run_machine spec ops a1") simp
qed simp

end

end
