(* ===== verification/Access_Policy.thy ===== *)
theory Access_Policy
  imports Prelude Complex_Main "HOL-Library.Multiset"
begin

text \<open>
  Tag-based access policies (\<open>internal/services/access_policy_service.go\<close>,
  \<open>internal/services/tag_normalization.go\<close>, the \<open>access_policies\<close> table of
  \<open>internal/storage/local_events.go\<close> and the admin handlers of
  \<open>internal/handlers/admin/access_policies.go\<close>): the evaluation of a cross-agent call, the
  in-memory cache of the enabled policies, and the operations that change the table and reload
  the cache.

  A Go map that the code ranges over is the list of its entries in the order of the iteration;
  a theorem that holds for every list holds for every order. A number of a JSON document is a
  finite \<open>float64\<close>, that is a rational number; how \<open>%v\<close> prints one is the parameter
  \<open>num\<close>.
\<close>

subsection \<open>Values and constraints\<close>

datatype jvalue = VNull | VBool bool | VNum rat | VStr string
  | VArr "jvalue list" | VObj "(string \<times> jvalue) list"

text \<open>\<open>fmt\<close>'s \<open>%v\<close>; the entries of an object are those \<open>fmt\<close> prints, in its order.\<close>

fun fmt_v :: "(rat \<Rightarrow> string) \<Rightarrow> jvalue \<Rightarrow> string"
  and fmt_vs :: "(rat \<Rightarrow> string) \<Rightarrow> jvalue list \<Rightarrow> string list"
  and fmt_kvs :: "(rat \<Rightarrow> string) \<Rightarrow> (string \<times> jvalue) list \<Rightarrow> string list" where
  "fmt_v num VNull = ''<nil>''"
| "fmt_v num (VBool b) = (if b then ''true'' else ''false'')"
| "fmt_v num (VNum r) = num r"
| "fmt_v num (VStr s) = s"
| "fmt_v num (VArr vs) = ''['' @ Join (fmt_vs num vs) '' '' @ '']''"
| "fmt_v num (VObj kvs) = ''map['' @ Join (fmt_kvs num kvs) '' '' @ '']''"
| "fmt_vs num [] = []"
| "fmt_vs num (v # vs) = fmt_v num v # fmt_vs num vs"
| "fmt_kvs num [] = []"
| "fmt_kvs num ((k, v) # kvs) = (k @ '':'' @ fmt_v num v) # fmt_kvs num kvs"

record AccessConstraint =
  con_Operator :: string
  con_Value :: jvalue

fun toFloat64 :: "jvalue \<Rightarrow> rat option" where
  "toFloat64 (VNum r) = Some r"
| "toFloat64 _ = None"

definition compare_numbers :: "string \<Rightarrow> rat \<Rightarrow> rat \<Rightarrow> bool option" where
  "compare_numbers op p c =
     (if op = ''<='' then Some (p \<le> c)
      else if op = ''>='' then Some (c \<le> p)
      else if op = ''<'' then Some (p < c)
      else if op = ''>'' then Some (c < p)
      else if op = ''=='' then Some (p = c)
      else if op = ''!='' then Some (p \<noteq> c)
      else None)"

definition compare_texts :: "string \<Rightarrow> string \<Rightarrow> string \<Rightarrow> bool" where
  "compare_texts op p c =
     (if op = ''=='' then p = c
      else if op = ''!='' then p \<noteq> c
      else False)"

definition evaluateConstraint :: "(rat \<Rightarrow> string) \<Rightarrow> jvalue \<Rightarrow> AccessConstraint \<Rightarrow> bool" where
  "evaluateConstraint num paramValue c =
     (let textual = compare_texts (con_Operator c) (fmt_v num paramValue) (fmt_v num (con_Value c))
      in case (toFloat64 paramValue, toFloat64 (con_Value c)) of
           (Some p, Some v) \<Rightarrow>
             (case compare_numbers (con_Operator c) p v of Some b \<Rightarrow> b | None \<Rightarrow> textual)
         | _ \<Rightarrow> textual)"

text \<open>The first violation met, or the empty string.\<close>

fun evaluateConstraints ::
  "(rat \<Rightarrow> string) \<Rightarrow> (string \<times> AccessConstraint) list \<Rightarrow> (string \<Rightarrow> jvalue option) \<Rightarrow> string" where
  "evaluateConstraints num [] params = []"
| "evaluateConstraints num ((paramName, c) # cs) params =
     (case params paramName of
        None \<Rightarrow> ''Constraint violation: parameter '' @ go_quote paramName @ '' not found in input''
      | Some paramValue \<Rightarrow>
          if \<not> evaluateConstraint num paramValue c
          then ''Constraint violation: '' @ paramName @ '' '' @ con_Operator c @ '' ''
                 @ fmt_v num (con_Value c) @ '' (actual: '' @ fmt_v num paramValue @ '')''
          else evaluateConstraints num cs params)"

subsection \<open>Tags and patterns\<close>

definition normalizeTag :: "string \<Rightarrow> string" where
  "normalizeTag tag = ToLower (TrimSpace tag)"

definition normalizeTags :: "string list \<Rightarrow> string list" where
  "normalizeTags tags = filter (\<lambda>t. t \<noteq> []) (map normalizeTag tags)"

definition matchesPattern :: "string \<Rightarrow> string \<Rightarrow> bool" where
  "matchesPattern pat v =
     (if pat = v then True
      else if pat = ''*'' then True
      else if HasSuffix pat ''*'' then HasPrefix v (TrimSuffix pat ''*'')
      else if HasPrefix pat ''*'' then HasSuffix v (TrimPrefix pat ''*'')
      else False)"

definition tagsIntersect :: "string list \<Rightarrow> string list \<Rightarrow> bool" where
  "tagsIntersect policyTags agentTags =
     (if policyTags = [] then True
      else list_ex (\<lambda>pt. list_ex (\<lambda>t. matchesPattern (normalizeTag pt) t) agentTags) policyTags)"

definition functionMatchesAny :: "string \<Rightarrow> string list \<Rightarrow> bool" where
  "functionMatchesAny functionName patterns =
     list_ex (\<lambda>p. matchesPattern (ToLower (TrimSpace p)) (ToLower (TrimSpace functionName))) patterns"

text \<open>
  The parts of an agent that carry tags. A reasoner, a skill and a session have their own and
  the approved tags; \<open>ag_CustomSessions\<close> are the sessions decoded from
  \<open>metadata.custom.sessions\<close>, if there are any to decode.
\<close>

record tagged =
  tg_Tags :: "string list"
  tg_ApprovedTags :: "string list"

record TaggedAgent =
  ag_ID :: string
  ag_PendingApproval :: bool
  ag_Reasoners :: "tagged list"
  ag_Skills :: "tagged list"
  ag_Sessions :: "tagged list"
  ag_CustomSessions :: "tagged list option"
  ag_ApprovedTags :: "string list"

definition HydrateAgentSessions :: "TaggedAgent \<Rightarrow> TaggedAgent" where
  "HydrateAgentSessions agent =
     (if ag_Sessions agent \<noteq> [] then agent
      else case ag_CustomSessions agent of
             None \<Rightarrow> agent
           | Some sessions \<Rightarrow> agent\<lparr>ag_Sessions := sessions\<rparr>)"

definition sourceTags :: "tagged \<Rightarrow> string list" where
  "sourceTags d = (if tg_ApprovedTags d \<noteq> [] then tg_ApprovedTags d else tg_Tags d)"

definition add_tag :: "string \<Rightarrow> string list \<Rightarrow> string list" where
  "add_tag tag tags =
     (let normalized = normalizeTag tag
      in if normalized = [] then tags
         else if normalized \<in> set tags then tags
         else tags @ [normalized])"

definition CanonicalAgentTags :: "TaggedAgent \<Rightarrow> string list" where
  "CanonicalAgentTags agent =
     (let a = HydrateAgentSessions agent
      in fold add_tag
           (concat (map sourceTags (ag_Reasoners a)) @ concat (map sourceTags (ag_Skills a))
            @ concat (map sourceTags (ag_Sessions a)) @ ag_ApprovedTags a) [])"

subsection \<open>Policies and their evaluation\<close>

record AccessPolicy =
  pol_ID :: int
  pol_Name :: string
  pol_CallerTags :: "string list"
  pol_TargetTags :: "string list"
  pol_AllowFunctions :: "string list"
  pol_DenyFunctions :: "string list"
  pol_Constraints :: "(string \<times> AccessConstraint) list"
  pol_Action :: string
  pol_Priority :: int
  pol_Enabled :: bool
  pol_Description :: "string option"
  pol_CreatedAt :: instant
  pol_UpdatedAt :: instant

record PolicyEvaluationResult =
  per_Allowed :: bool
  per_Matched :: bool
  per_PolicyName :: string
  per_PolicyID :: int
  per_Reason :: string

definition policy_result :: "AccessPolicy \<Rightarrow> bool \<Rightarrow> string \<Rightarrow> PolicyEvaluationResult" where
  "policy_result p allowed reason =
     \<lparr>per_Allowed = allowed, per_Matched = True, per_PolicyName = pol_Name p,
      per_PolicyID = pol_ID p, per_Reason = reason\<rparr>"

definition no_policy :: PolicyEvaluationResult where
  "no_policy = \<lparr>per_Allowed = False, per_Matched = False, per_PolicyName = [], per_PolicyID = 0,
     per_Reason = ''No access policy matched''\<rparr>"

text \<open>The loop over the cached policies; the tags are already normalised.\<close>

fun evaluate_policies ::
  "(rat \<Rightarrow> string) \<Rightarrow> string list \<Rightarrow> string list \<Rightarrow> string \<Rightarrow> (string \<Rightarrow> jvalue option) option
     \<Rightarrow> AccessPolicy list \<Rightarrow> PolicyEvaluationResult" where
  "evaluate_policies num callerTags targetTags functionName inputParams [] = no_policy"
| "evaluate_policies num callerTags targetTags functionName inputParams (p # ps) =
     (let next = evaluate_policies num callerTags targetTags functionName inputParams ps
      in if \<not> pol_Enabled p then next
         else if \<not> tagsIntersect (pol_CallerTags p) callerTags then next
         else if \<not> tagsIntersect (pol_TargetTags p) targetTags then next
         else if pol_DenyFunctions p \<noteq> [] \<and> functionName \<noteq> []
              \<and> functionMatchesAny functionName (pol_DenyFunctions p)
         then policy_result p False (''Function '' @ go_quote functionName
                @ '' is denied by policy '' @ go_quote (pol_Name p))
         else if pol_AllowFunctions p \<noteq> []
              \<and> (functionName = [] \<or> \<not> functionMatchesAny functionName (pol_AllowFunctions p))
         then next
         else let verdict =
                (let allowed = (ToLower (pol_Action p) = ''allow'')
                 in policy_result p allowed
                      (if \<not> allowed then ''Policy '' @ go_quote (pol_Name p) @ '' explicitly denies access''
                       else ''Policy '' @ go_quote (pol_Name p) @ '' matched: action='' @ pol_Action p))
              in if pol_Constraints p = [] then verdict
                 else case inputParams of
                        None \<Rightarrow> policy_result p False (''Policy '' @ go_quote (pol_Name p)
                          @ '' requires parameter constraints but no input parameters provided'')
                      | Some params \<Rightarrow>
                          let violation = evaluateConstraints num (pol_Constraints p) params
                          in if violation \<noteq> [] then policy_result p False violation else verdict)"

definition EvaluateAccess ::
  "(rat \<Rightarrow> string) \<Rightarrow> AccessPolicy list \<Rightarrow> string list \<Rightarrow> string list \<Rightarrow> string
     \<Rightarrow> (string \<Rightarrow> jvalue option) option \<Rightarrow> PolicyEvaluationResult" where
  "EvaluateAccess num policies callerTags targetTags functionName inputParams =
     evaluate_policies num (normalizeTags callerTags) (normalizeTags targetTags) functionName
       inputParams policies"

subsection \<open>The table and the service\<close>

definition policy_key :: "AccessPolicy \<Rightarrow> int desc \<times> int" where
  "policy_key p = (Desc (pol_Priority p), pol_ID p)"

text \<open>
  \<open>ps_rows\<close> is the table in insertion order and \<open>ps_next\<close> the next value of its
  autoincrement key; \<open>ps_cache\<close> is the service's list of policies.
\<close>

record policy_state =
  ps_rows :: "AccessPolicy list"
  ps_next :: int
  ps_cache :: "AccessPolicy list"

text \<open>The errors a failing database returns from the three storage calls of an operation.\<close>

record policy_faults =
  pf_read :: "string option"
  pf_write :: "string option"
  pf_load :: "string option"

definition no_faults :: policy_faults where
  "no_faults = \<lparr>pf_read = None, pf_write = None, pf_load = None\<rparr>"

definition GetAccessPolicies :: "AccessPolicy list \<Rightarrow> AccessPolicy list" where
  "GetAccessPolicies rows =
     sort_key (\<lambda>p. (Desc (pol_Priority p), Desc (pol_CreatedAt p))) (filter pol_Enabled rows)"

definition GetAccessPolicyByID ::
  "string option \<Rightarrow> AccessPolicy list \<Rightarrow> int \<Rightarrow> goerr + AccessPolicy" where
  "GetAccessPolicyByID fault rows k =
     (let not_found = (\<lambda>e. Inl (Errorf (''access policy with ID '' @ show_int k @ '' not found: '' @ e)))
      in case fault of
           Some e \<Rightarrow> not_found e
         | None \<Rightarrow>
             (case find (\<lambda>p. pol_ID p = k) rows of
                None \<Rightarrow> not_found ''sql: no rows in result set''
              | Some p \<Rightarrow> Inr p))"

definition CreateAccessPolicy ::
  "string option \<Rightarrow> AccessPolicy \<Rightarrow> policy_state \<Rightarrow> (goerr + AccessPolicy) \<times> policy_state" where
  "CreateAccessPolicy fault p st =
     (case fault of
        Some e \<Rightarrow> (Inl (Errorf (''failed to create access policy: '' @ e)), st)
      | None \<Rightarrow>
          if pol_Name p \<in> pol_Name ` set (ps_rows st)
          then (Inl (Errorf (''access policy with name '' @ go_quote (pol_Name p) @ '' already exists'')), st)
          else let p' = p\<lparr>pol_ID := ps_next st\<rparr>
               in (Inr p', st\<lparr>ps_rows := ps_rows st @ [p'], ps_next := ps_next st + 1\<rparr>))"

definition UpdateAccessPolicy ::
  "string option \<Rightarrow> AccessPolicy \<Rightarrow> policy_state \<Rightarrow> goerr option \<times> policy_state" where
  "UpdateAccessPolicy fault p st =
     (case fault of
        Some e \<Rightarrow> (Some (Errorf (''failed to update access policy: '' @ e)), st)
      | None \<Rightarrow>
          if pol_ID p \<notin> pol_ID ` set (ps_rows st)
          then (Some (Errorf (''access policy with ID '' @ show_int (pol_ID p) @ '' not found'')), st)
          else if \<exists>q \<in> set (ps_rows st). pol_Name q = pol_Name p \<and> pol_ID q \<noteq> pol_ID p
          then (Some (Errorf (''failed to update access policy: ''
                  @ ''UNIQUE constraint failed: access_policies.name'')), st)
          else (None, st\<lparr>ps_rows := map (\<lambda>q. if pol_ID q = pol_ID p
                  then p\<lparr>pol_CreatedAt := pol_CreatedAt q\<rparr> else q) (ps_rows st)\<rparr>))"

definition DeleteAccessPolicy ::
  "string option \<Rightarrow> int \<Rightarrow> policy_state \<Rightarrow> goerr option \<times> policy_state" where
  "DeleteAccessPolicy fault k st =
     (case fault of
        Some e \<Rightarrow> (Some (Errorf (''failed to delete access policy: '' @ e)), st)
      | None \<Rightarrow>
          if k \<notin> pol_ID ` set (ps_rows st)
          then (Some (Errorf (''access policy with ID '' @ show_int k @ '' not found'')), st)
          else (None, st\<lparr>ps_rows := filter (\<lambda>q. pol_ID q \<noteq> k) (ps_rows st)\<rparr>))"

text \<open>
  \<open>Initialize\<close> reads the table and sorts what it read; the lock is only taken to publish the
  result. The two halves are named apart because other requests run between them.
\<close>

definition load_policies :: "policy_state \<Rightarrow> AccessPolicy list" where
  "load_policies st = sort_key policy_key (GetAccessPolicies (ps_rows st))"

definition publish_policies :: "AccessPolicy list \<Rightarrow> policy_state \<Rightarrow> policy_state" where
  "publish_policies policies st = st\<lparr>ps_cache := policies\<rparr>"

definition Initialize :: "string option \<Rightarrow> policy_state \<Rightarrow> goerr option \<times> policy_state" where
  "Initialize load_err st =
     (case load_err of
        Some e \<Rightarrow> (Some (wrapErr ''failed to load access policies: ''
                     (Errorf (''failed to get access policies: '' @ e))), st)
      | None \<Rightarrow> (None, publish_policies (load_policies st) st))"

record AccessPolicyRequest =
  req_Name :: string
  req_CallerTags :: "string list"
  req_TargetTags :: "string list"
  req_AllowFunctions :: "string list"
  req_DenyFunctions :: "string list"
  req_Constraints :: "(string \<times> AccessConstraint) list"
  req_Action :: string
  req_Priority :: int
  req_Description :: string

definition validConstraintOperators :: "string list" where
  "validConstraintOperators = [''<='', ''>='', ''=='', ''!='', ''<'', ''>'']"

fun first_bad_operator :: "(string \<times> AccessConstraint) list \<Rightarrow> goerr option" where
  "first_bad_operator [] = None"
| "first_bad_operator ((paramName, c) # cs) =
     (if con_Operator c \<notin> set validConstraintOperators
      then Some (Errorf (''invalid constraint operator '' @ go_quote (con_Operator c)
             @ '' for parameter '' @ go_quote paramName @ '': must be one of <=, >=, ==, !=, <, >''))
      else first_bad_operator cs)"

text \<open>Validation also normalises the action of the request.\<close>

definition validatePolicyRequest :: "AccessPolicyRequest \<Rightarrow> goerr + AccessPolicyRequest" where
  "validatePolicyRequest req =
     (let action = ToLower (TrimSpace (req_Action req))
      in if action \<noteq> ''allow'' \<and> action \<noteq> ''deny''
         then Inl (Errorf (''invalid policy action '' @ go_quote (req_Action req)
                @ '': must be '' @ quoted ''allow'' @ '' or '' @ quoted ''deny''))
         else case first_bad_operator (req_Constraints req) of
                Some e \<Rightarrow> Inl e
              | None \<Rightarrow> Inr (req\<lparr>req_Action := action\<rparr>))"

definition new_policy :: "instant \<Rightarrow> AccessPolicyRequest \<Rightarrow> AccessPolicy" where
  "new_policy now req =
     \<lparr>pol_ID = 0, pol_Name = req_Name req, pol_CallerTags = req_CallerTags req,
      pol_TargetTags = req_TargetTags req, pol_AllowFunctions = req_AllowFunctions req,
      pol_DenyFunctions = req_DenyFunctions req, pol_Constraints = req_Constraints req,
      pol_Action = req_Action req, pol_Priority = req_Priority req, pol_Enabled = True,
      pol_Description = (if req_Description req \<noteq> [] then Some (req_Description req) else None),
      pol_CreatedAt = now, pol_UpdatedAt = now\<rparr>"

definition updated_policy :: "instant \<Rightarrow> AccessPolicyRequest \<Rightarrow> AccessPolicy \<Rightarrow> AccessPolicy" where
  "updated_policy now req p =
     p\<lparr>pol_Name := req_Name req, pol_CallerTags := req_CallerTags req,
       pol_TargetTags := req_TargetTags req, pol_AllowFunctions := req_AllowFunctions req,
       pol_DenyFunctions := req_DenyFunctions req, pol_Constraints := req_Constraints req,
       pol_Action := req_Action req, pol_Priority := req_Priority req, pol_UpdatedAt := now,
       pol_Description := (if req_Description req \<noteq> [] then Some (req_Description req)
                           else pol_Description p)\<rparr>"

text \<open>
  What an operation returns: the policy; an error; or both, when the table has changed and the
  cache could not be reloaded.
\<close>

datatype policy_outcome = Done AccessPolicy | Failed goerr | Stale AccessPolicy goerr

definition reload ::
  "string \<Rightarrow> AccessPolicy \<Rightarrow> policy_faults \<Rightarrow> policy_state \<Rightarrow> policy_outcome \<times> policy_state" where
  "reload what p fl st =
     (case Initialize (pf_load fl) st of
        (Some e, st') \<Rightarrow> (Stale p (wrapErr (what @ '' but cache reload failed: '') e), st')
      | (None, st') \<Rightarrow> (Done p, st'))"

definition AddPolicy ::
  "policy_faults \<Rightarrow> instant \<Rightarrow> AccessPolicyRequest \<Rightarrow> policy_state \<Rightarrow> policy_outcome \<times> policy_state" where
  "AddPolicy fl now req0 st =
     (case validatePolicyRequest req0 of
        Inl e \<Rightarrow> (Failed e, st)
      | Inr req \<Rightarrow>
          (case CreateAccessPolicy (pf_write fl) (new_policy now req) st of
             (Inl e, st1) \<Rightarrow> (Failed (wrapErr ''failed to create access policy: '' e), st1)
           | (Inr p, st1) \<Rightarrow> reload ''policy created'' p fl st1))"

definition UpdatePolicy ::
  "policy_faults \<Rightarrow> instant \<Rightarrow> int \<Rightarrow> AccessPolicyRequest \<Rightarrow> policy_state
     \<Rightarrow> policy_outcome \<times> policy_state" where
  "UpdatePolicy fl now k req0 st =
     (case validatePolicyRequest req0 of
        Inl e \<Rightarrow> (Failed e, st)
      | Inr req \<Rightarrow>
          (case GetAccessPolicyByID (pf_read fl) (ps_rows st) k of
             Inl e \<Rightarrow> (Failed (wrapErr ''access policy not found: '' e), st)
           | Inr p0 \<Rightarrow>
               (let p = updated_policy now req p0
                in case UpdateAccessPolicy (pf_write fl) p st of
                     (Some e, st1) \<Rightarrow> (Failed (wrapErr ''failed to update access policy: '' e), st1)
                   | (None, st1) \<Rightarrow> reload ''policy updated'' p fl st1)))"

definition RemovePolicy ::
  "policy_faults \<Rightarrow> int \<Rightarrow> policy_state \<Rightarrow> goerr option \<times> policy_state" where
  "RemovePolicy fl k st =
     (case DeleteAccessPolicy (pf_write fl) k st of
        (Some e, st1) \<Rightarrow> (Some (wrapErr ''failed to delete access policy: '' e), st1)
      | (None, st1) \<Rightarrow>
          (case Initialize (pf_load fl) st1 of
             (Some e, st2) \<Rightarrow> (Some (wrapErr ''policy deleted but cache reload failed: '' e), st2)
           | (None, st2) \<Rightarrow> (None, st2)))"

subsection \<open>The admin handlers\<close>

datatype policy_reply = PolicyError nat string string | PolicyOne nat AccessPolicy
  | PolicyList nat "AccessPolicy list" nat | PolicyDeleted nat


definition ListPolicies :: "policy_faults \<Rightarrow> policy_state \<Rightarrow> policy_reply" where
  "ListPolicies fl st =
     (if pf_read fl \<noteq> None then PolicyError 500 ''list_failed'' ''Failed to list access policies''
      else let policies = GetAccessPolicies (ps_rows st)
           in PolicyList 200 policies (length policies))"

definition CreatePolicy ::
  "policy_faults \<Rightarrow> instant \<Rightarrow> string + AccessPolicyRequest \<Rightarrow> policy_state
     \<Rightarrow> policy_reply \<times> policy_state" where
  "CreatePolicy fl now bound st =
     (case bound of
        Inl e \<Rightarrow> (PolicyError 400 ''invalid_request'' (''Invalid JSON: '' @ e), st)
      | Inr req \<Rightarrow>
          if req_Action req \<noteq> ''allow'' \<and> req_Action req \<noteq> ''deny''
          then (PolicyError 400 ''invalid_action''
                  (''Action must be '' @ quoted ''allow'' @ '' or '' @ quoted ''deny''), st)
          else case AddPolicy fl now req st of
                 (Failed e, st') \<Rightarrow> (PolicyError 500 ''create_failed''
                     (''Failed to create access policy: '' @ err_msg e), st')
               | (Stale _ e, st') \<Rightarrow> (PolicyError 500 ''create_failed''
                     (''Failed to create access policy: '' @ err_msg e), st')
               | (Done p, st') \<Rightarrow> (PolicyOne 201 p, st'))"

definition GetPolicy :: "policy_faults \<Rightarrow> string \<Rightarrow> policy_state \<Rightarrow> policy_reply" where
  "GetPolicy fl k st =
     (case Atoi k of
        None \<Rightarrow> PolicyError 400 ''invalid_id'' ''Policy ID must be a number''
      | Some n \<Rightarrow>
          (case GetAccessPolicyByID (pf_read fl) (ps_rows st) n of
             Inl _ \<Rightarrow> PolicyError 404 ''not_found'' ''Access policy not found''
           | Inr p \<Rightarrow> PolicyOne 200 p))"

definition UpdatePolicy_handler ::
  "policy_faults \<Rightarrow> instant \<Rightarrow> string \<Rightarrow> string + AccessPolicyRequest \<Rightarrow> policy_state
     \<Rightarrow> policy_reply \<times> policy_state" where
  "UpdatePolicy_handler fl now k bound st =
     (case Atoi k of
        None \<Rightarrow> (PolicyError 400 ''invalid_id'' ''Policy ID must be a number'', st)
      | Some n \<Rightarrow>
     (case bound of
        Inl e \<Rightarrow> (PolicyError 400 ''invalid_request'' (''Invalid JSON: '' @ e), st)
      | Inr req \<Rightarrow>
          if req_Action req \<noteq> ''allow'' \<and> req_Action req \<noteq> ''deny''
          then (PolicyError 400 ''invalid_action''
                  (''Action must be '' @ quoted ''allow'' @ '' or '' @ quoted ''deny''), st)
          else case UpdatePolicy fl now n req st of
                 (Failed e, st') \<Rightarrow> (PolicyError 500 ''update_failed''
                     (''Failed to update access policy: '' @ err_msg e), st')
               | (Stale _ e, st') \<Rightarrow> (PolicyError 500 ''update_failed''
                     (''Failed to update access policy: '' @ err_msg e), st')
               | (Done p, st') \<Rightarrow> (PolicyOne 200 p, st')))"

definition DeletePolicy :: "policy_faults \<Rightarrow> string \<Rightarrow> policy_state \<Rightarrow> policy_reply \<times> policy_state" where
  "DeletePolicy fl k st =
     (case Atoi k of
        None \<Rightarrow> (PolicyError 400 ''invalid_id'' ''Policy ID must be a number'', st)
      | Some n \<Rightarrow>
          (case RemovePolicy fl n st of
             (Some e, st') \<Rightarrow> (PolicyError 500 ''delete_failed''
                (''Failed to delete access policy: '' @ err_msg e), st')
           | (None, st') \<Rightarrow> (PolicyDeleted 200, st')))"

subsection \<open>Tags\<close>

lemma normalizeTag_idem [simp]: "normalizeTag (normalizeTag t) = normalizeTag t"
  by (simp add: normalizeTag_def ToLower_TrimSpace_idem)

lemma set_normalizeTags: "set (normalizeTags ts) = normalizeTag ` set ts - {[]}"
  by (auto simp: normalizeTags_def)

lemma normalizeTags_normalized:
  "(\<And>t. t \<in> set ts \<Longrightarrow> normalizeTag t = t \<and> t \<noteq> []) \<Longrightarrow> normalizeTags ts = ts"
  by (induction ts) (auto simp: normalizeTags_def)

text \<open>A star is a wildcard at the end of a pattern or, failing that, at its start.\<close>

lemma matchesPattern_iff:
  "matchesPattern pat v \<longleftrightarrow> pat = v \<or> (\<exists>q. pat = q @ ''*'' \<and> prefix q v)
     \<or> (\<exists>q. pat = ''*'' @ q \<and> \<not> suffix ''*'' pat \<and> suffix q v)"
proof -
  have "\<exists>q. pat = q @ ''*'' \<and> prefix q v" if "suffix ''*'' pat" "prefix (TrimSuffix pat ''*'') v"
    using that by (auto simp: TrimSuffix_def suffix_def)
  moreover have "\<exists>q. pat = ''*'' @ q \<and> suffix q v"
    if "prefix ''*'' pat" "suffix (TrimPrefix pat ''*'') v"
    using that by (auto simp: TrimPrefix_def prefix_def)
  ultimately show ?thesis
    by (auto simp: matchesPattern_def TrimSuffix_def TrimPrefix_def split: if_splits)
qed

lemma set_fold_add_tag: "set (fold add_tag ts acc) = set acc \<union> (normalizeTag ` set ts - {[]})"
proof (induction ts arbitrary: acc)
  case (Cons t ts)
  show ?case unfolding fold_simps comp_def Cons by (auto simp: add_tag_def Let_def)
qed simp

lemma distinct_fold_add_tag: "distinct acc \<Longrightarrow> distinct (fold add_tag ts acc)"
proof (induction ts arbitrary: acc)
  case (Cons t ts)
  then have "distinct (add_tag t acc)" by (simp add: add_tag_def Let_def)
  with Cons.IH show ?case by simp
qed simp

definition agent_sources :: "TaggedAgent \<Rightarrow> string list" where
  "agent_sources agent =
     (let defs = ag_Reasoners agent @ ag_Skills agent @ ag_Sessions (HydrateAgentSessions agent)
      in concat (map sourceTags defs) @ ag_ApprovedTags agent)"

lemma Hydrate_sel [simp]:
  "ag_Reasoners (HydrateAgentSessions a) = ag_Reasoners a"
  "ag_Skills (HydrateAgentSessions a) = ag_Skills a"
  "ag_ApprovedTags (HydrateAgentSessions a) = ag_ApprovedTags a"
  by (simp_all add: HydrateAgentSessions_def split: option.split)

lemma set_CanonicalAgentTags:
  "set (CanonicalAgentTags agent) = normalizeTag ` set (agent_sources agent) - {[]}"
  by (auto simp: CanonicalAgentTags_def agent_sources_def Let_def set_fold_add_tag)

lemma distinct_CanonicalAgentTags: "distinct (CanonicalAgentTags agent)"
  by (simp add: CanonicalAgentTags_def Let_def distinct_fold_add_tag)

lemma CanonicalAgentTags_normal: "normalizeTags (CanonicalAgentTags agent) = CanonicalAgentTags agent"
  by (rule normalizeTags_normalized) (auto simp: set_CanonicalAgentTags)

subsection \<open>What a policy says, declaratively\<close>

definition tag_match :: "string list \<Rightarrow> string list \<Rightarrow> bool" where
  "tag_match policyTags agentTags \<longleftrightarrow> policyTags = [] \<or>
     (\<exists>pt \<in> set policyTags. \<exists>t \<in> set agentTags.
        normalizeTag t \<noteq> [] \<and> matchesPattern (normalizeTag pt) (normalizeTag t))"

definition listed :: "string \<Rightarrow> string list \<Rightarrow> bool" where
  "listed f patterns \<longleftrightarrow> f \<noteq> [] \<and>
     (\<exists>p \<in> set patterns. matchesPattern (normalizeTag p) (normalizeTag f))"

definition decides :: "string list \<Rightarrow> string list \<Rightarrow> string \<Rightarrow> AccessPolicy \<Rightarrow> bool" where
  "decides callerTags targetTags f p \<longleftrightarrow> pol_Enabled p \<and> tag_match (pol_CallerTags p) callerTags
     \<and> tag_match (pol_TargetTags p) targetTags
     \<and> (listed f (pol_DenyFunctions p) \<or> pol_AllowFunctions p = [] \<or> listed f (pol_AllowFunctions p))"

definition constraints_hold ::
  "(rat \<Rightarrow> string) \<Rightarrow> (string \<times> AccessConstraint) list \<Rightarrow> (string \<Rightarrow> jvalue option) option \<Rightarrow> bool" where
  "constraints_hold num cs inputParams \<longleftrightarrow> cs = [] \<or>
     (case inputParams of None \<Rightarrow> False
      | Some params \<Rightarrow>
          (\<forall>(k, c) \<in> set cs. case params k of None \<Rightarrow> False | Some v \<Rightarrow> evaluateConstraint num v c))"

definition grants ::
  "(rat \<Rightarrow> string) \<Rightarrow> string \<Rightarrow> (string \<Rightarrow> jvalue option) option \<Rightarrow> AccessPolicy \<Rightarrow> bool" where
  "grants num f inputParams p \<longleftrightarrow> \<not> listed f (pol_DenyFunctions p)
     \<and> constraints_hold num (pol_Constraints p) inputParams \<and> ToLower (pol_Action p) = ''allow''"

lemma tagsIntersect_normalized: "tagsIntersect pts (normalizeTags ts) = tag_match pts ts"
  by (auto simp: tagsIntersect_def tag_match_def list_ex_iff set_normalizeTags)

lemma functionMatchesAny_listed: "f \<noteq> [] \<Longrightarrow> functionMatchesAny f ps = listed f ps"
  by (auto simp: functionMatchesAny_def listed_def list_ex_iff normalizeTag_def)

lemma functionMatchesAny_Nil [simp]: "functionMatchesAny f [] = False"
  by (simp add: functionMatchesAny_def)

lemma listed_Nil [simp]: "\<not> listed f []" "\<not> listed [] ps"
  by (simp_all add: listed_def)

lemma deny_check:
  "(ps \<noteq> [] \<and> f \<noteq> [] \<and> functionMatchesAny f ps) = listed f ps"
  by (cases "f = []"; cases "ps = []") (auto simp: functionMatchesAny_listed)

lemma allow_check:
  "(ps \<noteq> [] \<and> (f = [] \<or> \<not> functionMatchesAny f ps)) = (ps \<noteq> [] \<and> \<not> listed f ps)"
  by (cases "f = []") (auto simp: functionMatchesAny_listed)

lemma evaluateConstraints_ok:
  "(evaluateConstraints num cs params = []) =
     (\<forall>(k, c) \<in> set cs. case params k of None \<Rightarrow> False | Some v \<Rightarrow> evaluateConstraint num v c)"
  by (induction num cs params rule: evaluateConstraints.induct) (auto split: option.splits)

lemma constraint_check:
  assumes "cs \<noteq> []"
  shows "constraints_hold num cs inputParams = (case inputParams of None \<Rightarrow> False
     | Some params \<Rightarrow> evaluateConstraints num cs params = [])"
  using assms by (simp add: constraints_hold_def evaluateConstraints_ok split: option.split)

lemma policy_result_sel [simp]:
  "per_Allowed (policy_result p a r) = a" "per_Matched (policy_result p a r)"
  "per_PolicyName (policy_result p a r) = pol_Name p" "per_PolicyID (policy_result p a r) = pol_ID p"
  by (simp_all add: policy_result_def)

lemma no_policy_sel [simp]: "\<not> per_Matched no_policy" "\<not> per_Allowed no_policy"
  by (simp_all add: no_policy_def)

lemma EvaluateAccess_Nil [simp]: "EvaluateAccess num [] cts tts f ps = no_policy"
  by (simp add: EvaluateAccess_def)

lemma EvaluateAccess_skip:
  "\<not> decides cts tts f p \<Longrightarrow> EvaluateAccess num (p # ps) cts tts f params = EvaluateAccess num ps cts tts f params"
  unfolding EvaluateAccess_def evaluate_policies.simps Let_def tagsIntersect_normalized deny_check allow_check
  by (auto simp: decides_def)

lemma EvaluateAccess_hit:
  assumes "decides cts tts f p"
  shows "\<exists>reason. EvaluateAccess num (p # ps) cts tts f params = policy_result p (grants num f params p) reason"
proof (cases "listed f (pol_DenyFunctions p)")
  case True
  with assms show ?thesis
    unfolding EvaluateAccess_def evaluate_policies.simps Let_def tagsIntersect_normalized deny_check
    by (auto simp: decides_def grants_def)
next
  case no: False
  have allowed: "\<not> (pol_AllowFunctions p \<noteq> [] \<and> \<not> listed f (pol_AllowFunctions p))"
    using assms no by (auto simp: decides_def)
  have enabled: "pol_Enabled p" "tag_match (pol_CallerTags p) cts" "tag_match (pol_TargetTags p) tts"
    using assms by (simp_all add: decides_def)
  show ?thesis
  proof (cases "pol_Constraints p = []")
    case True
    then have "constraints_hold num (pol_Constraints p) params" by (simp add: constraints_hold_def)
    with True no allowed enabled show ?thesis
      unfolding EvaluateAccess_def evaluate_policies.simps Let_def tagsIntersect_normalized deny_check allow_check
      by (auto simp: grants_def)
  next
    case False
    with no allowed enabled show ?thesis
      unfolding EvaluateAccess_def evaluate_policies.simps Let_def tagsIntersect_normalized deny_check allow_check
      by (cases params) (auto simp: grants_def constraint_check)
  qed
qed

lemma EvaluateAccess_find:
  "case find (decides cts tts f) ps of
     None \<Rightarrow> EvaluateAccess num ps cts tts f params = no_policy
   | Some p \<Rightarrow> (\<exists>reason. EvaluateAccess num ps cts tts f params
       = policy_result p (grants num f params p) reason)"
proof (induction ps)
  case (Cons q qs)
  then show ?case
    by (cases "decides cts tts f q")
      (simp_all add: EvaluateAccess_hit EvaluateAccess_skip split: option.splits)
qed simp

subsection \<open>The cache\<close>

lemma sort_key_canonical:
  assumes "mset xs = mset ys" and "inj_on f (set xs)"
  shows "sort_key f xs = sort_key f ys"
proof (rule properties_for_sort_key)
  have m: "mset (sort_key f ys) = mset xs" using assms(1) by simp
  then show "mset (sort_key f ys) = mset xs" .
  have sets: "set (sort_key f ys) = set xs" using m by (metis set_mset_mset)
  show "filter (\<lambda>x. f k = f x) (sort_key f ys) = filter (\<lambda>x. f k = f x) xs"
    if k: "k \<in> set (sort_key f ys)" for k
  proof -
    have "filter (\<lambda>x. f k = f x) zs = filter (\<lambda>x. k = x) zs" if "set zs \<subseteq> set xs" for zs
      using that k sets assms(2) by (intro filter_cong) (auto dest: inj_onD)
    moreover have "filter (\<lambda>x. k = x) zs = replicate (count (mset zs) k) k" for zs
      by (induction zs) auto
    ultimately show ?thesis using m sets by (metis order_refl)
  qed
qed simp

lemma policy_key_inj: "distinct (map pol_ID ps) \<Longrightarrow> inj_on policy_key (set ps)"
  by (auto simp: policy_key_def distinct_map inj_on_def)

lemma set_load_policies: "set (load_policies st) = {p \<in> set (ps_rows st). pol_Enabled p}"
  by (auto simp: load_policies_def GetAccessPolicies_def)

lemma sorted_load_policies: "sorted (map policy_key (load_policies st))"
  by (simp add: load_policies_def)

lemma find_sorted_least:
  assumes "find P xs = Some x" "sorted (map f xs)"
  shows "x \<in> set xs \<and> P x \<and> (\<forall>y \<in> set xs. P y \<longrightarrow> f x \<le> f y)"
  using assms by (induction xs) (auto split: if_splits)

lemma policy_order_irrelevant:
  assumes "distinct (map pol_ID (ps_rows st))" and "mset (ps_rows st') = mset (ps_rows st)"
  shows "load_policies st' = load_policies st"
proof -
  let ?G = "GetAccessPolicies"
  have m: "mset (?G rows) = filter_mset pol_Enabled (mset rows)" for rows
    by (simp add: GetAccessPolicies_def)
  have "set (?G (ps_rows st)) \<subseteq> set (ps_rows st)" by (auto simp: GetAccessPolicies_def)
  then have "inj_on policy_key (set (?G (ps_rows st)))"
    using policy_key_inj [OF assms(1)] by (rule inj_on_subset [rotated])
  then have "sort_key policy_key (?G (ps_rows st)) = sort_key policy_key (?G (ps_rows st'))"
    by (intro sort_key_canonical) (simp_all add: m assms(2))
  then show ?thesis by (simp add: load_policies_def)
qed

text \<open>Evaluation over the loaded table: no policy decides, or the first one by key does.\<close>

lemma EvaluateAccess_loaded:
  assumes "r = EvaluateAccess num (load_policies st) cts tts f params"
  shows "r = no_policy \<and> (\<forall>p \<in> set (ps_rows st). \<not> decides cts tts f p)
    \<or> (\<exists>p \<in> set (ps_rows st). decides cts tts f p
         \<and> (\<forall>q \<in> set (ps_rows st). decides cts tts f q \<longrightarrow> policy_key p \<le> policy_key q)
         \<and> (\<exists>reason. r = policy_result p (grants num f params p) reason))"
proof -
  let ?D = "decides cts tts f" and ?L = "load_policies st"
  have cands: "p \<in> set ?L \<and> ?D p \<longleftrightarrow> p \<in> set (ps_rows st) \<and> ?D p" for p
    by (auto simp: set_load_policies decides_def)
  have found: "case find ?D ?L of None \<Rightarrow> r = no_policy
      | Some p \<Rightarrow> (\<exists>reason. r = policy_result p (grants num f params p) reason)"
    unfolding assms by (rule EvaluateAccess_find)
  show ?thesis
  proof (cases "find ?D ?L")
    case None
    then have "\<not> ?D p" if "p \<in> set (ps_rows st)" for p
      using that cands by (auto simp: find_None_iff)
    with None found show ?thesis by simp
  next
    case (Some p)
    from find_sorted_least [OF this sorted_load_policies] cands
    have "p \<in> set (ps_rows st)" "?D p" "\<forall>q \<in> set (ps_rows st). ?D q \<longrightarrow> policy_key p \<le> policy_key q"
      by blast+
    with Some found show ?thesis by auto
  qed
qed

text \<open>
  C9. Access decisions: over a table whose ids are distinct, evaluation finds a match exactly when
  some enabled policy decides the call; the verdict, the name and the id are those of the deciding
  policy with the highest priority (the smallest id among equals), which grants the call exactly
  when its deny list does not name the function, its constraints hold of the given parameters and
  its action is allow; no match is never an allow; and the order of the rows does not matter.
\<close>

theorem access_decision:
  assumes "distinct (map pol_ID (ps_rows st))"
    and "r = EvaluateAccess num (load_policies st) callerTags targetTags f inputParams"
  shows "(per_Matched r \<longleftrightarrow> (\<exists>p \<in> set (ps_rows st). decides callerTags targetTags f p))
    \<and> (per_Allowed r \<longrightarrow> per_Matched r)
    \<and> (\<forall>p \<in> set (ps_rows st). decides callerTags targetTags f p
         \<and> (\<forall>q \<in> set (ps_rows st). decides callerTags targetTags f q \<longrightarrow> policy_key p \<le> policy_key q)
         \<longrightarrow> per_Allowed r = grants num f inputParams p
           \<and> per_PolicyID r = pol_ID p \<and> per_PolicyName r = pol_Name p)
    \<and> (\<forall>st'. mset (ps_rows st') = mset (ps_rows st) \<longrightarrow>
         EvaluateAccess num (load_policies st') callerTags targetTags f inputParams = r)"
proof (intro conjI ballI allI impI)
  let ?D = "decides callerTags targetTags f"
  note cases = EvaluateAccess_loaded [OF assms(2)]
  show "per_Matched r \<longleftrightarrow> (\<exists>p \<in> set (ps_rows st). ?D p)" using cases by fastforce
  show "per_Matched r" if "per_Allowed r" using cases that by fastforce
  show "EvaluateAccess num (load_policies st') callerTags targetTags f inputParams = r"
    if "mset (ps_rows st') = mset (ps_rows st)" for st'
    by (simp add: assms(2) policy_order_irrelevant [OF assms(1) that])
  fix p assume p: "p \<in> set (ps_rows st)" "?D p \<and> (\<forall>q \<in> set (ps_rows st). ?D q \<longrightarrow> policy_key p \<le> policy_key q)"
  with cases obtain q reason where q: "q \<in> set (ps_rows st)" "policy_key q \<le> policy_key p" "?D q"
    and r: "r = policy_result q (grants num f inputParams q) reason" by blast
  with p have "policy_key q = policy_key p" by (meson order_antisym)
  with policy_key_inj [OF assms(1)] p(1) q(1) have "q = p" by (auto dest: inj_onD)
  with r show "per_Allowed r = grants num f inputParams p" "per_PolicyID r = pol_ID p"
    "per_PolicyName r = pol_Name p" by simp_all
qed

definition sample_policy :: "int \<Rightarrow> string \<Rightarrow> string \<Rightarrow> int \<Rightarrow> string list \<Rightarrow> AccessPolicy" where
  "sample_policy k name action prio denied =
     \<lparr>pol_ID = k, pol_Name = name, pol_CallerTags = [''Billing''], pol_TargetTags = [''vault*''],
      pol_AllowFunctions = [], pol_DenyFunctions = denied, pol_Constraints = [], pol_Action = action,
      pol_Priority = prio, pol_Enabled = True, pol_Description = None, pol_CreatedAt = k,
      pol_UpdatedAt = k\<rparr>"

definition sample_policies :: policy_state where
  "sample_policies = \<lparr>ps_rows = [sample_policy 1 ''open'' ''allow'' 5 [],
     sample_policy 2 ''guard'' ''allow'' 10 [''drop_*'']], ps_next = 3, ps_cache = []\<rparr>"

theorem access_decision_witness:
  "\<not> per_Allowed (EvaluateAccess (\<lambda>_. []) (load_policies sample_policies) ['' billing'']
       [''Vault-eu''] ''drop_table'' None)
   \<and> per_PolicyID (EvaluateAccess (\<lambda>_. []) (load_policies sample_policies) ['' billing'']
       [''Vault-eu''] ''drop_table'' None) = 2"
proof -
  let ?g = "sample_policy 2 ''guard'' ''allow'' 10 [''drop_*'']"
  have ids: "distinct (map pol_ID (ps_rows sample_policies))" by code_simp
  let ?D = "decides ['' billing''] [''Vault-eu''] ''drop_table''"
  have g: "?g \<in> set (ps_rows sample_policies)" by (simp add: sample_policies_def)
  have "?D ?g" by code_simp
  moreover have "\<forall>q \<in> set (ps_rows sample_policies). policy_key ?g \<le> policy_key q" by code_simp
  ultimately have first: "?D ?g \<and> (\<forall>q \<in> set (ps_rows sample_policies). ?D q \<longrightarrow> policy_key ?g \<le> policy_key q)"
    by simp
  have "\<not> grants (\<lambda>_. []) ''drop_table'' None ?g" and "pol_ID ?g = 2" by code_simp+
  then show ?thesis
    using access_decision [OF ids refl, THEN conjunct2, THEN conjunct2, THEN conjunct1,
        THEN bspec, OF g, THEN mp, OF first, of "\<lambda>_. []" None] by simp
qed

subsection \<open>The operations\<close>

definition policy_valid :: "AccessPolicy \<Rightarrow> bool" where
  "policy_valid p \<longleftrightarrow> pol_Action p \<in> {''allow'', ''deny''}
     \<and> (\<forall>(k, c) \<in> set (pol_Constraints p). con_Operator c \<in> set validConstraintOperators)"

definition table_ok :: "policy_state \<Rightarrow> bool" where
  "table_ok st \<longleftrightarrow> distinct (map pol_ID (ps_rows st)) \<and> distinct (map pol_Name (ps_rows st))
     \<and> (\<forall>p \<in> set (ps_rows st). policy_valid p \<and> pol_ID p < ps_next st)"

definition cache_ok :: "policy_state \<Rightarrow> bool" where
  "cache_ok st \<longleftrightarrow> sorted (map policy_key (ps_cache st)) \<and> distinct (map pol_ID (ps_cache st))
     \<and> (\<forall>p \<in> set (ps_cache st). policy_valid p \<and> pol_Enabled p)"

lemma first_bad_operator_None:
  "first_bad_operator cs = None \<longleftrightarrow> (\<forall>(k, c) \<in> set cs. con_Operator c \<in> set validConstraintOperators)"
  by (induction cs rule: first_bad_operator.induct) auto

lemma validated:
  assumes "validatePolicyRequest req0 = Inr req"
  shows "policy_valid (new_policy now req)" and "policy_valid (updated_policy now req p)"
  using assms by (auto simp: validatePolicyRequest_def Let_def policy_valid_def new_policy_def
      updated_policy_def first_bad_operator_None split: if_splits option.splits)

lemma create_table_ok:
  assumes "table_ok st" "policy_valid p" "CreateAccessPolicy fault p st = (r, st')"
  shows "table_ok st' \<and> ps_cache st' = ps_cache st \<and> (case r of Inl _ \<Rightarrow> st' = st
     | Inr p' \<Rightarrow> p' = p\<lparr>pol_ID := ps_next st\<rparr> \<and> ps_rows st' = ps_rows st @ [p'])"
proof -
  have v: "policy_valid (p\<lparr>pol_ID := k\<rparr>)" for k using assms(2) by (simp add: policy_valid_def)
  have lt: "pol_ID q < ps_next st" if "q \<in> set (ps_rows st)" for q
    using assms(1) that by (simp add: table_ok_def)
  then have "ps_next st \<notin> pol_ID ` set (ps_rows st)" by fastforce
  moreover have "pol_ID q < ps_next st + 1" if "q \<in> set (ps_rows st)" for q
    using lt [OF that] by simp
  ultimately show ?thesis
    using assms v unfolding CreateAccessPolicy_def Let_def
    by (auto simp: table_ok_def split: option.splits if_splits)
qed

lemma update_table_ok:
  assumes ok: "table_ok st" and v: "policy_valid p" and u: "UpdateAccessPolicy fault p st = (r, st')"
  shows "table_ok st' \<and> ps_cache st' = ps_cache st \<and> (r \<noteq> None \<longrightarrow> st' = st)"
proof (cases "r = None")
  case False
  with u ok show ?thesis by (auto simp: UpdateAccessPolicy_def split: option.splits if_splits)
next
  case True
  let ?g = "\<lambda>q. if pol_ID q = pol_ID p then p\<lparr>pol_CreatedAt := pol_CreatedAt q\<rparr> else q"
  let ?R = "ps_rows st"
  have st': "st' = st\<lparr>ps_rows := map ?g ?R\<rparr>"
    and fresh: "\<And>q. q \<in> set ?R \<Longrightarrow> pol_Name q = pol_Name p \<Longrightarrow> pol_ID q = pol_ID p"
    using u True by (auto simp: UpdateAccessPolicy_def split: option.splits if_splits)
  have ids: "map pol_ID (map ?g ?R) = map pol_ID ?R" by (simp add: o_def)
  have inj: "inj_on pol_ID (set ?R)" "inj_on pol_Name (set ?R)" "distinct ?R"
    using ok by (simp_all add: table_ok_def distinct_map)
  have "inj_on (pol_Name \<circ> ?g) (set ?R)"
  proof (rule inj_onI)
    fix x y assume "x \<in> set ?R" "y \<in> set ?R" "(pol_Name \<circ> ?g) x = (pol_Name \<circ> ?g) y"
    with fresh inj(1,2) show "x = y"
      by (cases "pol_ID x = pol_ID p"; cases "pol_ID y = pol_ID p") (auto simp: inj_on_def)
  qed
  then have "distinct (map pol_Name (map ?g ?R))"
    unfolding map_map using inj(3) by (simp add: distinct_map)
  moreover have "policy_valid q \<and> pol_ID q < ps_next st" if "q \<in> set (map ?g ?R)" for q
  proof -
    have "policy_valid (p\<lparr>pol_CreatedAt := t\<rparr>)" for t
      using v by (simp add: policy_valid_def)
    with that ok show ?thesis by (auto simp: table_ok_def split: if_splits)
  qed
  moreover have "distinct (map pol_ID (map ?g ?R))"
    unfolding ids using ok by (simp add: table_ok_def)
  ultimately show ?thesis
    unfolding st' table_ok_def using True by simp
qed

lemma delete_table_ok:
  assumes "table_ok st" "DeleteAccessPolicy fault k st = (r, st')"
  shows "table_ok st' \<and> ps_cache st' = ps_cache st \<and> (r \<noteq> None \<longrightarrow> st' = st)"
  using assms by (auto simp: DeleteAccessPolicy_def table_ok_def distinct_map_filter
      split: option.splits if_splits)

lemma load_ok:
  assumes "table_ok st"
  shows "cache_ok (publish_policies (load_policies st) st)"
proof -
  have "distinct (map pol_ID (load_policies st))"
    using assms by (auto simp: load_policies_def GetAccessPolicies_def table_ok_def distinct_map
        intro: inj_on_subset)
  moreover have "policy_valid p \<and> pol_Enabled p" if "p \<in> set (load_policies st)" for p
    using that assms by (auto simp: table_ok_def set_load_policies)
  ultimately show ?thesis
    by (simp add: cache_ok_def publish_policies_def sorted_load_policies)
qed

text \<open>
  One operation of the service, as the admin handlers and the seeding from the configuration
  call it.
\<close>

datatype policy_op = OpAdd policy_faults instant AccessPolicyRequest
  | OpUpdate policy_faults instant int AccessPolicyRequest
  | OpRemove policy_faults int

definition error_of :: "policy_outcome \<Rightarrow> goerr option" where
  "error_of out = (case out of Done _ \<Rightarrow> None | Failed e \<Rightarrow> Some e | Stale _ e \<Rightarrow> Some e)"

fun run_policy_op :: "policy_op \<Rightarrow> policy_state \<Rightarrow> goerr option \<times> policy_state" where
  "run_policy_op (OpAdd fl now req) st = (case AddPolicy fl now req st of (out, st') \<Rightarrow> (error_of out, st'))"
| "run_policy_op (OpUpdate fl now k req) st =
     (case UpdatePolicy fl now k req st of (out, st') \<Rightarrow> (error_of out, st'))"
| "run_policy_op (OpRemove fl k) st = RemovePolicy fl k st"

fun op_faults :: "policy_op \<Rightarrow> policy_faults" where
  "op_faults (OpAdd fl now req) = fl"
| "op_faults (OpUpdate fl now k req) = fl"
| "op_faults (OpRemove fl k) = fl"

text \<open>
  What every operation does: its write goes through and the reload decides the rest, or nothing
  changes and there is an error.
\<close>

definition op_spec :: "policy_faults \<Rightarrow> policy_state \<Rightarrow> goerr option \<times> policy_state \<Rightarrow> bool" where
  "op_spec fl st res \<longleftrightarrow> (case res of (r, st') \<Rightarrow>
     r \<noteq> None \<and> st' = st
     \<or> (\<exists>st1. table_ok st1 \<and> ps_cache st1 = ps_cache st \<and>
          (if pf_load fl = None then r = None \<and> st' = publish_policies (load_policies st1) st1
           else r \<noteq> None \<and> st' = st1)))"

lemma op_specI:
  "table_ok st1 \<Longrightarrow> ps_cache st1 = ps_cache st \<Longrightarrow>
     (pf_load fl = None \<Longrightarrow> r = None \<and> st' = publish_policies (load_policies st1) st1) \<Longrightarrow>
     (pf_load fl \<noteq> None \<Longrightarrow> r \<noteq> None \<and> st' = st1) \<Longrightarrow> op_spec fl st (r, st')"
  unfolding op_spec_def by auto

lemma AddPolicy_spec:
  assumes "table_ok st" and "AddPolicy fl now req0 st = (out, st')"
  shows "op_spec fl st (error_of out, st')"
proof (cases "validatePolicyRequest req0")
  case (Inl e)
  with assms show ?thesis by (auto simp: AddPolicy_def op_spec_def error_of_def)
next
  case (Inr req)
  obtain c st1 where c: "CreateAccessPolicy (pf_write fl) (new_policy now req) st = (c, st1)"
    by fastforce
  note ok = create_table_ok [OF assms(1) validated(1) [OF Inr] c]
  show ?thesis
  proof (cases c)
    case (Inl e)
    with ok have "st1 = st" by simp
    with Inl Inr c assms(2) show ?thesis by (auto simp: AddPolicy_def op_spec_def error_of_def)
  next
    case (Inr p)
    show ?thesis
      using ok Inr \<open>validatePolicyRequest req0 = Inr req\<close> c assms(2)
      by (intro op_specI [of st1])
        (auto simp: AddPolicy_def reload_def Initialize_def error_of_def split: option.splits)
  qed
qed

lemma UpdatePolicy_spec:
  assumes "table_ok st" and "UpdatePolicy fl now k req0 st = (out, st')"
  shows "op_spec fl st (error_of out, st')"
proof (cases "validatePolicyRequest req0")
  case (Inl e)
  with assms show ?thesis by (auto simp: UpdatePolicy_def op_spec_def error_of_def)
next
  case v: (Inr req)
  show ?thesis
  proof (cases "GetAccessPolicyByID (pf_read fl) (ps_rows st) k")
    case (Inl e)
    with v assms show ?thesis by (auto simp: UpdatePolicy_def op_spec_def error_of_def)
  next
    case g: (Inr p0)
    obtain u st1 where u: "UpdateAccessPolicy (pf_write fl) (updated_policy now req p0) st = (u, st1)"
      by fastforce
    note ok = update_table_ok [OF assms(1) validated(2) [OF v] u]
    show ?thesis
    proof (cases u)
      case (Some e)
      with ok v g u assms(2) show ?thesis by (auto simp: UpdatePolicy_def Let_def op_spec_def error_of_def)
    next
      case None
      show ?thesis
        using ok None v g u assms(2)
        by (intro op_specI [of st1])
          (auto simp: UpdatePolicy_def Let_def reload_def Initialize_def error_of_def split: option.splits)
    qed
  qed
qed

lemma RemovePolicy_spec:
  assumes "table_ok st" and "RemovePolicy fl k st = (r, st')"
  shows "op_spec fl st (r, st')"
proof -
  obtain d st1 where d: "DeleteAccessPolicy (pf_write fl) k st = (d, st1)" by fastforce
  note ok = delete_table_ok [OF assms(1) d]
  show ?thesis
  proof (cases d)
    case (Some e)
    with ok d assms(2) show ?thesis by (auto simp: RemovePolicy_def op_spec_def)
  next
    case None
    show ?thesis
      using ok None d assms(2)
      by (intro op_specI [of st1]) (auto simp: RemovePolicy_def Initialize_def split: option.splits)
  qed
qed

lemma policy_op_spec:
  assumes "table_ok st"
  shows "op_spec (op_faults op) st (run_policy_op op st)"
proof (cases op)
  case (OpAdd fl now req)
  then show ?thesis using AddPolicy_spec [OF assms, of fl now req] by (simp split: prod.split)
next
  case (OpUpdate fl now k req)
  then show ?thesis using UpdatePolicy_spec [OF assms, of fl now k req] by (simp split: prod.split)
next
  case (OpRemove fl k)
  then show ?thesis using RemovePolicy_spec [OF assms, of fl k] by (cases "RemovePolicy fl k st") simp
qed

lemma publish_sel [simp]:
  "ps_rows (publish_policies c st) = ps_rows st" "ps_cache (publish_policies c st) = c"
  "load_policies (publish_policies c st) = load_policies st"
  "table_ok (publish_policies c st) = table_ok st"
  by (simp_all add: publish_policies_def load_policies_def table_ok_def)

lemma op_spec_keeps:
  assumes "op_spec fl st (r, st')" "table_ok st" "cache_ok st"
  shows "table_ok st' \<and> cache_ok st'"
  using assms load_ok unfolding op_spec_def by (auto simp: cache_ok_def split: if_splits)

definition run_policy_ops :: "policy_op list \<Rightarrow> policy_state \<Rightarrow> policy_state" where
  "run_policy_ops ops st = fold (\<lambda>op s. snd (run_policy_op op s)) ops st"

definition empty_policies :: policy_state where
  "empty_policies = \<lparr>ps_rows = [], ps_next = 1, ps_cache = []\<rparr>"

lemma run_policy_ops_keeps:
  "table_ok st \<Longrightarrow> cache_ok st \<Longrightarrow> table_ok (run_policy_ops ops st) \<and> cache_ok (run_policy_ops ops st)"
proof (induction ops arbitrary: st)
  case (Cons op ops)
  obtain r st' where o: "run_policy_op op st = (r, st')" by fastforce
  then have "op_spec (op_faults op) st (r, st')" using policy_op_spec [OF Cons.prems(1), of op] by simp
  from op_spec_keeps [OF this Cons.prems] Cons.IH [of st'] show ?case
    by (simp add: run_policy_ops_def o)
qed (simp add: run_policy_ops_def)

text \<open>
  C26. The policy table is well typed: whatever operations ran from the empty table, with
  whatever database failures, the ids and the names of the rows are distinct, every action is
  \<open>allow\<close> or \<open>deny\<close> in lower case, every operator is one of the six the evaluation knows, and
  the cache holds only enabled policies of that kind, once each, by descending priority.
\<close>

theorem policy_table_typed:
  "table_ok (run_policy_ops ops empty_policies) \<and> cache_ok (run_policy_ops ops empty_policies)"
  by (rule run_policy_ops_keeps) (simp_all add: empty_policies_def table_ok_def cache_ok_def)

text \<open>
  C27. Errors of a policy operation: an operation that returns no error has put the enabled
  policies of the new table into the cache; one that returns an error has left the cache as it
  was, and has changed the table only if the reload failed.
\<close>

theorem policy_errors:
  assumes "table_ok st" and "run_policy_op op st = (r, st')"
  shows "(r = None \<longrightarrow> ps_cache st' = load_policies st' \<and> pf_load (op_faults op) = None)
    \<and> (r \<noteq> None \<longrightarrow> ps_cache st' = ps_cache st
          \<and> (st' = st \<or> pf_load (op_faults op) \<noteq> None))"
proof -
  have "op_spec (op_faults op) st (r, st')" using policy_op_spec [OF assms(1), of op] assms(2) by simp
  then show ?thesis unfolding op_spec_def by (auto split: if_splits)
qed

theorem policy_errors_witness:
  "fst (run_policy_op (OpRemove \<lparr>pf_read = None, pf_write = None, pf_load = Some ''io''\<rparr> 2) sample_policies) \<noteq> None
   \<and> ps_cache (snd (run_policy_op (OpRemove \<lparr>pf_read = None, pf_write = None, pf_load = Some ''io''\<rparr> 2)
       sample_policies)) = []
   \<and> length (ps_rows (snd (run_policy_op (OpRemove \<lparr>pf_read = None, pf_write = None, pf_load = Some ''io''\<rparr> 2)
       sample_policies))) = 1"
proof -
  let ?op = "OpRemove \<lparr>pf_read = None, pf_write = None, pf_load = Some ''io''\<rparr> 2"
  have ok: "table_ok sample_policies" by code_simp
  have "fst (run_policy_op ?op sample_policies) \<noteq> None" by code_simp
  moreover have "length (ps_rows (snd (run_policy_op ?op sample_policies))) = 1" by code_simp
  moreover have "ps_cache sample_policies = []" by (simp add: sample_policies_def)
  ultimately show ?thesis
    using policy_errors [OF ok surjective_pairing [of "run_policy_op ?op sample_policies"]] by simp
qed

text \<open>
  The reload is not one step: a request that read the table before another one's write, and
  publishes after it, takes the other's policy out of the cache although both succeeded.
\<close>

lemma concurrent_reload_loses_policy:
  assumes "table_ok st" "pol_Name a \<notin> pol_Name ` set (ps_rows st)"
    "pol_Name b \<notin> pol_Name ` set (ps_rows st)" "pol_Name b \<noteq> pol_Name a" "pol_Enabled b"
    and "CreateAccessPolicy None a st = (Inr a', st1)"
    and "CreateAccessPolicy None b st1 = (Inr b', st2)"
    and "st3 = publish_policies (load_policies st2) st2"
    and "st4 = publish_policies (load_policies st1) st3"
  shows "b' \<in> set (ps_rows st4) \<and> b' \<in> set (ps_cache st3) \<and> b' \<notin> set (ps_cache st4)"
proof -
  have rows: "ps_rows st1 = ps_rows st @ [a']" "ps_rows st2 = ps_rows st1 @ [b']"
    and names: "pol_Name a' = pol_Name a" "pol_Name b' = pol_Name b" "pol_Enabled b'"
    using assms(5,6,7) by (auto simp: CreateAccessPolicy_def Let_def split: if_splits)
  have "b' \<notin> set (ps_rows st)" using names(2) assms(3) by (metis imageI)
  with rows(1) names assms(4) have "b' \<notin> set (ps_rows st1)" by auto
  then show ?thesis
    using rows names by (simp add: assms(8,9) set_load_policies)
qed

end
