(* ===== verification/Http.thy ===== *)
theory Http
  imports Access_Policy
begin

text \<open>
  The request context the middlewares work on (\<open>gin.Context\<close>). A header, a query parameter or a
  path parameter that is absent reads as the empty string; \<open>rq_BodyFails\<close> says that reading the body fails. A middleware either lets the next
  handler run (\<open>Next\<close>) or aborts with a reply (\<open>Abort\<close>); both carry the keys it has set.
\<close>

record request =
  rq_Method :: string
  rq_Path :: string
  rq_FullPath :: string
  rq_Params :: "(string \<times> string) list"
  rq_Header :: "string \<Rightarrow> string"
  rq_Query :: "string \<Rightarrow> string"
  rq_Body :: string
  rq_BodyFails :: bool
  rq_RemoteAddr :: string

definition Param :: "request \<Rightarrow> string \<Rightarrow> string" where
  "Param r k = (case map_of (rq_Params r) k of None \<Rightarrow> [] | Some v \<Rightarrow> v)"

record PermissionCheckResult =
  pcr_Allowed :: bool
  pcr_RequiresPermission :: bool

text \<open>The keys of the context; \<open>gc_VerifiedCallerDID\<close> and the ids are empty when absent.\<close>

record gin =
  gc_Request :: request
  gc_AuthLevel :: "string option"
  gc_CallerAgentID :: string
  gc_VerifiedCallerDID :: string
  gc_DIDAuthSkipped :: bool
  gc_TargetAgent :: "TaggedAgent option"
  gc_TargetDID :: string
  gc_PermissionResult :: "PermissionCheckResult option"
  gc_ConnectorCommandID :: string
  gc_ConnectorCommandSource :: string

definition new_gin :: "request \<Rightarrow> gin" where
  "new_gin r = \<lparr>gc_Request = r, gc_AuthLevel = None, gc_CallerAgentID = [], gc_VerifiedCallerDID = [],
     gc_DIDAuthSkipped = False, gc_TargetAgent = None, gc_TargetDID = [], gc_PermissionResult = None,
     gc_ConnectorCommandID = [], gc_ConnectorCommandSource = []\<rparr>"

abbreviation GetHeader :: "gin \<Rightarrow> string \<Rightarrow> string" where
  "GetHeader c k \<equiv> rq_Header (gc_Request c) k"

abbreviation request_path :: "gin \<Rightarrow> string" where
  "request_path c \<equiv> rq_Path (gc_Request c)"

datatype step = Next gin | Abort reply gin

fun passed :: "step \<Rightarrow> gin option" where
  "passed (Next c) = Some c"
| "passed (Abort r c) = None"

text \<open>The error body of a refusal.\<close>

definition AbortJSON :: "nat \<Rightarrow> string \<Rightarrow> string \<Rightarrow> gin \<Rightarrow> step" where
  "AbortJSON status err msg c = Abort (JSONreply status [(''error'', JStr err), (''message'', JStr msg)]) c"

lemma passed_AbortJSON [simp]: "passed (AbortJSON status err msg c) = None"
  by (simp add: AbortJSON_def)

text \<open>A chain of middlewares in front of a handler.\<close>

fun run_chain :: "(gin \<Rightarrow> step) list \<Rightarrow> gin \<Rightarrow> step" where
  "run_chain [] c = Next c"
| "run_chain (m # ms) c = (case m c of Next c' \<Rightarrow> run_chain ms c' | Abort r c' \<Rightarrow> Abort r c')"

lemma run_chain_passed:
  "passed (run_chain (m # ms) c) = Some c'' \<longleftrightarrow>
     (\<exists>c'. passed (m c) = Some c' \<and> passed (run_chain ms c') = Some c'')"
  by (simp split: step.split)

end
