(* ===== verification/Request_Auth.thy ===== *)
theory Request_Auth
  imports Http
begin

text \<open>
  Who may reach a handler (\<open>internal/server/middleware\<close>): the API key (\<open>auth.go\<close>,
  \<open>grpc_auth.go\<close>, \<open>privileged.go\<close>), the admin and connector tokens (\<open>auth.go\<close>,
  \<open>connector_auth.go\<close>, \<open>connector_capability.go\<close>), and the DID signature with its replay cache
  (\<open>did_auth.go\<close>). A constant-time comparison is equality. The hash, the base64 decoder and the
  signature check are parameters.
\<close>

subsection \<open>API key\<close>

record AuthConfig =
  auth_APIKey :: string
  auth_SkipPaths :: "string list"
  auth_SkipPrefixes :: "string list"
  auth_QueryAPIKeyAllowedPaths :: "string list"

definition queryAPIKeyAllowed :: "gin \<Rightarrow> string list \<Rightarrow> bool" where
  "queryAPIKeyAllowed c allowedPaths =
     (if allowedPaths = [] then False
      else if request_path c \<in> set allowedPaths then True
      else if rq_FullPath (gc_Request c) \<noteq> [] then rq_FullPath (gc_Request c) \<in> set allowedPaths
      else False)"

definition bearer_token :: "gin \<Rightarrow> string" where
  "bearer_token c =
     (let authHeader = GetHeader c ''Authorization''
      in if HasPrefix authHeader ''Bearer '' then TrimPrefix authHeader ''Bearer '' else [])"

definition presented_key :: "AuthConfig \<Rightarrow> gin \<Rightarrow> string" where
  "presented_key config c =
     (let k1 = GetHeader c ''X-API-Key'';
          k2 = (if k1 = [] then bearer_token c else k1)
      in if k2 = [] \<and> queryAPIKeyAllowed c (auth_QueryAPIKeyAllowedPaths config)
         then rq_Query (gc_Request c) ''api_key'' else k2)"

text \<open>The prefixes and paths that are open whatever the configuration.\<close>

definition always_open :: "string \<Rightarrow> bool" where
  "always_open p \<longleftrightarrow>
     HasPrefix p ''/api/v1/health'' \<or> p = ''/health'' \<or> p = ''/metrics''
     \<or> HasPrefix p ''/ui'' \<or> p = ''/''
     \<or> HasPrefix p ''/api/v1/did/document/'' \<or> HasPrefix p ''/api/v1/did/resolve/''"

definition APIKeyAuth :: "AuthConfig \<Rightarrow> gin \<Rightarrow> step" where
  "APIKeyAuth config c =
     (let p = request_path c
      in if auth_APIKey config = [] then Next (c\<lparr>gc_AuthLevel := Some ''api_key''\<rparr>)
         else if p \<in> set (auth_SkipPaths config) then Next c
         else if list_ex (HasPrefix p) (auth_SkipPrefixes config) then Next c
         else if always_open p then Next c
         else if HasPrefix p ''/api/v1/agentic/kb/'' then Next (c\<lparr>gc_AuthLevel := Some ''public''\<rparr>)
         else if HasPrefix p ''/api/v1/connector/'' then Next c
         else if HasPrefix p ''/sources/'' then Next c
         else if presented_key config c \<noteq> auth_APIKey config
         then AbortJSON 401 ''unauthorized''
                ''invalid or missing API key. Provide via X-API-Key header or Authorization: Bearer <token>''
                (c\<lparr>gc_AuthLevel := Some ''public''\<rparr>)
         else let c1 = c\<lparr>gc_AuthLevel := Some ''api_key''\<rparr>;
                  caller = TrimSpace (GetHeader c ''X-Caller-Agent-ID'');
                  node = TrimSpace (GetHeader c ''X-Agent-Node-ID'')
              in if caller \<noteq> [] then Next (c1\<lparr>gc_CallerAgentID := caller\<rparr>)
                 else if node \<noteq> [] then Next (c1\<lparr>gc_CallerAgentID := node\<rparr>)
                 else Next c1)"

text \<open>The metadata of a gRPC call: the values under a key, or none at all.\<close>

definition APIKeyUnaryInterceptor :: "string \<Rightarrow> (string \<Rightarrow> string list) option \<Rightarrow> string option" where
  "APIKeyUnaryInterceptor apiKey md =
     (if apiKey = [] then None
      else case md of
             None \<Rightarrow> Some ''missing metadata''
           | Some get \<Rightarrow>
               if (case get ''x-api-key'' of [] \<Rightarrow> False | k # _ \<Rightarrow> k = apiKey) then None
               else if (case get ''authorization'' of [] \<Rightarrow> False
                        | a # _ \<Rightarrow> HasPrefix a ''Bearer '' \<and> TrimPrefix a ''Bearer '' = apiKey) then None
               else Some ''invalid or missing api key'')"

subsection \<open>Tokens and privileged routes\<close>

definition AdminTokenAuth :: "string \<Rightarrow> gin \<Rightarrow> step" where
  "AdminTokenAuth adminToken c =
     (if adminToken = [] then Next c
      else if GetHeader c ''X-Admin-Token'' \<noteq> adminToken
      then AbortJSON 403 ''forbidden'' ''admin token required for this operation (use X-Admin-Token header)'' c
      else Next c)"

definition ConnectorTokenAuth :: "string \<Rightarrow> gin \<Rightarrow> step" where
  "ConnectorTokenAuth connectorToken c =
     (if connectorToken = []
      then AbortJSON 403 ''forbidden'' ''connector is not configured (no token set)'' c
      else if GetHeader c ''X-Connector-Token'' \<noteq> connectorToken
      then AbortJSON 403 ''forbidden'' ''connector token required for this operation (use X-Connector-Token header)'' c
      else let cmdID = GetHeader c ''X-Command-ID''; cmdSource = GetHeader c ''X-Command-Source'';
               c1 = (if cmdID \<noteq> [] then c\<lparr>gc_ConnectorCommandID := cmdID\<rparr> else c)
           in Next (if cmdSource \<noteq> [] then c1\<lparr>gc_ConnectorCommandSource := cmdSource\<rparr> else c1))"

record ConnectorCapability =
  cap_Enabled :: bool
  cap_ReadOnly :: bool

definition ConnectorCapabilityCheck ::
  "string \<Rightarrow> (string \<Rightarrow> ConnectorCapability option) \<Rightarrow> gin \<Rightarrow> step" where
  "ConnectorCapabilityCheck capName capabilities c =
     (case capabilities capName of
        None \<Rightarrow> AbortJSON 403 ''capability_disabled''
                  (''capability '' @ capName @ '' is not enabled for this connector'') c
      | Some cap \<Rightarrow>
          if \<not> cap_Enabled cap
          then AbortJSON 403 ''capability_disabled''
                 (''capability '' @ capName @ '' is not enabled for this connector'') c
          else if cap_ReadOnly cap
               \<and> rq_Method (gc_Request c) \<in> set [''POST'', ''PUT'', ''DELETE'', ''PATCH'']
          then AbortJSON 403 ''read_only''
                 (''capability '' @ capName @ '' is read-only; write operations are not permitted'') c
          else Next c)"

text \<open>
  An address is its sixteen bytes; \<open>split_host\<close> (the host of \<open>host:port\<close>, if it splits) and
  \<open>parse_ip\<close> are those of Go's \<open>net\<close>.
\<close>

definition is_loopback :: "nat list \<Rightarrow> bool" where
  "is_loopback ip =
     (if take 12 ip = replicate 10 0 @ [255, 255] then ip ! 12 = 127
      else ip = replicate 15 0 @ [1])"

definition isLoopbackRequest ::
  "(string \<Rightarrow> string option) \<Rightarrow> (string \<Rightarrow> nat list option) \<Rightarrow> request \<Rightarrow> bool" where
  "isLoopbackRequest split_host parse_ip r =
     (let host = (case split_host (rq_RemoteAddr r) of Some h \<Rightarrow> h | None \<Rightarrow> rq_RemoteAddr r)
      in case parse_ip (TrimSpace host) of None \<Rightarrow> False | Some ip \<Rightarrow> is_loopback ip)"

definition privilegedKeyMatches :: "gin \<Rightarrow> string \<Rightarrow> bool" where
  "privilegedKeyMatches c configuredKey =
     (let provided = GetHeader c ''X-API-Key''
      in (if provided = [] then bearer_token c else provided) = configuredKey)"

definition PrivilegedAccess ::
  "(string \<Rightarrow> string option) \<Rightarrow> (string \<Rightarrow> nat list option) \<Rightarrow> AuthConfig \<Rightarrow> gin \<Rightarrow> step" where
  "PrivilegedAccess split_host parse_ip config c =
     (if auth_APIKey config \<noteq> []
      then (if privilegedKeyMatches c (auth_APIKey config) then Next (c\<lparr>gc_AuthLevel := Some ''api_key''\<rparr>)
            else AbortJSON 401 ''unauthorized''
                   (''invalid or missing API key. This endpoint manages packages and credentials; ''
                     @ ''provide the key via X-API-Key header or Authorization: Bearer <token>'')
                   (c\<lparr>gc_AuthLevel := Some ''public''\<rparr>))
      else if isLoopbackRequest split_host parse_ip (gc_Request c) then Next c
      else AbortJSON 401 ''unauthorized''
             (''this endpoint installs packages and manages credentials, so it is restricted to local ''
               @ ''callers while the control plane runs without authentication. Configure an API key ''
               @ ''to use it from another host.'')
             (c\<lparr>gc_AuthLevel := Some ''public''\<rparr>))"

subsection \<open>The replay cache\<close>

record signatureCache =
  sc_entries :: "string \<Rightarrow> instant option"
  sc_ttl :: duration

text \<open>\<open>seen\<close> reads the clock to compare (\<open>now\<close>) and again to record (\<open>later\<close>).\<close>

definition seen :: "instant \<Rightarrow> instant \<Rightarrow> string \<Rightarrow> signatureCache \<Rightarrow> bool \<times> signatureCache" where
  "seen now later sig sc =
     (case sc_entries sc sig of
        Some expiry \<Rightarrow>
          if now < expiry then (True, sc)
          else (False, sc\<lparr>sc_entries := ((sc_entries sc)(sig := None))(sig \<mapsto> later + sc_ttl sc)\<rparr>)
      | None \<Rightarrow> (False, sc\<lparr>sc_entries := (sc_entries sc)(sig \<mapsto> later + sc_ttl sc)\<rparr>))"

definition cleanup :: "instant \<Rightarrow> signatureCache \<Rightarrow> signatureCache" where
  "cleanup now sc =
     sc\<lparr>sc_entries := (\<lambda>sig. case sc_entries sc sig of
          None \<Rightarrow> None
        | Some expiry \<Rightarrow> if expiry < now then None else Some expiry)\<rparr>"

definition getGlobalReplayCache :: "duration \<Rightarrow> signatureCache" where
  "getGlobalReplayCache ttl = \<lparr>sc_entries = (\<lambda>_. None), sc_ttl = ttl\<rparr>"

subsection \<open>DID authentication\<close>

record DIDAuthConfig =
  did_Enabled :: bool
  did_TimestampWindowSeconds :: int
  did_SkipPaths :: "string list"

definition maxDIDLength :: int where "maxDIDLength = 512"
definition maxBodySize :: int where "maxBodySize = 1048576"

text \<open>\<open>Unix()\<close>: the seconds since 1970, of an instant counted from Go's zero time.\<close>

definition Unix :: "instant \<Rightarrow> int" where
  "Unix t = t div second - 62135596800"

definition abs64 :: "int \<Rightarrow> int" where
  "abs64 n = (if n < 0 then wrap64 (- n) else n)"

text \<open>
  What the middleware calls: the SHA-256 of a byte string (\<open>de_sha\<close>, in hexadecimal), the base64
  decoder, and the signature check (\<open>VerifyDIDOwnership\<close>).
\<close>

record did_env =
  de_sha :: "string \<Rightarrow> string"
  de_base64 :: "string \<Rightarrow> string option"
  de_verify :: "string \<Rightarrow> string \<Rightarrow> string \<Rightarrow> goerr + bool"

text \<open>The clock readings of one request: the window check, then the two of \<open>seen\<close>.\<close>

record clock_readings =
  cr_window :: instant
  cr_seen :: instant
  cr_record :: instant

definition timestamp_window :: "DIDAuthConfig \<Rightarrow> int" where
  "timestamp_window config =
     (if did_TimestampWindowSeconds config \<le> 0 then 300 else did_TimestampWindowSeconds config)"

definition did_payload :: "did_env \<Rightarrow> string \<Rightarrow> string \<Rightarrow> string \<Rightarrow> string" where
  "did_payload env timestamp nonce bodyBytes =
     (if nonce \<noteq> [] then timestamp @ '':'' @ nonce @ '':'' @ de_sha env bodyBytes
      else timestamp @ '':'' @ de_sha env bodyBytes)"

text \<open>The checks up to the replay cache: the refusal, or the signature bytes.\<close>

definition did_checks ::
  "did_env \<Rightarrow> DIDAuthConfig \<Rightarrow> instant \<Rightarrow> gin \<Rightarrow> (nat \<times> string \<times> string) + string" where
  "did_checks env config now c =
     (let callerDID = GetHeader c ''X-Caller-DID''; signature = GetHeader c ''X-DID-Signature'';
          timestamp = GetHeader c ''X-DID-Timestamp''
      in if \<not> HasPrefix callerDID ''did:'' \<or> length callerDID < 8 \<or> maxDIDLength < int (length callerDID)
         then Inl (400, ''invalid_did_format'', ''X-Caller-DID must be a valid DID'')
         else if signature = [] \<or> timestamp = []
         then Inl (401, ''did_auth_required'', ''DID claimed but signature or timestamp missing'')
         else case Atoi timestamp of
                None \<Rightarrow> Inl (401, ''invalid_timestamp'', ''X-DID-Timestamp must be a valid Unix timestamp'')
              | Some ts \<Rightarrow>
                  if timestamp_window config < abs64 (wrap64 (Unix now - ts))
                  then Inl (401, ''timestamp_expired'', ''Timestamp too old or too far in future'')
                  else if rq_BodyFails (gc_Request c)
                  then Inl (400, ''body_read_error'', ''Failed to read request body'')
                  else if maxBodySize < int (length (rq_Body (gc_Request c)))
                  then Inl (413, ''body_too_large'', ''Request body exceeds '' @ show_int maxBodySize
                              @ '' bytes limit for DID authentication'')
                  else case de_base64 env signature of
                         None \<Rightarrow> Inl (401, ''invalid_signature_encoding'', ''X-DID-Signature must be valid base64'')
                       | Some sigBytes \<Rightarrow> Inr sigBytes)"

definition did_verify :: "did_env \<Rightarrow> string \<Rightarrow> gin \<Rightarrow> step" where
  "did_verify env sigBytes c =
     (let callerDID = GetHeader c ''X-Caller-DID'';
          payload = did_payload env (GetHeader c ''X-DID-Timestamp'') (GetHeader c ''X-DID-Nonce'')
                      (rq_Body (gc_Request c))
      in case de_verify env callerDID payload sigBytes of
           Inl _ \<Rightarrow> AbortJSON 401 ''verification_error'' ''Failed to verify DID signature'' c
         | Inr False \<Rightarrow> AbortJSON 401 ''invalid_signature'' ''DID signature verification failed'' c
         | Inr True \<Rightarrow> Next (c\<lparr>gc_VerifiedCallerDID := callerDID\<rparr>))"

definition DIDAuthMiddleware ::
  "did_env \<Rightarrow> DIDAuthConfig \<Rightarrow> clock_readings \<Rightarrow> gin \<Rightarrow> signatureCache \<Rightarrow> step \<times> signatureCache" where
  "DIDAuthMiddleware env config t c sc =
     (if \<not> did_Enabled config then (Next (c\<lparr>gc_DIDAuthSkipped := True\<rparr>), sc)
      else if request_path c \<in> set (did_SkipPaths config) then (Next (c\<lparr>gc_DIDAuthSkipped := True\<rparr>), sc)
      else if GetHeader c ''X-Caller-DID'' = [] then (Next (c\<lparr>gc_DIDAuthSkipped := True\<rparr>), sc)
      else case did_checks env config (cr_window t) c of
             Inl (status, err, msg) \<Rightarrow> (AbortJSON status err msg c, sc)
           | Inr sigBytes \<Rightarrow>
               (case seen (cr_seen t) (cr_record t) (de_sha env sigBytes) sc of
                  (True, sc') \<Rightarrow> (AbortJSON 401 ''replay_detected'' ''This signature has already been used'' c, sc')
                | (False, sc') \<Rightarrow> (did_verify env sigBytes c, sc')))"

subsection \<open>What an accepted signature says\<close>

definition claims_did :: "DIDAuthConfig \<Rightarrow> gin \<Rightarrow> bool" where
  "claims_did config c \<longleftrightarrow> did_Enabled config \<and> request_path c \<notin> set (did_SkipPaths config)
     \<and> GetHeader c ''X-Caller-DID'' \<noteq> []"

lemma did_checks_Inr:
  assumes "did_checks env config now c = Inr sigBytes"
  obtains ts where "Atoi (GetHeader c ''X-DID-Timestamp'') = Some ts"
    and "abs64 (wrap64 (Unix now - ts)) \<le> timestamp_window config"
    and "de_base64 env (GetHeader c ''X-DID-Signature'') = Some sigBytes"
    and "int (length (rq_Body (gc_Request c))) \<le> maxBodySize"
  using assms unfolding did_checks_def Let_def by (auto split: if_splits option.splits)

lemma seen_new:
  assumes "seen now later k sc = (False, sc')"
  shows "sc_entries sc' = (sc_entries sc)(k \<mapsto> later + sc_ttl sc)" and "sc_ttl sc' = sc_ttl sc"
    and "\<And>e. sc_entries sc k = Some e \<Longrightarrow> e \<le> now"
  using assms by (auto simp: seen_def split: option.splits if_splits)

lemma seen_old: "seen now later k sc = (True, sc') \<Longrightarrow> sc' = sc"
  by (auto simp: seen_def split: option.splits if_splits)

lemma did_verify_Next:
  "did_verify env sigBytes c = Next d \<longleftrightarrow>
     de_verify env (GetHeader c ''X-Caller-DID'')
       (did_payload env (GetHeader c ''X-DID-Timestamp'') (GetHeader c ''X-DID-Nonce'')
          (rq_Body (gc_Request c))) sigBytes = Inr True
     \<and> d = c\<lparr>gc_VerifiedCallerDID := GetHeader c ''X-Caller-DID''\<rparr>"
  by (auto simp: did_verify_def Let_def AbortJSON_def split: sum.splits bool.splits)

lemma DID_accepted:
  assumes "DIDAuthMiddleware env config t c sc = (Next d, sc')" and "claims_did config c"
  obtains sigBytes where "did_checks env config (cr_window t) c = Inr sigBytes"
    and "seen (cr_seen t) (cr_record t) (de_sha env sigBytes) sc = (False, sc')"
    and "did_verify env sigBytes c = Next d"
  using assms unfolding DIDAuthMiddleware_def claims_did_def
  by (auto simp: AbortJSON_def split: sum.splits prod.splits bool.splits)

lemma DID_cache:
  "DIDAuthMiddleware env config t c sc = (r, sc') \<Longrightarrow>
     sc' = sc \<or> (\<exists>k. seen (cr_seen t) (cr_record t) k sc = (False, sc'))"
  unfolding DIDAuthMiddleware_def
  by (auto split: if_splits sum.splits prod.splits bool.splits dest: seen_old)

text \<open>Other requests and the sweeps of the cache between two uses of a signature.\<close>

datatype auth_event = Signed clock_readings gin | Sweep instant

fun handle_event :: "did_env \<Rightarrow> DIDAuthConfig \<Rightarrow> auth_event \<Rightarrow> signatureCache \<Rightarrow> signatureCache" where
  "handle_event env config (Signed t c) sc = snd (DIDAuthMiddleware env config t c sc)"
| "handle_event env config (Sweep now) sc = cleanup now sc"

fun event_clock :: "auth_event \<Rightarrow> instant" where
  "event_clock (Signed t c) = cr_seen t"
| "event_clock (Sweep now) = now"

definition remembered :: "string \<Rightarrow> instant \<Rightarrow> instant \<Rightarrow> signatureCache \<Rightarrow> bool" where
  "remembered k e0 T sc \<longleftrightarrow> (\<exists>e. sc_entries sc k = Some e \<and> e0 \<le> e) \<or> e0 \<le> T"

lemma seen_remembers:
  assumes "seen now later k' sc = (False, sc')" "remembered k e0 T sc" "now \<le> T"
  shows "remembered k e0 T sc'"
proof (cases "k' = k")
  case True
  with seen_new(3) [OF assms(1)] assms(2,3) have "e0 \<le> T" unfolding remembered_def by fastforce
  then show ?thesis by (simp add: remembered_def)
next
  case False
  with seen_new(1) [OF assms(1)] assms(2) show ?thesis by (simp add: remembered_def)
qed

lemma handle_event_remembers:
  assumes "remembered k e0 T sc" "event_clock ev \<le> T"
  shows "remembered k e0 T (handle_event env config ev sc)"
proof (cases ev)
  case (Signed t c)
  obtain r sc' where d: "DIDAuthMiddleware env config t c sc = (r, sc')" by fastforce
  from DID_cache [OF d] seen_remembers [OF _ assms(1)] assms Signed show ?thesis
    by (auto simp: d)
next
  case (Sweep now)
  with assms show ?thesis by (auto simp: remembered_def cleanup_def split: option.split)
qed

lemma handle_events_remember:
  "remembered k e0 T sc \<Longrightarrow> (\<And>ev. ev \<in> set evs \<Longrightarrow> event_clock ev \<le> T) \<Longrightarrow>
     remembered k e0 T (fold (handle_event env config) evs sc)"
  by (induction evs arbitrary: sc) (simp_all add: handle_event_remembers)

lemma handle_event_ttl: "sc_ttl (handle_event env config ev sc) = sc_ttl sc"
proof (cases ev)
  case (Signed t c)
  obtain r sc' where d: "DIDAuthMiddleware env config t c sc = (r, sc')" by fastforce
  from DID_cache [OF d] seen_new(2) Signed show ?thesis by (auto simp: d)
qed (simp add: cleanup_def)

lemma Unix_add: "Unix (t + w * second) = Unix t + w"
  by (simp add: Unix_def second_def)

lemma Unix_mono: "s \<le> t \<Longrightarrow> Unix s \<le> Unix t"
  by (simp add: Unix_def second_def zdiv_mono1)

lemma window_exact:
  assumes "0 \<le> u" "u < 2 ^ 62" "- (2 ^ 62) \<le> ts" "ts < 2 ^ 63"
  shows "abs64 (wrap64 (u - ts)) = \<bar>u - ts\<bar>"
proof -
  have "wrap64 (u - ts) = u - ts" using assms by (intro wrap64_id) simp_all
  moreover have "wrap64 (- (u - ts)) = - (u - ts)" if "u - ts < 0"
    using assms that by (intro wrap64_id) simp_all
  ultimately show ?thesis by (simp add: abs64_def)
qed

lemma Atoi_int64: "Atoi s = Some i \<Longrightarrow> in_int64 i"
  by (auto simp: Atoi_def Let_def split: option.splits if_splits)


text \<open>
  The bound is met: a signature dated as far ahead as the window allows is accepted twice, the
  second time when the cache has forgotten it.
\<close>

definition sample_did_env :: did_env where
  "sample_did_env = \<lparr>de_sha = (\<lambda>s. s), de_base64 = Some, de_verify = (\<lambda>did payload sig. Inr (sig = ''sig''))\<rparr>"

definition sample_did_config :: DIDAuthConfig where
  "sample_did_config = \<lparr>did_Enabled = True, did_TimestampWindowSeconds = 0, did_SkipPaths = []\<rparr>"

definition signed_request :: "string \<Rightarrow> gin" where
  "signed_request ts = new_gin \<lparr>rq_Method = ''POST'', rq_Path = ''/x'', rq_FullPath = [], rq_Params = [],
     rq_Header = (\<lambda>h. if h = ''X-Caller-DID'' then ''did:web:a'' else if h = ''X-DID-Signature'' then ''sig''
        else if h = ''X-DID-Timestamp'' then ts else []),
     rq_Query = (\<lambda>_. []), rq_Body = [], rq_BodyFails = False, rq_RemoteAddr = []\<rparr>"

definition read_at :: "int \<Rightarrow> clock_readings" where
  "read_at s = (let t = (s + 62135596800) * second in \<lparr>cr_window = t, cr_seen = t, cr_record = t\<rparr>)"

lemma passed_Next:
  "\<not> Option.is_none (passed (fst p)) \<Longrightarrow> \<exists>d. p = (Next d, snd p)"
  by (cases p; cases "fst p") auto


text \<open>
  The absolute value of the least 64-bit integer is itself, so one timestamp far outside the
  window passes the window check: the one \<open>2 ^ 63\<close> seconds in the past.
\<close>

lemma least_difference_passes_window:
  assumes "0 \<le> w" and "0 < now"
  shows "abs64 (wrap64 (now - (now - 2 ^ 63))) \<le> w"
  using assms by (simp add: abs64_def wrap64_def)

end
