(* ===== verification/Permission.thy ===== *)
theory Permission
  imports Request_Auth
begin

text \<open>
  Permission enforcement for calls to an agent
  (\<open>internal/server/middleware/permission.go\<close>, \<open>internal/services/tag_vc_verifier.go\<close>): the
  credential that certifies an agent's approved tags, the middleware that evaluates the access
  policies, and the chain of middlewares in front of the execute endpoint.
\<close>

subsection \<open>Tag credentials\<close>

record AgentTagVCRecord =
  vcr_AgentID :: string
  vcr_VCDocument :: string
  vcr_ExpiresAt :: "instant option"
  vcr_RevokedAt :: "instant option"

record AgentTagVCDocument =
  vcd_AgentID :: string
  vcd_Tags :: "string list"

text \<open>
  The parser of a stored document and the signature check (absent when there is no VC service)
  are parameters. An instant in an error message is left to \<open>show_time\<close>.
\<close>

record vc_env =
  vce_parse :: "string \<Rightarrow> string + AgentTagVCDocument"
  vce_signature :: "(string \<Rightarrow> goerr + bool) option"
  vce_show_time :: "instant \<Rightarrow> string"

definition GetAgentTagVC ::
  "string option \<Rightarrow> AgentTagVCRecord list \<Rightarrow> string \<Rightarrow> goerr + AgentTagVCRecord" where
  "GetAgentTagVC fault rows agentID =
     (case fault of
        Some e \<Rightarrow> Inl (Errorf (''failed to get agent tag VC: '' @ e))
      | None \<Rightarrow>
          (case find (\<lambda>r. vcr_AgentID r = agentID) rows of
             None \<Rightarrow> Inl (Errorf (''agent tag VC not found for agent '' @ agentID))
           | Some r \<Rightarrow> Inr r))"

definition VerifyAgentTagVC ::
  "vc_env \<Rightarrow> instant \<Rightarrow> goerr + AgentTagVCRecord \<Rightarrow> string \<Rightarrow> goerr + AgentTagVCDocument" where
  "VerifyAgentTagVC env now stored agentID =
     (case stored of
        Inl e \<Rightarrow> Inl (wrapErr (''no tag VC for agent '' @ agentID @ '': '') e)
      | Inr record \<Rightarrow>
     (case vcr_RevokedAt record of
        Some t \<Rightarrow> Inl (Errorf (''tag VC for agent '' @ agentID @ '' was revoked at '' @ vce_show_time env t))
      | None \<Rightarrow>
     (case (case vcr_ExpiresAt record of Some t \<Rightarrow> if t < now then Some t else None | None \<Rightarrow> None) of
        Some t \<Rightarrow> Inl (Errorf (''tag VC for agent '' @ agentID @ '' expired at '' @ vce_show_time env t))
      | None \<Rightarrow>
     (case vce_parse env (vcr_VCDocument record) of
        Inl e \<Rightarrow> Inl (Errorf (''failed to parse tag VC document for agent '' @ agentID @ '': '' @ e))
      | Inr vc \<Rightarrow>
     (case vce_signature env of
        None \<Rightarrow> Inl (Errorf (''cannot verify tag VC for agent '' @ agentID @ '': VC service not available''))
      | Some verify \<Rightarrow>
     (case verify (vcr_VCDocument record) of
        Inl e \<Rightarrow> Inl (wrapErr (''tag VC signature verification failed for agent '' @ agentID @ '': '') e)
      | Inr False \<Rightarrow> Inl (Errorf (''tag VC signature is invalid for agent '' @ agentID))
      | Inr True \<Rightarrow>
          if vcd_AgentID vc \<noteq> [] \<and> vcd_AgentID vc \<noteq> agentID
          then Inl (Errorf (''tag VC subject mismatch: VC is for agent '' @ vcd_AgentID vc
                 @ '' but verification requested for '' @ agentID))
          else Inr vc))))))"

subsection \<open>The middleware\<close>

definition parseTargetParam :: "string \<Rightarrow> string \<times> string" where
  "parseTargetParam target =
     (case str_index target ''.'' of
        Some i \<Rightarrow> (take i target, drop (i + 1) target)
      | None \<Rightarrow> (target, []))"

text \<open>
  What the middleware calls. \<open>pe_GetAgent\<close> returns an error, no agent, or the agent;
  \<open>pe_VerifyTagVC\<close> is absent when no verifier is configured, \<open>pe_policies\<close> (the cached policies)
  when there is no policy service. \<open>pe_decode\<close> decodes a JSON object to its members in document
  order; a repeated member takes the last value.
\<close>

record permission_env =
  pe_GetAgent :: "string \<Rightarrow> goerr + TaggedAgent option"
  pe_GenerateDIDWeb :: "string \<Rightarrow> string"
  pe_ResolveAgentIDByDID :: "string \<Rightarrow> string"
  pe_VerifyTagVC :: "(string \<Rightarrow> goerr + AgentTagVCDocument option) option"
  pe_policies :: "AccessPolicy list option"
  pe_decode :: "string \<Rightarrow> (string \<times> jvalue) list option"
  pe_num :: "rat \<Rightarrow> string"

record PermissionConfig =
  pc_Enabled :: bool
  pc_DefaultDeny :: bool

definition members :: "(string \<times> jvalue) list \<Rightarrow> string \<Rightarrow> jvalue option" where
  "members kvs = map_of (rev kvs)"

text \<open>The parameters the constraints see: the body, or its \<open>input\<close> member when that is an object.\<close>

definition permission_params ::
  "permission_env \<Rightarrow> request \<Rightarrow> (string \<Rightarrow> jvalue option) option" where
  "permission_params env r =
     (let inputParams =
        (if rq_BodyFails r \<or> rq_Body r = [] then None
         else map_option members (pe_decode env (rq_Body r)))
      in case inputParams of
           None \<Rightarrow> None
         | Some m \<Rightarrow> (case m ''input'' of Some (VObj nested) \<Rightarrow> Some (members nested) | _ \<Rightarrow> Some m))"

definition permission_caller_tags :: "permission_env \<Rightarrow> string \<Rightarrow> string list" where
  "permission_caller_tags env callerAgentID =
     (if callerAgentID = [] then []
      else let registered =
             (case pe_GetAgent env callerAgentID of Inr (Some a) \<Rightarrow> CanonicalAgentTags a | _ \<Rightarrow> [])
           in case pe_VerifyTagVC env of
                None \<Rightarrow> registered
              | Some verify \<Rightarrow>
                  (case verify callerAgentID of
                     Inr (Some vc) \<Rightarrow> vcd_Tags vc
                   | Inl _ \<Rightarrow> []
                   | Inr None \<Rightarrow> registered))"

definition caller_of :: "permission_env \<Rightarrow> gin \<Rightarrow> string" where
  "caller_of env c =
     (if gc_VerifiedCallerDID c \<noteq> [] then pe_ResolveAgentIDByDID env (gc_VerifiedCallerDID c) else [])"

text \<open>The evaluation, once the target is known not to be pending.\<close>

definition permission_decide ::
  "permission_env \<Rightarrow> PermissionConfig \<Rightarrow> TaggedAgent \<Rightarrow> string \<Rightarrow> gin \<Rightarrow> step" where
  "permission_decide env config agent functionName c =
     (let default_allow =
        Next (c\<lparr>gc_PermissionResult := Some \<lparr>pcr_Allowed = True, pcr_RequiresPermission = False\<rparr>\<rparr>)
      in case pe_policies env of
           None \<Rightarrow> default_allow
         | Some policies \<Rightarrow>
             (let res = EvaluateAccess (pe_num env) policies
                  (permission_caller_tags env (caller_of env c)) (CanonicalAgentTags agent) functionName
                  (permission_params env (gc_Request c))
              in if per_Matched res
                 then let c1 = c\<lparr>gc_PermissionResult :=
                            Some \<lparr>pcr_Allowed = per_Allowed res, pcr_RequiresPermission = True\<rparr>\<rparr>
                      in if \<not> per_Allowed res
                         then AbortJSON 403 ''access_denied'' ''Access denied by policy'' c1
                         else Next c1
                 else if pc_DefaultDeny config
                 then AbortJSON 403 ''no_policy_matched''
                        ''no access policy matches this request; see server logs for the unmatched tuple'' c
                 else default_allow))"

definition PermissionCheckMiddleware :: "permission_env \<Rightarrow> PermissionConfig \<Rightarrow> gin \<Rightarrow> step" where
  "PermissionCheckMiddleware env config c =
     (if \<not> pc_Enabled config then Next c
      else let target = Param (gc_Request c) ''target''
           in if target = [] then Next c
              else case parseTargetParam target of (agentID, functionName) \<Rightarrow>
                (case pe_GetAgent env agentID of
                   Inl _ \<Rightarrow> AbortJSON 403 ''target_resolution_failed''
                              ''Unable to resolve target agent for permission enforcement'' c
                 | Inr None \<Rightarrow> Next c
                 | Inr (Some agent) \<Rightarrow>
                     let c1 = c\<lparr>gc_TargetAgent := Some agent\<rparr>
                     in if ag_PendingApproval agent
                        then AbortJSON 503 ''agent_pending_approval''
                               ''Target agent is awaiting tag approval and cannot receive calls'' c1
                        else permission_decide env config agent functionName
                               (c1\<lparr>gc_TargetDID := pe_GenerateDIDWeb env agentID\<rparr>)))"

text \<open>
  The handler behind the middleware parses the target its own way, and binds the \<open>input\<close> field of
  the body as \<open>encoding/json\<close> does: the name of a member is compared without regard to case.
\<close>

definition parseTarget :: "string \<Rightarrow> goerr + string \<times> string" where
  "parseTarget value =
     (if value = [] then Inl (Errorf ''target is required'')
      else case split_on (CHR ''.'') value of
             [node, name] \<Rightarrow> Inr (node, name)
           | _ \<Rightarrow> Inl (Errorf (''target must be in format '' @ quoted ''node_id.reasoner_name'')))"

definition bound_input :: "(string \<times> jvalue) list \<Rightarrow> jvalue option" where
  "bound_input kvs = map_option snd (find (\<lambda>kv. ToLower (fst kv) = ''input'') (rev kvs))"

subsection \<open>The execute route\<close>

text \<open>
  The chain in front of \<open>POST /api/v1/execute/:target\<close> when authorization is on: the API key, the
  DID signature (whose replay cache is threaded through), the policies.
\<close>

definition execute_chain ::
  "AuthConfig \<Rightarrow> did_env \<Rightarrow> DIDAuthConfig \<Rightarrow> permission_env \<Rightarrow> PermissionConfig \<Rightarrow> clock_readings \<Rightarrow> signatureCache
     \<Rightarrow> request \<Rightarrow> step" where
  "execute_chain auth denv dconfig penv pconfig t sc r =
     run_chain [APIKeyAuth auth,
                \<lambda>c. fst (DIDAuthMiddleware denv dconfig t c sc),
                PermissionCheckMiddleware penv pconfig] (new_gin r)"

subsection \<open>What the checks say\<close>

lemma VerifyAgentTagVC_Inr:
  assumes "VerifyAgentTagVC env now stored agentID = Inr vc"
  obtains r verify where "stored = Inr r" and "vcr_RevokedAt r = None"
    and "\<forall>t. vcr_ExpiresAt r = Some t \<longrightarrow> now \<le> t"
    and "vce_parse env (vcr_VCDocument r) = Inr vc"
    and "vce_signature env = Some verify" and "verify (vcr_VCDocument r) = Inr True"
    and "vcd_AgentID vc \<in> {[], agentID}"
  using assms unfolding VerifyAgentTagVC_def
  by (auto split: sum.splits option.splits bool.splits if_splits)

text \<open>The verifier over the table of credentials.\<close>

definition stored_verifier ::
  "vc_env \<Rightarrow> instant \<Rightarrow> string option \<Rightarrow> AgentTagVCRecord list \<Rightarrow> string \<Rightarrow> goerr + AgentTagVCDocument option" where
  "stored_verifier env now fault rows agentID =
     map_sum id Some (VerifyAgentTagVC env now (GetAgentTagVC fault rows agentID) agentID)"

text \<open>
  The fallback to the tags of the registration is for agents without a credential, but for the
  store a missing credential is an error: with a verifier configured an agent without a credential
  has no tags at all.
\<close>

lemma no_credential_no_tags:
  assumes "pe_VerifyTagVC env = Some (stored_verifier venv now fault rows)"
    and "a \<notin> vcr_AgentID ` set rows"
  shows "permission_caller_tags env a = []"
proof -
  have "find (\<lambda>r. vcr_AgentID r = a) rows = None" using assms(2) by (auto simp: find_None_iff)
  then have "\<exists>e. GetAgentTagVC fault rows a = Inl e"
    by (simp add: GetAgentTagVC_def split: option.split)
  then obtain e where "GetAgentTagVC fault rows a = Inl e" ..
  then have "stored_verifier venv now fault rows a = Inl (wrapErr (''no tag VC for agent '' @ a @ '': '') e)"
    by (simp add: stored_verifier_def VerifyAgentTagVC_def)
  with assms(1) show ?thesis by (simp add: permission_caller_tags_def)
qed

text \<open>A route whose path parameter is not called \<open>target\<close> is not checked at all.\<close>

lemma unnamed_target_unchecked:
  "rq_Params (gc_Request c) = [(''reasoner_id'', target)] \<Longrightarrow> PermissionCheckMiddleware env config c = Next c"
  by (simp add: PermissionCheckMiddleware_def Param_def)

text \<open>
  The constraints see the member \<open>input\<close> of the body; the handler sees the member whose name is
  \<open>input\<close> in any case.
\<close>

lemma input_case_differs:
  "\<exists>kvs. members kvs ''input'' = None \<and> members kvs ''limit'' = Some (VNum 1)
     \<and> bound_input kvs = Some (VObj [(''limit'', VNum 1000)])"
  by (rule exI [of _ "[(''limit'', VNum 1), (''INPUT'', VObj [(''limit'', VNum 1000)])]"]) code_simp

lemma split_on_two:
  "split_on c v = [a, b] \<Longrightarrow> v = a @ c # b \<and> c \<notin> set a \<and> c \<notin> set b"
proof (induction v arbitrary: a)
  case (Cons x xs)
  have one: "split_on c v = [w] \<Longrightarrow> v = w \<and> c \<notin> set w" for v w
    by (induction v arbitrary: w) (auto split: if_splits list.splits)
  show ?case
  proof (cases "x = c")
    case True
    with Cons.prems one show ?thesis by auto
  next
    case False
    then obtain w where "split_on c xs = [w, b]" "a = x # w"
      using Cons.prems by (auto split: list.splits)
    with Cons.IH False show ?thesis by auto
  qed
qed simp

lemma str_index_dot: "c \<notin> set a \<Longrightarrow> str_index (a @ c # b) [c] = Some (length a)"
  using str_index_first [of c a b "[]"] by simp

text \<open>The middleware and the handler agree on the target of a request the handler accepts.\<close>

lemma targets_agree: "parseTarget v = Inr (node, name) \<Longrightarrow> parseTargetParam v = (node, name)"
  unfolding parseTarget_def parseTargetParam_def
  by (auto split: if_splits list.splits dest!: split_on_two simp: str_index_dot)

lemma APIKeyAuth_passed:
  assumes "passed (APIKeyAuth auth c) = Some c'" "auth_APIKey auth \<noteq> []"
    and "HasPrefix (request_path c) ''/api/v1/execute/''"
    and "request_path c \<notin> set (auth_SkipPaths auth)"
    and "\<not> list_ex (HasPrefix (request_path c)) (auth_SkipPrefixes auth)"
  shows "presented_key auth c = auth_APIKey auth \<and> gc_Request c' = gc_Request c
    \<and> gc_VerifiedCallerDID c' = gc_VerifiedCallerDID c"
proof -
  obtain x where "request_path c = ''/api/v1/execute/'' @ x" using assms(3) by (auto simp: prefix_def)
  then have "\<not> always_open (request_path c)" "\<not> HasPrefix (request_path c) ''/api/v1/agentic/kb/''"
    "\<not> HasPrefix (request_path c) ''/api/v1/connector/''" "\<not> HasPrefix (request_path c) ''/sources/''"
    by (simp_all add: always_open_def)
  with assms show ?thesis
    by (auto simp: APIKeyAuth_def Let_def AbortJSON_def split: if_splits)
qed

lemma DID_passed:
  assumes "DIDAuthMiddleware env config t c sc = (Next c', sc')" "gc_VerifiedCallerDID c = []"
  shows "gc_Request c' = gc_Request c \<and> (gc_VerifiedCallerDID c' = [] \<or>
     (\<exists>sigBytes. did_checks env config (cr_window t) c = Inr sigBytes
        \<and> (\<forall>e. sc_entries sc (de_sha env sigBytes) = Some e \<longrightarrow> e \<le> cr_seen t)
        \<and> de_verify env (gc_VerifiedCallerDID c')
            (did_payload env (GetHeader c ''X-DID-Timestamp'') (GetHeader c ''X-DID-Nonce'')
               (rq_Body (gc_Request c))) sigBytes = Inr True))"
proof (cases "claims_did config c")
  case True
  from DID_accepted [OF assms(1) this] obtain sigBytes where
    "did_checks env config (cr_window t) c = Inr sigBytes"
    "seen (cr_seen t) (cr_record t) (de_sha env sigBytes) sc = (False, sc')"
    "did_verify env sigBytes c = Next c'" by metis
  then show ?thesis by (auto simp: did_verify_Next dest: seen_new(3))
next
  case False
  then have "c' = c\<lparr>gc_DIDAuthSkipped := True\<rparr>"
    using assms(1) by (auto simp: DIDAuthMiddleware_def claims_did_def split: if_splits)
  with assms(2) show ?thesis by simp
qed

lemma permission_passed:
  assumes "passed (PermissionCheckMiddleware env config c) = Some c'" "pc_Enabled config"
    and "parseTarget (Param (gc_Request c) ''target'') = Inr (node, name)"
    and "pe_GetAgent env node = Inr (Some agent)" "pe_policies env = Some policies"
    and "r = EvaluateAccess (pe_num env) policies (permission_caller_tags env (caller_of env c))
               (CanonicalAgentTags agent) name (permission_params env (gc_Request c))"
  shows "\<not> ag_PendingApproval agent \<and> gc_TargetAgent c' = Some agent \<and> gc_VerifiedCallerDID c' = gc_VerifiedCallerDID c
    \<and> (if per_Matched r then per_Allowed r else \<not> pc_DefaultDeny config)"
proof -
  have t: "Param (gc_Request c) ''target'' \<noteq> []" using assms(3) by (auto simp: parseTarget_def)
  note defs = PermissionCheckMiddleware_def targets_agree [OF assms(3)] assms(2,4,5) t
  have np: "\<not> ag_PendingApproval agent" using assms(1) by (auto simp: defs Let_def)
  let ?c = "c\<lparr>gc_TargetAgent := Some agent, gc_TargetDID := pe_GenerateDIDWeb env node\<rparr>"
  have d: "passed (permission_decide env config agent name ?c) = Some c'"
    using assms(1) np by (simp add: defs)
  have "caller_of env ?c = caller_of env c" by (simp add: caller_of_def)
  with d show ?thesis
    using np assms(5,6) by (auto simp: permission_decide_def Let_def split: if_splits)
qed

lemma did_checks_request:
  "gc_Request c = gc_Request c' \<Longrightarrow> did_checks env config now c = did_checks env config now c'"
  by (simp add: did_checks_def Let_def)

text \<open>
  C4. The execute route is guarded: with an API key configured, outside the skip lists, and with
  permission checks on, a request that reaches the handler for an agent has presented the key; if
  it carries a verified caller DID, its signature covers this body, was inside the timestamp
  window, was not in the replay cache and verified under that DID; the agent is not awaiting
  approval; and, for the tags of the agent behind the verified DID (none without one, whatever the
  identity headers say), the highest-priority deciding policy of the table grants the call, or no
  policy decides it and the default is to allow.
\<close>

theorem execute_route_guarded:
  assumes "passed (execute_chain auth denv dconfig penv pconfig t sc r) = Some c"
    and "auth_APIKey auth \<noteq> []" and "HasPrefix (rq_Path r) ''/api/v1/execute/''"
    and "rq_Path r \<notin> set (auth_SkipPaths auth)" and "\<not> list_ex (HasPrefix (rq_Path r)) (auth_SkipPrefixes auth)"
    and "pc_Enabled pconfig" and "parseTarget (Param r ''target'') = Inr (node, name)"
    and "pe_GetAgent penv node = Inr (Some agent)" and "pe_policies penv = Some (load_policies st)"
    and "callerTags = permission_caller_tags penv (caller_of penv c)"
    and "targetTags = CanonicalAgentTags agent"
  shows "presented_key auth (new_gin r) = auth_APIKey auth
    \<and> (gc_VerifiedCallerDID c = [] \<or>
        (\<exists>sigBytes. did_checks denv dconfig (cr_window t) (new_gin r) = Inr sigBytes
           \<and> (\<forall>e. sc_entries sc (de_sha denv sigBytes) = Some e \<longrightarrow> e \<le> cr_seen t)
           \<and> de_verify denv (gc_VerifiedCallerDID c)
               (did_payload denv (rq_Header r ''X-DID-Timestamp'') (rq_Header r ''X-DID-Nonce'') (rq_Body r))
               sigBytes = Inr True))
    \<and> \<not> ag_PendingApproval agent
    \<and> ((\<exists>p \<in> set (ps_rows st). decides callerTags targetTags name p
          \<and> (\<forall>q \<in> set (ps_rows st). decides callerTags targetTags name q \<longrightarrow> policy_key p \<le> policy_key q)
          \<and> grants (pe_num penv) name (permission_params penv r) p)
       \<or> \<not> pc_DefaultDeny pconfig \<and> (\<forall>p \<in> set (ps_rows st). \<not> decides callerTags targetTags name p))"
proof -
  obtain c1 c2 where c1: "passed (APIKeyAuth auth (new_gin r)) = Some c1"
    and c2: "passed (fst (DIDAuthMiddleware denv dconfig t c1 sc)) = Some c2"
    and c3: "passed (PermissionCheckMiddleware penv pconfig c2) = Some c"
    using assms(1) unfolding execute_chain_def run_chain_passed by auto
  have key: "presented_key auth (new_gin r) = auth_APIKey auth" "gc_Request c1 = r"
    "gc_VerifiedCallerDID c1 = []"
    using APIKeyAuth_passed [OF c1 assms(2)] assms(3-5) by (simp_all add: new_gin_def)
  obtain sc2 where d: "DIDAuthMiddleware denv dconfig t c1 sc = (Next c2, sc2)"
    using c2 by (cases "DIDAuthMiddleware denv dconfig t c1 sc"; cases "fst (DIDAuthMiddleware denv dconfig t c1 sc)") auto
  note did = DID_passed [OF d key(3)]
  have req: "gc_Request c2 = r" using did key(2) by simp
  have "did_checks denv dconfig (cr_window t) c1 = did_checks denv dconfig (cr_window t) (new_gin r)"
    by (rule did_checks_request) (simp add: key(2) new_gin_def)
  note did' = did [unfolded this key(2)]
  let ?r = "EvaluateAccess (pe_num penv) (load_policies st) (permission_caller_tags penv (caller_of penv c2))
    targetTags name (permission_params penv r)"
  have perm: "\<not> ag_PendingApproval agent" "gc_VerifiedCallerDID c = gc_VerifiedCallerDID c2"
    "if per_Matched ?r then per_Allowed ?r else \<not> pc_DefaultDeny pconfig"
    using permission_passed [OF c3 assms(6) _ assms(8,9) refl, of name] assms(7,11)
    unfolding req by simp_all
  then have "permission_caller_tags penv (caller_of penv c2) = callerTags"
    by (simp add: caller_of_def assms(10))
  with perm(3) EvaluateAccess_loaded [OF refl, of "pe_num penv" st callerTags targetTags name "permission_params penv r"]
  have "(\<exists>p \<in> set (ps_rows st). decides callerTags targetTags name p
          \<and> (\<forall>q \<in> set (ps_rows st). decides callerTags targetTags name q \<longrightarrow> policy_key p \<le> policy_key q)
          \<and> grants (pe_num penv) name (permission_params penv r) p)
       \<or> \<not> pc_DefaultDeny pconfig \<and> (\<forall>p \<in> set (ps_rows st). \<not> decides callerTags targetTags name p)"
    by fastforce
  with key(1) did' perm(1,2) show ?thesis by simp
qed

definition sample_auth :: AuthConfig where
  "sample_auth = \<lparr>auth_APIKey = ''k'', auth_SkipPaths = [], auth_SkipPrefixes = [], auth_QueryAPIKeyAllowedPaths = []\<rparr>"

definition sample_agent :: TaggedAgent where
  "sample_agent = \<lparr>ag_ID = ''vault'', ag_PendingApproval = False, ag_Reasoners = [], ag_Skills = [],
     ag_Sessions = [], ag_CustomSessions = None, ag_ApprovedTags = [''vault-eu'']\<rparr>"

definition sample_permission :: permission_env where
  "sample_permission = \<lparr>pe_GetAgent = (\<lambda>_. Inr (Some sample_agent)), pe_GenerateDIDWeb = (\<lambda>a. a),
     pe_ResolveAgentIDByDID = (\<lambda>_. []), pe_VerifyTagVC = None,
     pe_policies = Some (load_policies sample_policies), pe_decode = (\<lambda>_. None), pe_num = (\<lambda>_. [])\<rparr>"

definition sample_execute :: request where
  "sample_execute = \<lparr>rq_Method = ''POST'', rq_Path = ''/api/v1/execute/vault.read'', rq_FullPath = [],
     rq_Params = [(''target'', ''vault.read'')], rq_Header = (\<lambda>h. if h = ''X-API-Key'' then ''k'' else []),
     rq_Query = (\<lambda>_. []), rq_Body = [], rq_BodyFails = False, rq_RemoteAddr = []\<rparr>"

theorem execute_route_guarded_witness:
  "presented_key sample_auth (new_gin sample_execute) = ''k''"
proof -
  let ?run = "execute_chain sample_auth sample_did_env sample_did_config sample_permission
    \<lparr>pc_Enabled = True, pc_DefaultDeny = False\<rparr> (read_at 1000) (getGlobalReplayCache second) sample_execute"
  have "\<not> Option.is_none (passed ?run)" by code_simp
  then obtain c where c: "passed ?run = Some c" by (auto simp: Option.is_none_def)
  have t: "parseTarget (Param sample_execute ''target'') = Inr (''vault'', ''read'')" by code_simp
  have k: "auth_APIKey sample_auth = ''k''" by (simp add: sample_auth_def)
  have "presented_key sample_auth (new_gin sample_execute) = auth_APIKey sample_auth"
    by (rule execute_route_guarded [where st = sample_policies and agent = sample_agent,
          OF c _ _ _ _ _ t _ _ refl refl, THEN conjunct1])
      (simp_all add: sample_auth_def sample_execute_def sample_permission_def)
  with k show ?thesis by simp
qed

end
