(* ===== verification/Memory_Store.thy ===== *)
theory Memory_Store
  imports Prelude "HOL-Library.List_Lexorder" "HOL-Library.Char_ord"
begin

text \<open>
  The key-value memory of the agents in local mode (\<open>internal/storage/local.go\<close>): one BoltDB
  bucket per scope, whose keys are the scope id and the key joined by a colon, and a cache in
  front of it. A bucket is the list of its entries in the byte order of their keys, as a cursor
  visits them; a stored record is the value it decodes to.
\<close>

subsection \<open>Byte order and prefixes\<close>

lemma prefix_le: "prefix p (s :: string) \<Longrightarrow> p \<le> s"
proof (induction p arbitrary: s)
  case (Cons a p)
  then show ?case by (cases s) auto
qed simp

lemma prefix_block:
  fixes p x y :: string
  shows "p \<le> x \<Longrightarrow> \<not> prefix p x \<Longrightarrow> x \<le> y \<Longrightarrow> \<not> prefix p y"
proof (induction p arbitrary: x y)
  case (Cons a p)
  then obtain b xs where x: "x = b # xs" by (cases x) auto
  then obtain c ys where y: "y = c # ys" using Cons.prems(3) by (cases y) auto
  show ?case
  proof (cases "a = b")
    case True
    with Cons.prems x have "p \<le> xs" "\<not> prefix p xs" by auto
    with Cons.IH [of xs ys] Cons.prems(3) x y True show ?thesis by auto
  qed (use Cons.prems x y in auto)
qed simp

text \<open>What a cursor sees from \<open>Seek(prefix)\<close> on, while the prefix lasts.\<close>

lemma prefix_scan_from:
  fixes f :: "'a \<Rightarrow> string"
  assumes "sorted (map f xs)" and "xs = [] \<or> p \<le> f (hd xs)"
  shows "takeWhile (\<lambda>x. prefix p (f x)) xs = filter (\<lambda>x. prefix p (f x)) xs"
  using assms
proof (induction xs)
  case (Cons x xs)
  show ?case
  proof (cases "prefix p (f x)")
    case True
    have "xs = [] \<or> p \<le> f (hd xs)" using Cons.prems by (cases xs) auto
    with Cons True show ?thesis by simp
  next
    case no: False
    have "\<not> prefix p (f y)" if "y \<in> set xs" for y
      using prefix_block [OF _ no] Cons.prems that by auto
    with no show ?thesis by (auto simp: filter_empty_conv)
  qed
qed simp

lemma prefix_scan:
  fixes f :: "'a \<Rightarrow> string"
  assumes "sorted (map f xs)"
  shows "takeWhile (\<lambda>x. prefix p (f x)) (dropWhile (\<lambda>x. f x < p) xs) = filter (\<lambda>x. prefix p (f x)) xs"
  using assms
proof (induction xs)
  case (Cons x xs)
  show ?case
  proof (cases "f x < p")
    case True
    then have "\<not> prefix p (f x)" using prefix_le [of p "f x"] by auto
    with True Cons show ?thesis by simp
  next
    case False
    then have "dropWhile (\<lambda>x. f x < p) (x # xs) = x # xs" by simp
    with False Cons.prems show ?thesis
      using prefix_scan_from [of f "x # xs" p] by simp
  qed
qed simp

subsection \<open>The database\<close>

record Memory =
  mem_Scope :: string
  mem_ScopeID :: string
  mem_Key :: string
  mem_Data :: string
  mem_CreatedAt :: instant
  mem_UpdatedAt :: instant

type_synonym bucket = "(string \<times> Memory) list"

fun bolt_put :: "string \<Rightarrow> Memory \<Rightarrow> bucket \<Rightarrow> bucket" where
  "bolt_put k m [] = [(k, m)]"
| "bolt_put k m ((k', m') # b) =
     (if k < k' then (k, m) # (k', m') # b
      else if k = k' then (k, m) # b
      else (k', m') # bolt_put k m b)"

definition bolt_delete :: "string \<Rightarrow> bucket \<Rightarrow> bucket" where
  "bolt_delete k b = filter (\<lambda>e. fst e \<noteq> k) b"

definition bolt_scan :: "string \<Rightarrow> bucket \<Rightarrow> Memory list" where
  "bolt_scan pre b = map snd (takeWhile (\<lambda>e. prefix pre (fst e)) (dropWhile (\<lambda>e. fst e < pre) b))"

record memory_db =
  md_buckets :: "string \<Rightarrow> bucket option"
  md_cache :: "string \<Rightarrow> Memory option"

definition bolt_key :: "string \<Rightarrow> string \<Rightarrow> string" where
  "bolt_key scopeID key = scopeID @ '':'' @ key"

definition cache_key :: "string \<Rightarrow> string \<Rightarrow> string" where
  "cache_key scope bkey = scope @ '':'' @ bkey"

definition no_bucket :: "string \<Rightarrow> goerr" where
  "no_bucket scope = Errorf (''BoltDB bucket '' @ quoted scope @ '' not found'')"

text \<open>
  A write runs its body and then commits; \<open>commit\<close> is the error of a commit that fails, after
  which the bucket is as it was. The cache is written inside the body.
\<close>

definition SetMemory :: "string option \<Rightarrow> Memory \<Rightarrow> memory_db \<Rightarrow> goerr option \<times> memory_db" where
  "SetMemory commit m db =
     (let scope = mem_Scope m; key = bolt_key (mem_ScopeID m) (mem_Key m)
      in case md_buckets db scope of
           None \<Rightarrow> (Some (no_bucket scope), db)
         | Some b \<Rightarrow>
             let db1 = db\<lparr>md_cache := (md_cache db)(cache_key scope key \<mapsto> m)\<rparr>
             in case commit of
                  Some e \<Rightarrow> (Some (Errorf e), db1)
                | None \<Rightarrow> (None, db1\<lparr>md_buckets := (md_buckets db)(scope \<mapsto> bolt_put key m b)\<rparr>))"

text \<open>The read of the bucket, and the whole lookup, which fills the cache.\<close>

definition view_memory :: "string \<Rightarrow> string \<Rightarrow> string \<Rightarrow> memory_db \<Rightarrow> goerr + Memory" where
  "view_memory scope scopeID key db =
     (case md_buckets db scope of
        None \<Rightarrow> Inl (no_bucket scope)
      | Some b \<Rightarrow>
          (case map_of b (bolt_key scopeID key) of
             None \<Rightarrow> Inl (Errorf (''memory with key '' @ quoted key @ '' not found in scope '' @ quoted scope
                       @ '' for ID '' @ quoted scopeID))
           | Some m \<Rightarrow> Inr m))"

definition store_cache :: "string \<Rightarrow> string \<Rightarrow> string \<Rightarrow> Memory \<Rightarrow> memory_db \<Rightarrow> memory_db" where
  "store_cache scope scopeID key m db =
     db\<lparr>md_cache := (md_cache db)(cache_key scope (bolt_key scopeID key) \<mapsto> m)\<rparr>"

definition GetMemory ::
  "string \<Rightarrow> string \<Rightarrow> string \<Rightarrow> memory_db \<Rightarrow> (goerr + Memory) \<times> memory_db" where
  "GetMemory scope scopeID key db =
     (case md_cache db (cache_key scope (bolt_key scopeID key)) of
        Some m \<Rightarrow> (Inr m, db)
      | None \<Rightarrow>
          (case view_memory scope scopeID key db of
             Inl e \<Rightarrow> (Inl e, db)
           | Inr m \<Rightarrow> (Inr m, store_cache scope scopeID key m db)))"

definition DeleteMemory ::
  "string option \<Rightarrow> string \<Rightarrow> string \<Rightarrow> string \<Rightarrow> memory_db \<Rightarrow> goerr option \<times> memory_db" where
  "DeleteMemory commit scope scopeID key db =
     (let bkey = bolt_key scopeID key
      in case md_buckets db scope of
           None \<Rightarrow> (Some (no_bucket scope), db)
         | Some b \<Rightarrow>
             let db1 = db\<lparr>md_cache := (md_cache db)(cache_key scope bkey := None)\<rparr>
             in case commit of
                  Some e \<Rightarrow> (Some (Errorf e), db1)
                | None \<Rightarrow> (None, db1\<lparr>md_buckets := (md_buckets db)(scope \<mapsto> bolt_delete bkey b)\<rparr>))"

definition ListMemory :: "string \<Rightarrow> string \<Rightarrow> memory_db \<Rightarrow> goerr + Memory list" where
  "ListMemory scope scopeID db =
     (case md_buckets db scope of
        None \<Rightarrow> Inl (no_bucket scope)
      | Some b \<Rightarrow> Inr (bolt_scan (scopeID @ '':'') b))"

subsection \<open>Buckets\<close>

abbreviation bucket_ok :: "bucket \<Rightarrow> bool" where
  "bucket_ok b \<equiv> sorted_wrt (<) (map fst b)"

lemma bolt_put_keys: "set (map fst (bolt_put k m b)) = insert k (set (map fst b))"
  by (induction k m b rule: bolt_put.induct) auto

lemma bolt_put_ok: "bucket_ok b \<Longrightarrow> bucket_ok (bolt_put k m b)"
proof (induction k m b rule: bolt_put.induct)
  case (2 k m k' m' b)
  have "\<forall>x \<in> set (map fst (bolt_put k m b)). k' < x" if "\<not> k < k'" "k \<noteq> k'"
    using that 2 unfolding bolt_put_keys by auto
  with 2 show ?case by (auto simp del: set_map)
qed simp

lemma map_of_bolt_put: "bucket_ok b \<Longrightarrow> map_of (bolt_put k m b) = (map_of b)(k \<mapsto> m)"
proof (induction k m b rule: bolt_put.induct)
  case (2 k m k' m' b)
  then show ?case by (auto simp: fun_eq_iff)
qed auto

lemma bolt_delete_ok: "bucket_ok b \<Longrightarrow> bucket_ok (bolt_delete k b)"
  by (induction b) (auto simp: bolt_delete_def)

lemma map_of_bolt_delete: "map_of (bolt_delete k b) = (map_of b)(k := None)"
  by (induction b) (auto simp: bolt_delete_def fun_eq_iff)

lemma bolt_scan_filter:
  "bucket_ok b \<Longrightarrow> bolt_scan pre b = map snd (filter (\<lambda>e. prefix pre (fst e)) b)"
  by (simp add: bolt_scan_def strict_sorted_iff prefix_scan)

subsection \<open>What the store is: a map\<close>

text \<open>
  Scope ids are \<open>unrelated\<close> when none is another one's prefix up to a colon; ids without a colon
  always are.
\<close>

definition unrelated :: "string set \<Rightarrow> bool" where
  "unrelated I \<longleftrightarrow> (\<forall>i \<in> I. \<forall>j \<in> I. i \<noteq> j \<longrightarrow> \<not> prefix (i @ '':'') j)"

lemma unrelated_no_colon:
  assumes "\<forall>i \<in> I. CHR '':'' \<notin> set i"
  shows "unrelated I"
proof -
  have "CHR '':'' \<in> set j" if "prefix (i @ '':'') j" for i j
    using that by (auto simp: prefix_def)
  with assms show ?thesis by (auto simp: unrelated_def)
qed

lemma bolt_key_cases:
  assumes "bolt_key i k = bolt_key j l"
  shows "i = j \<and> k = l \<or> prefix (i @ '':'') j \<or> prefix (j @ '':'') i"
proof -
  from assms consider us where "i = j @ us" "us @ '':'' @ k = '':'' @ l"
    | us where "j = i @ us" "us @ '':'' @ l = '':'' @ k"
    by (auto simp: bolt_key_def append_eq_append_conv2)
  then show ?thesis by cases (case_tac us; auto)+
qed

lemma bolt_key_inj:
  assumes "unrelated I" "i \<in> I" "j \<in> I"
  shows "bolt_key i k = bolt_key j l \<longleftrightarrow> i = j \<and> k = l"
proof
  assume eq: "bolt_key i k = bolt_key j l"
  have "i = j"
    using bolt_key_cases [OF eq] assms by (cases "i = j") (auto simp: unrelated_def)
  with eq show "i = j \<and> k = l" by (simp add: bolt_key_def)
qed simp

lemma cache_key_inj:
  assumes "CHR '':'' \<notin> set s" "CHR '':'' \<notin> set t"
  shows "cache_key s k = cache_key t l \<longleftrightarrow> s = t \<and> k = l"
proof
  assume "cache_key s k = cache_key t l"
  then have eq: "s @ CHR '':'' # k = t @ CHR '':'' # l" by (simp add: cache_key_def)
  then have "takeWhile (\<lambda>c. c \<noteq> CHR '':'') (s @ CHR '':'' # k) = takeWhile (\<lambda>c. c \<noteq> CHR '':'') (t @ CHR '':'' # l)"
    by simp
  moreover have "takeWhile (\<lambda>c. c \<noteq> CHR '':'') (x @ CHR '':'' # y) = x" if "CHR '':'' \<notin> set x" for x y
    using that by (induction x) auto
  ultimately have "s = t" using assms by metis
  with eq show "s = t \<and> k = l" by simp
qed simp

datatype memory_op = OpSet Memory | OpGet string string string | OpDelete string string string

datatype memory_out = OutDone "goerr option" | OutGet "goerr + Memory"

fun run_memory_op :: "memory_op \<Rightarrow> memory_db \<Rightarrow> memory_out \<times> memory_db" where
  "run_memory_op (OpSet m) db = (case SetMemory None m db of (r, db') \<Rightarrow> (OutDone r, db'))"
| "run_memory_op (OpGet scope sid key) db = (case GetMemory scope sid key db of (r, db') \<Rightarrow> (OutGet r, db'))"
| "run_memory_op (OpDelete scope sid key) db =
     (case DeleteMemory None scope sid key db of (r, db') \<Rightarrow> (OutDone r, db'))"

type_synonym memory_map = "string \<times> string \<times> string \<Rightarrow> Memory option"

fun spec_memory_op :: "string set \<Rightarrow> memory_op \<Rightarrow> memory_map \<Rightarrow> memory_out \<times> memory_map" where
  "spec_memory_op B (OpSet m) M =
     (if mem_Scope m \<in> B
      then (OutDone None, M((mem_Scope m, mem_ScopeID m, mem_Key m) \<mapsto> m))
      else (OutDone (Some (no_bucket (mem_Scope m))), M))"
| "spec_memory_op B (OpGet scope sid key) M =
     (if scope \<in> B
      then (case M (scope, sid, key) of
              Some m \<Rightarrow> (OutGet (Inr m), M)
            | None \<Rightarrow> (OutGet (Inl (Errorf (''memory with key '' @ quoted key @ '' not found in scope ''
                        @ quoted scope @ '' for ID '' @ quoted sid))), M))
      else (OutGet (Inl (no_bucket scope)), M))"
| "spec_memory_op B (OpDelete scope sid key) M =
     (if scope \<in> B then (OutDone None, M((scope, sid, key) := None))
      else (OutDone (Some (no_bucket scope)), M))"

fun op_scope :: "memory_op \<Rightarrow> string \<times> string" where
  "op_scope (OpSet m) = (mem_Scope m, mem_ScopeID m)"
| "op_scope (OpGet scope sid key) = (scope, sid)"
| "op_scope (OpDelete scope sid key) = (scope, sid)"

definition permitted_op :: "string set \<Rightarrow> memory_op \<Rightarrow> bool" where
  "permitted_op I op \<longleftrightarrow> CHR '':'' \<notin> set (fst (op_scope op)) \<and> snd (op_scope op) \<in> I"

definition db_ok :: "memory_db \<Rightarrow> bool" where
  "db_ok db \<longleftrightarrow> (\<forall>scope b. md_buckets db scope = Some b \<longrightarrow> bucket_ok b \<and> CHR '':'' \<notin> set scope)
     \<and> (\<forall>ck m. md_cache db ck = Some m \<longrightarrow>
          (\<exists>scope b k. ck = cache_key scope k \<and> md_buckets db scope = Some b \<and> map_of b k = Some m))"

definition memory_rel :: "string set \<Rightarrow> string set \<Rightarrow> memory_db \<Rightarrow> memory_map \<Rightarrow> bool" where
  "memory_rel B I db M \<longleftrightarrow> unrelated I \<and> db_ok db \<and> B = {scope. md_buckets db scope \<noteq> None}
     \<and> (\<forall>scope b sid key. md_buckets db scope = Some b \<longrightarrow> sid \<in> I \<longrightarrow>
          M (scope, sid, key) = map_of b (bolt_key sid key))"

lemma cache_coherent:
  assumes "db_ok db" "md_cache db (cache_key scope k) = Some m" "CHR '':'' \<notin> set scope"
  obtains b where "md_buckets db scope = Some b" "map_of b k = Some m"
  using assms cache_key_inj unfolding db_ok_def by metis

lemma db_ok_put:
  assumes "db_ok db" "md_buckets db scope = Some b"
  shows "db_ok (db\<lparr>md_cache := (md_cache db)(cache_key scope k \<mapsto> m),
           md_buckets := (md_buckets db)(scope \<mapsto> bolt_put k m b)\<rparr>)"
proof -
  have b: "bucket_ok b" "CHR '':'' \<notin> set scope" using assms by (auto simp: db_ok_def)
  have "\<exists>s b' l. ck = cache_key s l \<and> ((md_buckets db)(scope \<mapsto> bolt_put k m b)) s = Some b' \<and> map_of b' l = Some m'"
    if c: "((md_cache db)(cache_key scope k \<mapsto> m)) ck = Some m'" for ck m'
  proof (cases "ck = cache_key scope k")
    case True
    with c b show ?thesis by (auto simp: map_of_bolt_put)
  next
    case False
    with c have "md_cache db ck = Some m'" by simp
    with assms(1) obtain s b' l where
      *: "ck = cache_key s l" "md_buckets db s = Some b'" "map_of b' l = Some m'"
      unfolding db_ok_def by blast
    with False b assms(2)
    have "\<exists>b'. ((md_buckets db)(scope \<mapsto> bolt_put k m b)) s = Some b' \<and> map_of b' l = Some m'"
      by (cases "s = scope") (auto simp: map_of_bolt_put)
    with *(1) show ?thesis by blast
  qed
  with assms b show ?thesis by (auto simp: db_ok_def bolt_put_ok)
qed

lemma db_ok_delete:
  assumes "db_ok db" "md_buckets db scope = Some b"
  shows "db_ok (db\<lparr>md_cache := (md_cache db)(cache_key scope k := None),
           md_buckets := (md_buckets db)(scope \<mapsto> bolt_delete k b)\<rparr>)"
proof -
  have b: "bucket_ok b" "CHR '':'' \<notin> set scope" using assms by (auto simp: db_ok_def)
  have "\<exists>s b' l. ck = cache_key s l \<and> ((md_buckets db)(scope \<mapsto> bolt_delete k b)) s = Some b' \<and> map_of b' l = Some m'"
    if c: "((md_cache db)(cache_key scope k := None)) ck = Some m'" for ck m'
  proof -
    from c have ck: "ck \<noteq> cache_key scope k" "md_cache db ck = Some m'" by (auto split: if_splits)
    with assms(1) obtain s b' l where
      *: "ck = cache_key s l" "md_buckets db s = Some b'" "map_of b' l = Some m'"
      unfolding db_ok_def by blast
    with ck b assms(2)
    have "\<exists>b'. ((md_buckets db)(scope \<mapsto> bolt_delete k b)) s = Some b' \<and> map_of b' l = Some m'"
      by (cases "s = scope") (auto simp: map_of_bolt_delete)
    with *(1) show ?thesis by blast
  qed
  with assms b show ?thesis by (auto simp: db_ok_def bolt_delete_ok)
qed

lemma db_ok_cache:
  assumes "db_ok db" "md_buckets db scope = Some b" "map_of b k = Some m"
  shows "db_ok (db\<lparr>md_cache := (md_cache db)(cache_key scope k \<mapsto> m)\<rparr>)"
proof -
  have "\<exists>s b' l. ck = cache_key s l \<and> md_buckets db s = Some b' \<and> map_of b' l = Some m'"
    if c: "((md_cache db)(cache_key scope k \<mapsto> m)) ck = Some m'" for ck m'
  proof (cases "ck = cache_key scope k")
    case True
    with c assms show ?thesis by auto
  next
    case False
    with c have "md_cache db ck = Some m'" by simp
    with assms(1) show ?thesis unfolding db_ok_def by blast
  qed
  with assms show ?thesis by (auto simp: db_ok_def)
qed

text \<open>A lookup answers with what the bucket holds, whether or not the cache has it.\<close>

lemma GetMemory_bucket:
  assumes "db_ok db" "CHR '':'' \<notin> set scope" "GetMemory scope sid key db = (r, db')"
  shows "r = view_memory scope sid key db \<and> md_buckets db' = md_buckets db \<and> db_ok db'"
proof (cases "md_cache db (cache_key scope (bolt_key sid key))")
  case None
  with assms show ?thesis
    by (auto simp: GetMemory_def store_cache_def view_memory_def db_ok_cache split: sum.splits option.splits)
next
  case (Some m)
  from cache_coherent [OF assms(1) this assms(2)] obtain b where
    "md_buckets db scope = Some b" "map_of b (bolt_key sid key) = Some m" .
  with Some assms show ?thesis by (simp add: GetMemory_def view_memory_def)
qed

lemma memory_simulates:
  assumes "memory_rel B I db M" "permitted_op I op"
  shows "fst (run_memory_op op db) = fst (spec_memory_op B op M)
    \<and> memory_rel B I (snd (run_memory_op op db)) (snd (spec_memory_op B op M))"
proof -
  have I: "unrelated I" and ok: "db_ok db" and B: "B = {scope. md_buckets db scope \<noteq> None}"
    and M: "\<And>scope b sid key. md_buckets db scope = Some b \<Longrightarrow> sid \<in> I \<Longrightarrow>
          M (scope, sid, key) = map_of b (bolt_key sid key)"
    using assms(1) by (auto simp: memory_rel_def)
  have bok: "md_buckets db scope = Some b \<Longrightarrow> bucket_ok b" for scope b
    using ok by (simp add: db_ok_def)
  show ?thesis
  proof (cases op)
    case (OpSet m)
    let ?s = "mem_Scope m" and ?i = "mem_ScopeID m" and ?k = "mem_Key m"
    have i: "?i \<in> I" using assms(2) OpSet by (simp add: permitted_op_def)
    show ?thesis
    proof (cases "md_buckets db ?s")
      case None
      with OpSet assms(1) B show ?thesis by (simp add: SetMemory_def Let_def)
    next
      case (Some b)
      let ?db = "db\<lparr>md_cache := (md_cache db)(cache_key ?s (bolt_key ?i ?k) \<mapsto> m),
        md_buckets := (md_buckets db)(?s \<mapsto> bolt_put (bolt_key ?i ?k) m b)\<rparr>"
      have run: "run_memory_op op db = (OutDone None, ?db)"
        using OpSet Some by (simp add: SetMemory_def Let_def)
      have spec: "spec_memory_op B op M = (OutDone None, M((?s, ?i, ?k) \<mapsto> m))"
        using OpSet Some B by simp
      have "(M((?s, ?i, ?k) \<mapsto> m)) (scope, sid, key) = map_of b' (bolt_key sid key)"
        if "md_buckets ?db scope = Some b'" "sid \<in> I" for scope b' sid key
        using that Some M [of scope] bolt_key_inj [OF I that(2) i, of key ?k] bok [OF Some]
        by (cases "scope = ?s") (auto simp: map_of_bolt_put)
      then have "memory_rel B I ?db (M((?s, ?i, ?k) \<mapsto> m))"
        using I db_ok_put [OF ok Some] B Some by (auto simp: memory_rel_def)
      with run spec show ?thesis by simp
    qed
  next
    case (OpGet scope sid key)
    have c: "CHR '':'' \<notin> set scope" "sid \<in> I" using assms(2) OpGet by (simp_all add: permitted_op_def)
    obtain r db' where g: "GetMemory scope sid key db = (r, db')" by fastforce
    from GetMemory_bucket [OF ok c(1) g] have r: "r = view_memory scope sid key db"
      and b: "md_buckets db' = md_buckets db" and ok': "db_ok db'" by simp_all
    have "memory_rel B I db' M" using I ok' B M b by (auto simp: memory_rel_def)
    then show ?thesis
      using OpGet g r B c(2) M [of scope]
      by (auto simp: view_memory_def split: option.split)
  next
    case (OpDelete scope sid key)
    have i: "sid \<in> I" using assms(2) OpDelete by (simp add: permitted_op_def)
    show ?thesis
    proof (cases "md_buckets db scope")
      case None
      with OpDelete assms(1) B show ?thesis by (simp add: DeleteMemory_def Let_def)
    next
      case (Some b)
      let ?db = "db\<lparr>md_cache := (md_cache db)(cache_key scope (bolt_key sid key) := None),
        md_buckets := (md_buckets db)(scope \<mapsto> bolt_delete (bolt_key sid key) b)\<rparr>"
      have run: "run_memory_op op db = (OutDone None, ?db)"
        using OpDelete Some by (simp add: DeleteMemory_def Let_def)
      have spec: "spec_memory_op B op M = (OutDone None, M((scope, sid, key) := None))"
        using OpDelete Some B by simp
      have "(M((scope, sid, key) := None)) (scope', sid', key') = map_of b' (bolt_key sid' key')"
        if "md_buckets ?db scope' = Some b'" "sid' \<in> I" for scope' b' sid' key'
        using that Some M [of scope'] bolt_key_inj [OF I that(2) i, of key' key]
        by (cases "scope' = scope") (auto simp: map_of_bolt_delete)
      then have "memory_rel B I ?db (M((scope, sid, key) := None))"
        using I db_ok_delete [OF ok Some] B Some by (auto simp: memory_rel_def)
      with run spec show ?thesis by simp
    qed
  qed
qed

interpretation memory: refinement run_memory_op "spec_memory_op B" "memory_rel B I" "permitted_op I" for B I
  by unfold_locales (rule memory_simulates)

lemma ListMemory_spec:
  assumes "memory_rel B I db M" "scope \<in> B" "sid \<in> I"
  shows "\<exists>ms. ListMemory scope sid db = Inr ms \<and> set ms = {m. \<exists>key. M (scope, sid, key) = Some m}"
proof -
  from assms obtain b where b: "md_buckets db scope = Some b" by (auto simp: memory_rel_def)
  have ok: "bucket_ok b" using assms(1) b by (simp add: memory_rel_def db_ok_def)
  then have d: "distinct (map fst b)" by (simp add: strict_sorted_iff)
  have M: "M (scope, sid, key) = map_of b (bolt_key sid key)" for key
    using assms b by (simp add: memory_rel_def)
  have "m \<in> set (bolt_scan (sid @ '':'') b) \<longleftrightarrow> (\<exists>k. (k, m) \<in> set b \<and> prefix (sid @ '':'') k)" for m
    by (force simp: bolt_scan_filter [OF ok])
  moreover have "prefix (sid @ '':'') k \<longleftrightarrow> (\<exists>key. k = bolt_key sid key)" for k
    by (auto simp: prefix_def bolt_key_def)
  ultimately have "set (bolt_scan (sid @ '':'') b) = {m. \<exists>key. M (scope, sid, key) = Some m}"
    using d unfolding M by (auto simp: map_of_eq_Some_iff)
  with b show ?thesis by (simp add: ListMemory_def)
qed

definition memory_scopes :: "string list" where
  "memory_scopes = [''workflow'', ''session'', ''actor'', ''reasoner'', ''global'']"

definition fresh_memory :: memory_db where
  "fresh_memory = \<lparr>md_buckets = (\<lambda>s. if s \<in> set memory_scopes then Some [] else None), md_cache = (\<lambda>_. None)\<rparr>"

lemma fresh_memory_rel:
  "unrelated I \<Longrightarrow> memory_rel (set memory_scopes) I fresh_memory (\<lambda>_. None)"
proof -
  have "CHR '':'' \<notin> set s" if "s \<in> set memory_scopes" for s
    using that by (auto simp: memory_scopes_def)
  then show "unrelated I \<Longrightarrow> memory_rel (set memory_scopes) I fresh_memory (\<lambda>_. None)"
    by (auto simp: memory_rel_def fresh_memory_def db_ok_def split: if_splits)
qed


definition sample_memory :: "string \<Rightarrow> Memory" where
  "sample_memory data = \<lparr>mem_Scope = ''actor'', mem_ScopeID = ''a1'', mem_Key = ''k'', mem_Data = data,
     mem_CreatedAt = 1, mem_UpdatedAt = 1\<rparr>"


text \<open>
  Two interleavings the map does not have. A lookup that read the bucket before a delete and fills
  the cache after it brings the record back; and a write whose commit fails is served from the
  cache.
\<close>

lemma stale_read_resurrects:
  assumes "md_buckets db scope = Some b" "map_of b (bolt_key sid key) = Some m"
    and "view_memory scope sid key db = Inr m"
    and "DeleteMemory None scope sid key db = (r, db1)" and "db2 = store_cache scope sid key m db1"
  shows "r = None \<and> view_memory scope sid key db2 \<noteq> Inr m \<and> fst (GetMemory scope sid key db2) = Inr m"
  using assms by (auto simp: DeleteMemory_def Let_def store_cache_def view_memory_def GetMemory_def
      map_of_bolt_delete)

lemma failed_commit_is_served:
  assumes "md_buckets db (mem_Scope m) = Some b" and "SetMemory (Some e) m db = (r, db')"
  shows "r \<noteq> None \<and> md_buckets db' = md_buckets db
    \<and> fst (GetMemory (mem_Scope m) (mem_ScopeID m) (mem_Key m) db') = Inr m"
  using assms by (auto simp: SetMemory_def Let_def GetMemory_def)

end
