(* ===== verification/Memory_Access.thy ===== *)
theory Memory_Access
  imports Http Memory_Store
begin

text \<open>
  Authorization of the memory endpoints (\<open>internal/server/middleware/memory_permission.go\<close>,
  \<open>memory_authorizer.go\<close>) and the handlers behind it (\<open>internal/handlers/memory.go\<close>). A BoltDB
  key does not say where the scope id ends, so the authorizer protects every registered agent id
  that is related to the requested scope id; the theorem at the end says what that buys.
\<close>

subsection \<open>The registry snapshot\<close>

record memoryAgentIndex =
  mai_ids :: "string list"
  mai_set :: "string set"

definition SearchStrings :: "string list \<Rightarrow> string \<Rightarrow> nat" where
  "SearchStrings ids x = length (takeWhile (\<lambda>s. s < x) ids)"

definition hasForeignRelatedID :: "memoryAgentIndex \<Rightarrow> string \<Rightarrow> string \<Rightarrow> bool" where
  "hasForeignRelatedID index selector caller =
     (let foreign = (\<lambda>k. k \<in> mai_set index \<and> k \<noteq> caller);
          pre = selector @ '':''
      in if foreign selector then True
         else if list_ex (\<lambda>i. selector ! i = CHR '':'' \<and> foreign (take i selector)) [0..<length selector]
         then True
         else list_ex (\<lambda>k. k \<noteq> caller)
                (takeWhile (\<lambda>k. HasPrefix k pre) (drop (SearchStrings (mai_ids index) pre) (mai_ids index))))"

text \<open>The index of a list of nodes, in which an entry may be nil.\<close>

definition agent_index :: "string option list \<Rightarrow> memoryAgentIndex" where
  "agent_index nodes =
     (let s = remdups (List.map_filter id nodes) in \<lparr>mai_ids = sort s, mai_set = set s\<rparr>)"

definition memoryRegistryTTL :: duration where "memoryRegistryTTL = 2 * second"

record memoryAgentSnapshot =
  mas_reader :: bool
  mas_loaded :: bool
  mas_checked :: instant
  mas_index :: "memoryAgentIndex option"
  mas_err :: "goerr option"

definition snapshot_result :: "memoryAgentSnapshot \<Rightarrow> goerr + memoryAgentIndex" where
  "snapshot_result s =
     (case mas_err s of
        Some e \<Rightarrow> Inl e
      | None \<Rightarrow> (case mas_index s of Some i \<Rightarrow> Inr i | None \<Rightarrow> Inr \<lparr>mai_ids = [], mai_set = {}\<rparr>))"

text \<open>\<open>answer\<close> is what \<open>ListAgents\<close> answers if it is called; \<open>now\<close> and \<open>later\<close> are the two readings.\<close>

definition agentIDs ::
  "goerr + string option list \<Rightarrow> instant \<Rightarrow> instant \<Rightarrow> memoryAgentSnapshot
     \<Rightarrow> (goerr + memoryAgentIndex) \<times> memoryAgentSnapshot" where
  "agentIDs answer now later s =
     (if \<not> mas_reader s then (Inl (Errorf ''memory agent registry unavailable''), s)
      else if mas_loaded s \<and> time_Sub now (mas_checked s) < memoryRegistryTTL
      then (snapshot_result s, s)
      else let s' = (case answer of
                Inl e \<Rightarrow> s\<lparr>mas_index := None, mas_err := Some e\<rparr>
              | Inr nodes \<Rightarrow> s\<lparr>mas_index := Some (agent_index nodes), mas_err := None\<rparr>)
               \<lparr>mas_checked := later, mas_loaded := True\<rparr>
           in (snapshot_result s', s'))"

subsection \<open>The authorizer\<close>

record MemoryAccessDenial =
  den_Error :: string
  den_Message :: string

record memoryAuthorizer =
  ma_callerID :: string
  ma_EnforceScopeOwnership :: bool

definition memoryActorMaxColons :: nat where "memoryActorMaxColons = 16"

definition scope_denied :: "string \<Rightarrow> MemoryAccessDenial option" where
  "scope_denied msg = Some \<lparr>den_Error = ''scope_ownership_denied'', den_Message = msg\<rparr>"

text \<open>\<open>index\<close> is what \<open>agentIDs\<close> answers; it is only looked at for the actor scope.\<close>

definition authorize ::
  "memoryAuthorizer \<Rightarrow> goerr + memoryAgentIndex \<Rightarrow> string \<Rightarrow> string \<Rightarrow> MemoryAccessDenial option" where
  "authorize a index scope scopeID =
     (if scope = ''global'' then None
      else if scope \<noteq> ''actor'' \<and> scope \<noteq> ''session'' \<and> scope \<noteq> ''workflow''
      then scope_denied (''Unknown memory scope '' @ go_quote scope)
      else if ma_callerID a = []
      then Some \<lparr>den_Error = ''memory_identity_required'',
             den_Message = ''A caller agent identity (verified DID, X-Agent-Node-ID or X-Caller-Agent-ID) is required for ''
               @ scope @ ''-scoped memory when memory authorization is enabled''\<rparr>
      else if \<not> ma_EnforceScopeOwnership a then None
      else if scope = ''actor''
      then (if memoryActorMaxColons < count_list scopeID (CHR '':'')
            then scope_denied (''Actor memory scope ID contains too many '' @ quoted '':'' @ '' separators'')
            else case index of
                   Inr i \<Rightarrow>
                     if hasForeignRelatedID i scopeID (ma_callerID a)
                     then scope_denied ''Agent does not own the requested memory scope''
                     else None
                 | Inl _ \<Rightarrow> scope_denied ''Agent does not own the requested memory scope'')
      else None)"

text \<open>
  The filter of a wildcard event stream. \<open>granted\<close> is the verdict of the token bucket,
  \<open>participates\<close> the number of executions the query of a scope finds, if it succeeds; \<open>evict\<close> picks
  the entry a full cache drops.
\<close>

definition memoryEventCacheLimit :: nat where "memoryEventCacheLimit = 256"

definition eventFilter ::
  "memoryAuthorizer \<Rightarrow> bool \<Rightarrow> bool \<Rightarrow> goerr + memoryAgentIndex \<Rightarrow> bool
     \<Rightarrow> (string \<Rightarrow> string \<Rightarrow> goerr + nat) \<Rightarrow> (((string \<times> string) \<times> bool) list \<Rightarrow> string \<times> string)
     \<Rightarrow> string \<times> string \<Rightarrow> ((string \<times> string) \<times> bool) list
     \<Rightarrow> bool \<times> ((string \<times> string) \<times> bool) list" where
  "eventFilter a has_reader snapshot index granted participates evict key cache =
     (case key of (scope, scopeID) \<Rightarrow>
        if authorize a index scope scopeID \<noteq> None then (False, cache)
        else case map_of cache key of
               Some allowed \<Rightarrow> (allowed, cache)
             | None \<Rightarrow>
                 if scope = ''global'' \<or> scope = ''actor'' \<and> scopeID = ma_callerID a then (True, cache)
                 else if scopeID = [] \<or> \<not> has_reader then (False, cache)
                 else if \<not> snapshot \<and> \<not> granted then (False, cache)
                 else let allowed = (case participates scope scopeID of Inr n \<Rightarrow> 0 < n | Inl _ \<Rightarrow> False)
                      in if \<not> snapshot \<and> \<not> allowed then (False, cache)
                         else let cache1 = (if \<not> snapshot \<and> memoryEventCacheLimit \<le> length cache
                                then filter (\<lambda>e. fst e \<noteq> evict cache) cache else cache)
                              in (allowed, (key, allowed) # cache1))"

text \<open>Without the middleware there is no authorizer, and every scope is allowed.\<close>

definition AuthorizeMemoryScope ::
  "memoryAuthorizer option \<Rightarrow> goerr + memoryAgentIndex \<Rightarrow> string \<Rightarrow> string \<Rightarrow> MemoryAccessDenial option" where
  "AuthorizeMemoryScope authorizer index scope scopeID =
     (case authorizer of None \<Rightarrow> None | Some a \<Rightarrow> authorize a index scope scopeID)"

subsection \<open>The middleware\<close>

definition resolveCallerIdentity :: "(string \<Rightarrow> string) option \<Rightarrow> gin \<Rightarrow> string" where
  "resolveCallerIdentity resolver c =
     (if gc_VerifiedCallerDID c \<noteq> []
      then (case resolver of Some f \<Rightarrow> f (gc_VerifiedCallerDID c) | None \<Rightarrow> [])
      else let agentID = TrimSpace (GetHeader c ''X-Caller-Agent-ID'')
           in if agentID \<noteq> [] then agentID else TrimSpace (GetHeader c ''X-Agent-Node-ID''))"

definition resolveMemoryOperation :: "string \<Rightarrow> string \<Rightarrow> string" where
  "resolveMemoryOperation p method =
     (if Contains p ''/memory/vector''
      then (if method = ''DELETE'' \<or> method = ''POST'' \<and> p = ''/api/v1/memory/vector/delete''
            then ''vector.delete''
            else if method = ''POST'' \<and> p = ''/api/v1/memory/vector/search'' then ''vector.search''
            else if method = ''GET'' then ''vector.read''
            else ''vector.write'')
      else if Contains p ''/memory/events'' then ''memory.subscribe''
      else if Contains p ''/delete'' then ''memory.delete''
      else if Contains p ''/set'' then ''memory.write''
      else if Contains p ''/get'' \<or> Contains p ''/list'' then ''memory.read''
      else ''memory.unknown'')"

definition isMemoryAgentNotFound :: "goerr \<Rightarrow> string \<Rightarrow> bool" where
  "isMemoryAgentNotFound e k \<longleftrightarrow> err_msg e = ''agent node with ID '' @ quoted k @ '' not found''"

text \<open>
  \<open>mp_GetAgent\<close>, \<open>mp_resolver\<close> and \<open>mp_policies\<close> are absent when the service is not configured.
\<close>

record memory_permission_env =
  mp_Enabled :: bool
  mp_EnforceScopeOwnership :: bool
  mp_GetAgent :: "(string \<Rightarrow> goerr + TaggedAgent option) option"
  mp_resolver :: "(string \<Rightarrow> string) option"
  mp_policies :: "AccessPolicy list option"
  mp_num :: "rat \<Rightarrow> string"

datatype memory_step = MemNext gin "memoryAuthorizer option" | MemAbort reply gin

definition MemoryPermissionMiddleware :: "memory_permission_env \<Rightarrow> gin \<Rightarrow> memory_step" where
  "MemoryPermissionMiddleware env c =
     (if \<not> mp_Enabled env then MemNext c None
      else
        let callerAgentID = resolveCallerIdentity (mp_resolver env) c;
            c1 = c\<lparr>gc_CallerAgentID := callerAgentID\<rparr>;
            accept = MemNext c1 (Some \<lparr>ma_callerID = callerAgentID,
                       ma_EnforceScopeOwnership = mp_EnforceScopeOwnership env\<rparr>)
        in case mp_policies env of
             None \<Rightarrow> accept
           | Some policies \<Rightarrow>
               (let found = (case mp_GetAgent env of
                       Some get \<Rightarrow> if callerAgentID \<noteq> [] then get callerAgentID else Inr None
                     | None \<Rightarrow> Inr None);
                    judge = (\<lambda>callerTags.
                      let res = EvaluateAccess (mp_num env) policies callerTags [''memory'']
                            (resolveMemoryOperation (request_path c) (rq_Method (gc_Request c))) None
                      in if per_Matched res \<and> \<not> per_Allowed res
                         then MemAbort (JSONreply 403 [(''error'', JStr ''memory_access_denied''),
                                (''message'', JStr ''Access denied by memory policy''),
                                (''policy'', JStr (per_PolicyName res))]) c1
                         else accept)
                in case found of
                     Inl e \<Rightarrow>
                       if \<not> isMemoryAgentNotFound e callerAgentID
                       then MemAbort (JSONreply 503 [(''error'', JStr ''memory_authorization_unavailable''),
                              (''message'', JStr ''Unable to resolve caller tags for memory authorization'')]) c1
                       else judge []
                   | Inr None \<Rightarrow> judge []
                   | Inr (Some agent) \<Rightarrow> judge (ag_ApprovedTags agent)))"

subsection \<open>The handlers\<close>

definition getScopeID :: "gin \<Rightarrow> string \<Rightarrow> string" where
  "getScopeID c scope =
     (if scope = ''workflow'' then GetHeader c ''X-Workflow-ID''
      else if scope = ''session'' then GetHeader c ''X-Session-ID''
      else if scope = ''actor'' then GetHeader c ''X-Actor-ID''
      else if scope = ''global'' then ''global''
      else [])"

definition resolveScope :: "gin \<Rightarrow> string option \<Rightarrow> string \<times> string" where
  "resolveScope c explicitScope =
     (case explicitScope of
        Some scope \<Rightarrow> (scope, getScopeID c scope)
      | None \<Rightarrow>
          if GetHeader c ''X-Workflow-ID'' \<noteq> [] then (''workflow'', GetHeader c ''X-Workflow-ID'')
          else if GetHeader c ''X-Session-ID'' \<noteq> [] then (''session'', GetHeader c ''X-Session-ID'')
          else if GetHeader c ''X-Actor-ID'' \<noteq> [] then (''actor'', GetHeader c ''X-Actor-ID'')
          else (''global'', ''global''))"

record MemoryChangeEvent =
  mce_Scope :: string
  mce_ScopeID :: string
  mce_Key :: string
  mce_Action :: string
  mce_Data :: "string option"
  mce_PreviousData :: "string option"
  mce_AgentID :: string
  mce_ActorID :: string
  mce_WorkflowID :: string

definition change_event ::
  "gin \<Rightarrow> string \<Rightarrow> string \<Rightarrow> string \<Rightarrow> string \<Rightarrow> string option \<Rightarrow> string option \<Rightarrow> MemoryChangeEvent" where
  "change_event c scope scopeID key action data_json previous =
     \<lparr>mce_Scope = scope, mce_ScopeID = scopeID, mce_Key = key, mce_Action = action,
      mce_Data = data_json, mce_PreviousData = previous, mce_AgentID = GetHeader c ''X-Agent-Node-ID'',
      mce_ActorID = GetHeader c ''X-Actor-ID'', mce_WorkflowID = GetHeader c ''X-Workflow-ID''\<rparr>"

record memory_world =
  mw_db :: memory_db
  mw_events :: "MemoryChangeEvent list"
  mw_published :: "MemoryChangeEvent list"

text \<open>What the storage does with the write, with the event and with its publication.\<close>

record memory_faults =
  mf_commit :: "string option"
  mf_event :: bool
  mf_publish :: bool

definition emit_change :: "memory_faults \<Rightarrow> MemoryChangeEvent \<Rightarrow> memory_world \<Rightarrow> memory_world" where
  "emit_change fl ev w =
     (if mf_event fl then w
      else let w1 = w\<lparr>mw_events := mw_events w @ [ev]\<rparr>
           in if mf_publish fl then w1 else w1\<lparr>mw_published := mw_published w1 @ [ev]\<rparr>)"

datatype memory_reply = MemError nat string string | MemDenied MemoryAccessDenial
  | MemRecord Memory | MemList "Memory list" | MemNoContent

record SetMemoryRequest =
  smr_Key :: string
  smr_Data :: "string + string"
  smr_Scope :: "string option"

record GetMemoryRequest =
  gmr_Key :: string
  gmr_Scope :: "string option"

definition previous_data :: "string \<Rightarrow> string \<Rightarrow> string \<Rightarrow> memory_db \<Rightarrow> string option \<times> memory_db" where
  "previous_data scope scopeID key db =
     (case GetMemory scope scopeID key db of
        (Inr m, db') \<Rightarrow> (Some (mem_Data m), db')
      | (Inl _, db') \<Rightarrow> (None, db'))"

definition SetMemoryHandler ::
  "memoryAuthorizer option \<Rightarrow> goerr + memoryAgentIndex \<Rightarrow> memory_faults \<Rightarrow> instant \<Rightarrow> gin
     \<Rightarrow> string + SetMemoryRequest \<Rightarrow> memory_world \<Rightarrow> memory_reply \<times> memory_world" where
  "SetMemoryHandler authorizer index fl now c bound w =
     (case bound of
        Inl e \<Rightarrow> (MemError 400 ''invalid_request'' e, w)
      | Inr req \<Rightarrow>
     (case resolveScope c (smr_Scope req) of (scope, scopeID) \<Rightarrow>
     (case AuthorizeMemoryScope authorizer index scope scopeID of
        Some denial \<Rightarrow> (MemDenied denial, w)
      | None \<Rightarrow>
     (case previous_data scope scopeID (smr_Key req) (mw_db w) of (previousData, db1) \<Rightarrow>
     (case smr_Data req of
        Inl e \<Rightarrow> (MemError 400 ''marshal_error'' e, w\<lparr>mw_db := db1\<rparr>)
      | Inr dataJSON \<Rightarrow>
          (let memory = \<lparr>mem_Scope = scope, mem_ScopeID = scopeID, mem_Key = smr_Key req,
                 mem_Data = dataJSON, mem_CreatedAt = now, mem_UpdatedAt = now\<rparr>
           in case SetMemory (mf_commit fl) memory db1 of
                (Some e, db2) \<Rightarrow> (MemError 500 ''storage_error'' (err_msg e), w\<lparr>mw_db := db2\<rparr>)
              | (None, db2) \<Rightarrow>
                  (MemRecord memory,
                   emit_change fl (change_event c scope scopeID (smr_Key req) ''set'' (Some dataJSON) previousData)
                     (w\<lparr>mw_db := db2\<rparr>))))))))"

text \<open>The hierarchical search skips the scopes the caller may not read.\<close>

fun search_scopes ::
  "memoryAuthorizer option \<Rightarrow> goerr + memoryAgentIndex \<Rightarrow> gin \<Rightarrow> string \<Rightarrow> string list \<Rightarrow> memory_db
     \<Rightarrow> Memory option \<times> memory_db" where
  "search_scopes authorizer index c key [] db = (None, db)"
| "search_scopes authorizer index c key (scope # scopes) db =
     (let scopeID = getScopeID c scope
      in if scopeID \<noteq> [] \<or> scope = ''global''
         then (let scopeID = (if scope = ''global'' then ''global'' else scopeID)
               in if AuthorizeMemoryScope authorizer index scope scopeID \<noteq> None
                  then search_scopes authorizer index c key scopes db
                  else case GetMemory scope scopeID key db of
                         (Inr m, db') \<Rightarrow> (Some m, db')
                       | (Inl _, db') \<Rightarrow> search_scopes authorizer index c key scopes db')
         else search_scopes authorizer index c key scopes db)"

definition GetMemoryHandler ::
  "memoryAuthorizer option \<Rightarrow> goerr + memoryAgentIndex \<Rightarrow> gin \<Rightarrow> string + GetMemoryRequest
     \<Rightarrow> memory_world \<Rightarrow> memory_reply \<times> memory_world" where
  "GetMemoryHandler authorizer index c bound w =
     (case bound of
        Inl e \<Rightarrow> (MemError 400 ''invalid_request'' e, w)
      | Inr req \<Rightarrow>
          (case gmr_Scope req of
             Some s \<Rightarrow>
               (case resolveScope c (Some s) of (scope, scopeID) \<Rightarrow>
                  (case AuthorizeMemoryScope authorizer index scope scopeID of
                     Some denial \<Rightarrow> (MemDenied denial, w)
                   | None \<Rightarrow>
                       (case GetMemory scope scopeID (gmr_Key req) (mw_db w) of
                          (Inl e, db') \<Rightarrow> (MemError 404 ''not_found'' (err_msg e), w\<lparr>mw_db := db'\<rparr>)
                        | (Inr m, db') \<Rightarrow> (MemRecord m, w\<lparr>mw_db := db'\<rparr>))))
           | None \<Rightarrow>
               (case search_scopes authorizer index c (gmr_Key req)
                       [''workflow'', ''session'', ''actor'', ''global''] (mw_db w) of
                  (Some m, db') \<Rightarrow> (MemRecord m, w\<lparr>mw_db := db'\<rparr>)
                | (None, db') \<Rightarrow> (MemError 404 ''not_found'' ''Memory key not found in any scope'', w\<lparr>mw_db := db'\<rparr>))))"

definition DeleteMemoryHandler ::
  "memoryAuthorizer option \<Rightarrow> goerr + memoryAgentIndex \<Rightarrow> memory_faults \<Rightarrow> gin
     \<Rightarrow> string + GetMemoryRequest \<Rightarrow> memory_world \<Rightarrow> memory_reply \<times> memory_world" where
  "DeleteMemoryHandler authorizer index fl c bound w =
     (case bound of
        Inl e \<Rightarrow> (MemError 400 ''invalid_request'' e, w)
      | Inr req \<Rightarrow>
     (case resolveScope c (gmr_Scope req) of (scope, scopeID) \<Rightarrow>
     (case AuthorizeMemoryScope authorizer index scope scopeID of
        Some denial \<Rightarrow> (MemDenied denial, w)
      | None \<Rightarrow>
     (case previous_data scope scopeID (gmr_Key req) (mw_db w) of (previousData, db1) \<Rightarrow>
     (case DeleteMemory (mf_commit fl) scope scopeID (gmr_Key req) db1 of
        (Some e, db2) \<Rightarrow> (MemError 404 ''not_found'' (err_msg e), w\<lparr>mw_db := db2\<rparr>)
      | (None, db2) \<Rightarrow>
          (MemNoContent,
           emit_change fl (change_event c scope scopeID (gmr_Key req) ''delete'' None previousData)
             (w\<lparr>mw_db := db2\<rparr>)))))))"

definition ListMemoryHandler ::
  "memoryAuthorizer option \<Rightarrow> goerr + memoryAgentIndex \<Rightarrow> gin \<Rightarrow> memory_world \<Rightarrow> memory_reply" where
  "ListMemoryHandler authorizer index c w =
     (let scopeParam = rq_Query (gc_Request c) ''scope''
      in if scopeParam = []
         then MemError 400 ''missing_scope'' ''Scope parameter is required for listing memory''
         else case resolveScope c (Some scopeParam) of (scope, scopeID) \<Rightarrow>
           (case AuthorizeMemoryScope authorizer index scope scopeID of
              Some denial \<Rightarrow> MemDenied denial
            | None \<Rightarrow>
                (case ListMemory scope scopeID (mw_db w) of
                   Inl e \<Rightarrow> MemError 500 ''storage_error'' (err_msg e)
                 | Inr memories \<Rightarrow> MemList memories)))"

subsection \<open>What the authorizer permits\<close>

definition related :: "string \<Rightarrow> string \<Rightarrow> bool" where
  "related i j \<longleftrightarrow> i = j \<or> prefix (i @ '':'') j \<or> prefix (j @ '':'') i"

lemma colon_prefix:
  "prefix (k @ '':'') s \<longleftrightarrow> (\<exists>i < length s. s ! i = CHR '':'' \<and> take i s = k)"
proof
  assume "prefix (k @ '':'') s"
  then obtain t where "s = k @ CHR '':'' # t" by (auto simp: prefix_def)
  then show "\<exists>i < length s. s ! i = CHR '':'' \<and> take i s = k" by (intro exI [of _ "length k"]) simp
next
  assume "\<exists>i < length s. s ! i = CHR '':'' \<and> take i s = k"
  then obtain i where i: "i < length s" "s ! i = CHR '':''" "take i s = k" by blast
  then have "s = k @ '':'' @ drop (Suc i) s" using id_take_nth_drop [of i s] by simp
  then show "prefix (k @ '':'') s" by (metis append.assoc prefixI)
qed

text \<open>The two lookups and the binary search find exactly the related ids of other agents.\<close>

lemma hasForeignRelatedID_iff:
  "hasForeignRelatedID (agent_index nodes) selector caller \<longleftrightarrow>
     (\<exists>k. Some k \<in> set nodes \<and> k \<noteq> caller \<and> related k selector)"
proof -
  let ?S = "set (List.map_filter id nodes)" and ?pre = "selector @ '':''"
  have S: "k \<in> ?S \<longleftrightarrow> Some k \<in> set nodes" for k by (force simp: map_filter_def)
  let ?ids = "mai_ids (agent_index nodes)"
  have ids: "sorted ?ids" "set ?ids = ?S" "mai_set (agent_index nodes) = ?S"
    by (simp_all add: agent_index_def Let_def)
  have child: "takeWhile (prefix ?pre) (drop (SearchStrings ?ids ?pre) ?ids) = filter (prefix ?pre) ?ids"
    using prefix_scan [of "\<lambda>x. x" ?ids ?pre] ids(1)
    by (simp add: SearchStrings_def dropWhile_eq_drop [symmetric])
  let ?f = "\<lambda>k. k \<in> mai_set (agent_index nodes) \<and> k \<noteq> caller"
  have f: "?f k \<longleftrightarrow> Some k \<in> set nodes \<and> k \<noteq> caller" for k using ids(3) S by simp
  have parent: "list_ex (\<lambda>i. selector ! i = CHR '':'' \<and> ?f (take i selector)) [0..<length selector]
      \<longleftrightarrow> (\<exists>k. ?f k \<and> prefix (k @ '':'') selector)"
    unfolding colon_prefix list_ex_iff by fastforce
  have below: "list_ex (\<lambda>k. k \<noteq> caller) (filter (prefix ?pre) ?ids) \<longleftrightarrow> (\<exists>k. ?f k \<and> prefix ?pre k)"
    using ids by (auto simp: list_ex_iff)
  have "hasForeignRelatedID (agent_index nodes) selector caller \<longleftrightarrow>
      ?f selector \<or> (\<exists>k. ?f k \<and> prefix (k @ '':'') selector) \<or> (\<exists>k. ?f k \<and> prefix ?pre k)"
    unfolding hasForeignRelatedID_def Let_def child parent below if_bool_eq_disj by blast
  also have "\<dots> \<longleftrightarrow> (\<exists>k. Some k \<in> set nodes \<and> k \<noteq> caller \<and> related k selector)"
    unfolding f related_def by blast
  finally show ?thesis .
qed

text \<open>A scope that cannot reach the records of agent \<open>b\<close>.\<close>

definition apart :: "string \<Rightarrow> string \<Rightarrow> string \<Rightarrow> bool" where
  "apart b scope sid \<longleftrightarrow> CHR '':'' \<notin> set scope \<and> (scope = ''actor'' \<longrightarrow> \<not> related b sid)"

lemma authorize_apart:
  assumes "authorize a index scope sid = None" "ma_EnforceScopeOwnership a"
    and "\<forall>i. index = Inr i \<longrightarrow> i = agent_index nodes" and "Some b \<in> set nodes" "b \<noteq> ma_callerID a"
  shows "apart b scope sid"
proof -
  have "scope \<in> {''global'', ''actor'', ''session'', ''workflow''}"
    using assms(1) by (auto simp: authorize_def scope_denied_def split: if_splits)
  moreover have "\<not> related b sid" if "scope = ''actor''"
    using assms that hasForeignRelatedID_iff [of nodes sid "ma_callerID a"]
    by (auto simp: authorize_def scope_denied_def split: if_splits sum.splits)
  ultimately show ?thesis by (auto simp: apart_def)
qed

text \<open>
  A wildcard stream delivers an event only inside the scopes the caller may read, and then only if
  the scope is global or its own, or the caller was found to take part in it.
\<close>

definition participation_known ::
  "((string \<times> string) \<Rightarrow> bool) \<Rightarrow> ((string \<times> string) \<times> bool) list \<Rightarrow> bool" where
  "participation_known P cache \<longleftrightarrow> (\<forall>key. (key, True) \<in> set cache \<longrightarrow> P key)"

lemma event_filter_sound:
  assumes "eventFilter a has_reader snapshot index granted participates evict (scope, sid) cache = (d, cache')"
    and "participation_known P cache"
    and "\<And>n. participates scope sid = Inr n \<Longrightarrow> 0 < n \<Longrightarrow> P (scope, sid)"
  shows "participation_known P cache'
    \<and> (d \<longrightarrow> authorize a index scope sid = None
         \<and> (scope = ''global'' \<or> scope = ''actor'' \<and> sid = ma_callerID a \<or> P (scope, sid)))"
  using assms unfolding eventFilter_def participation_known_def Let_def
  by (auto split: if_splits option.splits sum.splits dest!: map_of_SomeD)

subsection \<open>Non-interference\<close>

text \<open>
  \<open>hide b db\<close> is the database without the records of agent \<open>b\<close>, and \<open>secret b db\<close> is what was
  taken away: the entries of the actor bucket under \<open>b:\<close>, and those of the cache.
\<close>

definition own :: "string \<Rightarrow> string \<Rightarrow> bool" where
  "own b k \<longleftrightarrow> prefix (b @ '':'') k"

definition own_cached :: "string \<Rightarrow> string \<Rightarrow> bool" where
  "own_cached b ck \<longleftrightarrow> prefix (cache_key ''actor'' (b @ '':'')) ck"

definition hide :: "string \<Rightarrow> memory_db \<Rightarrow> memory_db" where
  "hide b db = \<lparr>md_buckets = (\<lambda>scope. if scope = ''actor''
       then map_option (filter (\<lambda>e. \<not> own b (fst e))) (md_buckets db scope) else md_buckets db scope),
     md_cache = (\<lambda>ck. if own_cached b ck then None else md_cache db ck)\<rparr>"

definition secret :: "string \<Rightarrow> memory_db \<Rightarrow> bucket option \<times> (string \<Rightarrow> Memory option)" where
  "secret b db = (map_option (filter (\<lambda>e. own b (fst e))) (md_buckets db ''actor''),
     \<lambda>ck. if own_cached b ck then md_cache db ck else None)"

lemma apart_keys:
  assumes "apart b scope sid"
  shows "scope = ''actor'' \<Longrightarrow> \<not> own b (bolt_key sid key)"
    and "\<not> own_cached b (cache_key scope (bolt_key sid key))"
proof -
  show no: "\<not> own b (bolt_key sid key)" if "scope = ''actor''"
  proof
    assume "own b (bolt_key sid key)"
    then obtain l where "bolt_key b l = bolt_key sid key"
      by (auto simp: own_def prefix_def bolt_key_def)
    from bolt_key_cases [OF this] assms that show False by (auto simp: apart_def related_def)
  qed
  show "\<not> own_cached b (cache_key scope (bolt_key sid key))"
  proof
    assume "own_cached b (cache_key scope (bolt_key sid key))"
    then obtain l where "cache_key ''actor'' (b @ '':'' @ l) = cache_key scope (bolt_key sid key)"
      by (auto simp: own_cached_def prefix_def cache_key_def)
    then have "scope = ''actor''" "b @ '':'' @ l = bolt_key sid key"
      using cache_key_inj [of "''actor''" scope] assms by (auto simp: apart_def)
    with no show False by (metis own_def append.assoc prefixI)
  qed
qed

lemma filter_bolt_put:
  "bucket_ok b \<Longrightarrow> Q k \<Longrightarrow>
     filter (\<lambda>e. Q (fst e)) (bolt_put k m b) = bolt_put k m (filter (\<lambda>e. Q (fst e)) b)"
proof (induction k m b rule: bolt_put.induct)
  case (2 k m k' m' b)
  have first: "bolt_put k m ys = (k, m) # ys" if "\<forall>e \<in> set ys. k < fst e" for ys :: bucket
    using that by (cases ys) auto
  show ?case
  proof (cases "k < k'")
    case True
    have "\<forall>x \<in> set b. k' < fst x" using "2.prems"(1) by simp
    with True have "\<forall>e \<in> set (filter (\<lambda>e. Q (fst e)) ((k', m') # b)). k < fst e"
      by (auto intro: order.strict_trans)
    with True 2 first show ?thesis by simp
  next
    case False
    with 2 show ?thesis by (auto split: if_splits)
  qed
qed simp

lemma filter_bolt_put_out:
  "\<not> Q k \<Longrightarrow> filter (\<lambda>e. Q (fst e)) (bolt_put k m b) = filter (\<lambda>e. Q (fst e)) b"
  by (induction k m b rule: bolt_put.induct) auto

lemma map_of_filter_keys: "Q k \<Longrightarrow> map_of (filter (\<lambda>e. Q (fst e)) b) k = map_of b k"
  by (induction b) auto

text \<open>
  An operation that keeps to itself: on the database without the records of \<open>b\<close> it gives the same
  answer and the same database without them, and those records are as they were.
\<close>

definition keeps_to_itself :: "string \<Rightarrow> (memory_db \<Rightarrow> 'r \<times> memory_db) \<Rightarrow> memory_db \<Rightarrow> bool" where
  "keeps_to_itself b f db \<longleftrightarrow> f (hide b db) = (fst (f db), hide b (snd (f db)))
     \<and> secret b (snd (f db)) = secret b db"

lemma keeps_to_itselfI:
  "f (hide b db) = (r, hide b db') \<Longrightarrow> f db = (r, db') \<Longrightarrow> secret b db' = secret b db \<Longrightarrow>
     keeps_to_itself b f db"
  by (simp add: keeps_to_itself_def)

lemma itself_return: "keeps_to_itself b (\<lambda>db. (r, db)) db"
  by (simp add: keeps_to_itself_def)

lemma itself_bind:
  assumes "keeps_to_itself b f db" and "keeps_to_itself b (g (fst (f db))) (snd (f db))"
  shows "keeps_to_itself b (\<lambda>db. case f db of (r, db') \<Rightarrow> g r db') db"
  using assms by (cases "f db") (simp add: keeps_to_itself_def)

lemma hide_sel:
  "md_buckets (hide b db) scope = map_option (filter (\<lambda>e. scope = ''actor'' \<longrightarrow> \<not> own b (fst e))) (md_buckets db scope)"
  "md_cache (hide b db) ck = (if own_cached b ck then None else md_cache db ck)"
  by (cases "md_buckets db scope", auto simp: hide_def)

lemma hide_eqI:
  "(\<And>scope. md_buckets db' scope = md_buckets (hide b db) scope) \<Longrightarrow>
     (\<And>ck. md_cache db' ck = md_cache (hide b db) ck) \<Longrightarrow> db' = hide b db"
  by (simp add: fun_eq_iff)

lemma cache_update_hide:
  "\<not> own_cached b ck \<Longrightarrow> hide b (db\<lparr>md_cache := (md_cache db)(ck := v)\<rparr>) = (hide b db)\<lparr>md_cache := (md_cache (hide b db))(ck := v)\<rparr>"
  "\<not> own_cached b ck \<Longrightarrow> secret b (db\<lparr>md_cache := (md_cache db)(ck := v)\<rparr>) = secret b db"
  by (auto simp: hide_def secret_def fun_eq_iff)

lemma bucket_update_hide:
  assumes "md_buckets db scope = Some bk"
    and "filter (\<lambda>e. scope = ''actor'' \<longrightarrow> \<not> own b (fst e)) (f bk) = f (filter (\<lambda>e. scope = ''actor'' \<longrightarrow> \<not> own b (fst e)) bk)"
    and "scope = ''actor'' \<longrightarrow> filter (\<lambda>e. own b (fst e)) (f bk) = filter (\<lambda>e. own b (fst e)) bk"
  shows "hide b (db\<lparr>md_buckets := (md_buckets db)(scope \<mapsto> f bk)\<rparr>) =
      (hide b db)\<lparr>md_buckets := (md_buckets (hide b db))(scope \<mapsto> f (the (md_buckets (hide b db) scope)))\<rparr>"
    and "secret b (db\<lparr>md_buckets := (md_buckets db)(scope \<mapsto> f bk)\<rparr>) = secret b db"
  using assms by (auto simp: hide_def secret_def fun_eq_iff option.map_ident)

lemma GetMemory_keeps:
  assumes "apart b scope sid"
  shows "keeps_to_itself b (GetMemory scope sid key) db"
proof -
  let ?bk = "bolt_key sid key"
  note keys = apart_keys [OF assms, of key]
  have view: "view_memory scope sid key (hide b db) = view_memory scope sid key db"
    using keys(1)
    by (cases "md_buckets db scope")
      (simp_all add: view_memory_def hide_sel map_of_filter_keys [of "\<lambda>k. scope = ''actor'' \<longrightarrow> \<not> own b k"])
  show ?thesis
    using keys(2) by (auto simp: keeps_to_itself_def GetMemory_def view hide_sel store_cache_def
        cache_update_hide split: option.split sum.split)
qed

definition buckets_ok :: "memory_db \<Rightarrow> bool" where
  "buckets_ok db \<longleftrightarrow> (\<forall>scope bk. md_buckets db scope = Some bk \<longrightarrow> bucket_ok bk)"

lemma filter_put_scope:
  assumes "bucket_ok bk" "scope = ''actor'' \<Longrightarrow> \<not> own b k"
  shows "filter (\<lambda>e. scope = ''actor'' \<longrightarrow> \<not> own b (fst e)) (bolt_put k m bk) =
     bolt_put k m (filter (\<lambda>e. scope = ''actor'' \<longrightarrow> \<not> own b (fst e)) bk)"
    and "scope = ''actor'' \<longrightarrow> filter (\<lambda>e. own b (fst e)) (bolt_put k m bk) = filter (\<lambda>e. own b (fst e)) bk"
  using filter_bolt_put [OF assms(1), of "\<lambda>k. scope = ''actor'' \<longrightarrow> \<not> own b k" k m]
    filter_bolt_put_out [of "own b" k m bk] assms(2) by auto

lemma filter_delete_scope:
  assumes "scope = ''actor'' \<Longrightarrow> \<not> own b k"
  shows "filter (\<lambda>e. scope = ''actor'' \<longrightarrow> \<not> own b (fst e)) (bolt_delete k bk) =
     bolt_delete k (filter (\<lambda>e. scope = ''actor'' \<longrightarrow> \<not> own b (fst e)) bk)"
    and "scope = ''actor'' \<longrightarrow> filter (\<lambda>e. own b (fst e)) (bolt_delete k bk) = filter (\<lambda>e. own b (fst e)) bk"
  using assms by (auto simp: bolt_delete_def conj_commute intro: filter_cong)

lemma SetMemory_keeps:
  assumes "apart b (mem_Scope m) (mem_ScopeID m)" "buckets_ok db"
  shows "keeps_to_itself b (SetMemory commit m) db"
proof (cases "md_buckets db (mem_Scope m)")
  case None
  then show ?thesis by (simp add: keeps_to_itself_def SetMemory_def Let_def hide_sel)
next
  case (Some bk)
  let ?k = "bolt_key (mem_ScopeID m) (mem_Key m)" and ?s = "mem_Scope m"
  note keys = apart_keys [OF assms(1), of "mem_Key m"]
  have ok: "bucket_ok bk" using assms(2) Some by (simp add: buckets_ok_def)
  let ?db1 = "db\<lparr>md_cache := (md_cache db)(cache_key ?s ?k \<mapsto> m)\<rparr>"
  have h1: "hide b ?db1 = (hide b db)\<lparr>md_cache := (md_cache (hide b db))(cache_key ?s ?k \<mapsto> m)\<rparr>"
    and s1: "secret b ?db1 = secret b db"
    using cache_update_hide [OF keys(2)] by simp_all
  have b1: "md_buckets ?db1 ?s = Some bk" using Some by simp
  note put = bucket_update_hide [where f = "bolt_put ?k m", OF b1 filter_put_scope [OF ok keys(1)]]
  show ?thesis
  proof (cases commit)
    case (Some e)
    with b1 h1 s1 \<open>md_buckets db ?s = Some bk\<close> show ?thesis
      by (simp add: keeps_to_itself_def SetMemory_def Let_def hide_sel(1))
  next
    case None
    with put h1 s1 \<open>md_buckets db ?s = Some bk\<close> show ?thesis
      by (simp add: keeps_to_itself_def SetMemory_def Let_def hide_sel(1))
  qed
qed

lemma DeleteMemory_keeps:
  assumes "apart b scope sid"
  shows "keeps_to_itself b (DeleteMemory commit scope sid key) db"
proof (cases "md_buckets db scope")
  case None
  then show ?thesis by (simp add: keeps_to_itself_def DeleteMemory_def Let_def hide_sel)
next
  case bk: (Some bk)
  let ?k = "bolt_key sid key"
  note keys = apart_keys [OF assms, of key]
  let ?db1 = "db\<lparr>md_cache := (md_cache db)(cache_key scope ?k := None)\<rparr>"
  have h1: "hide b ?db1 = (hide b db)\<lparr>md_cache := (md_cache (hide b db))(cache_key scope ?k := None)\<rparr>"
    and s1: "secret b ?db1 = secret b db"
    using cache_update_hide [OF keys(2)] by simp_all
  have b1: "md_buckets ?db1 scope = Some bk" using bk by simp
  note del = bucket_update_hide [where f = "bolt_delete ?k", OF b1 filter_delete_scope [OF keys(1)]]
  show ?thesis
  proof (cases commit)
    case (Some e)
    with b1 h1 s1 bk show ?thesis
      by (simp add: keeps_to_itself_def DeleteMemory_def Let_def hide_sel(1))
  next
    case None
    with del h1 s1 bk show ?thesis
      by (simp add: keeps_to_itself_def DeleteMemory_def Let_def hide_sel(1))
  qed
qed

lemma sorted_wrt_map_filter: "sorted_wrt R (map f xs) \<Longrightarrow> sorted_wrt R (map f (filter P xs))"
  by (induction xs) auto

lemma ListMemory_hide:
  assumes "apart b scope sid" "buckets_ok db"
  shows "ListMemory scope sid (hide b db) = ListMemory scope sid db"
proof (cases "md_buckets db scope")
  case (Some bk)
  let ?Q = "\<lambda>e. scope = ''actor'' \<longrightarrow> \<not> own b (fst e)"
  have ok: "bucket_ok bk" using assms(2) Some by (simp add: buckets_ok_def)
  have "?Q e" if "prefix (sid @ '':'') (fst e)" for e :: "string \<times> Memory"
    using that apart_keys(1) [OF assms(1)] by (auto simp: prefix_def bolt_key_def)
  then have "filter (\<lambda>e. prefix (sid @ '':'') (fst e)) (filter ?Q bk) = filter (\<lambda>e. prefix (sid @ '':'') (fst e)) bk"
    by (auto intro: filter_cong)
  with Some ok show ?thesis
    by (simp add: ListMemory_def hide_sel(1) bolt_scan_filter sorted_wrt_map_filter)
qed (simp add: ListMemory_def hide_sel)

lemma previous_data_keeps:
  assumes "apart b scope sid"
  shows "keeps_to_itself b (previous_data scope sid key) db"
proof -
  have "previous_data scope sid key = (\<lambda>db. case GetMemory scope sid key db of (r, db') \<Rightarrow>
      ((case r of Inr m \<Rightarrow> Some (mem_Data m) | Inl _ \<Rightarrow> None), db'))"
    by (auto simp: previous_data_def fun_eq_iff split: prod.split sum.split)
  then show ?thesis
    using itself_bind [where g = "\<lambda>r db'. ((case r of Inr m \<Rightarrow> Some (mem_Data m) | Inl _ \<Rightarrow> None), db')",
        OF GetMemory_keeps [OF assms] itself_return] by simp
qed

lemma GetMemory_buckets: "md_buckets (snd (GetMemory scope sid key db)) = md_buckets db"
  by (auto simp: GetMemory_def store_cache_def split: option.split sum.split)

lemma previous_data_buckets: "buckets_ok db \<Longrightarrow> buckets_ok (snd (previous_data scope sid key db))"
  using GetMemory_buckets [of scope sid key db]
  by (auto simp: previous_data_def buckets_ok_def split: prod.split sum.split)

lemma buckets_ok_ops:
  assumes "buckets_ok db"
  shows "buckets_ok (snd (SetMemory commit m db))" and "buckets_ok (snd (DeleteMemory commit scope sid key db))"
  using assms by (auto simp: buckets_ok_def SetMemory_def DeleteMemory_def Let_def bolt_put_ok bolt_delete_ok
      split: option.splits if_splits)

definition hide_world :: "string \<Rightarrow> memory_world \<Rightarrow> memory_world" where
  "hide_world b w = w\<lparr>mw_db := hide b (mw_db w)\<rparr>"

definition isolated :: "string \<Rightarrow> (memory_world \<Rightarrow> memory_reply \<times> memory_world) \<Rightarrow> memory_world \<Rightarrow> bool" where
  "isolated b h w \<longleftrightarrow> h (hide_world b w) = (fst (h w), hide_world b (snd (h w)))
     \<and> secret b (mw_db (snd (h w))) = secret b (mw_db w)"

lemma isolated_return: "isolated b (\<lambda>w. (r, w)) w"
  by (simp add: isolated_def)

lemma emit_change_hide [simp]:
  "emit_change fl ev (hide_world b w) = hide_world b (emit_change fl ev w)"
  "mw_db (emit_change fl ev w) = mw_db w"
  by (simp_all add: emit_change_def hide_world_def Let_def)

lemma isolated_call:
  assumes "keeps_to_itself b f (mw_db w)"
    and "\<And>r db'. f (mw_db w) = (r, db') \<Longrightarrow> isolated b (g r) (w\<lparr>mw_db := db'\<rparr>)"
  shows "isolated b (\<lambda>w. case f (mw_db w) of (r, db') \<Rightarrow> g r (w\<lparr>mw_db := db'\<rparr>)) w"
proof -
  obtain r db' where f: "f (mw_db w) = (r, db')" by fastforce
  with assms(1) have "f (hide b (mw_db w)) = (r, hide b db')" "secret b db' = secret b (mw_db w)"
    by (simp_all add: keeps_to_itself_def)
  with f assms(2) [OF f] show ?thesis by (simp add: isolated_def hide_world_def)
qed

lemma isolated_emit: "isolated b (\<lambda>w. (r, emit_change fl ev w)) w"
  by (simp add: isolated_def)

text \<open>The rules the handlers are built from.\<close>

lemmas isolation = isolated_return isolated_emit

lemma SetMemory_isolated:
  assumes "\<And>scope sid. AuthorizeMemoryScope authorizer index scope sid = None \<Longrightarrow> apart b scope sid"
    and "buckets_ok (mw_db w)"
  shows "isolated b (SetMemoryHandler authorizer index fl now c bound) w"
proof (cases bound)
  case (Inl e)
  then show ?thesis by (simp add: SetMemoryHandler_def isolated_def)
next
  case req: (Inr req)
  obtain scope sid where sc: "resolveScope c (smr_Scope req) = (scope, sid)" by fastforce
  show ?thesis
  proof (cases "AuthorizeMemoryScope authorizer index scope sid")
    case (Some d)
    with req sc show ?thesis by (simp add: SetMemoryHandler_def isolated_def)
  next
    case None
    note ap = assms(1) [OF None]
    let ?m = "\<lambda>x. \<lparr>mem_Scope = scope, mem_ScopeID = sid, mem_Key = smr_Key req,
                 mem_Data = x, mem_CreatedAt = now, mem_UpdatedAt = now\<rparr>"
    let ?h = "\<lambda>x prev r w. case r of Some e \<Rightarrow> (MemError 500 ''storage_error'' (err_msg e), w)
         | None \<Rightarrow> (MemRecord (?m x), emit_change fl (change_event c scope sid (smr_Key req) ''set'' (Some x) prev) w)"
    let ?set = "\<lambda>x prev w. case SetMemory (mf_commit fl) (?m x) (mw_db w) of (r, db2) \<Rightarrow> ?h x prev r (w\<lparr>mw_db := db2\<rparr>)"
    let ?g = "\<lambda>prev w. case smr_Data req of Inl e \<Rightarrow> (MemError 400 ''marshal_error'' e, w) | Inr x \<Rightarrow> ?set x prev w"
    have eq: "SetMemoryHandler authorizer index fl now c bound =
        (\<lambda>w. case previous_data scope sid (smr_Key req) (mw_db w) of (prev, db1) \<Rightarrow> ?g prev (w\<lparr>mw_db := db1\<rparr>))"
      using req sc None by (auto simp: SetMemoryHandler_def fun_eq_iff Let_def split: prod.split sum.split option.split)
    have iso: "isolated b (?g prev) (w\<lparr>mw_db := db1\<rparr>)"
      if p: "previous_data scope sid (smr_Key req) (mw_db w) = (prev, db1)" for prev db1
    proof (cases "smr_Data req")
      case (Inr x)
      have "buckets_ok db1" using previous_data_buckets [OF assms(2), of scope sid "smr_Key req"] p by simp
      then have k: "keeps_to_itself b (SetMemory (mf_commit fl) (?m x)) (mw_db (w\<lparr>mw_db := db1\<rparr>))"
        using ap by (intro SetMemory_keeps) simp_all
      have iso: "isolated b (?h x prev r) w'" for r w'
        by (cases r) (simp_all add: isolation)
      show ?thesis unfolding Inr sum.case by (rule isolated_call [where g = "?h x prev", OF k iso])
    qed (simp add: isolated_return)
    show ?thesis
      unfolding eq by (rule isolated_call [where g = ?g, OF previous_data_keeps [OF ap] iso])
  qed
qed

lemma DeleteMemory_isolated:
  assumes "\<And>scope sid. AuthorizeMemoryScope authorizer index scope sid = None \<Longrightarrow> apart b scope sid"
  shows "isolated b (DeleteMemoryHandler authorizer index fl c bound) w"
proof (cases bound)
  case (Inl e)
  then show ?thesis by (simp add: DeleteMemoryHandler_def isolated_def)
next
  case req: (Inr req)
  obtain scope sid where sc: "resolveScope c (gmr_Scope req) = (scope, sid)" by fastforce
  show ?thesis
  proof (cases "AuthorizeMemoryScope authorizer index scope sid")
    case (Some d)
    with req sc show ?thesis by (simp add: DeleteMemoryHandler_def isolated_def)
  next
    case None
    note ap = assms [OF None]
    let ?h = "\<lambda>prev r w. case r of Some e \<Rightarrow> (MemError 404 ''not_found'' (err_msg e), w)
         | None \<Rightarrow> (MemNoContent, emit_change fl (change_event c scope sid (gmr_Key req) ''delete'' None prev) w)"
    let ?g = "\<lambda>prev w. case DeleteMemory (mf_commit fl) scope sid (gmr_Key req) (mw_db w) of (r, db2) \<Rightarrow>
        ?h prev r (w\<lparr>mw_db := db2\<rparr>)"
    have eq: "DeleteMemoryHandler authorizer index fl c bound =
        (\<lambda>w. case previous_data scope sid (gmr_Key req) (mw_db w) of (prev, db1) \<Rightarrow> ?g prev (w\<lparr>mw_db := db1\<rparr>))"
      using req sc None by (auto simp: DeleteMemoryHandler_def fun_eq_iff split: prod.split option.split)
    have fin: "isolated b (?h prev r) w'" for prev r w'
      by (cases r) (simp_all add: isolation)
    have iso: "isolated b (?g prev) w'" for prev w'
      by (rule isolated_call [where g = "?h prev", OF DeleteMemory_keeps [OF ap] fin])
    show ?thesis
      unfolding eq by (rule isolated_call [where g = ?g, OF previous_data_keeps [OF ap] iso])
  qed
qed

lemma search_keeps:
  assumes "\<And>scope sid. AuthorizeMemoryScope authorizer index scope sid = None \<Longrightarrow> apart b scope sid"
  shows "keeps_to_itself b (search_scopes authorizer index c key scopes) db"
proof (induction scopes arbitrary: db)
  case Nil
  show ?case by (simp add: keeps_to_itself_def)
next
  case (Cons scope scopes)
  let ?sid = "if scope = ''global'' then ''global'' else getScopeID c scope"
  show ?case
  proof (cases "(getScopeID c scope \<noteq> [] \<or> scope = ''global'') \<and> AuthorizeMemoryScope authorizer index scope ?sid = None")
    case True
    let ?g = "\<lambda>r db'. case r of Inr m \<Rightarrow> (Some m, db') | Inl _ \<Rightarrow> search_scopes authorizer index c key scopes db'"
    have eq: "search_scopes authorizer index c key (scope # scopes) =
        (\<lambda>db. case GetMemory scope ?sid key db of (r, db') \<Rightarrow> ?g r db')"
      using True by (auto simp: fun_eq_iff Let_def split: prod.split sum.split)
    have k: "keeps_to_itself b (?g r) db'" for r db'
      using Cons.IH by (cases r) (simp_all add: itself_return)
    have ap: "apart b scope ?sid" using assms True by blast
    show ?thesis
      unfolding eq by (rule itself_bind [where g = ?g, OF GetMemory_keeps [OF ap] k])
  next
    case False
    then have "search_scopes authorizer index c key (scope # scopes) = search_scopes authorizer index c key scopes"
      by (auto simp: fun_eq_iff Let_def)
    with Cons.IH show ?thesis by simp
  qed
qed

lemma GetMemory_isolated:
  assumes "\<And>scope sid. AuthorizeMemoryScope authorizer index scope sid = None \<Longrightarrow> apart b scope sid"
  shows "isolated b (GetMemoryHandler authorizer index c bound) w"
proof (cases bound)
  case (Inl e)
  then show ?thesis by (simp add: GetMemoryHandler_def isolated_def)
next
  case req: (Inr req)
  show ?thesis
  proof (cases "gmr_Scope req")
    case None
    let ?h = "\<lambda>r w. case r of Some m \<Rightarrow> (MemRecord m, w)
      | None \<Rightarrow> (MemError 404 ''not_found'' ''Memory key not found in any scope'', w)"
    have eq: "GetMemoryHandler authorizer index c bound = (\<lambda>w. case search_scopes authorizer index c (gmr_Key req)
        [''workflow'', ''session'', ''actor'', ''global''] (mw_db w) of (r, db') \<Rightarrow> ?h r (w\<lparr>mw_db := db'\<rparr>))"
      using req None by (simp add: GetMemoryHandler_def fun_eq_iff split: prod.split option.split del: search_scopes.simps)
    have iso: "isolated b (?h r) w'" for r w' by (cases r) (simp_all add: isolation)
    show ?thesis
      unfolding eq by (rule isolated_call [where g = ?h, OF search_keeps [OF assms] iso])
  next
    case s: (Some s)
    obtain scope sid where sc: "resolveScope c (Some s) = (scope, sid)" by fastforce
    show ?thesis
    proof (cases "AuthorizeMemoryScope authorizer index scope sid")
      case (Some d)
      with req s sc show ?thesis by (simp add: GetMemoryHandler_def isolated_def)
    next
      case None
      let ?h = "\<lambda>r w. case r of Inl e \<Rightarrow> (MemError 404 ''not_found'' (err_msg e), w) | Inr m \<Rightarrow> (MemRecord m, w)"
      have eq: "GetMemoryHandler authorizer index c bound = (\<lambda>w. case GetMemory scope sid (gmr_Key req) (mw_db w) of
          (r, db') \<Rightarrow> ?h r (w\<lparr>mw_db := db'\<rparr>))"
        using req s sc None by (simp add: GetMemoryHandler_def fun_eq_iff split: prod.split sum.split)
      have iso: "isolated b (?h r) w'" for r w' by (cases r) (simp_all add: isolation)
      show ?thesis
        unfolding eq by (rule isolated_call [where g = ?h, OF GetMemory_keeps [OF assms [OF None]] iso])
    qed
  qed
qed

lemma ListMemoryHandler_hide:
  assumes "\<And>scope sid. AuthorizeMemoryScope authorizer index scope sid = None \<Longrightarrow> apart b scope sid"
    and "buckets_ok (mw_db w)"
  shows "ListMemoryHandler authorizer index c (hide_world b w) = ListMemoryHandler authorizer index c w"
  using ListMemory_hide assms
  by (auto simp: ListMemoryHandler_def hide_world_def Let_def split: prod.split option.split)

text \<open>
  C29. Memory isolation: with authorization and scope ownership on, no request of one agent reads,
  lists, overwrites or deletes what another registered agent keeps in its actor scope, whatever
  scope id and key the request chooses and although the store runs the two together in one key:
  the reply and the rest of the database are the same without those records, and they are left as
  they were, in the bucket and in the cache, whether or not the write commits.
\<close>

theorem memory_isolation:
  assumes "ma_EnforceScopeOwnership a" and "Some b \<in> set nodes" and "b \<noteq> ma_callerID a"
    and "index = Inr (agent_index nodes) \<or> index = Inl e" and "buckets_ok (mw_db w)"
  shows "isolated b (SetMemoryHandler (Some a) index fl now c setReq) w
    \<and> isolated b (GetMemoryHandler (Some a) index c getReq) w
    \<and> isolated b (DeleteMemoryHandler (Some a) index fl c getReq) w
    \<and> ListMemoryHandler (Some a) index c (hide_world b w) = ListMemoryHandler (Some a) index c w"
proof -
  have ap: "apart b scope sid" if "AuthorizeMemoryScope (Some a) index scope sid = None" for scope sid
    using authorize_apart [of a index scope sid nodes b] assms that by (auto simp: AuthorizeMemoryScope_def)
  show ?thesis
    by (intro conjI SetMemory_isolated [OF ap assms(5)] DeleteMemory_isolated [OF ap]
        GetMemory_isolated [OF ap] ListMemoryHandler_hide [OF ap assms(5)])
qed

definition memory_request :: "string \<Rightarrow> gin" where
  "memory_request actor = new_gin \<lparr>rq_Method = ''POST'', rq_Path = ''/api/v1/memory/get'', rq_FullPath = [],
     rq_Params = [], rq_Header = (\<lambda>h. if h = ''X-Actor-ID'' then actor else []),
     rq_Query = (\<lambda>q. if q = ''scope'' then ''actor'' else []), rq_Body = [], rq_BodyFails = False,
     rq_RemoteAddr = []\<rparr>"

theorem memory_isolation_witness:
  "ListMemoryHandler (Some \<lparr>ma_callerID = ''a1'', ma_EnforceScopeOwnership = True\<rparr>)
     (Inr (agent_index [Some ''a1'', Some ''a1:b'']))
     (memory_request ''a1'') (hide_world ''a1:b'' \<lparr>mw_db = fresh_memory, mw_events = [], mw_published = []\<rparr>)
   = ListMemoryHandler (Some \<lparr>ma_callerID = ''a1'', ma_EnforceScopeOwnership = True\<rparr>)
     (Inr (agent_index [Some ''a1'', Some ''a1:b'']))
     (memory_request ''a1'') \<lparr>mw_db = fresh_memory, mw_events = [], mw_published = []\<rparr>"
  by (rule memory_isolation [where b = "''a1:b''" and nodes = "[Some ''a1'', Some ''a1:b'']" and e = "Errorf []"
        and fl = "\<lparr>mf_commit = None, mf_event = False, mf_publish = False\<rparr>" and now = 0
        and setReq = "Inl []" and getReq = "Inl []", THEN conjunct2, THEN conjunct2, THEN conjunct2])
    (simp_all add: buckets_ok_def fresh_memory_def)

end
