(* ===== verification/Status.thy ===== *)
theory Status
  imports Prelude
begin

text \<open>
  The vocabulary of execution statuses (\<open>pkg/types/status.go\<close>) and the state machine of
  workflow executions (\<open>internal/storage/execution_state_validation.go\<close>). Rows and request
  bodies carry a status as a raw string: the handlers compare it with the constants as it is,
  while \<open>IsTerminalExecutionStatus\<close> and the validator normalise it first, so a status is a
  string here as well and the canonical words are ten constants.
\<close>

subsection \<open>The vocabulary\<close>

type_synonym status = string

definition stUnknown :: status where "stUnknown = ''unknown''"
definition stPending :: status where "stPending = ''pending''"
definition stQueued :: status where "stQueued = ''queued''"
definition stWaiting :: status where "stWaiting = ''waiting''"
definition stRunning :: status where "stRunning = ''running''"
definition stPaused :: status where "stPaused = ''paused''"
definition stSucceeded :: status where "stSucceeded = ''succeeded''"
definition stFailed :: status where "stFailed = ''failed''"
definition stCancelled :: status where "stCancelled = ''cancelled''"
definition stTimeout :: status where "stTimeout = ''timeout''"

lemmas status_consts = stUnknown_def stPending_def stQueued_def stWaiting_def stRunning_def
  stPaused_def stSucceeded_def stFailed_def stCancelled_def stTimeout_def

definition ExecutionReasonAwaitingAgentRestart :: string where
  "ExecutionReasonAwaitingAgentRestart = ''awaiting_agent_restart''"

definition ExecutionReasonAgentShutdownCancelled :: string where
  "ExecutionReasonAgentShutdownCancelled = ''agent_shutdown_cancelled''"

definition AgentShutdownCancellationError :: string where
  "AgentShutdownCancellationError = ''cancelled during graceful shutdown''"

definition canonicalExecutionStatuses :: "status list" where
  "canonicalExecutionStatuses =
     [stUnknown, stPending, stQueued, stWaiting, stRunning, stPaused, stSucceeded, stFailed,
      stCancelled, stTimeout]"

definition executionStatusAliases :: "string \<Rightarrow> status option" where
  "executionStatusAliases = map_of
    [(''success'', stSucceeded), (''successful'', stSucceeded), (''completed'', stSucceeded),
     (''complete'', stSucceeded), (''done'', stSucceeded), (''ok'', stSucceeded),
     (''error'', stFailed), (''failure'', stFailed), (''errored'', stFailed),
     (''canceled'', stCancelled), (''cancel'', stCancelled),
     (''pause'', stPaused), (''hold'', stPaused), (''on_hold'', stPaused),
     (''suspended'', stPaused),
     (''timed_out'', stTimeout), (''wait'', stQueued),
     (''awaiting_approval'', stWaiting), (''awaiting_human'', stWaiting),
     (''approval_pending'', stWaiting),
     (''in_progress'', stRunning), (''processing'', stRunning)]"

definition NormalizeExecutionStatus :: "string \<Rightarrow> status" where
  "NormalizeExecutionStatus s =
     (let normalized = ToLower (TrimSpace s)
      in if normalized = [] then stUnknown
         else if normalized \<in> set canonicalExecutionStatuses then normalized
         else (case executionStatusAliases normalized of
                 Some mapped \<Rightarrow> mapped
               | None \<Rightarrow> stUnknown))"

definition IsTerminalExecutionStatus :: "string \<Rightarrow> bool" where
  "IsTerminalExecutionStatus s \<longleftrightarrow>
     NormalizeExecutionStatus s \<in> set [stSucceeded, stFailed, stCancelled, stTimeout]"

lemma status_distinct: "distinct canonicalExecutionStatuses"
  by (simp add: canonicalExecutionStatuses_def status_consts)

lemmas status_neq = status_distinct [unfolded canonicalExecutionStatuses_def, simplified]

lemma status_neqs [simp]:
  "stUnknown \<noteq> stPending" "stUnknown \<noteq> stQueued" "stUnknown \<noteq> stWaiting" "stUnknown \<noteq> stRunning"
  "stUnknown \<noteq> stPaused" "stUnknown \<noteq> stSucceeded" "stUnknown \<noteq> stFailed" "stUnknown \<noteq> stCancelled"
  "stUnknown \<noteq> stTimeout" "stPending \<noteq> stQueued" "stPending \<noteq> stWaiting" "stPending \<noteq> stRunning"
  "stPending \<noteq> stPaused" "stPending \<noteq> stSucceeded" "stPending \<noteq> stFailed" "stPending \<noteq> stCancelled"
  "stPending \<noteq> stTimeout" "stQueued \<noteq> stWaiting" "stQueued \<noteq> stRunning" "stQueued \<noteq> stPaused"
  "stQueued \<noteq> stSucceeded" "stQueued \<noteq> stFailed" "stQueued \<noteq> stCancelled" "stQueued \<noteq> stTimeout"
  "stWaiting \<noteq> stRunning" "stWaiting \<noteq> stPaused" "stWaiting \<noteq> stSucceeded" "stWaiting \<noteq> stFailed"
  "stWaiting \<noteq> stCancelled" "stWaiting \<noteq> stTimeout" "stRunning \<noteq> stPaused" "stRunning \<noteq> stSucceeded"
  "stRunning \<noteq> stFailed" "stRunning \<noteq> stCancelled" "stRunning \<noteq> stTimeout" "stPaused \<noteq> stSucceeded"
  "stPaused \<noteq> stFailed" "stPaused \<noteq> stCancelled" "stPaused \<noteq> stTimeout" "stSucceeded \<noteq> stFailed"
  "stSucceeded \<noteq> stCancelled" "stSucceeded \<noteq> stTimeout" "stFailed \<noteq> stCancelled" "stFailed \<noteq> stTimeout"
  "stCancelled \<noteq> stTimeout"
  by (simp_all add: status_consts)

lemmas status_neqs_sym [simp] = status_neqs [symmetric]

lemma status_nonempty [simp]:
  "stUnknown \<noteq> []" "stPending \<noteq> []" "stQueued \<noteq> []" "stWaiting \<noteq> []" "stRunning \<noteq> []"
  "stPaused \<noteq> []" "stSucceeded \<noteq> []" "stFailed \<noteq> []" "stCancelled \<noteq> []" "stTimeout \<noteq> []"
  by (simp_all add: status_consts)

lemma aliases_canonical:
  "executionStatusAliases s = Some t \<Longrightarrow> t \<in> set canonicalExecutionStatuses"
  unfolding executionStatusAliases_def
  by (drule map_of_SomeD) (auto simp: canonicalExecutionStatuses_def)

lemma canonical_fixed:
  assumes "s \<in> set canonicalExecutionStatuses"
  shows "NormalizeExecutionStatus s = s"
proof -
  have "ToLower (TrimSpace s) = s" "s \<noteq> []"
    using assms by (auto simp: canonicalExecutionStatuses_def status_consts ToLower_def
        lower_char_def TrimSpace_def is_space_def)
  with assms show ?thesis by (simp add: NormalizeExecutionStatus_def)
qed

lemma normalize_canonical: "NormalizeExecutionStatus s \<in> set canonicalExecutionStatuses"
  by (auto simp: NormalizeExecutionStatus_def Let_def aliases_canonical
      split: option.splits if_splits) (simp_all add: canonicalExecutionStatuses_def)

lemma normalize_idem [simp]:
  "NormalizeExecutionStatus (NormalizeExecutionStatus s) = NormalizeExecutionStatus s"
  by (rule canonical_fixed [OF normalize_canonical])

lemma normalize_const [simp]:
  "NormalizeExecutionStatus stUnknown = stUnknown" "NormalizeExecutionStatus stPending = stPending"
  "NormalizeExecutionStatus stQueued = stQueued" "NormalizeExecutionStatus stWaiting = stWaiting"
  "NormalizeExecutionStatus stRunning = stRunning" "NormalizeExecutionStatus stPaused = stPaused"
  "NormalizeExecutionStatus stSucceeded = stSucceeded" "NormalizeExecutionStatus stFailed = stFailed"
  "NormalizeExecutionStatus stCancelled = stCancelled" "NormalizeExecutionStatus stTimeout = stTimeout"
  by (rule canonical_fixed, simp add: canonicalExecutionStatuses_def)+

lemma terminal_const [simp]:
  "\<not> IsTerminalExecutionStatus stUnknown" "\<not> IsTerminalExecutionStatus stPending"
  "\<not> IsTerminalExecutionStatus stQueued" "\<not> IsTerminalExecutionStatus stWaiting"
  "\<not> IsTerminalExecutionStatus stRunning" "\<not> IsTerminalExecutionStatus stPaused"
  "IsTerminalExecutionStatus stSucceeded" "IsTerminalExecutionStatus stFailed"
  "IsTerminalExecutionStatus stCancelled" "IsTerminalExecutionStatus stTimeout"
  by (simp_all add: IsTerminalExecutionStatus_def)

lemma terminal_normalize [simp]:
  "IsTerminalExecutionStatus (NormalizeExecutionStatus s) = IsTerminalExecutionStatus s"
  by (simp add: IsTerminalExecutionStatus_def)

lemma normalize_cases:
  obtains "NormalizeExecutionStatus s = stUnknown" | "NormalizeExecutionStatus s = stPending"
  | "NormalizeExecutionStatus s = stQueued" | "NormalizeExecutionStatus s = stWaiting"
  | "NormalizeExecutionStatus s = stRunning" | "NormalizeExecutionStatus s = stPaused"
  | "NormalizeExecutionStatus s = stSucceeded" | "NormalizeExecutionStatus s = stFailed"
  | "NormalizeExecutionStatus s = stCancelled" | "NormalizeExecutionStatus s = stTimeout"
  using normalize_canonical [of s] by (auto simp: canonicalExecutionStatuses_def)

lemma normalize_respell:
  assumes "ToLower (TrimSpace s) = ToLower (TrimSpace t)"
  shows "NormalizeExecutionStatus s = NormalizeExecutionStatus t"
  using assms by (simp add: NormalizeExecutionStatus_def)

subsection \<open>The workflow execution state machine\<close>

definition validTransitions :: "status \<Rightarrow> status list option" where
  "validTransitions = map_of
    [(stUnknown, [stPending]),
     (stPending, [stQueued, stRunning, stCancelled]),
     (stQueued, [stRunning, stWaiting, stPaused, stSucceeded, stFailed, stCancelled, stTimeout]),
     (stWaiting, [stRunning, stCancelled, stFailed]),
     (stRunning, [stWaiting, stPaused, stSucceeded, stFailed, stCancelled, stTimeout]),
     (stPaused, [stRunning, stCancelled]),
     (stSucceeded, []),
     (stFailed, []),
     (stCancelled, []),
     (stTimeout, [stRunning, stCancelled])]"

datatype transition_error =
    UnknownCurrentStatus status
  | InvalidExecutionStateTransitionError (CurrentState: status) (NewState: status)

definition validateExecutionStateTransition :: "string \<Rightarrow> string \<Rightarrow> transition_error option" where
  "validateExecutionStateTransition currentStatus newStatus =
     (let c = NormalizeExecutionStatus currentStatus;
          n = NormalizeExecutionStatus newStatus
      in case validTransitions c of
           None \<Rightarrow> Some (UnknownCurrentStatus c)
         | Some allowed \<Rightarrow>
             if n \<in> set allowed then None
             else if c = n then None
             else Some (InvalidExecutionStateTransitionError c n))"

definition transition_ok :: "string \<Rightarrow> string \<Rightarrow> bool" where
  "transition_ok c n \<longleftrightarrow> validateExecutionStateTransition c n = None"

lemma validTransitions_simps [simp]:
  "validTransitions stUnknown = Some [stPending]"
  "validTransitions stPending = Some [stQueued, stRunning, stCancelled]"
  "validTransitions stQueued =
     Some [stRunning, stWaiting, stPaused, stSucceeded, stFailed, stCancelled, stTimeout]"
  "validTransitions stWaiting = Some [stRunning, stCancelled, stFailed]"
  "validTransitions stRunning =
     Some [stWaiting, stPaused, stSucceeded, stFailed, stCancelled, stTimeout]"
  "validTransitions stPaused = Some [stRunning, stCancelled]"
  "validTransitions stSucceeded = Some []" "validTransitions stFailed = Some []"
  "validTransitions stCancelled = Some []" "validTransitions stTimeout = Some [stRunning, stCancelled]"
  by (simp_all add: validTransitions_def)

lemma transition_ok_eq:
  "transition_ok c n \<longleftrightarrow>
     NormalizeExecutionStatus n \<in> set (the (validTransitions (NormalizeExecutionStatus c))) \<or>
     NormalizeExecutionStatus n = NormalizeExecutionStatus c"
  by (rule normalize_cases [of c])
     (auto simp: transition_ok_def validateExecutionStateTransition_def Let_def)

lemma transition_self [simp]: "transition_ok c c"
  by (simp add: transition_ok_eq)

lemma transition_absorbing:
  assumes "transition_ok c n"
    and "NormalizeExecutionStatus c \<in> {stSucceeded, stFailed, stCancelled}"
  shows "NormalizeExecutionStatus n = NormalizeExecutionStatus c"
  using assms by (auto simp: transition_ok_eq)

text \<open>A run of the machine: every step is one the validator accepts.\<close>

fun valid_run :: "string list \<Rightarrow> bool" where
  "valid_run [] = True"
| "valid_run [s] = True"
| "valid_run (s # t # rest) \<longleftrightarrow> transition_ok s t \<and> valid_run (t # rest)"

lemma valid_run_Cons:
  "valid_run (s # rest) \<Longrightarrow> valid_run rest"
  by (cases rest) auto

lemma valid_run_absorbing:
  "valid_run (s # rest) \<Longrightarrow> NormalizeExecutionStatus s \<in> {stSucceeded, stFailed, stCancelled} \<Longrightarrow>
   t \<in> set rest \<Longrightarrow> NormalizeExecutionStatus t = NormalizeExecutionStatus s"
proof (induction rest arbitrary: s)
  case (Cons u rest)
  from Cons.prems have "NormalizeExecutionStatus u = NormalizeExecutionStatus s"
    using transition_absorbing by auto
  with Cons show ?case by auto
qed simp

lemma valid_run_append: "valid_run (xs @ ys) \<Longrightarrow> valid_run ys"
  by (induction xs) (auto dest: valid_run_Cons)

text \<open>
  Every status from which \<open>succeeded\<close> can be reached in one step is \<open>queued\<close> or
  \<open>running\<close> (or \<open>succeeded\<close> itself): a waiting or paused execution must be resumed first.
\<close>

lemma transition_to_succeeded:
  "transition_ok c stSucceeded \<longleftrightarrow>
     NormalizeExecutionStatus c \<in> {stQueued, stRunning, stSucceeded}"
  by (rule normalize_cases [of c]) (auto simp: transition_ok_eq)

subsection \<open>Properties\<close>

text \<open>
  C12. \<open>NormalizeExecutionStatus\<close> sends every string to one of the ten canonical words, is
  the identity on those words, is idempotent, and reads a status up to case and surrounding
  white space.
\<close>
theorem normalize_projection:
  "NormalizeExecutionStatus s \<in> set canonicalExecutionStatuses \<and>
   NormalizeExecutionStatus (NormalizeExecutionStatus s) = NormalizeExecutionStatus s \<and>
   NormalizeExecutionStatus (ToLower (TrimSpace s)) = NormalizeExecutionStatus s \<and>
   (NormalizeExecutionStatus s = s \<longleftrightarrow> s \<in> set canonicalExecutionStatuses)"
proof (intro conjI)
  show "NormalizeExecutionStatus (ToLower (TrimSpace s)) = NormalizeExecutionStatus s"
    by (rule normalize_respell) (simp add: ToLower_TrimSpace_idem)
  show "NormalizeExecutionStatus s = s \<longleftrightarrow> s \<in> set canonicalExecutionStatuses"
    using canonical_fixed normalize_canonical by metis
qed (simp_all add: normalize_canonical)

text \<open>
  C13. Along every sequence of statuses whose steps the workflow validator accepts, nothing
  leaves \<open>succeeded\<close>, \<open>failed\<close> or \<open>cancelled\<close>: once one of them is reached every later
  status is the same one. (\<open>timeout\<close> is terminal too, but it is left on purpose: a late
  callback may move it to \<open>running\<close> or \<open>cancelled\<close>.)
\<close>
theorem workflow_machine_absorbing:
  assumes "valid_run (before @ s # later)"
    and "NormalizeExecutionStatus s \<in> {stSucceeded, stFailed, stCancelled}"
    and "t \<in> set later"
  shows "NormalizeExecutionStatus t = NormalizeExecutionStatus s"
  using assms valid_run_absorbing valid_run_append by blast

theorem workflow_machine_absorbing_witness:
  "NormalizeExecutionStatus '' Done'' = NormalizeExecutionStatus stSucceeded"
proof (rule workflow_machine_absorbing [where before = "[stPending, stRunning]" and later = "['' Done'']"])
  show "valid_run ([stPending, stRunning] @ stSucceeded # ['' Done''])"
    by (simp add: transition_ok_eq) code_simp
qed simp_all

end
