(* ===== verification/Exec_Store.thy ===== *)
theory Exec_Store
  imports Status "HOL-Library.State_Monad"
begin

text \<open>
  The two execution tables of the storage layer and the operations the handlers run on them
  (\<open>internal/storage/execution_records.go\<close>, \<open>internal/storage/local.go\<close>).

  A table is the list of its rows in insertion order; the primary key keeps the execution ids
  distinct. Every storage call is one transaction. A handler is a \<open>proc\<close>, a state-passing
  program over a \<open>world\<close>: the database, and two oracles that are consulted at every storage
  call. \<open>env\<close> is what the other requests commit before the call (it may also advance the
  clock), \<open>fault\<close> is the error a failing database returns instead of running the call. Both
  are arbitrary, so a theorem about a handler covers every interleaving of its storage calls
  with other requests and every pattern of database failures.
\<close>

subsection \<open>Rows\<close>

record ExecutionNote =
  note_Message :: string
  note_Tags :: "string list"
  note_Timestamp :: instant

record Execution =
  ex_ExecutionID :: string
  ex_RunID :: string
  ex_ParentExecutionID :: "string option"
  ex_RestartedAsExecutionID :: "string option"
  ex_AgentNodeID :: string
  ex_InstanceID :: string
  ex_ReasonerID :: string
  ex_NodeID :: string
  ex_InputPayload :: string
  ex_ResultPayload :: string
  ex_ErrorMessage :: "string option"
  ex_InputURI :: "string option"
  ex_ResultURI :: "string option"
  ex_Status :: status
  ex_StatusReason :: "string option"
  ex_StartedAt :: instant
  ex_CompletedAt :: "instant option"
  ex_DurationMS :: "int option"
  ex_SessionID :: "string option"
  ex_ActorID :: "string option"
  ex_Notes :: "ExecutionNote list"
  ex_WebhookRegistered :: bool
  ex_CreatedAt :: instant
  ex_UpdatedAt :: instant

record WorkflowExecution =
  wf_WorkflowID :: string
  wf_ExecutionID :: string
  wf_AgentFieldRequestID :: string
  wf_RunID :: "string option"
  wf_SessionID :: "string option"
  wf_ActorID :: "string option"
  wf_AgentNodeID :: string
  wf_InstanceID :: string
  wf_RestartedAsExecutionID :: "string option"
  wf_ParentWorkflowID :: "string option"
  wf_ParentExecutionID :: "string option"
  wf_RootWorkflowID :: "string option"
  wf_WorkflowDepth :: int
  wf_ReasonerID :: string
  wf_InputData :: string
  wf_OutputData :: string
  wf_InputSize :: int
  wf_OutputSize :: int
  wf_WorkflowName :: "string option"
  wf_WorkflowTags :: "string list"
  wf_Status :: status
  wf_StartedAt :: instant
  wf_CompletedAt :: "instant option"
  wf_DurationMS :: "int option"
  wf_StateVersion :: int
  wf_LastEventSequence :: int
  wf_ActiveChildren :: int
  wf_PendingChildren :: int
  wf_PendingTerminalStatus :: "string option"
  wf_StatusReason :: "string option"
  wf_LeaseOwner :: "string option"
  wf_LeaseExpiresAt :: "instant option"
  wf_ErrorMessage :: "string option"
  wf_RetryCount :: int
  wf_ApprovalRequestID :: "string option"
  wf_ApprovalRequestURL :: "string option"
  wf_ApprovalStatus :: "string option"
  wf_ApprovalResponse :: "string option"
  wf_ApprovalRequestedAt :: "instant option"
  wf_ApprovalRespondedAt :: "instant option"
  wf_ApprovalCallbackURL :: "string option"
  wf_ApprovalExpiresAt :: "instant option"
  wf_Notes :: "ExecutionNote list"
  wf_CreatedAt :: instant
  wf_UpdatedAt :: instant

record WorkflowExecutionEvent =
  we_ExecutionID :: string
  we_WorkflowID :: string
  we_RunID :: "string option"
  we_EventType :: string
  we_Status :: "status option"
  we_StatusReason :: "string option"
  we_Payload :: "(string \<times> json) list"
  we_EmittedAt :: instant

datatype ExecutionEventType =
    ExecutionCreated | ExecutionStarted | ExecutionUpdated | ExecutionCompleted
  | ExecutionFailed | ExecutionWaiting | ExecutionPaused | ExecutionResumed
  | ExecutionCancelledEvent | ExecutionApprovalResolved | ExecutionLogEntry | ExecutionRetried

record ExecutionEvent =
  ev_Type :: ExecutionEventType
  ev_ExecutionID :: string
  ev_WorkflowID :: string
  ev_AgentNodeID :: string
  ev_Status :: status
  ev_Timestamp :: instant
  ev_Data :: "(string \<times> json) list"

text \<open>The zero values of the two row types, and the world of an undisturbed request.\<close>

definition zero_execution :: Execution where
  "zero_execution = \<lparr>ex_ExecutionID = [], ex_RunID = [], ex_ParentExecutionID = None,
     ex_RestartedAsExecutionID = None, ex_AgentNodeID = [], ex_InstanceID = [], ex_ReasonerID = [],
     ex_NodeID = [], ex_InputPayload = [], ex_ResultPayload = [], ex_ErrorMessage = None,
     ex_InputURI = None, ex_ResultURI = None, ex_Status = [], ex_StatusReason = None,
     ex_StartedAt = 0, ex_CompletedAt = None, ex_DurationMS = None, ex_SessionID = None,
     ex_ActorID = None, ex_Notes = [], ex_WebhookRegistered = False, ex_CreatedAt = 0,
     ex_UpdatedAt = 0\<rparr>"

definition zero_workflow_execution :: WorkflowExecution where
  "zero_workflow_execution = \<lparr>wf_WorkflowID = [], wf_ExecutionID = [], wf_AgentFieldRequestID = [],
     wf_RunID = None, wf_SessionID = None, wf_ActorID = None, wf_AgentNodeID = [], wf_InstanceID = [],
     wf_RestartedAsExecutionID = None, wf_ParentWorkflowID = None, wf_ParentExecutionID = None,
     wf_RootWorkflowID = None, wf_WorkflowDepth = 0, wf_ReasonerID = [], wf_InputData = [],
     wf_OutputData = [], wf_InputSize = 0, wf_OutputSize = 0, wf_WorkflowName = None,
     wf_WorkflowTags = [], wf_Status = [], wf_StartedAt = 0, wf_CompletedAt = None,
     wf_DurationMS = None, wf_StateVersion = 0, wf_LastEventSequence = 0, wf_ActiveChildren = 0,
     wf_PendingChildren = 0, wf_PendingTerminalStatus = None, wf_StatusReason = None,
     wf_LeaseOwner = None, wf_LeaseExpiresAt = None, wf_ErrorMessage = None, wf_RetryCount = 0,
     wf_ApprovalRequestID = None, wf_ApprovalRequestURL = None, wf_ApprovalStatus = None,
     wf_ApprovalResponse = None, wf_ApprovalRequestedAt = None, wf_ApprovalRespondedAt = None,
     wf_ApprovalCallbackURL = None, wf_ApprovalExpiresAt = None, wf_Notes = [],
     wf_CreatedAt = 0, wf_UpdatedAt = 0\<rparr>"

subsection \<open>The database and the world of a handler\<close>

text \<open>
  What a handler sets in motion outside the two tables: a webhook delivery, the hand-off of an
  interrupted run, the recording of reported usage, a callback to the agent, a job for the worker pool,
  and the demotion of a node that was last heard of at an instant.
\<close>

datatype effect = NotifyWebhook string | HandOff string | IngestUsage string
  | ApprovalCallback string string | JobQueued string | NodeDemoted string instant

text \<open>
  The tables, and what the requests of one process share. \<open>run_rows\<close> is \<open>workflow_runs\<close>: each run with the namespaces of
  its metadata; \<open>handoff_claims\<close> are the executions whose hand-off this process is at.
\<close>

record db =
  executions :: "Execution list"
  workflows :: "WorkflowExecution list"
  wf_events :: "WorkflowExecutionEvent list"
  webhooks :: "string list"
  published :: "ExecutionEvent list"
  effects :: "effect list"
  run_rows :: "(string \<times> (string \<times> string) list) list"
  handoff_claims :: "string list"
  clock :: instant

text \<open>
  \<open>slots_held\<close> and \<open>places_held\<close> count what the handler itself has taken of the execution slots of each node and of the
  places of the worker pool, and not given back; \<open>requests_sent\<close> are the requests to nodes (URL, headers, body) it sent
  on a connection.
\<close>

record world =
  data :: db
  calls :: nat
  fault :: "nat \<Rightarrow> goerr option"
  env :: "nat \<Rightarrow> db \<Rightarrow> db"
  slots_held :: "string \<Rightarrow> int"
  places_held :: int
  requests_sent :: "(string \<times> (string \<times> string) list \<times> string) list"

definition idle :: "db \<Rightarrow> world" where
  "idle d = \<lparr>data = d, calls = 0, fault = (\<lambda>_. None), env = (\<lambda>_ d. d),
     slots_held = (\<lambda>_. 0), places_held = 0, requests_sent = []\<rparr>"

text \<open>A database with one execution row and no workflow row.\<close>

definition one_row :: "string \<Rightarrow> status \<Rightarrow> instant \<Rightarrow> db" where
  "one_row k st now = \<lparr>executions = [zero_execution\<lparr>ex_ExecutionID := k, ex_Status := st\<rparr>],
     workflows = [], wf_events = [], webhooks = [], published = [], effects = [], run_rows = [],
     handoff_claims = [], clock = now\<rparr>"

type_synonym 'a proc = "(world, 'a) state"

definition db_call :: "(db \<Rightarrow> (goerr + 'a) \<times> db) \<Rightarrow> (goerr + 'a) proc" where
  "db_call tx = State (\<lambda>w.
     let d = env w (calls w) (data w);
         w' = w\<lparr>data := d, calls := Suc (calls w)\<rparr>
     in case fault w (calls w) of
          Some e \<Rightarrow> (Inl e, w')
        | None \<Rightarrow> (case tx d of (r, d') \<Rightarrow> (r, w'\<lparr>data := d'\<rparr>)))"

definition time_Now :: "instant proc" where
  "time_Now = State (\<lambda>w. (clock (data w), w))"

definition publish :: "ExecutionEvent \<Rightarrow> unit proc" where
  "publish e = State (\<lambda>w. ((), w\<lparr>data := (data w)\<lparr>published := published (data w) @ [e]\<rparr>\<rparr>))"

definition emit :: "effect \<Rightarrow> unit proc" where
  "emit x = State (\<lambda>w. ((), w\<lparr>data := (data w)\<lparr>effects := effects (data w) @ [x]\<rparr>\<rparr>))"

abbreviation reply_with :: "nat \<Rightarrow> (string \<times> json) list \<Rightarrow> reply proc" where
  "reply_with c b \<equiv> State_Monad.return (JSONreply c b)"

lemma run_bind [simp]:
  "run_state (State_Monad.bind p f) w = (case run_state p w of (a, w') \<Rightarrow> run_state (f a) w')"
  by (simp add: State_Monad.bind_def)

subsection \<open>Table access\<close>

definition lookup :: "('r \<Rightarrow> string) \<Rightarrow> string \<Rightarrow> 'r list \<Rightarrow> 'r option" where
  "lookup key k rows = find (\<lambda>r. key r = k) rows"

definition modify :: "('r \<Rightarrow> string) \<Rightarrow> string \<Rightarrow> ('r \<Rightarrow> 'r) \<Rightarrow> 'r list \<Rightarrow> 'r list" where
  "modify key k f rows = map (\<lambda>r. if key r = k then f r else r) rows"

lemma lookup_Nil [simp]: "lookup key k [] = None"
  by (simp add: lookup_def)

lemma lookup_Cons [simp]:
  "lookup key k (r # rows) = (if key r = k then Some r else lookup key k rows)"
  by (simp add: lookup_def)

lemma lookup_append [simp]:
  "lookup key k (rows @ rest) = (case lookup key k rows of None \<Rightarrow> lookup key k rest | Some r \<Rightarrow> Some r)"
  by (induction rows) auto

lemma lookup_key: "lookup key k rows = Some r \<Longrightarrow> key r = k"
  by (induction rows) (auto split: if_splits)

lemma lookup_mem: "lookup key k rows = Some r \<Longrightarrow> r \<in> set rows"
  by (induction rows) (auto split: if_splits)

lemma lookup_None_iff: "lookup key k rows = None \<longleftrightarrow> k \<notin> key ` set rows"
  by (induction rows) auto

lemma lookup_distinct:
  "distinct (map key rows) \<Longrightarrow> r \<in> set rows \<Longrightarrow> lookup key (key r) rows = Some r"
  by (induction rows) auto

lemma lookup_modify:
  assumes "\<And>r. key r = k \<Longrightarrow> key (f r) = k"
  shows "lookup key j (modify key k f rows) =
           (if j = k then map_option f (lookup key j rows) else lookup key j rows)"
  using assms by (induction rows) (auto simp: modify_def)

lemma modify_keys:
  assumes "\<And>r. key r = k \<Longrightarrow> key (f r) = k"
  shows "map key (modify key k f rows) = map key rows"
  using assms by (simp add: modify_def)

lemma modify_absent: "lookup key k rows = None \<Longrightarrow> modify key k f rows = rows"
  by (induction rows) (auto simp: modify_def split: if_splits)

lemma length_modify [simp]: "length (modify key k f rows) = length rows"
  by (simp add: modify_def)

abbreviation find_execution :: "db \<Rightarrow> string \<Rightarrow> Execution option" where
  "find_execution d k \<equiv> lookup ex_ExecutionID k (executions d)"

abbreviation find_workflow :: "db \<Rightarrow> string \<Rightarrow> WorkflowExecution option" where
  "find_workflow d k \<equiv> lookup wf_ExecutionID k (workflows d)"

subsection \<open>Operations on \<open>executions\<close>\<close>

text \<open>The insert assigns the time stamps in place; the primary key rejects a second row.\<close>

definition CreateExecutionRecord :: "Execution \<Rightarrow> (goerr + Execution) proc" where
  "CreateExecutionRecord exec = db_call (\<lambda>d.
     let now = clock d;
         exec = (if ex_StartedAt exec = 0 then exec\<lparr>ex_StartedAt := now\<rparr> else exec);
         exec = exec\<lparr>ex_CreatedAt := now, ex_UpdatedAt := now\<rparr>
     in if find_execution d (ex_ExecutionID exec) \<noteq> None
        then (Inl (Errorf ''insert execution: UNIQUE constraint failed: executions.execution_id''), d)
        else (Inr exec, d\<lparr>executions := executions d @ [exec\<lparr>ex_WebhookRegistered := False\<rparr>]\<rparr>))"

definition HasExecutionWebhook :: "string \<Rightarrow> (goerr + bool) proc" where
  "HasExecutionWebhook k = db_call (\<lambda>d. (Inr (k \<in> set (webhooks d)), d))"

definition enrichExecutionWebhook :: "Execution option \<Rightarrow> Execution option proc" where
  "enrichExecutionWebhook exec =
     (case exec of
        None \<Rightarrow> State_Monad.return None
      | Some e \<Rightarrow> do {
          registered \<leftarrow> HasExecutionWebhook (ex_ExecutionID e);
          State_Monad.return (case registered of
              Inl _ \<Rightarrow> Some e
            | Inr b \<Rightarrow> Some (e\<lparr>ex_WebhookRegistered := b\<rparr>))
        })"

definition GetExecutionRecord :: "string \<Rightarrow> (goerr + Execution option) proc" where
  "GetExecutionRecord k = do {
     r \<leftarrow> db_call (\<lambda>d. (Inr (find_execution d k), d));
     case r of
       Inl e \<Rightarrow> State_Monad.return (Inl e)
     | Inr exec \<Rightarrow> do {
         exec \<leftarrow> enrichExecutionWebhook exec;
         State_Monad.return (Inr exec)
       }
   }"

text \<open>
  An updater is run at an instant (what \<open>time.Now()\<close> gives inside its closure) and sees the
  locked row (\<open>None\<close> when there is none). It returns an error, or the row
  to persist (\<open>None\<close>: leave it), together with the variables its closure assigned. The
  \<open>UPDATE\<close> sets every column except \<open>created_at\<close>, on the row the returned record names.
\<close>

type_synonym ('r, 'c) updater = "instant \<Rightarrow> 'r option \<Rightarrow> goerr + ('r option \<times> 'c)"

definition persist_execution :: "Execution \<Rightarrow> db \<Rightarrow> db" where
  "persist_execution u d = d\<lparr>executions :=
     modify ex_ExecutionID (ex_ExecutionID u)
       (\<lambda>old. u\<lparr>ex_CreatedAt := ex_CreatedAt old, ex_WebhookRegistered := False\<rparr>) (executions d)\<rparr>"

definition update_execution_tx ::
  "string \<Rightarrow> (Execution, 'c) updater \<Rightarrow> db \<Rightarrow> (goerr + (Execution option \<times> 'c)) \<times> db" where
  "update_execution_tx k upd d =
     (let current = find_execution d k
      in case upd (clock d) current of
           Inl e \<Rightarrow> (Inl e, d)
         | Inr (None, c) \<Rightarrow> (Inr (current, c), d)
         | Inr (Some u, c) \<Rightarrow>
             (let u = u\<lparr>ex_UpdatedAt := clock d\<rparr>
              in (Inr (Some u, c), persist_execution u d)))"

definition UpdateExecutionRecord ::
  "string \<Rightarrow> (Execution, 'c) updater \<Rightarrow> (goerr + (Execution option \<times> 'c)) proc" where
  "UpdateExecutionRecord k upd = do {
     r \<leftarrow> db_call (update_execution_tx k upd);
     case r of
       Inl e \<Rightarrow> State_Monad.return (Inl e)
     | Inr (exec, c) \<Rightarrow> do {
         exec \<leftarrow> enrichExecutionWebhook exec;
         State_Monad.return (Inr (exec, c))
       }
   }"

definition SetExecutionRestartedAs :: "string \<Rightarrow> string \<Rightarrow> (goerr + unit) proc" where
  "SetExecutionRestartedAs source new =
     (let source = TrimSpace source; new = TrimSpace new
      in if source = [] \<or> new = []
         then State_Monad.return (Inl (Errorf ''source and successor execution_id are required''))
         else db_call (\<lambda>d.
           if find_execution d source = None
           then (Inl (Errorf (''execution '' @ source @ '' not found'')), d)
           else (Inr (), d
             \<lparr>executions := modify ex_ExecutionID source
                (\<lambda>r. r\<lparr>ex_RestartedAsExecutionID := Some new, ex_UpdatedAt := clock d\<rparr>) (executions d),
              workflows := modify wf_ExecutionID source
                (\<lambda>r. r\<lparr>wf_RestartedAsExecutionID := Some new, wf_UpdatedAt := clock d\<rparr>) (workflows d)\<rparr>)))"

subsection \<open>Operations on \<open>workflow_executions\<close>\<close>

definition GetWorkflowExecution :: "string \<Rightarrow> (goerr + WorkflowExecution option) proc" where
  "GetWorkflowExecution k = db_call (\<lambda>d. (Inr (find_workflow d k), d))"

text \<open>The message of a rejected transition, as \<open>Error()\<close> renders it.\<close>

fun transition_message :: "string \<Rightarrow> transition_error \<Rightarrow> string" where
  "transition_message k (UnknownCurrentStatus s) = ''unknown current status: '' @ s"
| "transition_message k (InvalidExecutionStateTransitionError c n) =
     ''invalid execution state transition for '' @ k @ '': cannot change from '' @ c @ '' to '' @ n @
     '' - transition not allowed by workflow execution state machine''"

text \<open>
  \<open>executeWorkflowInsert\<close>: an existing row is updated (the columns listed, after the
  transition has been validated), a missing one is inserted.
\<close>

definition workflow_update_columns ::
    "WorkflowExecution \<Rightarrow> instant \<Rightarrow> WorkflowExecution \<Rightarrow> WorkflowExecution" where
  "workflow_update_columns e now old = old
     \<lparr>wf_RestartedAsExecutionID := wf_RestartedAsExecutionID e,
      wf_Status := wf_Status e, wf_CompletedAt := wf_CompletedAt e, wf_DurationMS := wf_DurationMS e,
      wf_StateVersion := wf_StateVersion e, wf_LastEventSequence := wf_LastEventSequence e,
      wf_ActiveChildren := wf_ActiveChildren e, wf_PendingChildren := wf_PendingChildren e,
      wf_PendingTerminalStatus := wf_PendingTerminalStatus e, wf_StatusReason := wf_StatusReason e,
      wf_LeaseOwner := wf_LeaseOwner e, wf_LeaseExpiresAt := wf_LeaseExpiresAt e,
      wf_OutputData := wf_OutputData e, wf_OutputSize := wf_OutputSize e,
      wf_ErrorMessage := wf_ErrorMessage e,
      wf_ApprovalRequestID := wf_ApprovalRequestID e, wf_ApprovalRequestURL := wf_ApprovalRequestURL e,
      wf_ApprovalStatus := wf_ApprovalStatus e, wf_ApprovalResponse := wf_ApprovalResponse e,
      wf_ApprovalRequestedAt := wf_ApprovalRequestedAt e,
      wf_ApprovalRespondedAt := wf_ApprovalRespondedAt e,
      wf_ApprovalCallbackURL := wf_ApprovalCallbackURL e,
      wf_ApprovalExpiresAt := wf_ApprovalExpiresAt e,
      wf_Notes := wf_Notes e, wf_UpdatedAt := now\<rparr>"

definition executeWorkflowInsert :: "WorkflowExecution \<Rightarrow> db \<Rightarrow> (goerr + unit) \<times> db" where
  "executeWorkflowInsert e d =
     (case find_workflow d (wf_ExecutionID e) of
        Some existing \<Rightarrow>
          (case validateExecutionStateTransition (wf_Status existing) (wf_Status e) of
             Some err \<Rightarrow> (Inl (Errorf (transition_message (wf_ExecutionID e) err)), d)
           | None \<Rightarrow> (Inr (), d\<lparr>workflows :=
               modify wf_ExecutionID (wf_ExecutionID e) (workflow_update_columns e (clock d))
                 (workflows d)\<rparr>))
      | None \<Rightarrow>
          (let e = (if wf_CreatedAt e = 0 then e\<lparr>wf_CreatedAt := clock d\<rparr> else e);
               e = (if wf_UpdatedAt e = 0 then e\<lparr>wf_UpdatedAt := clock d\<rparr> else e)
           in (Inr (), d\<lparr>workflows := workflows d @ [e]\<rparr>)))"

text \<open>
  The retry loops: \<open>isRetryableError\<close> and \<open>isDatabaseLockError\<close> look for fixed phrases in the
  lower-cased message. \<open>left\<close> is the number of attempts that remain (the loop variable
  counts up to \<open>maxRetries = 3\<close>, so four attempts).
\<close>

definition retryableErrors :: "string list" where
  "retryableErrors =
     [''database is locked'', ''database disk image is malformed'', ''disk i/o error'',
      ''attempt to write a readonly database'', ''busy'', ''sqlite_busy'', ''sqlite_locked'',
      ''cannot start a transaction within a transaction'', ''database table is locked'']"

definition isRetryableError :: "goerr \<Rightarrow> bool" where
  "isRetryableError e \<longleftrightarrow> list_ex (Contains (ToLower (err_msg e))) retryableErrors"

definition isDatabaseLockError :: "goerr \<Rightarrow> bool" where
  "isDatabaseLockError e \<longleftrightarrow>
     (let s = ToLower (err_msg e)
      in Contains s ''database is locked'' \<or> Contains s ''database locked'' \<or>
         Contains s ''sqlite_busy'')"

fun retryDatabaseOperation :: "nat \<Rightarrow> (goerr + 'a) proc \<Rightarrow> (goerr + 'a) proc" where
  "retryDatabaseOperation left operation = do {
     r \<leftarrow> operation;
     case r of
       Inr x \<Rightarrow> State_Monad.return (Inr x)
     | Inl e \<Rightarrow>
         if \<not> isRetryableError e then State_Monad.return (Inl e)
         else (case left of
                 0 \<Rightarrow> State_Monad.return (Inl (wrapErr ''operation failed after 3 retries: '' e))
               | Suc n \<Rightarrow> retryDatabaseOperation n operation)
   }"

declare retryDatabaseOperation.simps [simp del]

type_synonym wf_updater = "instant \<Rightarrow> WorkflowExecution option \<Rightarrow> goerr + WorkflowExecution"

definition attemptWorkflowExecutionUpdate ::
  "string \<Rightarrow> wf_updater \<Rightarrow> db \<Rightarrow> (goerr + unit) \<times> db" where
  "attemptWorkflowExecutionUpdate k updateFunc d =
     (case updateFunc (clock d) (find_workflow d k) of
        Inl e \<Rightarrow> (Inl (wrapErr (''update function failed for execution '' @ k @ '': '') e), d)
      | Inr u \<Rightarrow>
          if wf_ExecutionID u \<noteq> k
          then (Inl (Errorf (''update function cannot change execution ID: expected '' @ k @
                             '', got '' @ wf_ExecutionID u)), d)
          else (case executeWorkflowInsert u d of
                  (Inl e, d') \<Rightarrow>
                    (Inl (wrapErr ''failed to store updated workflow execution: '' e), d)
                | (Inr _, d') \<Rightarrow> (Inr (), d')))"

fun update_workflow_attempts ::
  "nat \<Rightarrow> string \<Rightarrow> wf_updater \<Rightarrow> (goerr + unit) proc" where
  "update_workflow_attempts left k updateFunc = do {
     r \<leftarrow> db_call (attemptWorkflowExecutionUpdate k updateFunc);
     case r of
       Inr _ \<Rightarrow> State_Monad.return (Inr ())
     | Inl e \<Rightarrow>
         if \<not> isDatabaseLockError e then State_Monad.return (Inl e)
         else (case left of
                 0 \<Rightarrow> State_Monad.return (Inl
                   (wrapErr ''failed to update workflow execution after 4 attempts: '' e))
               | Suc n \<Rightarrow> update_workflow_attempts n k updateFunc)
   }"

declare update_workflow_attempts.simps [simp del]

definition UpdateWorkflowExecution ::
  "string \<Rightarrow> wf_updater \<Rightarrow> (goerr + unit) proc" where
  "UpdateWorkflowExecution k updateFunc = update_workflow_attempts 3 k updateFunc"

definition StoreWorkflowExecution :: "WorkflowExecution \<Rightarrow> (goerr + unit) proc" where
  "StoreWorkflowExecution e = retryDatabaseOperation 3 (db_call (executeWorkflowInsert e))"

definition StoreWorkflowExecutionEvent :: "WorkflowExecutionEvent \<Rightarrow> (goerr + unit) proc" where
  "StoreWorkflowExecutionEvent e =
     retryDatabaseOperation 3 (db_call (\<lambda>d. (Inr (), d\<lparr>wf_events := wf_events d @ [e]\<rparr>)))"

subsection \<open>Publishing lifecycle events\<close>

definition publish_event ::
  "ExecutionEventType \<Rightarrow> string \<Rightarrow> string \<Rightarrow> string \<Rightarrow> status \<Rightarrow> (string \<times> json) list \<Rightarrow> unit proc" where
  "publish_event t executionID workflowID agentNodeID st dat = do {
     now \<leftarrow> time_Now;
     publish \<lparr>ev_Type = t, ev_ExecutionID = executionID, ev_WorkflowID = workflowID,
       ev_AgentNodeID = agentNodeID, ev_Status = st, ev_Timestamp = now, ev_Data = dat\<rparr>
   }"

definition PublishExecutionCreated where
  "PublishExecutionCreated k wid node dat = publish_event ExecutionCreated k wid node ''created'' dat"

definition PublishExecutionStarted where
  "PublishExecutionStarted k wid node dat = publish_event ExecutionStarted k wid node ''running'' dat"

definition PublishExecutionUpdated where
  "PublishExecutionUpdated k wid node st dat = publish_event ExecutionUpdated k wid node st dat"

definition PublishExecutionCompleted where
  "PublishExecutionCompleted k wid node dat = publish_event ExecutionCompleted k wid node stSucceeded dat"

definition PublishExecutionFailed where
  "PublishExecutionFailed k wid node dat = publish_event ExecutionFailed k wid node ''failed'' dat"

definition PublishExecutionPaused where
  "PublishExecutionPaused k wid node dat = publish_event ExecutionPaused k wid node stPaused dat"

definition PublishExecutionResumed where
  "PublishExecutionResumed k wid node dat = publish_event ExecutionResumed k wid node stRunning dat"

definition PublishExecutionWaiting where
  "PublishExecutionWaiting k wid node dat = publish_event ExecutionWaiting k wid node stWaiting dat"

definition PublishExecutionCancelled where
  "PublishExecutionCancelled k wid node dat =
     publish_event ExecutionCancelledEvent k wid node stCancelled dat"

definition PublishExecutionApprovalResolved where
  "PublishExecutionApprovalResolved k wid node newStatus dat =
     publish_event ExecutionApprovalResolved k wid node newStatus dat"

subsection \<open>Rely and guarantee\<close>

text \<open>
  \<open>keeps R p\<close>: if everything the other requests do is within the relation \<open>R\<close>, then so is the
  whole effect of \<open>p\<close> together with them. For a transitive \<open>R\<close> this composes, so a handler
  keeps \<open>R\<close> when each transaction it commits does.
\<close>

definition keeps :: "(db \<Rightarrow> db \<Rightarrow> bool) \<Rightarrow> 'a proc \<Rightarrow> bool" where
  "keeps R p \<longleftrightarrow> (\<forall>w. (\<forall>n d. R d (env w n d)) \<longrightarrow>
     R (data w) (data (snd (run_state p w))) \<and>
     env (snd (run_state p w)) = env w \<and> fault (snd (run_state p w)) = fault w)"

lemma keepsD:
  assumes "keeps R p" and "\<And>n d. R d (env w n d)"
  shows "R (data w) (data (snd (run_state p w)))"
  using assms by (simp add: keeps_def)

lemma keeps_run:
  assumes "keeps R p" and "\<forall>n d. R d (env w n d)" and "run_state p w = (a, w')"
  shows "R (data w) (data w') \<and> env w' = env w \<and> fault w' = fault w"
  using assms unfolding keeps_def by (metis snd_conv)

lemma keeps_case_sum [intro]:
  assumes "\<And>e. x = Inl e \<Longrightarrow> keeps R (f e)" and "\<And>a. x = Inr a \<Longrightarrow> keeps R (g a)"
  shows "keeps R (case x of Inl e \<Rightarrow> f e | Inr a \<Rightarrow> g a)"
  using assms by (cases x) auto

lemma keeps_case_option [intro]:
  assumes "x = None \<Longrightarrow> keeps R f" and "\<And>a. x = Some a \<Longrightarrow> keeps R (g a)"
  shows "keeps R (case x of None \<Rightarrow> f | Some a \<Rightarrow> g a)"
  using assms by (cases x) auto

lemma keeps_case_prod [intro]:
  assumes "\<And>a b. x = (a, b) \<Longrightarrow> keeps R (f a b)"
  shows "keeps R (case x of (a, b) \<Rightarrow> f a b)"
  using assms by (cases x) auto

lemma keeps_case_nat [intro]:
  assumes "n = 0 \<Longrightarrow> keeps R f" and "\<And>m. n = Suc m \<Longrightarrow> keeps R (g m)"
  shows "keeps R (case n of 0 \<Rightarrow> f | Suc m \<Rightarrow> g m)"
  using assms by (cases n) auto

lemma keeps_if [intro]:
  assumes "b \<Longrightarrow> keeps R p" and "\<not> b \<Longrightarrow> keeps R q"
  shows "keeps R (if b then p else q)"
  using assms by simp

lemma keeps_Let [intro]:
  assumes "\<And>x. x = a \<Longrightarrow> keeps R (f x)"
  shows "keeps R (let x = a in f x)"
  using assms by (simp add: Let_def)

lemmas keeps_cases = keeps_case_sum keeps_case_option keeps_case_prod keeps_case_nat keeps_if keeps_Let

text \<open>
  The relations on the store that a handler can keep under interference: transitive, and blind to whatever is neither
  a table of executions nor the rows of the runs. A \<open>rely_guarantee\<close> is blind to the rows of the runs too.
\<close>

locale store_relation =
  fixes R :: "db \<Rightarrow> db \<Rightarrow> bool"
  assumes rows_frame: "executions d' = executions d \<Longrightarrow> workflows d' = workflows d \<Longrightarrow> run_rows d' = run_rows d \<Longrightarrow> R d d'"
    and trans: "R d d' \<Longrightarrow> R d' d'' \<Longrightarrow> R d d''"
begin

lemma refl: "R d d"
  by (simp add: rows_frame)

lemma keeps_return: "keeps R (State_Monad.return a)"
  by (simp add: keeps_def refl)

lemma keeps_bind:
  assumes "keeps R p" and "\<And>a. keeps R (f a)"
  shows "keeps R (State_Monad.bind p f)"
  unfolding keeps_def
proof (intro allI impI)
  fix w :: world
  assume rely: "\<forall>n d. R d (env w n d)"
  obtain a w' where p: "run_state p w = (a, w')" by fastforce
  obtain b w'' where f: "run_state (f a) w' = (b, w'')" by fastforce
  have 1: "R (data w) (data w') \<and> env w' = env w \<and> fault w' = fault w"
    by (rule keeps_run [OF assms(1) rely p])
  with rely have "\<forall>n d. R d (env w' n d)" by simp
  then have "R (data w') (data w'') \<and> env w'' = env w' \<and> fault w'' = fault w'"
    using keeps_run [OF assms(2) _ f] by blast
  then show "R (data w) (data (snd (run_state (State_Monad.bind p f) w))) \<and>
      env (snd (run_state (State_Monad.bind p f) w)) = env w \<and>
      fault (snd (run_state (State_Monad.bind p f) w)) = fault w"
    using p f 1 trans by auto
qed

lemma keeps_time: "keeps R time_Now"
  by (simp add: keeps_def time_Now_def refl)

lemma keeps_publish: "keeps R (publish e)"
  by (simp add: keeps_def publish_def rows_frame)

lemma keeps_emit: "keeps R (emit x)"
  by (simp add: keeps_def emit_def rows_frame)

lemma keeps_db_call:
  assumes "\<And>d. R d (snd (tx d))"
  shows "keeps R (db_call tx)"
  unfolding keeps_def
proof (intro allI impI)
  fix w :: world
  assume rely: "\<forall>n d. R d (env w n d)"
  let ?d = "env w (calls w) (data w)"
  obtain r d' where tx: "tx ?d = (r, d')" by fastforce
  have "R (data w) ?d" and "R ?d d'"
    using rely assms [of ?d] tx by auto
  then show "R (data w) (data (snd (run_state (db_call tx) w))) \<and>
      env (snd (run_state (db_call tx) w)) = env w \<and> fault (snd (run_state (db_call tx) w)) = fault w"
    using tx trans by (auto simp: db_call_def Let_def split: option.splits)
qed

lemma keeps_publish_event: "keeps R (publish_event t k wid node st dat)"
  unfolding publish_event_def by (intro keeps_bind keeps_time keeps_publish)

lemma keeps_publishers:
  "keeps R (PublishExecutionPaused k wid node dat)" "keeps R (PublishExecutionResumed k wid node dat)"
  "keeps R (PublishExecutionWaiting k wid node dat)" "keeps R (PublishExecutionCancelled k wid node dat)"
  "keeps R (PublishExecutionApprovalResolved k wid node st dat)"
  by (simp_all add: keeps_publish_event PublishExecutionPaused_def PublishExecutionResumed_def
      PublishExecutionWaiting_def PublishExecutionCancelled_def PublishExecutionApprovalResolved_def)

lemma keeps_HasExecutionWebhook: "keeps R (HasExecutionWebhook k)"
  unfolding HasExecutionWebhook_def by (rule keeps_db_call) (simp add: refl)

lemma keeps_enrich: "keeps R (enrichExecutionWebhook e)"
  unfolding enrichExecutionWebhook_def
  by (intro keeps_cases keeps_bind keeps_return keeps_HasExecutionWebhook)

lemma keeps_GetExecutionRecord: "keeps R (GetExecutionRecord k)"
  unfolding GetExecutionRecord_def
  by (intro keeps_cases keeps_bind keeps_return keeps_enrich keeps_db_call) (simp add: refl)

lemma keeps_GetWorkflowExecution: "keeps R (GetWorkflowExecution k)"
  unfolding GetWorkflowExecution_def by (rule keeps_db_call) (simp add: refl)

lemma keeps_UpdateExecutionRecord:
  assumes "\<And>d. R d (snd (update_execution_tx k upd d))"
  shows "keeps R (UpdateExecutionRecord k upd)"
  unfolding UpdateExecutionRecord_def
  by (intro keeps_cases keeps_bind keeps_return keeps_enrich keeps_db_call assms)

lemma keeps_retry:
  assumes "keeps R p"
  shows "keeps R (retryDatabaseOperation n p)"
proof (induction n)
  case 0
  show ?case by (subst retryDatabaseOperation.simps) (auto intro!: keeps_bind keeps_return assms)
next
  case (Suc n)
  then show ?case
    by (subst retryDatabaseOperation.simps) (auto intro!: keeps_bind keeps_return assms)
qed

lemma keeps_StoreEvent: "keeps R (StoreWorkflowExecutionEvent e)"
  unfolding StoreWorkflowExecutionEvent_def by (intro keeps_retry keeps_db_call) (simp add: rows_frame)

lemma keeps_UpdateWorkflowExecution:
  assumes "\<And>d. R d (snd (attemptWorkflowExecutionUpdate k upd d))"
  shows "keeps R (UpdateWorkflowExecution k upd)"
proof -
  have "keeps R (update_workflow_attempts n k upd)" for n
  proof (induction n)
    case 0
    show ?case
      by (subst update_workflow_attempts.simps) (auto intro!: keeps_bind keeps_return keeps_db_call assms)
  next
    case (Suc n)
    then show ?case
      by (subst update_workflow_attempts.simps) (auto intro!: keeps_bind keeps_return keeps_db_call assms)
  qed
  then show ?thesis by (simp add: UpdateWorkflowExecution_def)
qed

lemma keeps_StoreWorkflowExecution:
  assumes "\<And>d. R d (snd (executeWorkflowInsert e d))"
  shows "keeps R (StoreWorkflowExecution e)"
  unfolding StoreWorkflowExecution_def by (intro keeps_retry keeps_db_call assms)

lemmas keeps_reads = keeps_return keeps_bind keeps_time keeps_publish keeps_emit keeps_publish_event
  keeps_publishers keeps_HasExecutionWebhook keeps_GetExecutionRecord keeps_GetWorkflowExecution
  keeps_StoreEvent

end

locale rely_guarantee = store_relation +
  assumes frame: "executions d' = executions d \<Longrightarrow> workflows d' = workflows d \<Longrightarrow> R d d'"

subsection \<open>What every operation keeps\<close>

definition settled :: "status set" where
  "settled = {stSucceeded, stFailed, stCancelled}"

text \<open>No terminal execution record changes its status.\<close>

definition terminal_kept :: "db \<Rightarrow> db \<Rightarrow> bool" where
  "terminal_kept d d' \<longleftrightarrow>
     (\<forall>k e. find_execution d k = Some e \<longrightarrow> IsTerminalExecutionStatus (ex_Status e) \<longrightarrow>
        (\<exists>e'. find_execution d' k = Some e' \<and> ex_Status e' = ex_Status e))"

text \<open>No workflow execution leaves \<open>succeeded\<close>, \<open>failed\<close> or \<open>cancelled\<close>.\<close>

definition workflow_settled :: "db \<Rightarrow> db \<Rightarrow> bool" where
  "workflow_settled d d' \<longleftrightarrow>
     (\<forall>k f. find_workflow d k = Some f \<longrightarrow> NormalizeExecutionStatus (wf_Status f) \<in> settled \<longrightarrow>
        (\<exists>f'. find_workflow d' k = Some f' \<and>
              NormalizeExecutionStatus (wf_Status f') = NormalizeExecutionStatus (wf_Status f)))"

text \<open>The execution ids of both tables stay distinct, and no row disappears.\<close>

definition tables_ok :: "db \<Rightarrow> bool" where
  "tables_ok d \<longleftrightarrow> distinct (map ex_ExecutionID (executions d)) \<and>
                   distinct (map wf_ExecutionID (workflows d))"

definition tables_kept :: "db \<Rightarrow> db \<Rightarrow> bool" where
  "tables_kept d d' \<longleftrightarrow> (tables_ok d \<longrightarrow> tables_ok d') \<and>
     ex_ExecutionID ` set (executions d) \<subseteq> ex_ExecutionID ` set (executions d') \<and>
     wf_ExecutionID ` set (workflows d) \<subseteq> wf_ExecutionID ` set (workflows d')"

definition store_kept :: "db \<Rightarrow> db \<Rightarrow> bool" where
  "store_kept d d' \<longleftrightarrow> workflow_settled d d' \<and> tables_kept d d'"

interpretation terminal: rely_guarantee terminal_kept
proof
  show "terminal_kept d d''" if "terminal_kept d d'" "terminal_kept d' d''" for d d' d''
    using that unfolding terminal_kept_def by metis
qed (simp_all add: terminal_kept_def)

lemma workflow_settled_trans:
  "workflow_settled d d' \<Longrightarrow> workflow_settled d' d'' \<Longrightarrow> workflow_settled d d''"
  unfolding workflow_settled_def by metis

lemma tables_kept_trans: "tables_kept d d' \<Longrightarrow> tables_kept d' d'' \<Longrightarrow> tables_kept d d''"
  unfolding tables_kept_def by (metis order_trans)

interpretation store: rely_guarantee store_kept
proof
  show "store_kept d d''" if "store_kept d d'" "store_kept d' d''" for d d' d''
    using that workflow_settled_trans tables_kept_trans unfolding store_kept_def by metis
qed (auto simp: store_kept_def workflow_settled_def tables_kept_def tables_ok_def)

text \<open>The two conditions on an updater under which the relations are kept.\<close>

definition keeps_id :: "(Execution, 'c) updater \<Rightarrow> bool" where
  "keeps_id upd \<longleftrightarrow> (\<forall>now cur u c. upd now cur = Inr (Some u, c) \<longrightarrow>
     (\<exists>e. cur = Some e \<and> ex_ExecutionID u = ex_ExecutionID e))"

definition respects_terminal :: "(Execution, 'c) updater \<Rightarrow> bool" where
  "respects_terminal upd \<longleftrightarrow> (\<forall>now e u c. upd now (Some e) = Inr (Some u, c) \<longrightarrow>
     IsTerminalExecutionStatus (ex_Status e) \<longrightarrow> ex_Status u = ex_Status e)"

lemma update_execution_tx_cases:
  assumes "keeps_id upd"
  obtains "snd (update_execution_tx k upd d) = d"
  | e u c where "find_execution d k = Some e" "upd (clock d) (Some e) = Inr (Some u, c)"
      "ex_ExecutionID u = k" "snd (update_execution_tx k upd d) = persist_execution (u\<lparr>ex_UpdatedAt := clock d\<rparr>) d"
proof (cases "upd (clock d) (find_execution d k)")
  case (Inl e)
  then show ?thesis using that(1) by (simp add: update_execution_tx_def)
next
  case (Inr p)
  obtain o' c where p: "p = (o', c)" by fastforce
  show ?thesis
  proof (cases o')
    case None
    with Inr p show ?thesis using that(1) by (simp add: update_execution_tx_def)
  next
    case (Some u)
    with Inr p have u: "upd (clock d) (find_execution d k) = Inr (Some u, c)" by simp
    with assms obtain e where e: "find_execution d k = Some e" "ex_ExecutionID u = ex_ExecutionID e"
      unfolding keeps_id_def by blast
    then have "ex_ExecutionID u = k" using lookup_key by metis
    with e u show ?thesis using that(2) by (simp add: update_execution_tx_def Let_def)
  qed
qed

lemma update_tx_found:
  assumes "find_execution d k = Some e" and "upd (clock d) (Some e) = Inr (Some u, c)"
  shows "update_execution_tx k upd d =
     (Inr (Some (u\<lparr>ex_UpdatedAt := clock d\<rparr>), c), persist_execution (u\<lparr>ex_UpdatedAt := clock d\<rparr>) d)"
  using assms by (simp add: update_execution_tx_def Let_def)

lemma persist_frame [simp]:
  "published (persist_execution u d) = published d" "wf_events (persist_execution u d) = wf_events d"
  "clock (persist_execution u d) = clock d" "workflows (persist_execution u d) = workflows d"
  "webhooks (persist_execution u d) = webhooks d" "effects (persist_execution u d) = effects d"
  by (simp_all add: persist_execution_def)

lemma find_persist:
  "find_execution (persist_execution u d) j =
     (if j = ex_ExecutionID u
      then map_option (\<lambda>old. u\<lparr>ex_CreatedAt := ex_CreatedAt old, ex_WebhookRegistered := False\<rparr>)
             (find_execution d j)
      else find_execution d j)"
  by (simp add: persist_execution_def lookup_modify)

lemma terminal_kept_update:
  assumes "keeps_id upd" and "respects_terminal upd"
  shows "terminal_kept d (snd (update_execution_tx k upd d))"
  using assms(1)
proof (rule update_execution_tx_cases [of upd k d])
  fix e u c
  assume e: "find_execution d k = Some e" "upd (clock d) (Some e) = Inr (Some u, c)" "ex_ExecutionID u = k"
    and d': "snd (update_execution_tx k upd d) = persist_execution (u\<lparr>ex_UpdatedAt := clock d\<rparr>) d"
  then show ?thesis
    using assms(2) unfolding terminal_kept_def respects_terminal_def
    by (auto simp: find_persist d')
qed (simp add: terminal.refl)

lemma map_keys_set: "map key xs = map key ys \<Longrightarrow> key ` set xs = key ` set ys"
  by (metis list.set_map)

lemma store_kept_update:
  assumes "keeps_id upd"
  shows "store_kept d (snd (update_execution_tx k upd d))"
  using assms
proof (rule update_execution_tx_cases [of upd k d])
  fix e u c
  assume d': "snd (update_execution_tx k upd d) = persist_execution (u\<lparr>ex_UpdatedAt := clock d\<rparr>) d"
  have m: "map ex_ExecutionID (executions (persist_execution v d)) = map ex_ExecutionID (executions d)"
    and f: "workflows (persist_execution v d) = workflows d" for v
    by (simp_all add: persist_execution_def modify_keys)
  show ?thesis
    unfolding d' store_kept_def tables_kept_def tables_ok_def workflow_settled_def m f
      map_keys_set [OF m] by simp
qed (simp add: store.refl)

lemma insert_executions [simp]: "executions (snd (executeWorkflowInsert e d)) = executions d"
  by (auto simp: executeWorkflowInsert_def Let_def split: option.splits)

lemma attempt_executions [simp]:
  "executions (snd (attemptWorkflowExecutionUpdate k upd d)) = executions d"
proof -
  have "executions d' = executions d" if "executeWorkflowInsert e d = (r, d')" for e r d'
    using insert_executions [of e d] that by simp
  then show ?thesis
    by (auto simp: attemptWorkflowExecutionUpdate_def split: sum.splits prod.splits)
qed

lemma insert_frame [simp]:
  "published (snd (executeWorkflowInsert e d)) = published d"
  "clock (snd (executeWorkflowInsert e d)) = clock d"
  "wf_events (snd (executeWorkflowInsert e d)) = wf_events d"
  "webhooks (snd (executeWorkflowInsert e d)) = webhooks d"
  "effects (snd (executeWorkflowInsert e d)) = effects d"
  by (auto simp: executeWorkflowInsert_def Let_def split: option.splits)

lemma attempt_cases:
  obtains "snd (attemptWorkflowExecutionUpdate k upd d) = d"
  | e where "snd (attemptWorkflowExecutionUpdate k upd d) = snd (executeWorkflowInsert e d)"
proof (cases "attemptWorkflowExecutionUpdate k upd d")
  case (Pair r d')
  have "d' = d \<or> (\<exists>e. d' = snd (executeWorkflowInsert e d))"
    using Pair by (auto simp: attemptWorkflowExecutionUpdate_def split: sum.splits prod.splits if_splits)
      (metis snd_conv)
  with Pair that show ?thesis by auto
qed

lemma attempt_frame [simp]:
  "published (snd (attemptWorkflowExecutionUpdate k upd d)) = published d"
  "clock (snd (attemptWorkflowExecutionUpdate k upd d)) = clock d"
  "wf_events (snd (attemptWorkflowExecutionUpdate k upd d)) = wf_events d"
  "webhooks (snd (attemptWorkflowExecutionUpdate k upd d)) = webhooks d"
  "effects (snd (attemptWorkflowExecutionUpdate k upd d)) = effects d"
  by (cases rule: attempt_cases [of k upd d]; simp)+

lemma terminal_kept_same: "executions d' = executions d \<Longrightarrow> terminal_kept d d'"
  by (simp add: terminal_kept_def)

lemma update_columns_sel [simp]:
  "wf_ExecutionID (workflow_update_columns e now old) = wf_ExecutionID old"
  "wf_Status (workflow_update_columns e now old) = wf_Status e"
  "wf_StatusReason (workflow_update_columns e now old) = wf_StatusReason e"
  by (simp_all add: workflow_update_columns_def)

text \<open>
  The heart of the workflow table: whatever row is written, \<open>executeWorkflowInsert\<close> lets no
  execution leave a settled status, because the transition is validated against the stored row
  inside the transaction.
\<close>

lemma workflow_settled_insert: "workflow_settled d (snd (executeWorkflowInsert e d))"
  unfolding workflow_settled_def
proof (intro allI impI)
  fix k f
  assume f: "find_workflow d k = Some f" "NormalizeExecutionStatus (wf_Status f) \<in> settled"
  show "\<exists>f'. find_workflow (snd (executeWorkflowInsert e d)) k = Some f' \<and>
      NormalizeExecutionStatus (wf_Status f') = NormalizeExecutionStatus (wf_Status f)"
  proof (cases "find_workflow d (wf_ExecutionID e)")
    case None
    with f show ?thesis by (simp add: executeWorkflowInsert_def Let_def)
  next
    case (Some old)
    show ?thesis
    proof (cases "transition_ok (wf_Status old) (wf_Status e)")
      case False
      with Some f show ?thesis
        by (auto simp: executeWorkflowInsert_def transition_ok_def split: option.splits)
    next
      case True
      then have d': "snd (executeWorkflowInsert e d) = d\<lparr>workflows := modify wf_ExecutionID
          (wf_ExecutionID e) (workflow_update_columns e (clock d)) (workflows d)\<rparr>"
        using Some by (simp add: executeWorkflowInsert_def transition_ok_def)
      have "NormalizeExecutionStatus (wf_Status e) = NormalizeExecutionStatus (wf_Status f)"
        if "k = wf_ExecutionID e"
        using that Some f True transition_absorbing by (auto simp: settled_def)
      with f show ?thesis
        unfolding d' by (cases "k = wf_ExecutionID e")
          (auto simp: lookup_modify dest: lookup_key [of wf_ExecutionID])
    qed
  qed
qed

lemma tables_kept_insert: "tables_kept d (snd (executeWorkflowInsert e d))"
proof (cases "find_workflow d (wf_ExecutionID e)")
  case None
  then have "wf_ExecutionID e \<notin> wf_ExecutionID ` set (workflows d)"
    by (simp add: lookup_None_iff)
  with None show ?thesis
    by (auto simp: executeWorkflowInsert_def Let_def tables_kept_def tables_ok_def)
next
  case (Some old)
  have "map wf_ExecutionID (modify wf_ExecutionID k (workflow_update_columns e n) (workflows d)) =
      map wf_ExecutionID (workflows d)" for k n
    by (rule modify_keys) simp
  note m = this map_keys_set [OF this]
  from Some show ?thesis
    by (auto simp: executeWorkflowInsert_def tables_kept_def tables_ok_def m split: option.splits)
qed

lemma store_kept_insert: "store_kept d (snd (executeWorkflowInsert e d))"
  by (simp add: store_kept_def workflow_settled_insert tables_kept_insert)

lemma store_kept_attempt: "store_kept d (snd (attemptWorkflowExecutionUpdate k upd d))"
proof -
  have "store_kept d d'" if "executeWorkflowInsert e d = (r, d')" for e r d'
    using store_kept_insert [of d e] that by simp
  then show ?thesis
    by (auto simp: attemptWorkflowExecutionUpdate_def store.refl split: sum.splits prod.splits)
qed

lemmas terminal_keeps = terminal.keeps_reads terminal.keeps_UpdateExecutionRecord
  terminal.keeps_UpdateWorkflowExecution [OF terminal_kept_same [OF attempt_executions]]
  terminal.keeps_StoreWorkflowExecution [OF terminal_kept_same [OF insert_executions]]
  terminal_kept_update

lemmas store_keeps = store.keeps_reads store.keeps_UpdateExecutionRecord
  store.keeps_UpdateWorkflowExecution [OF store_kept_attempt]
  store.keeps_StoreWorkflowExecution [OF store_kept_insert] store_kept_update

subsection \<open>Runs without faults and interference\<close>

text \<open>
  \<open>quiet w\<close>: no storage call fails and no other request interferes. Functional statements
  about one handler are about quiet worlds. \<open>w'\<close> is \<open>quietly\<close> reached with database \<open>d\<close>.
\<close>

definition quiet :: "world \<Rightarrow> bool" where
  "quiet w \<longleftrightarrow> (\<forall>n. fault w n = None) \<and> (\<forall>n d. env w n d = d)"

lemma quiet_idle [simp]: "quiet (idle d)"
  by (simp add: quiet_def idle_def)

lemma idle_sel [simp]: "data (idle d) = d" "env (idle d) n x = x" "fault (idle d) n = None"
  by (simp_all add: idle_def)

lemma one_row_sel [simp]:
  "executions (one_row k st now) = [zero_execution\<lparr>ex_ExecutionID := k, ex_Status := st\<rparr>]"
  "workflows (one_row k st now) = []" "clock (one_row k st now) = now"
  "published (one_row k st now) = []" "wf_events (one_row k st now) = []" "webhooks (one_row k st now) = []"
  "effects (one_row k st now) = []"
  by (simp_all add: one_row_def)

lemma keeps_quiet:
  assumes "keeps R p" and "quiet w" and "\<And>d. R d d"
  shows "quiet (snd (run_state p w))"
  using assms unfolding keeps_def quiet_def by metis

definition on_data :: "db \<Rightarrow> nat \<Rightarrow> world \<Rightarrow> world" where
  "on_data d n w = w\<lparr>data := d, calls := n\<rparr>"

lemma on_data_sel [simp]:
  "data (on_data d n w) = d" "calls (on_data d n w) = n" "fault (on_data d n w) = fault w"
  "env (on_data d n w) = env w" "quiet (on_data d n w) = quiet w"
  "on_data d' m (on_data d n w) = on_data d' m w"
  by (simp_all add: on_data_def quiet_def)

lemma on_data_self: "on_data (data w) (calls w) w = w"
  by (simp add: on_data_def)

lemma quiet_db_call:
  "quiet w \<Longrightarrow> run_state (db_call tx) w = (fst (tx (data w)), on_data (snd (tx (data w))) (Suc (calls w)) w)"
  by (cases "tx (data w)") (simp add: db_call_def quiet_def on_data_def Let_def)

lemma run_time_Now [simp]: "run_state time_Now w = (clock (data w), w)"
  by (simp add: time_Now_def)

lemma run_publish [simp]:
  "run_state (publish e) w = ((), on_data ((data w)\<lparr>published := published (data w) @ [e]\<rparr>) (calls w) w)"
  by (simp add: publish_def on_data_def)

lemma run_emit [simp]:
  "run_state (emit x) w = ((), on_data ((data w)\<lparr>effects := effects (data w) @ [x]\<rparr>) (calls w) w)"
  by (simp add: emit_def on_data_def)

lemma run_publish_event [simp]:
  "run_state (publish_event t k wid node st dat) w =
     ((), on_data ((data w)\<lparr>published := published (data w) @
        [\<lparr>ev_Type = t, ev_ExecutionID = k, ev_WorkflowID = wid, ev_AgentNodeID = node,
          ev_Status = st, ev_Timestamp = clock (data w), ev_Data = dat\<rparr>]\<rparr>) (calls w) w)"
  by (simp add: publish_event_def)

definition with_webhook :: "db \<Rightarrow> Execution \<Rightarrow> Execution" where
  "with_webhook d e = e\<lparr>ex_WebhookRegistered := ex_ExecutionID e \<in> set (webhooks d)\<rparr>"

lemma quiet_enrich:
  "quiet w \<Longrightarrow> \<exists>n. run_state (enrichExecutionWebhook e) w =
     (map_option (with_webhook (data w)) e, on_data (data w) n w)"
  by (cases e) (auto simp: enrichExecutionWebhook_def HasExecutionWebhook_def quiet_db_call
      with_webhook_def intro: exI [of _ "calls w"] simp flip: on_data_self)

lemma quiet_GetExecutionRecord:
  assumes "quiet w"
  shows "\<exists>n. run_state (GetExecutionRecord k) w =
     (Inr (map_option (with_webhook (data w)) (find_execution (data w) k)), on_data (data w) n w)"
proof -
  let ?w = "on_data (data w) (Suc (calls w)) w"
  obtain n where "run_state (enrichExecutionWebhook (find_execution (data w) k)) ?w =
      (map_option (with_webhook (data w)) (find_execution (data w) k), on_data (data w) n ?w)"
    using quiet_enrich [of ?w] assms by auto
  then show ?thesis
    using assms by (simp add: GetExecutionRecord_def quiet_db_call) blast
qed

lemma quiet_GetWorkflowExecution:
  "quiet w \<Longrightarrow> \<exists>n. run_state (GetWorkflowExecution k) w =
     (Inr (find_workflow (data w) k), on_data (data w) n w)"
  by (auto simp: GetWorkflowExecution_def quiet_db_call)

lemma quiet_UpdateExecutionRecord:
  assumes "quiet w"
  shows "\<exists>n. run_state (UpdateExecutionRecord k upd) w =
     (case update_execution_tx k upd (data w) of
        (Inl e, d) \<Rightarrow> (Inl e, on_data d n w)
      | (Inr (x, c), d) \<Rightarrow> (Inr (map_option (with_webhook d) x, c), on_data d n w))"
proof -
  obtain r d where tx: "update_execution_tx k upd (data w) = (r, d)" by fastforce
  let ?w = "on_data d (Suc (calls w)) w"
  show ?thesis
  proof (cases r)
    case (Inl e)
    with tx assms show ?thesis by (auto simp: UpdateExecutionRecord_def quiet_db_call)
  next
    case (Inr xc)
    obtain x c where xc: "xc = (x, c)" by fastforce
    obtain n where "run_state (enrichExecutionWebhook x) ?w = (map_option (with_webhook d) x, on_data d n ?w)"
      using quiet_enrich [of ?w] assms by auto
    with tx assms Inr xc show ?thesis
      by (simp add: UpdateExecutionRecord_def quiet_db_call) blast
  qed
qed

lemma quiet_StoreEvent:
  assumes "quiet w"
  shows "\<exists>n. run_state (StoreWorkflowExecutionEvent e) w =
     (Inr (), on_data ((data w)\<lparr>wf_events := wf_events (data w) @ [e]\<rparr>) n w)"
  using assms
  by (subst StoreWorkflowExecutionEvent_def, subst retryDatabaseOperation.simps)
     (auto simp: quiet_db_call)

lemma attempt_error:
  "attemptWorkflowExecutionUpdate k upd d = (Inl e, d') \<Longrightarrow> d' = d"
  by (auto simp: attemptWorkflowExecutionUpdate_def split: sum.splits prod.splits if_splits)

lemma quiet_update_attempts:
  assumes "quiet w"
  shows "\<exists>r n. run_state (update_workflow_attempts m k upd) w =
     (r, on_data (snd (attemptWorkflowExecutionUpdate k upd (data w))) n w)"
  using assms
proof (induction m arbitrary: w)
  case 0
  then show ?case
    by (subst update_workflow_attempts.simps)
      (auto simp: quiet_db_call split: sum.splits)
next
  case (Suc m)
  obtain r d where a: "attemptWorkflowExecutionUpdate k upd (data w) = (r, d)" by fastforce
  have "d = data w" if "r = Inl e" for e
    using that a attempt_error by blast
  moreover obtain r' n where "run_state (update_workflow_attempts m k upd) (on_data d (Suc (calls w)) w) =
      (r', on_data (snd (attemptWorkflowExecutionUpdate k upd d)) n w)"
    using Suc.IH [of "on_data d (Suc (calls w)) w"] Suc.prems by auto
  ultimately show ?case
    using Suc.prems a
    by (subst update_workflow_attempts.simps) (auto simp: quiet_db_call split: sum.splits)
qed

lemma quiet_UpdateWorkflowExecution:
  "quiet w \<Longrightarrow> \<exists>r n. run_state (UpdateWorkflowExecution k upd) w =
     (r, on_data (snd (attemptWorkflowExecutionUpdate k upd (data w))) n w)"
  by (simp add: UpdateWorkflowExecution_def quiet_update_attempts)

text \<open>
  The number of storage calls made does not matter in a quiet world. Naming it makes the
  outcome of every operation an equation, so that a handler is evaluated by rewriting.
\<close>

definition calls_of :: "'a proc \<Rightarrow> world \<Rightarrow> nat" where
  "calls_of p w = calls (snd (run_state p w))"

lemma calls_ofI: "\<exists>n. run_state p w = (r, on_data d n w) \<Longrightarrow>
    run_state p w = (r, on_data d (calls_of p w) w)"
  by (auto simp: calls_of_def)

lemmas quiet_Get = quiet_GetExecutionRecord [THEN calls_ofI]
lemmas quiet_GetWorkflow = quiet_GetWorkflowExecution [THEN calls_ofI]
lemmas quiet_Event = quiet_StoreEvent [THEN calls_ofI]

lemma quiet_Update:
  assumes "quiet w" and "update_execution_tx k upd (data w) = (Inr (x, c), d)"
  shows "run_state (UpdateExecutionRecord k upd) w =
     (Inr (map_option (with_webhook d) x, c), on_data d (calls_of (UpdateExecutionRecord k upd) w) w)"
  using quiet_UpdateExecutionRecord [OF assms(1), of k upd] assms(2) by (intro calls_ofI) simp

lemma quiet_Update_error:
  assumes "quiet w" and "update_execution_tx k upd (data w) = (Inl e, d)"
  shows "run_state (UpdateExecutionRecord k upd) w =
     (Inl e, on_data d (calls_of (UpdateExecutionRecord k upd) w) w)"
  using quiet_UpdateExecutionRecord [OF assms(1), of k upd] assms(2) by (intro calls_ofI) simp

definition result_of :: "'a proc \<Rightarrow> world \<Rightarrow> 'a" where
  "result_of p w = fst (run_state p w)"

lemma quiet_UpdateWorkflow:
  "quiet w \<Longrightarrow> run_state (UpdateWorkflowExecution k upd) w =
     (result_of (UpdateWorkflowExecution k upd) w,
      on_data (snd (attemptWorkflowExecutionUpdate k upd (data w)))
        (calls_of (UpdateWorkflowExecution k upd) w) w)"
  using quiet_UpdateWorkflowExecution [of w k upd] by (auto simp: result_of_def calls_of_def)

text \<open>An accepted workflow update: the row afterwards, and the effect on the table.\<close>

definition store_workflow :: "WorkflowExecution \<Rightarrow> db \<Rightarrow> db" where
  "store_workflow u d = d\<lparr>workflows := modify wf_ExecutionID (wf_ExecutionID u)
     (workflow_update_columns u (clock d)) (workflows d)\<rparr>"

lemma store_workflow_sel [simp]:
  "executions (store_workflow u d) = executions d" "clock (store_workflow u d) = clock d"
  "published (store_workflow u d) = published d" "effects (store_workflow u d) = effects d"
  "wf_events (store_workflow u d) = wf_events d" "webhooks (store_workflow u d) = webhooks d"
  by (simp_all add: store_workflow_def)

lemma find_store_workflow:
  "find_workflow (store_workflow u d) j =
     (if j = wf_ExecutionID u then map_option (workflow_update_columns u (clock d)) (find_workflow d j)
      else find_workflow d j)"
  by (simp add: store_workflow_def lookup_modify)

lemma attempt_ok:
  assumes "find_workflow d k = Some f" and "upd (clock d) (Some f) = Inr u"
    and "wf_ExecutionID u = k" and "transition_ok (wf_Status f) (wf_Status u)"
  shows "attemptWorkflowExecutionUpdate k upd d = (Inr (), store_workflow u d)"
  using assms by (simp add: attemptWorkflowExecutionUpdate_def executeWorkflowInsert_def
      transition_ok_def store_workflow_def)

lemma quiet_UpdateWorkflow_ok:
  assumes "quiet w" and "attemptWorkflowExecutionUpdate k upd (data w) = (Inr (), d)"
  shows "run_state (UpdateWorkflowExecution k upd) w = (Inr (), on_data d (Suc (calls w)) w)"
  using assms by (simp add: UpdateWorkflowExecution_def update_workflow_attempts.simps quiet_db_call)

lemma quiet_HasWebhook:
  "quiet w \<Longrightarrow> run_state (HasExecutionWebhook k) w =
     (Inr (k \<in> set (webhooks (data w))), on_data (data w) (calls_of (HasExecutionWebhook k) w) w)"
  by (rule calls_ofI) (auto simp: HasExecutionWebhook_def quiet_db_call)

text \<open>
  A continuation is evaluated when its argument is known, not before: this congruence keeps
  the simplifier out of it.
\<close>

lemma bind_cong_weak: "p = q \<Longrightarrow> State_Monad.bind p f = State_Monad.bind q f"
  by simp

lemmas quiet_simps = quiet_Get quiet_GetWorkflow quiet_Event quiet_Update quiet_Update_error
  quiet_UpdateWorkflow quiet_HasWebhook

end
