(* ===== verification/Exec_Cancel.thy ===== *)
theory Exec_Cancel
  imports Exec_Store
begin

text \<open>
  Operator control of one execution: \<open>CancelExecutionHandler\<close> (\<open>execute_cancel.go\<close>),
  \<open>PauseExecutionHandler\<close> and \<open>ResumeExecutionHandler\<close> (\<open>execute_pause.go\<close>), and the
  lifecycle data of the events they publish (\<open>execute_events.go\<close>). A request is its path
  parameter and the outcome of binding its JSON body.
\<close>

datatype 'a bound = Bound 'a | BoundEOF | BoundErr string

subsection \<open>Lifecycle data of an event\<close>

definition ErrorCategoryLLMUnavailable :: string where "ErrorCategoryLLMUnavailable = ''llm_unavailable''"
definition ErrorCategoryConcurrencyLimit :: string where "ErrorCategoryConcurrencyLimit = ''concurrency_limit''"
definition ErrorCategoryAgentTimeout :: string where "ErrorCategoryAgentTimeout = ''agent_timeout''"
definition ErrorCategoryAgentError :: string where "ErrorCategoryAgentError = ''agent_error''"
definition ErrorCategoryAgentUnreachable :: string where "ErrorCategoryAgentUnreachable = ''agent_unreachable''"
definition ErrorCategoryBadResponse :: string where "ErrorCategoryBadResponse = ''bad_response''"
definition ErrorCategoryInternal :: string where "ErrorCategoryInternal = ''internal_error''"
definition ErrorCategoryControlPlaneShutdown :: string where "ErrorCategoryControlPlaneShutdown = ''control_plane_shutdown''"
definition ErrorCategoryTargetNotFound :: string where "ErrorCategoryTargetNotFound = ''target_not_found''"
definition ErrorCategoryNodeUnavailable :: string where "ErrorCategoryNodeUnavailable = ''node_unavailable''"

lemmas error_categories = ErrorCategoryLLMUnavailable_def ErrorCategoryConcurrencyLimit_def
  ErrorCategoryAgentTimeout_def ErrorCategoryAgentError_def ErrorCategoryAgentUnreachable_def
  ErrorCategoryBadResponse_def ErrorCategoryInternal_def ErrorCategoryControlPlaneShutdown_def
  ErrorCategoryTargetNotFound_def ErrorCategoryNodeUnavailable_def

definition canonicalFailureCategory :: "string option \<Rightarrow> string \<Rightarrow> string" where
  "canonicalFailureCategory statusReason fallback =
     (case statusReason of
        None \<Rightarrow> fallback
      | Some r \<Rightarrow>
          (let category = TrimSpace r;
               category = (if CHR '':'' \<in> set category
                           then TrimSpace (takeWhile (\<lambda>c. c \<noteq> CHR '':'') category) else category)
           in if category \<in> set
                 [ErrorCategoryLLMUnavailable, ErrorCategoryConcurrencyLimit, ErrorCategoryAgentTimeout,
                  ErrorCategoryAgentError, ErrorCategoryAgentUnreachable, ErrorCategoryBadResponse,
                  ErrorCategoryInternal, ''agent_restart_orphaned'', ''validation'',
                  ''permission_denied'', ''node_unavailable'', ''target_not_found'']
              then category else fallback))"

definition is_root_execution :: "Execution \<Rightarrow> bool" where
  "is_root_execution e \<longleftrightarrow>
     (case ex_ParentExecutionID e of None \<Rightarrow> True | Some p \<Rightarrow> TrimSpace p = [])"

definition enrichExecutionLifecycleData ::
    "(string \<times> json) list \<Rightarrow> Execution \<Rightarrow> status \<Rightarrow> (string \<times> json) list" where
  "enrichExecutionLifecycleData dat e st =
     (let dat = set_field ''is_root_execution'' (JBool (is_root_execution e)) dat;
          dat = (if map_of dat ''workflow_depth'' = None \<and> is_root_execution e
                 then set_field ''workflow_depth'' (JInt 0) dat else dat);
          dat = (case ex_DurationMS e of None \<Rightarrow> dat | Some ms \<Rightarrow> set_field ''duration_ms'' (JInt ms) dat)
      in if st = stSucceeded then set_field ''outcome'' (JStr ''succeeded'') dat
         else if st = stFailed then
           set_field ''failure_category''
             (JStr (canonicalFailureCategory (ex_StatusReason e) ''unknown''))
             (set_field ''outcome'' (JStr ''failed'') dat)
         else if st = stCancelled then
           set_field ''failure_category'' (JStr ''cancelled'') (set_field ''outcome'' (JStr ''cancelled'') dat)
         else if st = stTimeout then
           set_field ''failure_category'' (JStr ''timeout'') (set_field ''outcome'' (JStr ''timeout'') dat)
         else dat)"

subsection \<open>Cancel\<close>

text \<open>The updater of the cancel transaction; its closure assigns \<open>previousStatus\<close>.\<close>

definition cancel_updater :: "string \<Rightarrow> string option \<Rightarrow> (Execution, status) updater" where
  "cancel_updater executionID reasonPtr _ current =
     (case current of
        None \<Rightarrow> Inl (Errorf (''execution '' @ executionID @ '' not found''))
      | Some e \<Rightarrow>
          if IsTerminalExecutionStatus (ex_Status e)
          then Inl (Errorf (''execution is in terminal state '' @ quoted (ex_Status e)))
          else
            (let previousStatus = ex_Status e;
                 e = e\<lparr>ex_Status := stCancelled\<rparr>;
                 e = (if reasonPtr \<noteq> None then e\<lparr>ex_StatusReason := reasonPtr\<rparr> else e)
             in Inr (Some e, previousStatus)))"

definition cancel_workflow_updater ::
    "string \<Rightarrow> string option \<Rightarrow> wf_updater" where
  "cancel_workflow_updater executionID reasonPtr _ current =
     (case current of
        None \<Rightarrow> Inl (Errorf (''execution '' @ executionID @ '' not found''))
      | Some f \<Rightarrow>
          (let f = f\<lparr>wf_Status := stCancelled\<rparr>
           in Inr (if reasonPtr \<noteq> None then f\<lparr>wf_StatusReason := reasonPtr\<rparr> else f)))"

definition workflow_ids :: "Execution \<Rightarrow> WorkflowExecution option \<Rightarrow> string \<times> string option" where
  "workflow_ids e wfExec = (case wfExec of
     None \<Rightarrow> (ex_RunID e, Some (ex_RunID e)) | Some f \<Rightarrow> (wf_WorkflowID f, wf_RunID f))"

definition reason_ptr :: "string \<Rightarrow> string option" where
  "reason_ptr reason = (if reason = [] then None else Some reason)"

definition omitempty :: "string \<Rightarrow> string option \<Rightarrow> (string \<times> json) list" where
  "omitempty k v = (case v of None \<Rightarrow> [] | Some x \<Rightarrow> [(k, JStr x)])"

text \<open>The value of a successful storage read; a failed one is logged and counts as absent.\<close>

definition non_fatal :: "goerr + 'a option \<Rightarrow> 'a option" where
  "non_fatal r = (case r of Inl _ \<Rightarrow> None | Inr x \<Rightarrow> x)"

definition sync_workflow ::
    "WorkflowExecution option \<Rightarrow> string \<Rightarrow> wf_updater \<Rightarrow> unit proc" where
  "sync_workflow wfExec executionID upd =
     (case wfExec of
        None \<Rightarrow> State_Monad.return ()
      | Some _ \<Rightarrow> do {
          _ \<leftarrow> UpdateWorkflowExecution executionID upd;
          State_Monad.return ()
        })"

definition cancel_event_data ::
    "(string \<times> json) list \<Rightarrow> Execution \<Rightarrow> WorkflowExecution option \<Rightarrow> (string \<times> json) list" where
  "cancel_event_data dat e wfExec =
     (let dat = enrichExecutionLifecycleData dat e stCancelled
      in case wfExec of None \<Rightarrow> dat
         | Some f \<Rightarrow> set_field ''workflow_depth'' (JInt (wf_WorkflowDepth f)) dat)"

definition CancelExecutionHandler :: "string \<Rightarrow> string bound \<Rightarrow> reply proc" where
  "CancelExecutionHandler param request =
     (let executionID = TrimSpace param
      in if executionID = [] then
        reply_with 400 [(''error'', JStr ''execution_id is required'')]
      else case request of
        BoundErr err \<Rightarrow> reply_with 400 [(''error'', JStr (''invalid request body: '' @ err))]
      | _ \<Rightarrow>
       (let reason = (case request of Bound r \<Rightarrow> TrimSpace r | _ \<Rightarrow> []);
            reasonPtr = reason_ptr reason
        in do {
          got \<leftarrow> GetExecutionRecord executionID;
          case got of
            Inl _ \<Rightarrow> reply_with 500 [(''error'', JStr ''failed to look up execution'')]
          | Inr None \<Rightarrow>
              reply_with 404 [(''error'', JStr (''execution '' @ executionID @ '' not found''))]
          | Inr (Some _) \<Rightarrow> do {
              wf \<leftarrow> GetWorkflowExecution executionID;
              let wfExec = non_fatal wf;
              now \<leftarrow> time_Now;
              upd \<leftarrow> UpdateExecutionRecord executionID (cancel_updater executionID reasonPtr);
              case upd of
                Inl err \<Rightarrow>
                  if Contains (err_msg err) ''terminal state'' \<or>
                     Contains (err_msg err) ''invalid execution state transition''
                  then reply_with 409 [(''error'', JStr ''invalid_state''), (''message'', JStr (err_msg err))]
                  else reply_with 500 [(''error'', JStr ''failed to cancel execution'')]
              | Inr (None, _) \<Rightarrow> reply_with 500 []
              | Inr (Some e, previousStatus) \<Rightarrow> do {
                  sync_workflow wfExec executionID (cancel_workflow_updater executionID reasonPtr);
                  PublishExecutionCancelled executionID (ex_RunID e) (ex_AgentNodeID e)
                    (cancel_event_data
                       [(''reason'', JStr reason), (''transition_source'', JStr ''cancel_api'')] e wfExec);
                  _ \<leftarrow> StoreWorkflowExecutionEvent
                    \<lparr>we_ExecutionID = executionID, we_WorkflowID = fst (workflow_ids e wfExec),
                     we_RunID = snd (workflow_ids e wfExec), we_EventType = ''execution.cancelled'',
                     we_Status = Some stCancelled, we_StatusReason = reasonPtr,
                     we_Payload = [(''reason'', JStr reason)], we_EmittedAt = now\<rparr>;
                  reply_with 200
                    ([(''execution_id'', JStr executionID), (''previous_status'', JStr previousStatus),
                      (''status'', JStr stCancelled)] @ omitempty ''reason'' reasonPtr @
                     [(''cancelled_at'', JTime now)])
                }
            }
        }))"

text \<open>
  The updater never returns a nil record without an error, so \<open>Inr (None, _)\<close> is the nil
  dereference of the code and is never reached.
\<close>

subsection \<open>Pause and resume\<close>

definition pause_updater ::
    "string \<Rightarrow> status list \<Rightarrow> status \<Rightarrow> string option \<Rightarrow> instant \<Rightarrow> (Execution, status) updater" where
  "pause_updater executionID expectedFromStatuses nextStatus statusReason now _ current =
     (case current of
        None \<Rightarrow> Inl (Errorf (''execution '' @ executionID @ '' not found''))
      | Some e \<Rightarrow>
          (let currentStatus = NormalizeExecutionStatus (ex_Status e)
           in if currentStatus \<notin> set expectedFromStatuses
              then Inl (Errorf (''execution is in '' @ quoted currentStatus @ '' state; must be '' @
                                quoted (Join expectedFromStatuses (quoted '' or ''))))
              else Inr (Some (e\<lparr>ex_Status := nextStatus, ex_StatusReason := statusReason,
                                ex_UpdatedAt := now\<rparr>), currentStatus)))"

definition pause_workflow_updater ::
    "string \<Rightarrow> status \<Rightarrow> string option \<Rightarrow> instant \<Rightarrow> wf_updater" where
  "pause_workflow_updater executionID nextStatus statusReason now _ current =
     (case current of
        None \<Rightarrow> Inl (Errorf (''execution '' @ executionID @ '' not found''))
      | Some f \<Rightarrow> Inr (f\<lparr>wf_Status := nextStatus, wf_StatusReason := statusReason, wf_UpdatedAt := now\<rparr>))"

definition handlePauseResume :: "string \<Rightarrow> string bound \<Rightarrow> status list \<Rightarrow> status \<Rightarrow> reply proc" where
  "handlePauseResume executionID request expectedFromStatuses nextStatus =
     (if executionID = [] then
        reply_with 400 [(''error'', JStr ''execution_id is required'')]
      else case request of
        BoundErr err \<Rightarrow> reply_with 400 [(''error'', JStr (''invalid request body: '' @ err))]
      | _ \<Rightarrow>
       (let reason = (case request of Bound r \<Rightarrow> TrimSpace r | _ \<Rightarrow> []);
            statusReason = reason_ptr reason
        in do {
          got \<leftarrow> GetExecutionRecord executionID;
          case got of
            Inl _ \<Rightarrow> reply_with 500 [(''error'', JStr ''failed to look up execution'')]
          | Inr None \<Rightarrow>
              reply_with 404 [(''error'', JStr (''execution '' @ executionID @ '' not found''))]
          | Inr (Some _) \<Rightarrow> do {
              wf \<leftarrow> GetWorkflowExecution executionID;
              let wfExec = non_fatal wf;
              now \<leftarrow> time_Now;
              upd \<leftarrow> UpdateExecutionRecord executionID
                (pause_updater executionID expectedFromStatuses nextStatus statusReason now);
              case upd of
                Inl err \<Rightarrow>
                  if Contains (ToLower (err_msg err)) ''not found''
                  then reply_with 404 [(''error'', JStr (''execution '' @ executionID @ '' not found''))]
                  else if Contains (err_msg err) (''must be '' @ [CHR 0x27]) \<or>
                          Contains (err_msg err) ''invalid execution state transition''
                  then reply_with 409 [(''error'', JStr ''invalid_state''), (''message'', JStr (err_msg err))]
                  else reply_with 500 [(''error'', JStr ''failed to update execution status'')]
              | Inr (None, _) \<Rightarrow> reply_with 500 []
              | Inr (Some e, previousStatus) \<Rightarrow> do {
                  sync_workflow wfExec executionID
                    (pause_workflow_updater executionID nextStatus statusReason now);
                  (if nextStatus = stPaused
                   then PublishExecutionPaused executionID (ex_RunID e) (ex_AgentNodeID e)
                          [(''reason'', JStr reason)]
                   else PublishExecutionResumed executionID (ex_RunID e) (ex_AgentNodeID e)
                          [(''reason'', JStr reason)]);
                  _ \<leftarrow> StoreWorkflowExecutionEvent
                    \<lparr>we_ExecutionID = executionID, we_WorkflowID = fst (workflow_ids e wfExec),
                     we_RunID = snd (workflow_ids e wfExec),
                     we_EventType = (if nextStatus = stPaused then ''execution.paused'' else ''execution.resumed''),
                     we_Status = Some nextStatus, we_StatusReason = statusReason,
                     we_Payload = [(''reason'', JStr reason)], we_EmittedAt = now\<rparr>;
                  reply_with 200
                    ([(''execution_id'', JStr executionID), (''previous_status'', JStr previousStatus),
                      (''status'', JStr nextStatus)] @
                     (if nextStatus = stPaused
                      then omitempty ''reason'' statusReason @ [(''paused_at'', JTime now)]
                      else [(''resumed_at'', JTime now)]))
                }
            }
        }))"

definition PauseExecutionHandler :: "string \<Rightarrow> string bound \<Rightarrow> reply proc" where
  "PauseExecutionHandler executionID request =
     handlePauseResume executionID request [stRunning, stQueued] stPaused"

definition ResumeExecutionHandler :: "string \<Rightarrow> string bound \<Rightarrow> reply proc" where
  "ResumeExecutionHandler executionID request =
     handlePauseResume executionID request [stPaused] stRunning"

subsection \<open>What the control handlers keep\<close>

lemma keeps_case_bound:
  assumes "\<And>a. x = Bound a \<Longrightarrow> keeps R (f a)" and "x = BoundEOF \<Longrightarrow> keeps R g"
    and "\<And>e. x = BoundErr e \<Longrightarrow> keeps R (h e)"
  shows "keeps R (case x of Bound a \<Rightarrow> f a | BoundEOF \<Rightarrow> g | BoundErr e \<Rightarrow> h e)"
  using assms by (cases x) auto

lemmas handler_cases = keeps_cases keeps_case_bound

lemma cancel_updater_ok: "keeps_id (cancel_updater k r)" "respects_terminal (cancel_updater k r)"
  by (auto simp: keeps_id_def respects_terminal_def cancel_updater_def Let_def
      split: option.splits if_splits)

lemma pause_updater_ok:
  assumes "\<And>s. s \<in> set expected \<Longrightarrow> \<not> IsTerminalExecutionStatus s"
  shows "keeps_id (pause_updater k expected next r now)"
    and "respects_terminal (pause_updater k expected next r now)"
  using assms by (auto simp: keeps_id_def respects_terminal_def pause_updater_def Let_def
      split: option.splits if_splits) (metis terminal_normalize)

lemma keeps_id_pause: "keeps_id (pause_updater k expected next r now)"
  by (auto simp: keeps_id_def pause_updater_def Let_def split: option.splits if_splits)

lemma sync_workflow_keeps:
  "keeps terminal_kept (sync_workflow f k upd)" "keeps store_kept (sync_workflow f k upd)"
  unfolding sync_workflow_def by (intro keeps_cases terminal_keeps, intro keeps_cases store_keeps)

lemma cancel_handler_keeps:
  "keeps terminal_kept (CancelExecutionHandler p r)" "keeps store_kept (CancelExecutionHandler p r)"
  unfolding CancelExecutionHandler_def
  by (intro handler_cases terminal_keeps sync_workflow_keeps cancel_updater_ok)
     (intro handler_cases store_keeps sync_workflow_keeps cancel_updater_ok)

lemma pause_resume_keeps:
  assumes "\<And>s. s \<in> set expected \<Longrightarrow> \<not> IsTerminalExecutionStatus s"
  shows "keeps terminal_kept (handlePauseResume k r expected next)"
  unfolding handlePauseResume_def
  by (intro handler_cases terminal_keeps sync_workflow_keeps pause_updater_ok assms)

lemma pause_resume_keeps_store: "keeps store_kept (handlePauseResume k r expected next)"
  unfolding handlePauseResume_def
  by (intro handler_cases store_keeps sync_workflow_keeps keeps_id_pause)

lemma pause_handler_keeps: "keeps terminal_kept (PauseExecutionHandler k r)"
  unfolding PauseExecutionHandler_def by (rule pause_resume_keeps) auto

lemma resume_handler_keeps: "keeps terminal_kept (ResumeExecutionHandler k r)"
  unfolding ResumeExecutionHandler_def by (rule pause_resume_keeps) auto

subsection \<open>Outcome of a control request\<close>

definition synced ::
    "WorkflowExecution option \<Rightarrow> string \<Rightarrow> wf_updater \<Rightarrow> db \<Rightarrow> db" where
  "synced f k upd d = (case f of None \<Rightarrow> d | Some _ \<Rightarrow> snd (attemptWorkflowExecutionUpdate k upd d))"

lemma synced_frame [simp]:
  "executions (synced f k upd d) = executions d" "published (synced f k upd d) = published d"
  "clock (synced f k upd d) = clock d" "wf_events (synced f k upd d) = wf_events d"
  by (simp_all add: synced_def split: option.splits)

lemma quiet_sync:
  assumes "quiet w"
  shows "run_state (sync_workflow f k upd) w =
     ((), on_data (synced f k upd (data w)) (calls_of (sync_workflow f k upd) w) w)"
proof (rule calls_ofI, cases f)
  case None
  then show "\<exists>n. run_state (sync_workflow f k upd) w = ((), on_data (synced f k upd (data w)) n w)"
    by (intro exI [of _ "calls w"]) (simp add: sync_workflow_def synced_def on_data_self)
next
  case (Some g)
  obtain r n where "run_state (UpdateWorkflowExecution k upd) w =
      (r, on_data (snd (attemptWorkflowExecutionUpdate k upd (data w))) n w)"
    using quiet_UpdateWorkflowExecution [OF assms] by blast
  with Some show "\<exists>n. run_state (sync_workflow f k upd) w = ((), on_data (synced f k upd (data w)) n w)"
    by (auto simp: sync_workflow_def synced_def)
qed

lemma with_webhook_sel [simp]:
  "ex_RunID (with_webhook d e) = ex_RunID e" "ex_AgentNodeID (with_webhook d e) = ex_AgentNodeID e"
  "ex_Status (with_webhook d e) = ex_Status e" "ex_StatusReason (with_webhook d e) = ex_StatusReason e"
  "ex_DurationMS (with_webhook d e) = ex_DurationMS e" "ex_ExecutionID (with_webhook d e) = ex_ExecutionID e"
  "ex_ParentExecutionID (with_webhook d e) = ex_ParentExecutionID e"
  by (simp_all add: with_webhook_def)

text \<open>The record the cancel transaction returns, and the row it stores.\<close>

definition cancelled_exec :: "string option \<Rightarrow> instant \<Rightarrow> Execution \<Rightarrow> Execution" where
  "cancelled_exec reasonPtr now e = e
     \<lparr>ex_Status := stCancelled,
      ex_StatusReason := (if reasonPtr = None then ex_StatusReason e else reasonPtr),
      ex_UpdatedAt := now\<rparr>"

lemma cancel_tx:
  assumes "find_execution d k = Some e" and "\<not> IsTerminalExecutionStatus (ex_Status e)"
  shows "update_execution_tx k (cancel_updater k r) d =
    (Inr (Some (cancelled_exec r (clock d) e), ex_Status e), persist_execution (cancelled_exec r (clock d) e) d)"
  using assms by (simp add: update_execution_tx_def cancel_updater_def cancelled_exec_def Let_def)

lemma find_cancelled:
  assumes "find_execution d k = Some e"
  shows "find_execution (persist_execution (cancelled_exec r now e) d) j =
     (if j = k then Some ((cancelled_exec r now e)\<lparr>ex_WebhookRegistered := False\<rparr>) else find_execution d j)"
  using assms lookup_key [OF assms] by (simp add: find_persist cancelled_exec_def)

lemma cancel_not_found: "find_execution d k = None \<Longrightarrow>
    update_execution_tx k (cancel_updater k r) d = (Inl (Errorf (''execution '' @ k @ '' not found'')), d)"
  by (simp add: update_execution_tx_def cancel_updater_def)

lemma cancel_terminal:
  "find_execution d k = Some e \<Longrightarrow> IsTerminalExecutionStatus (ex_Status e) \<Longrightarrow>
    update_execution_tx k (cancel_updater k r) d =
      (Inl (Errorf (''execution is in terminal state '' @ quoted (ex_Status e))), d)"
  by (simp add: update_execution_tx_def cancel_updater_def)

lemma terminal_message: "Contains (''execution is in terminal state '' @ s) ''terminal state''"
  using Contains_append [of "''execution is in ''" "''terminal state''" "'' '' @ s"] by simp

lemma cancel_handler_active:
  assumes w: "quiet w" and k: "TrimSpace p = k" "k \<noteq> []"
    and e: "find_execution (data w) k = Some e" "\<not> IsTerminalExecutionStatus (ex_Status e)"
    and run: "run_state (CancelExecutionHandler p (Bound text)) w = (rep, w')"
  shows "code rep = 200"
    and "find_execution (data w') k = 
       Some ((cancelled_exec (reason_ptr (TrimSpace text)) (clock (data w)) e)\<lparr>ex_WebhookRegistered := False\<rparr>)"
    and "j \<noteq> k \<Longrightarrow> find_execution (data w') j = find_execution (data w) j"
    and "map ev_Type (published (data w')) = map ev_Type (published (data w)) @ [ExecutionCancelledEvent]"
    and "map we_EventType (wf_events (data w')) = map we_EventType (wf_events (data w)) @ [''execution.cancelled'']"
proof -
  note tx = cancel_tx [OF e]
  show "code rep = 200"
    and "find_execution (data w') k = 
       Some ((cancelled_exec (reason_ptr (TrimSpace text)) (clock (data w)) e)\<lparr>ex_WebhookRegistered := False\<rparr>)"
    and "j \<noteq> k \<Longrightarrow> find_execution (data w') j = find_execution (data w) j"
    and "map ev_Type (published (data w')) = map ev_Type (published (data w)) @ [ExecutionCancelledEvent]"
    and "map we_EventType (wf_events (data w')) = map we_EventType (wf_events (data w)) @ [''execution.cancelled'']"
    using run
    by (auto simp: CancelExecutionHandler_def Let_def k w e(1) tx quiet_simps quiet_sync
        PublishExecutionCancelled_def non_fatal_def find_cancelled [OF e(1)] cong: bind_cong_weak)
qed

lemma cancel_handler_absent:
  assumes "quiet w" and "TrimSpace p = k" "k \<noteq> []" and "find_execution (data w) k = None"
    and run: "run_state (CancelExecutionHandler p (Bound text)) w = (rep, w')"
  shows "code rep = 404" and "data w' = data w"
  using assms by (auto simp: CancelExecutionHandler_def Let_def quiet_simps cong: bind_cong_weak)

lemma cancel_handler_terminal:
  assumes w: "quiet w" and k: "TrimSpace p = k" "k \<noteq> []"
    and e: "find_execution (data w) k = Some e" "IsTerminalExecutionStatus (ex_Status e)"
    and run: "run_state (CancelExecutionHandler p (Bound text)) w = (rep, w')"
  shows "code rep = 409" and "data w' = data w"
  using run terminal_message [of "quoted (ex_Status e)"]
  by (auto simp: CancelExecutionHandler_def Let_def k w e(1) cancel_terminal [OF e] quiet_simps
      cong: bind_cong_weak)

text \<open>Pause and resume.\<close>

definition state_message :: "status \<Rightarrow> status list \<Rightarrow> string" where
  "state_message currentStatus expected = ''execution is in '' @ quoted currentStatus @
     '' state; must be '' @ quoted (Join expected (quoted '' or ''))"

lemma state_message_must: "Contains (state_message c expected) (''must be '' @ [CHR 0x27])"
  using Contains_append [of "''execution is in '' @ quoted c @ '' state; ''" "''must be '' @ [CHR 0x27]"
      "Join expected (quoted '' or '') @ [CHR 0x27]"]
  by (simp add: state_message_def quoted_def)

lemma state_message_found:
  "\<forall>c \<in> set canonicalExecutionStatuses.
     \<not> Contains (ToLower (state_message c [stRunning, stQueued])) ''not found'' \<and>
     \<not> Contains (ToLower (state_message c [stPaused])) ''not found''"
  unfolding Contains_def by code_simp

definition moved_exec :: "status \<Rightarrow> string option \<Rightarrow> instant \<Rightarrow> Execution \<Rightarrow> Execution" where
  "moved_exec next r now e = e\<lparr>ex_Status := next, ex_StatusReason := r, ex_UpdatedAt := now\<rparr>"

lemma moved_exec_sel [simp]:
  "ex_Status (moved_exec st r now e) = st" "ex_StatusReason (moved_exec st r now e) = r"
  "ex_ExecutionID (moved_exec st r now e) = ex_ExecutionID e"
  by (simp_all add: moved_exec_def)

lemma pause_tx:
  assumes "find_execution d k = Some e"
  shows "update_execution_tx k (pause_updater k expected next r (clock d)) d =
    (if NormalizeExecutionStatus (ex_Status e) \<in> set expected
     then (Inr (Some (moved_exec next r (clock d) e), NormalizeExecutionStatus (ex_Status e)),
           persist_execution (moved_exec next r (clock d) e) d)
     else (Inl (Errorf (state_message (NormalizeExecutionStatus (ex_Status e)) expected)), d))"
  using assms by (simp add: update_execution_tx_def pause_updater_def moved_exec_def state_message_def Let_def)

lemma find_moved:
  assumes "find_execution d k = Some e"
  shows "find_execution (persist_execution (moved_exec next r now e) d) j =
     (if j = k then Some ((moved_exec next r now e)\<lparr>ex_WebhookRegistered := False\<rparr>) else find_execution d j)"
  using assms lookup_key [OF assms] by (simp add: find_persist moved_exec_def)

lemma pause_resume_allowed:
  assumes w: "quiet w" and k: "k \<noteq> []" and e: "find_execution (data w) k = Some e"
    and st: "NormalizeExecutionStatus (ex_Status e) \<in> set expected"
    and run: "run_state (handlePauseResume k (Bound text) expected next) w = (rep, w')"
  shows "code rep = 200"
    and "find_execution (data w') k = Some ((moved_exec next (reason_ptr (TrimSpace text))
           (clock (data w)) e)\<lparr>ex_WebhookRegistered := False\<rparr>)"
    and "j \<noteq> k \<Longrightarrow> find_execution (data w') j = find_execution (data w) j"
  using run by (auto simp: handlePauseResume_def Let_def k w e quiet_simps quiet_sync pause_tx [OF e] st
      non_fatal_def find_moved [OF e] PublishExecutionPaused_def PublishExecutionResumed_def
      cong: bind_cong_weak split: if_splits)

lemma pause_resume_refused:
  assumes w: "quiet w" and k: "k \<noteq> []" and e: "find_execution (data w) k = Some e"
    and st: "NormalizeExecutionStatus (ex_Status e) \<notin> set expected"
    and msg: "\<not> Contains (ToLower (state_message (NormalizeExecutionStatus (ex_Status e)) expected)) ''not found''"
    and run: "run_state (handlePauseResume k (Bound text) expected next) w = (rep, w')"
  shows "code rep = 409" and "data w' = data w"
  using run state_message_must msg
  by (auto simp: handlePauseResume_def Let_def k w e quiet_simps pause_tx [OF e] st non_fatal_def
      cong: bind_cong_weak)

lemma state_message_canonical:
  "\<not> Contains (ToLower (state_message (NormalizeExecutionStatus s) [stRunning, stQueued])) ''not found''"
  "\<not> Contains (ToLower (state_message (NormalizeExecutionStatus s) [stPaused])) ''not found''"
  using state_message_found normalize_canonical by blast+

subsection \<open>Properties\<close>

text \<open>
  Cancel, pause and resume never change the status of an execution that has reached a
  terminal status, whatever the database does (any storage call may fail) and whatever other
  requests commit between the storage calls, as long as those keep terminal statuses as well.
  The check is repeated inside the update transaction, so a run that completes between the
  handler's read and its write is left alone.
\<close>
theorem control_keeps_terminal:
  assumes "\<And>n d. terminal_kept d (env w n d)"
    and "h \<in> {CancelExecutionHandler p r, PauseExecutionHandler p r, ResumeExecutionHandler p r}"
    and "find_execution (data w) k = Some e" and "IsTerminalExecutionStatus (ex_Status e)"
  shows "\<exists>e'. find_execution (data (snd (run_state h w))) k = Some e' \<and> ex_Status e' = ex_Status e"
proof -
  have "keeps terminal_kept h"
    using assms(2) cancel_handler_keeps pause_handler_keeps resume_handler_keeps by auto
  then have "terminal_kept (data w) (data (snd (run_state h w)))"
    using assms(1) by (rule keepsD)
  with assms(3,4) show ?thesis by (simp add: terminal_kept_def)
qed

theorem control_keeps_terminal_witness:
  "\<exists>e'. find_execution (data (snd (run_state (CancelExecutionHandler ''e1'' (Bound ''stop''))
     (idle (one_row ''e1'' stFailed 5))))) ''e1'' = Some e' \<and> ex_Status e' = stFailed"
  using control_keeps_terminal [of "idle (one_row ''e1'' stFailed 5)" _ "''e1''" "Bound ''stop''" "''e1''"
      "zero_execution\<lparr>ex_ExecutionID := ''e1'', ex_Status := stFailed\<rparr>"]
  by (simp add: terminal.refl)

text \<open>
  The outcome of a cancel request in an undisturbed world: 404 and no change for an unknown
  execution, 409 and no change for a terminal one; otherwise 200, the row becomes \<open>cancelled\<close>
  with the given reason (the old one is kept when none is given), no other execution changes,
  and exactly one cancelled event is published and one is stored.
\<close>
theorem cancel_outcome:
  assumes "quiet w" and "TrimSpace p = k" and "k \<noteq> []"
    and "run_state (CancelExecutionHandler p (Bound text)) w = (rep, w')"
  shows "case find_execution (data w) k of
      None \<Rightarrow> code rep = 404 \<and> data w' = data w
    | Some e \<Rightarrow>
        if IsTerminalExecutionStatus (ex_Status e) then code rep = 409 \<and> data w' = data w
        else code rep = 200 \<and>
          find_execution (data w') k = Some (e\<lparr>ex_Status := stCancelled,
            ex_StatusReason := (if TrimSpace text = [] then ex_StatusReason e else Some (TrimSpace text)),
            ex_UpdatedAt := clock (data w), ex_WebhookRegistered := False\<rparr>) \<and>
          (\<forall>j. j \<noteq> k \<longrightarrow> find_execution (data w') j = find_execution (data w) j) \<and>
          map ev_Type (published (data w')) = map ev_Type (published (data w)) @ [ExecutionCancelledEvent] \<and>
          map we_EventType (wf_events (data w')) =
            map we_EventType (wf_events (data w)) @ [''execution.cancelled'']"
proof (cases "find_execution (data w) k")
  case None
  with cancel_handler_absent [OF assms(1-3) None assms(4)] show ?thesis by simp
next
  case (Some e)
  have row: "(cancelled_exec (reason_ptr (TrimSpace text)) (clock (data w)) e)\<lparr>ex_WebhookRegistered := False\<rparr> =
      e\<lparr>ex_Status := stCancelled,
        ex_StatusReason := (if TrimSpace text = [] then ex_StatusReason e else Some (TrimSpace text)),
        ex_UpdatedAt := clock (data w), ex_WebhookRegistered := False\<rparr>"
    by (simp add: cancelled_exec_def reason_ptr_def)
  show ?thesis
  proof (cases "IsTerminalExecutionStatus (ex_Status e)")
    case True
    with cancel_handler_terminal [OF assms(1-3) Some True assms(4)] Some show ?thesis by simp
  next
    case False
    with cancel_handler_active [OF assms(1-3) Some False assms(4)] Some row show ?thesis by simp
  qed
qed

theorem cancel_outcome_witness:
  "code (fst (run_state (CancelExecutionHandler '' e1 '' (Bound ''stop'')) (idle (one_row ''e1'' stRunning 5)))) = 200"
proof -
  have "TrimSpace '' e1 '' = ''e1''" by code_simp
  then show ?thesis
    using cancel_outcome [of "idle (one_row ''e1'' stRunning 5)" "'' e1 ''" "''e1''" "''stop''"
        "fst (run_state (CancelExecutionHandler '' e1 '' (Bound ''stop'')) (idle (one_row ''e1'' stRunning 5)))"
        "snd (run_state (CancelExecutionHandler '' e1 '' (Bound ''stop'')) (idle (one_row ''e1'' stRunning 5)))"]
    by (simp add: zero_execution_def)
qed

text \<open>
  Pause succeeds exactly on \<open>running\<close> and \<open>queued\<close> executions, resume exactly on
  \<open>paused\<close> ones (up to the spelling of the stored status); otherwise the reply is 409 and
  nothing changes. On success the row has the new status, so a pause followed by a resume
  brings an execution back to \<open>running\<close>.
\<close>
theorem pause_resume_outcome:
  assumes "quiet w" and "k \<noteq> []" and "find_execution (data w) k = Some e"
    and "run_state (PauseExecutionHandler k (Bound text)) w = (rep, w')"
    and "run_state (ResumeExecutionHandler k (Bound text)) w = (rep2, w2)"
  shows "(if NormalizeExecutionStatus (ex_Status e) \<in> {stRunning, stQueued}
          then code rep = 200 \<and> map_option ex_Status (find_execution (data w') k) = Some stPaused
          else code rep = 409 \<and> data w' = data w) \<and>
         (if NormalizeExecutionStatus (ex_Status e) = stPaused
          then code rep2 = 200 \<and> map_option ex_Status (find_execution (data w2) k) = Some stRunning
          else code rep2 = 409 \<and> data w2 = data w)"
proof (rule conjI)
  note p = assms(4) [unfolded PauseExecutionHandler_def] and r = assms(5) [unfolded ResumeExecutionHandler_def]
  show "if NormalizeExecutionStatus (ex_Status e) \<in> {stRunning, stQueued}
      then code rep = 200 \<and> map_option ex_Status (find_execution (data w') k) = Some stPaused
      else code rep = 409 \<and> data w' = data w"
    using pause_resume_allowed(1,2) [OF assms(1-3) _ p] state_message_canonical(1)
      pause_resume_refused [OF assms(1-3) _ _ p] by (simp add: moved_exec_def)
  show "if NormalizeExecutionStatus (ex_Status e) = stPaused
      then code rep2 = 200 \<and> map_option ex_Status (find_execution (data w2) k) = Some stRunning
      else code rep2 = 409 \<and> data w2 = data w"
    using pause_resume_allowed(1,2) [OF assms(1-3) _ r] state_message_canonical(2)
      pause_resume_refused [OF assms(1-3) _ _ r] by (simp add: moved_exec_def)
qed

theorem pause_resume_outcome_witness:
  "code (fst (run_state (PauseExecutionHandler ''e1'' (Bound [])) (idle (one_row ''e1'' ''processing'' 5)))) = 200"
proof -
  have "NormalizeExecutionStatus ''processing'' = stRunning" by code_simp
  then show ?thesis
    using pause_resume_outcome [of "idle (one_row ''e1'' ''processing'' 5)" "''e1''", OF quiet_idle _ _
        surjective_pairing surjective_pairing] by (simp add: zero_execution_def)
qed

end
