(* ===== verification/Exec_Status.thy ===== *)
theory Exec_Status
  imports Exec_Cancel
begin

text \<open>
  The status callback an agent posts for an execution (\<open>handleStatusUpdate\<close> in
  \<open>execute.go\<close>), the status query, and the completion and failure paths of the controller's
  own calls (\<open>completeExecution\<close>, \<open>failExecution\<close> in \<open>execute_lifecycle.go\<close>) with the
  workflow synchronisation they share (\<open>execute_events.go\<close>, \<open>execute_helpers.go\<close>).
\<close>

subsection \<open>The controller's configuration and the request\<close>

text \<open>
  \<open>cfg_save\<close> is the payload store: the URI under which it keeps a payload, if it does.
\<close>

record controller =
  cfg_eventBus :: bool
  cfg_webhooks :: bool
  cfg_redactPayloads :: bool
  cfg_resumeInterrupted :: bool
  cfg_save :: "string \<Rightarrow> string option"

definition savePayload :: "controller \<Rightarrow> string \<Rightarrow> string option" where
  "savePayload c dat = (if dat = [] then None else cfg_save c dat)"

record executionStatusUpdateRequest =
  req_Status :: string
  req_StatusReason :: "string option"
  req_Result :: string
  req_Error :: string
  req_DurationMS :: "int option"
  req_CompletedAt :: "instant option"
  req_Progress :: "int option"
  req_ErrorStatusCode :: "int option"
  req_Usage :: bool

definition decodeJSON :: "string \<Rightarrow> json" where
  "decodeJSON p = (if p = [] then JNull else JRaw p)"

subsection \<open>Rendering a status\<close>

definition opt_field :: "string \<Rightarrow> ('a \<Rightarrow> json) \<Rightarrow> 'a option \<Rightarrow> (string \<times> json) list" where
  "opt_field k f v = (case v of None \<Rightarrow> [] | Some x \<Rightarrow> [(k, f x)])"

definition renderStatus :: "Execution \<Rightarrow> (string \<times> json) list" where
  "renderStatus e =
     [(''execution_id'', JStr (ex_ExecutionID e)), (''run_id'', JStr (ex_RunID e)),
      (''agent_node_id'', JStr (ex_AgentNodeID e)), (''instance_id'', JStr (ex_InstanceID e)),
      (''status'', JStr (ex_Status e))] @
     opt_field ''status_reason'' JStr (ex_StatusReason e) @
     (if ex_ResultPayload e = [] then [] else [(''result'', decodeJSON (ex_ResultPayload e))]) @
     opt_field ''error'' JStr (ex_ErrorMessage e) @
     (if ex_Status e = stFailed \<and> ex_ResultPayload e \<noteq> []
      then [(''error_details'', decodeJSON (ex_ResultPayload e))] else []) @
     [(''started_at'', JTime (ex_StartedAt e))] @
     opt_field ''completed_at'' JTime (ex_CompletedAt e) @
     opt_field ''duration_ms'' JInt (ex_DurationMS e) @
     [(''webhook_registered'', JBool (ex_WebhookRegistered e))]"

definition restarted_as :: "Execution \<Rightarrow> (string \<times> json) list proc" where
  "restarted_as e =
     (let successorID = (case ex_RestartedAsExecutionID e of None \<Rightarrow> [] | Some s \<Rightarrow> TrimSpace s)
      in if successorID = [] then State_Monad.return []
         else do {
           got \<leftarrow> GetExecutionRecord successorID;
           State_Monad.return (case non_fatal got of
               None \<Rightarrow> []
             | Some s \<Rightarrow> [(''restarted_as'', JObj [(''execution_id'', JStr successorID),
                                                 (''run_id'', JStr (ex_RunID s))])])
         })"

definition renderStatusWithApproval :: "Execution \<Rightarrow> (string \<times> json) list proc" where
  "renderStatusWithApproval e = do {
     restart \<leftarrow> restarted_as e;
     hasWH \<leftarrow> HasExecutionWebhook (ex_ExecutionID e);
     let resp = renderStatus e @ restart;
     let resp = (case hasWH of Inl _ \<Rightarrow> resp | Inr b \<Rightarrow> set_field ''webhook_registered'' (JBool b) resp);
     wf \<leftarrow> GetWorkflowExecution (ex_ExecutionID e);
     State_Monad.return (case non_fatal wf of
         None \<Rightarrow> resp
       | Some f \<Rightarrow> resp @ opt_field ''approval_request_id'' JStr (wf_ApprovalRequestID f) @
           opt_field ''approval_status'' JStr (wf_ApprovalStatus f) @
           opt_field ''approval_request_url'' JStr (wf_ApprovalRequestURL f))
   }"

definition handleStatus :: "string \<Rightarrow> reply proc" where
  "handleStatus executionID =
     (if executionID = [] then reply_with 400 [(''error'', JStr ''execution_id is required'')]
      else do {
        got \<leftarrow> GetExecutionRecord executionID;
        case got of
          Inl e \<Rightarrow> reply_with 500 [(''error'', JStr (''failed to load execution: '' @ err_msg e))]
        | Inr None \<Rightarrow> reply_with 404 [(''error'', JStr ''execution not found'')]
        | Inr (Some e) \<Rightarrow> do {
            b \<leftarrow> renderStatusWithApproval e;
            reply_with 200 b
          }
      })"

subsection \<open>Interrupted runs\<close>

definition isInterruptedStatusReason :: "string \<Rightarrow> bool" where
  "isInterruptedStatusReason r =
     (let reason = TrimSpace r
      in HasPrefix reason ''agent_restart_orphaned'' \<or>
         reason = ErrorCategoryControlPlaneShutdown \<or>
         reason = ExecutionReasonAgentShutdownCancelled)"

definition trimmed_empty :: "string option \<Rightarrow> bool" where
  "trimmed_empty s = (case s of None \<Rightarrow> True | Some x \<Rightarrow> TrimSpace x = [])"

definition interruptedRunHandoffReason :: "controller \<Rightarrow> Execution \<Rightarrow> string option" where
  "interruptedRunHandoffReason c e =
     (if \<not> cfg_resumeInterrupted c then None
      else if ex_Status e \<noteq> stFailed \<and> ex_Status e \<noteq> stCancelled then None
      else
        (let reason = (case ex_StatusReason e of None \<Rightarrow> [] | Some r \<Rightarrow> TrimSpace r)
         in if \<not> isInterruptedStatusReason reason then None
            else if \<not> trimmed_empty (ex_ParentExecutionID e) then None
            else if \<not> trimmed_empty (ex_RestartedAsExecutionID e) then None
            else Some reason))"

text \<open>The delayed hand-off itself runs in a goroutine of its own; here it is the effect.\<close>

definition scheduleInterruptedRunHandoff :: "controller \<Rightarrow> Execution \<Rightarrow> unit proc" where
  "scheduleInterruptedRunHandoff c e =
     (case interruptedRunHandoffReason c e of
        None \<Rightarrow> State_Monad.return ()
      | Some _ \<Rightarrow> emit (HandOff (ex_ExecutionID e)))"

definition triggerWebhook :: "controller \<Rightarrow> string \<Rightarrow> unit proc" where
  "triggerWebhook c k =
     (if \<not> cfg_webhooks c \<or> k = [] then State_Monad.return () else emit (NotifyWebhook k))"

subsection \<open>Workflow synchronisation\<close>

definition status_workflow_updater :: "string \<Rightarrow> status \<Rightarrow> string option \<Rightarrow> wf_updater" where
  "status_workflow_updater executionID st normalizedReason now current =
     (case current of
        None \<Rightarrow> Inl (Errorf (''execution with ID '' @ executionID @ '' not found''))
      | Some f \<Rightarrow>
          (let f = f\<lparr>wf_Status := st, wf_StatusReason := normalizedReason, wf_UpdatedAt := now\<rparr>
           in Inr (if \<not> IsTerminalExecutionStatus st
                   then f\<lparr>wf_CompletedAt := None, wf_DurationMS := None\<rparr> else f)))"

definition updateWorkflowExecutionStatus :: "string \<Rightarrow> status \<Rightarrow> string option \<Rightarrow> unit proc" where
  "updateWorkflowExecutionStatus executionID st statusReason = do {
     let normalizedReason = (case statusReason of None \<Rightarrow> None | Some r \<Rightarrow> reason_ptr (TrimSpace r));
     _ \<leftarrow> UpdateWorkflowExecution executionID (status_workflow_updater executionID st normalizedReason);
     State_Monad.return ()
   }"

definition final_workflow_updater ::
    "string \<Rightarrow> status \<Rightarrow> string \<Rightarrow> duration \<Rightarrow> string option \<Rightarrow> wf_updater" where
  "final_workflow_updater executionID st result elapsed errorMessage now current =
     (case current of
        None \<Rightarrow> Inl (Errorf (''execution with ID '' @ executionID @ '' not found''))
      | Some f \<Rightarrow> Inr (f\<lparr>wf_Status := st, wf_UpdatedAt := now, wf_CompletedAt := Some now,
          wf_DurationMS := Some (milliseconds elapsed), wf_OutputData := result,
          wf_OutputSize := int (length result), wf_ErrorMessage := errorMessage\<rparr>))"

definition updateWorkflowExecutionFinalState ::
    "string \<Rightarrow> status \<Rightarrow> string \<Rightarrow> duration \<Rightarrow> string option \<Rightarrow> unit proc" where
  "updateWorkflowExecutionFinalState executionID st result elapsed errorMessage = do {
     _ \<leftarrow> UpdateWorkflowExecution executionID
       (final_workflow_updater executionID st result elapsed errorMessage);
     State_Monad.return ()
   }"

subsection \<open>The lifecycle event of a status\<close>

definition lifecycle_event_type :: "status \<Rightarrow> ExecutionEventType" where
  "lifecycle_event_type st =
     (if st = stSucceeded then ExecutionCompleted
      else if st = stFailed then ExecutionFailed
      else if st = stRunning then ExecutionStarted
      else if st = ''created'' then ExecutionCreated
      else ExecutionUpdated)"

definition set_nonempty :: "string \<Rightarrow> string \<Rightarrow> (string \<times> json) list \<Rightarrow> (string \<times> json) list" where
  "set_nonempty k v dat = (if v = [] then dat else set_field k (JStr v) dat)"

definition set_present :: "string \<Rightarrow> string option \<Rightarrow> (string \<times> json) list \<Rightarrow> (string \<times> json) list" where
  "set_present k v dat = (case v of None \<Rightarrow> dat | Some x \<Rightarrow> set_nonempty k x dat)"

definition event_dimensions ::
    "Execution \<Rightarrow> status \<Rightarrow> string option \<Rightarrow> (string \<times> json) list \<Rightarrow> (string \<times> json) list" where
  "event_dimensions e st reasonerID dat =
     (let dat = enrichExecutionLifecycleData dat e st;
          rID = (case reasonerID of None \<Rightarrow> ex_ReasonerID e
                 | Some r \<Rightarrow> if r = [] then ex_ReasonerID e else r);
          dat = set_nonempty ''reasoner_id'' rID dat;
          dat = set_nonempty ''node_id'' (ex_NodeID e) dat;
          dat = set_nonempty ''agent_node_id'' (ex_AgentNodeID e) dat;
          dat = set_present ''status_reason'' (ex_StatusReason e) dat;
          dat = set_present ''error_category'' (ex_StatusReason e) dat;
          dat = set_field ''started_at'' (JTime (ex_StartedAt e)) dat;
          dat = (case ex_CompletedAt e of None \<Rightarrow> dat | Some t \<Rightarrow> set_field ''completed_at'' (JTime t) dat);
          dat = (case ex_DurationMS e of None \<Rightarrow> dat | Some n \<Rightarrow> set_field ''duration_ms'' (JInt n) dat);
          dat = set_present ''session_id'' (ex_SessionID e) dat
      in set_present ''actor_id'' (ex_ActorID e) dat)"

definition publishExecutionEvent ::
    "controller \<Rightarrow> Execution \<Rightarrow> status \<Rightarrow> (string \<times> json) list \<Rightarrow> string option \<Rightarrow> unit proc" where
  "publishExecutionEvent c e st dat reasonerID = do {
     wf \<leftarrow> GetWorkflowExecution (ex_ExecutionID e);
     let dat = event_dimensions e st reasonerID dat;
     let dat = (case non_fatal wf of None \<Rightarrow> dat
                | Some f \<Rightarrow> set_field ''workflow_depth'' (JInt (wf_WorkflowDepth f))
                    (set_field ''retry_count'' (JInt (wf_RetryCount f)) dat));
     (if cfg_eventBus c
      then publish_event (lifecycle_event_type st) (ex_ExecutionID e) (ex_RunID e) (ex_AgentNodeID e) st dat
      else State_Monad.return ());
     publish_event (lifecycle_event_type st) (ex_ExecutionID e) (ex_RunID e) (ex_AgentNodeID e) st dat
   }"

subsection \<open>The status callback\<close>

text \<open>\<open>nonzero_time\<close>: a pointer that is not nil to a time that is not zero.\<close>

definition nonzero_time :: "instant option \<Rightarrow> instant option" where
  "nonzero_time t = (case t of None \<Rightarrow> None | Some x \<Rightarrow> if x = 0 then None else Some x)"

definition callback_reason :: "executionStatusUpdateRequest \<Rightarrow> status \<Rightarrow> string option" where
  "callback_reason req normalizedStatus =
     (let r = req_StatusReason req;
          r = (case req_ErrorStatusCode req of
                 None \<Rightarrow> r
               | Some sc \<Rightarrow>
                   if 400 \<le> sc \<and> sc < 500 then Some (''agent_client_error:'' @ show_int sc)
                   else if req_StatusReason req = None \<and> 500 \<le> sc then Some ErrorCategoryAgentError
                   else r)
      in if normalizedStatus = stCancelled \<and> req_Error req = AgentShutdownCancellationError
         then Some ExecutionReasonAgentShutdownCancelled else r)"

definition callback_elapsed ::
    "executionStatusUpdateRequest \<Rightarrow> bool \<Rightarrow> instant \<Rightarrow> Execution \<Rightarrow> duration" where
  "callback_elapsed req isTerminal now e =
     (case req_DurationMS req of
        Some ms \<Rightarrow> wrap64 (ms * millisecond)
      | None \<Rightarrow>
          if isTerminal \<and> ex_StartedAt e \<noteq> 0
          then time_Sub (case nonzero_time (req_CompletedAt req) of Some t \<Rightarrow> t | None \<Rightarrow> now) (ex_StartedAt e)
          else 0)"

definition callback_duration ::
    "executionStatusUpdateRequest \<Rightarrow> bool \<Rightarrow> instant \<Rightarrow> Execution \<Rightarrow> int option" where
  "callback_duration req isTerminal now e =
     (case req_DurationMS req of
        Some ms \<Rightarrow> Some ms
      | None \<Rightarrow>
          if isTerminal \<and> ex_StartedAt e \<noteq> 0
          then Some (milliseconds (callback_elapsed req isTerminal now e)) else ex_DurationMS e)"

definition callback_completed ::
    "executionStatusUpdateRequest \<Rightarrow> bool \<Rightarrow> instant \<Rightarrow> instant option" where
  "callback_completed req isTerminal now =
     (case nonzero_time (req_CompletedAt req) of
        Some t \<Rightarrow> Some t
      | None \<Rightarrow> if isTerminal then Some now else None)"

definition callback_write ::
    "executionStatusUpdateRequest \<Rightarrow> status \<Rightarrow> string option \<Rightarrow> instant \<Rightarrow> Execution \<Rightarrow> Execution" where
  "callback_write req normalizedStatus resultURI now e =
     (let isTerminal = IsTerminalExecutionStatus normalizedStatus;
          e = e\<lparr>ex_Status := normalizedStatus, ex_StatusReason := callback_reason req normalizedStatus\<rparr>;
          e = (if req_Result req \<noteq> []
               then e\<lparr>ex_ResultPayload := req_Result req, ex_ResultURI := resultURI\<rparr> else e);
          e = (if req_Error req \<noteq> [] then e\<lparr>ex_ErrorMessage := Some (req_Error req)\<rparr>
               else if normalizedStatus = stSucceeded then e\<lparr>ex_ErrorMessage := None\<rparr> else e)
      in e\<lparr>ex_DurationMS := callback_duration req isTerminal now e,
           ex_CompletedAt := callback_completed req isTerminal now\<rparr>)"

record callback_vars =
  cv_elapsed :: duration
  cv_errorMsg :: "string option"
  cv_terminalNoop :: bool

definition status_updater ::
    "string \<Rightarrow> executionStatusUpdateRequest \<Rightarrow> status \<Rightarrow> string option \<Rightarrow> (Execution, callback_vars) updater" where
  "status_updater executionID req normalizedStatus resultURI now current =
     (case current of
        None \<Rightarrow> Inl \<lparr>err_msg = ''execution '' @ executionID @ '': execution not found'',
                     err_is = Some ErrExecutionNotFound\<rparr>
      | Some e \<Rightarrow>
          if ex_Status e = stWaiting \<and> normalizedStatus \<notin> set [stRunning, stCancelled, stFailed]
          then Inl (Errorf (''execution '' @ executionID @ '' is in '' @ quoted stWaiting @
                 '' state; only running, cancelled, or failed transitions are allowed''))
          else if IsTerminalExecutionStatus (ex_Status e) then
            if normalizedStatus = ex_Status e
            then Inr (Some e, \<lparr>cv_elapsed = 0, cv_errorMsg = None, cv_terminalNoop = True\<rparr>)
            else
              (let msg = ''execution '' @ executionID @ '' is already in terminal state '' @
                     quoted (ex_Status e) @ ''; cannot transition to '' @ quoted normalizedStatus
               in if IsTerminalExecutionStatus normalizedStatus
                  then Inl \<lparr>err_msg = msg @ '': terminal status conflict'',
                            err_is = Some ErrTerminalStatusConflict\<rparr>
                  else Inl (Errorf msg))
          else Inr (Some (callback_write req normalizedStatus resultURI now e),
                 \<lparr>cv_elapsed = callback_elapsed req (IsTerminalExecutionStatus normalizedStatus) now e,
                  cv_errorMsg = (if req_Error req \<noteq> [] then Some (req_Error req) else None),
                  cv_terminalNoop = False\<rparr>))"

text \<open>The side effects of an accepted terminal callback, in the order of the code.\<close>

definition terminal_side_effects ::
    "controller \<Rightarrow> string \<Rightarrow> status \<Rightarrow> Execution \<Rightarrow> duration \<Rightarrow> string option \<Rightarrow> unit proc" where
  "terminal_side_effects c executionID normalizedStatus updated elapsed errorMsg = do {
     updateWorkflowExecutionFinalState executionID normalizedStatus (ex_ResultPayload updated) elapsed errorMsg;
     hasWH \<leftarrow> HasExecutionWebhook executionID;
     (if hasWH = Inr True then triggerWebhook c executionID else State_Monad.return ());
     scheduleInterruptedRunHandoff c updated
   }"

definition callback_event_data ::
    "controller \<Rightarrow> executionStatusUpdateRequest \<Rightarrow> Execution \<Rightarrow> (string \<times> json) list" where
  "callback_event_data c req updated =
     (let dat = [(''error'', JStr (req_Error req)),
                 (''progress'', case req_Progress req of None \<Rightarrow> JNull | Some p \<Rightarrow> JInt p),
                 (''transition_source'', JStr ''status_callback'')];
          dat = (case ex_StatusReason updated of None \<Rightarrow> dat
                 | Some r \<Rightarrow> set_nonempty ''status_reason'' (TrimSpace r) dat)
      in if cfg_redactPayloads c then dat
         else (let dat = set_field ''result'' (decodeJSON (req_Result req)) dat
               in if ex_InputPayload updated = [] then dat
                  else set_field ''input'' (decodeJSON (ex_InputPayload updated)) dat))"

definition handleStatusUpdate ::
    "controller \<Rightarrow> string \<Rightarrow> executionStatusUpdateRequest bound \<Rightarrow> reply proc" where
  "handleStatusUpdate c executionID request =
     (if executionID = [] then reply_with 400 [(''error'', JStr ''execution_id is required'')]
      else case request of
        BoundErr err \<Rightarrow> reply_with 400 [(''error'', JStr (''invalid request body: '' @ err))]
      | BoundEOF \<Rightarrow> reply_with 400 [(''error'', JStr (''invalid request body: EOF''))]
      | Bound req \<Rightarrow>
       (let normalizedStatus = NormalizeExecutionStatus (req_Status req)
        in if normalizedStatus = [] \<or> normalizedStatus = stUnknown
           then reply_with 400 [(''error'', JStr (''unsupported status '' @ quoted (req_Status req)))]
           else
            (let resultURI = savePayload c (req_Result req);
                 isTerminal = IsTerminalExecutionStatus normalizedStatus
             in do {
               upd \<leftarrow> UpdateExecutionRecord executionID
                 (status_updater executionID req normalizedStatus resultURI);
               case upd of
                 Inl err \<Rightarrow>
                   if err_is err = Some ErrTerminalStatusConflict
                   then reply_with 409 [(''error'', JStr (''failed to update execution: '' @ err_msg err))]
                   else if err_is err = Some ErrExecutionNotFound
                   then reply_with 404 [(''error'', JStr ''execution not found'')]
                   else reply_with 500 [(''error'', JStr (''failed to update execution: '' @ err_msg err))]
               | Inr (None, _) \<Rightarrow> reply_with 404 [(''error'', JStr ''execution not found'')]
               | Inr (Some updated, vars) \<Rightarrow>
                   if cv_terminalNoop vars then do {
                     b \<leftarrow> renderStatusWithApproval updated;
                     reply_with 200 b
                   }
                   else do {
                     let elapsed = (if cv_elapsed vars = 0
                       then (case ex_DurationMS updated of None \<Rightarrow> 0 | Some ms \<Rightarrow> wrap64 (ms * millisecond))
                       else cv_elapsed vars);
                     (if req_Usage req then emit (IngestUsage executionID) else State_Monad.return ());
                     updateWorkflowExecutionStatus executionID normalizedStatus (ex_StatusReason updated);
                     (if isTerminal
                      then terminal_side_effects c executionID normalizedStatus updated elapsed (cv_errorMsg vars)
                      else State_Monad.return ());
                     publishExecutionEvent c updated normalizedStatus (callback_event_data c req updated) None;
                     b \<leftarrow> renderStatusWithApproval updated;
                     reply_with 200 b
                   }
             })))"

subsection \<open>Errors of an agent call\<close>

text \<open>
  The error of a dispatch: the agent's HTTP error, a precondition the control plane checked, or
  an untyped error (\<open>raw_deadline\<close>, \<open>raw_cancelled\<close>: what \<open>errors.Is\<close> finds in its chain),
  each possibly wrapped by \<open>fmt.Errorf\<close>.
\<close>

datatype exec_error =
    CallError (call_statusCode: int) (call_message: string) (call_body: string)
  | PreconditionError (pe_code: int) (pe_message: string) (pe_category: string)
      (pe_errorCode: string) (pe_retryAfter: int)
  | RawError (raw_message: string) (raw_deadline: bool) (raw_cancelled: bool)
  | Wrapped string exec_error

fun error_text :: "exec_error \<Rightarrow> string" where
  "error_text (CallError _ m _) = m"
| "error_text (PreconditionError _ m _ _ _) = m"
| "error_text (RawError m _ _) = m"
| "error_text (Wrapped m e) = m @ error_text e"

fun error_cause :: "exec_error \<Rightarrow> exec_error" where
  "error_cause (Wrapped m e) = error_cause e"
| "error_cause e = e"

definition classifyCallError :: "(string \<Rightarrow> bool) \<Rightarrow> int \<Rightarrow> string \<Rightarrow> string" where
  "classifyCallError validJSON statusCode bdy =
     (if 500 \<le> statusCode then ErrorCategoryAgentError
      else if statusCode = 408 then ErrorCategoryAgentTimeout
      else if bdy \<noteq> [] \<and> \<not> validJSON bdy then ErrorCategoryBadResponse
      else ErrorCategoryAgentError)"

definition classifyRawError :: "string \<Rightarrow> bool \<Rightarrow> bool \<Rightarrow> string" where
  "classifyRawError errStr deadline cancelled =
     (if deadline \<or> Contains errStr ''context deadline exceeded'' then ErrorCategoryAgentTimeout
      else if Contains errStr ''connection refused'' \<or> Contains errStr ''connection reset'' \<or>
              Contains errStr ''no such host'' \<or> Contains errStr ''i/o timeout''
      then ErrorCategoryAgentUnreachable
      else if cancelled \<or> Contains errStr ''context canceled'' then ErrorCategoryInternal
      else if Contains errStr ''not found'' \<and>
              (HasPrefix errStr (''agent '' @ [CHR 0x27]) \<or> HasPrefix errStr (''target '' @ [CHR 0x27]))
      then ErrorCategoryTargetNotFound
      else ErrorCategoryInternal)"

definition classifyExecutionError :: "(string \<Rightarrow> bool) \<Rightarrow> exec_error \<Rightarrow> string" where
  "classifyExecutionError validJSON err =
     (case error_cause err of
        CallError sc _ bdy \<Rightarrow> classifyCallError validJSON sc bdy
      | PreconditionError _ _ category _ _ \<Rightarrow> category
      | RawError _ deadline cancelled \<Rightarrow> classifyRawError (error_text err) deadline cancelled
      | Wrapped _ _ \<Rightarrow> ErrorCategoryInternal)"

definition category_retry_after :: "string \<Rightarrow> int" where
  "category_retry_after category =
     (case map_of [(ErrorCategoryConcurrencyLimit, 1), (ErrorCategoryNodeUnavailable, 1),
                   (ErrorCategoryLLMUnavailable, 30), (ErrorCategoryControlPlaneShutdown, 1)] category of
        None \<Rightarrow> 0 | Some n \<Rightarrow> n)"

definition renderExecutionPreconditionError ::
    "string \<Rightarrow> string \<Rightarrow> string \<Rightarrow> int \<Rightarrow> (string \<times> json) list \<times> int" where
  "renderExecutionPreconditionError message category errorCode retryAfter0 =
     (let b = [(''error'', JStr message), (''error_category'', JStr category)];
          b = (if errorCode \<noteq> []
               then set_field ''message'' (JStr message) (set_field ''error'' (JStr errorCode) b) else b);
          retryAfter = (if retryAfter0 \<le> 0 then category_retry_after category else retryAfter0);
          b = (if 0 < retryAfter then set_field ''retry_after'' (JInt retryAfter) b else b)
      in (b, retryAfter))"

text \<open>The reply to a failed dispatch, with its \<open>Retry-After\<close> header (0: none).\<close>

definition writeExecutionError :: "(string \<Rightarrow> bool) \<Rightarrow> exec_error \<Rightarrow> reply \<times> int" where
  "writeExecutionError validJSON err =
     (case error_cause err of
        CallError sc m bdy \<Rightarrow>
          (JSONreply (if 400 \<le> sc \<and> sc < 500 then nat sc else 502)
             ([(''error'', JStr m), (''error_category'', JStr (classifyCallError validJSON sc bdy)),
               (''status'', JStr ''failed'')] @
              (if bdy \<noteq> [] \<and> validJSON bdy then [(''error_details'', JRaw bdy)] else [])), 0)
      | PreconditionError sc m category errorCode retry \<Rightarrow>
          (let (b, retryAfter) = renderExecutionPreconditionError m category errorCode retry
           in (JSONreply (nat sc) b, if 0 < retryAfter then retryAfter else 0))
      | RawError _ deadline cancelled \<Rightarrow>
          (let category = classifyRawError (error_text err) deadline cancelled
           in (JSONreply (if category = ErrorCategoryAgentTimeout \<or> category = ErrorCategoryAgentUnreachable
                          then 504 else 400)
                 [(''error'', JStr (error_text err)), (''error_category'', JStr category)], 0))
      | Wrapped _ _ \<Rightarrow> (JSONreply 400 [], 0))"

text \<open>
  The HTTP status under which a stored failure is reported to a synchronous caller.
  \<open>agent_error_code\<close> is the number in a message \<open>agent error (NNN): ...\<close>.
\<close>

definition agent_error_code :: "string \<Rightarrow> int option" where
  "agent_error_code msg =
     (if HasPrefix msg ''agent error ('' then
        (case str_index msg ''):'' of
           None \<Rightarrow> None
         | Some idx \<Rightarrow>
             if 13 < idx
             then (case Atoi (drop 13 (take idx msg)) of
                     None \<Rightarrow> None
                   | Some n \<Rightarrow> if 400 \<le> n \<and> n < 500 then Some n else None)
             else None)
      else None)"

definition client_error_code :: "string \<Rightarrow> int option" where
  "client_error_code reason =
     (if HasPrefix reason ''agent_client_error:'' then
        (case Atoi (TrimPrefix reason ''agent_client_error:'') of
           None \<Rightarrow> None
         | Some n \<Rightarrow> if 400 \<le> n \<and> n < 500 then Some n else None)
      else None)"

definition category_http_status :: "string \<Rightarrow> int option" where
  "category_http_status category = map_of
     [(ErrorCategoryAgentTimeout, 504), (ErrorCategoryAgentUnreachable, 502),
      (ErrorCategoryTargetNotFound, 404), (ErrorCategoryNodeUnavailable, 503),
      (ErrorCategoryConcurrencyLimit, 429)] category"

definition httpStatusForFailedExecution :: "Execution \<Rightarrow> int" where
  "httpStatusForFailedExecution e =
     (let from_reason = (case ex_StatusReason e of
              None \<Rightarrow> None
            | Some reason \<Rightarrow>
                (case client_error_code reason of
                   Some n \<Rightarrow> Some n
                 | None \<Rightarrow> category_http_status reason))
      in case from_reason of
           Some n \<Rightarrow> n
         | None \<Rightarrow>
             (case ex_ErrorMessage e of
                None \<Rightarrow> 502
              | Some msg \<Rightarrow> (case agent_error_code msg of Some n \<Rightarrow> n | None \<Rightarrow> 502)))"

subsection \<open>Completion and failure of the controller's own call\<close>

record plan =
  pl_exec :: Execution
  pl_NodeID :: string
  pl_TargetName :: string
  pl_targetType :: string
  pl_executionMode :: string
  pl_webhookRegistered :: bool

definition retryableFragments :: "string list" where
  "retryableFragments =
     [''database is locked'', ''SQLITE_BUSY'', ''database table is locked'', ''deadlock detected'']"

definition isRetryableDBError :: "goerr \<Rightarrow> bool" where
  "isRetryableDBError e \<longleftrightarrow>
     list_ex (\<lambda>fragment. Contains (ToLower (err_msg e)) (ToLower fragment)) retryableFragments"

definition PublishExecutionLog ::
    "plan \<Rightarrow> string \<Rightarrow> string \<Rightarrow> (string \<times> json) list \<Rightarrow> unit proc" where
  "PublishExecutionLog pl level message metadata =
     publish_event ExecutionLogEntry (ex_ExecutionID (pl_exec pl)) (ex_RunID (pl_exec pl)) (pl_NodeID pl)
       level [(''level'', JStr level), (''message'', JStr message), (''metadata'', JObj metadata)]"

text \<open>
  Both updaters skip an execution that was cancelled or is waiting for an approval; the closure
  then assigns \<open>alreadyCancelled\<close>.
\<close>

definition complete_updater ::
    "string \<Rightarrow> string \<Rightarrow> duration \<Rightarrow> string option \<Rightarrow> (Execution, bool) updater" where
  "complete_updater executionID result elapsed resultURI now current =
     (case current of
        None \<Rightarrow> Inl (Errorf (''execution '' @ executionID @ '' not found''))
      | Some e \<Rightarrow>
          if ex_Status e = stCancelled \<or> ex_Status e = stWaiting then Inr (Some e, True)
          else Inr (Some (e\<lparr>ex_Status := stSucceeded, ex_ResultPayload := result,
                 ex_ErrorMessage := None, ex_CompletedAt := Some now,
                 ex_DurationMS := Some (milliseconds elapsed), ex_UpdatedAt := now,
                 ex_ResultURI := resultURI\<rparr>), False))"

definition fail_updater ::
    "string \<Rightarrow> string \<Rightarrow> string \<Rightarrow> string \<Rightarrow> duration \<Rightarrow> string option \<Rightarrow> (Execution, bool) updater" where
  "fail_updater executionID errMsg category result elapsed resultURI now current =
     (case current of
        None \<Rightarrow> Inl (Errorf (''execution '' @ executionID @ '' not found''))
      | Some e \<Rightarrow>
          if ex_Status e = stCancelled \<or> ex_Status e = stWaiting then Inr (Some e, True)
          else
            (let e = e\<lparr>ex_Status := stFailed, ex_ErrorMessage := Some errMsg,
                   ex_StatusReason := Some category, ex_CompletedAt := Some now,
                   ex_DurationMS := Some (milliseconds elapsed), ex_UpdatedAt := now\<rparr>;
                 e = (if result \<noteq> [] then e\<lparr>ex_ResultPayload := result\<rparr> else e)
             in Inr (Some (e\<lparr>ex_ResultURI := resultURI\<rparr>), False)))"

text \<open>The update loop: at most five attempts, as long as the error is a lock or a deadlock.\<close>

fun update_with_retries ::
    "nat \<Rightarrow> string \<Rightarrow> (Execution, 'c) updater \<Rightarrow> (goerr + (Execution option \<times> 'c)) proc" where
  "update_with_retries left executionID upd = do {
     r \<leftarrow> UpdateExecutionRecord executionID upd;
     case r of
       Inr x \<Rightarrow> State_Monad.return (Inr x)
     | Inl err \<Rightarrow>
         if \<not> isRetryableDBError err then State_Monad.return (Inl err)
         else (case left of
                 0 \<Rightarrow> State_Monad.return (Inl err)
               | Suc n \<Rightarrow> update_with_retries n executionID upd)
   }"

declare update_with_retries.simps [simp del]

definition finish_execution ::
    "controller \<Rightarrow> plan \<Rightarrow> status \<Rightarrow> string \<Rightarrow> duration \<Rightarrow> string option \<Rightarrow> (string \<times> json) list \<Rightarrow>
     (Execution, bool) updater \<Rightarrow> (goerr + unit) proc" where
  "finish_execution c pl st result elapsed errorMsg dat upd = do {
     r \<leftarrow> update_with_retries 4 (ex_ExecutionID (pl_exec pl)) upd;
     case r of
       Inl err \<Rightarrow> State_Monad.return (Inl err)
     | Inr (updated, alreadyCancelled) \<Rightarrow>
         if alreadyCancelled then State_Monad.return (Inr ())
         else do {
           updateWorkflowExecutionFinalState (ex_ExecutionID (pl_exec pl)) st result elapsed errorMsg;
           (if pl_webhookRegistered pl \<or> (case updated of None \<Rightarrow> False | Some e \<Rightarrow> ex_WebhookRegistered e)
            then triggerWebhook c (ex_ExecutionID (pl_exec pl)) else State_Monad.return ());
           let dat = (if cfg_redactPayloads c \<or> result = [] then dat
                      else set_field ''result'' (decodeJSON result) dat);
           let dat = (if cfg_redactPayloads c \<or> ex_InputPayload (pl_exec pl) = [] then dat
                      else set_field ''input'' (decodeJSON (ex_InputPayload (pl_exec pl))) dat);
           (case updated of
              None \<Rightarrow> State_Monad.return ()
            | Some e \<Rightarrow> publishExecutionEvent c e st dat (Some (pl_TargetName pl)));
           State_Monad.return (Inr ())
         }
   }"

definition completeExecution :: "controller \<Rightarrow> plan \<Rightarrow> string \<Rightarrow> duration \<Rightarrow> (goerr + unit) proc" where
  "completeExecution c pl result elapsed = do {
     PublishExecutionLog pl ''info'' ''execution completed'' [(''duration_ms'', JInt (milliseconds elapsed))];
     finish_execution c pl stSucceeded result elapsed None
       [(''target_type'', JStr (pl_targetType pl)), (''execution_mode'', JStr (pl_executionMode pl)),
        (''transition_source'', JStr ''execution_controller'')]
       (complete_updater (ex_ExecutionID (pl_exec pl)) result elapsed (savePayload c result))
   }"

definition failExecution ::
    "controller \<Rightarrow> (string \<Rightarrow> bool) \<Rightarrow> plan \<Rightarrow> exec_error \<Rightarrow> duration \<Rightarrow> string \<Rightarrow> (goerr + unit) proc" where
  "failExecution c validJSON pl callErr elapsed result =
     (let category = classifyExecutionError validJSON callErr; errMsg = error_text callErr
      in do {
        PublishExecutionLog pl ''error'' ''execution failed''
          [(''error'', JStr errMsg), (''error_category'', JStr category),
           (''duration_ms'', JInt (milliseconds elapsed))];
        finish_execution c pl stFailed result elapsed (Some errMsg)
          [(''error'', JStr errMsg), (''target_type'', JStr (pl_targetType pl)),
           (''execution_mode'', JStr (pl_executionMode pl)), (''failure_category'', JStr category),
           (''transition_source'', JStr ''execution_controller'')]
          (fail_updater (ex_ExecutionID (pl_exec pl)) errMsg category result elapsed (savePayload c result))
      })"

subsection \<open>What callbacks and completions keep\<close>

lemma callback_write_sel [simp]:
  "ex_Status (callback_write req st uri now e) = st"
  "ex_ExecutionID (callback_write req st uri now e) = ex_ExecutionID e"
  "ex_StatusReason (callback_write req st uri now e) = callback_reason req st"
  "ex_CreatedAt (callback_write req st uri now e) = ex_CreatedAt e"
  by (simp_all add: callback_write_def Let_def)

lemma status_updater_ok: "keeps_id (status_updater k req st uri)" "respects_terminal (status_updater k req st uri)"
  by (auto simp: keeps_id_def respects_terminal_def status_updater_def Let_def
      split: option.splits if_splits)

lemma keeps_renderStatusWithApproval:
  "keeps terminal_kept (renderStatusWithApproval e)" "keeps store_kept (renderStatusWithApproval e)"
  unfolding renderStatusWithApproval_def restarted_as_def
  by (intro handler_cases terminal_keeps, intro handler_cases store_keeps)

lemma keeps_workflow_sync:
  "keeps terminal_kept (updateWorkflowExecutionStatus k st r)"
  "keeps store_kept (updateWorkflowExecutionStatus k st r)"
  "keeps terminal_kept (updateWorkflowExecutionFinalState k st res el er)"
  "keeps store_kept (updateWorkflowExecutionFinalState k st res el er)"
  unfolding updateWorkflowExecutionStatus_def updateWorkflowExecutionFinalState_def
  by (intro handler_cases terminal_keeps, intro handler_cases store_keeps,
      intro handler_cases terminal_keeps, intro handler_cases store_keeps)

lemma keeps_publishExecutionEvent:
  "keeps terminal_kept (publishExecutionEvent c e st dat r)"
  "keeps store_kept (publishExecutionEvent c e st dat r)"
  unfolding publishExecutionEvent_def
  by (intro handler_cases terminal_keeps, intro handler_cases store_keeps)

lemma keeps_triggers:
  "keeps terminal_kept (triggerWebhook c k)" "keeps store_kept (triggerWebhook c k)"
  "keeps terminal_kept (scheduleInterruptedRunHandoff c e)" "keeps store_kept (scheduleInterruptedRunHandoff c e)"
  unfolding triggerWebhook_def scheduleInterruptedRunHandoff_def
  by (intro handler_cases terminal_keeps, intro handler_cases store_keeps,
      intro handler_cases terminal_keeps, intro handler_cases store_keeps)

lemma keeps_terminal_side_effects:
  "keeps terminal_kept (terminal_side_effects c k st e el er)"
  "keeps store_kept (terminal_side_effects c k st e el er)"
  unfolding terminal_side_effects_def
  by (intro handler_cases terminal_keeps keeps_workflow_sync keeps_triggers,
      intro handler_cases store_keeps keeps_workflow_sync keeps_triggers)

lemma callback_keeps:
  "keeps terminal_kept (handleStatusUpdate c k r)" "keeps store_kept (handleStatusUpdate c k r)"
  unfolding handleStatusUpdate_def
  by (intro handler_cases terminal_keeps keeps_workflow_sync keeps_terminal_side_effects
        keeps_renderStatusWithApproval keeps_publishExecutionEvent status_updater_ok,
      intro handler_cases store_keeps keeps_workflow_sync keeps_terminal_side_effects
        keeps_renderStatusWithApproval keeps_publishExecutionEvent status_updater_ok)

text \<open>Completion and failure only keep one terminal status, \<open>cancelled\<close>.\<close>

definition cancelled_kept :: "db \<Rightarrow> db \<Rightarrow> bool" where
  "cancelled_kept d d' \<longleftrightarrow>
     (\<forall>k e. find_execution d k = Some e \<longrightarrow> ex_Status e = stCancelled \<longrightarrow>
        (\<exists>e'. find_execution d' k = Some e' \<and> ex_Status e' = stCancelled))"

interpretation cancelled: rely_guarantee cancelled_kept
proof
  show "cancelled_kept d d''" if "cancelled_kept d d'" "cancelled_kept d' d''" for d d' d''
    using that unfolding cancelled_kept_def by metis
qed (simp_all add: cancelled_kept_def)

definition respects_cancelled :: "(Execution, 'c) updater \<Rightarrow> bool" where
  "respects_cancelled upd \<longleftrightarrow> (\<forall>now e u c. upd now (Some e) = Inr (Some u, c) \<longrightarrow>
     ex_Status e = stCancelled \<longrightarrow> ex_Status u = stCancelled)"

lemma cancelled_kept_same: "executions d' = executions d \<Longrightarrow> cancelled_kept d d'"
  by (simp add: cancelled_kept_def)

lemma cancelled_kept_update:
  assumes "keeps_id upd" and "respects_cancelled upd"
  shows "cancelled_kept d (snd (update_execution_tx k upd d))"
  using assms(1)
proof (rule update_execution_tx_cases [of upd k d])
  fix e u c
  assume e: "find_execution d k = Some e" "upd (clock d) (Some e) = Inr (Some u, c)" "ex_ExecutionID u = k"
    and d': "snd (update_execution_tx k upd d) = persist_execution (u\<lparr>ex_UpdatedAt := clock d\<rparr>) d"
  then show ?thesis
    using assms(2) unfolding cancelled_kept_def respects_cancelled_def
    by (auto simp: find_persist d')
qed (simp add: cancelled.refl)

lemma finish_updaters_ok:
  "keeps_id (complete_updater k res el uri)" "respects_cancelled (complete_updater k res el uri)"
  "keeps_id (fail_updater k em cat res el uri)" "respects_cancelled (fail_updater k em cat res el uri)"
  by (auto simp: keeps_id_def respects_cancelled_def complete_updater_def fail_updater_def Let_def
      split: option.splits if_splits)

lemmas cancelled_keeps = cancelled.keeps_reads cancelled.keeps_UpdateExecutionRecord
  cancelled.keeps_UpdateWorkflowExecution [OF cancelled_kept_same [OF attempt_executions]]
  cancelled_kept_update

lemma keeps_update_with_retries:
  assumes "keeps_id upd" and "respects_cancelled upd"
  shows "keeps cancelled_kept (update_with_retries n k upd)"
proof (induction n)
  case 0
  show ?case
    by (subst update_with_retries.simps) (intro handler_cases cancelled_keeps assms, simp)
next
  case (Suc n)
  show ?case
    by (subst update_with_retries.simps)
      (auto intro!: handler_cases cancelled_keeps assms simp: Suc.IH split: nat.splits)
qed

lemma keeps_finish_execution:
  assumes "keeps_id upd" and "respects_cancelled upd"
  shows "keeps cancelled_kept (finish_execution c pl st res el er dat upd)"
  unfolding finish_execution_def updateWorkflowExecutionFinalState_def publishExecutionEvent_def
    triggerWebhook_def
  by (intro handler_cases cancelled_keeps keeps_update_with_retries assms)

lemma completion_keeps_cancelled:
  "keeps cancelled_kept (completeExecution c pl res el)"
  "keeps cancelled_kept (failExecution c v pl er el res)"
  unfolding completeExecution_def failExecution_def PublishExecutionLog_def
  by (intro handler_cases cancelled_keeps keeps_finish_execution finish_updaters_ok,
      intro handler_cases cancelled_keeps keeps_finish_execution finish_updaters_ok)

lemma store_keeps_retries:
  assumes "keeps_id upd"
  shows "keeps store_kept (update_with_retries n k upd)"
proof (induction n)
  case 0
  show ?case
    by (subst update_with_retries.simps) (intro handler_cases store_keeps assms, simp)
next
  case (Suc n)
  show ?case
    by (subst update_with_retries.simps)
      (auto intro!: handler_cases store_keeps assms simp: Suc.IH split: nat.splits)
qed

lemma finish_keeps_store:
  assumes "keeps_id upd"
  shows "keeps store_kept (finish_execution c pl st res el er dat upd)"
  unfolding finish_execution_def
  by (intro handler_cases store_keeps store_keeps_retries keeps_workflow_sync keeps_triggers
      keeps_publishExecutionEvent assms)

lemma completion_keeps_store:
  "keeps store_kept (completeExecution c pl res el)"
  "keeps store_kept (failExecution c v pl er el res)"
  unfolding completeExecution_def failExecution_def PublishExecutionLog_def
  by (intro handler_cases store_keeps finish_keeps_store finish_updaters_ok,
      intro handler_cases store_keeps finish_keeps_store finish_updaters_ok)

subsection \<open>Outcome of a callback\<close>

definition rendered :: "Execution \<Rightarrow> world \<Rightarrow> (string \<times> json) list" where
  "rendered e w = fst (run_state (renderStatusWithApproval e) w)"

lemma quiet_render:
  assumes "quiet w"
  shows "run_state (renderStatusWithApproval e) w =
     (rendered e w, on_data (data w) (calls_of (renderStatusWithApproval e) w) w)"
proof -
  have "\<exists>b n. run_state (restarted_as e) w = (b, on_data (data w) n w)"
    using assms on_data_self [of w]
    by (auto simp: restarted_as_def Let_def quiet_simps split: option.splits)
      (metis on_data_self)+
  then obtain b n where "run_state (restarted_as e) w = (b, on_data (data w) n w)" by blast
  with assms have "\<exists>b n. run_state (renderStatusWithApproval e) w = (b, on_data (data w) n w)"
    by (auto simp: renderStatusWithApproval_def Let_def quiet_simps quiet_HasWebhook)
  then show ?thesis
    by (auto simp: rendered_def calls_of_def)
qed

definition handoffs :: "controller \<Rightarrow> Execution \<Rightarrow> effect list" where
  "handoffs c e = (if interruptedRunHandoffReason c e = None then [] else [HandOff (ex_ExecutionID e)])"

lemma run_scheduleHandoff [simp]:
  "run_state (scheduleInterruptedRunHandoff c e) w =
     ((), on_data ((data w)\<lparr>effects := effects (data w) @ handoffs c e\<rparr>) (calls w) w)"
  by (auto simp: scheduleInterruptedRunHandoff_def handoffs_def on_data_def split: option.splits)

definition deliveries :: "controller \<Rightarrow> string \<Rightarrow> effect list" where
  "deliveries c k = (if cfg_webhooks c \<and> k \<noteq> [] then [NotifyWebhook k] else [])"

lemma run_triggerWebhook [simp]:
  "run_state (triggerWebhook c k) w =
     ((), on_data ((data w)\<lparr>effects := effects (data w) @ deliveries c k\<rparr>) (calls w) w)"
  by (auto simp: triggerWebhook_def deliveries_def on_data_def)

definition terminal_effects :: "controller \<Rightarrow> string \<Rightarrow> Execution \<Rightarrow> db \<Rightarrow> effect list" where
  "terminal_effects c k e d = (if k \<in> set (webhooks d) then deliveries c k else []) @ handoffs c e"

lemma quiet_terminal_side_effects:
  assumes "quiet w"
  shows "run_state (terminal_side_effects c k st e el er) w =
     ((), on_data ((snd (attemptWorkflowExecutionUpdate k
            (final_workflow_updater k st (ex_ResultPayload e) el er) (data w)))
          \<lparr>effects := effects (data w) @ terminal_effects c k e (data w)\<rparr>)
        (calls_of (terminal_side_effects c k st e el er) w) w)"
  using assms by (intro calls_ofI)
    (auto simp: terminal_side_effects_def updateWorkflowExecutionFinalState_def quiet_simps
      terminal_effects_def)

definition lifecycle_events ::
    "controller \<Rightarrow> Execution \<Rightarrow> status \<Rightarrow> (string \<times> json) list \<Rightarrow> string option \<Rightarrow> db \<Rightarrow> ExecutionEvent list" where
  "lifecycle_events c e st dat r d =
     (let dat = event_dimensions e st r dat;
          dat = (case find_workflow d (ex_ExecutionID e) of None \<Rightarrow> dat
                 | Some f \<Rightarrow> set_field ''workflow_depth'' (JInt (wf_WorkflowDepth f))
                     (set_field ''retry_count'' (JInt (wf_RetryCount f)) dat));
          ev = \<lparr>ev_Type = lifecycle_event_type st, ev_ExecutionID = ex_ExecutionID e,
                ev_WorkflowID = ex_RunID e, ev_AgentNodeID = ex_AgentNodeID e, ev_Status = st,
                ev_Timestamp = clock d, ev_Data = dat\<rparr>
      in if cfg_eventBus c then [ev, ev] else [ev])"

lemma quiet_publishExecutionEvent:
  "quiet w \<Longrightarrow> run_state (publishExecutionEvent c e st dat r) w =
     ((), on_data ((data w)\<lparr>published := published (data w) @ lifecycle_events c e st dat r (data w)\<rparr>)
        (calls_of (publishExecutionEvent c e st dat r) w) w)"
  by (intro calls_ofI)
    (auto simp: publishExecutionEvent_def lifecycle_events_def non_fatal_def quiet_simps Let_def)

lemmas callback_simps = handleStatusUpdate_def updateWorkflowExecutionStatus_def Let_def

lemma normalize_nonempty [simp]: "NormalizeExecutionStatus s \<noteq> []"
  using normalize_cases by (metis status_nonempty)

lemma callback_absent:
  assumes "quiet w" and "k \<noteq> []" and "NormalizeExecutionStatus (req_Status req) \<noteq> stUnknown"
    and "find_execution (data w) k = None"
    and "run_state (handleStatusUpdate c k (Bound req)) w = (rep, w')"
  shows "code rep = 404" and "data w' = data w"
proof -
  have "update_execution_tx k (status_updater k req st uri) (data w) =
      (Inl \<lparr>err_msg = ''execution '' @ k @ '': execution not found'', err_is = Some ErrExecutionNotFound\<rparr>,
       data w)" for st uri
    using assms(4) by (simp add: update_execution_tx_def status_updater_def)
  then show "code rep = 404" and "data w' = data w"
    using assms by (auto simp: callback_simps quiet_simps cong: bind_cong_weak)
qed

text \<open>The refusals: nothing is written and nothing is set in motion.\<close>

lemma callback_refused_tx:
  assumes "find_execution d k = Some e"
  shows "ex_Status e = stWaiting \<Longrightarrow> st \<notin> {stRunning, stCancelled, stFailed} \<Longrightarrow>
      \<exists>er. update_execution_tx k (status_updater k req st uri) d = (Inl er, d) \<and> err_is er = None"
    and "IsTerminalExecutionStatus (ex_Status e) \<Longrightarrow> st \<noteq> ex_Status e \<Longrightarrow>
      \<exists>er. update_execution_tx k (status_updater k req st uri) d = (Inl er, d) \<and>
        err_is er = (if IsTerminalExecutionStatus st then Some ErrTerminalStatusConflict else None)"
  using assms by (auto simp: update_execution_tx_def status_updater_def Let_def)

lemma callback_error:
  assumes w: "quiet w" and k: "k \<noteq> []" and st: "NormalizeExecutionStatus (req_Status req) \<noteq> stUnknown"
    and tx: "\<And>uri. \<exists>er. update_execution_tx k
        (status_updater k req (NormalizeExecutionStatus (req_Status req)) uri) (data w) = (Inl er, data w) \<and> err_is er = x"
    and run: "run_state (handleStatusUpdate c k (Bound req)) w = (rep, w')"
  shows "code rep = (if x = Some ErrTerminalStatusConflict then 409
      else if x = Some ErrExecutionNotFound then 404 else 500) \<and> data w' = data w"
proof -
  obtain er where "update_execution_tx k (status_updater k req (NormalizeExecutionStatus (req_Status req))
      (savePayload c (req_Result req))) (data w) = (Inl er, data w)" "err_is er = x"
    using tx by blast
  then show ?thesis
    using run by (auto simp: callback_simps k st w quiet_simps cong: bind_cong_weak split: if_splits)
qed

definition touched :: "instant \<Rightarrow> Execution \<Rightarrow> Execution" where
  "touched now e = e\<lparr>ex_UpdatedAt := now\<rparr>"

lemma callback_repeat:
  assumes w: "quiet w" and k: "k \<noteq> []" and e: "find_execution (data w) k = Some e"
    and st: "NormalizeExecutionStatus (req_Status req) = ex_Status e"
    and tm: "IsTerminalExecutionStatus (ex_Status e)"
    and run: "run_state (handleStatusUpdate c k (Bound req)) w = (rep, w')"
  shows "code rep = 200 \<and> data w' = persist_execution (touched (clock (data w)) e) (data w)"
proof -
  have ne: "ex_Status e \<noteq> stWaiting" "ex_Status e \<noteq> stUnknown" "ex_Status e \<noteq> []"
    using tm st normalize_nonempty by auto
  then have "update_execution_tx k (status_updater k req (ex_Status e) uri) (data w) =
      (Inr (Some (touched (clock (data w)) e), \<lparr>cv_elapsed = 0, cv_errorMsg = None, cv_terminalNoop = True\<rparr>),
       persist_execution (touched (clock (data w)) e) (data w))" for uri
    using e tm by (simp add: update_execution_tx_def status_updater_def touched_def Let_def)
  then show ?thesis
    using run ne by (auto simp: callback_simps k st w quiet_simps quiet_render cong: bind_cong_weak)
qed

definition callback_row ::
    "controller \<Rightarrow> executionStatusUpdateRequest \<Rightarrow> instant \<Rightarrow> Execution \<Rightarrow> Execution" where
  "callback_row c req now e = touched now
     (callback_write req (NormalizeExecutionStatus (req_Status req)) (savePayload c (req_Result req)) now e)"

lemma callback_row_sel [simp]:
  "ex_Status (callback_row c req now e) = NormalizeExecutionStatus (req_Status req)"
  "ex_ExecutionID (callback_row c req now e) = ex_ExecutionID e"
  "ex_StatusReason (callback_row c req now e) = callback_reason req (NormalizeExecutionStatus (req_Status req))"
  by (simp_all add: callback_row_def touched_def)

definition callback_effects ::
    "controller \<Rightarrow> string \<Rightarrow> executionStatusUpdateRequest \<Rightarrow> Execution \<Rightarrow> db \<Rightarrow> effect list" where
  "callback_effects c k req e d =
     (if req_Usage req then [IngestUsage k] else []) @
     (if IsTerminalExecutionStatus (req_Status req)
      then terminal_effects c k (with_webhook d (callback_row c req (clock d) e)) d else [])"

lemma callback_accepted_tx:
  assumes e: "find_execution d k = Some e" and nt: "\<not> IsTerminalExecutionStatus (ex_Status e)"
    and ok: "ex_Status e = stWaiting \<Longrightarrow> NormalizeExecutionStatus (req_Status req) \<in> {stRunning, stCancelled, stFailed}"
  shows "\<exists>vars. update_execution_tx k (status_updater k req (NormalizeExecutionStatus (req_Status req))
      (savePayload c (req_Result req))) d =
      (Inr (Some (callback_row c req (clock d) e), vars), persist_execution (callback_row c req (clock d) e) d) \<and>
      \<not> cv_terminalNoop vars"
  using assms by (auto simp: update_execution_tx_def status_updater_def callback_row_def touched_def Let_def)

lemma find_callback:
  assumes "find_execution d k = Some e"
  shows "find_execution (persist_execution (callback_row c req now e) d) j =
     (if j = k then Some ((callback_row c req now e)\<lparr>ex_CreatedAt := ex_CreatedAt e, ex_WebhookRegistered := False\<rparr>)
      else find_execution d j)"
  using assms lookup_key [OF assms] by (simp add: find_persist)

lemma callback_accepted:
  assumes w: "quiet w" and k: "k \<noteq> []" and e: "find_execution (data w) k = Some e"
    and st: "NormalizeExecutionStatus (req_Status req) \<noteq> stUnknown"
    and nt: "\<not> IsTerminalExecutionStatus (ex_Status e)"
    and ok: "ex_Status e = stWaiting \<Longrightarrow> NormalizeExecutionStatus (req_Status req) \<in> {stRunning, stCancelled, stFailed}"
    and run: "run_state (handleStatusUpdate c k (Bound req)) w = (rep, w')"
  shows "code rep = 200"
    and "executions (data w') = executions (persist_execution (callback_row c req (clock (data w)) e) (data w))"
    and "effects (data w') = effects (data w) @ callback_effects c k req e (data w)"
    and "webhooks (data w') = webhooks (data w)"
    and "map ev_Type (published (data w')) = map ev_Type (published (data w)) @
           (let t = lifecycle_event_type (NormalizeExecutionStatus (req_Status req))
            in if cfg_eventBus c then [t, t] else [t])"
proof -
  obtain vars where tx: "update_execution_tx k (status_updater k req (NormalizeExecutionStatus (req_Status req))
      (savePayload c (req_Result req))) (data w) =
      (Inr (Some (callback_row c req (clock (data w)) e), vars),
       persist_execution (callback_row c req (clock (data w)) e) (data w))"
    and noop: "\<not> cv_terminalNoop vars"
    using callback_accepted_tx [OF e nt ok] by blast
  note run' = run [unfolded callback_simps]
  show "code rep = 200"
    and "executions (data w') = executions (persist_execution (callback_row c req (clock (data w)) e) (data w))"
    and "effects (data w') = effects (data w) @ callback_effects c k req e (data w)"
    and "webhooks (data w') = webhooks (data w)"
    and "map ev_Type (published (data w')) = map ev_Type (published (data w)) @
           (let t = lifecycle_event_type (NormalizeExecutionStatus (req_Status req))
            in if cfg_eventBus c then [t, t] else [t])"
    using run'
    by (auto simp: k st w tx noop quiet_simps quiet_render quiet_terminal_side_effects
        quiet_publishExecutionEvent terminal_effects_def with_webhook_def callback_effects_def lifecycle_events_def Let_def
        cong: bind_cong_weak split: if_splits)
qed

lemma callback_unsupported:
  assumes "NormalizeExecutionStatus (req_Status req) = stUnknown" and "k \<noteq> []"
    and "run_state (handleStatusUpdate c k (Bound req)) w = (rep, w')"
  shows "code rep = 400" and "w' = w"
  using assms by (auto simp: callback_simps)

text \<open>What one callback does to the row and to the effects, on every branch.\<close>

lemma callback_step:
  assumes w: "quiet w" and k: "k \<noteq> []" and e: "find_execution (data w) k = Some e"
    and run: "run_state (handleStatusUpdate c k (Bound req)) w = (rep, w')"
  shows "\<exists>e'. find_execution (data w') k = Some e' \<and>
    (if IsTerminalExecutionStatus (ex_Status e)
     then IsTerminalExecutionStatus (ex_Status e') \<and> effects (data w') = effects (data w)
     else effects (data w') = effects (data w) \<or>
       IsTerminalExecutionStatus (ex_Status e') = IsTerminalExecutionStatus (req_Status req) \<and>
       effects (data w') = effects (data w) @ callback_effects c k req e (data w))"
proof -
  let ?st = "NormalizeExecutionStatus (req_Status req)"
  consider (unsupported) "?st = stUnknown"
    | (same) "?st \<noteq> stUnknown" "IsTerminalExecutionStatus (ex_Status e)" "?st = ex_Status e"
    | (other) "?st \<noteq> stUnknown" "IsTerminalExecutionStatus (ex_Status e)" "?st \<noteq> ex_Status e"
    | (waiting) "?st \<noteq> stUnknown" "ex_Status e = stWaiting" "?st \<notin> {stRunning, stCancelled, stFailed}"
    | (ok) "?st \<noteq> stUnknown" "\<not> IsTerminalExecutionStatus (ex_Status e)"
        "ex_Status e = stWaiting \<Longrightarrow> ?st \<in> {stRunning, stCancelled, stFailed}"
    by blast
  then show ?thesis
  proof cases
    case unsupported
    with callback_unsupported [OF _ k run] e show ?thesis by simp
  next
    case same
    have "ex_ExecutionID e = k" using e by (rule lookup_key)
    with callback_repeat [OF w k e same(3,2) run] e same show ?thesis
      by (simp add: find_persist touched_def)
  next
    case other
    have "data w' = data w"
      using callback_error [OF w k other(1) callback_refused_tx(2) [OF e other(2,3)] run] by blast
    with e other show ?thesis by simp
  next
    case waiting
    have "data w' = data w"
      using callback_error [OF w k waiting(1) callback_refused_tx(1) [OF e waiting(2,3)] run] by blast
    with e waiting show ?thesis by simp
  next
    case ok
    from callback_accepted [OF w k e ok(1,2) _ run] ok(3) find_callback [OF e] ok(2)
    show ?thesis by simp
  qed
qed

fun run_all :: "'a proc list \<Rightarrow> world \<Rightarrow> world" where
  "run_all [] w = w"
| "run_all (p # ps) w = run_all ps (snd (run_state p w))"

lemma callback_quiet: "quiet w \<Longrightarrow> quiet (snd (run_state (handleStatusUpdate c k r) w))"
  by (rule keeps_quiet [OF callback_keeps(1) _ terminal.refl])

definition notified :: "string \<Rightarrow> db \<Rightarrow> nat" where
  "notified k d = count_list (effects d) (NotifyWebhook k)"

lemma callback_effects_notified:
  "count_list (callback_effects c k req e d) (NotifyWebhook k) \<le>
     (if IsTerminalExecutionStatus (req_Status req) then 1 else 0)"
  by (simp add: callback_effects_def terminal_effects_def deliveries_def handoffs_def)

lemma notified_terminal:
  assumes "quiet w" and "k \<noteq> []" and "find_execution (data w) k = Some e"
    and "IsTerminalExecutionStatus (ex_Status e)"
  shows "notified k (data (run_all (map (\<lambda>req. handleStatusUpdate c k (Bound req)) reqs) w)) = notified k (data w)"
  using assms
proof (induction reqs arbitrary: w e)
  case (Cons req reqs)
  let ?w = "snd (run_state (handleStatusUpdate c k (Bound req)) w)"
  obtain e' where "find_execution (data ?w) k = Some e'" "IsTerminalExecutionStatus (ex_Status e')"
      "effects (data ?w) = effects (data w)"
    using callback_step [OF Cons.prems(1-3) surjective_pairing] Cons.prems(4) by auto
  with Cons.IH [of ?w e'] Cons.prems(1,2) callback_quiet show ?case by (simp add: notified_def)
qed simp

lemma notified_once:
  assumes "quiet w" and "k \<noteq> []" and "find_execution (data w) k = Some e"
  shows "notified k (data (run_all (map (\<lambda>req. handleStatusUpdate c k (Bound req)) reqs) w)) \<le>
     Suc (notified k (data w))"
  using assms
proof (induction reqs arbitrary: w e)
  case (Cons req reqs)
  let ?w = "snd (run_state (handleStatusUpdate c k (Bound req)) w)"
  note step = callback_step [OF Cons.prems(1-3) surjective_pairing, of c req]
  have q: "quiet ?w" using Cons.prems(1) by (rule callback_quiet)
  obtain e' where e': "find_execution (data ?w) k = Some e'" using step by blast
  have le: "notified k (data ?w) \<le> notified k (data w) + (if IsTerminalExecutionStatus (ex_Status e') then 1 else 0)"
    using step e' callback_effects_notified [of c k req e "data w"]
    by (auto simp: notified_def split: if_splits)
  show ?case
  proof (cases "IsTerminalExecutionStatus (ex_Status e')")
    case True
    with notified_terminal [OF q Cons.prems(2) e'] le show ?thesis by simp
  next
    case False
    with Cons.IH [OF q Cons.prems(2) e'] le show ?thesis by simp
  qed
qed simp

subsection \<open>Client errors reach the caller\<close>

lemma show_int_no_paren: "CHR '')'' \<notin> set (show_int n)"
proof -
  have "\<not> is_digit (CHR '')'')" by (simp add: is_digit_def)
  then show ?thesis using show_nat_digits by (auto simp: show_int_def)
qed

lemma show_int_nonempty [simp]: "show_int n \<noteq> []"
  by (simp add: show_int_def)

lemma client_error_code_show:
  assumes "400 \<le> n" and "n < 500"
  shows "client_error_code (''agent_client_error:'' @ show_int n) = Some n"
proof -
  have "Atoi (show_int n) = Some n" by (rule Atoi_show_int) (use assms in \<open>simp add: in_int64_def\<close>)
  with assms show ?thesis by (simp add: client_error_code_def TrimPrefix_def)
qed

definition agent_error_message :: "int \<Rightarrow> string \<Rightarrow> string" where
  "agent_error_message n bdy = ''agent error ('' @ show_int n @ ''): '' @ bdy"

lemma agent_error_code_message:
  assumes "400 \<le> n" and "n < 500"
  shows "agent_error_code (agent_error_message n bdy) = Some n"
proof -
  let ?p = "''agent error ('' @ show_int n"
  have "Atoi (show_int n) = Some n" by (rule Atoi_show_int) (use assms in \<open>simp add: in_int64_def\<close>)
  moreover have "str_index (?p @ CHR '')'' # CHR '':'' # CHR '' '' # bdy) [CHR '')'', CHR '':''] = Some (length ?p)"
    using show_int_no_paren by (subst str_index_first) auto
  moreover have "drop 13 (take (length ?p) (?p @ rest)) = show_int n" for rest by simp
  ultimately show ?thesis
    using assms by (simp add: agent_error_code_def agent_error_message_def)
qed

lemma call_category_http:
  assumes "sc < 500"
  shows "(case client_error_code (classifyCallError v sc bdy) of
      Some n \<Rightarrow> Some n | None \<Rightarrow> category_http_status (classifyCallError v sc bdy)) =
    (if sc = 408 then Some 504 else None)"
  using assms by (auto simp: classifyCallError_def client_error_code_def category_http_status_def error_categories)

subsection \<open>Outcome of a completion\<close>

lemma quiet_update_with_retries:
  assumes "quiet w" and "update_execution_tx k upd (data w) = (Inr (x, c), d)"
  shows "run_state (update_with_retries n k upd) w =
     (Inr (map_option (with_webhook d) x, c), on_data d (calls_of (UpdateExecutionRecord k upd) w) w)"
  by (subst update_with_retries.simps) (simp add: quiet_Update [OF assms])

definition completed_exec :: "string \<Rightarrow> duration \<Rightarrow> string option \<Rightarrow> instant \<Rightarrow> Execution \<Rightarrow> Execution" where
  "completed_exec result elapsed uri now e = e\<lparr>ex_Status := stSucceeded, ex_ResultPayload := result,
     ex_ErrorMessage := None, ex_CompletedAt := Some now, ex_DurationMS := Some (milliseconds elapsed),
     ex_ResultURI := uri, ex_UpdatedAt := now\<rparr>"

lemma complete_tx:
  assumes "find_execution d k = Some e"
  shows "update_execution_tx k (complete_updater k result el uri) d =
    (if ex_Status e = stCancelled \<or> ex_Status e = stWaiting
     then (Inr (Some (touched (clock d) e), True), persist_execution (touched (clock d) e) d)
     else (Inr (Some (completed_exec result el uri (clock d) e), False),
           persist_execution (completed_exec result el uri (clock d) e) d))"
  using assms by (auto simp: update_execution_tx_def complete_updater_def touched_def completed_exec_def Let_def)

lemma complete_skipped:
  assumes w: "quiet w" and e: "find_execution (data w) (ex_ExecutionID (pl_exec pl)) = Some e"
    and st: "ex_Status e = stCancelled \<or> ex_Status e = stWaiting"
    and run: "run_state (completeExecution c pl result el) w = (r, w')"
  shows "r = Inr ()"
    and "executions (data w') = executions (persist_execution (touched (clock (data w)) e) (data w))"
    and "workflows (data w') = workflows (data w)" and "effects (data w') = effects (data w)"
proof -
  let ?k = "ex_ExecutionID (pl_exec pl)"
  note tx = complete_tx [where k = ?k and e = e]
  show "r = Inr ()"
    and "executions (data w') = executions (persist_execution (touched (clock (data w)) e) (data w))"
    and "workflows (data w') = workflows (data w)" and "effects (data w') = effects (data w)"
    using run w by (auto simp: completeExecution_def finish_execution_def PublishExecutionLog_def Let_def
        quiet_update_with_retries tx e st persist_execution_def cong: bind_cong_weak)
qed

lemma complete_done:
  assumes w: "quiet w" and e: "find_execution (data w) (ex_ExecutionID (pl_exec pl)) = Some e"
    and st: "ex_Status e \<noteq> stCancelled" "ex_Status e \<noteq> stWaiting"
    and run: "run_state (completeExecution c pl result el) w = (r, w')"
  shows "r = Inr ()"
    and "executions (data w') =
      executions (persist_execution (completed_exec result el (savePayload c result) (clock (data w)) e) (data w))"
proof -
  let ?k = "ex_ExecutionID (pl_exec pl)"
  note tx = complete_tx [where k = ?k and e = e]
  show "r = Inr ()"
    and "executions (data w') =
      executions (persist_execution (completed_exec result el (savePayload c result) (clock (data w)) e) (data w))"
    using run w by (auto simp: completeExecution_def finish_execution_def PublishExecutionLog_def Let_def
        updateWorkflowExecutionFinalState_def quiet_update_with_retries [where c = False] tx e st persist_execution_def quiet_simps
        quiet_publishExecutionEvent cong: bind_cong_weak split: if_splits)
qed

subsection \<open>Properties\<close>

text \<open>
  A status callback never changes the status of an execution that has reached a terminal
  status, under any interleaving with requests that keep terminal statuses and under any
  database failures: the only accepted write to such a row is a repetition of its own status.
\<close>
theorem callback_keeps_terminal:
  assumes "\<And>n d. terminal_kept d (env w n d)"
    and "find_execution (data w) k = Some e" and "IsTerminalExecutionStatus (ex_Status e)"
  shows "\<exists>e'. find_execution (data (snd (run_state (handleStatusUpdate c p r) w))) k = Some e' \<and>
     ex_Status e' = ex_Status e"
  using keepsD [OF callback_keeps(1) assms(1)] assms(2,3) by (simp add: terminal_kept_def)

definition demo_request :: "string \<Rightarrow> int option \<Rightarrow> executionStatusUpdateRequest" where
  "demo_request st sc = \<lparr>req_Status = st, req_StatusReason = None, req_Result = [], req_Error = [],
     req_DurationMS = None, req_CompletedAt = None, req_Progress = None, req_ErrorStatusCode = sc,
     req_Usage = False\<rparr>"

definition demo_controller :: controller where
  "demo_controller = \<lparr>cfg_eventBus = True, cfg_webhooks = True, cfg_redactPayloads = False,
     cfg_resumeInterrupted = True, cfg_save = (\<lambda>_. None)\<rparr>"

theorem callback_keeps_terminal_witness:
  "\<exists>e'. find_execution (data (snd (run_state (handleStatusUpdate demo_controller ''e1''
     (Bound (demo_request ''running'' None))) (idle (one_row ''e1'' stSucceeded 5))))) ''e1'' = Some e' \<and>
     ex_Status e' = stSucceeded"
  using callback_keeps_terminal [of "idle (one_row ''e1'' stSucceeded 5)" "''e1''"
      "zero_execution\<lparr>ex_ExecutionID := ''e1'', ex_Status := stSucceeded\<rparr>" demo_controller "''e1''"
      "Bound (demo_request ''running'' None)"]
  by (simp add: terminal.refl)



text \<open>
  C15. The outcome of a status callback in an undisturbed world, on every branch. 400 for a status
  that does not normalise, 404 for an unknown execution. A repetition of the stored terminal
  status is acknowledged with 200: the row keeps everything but its \<open>updated_at\<close>, and no event,
  webhook or usage follows. Another terminal status is a conflict (409), and the other refusals
  (a non-terminal status for a terminal row, a jump out of \<open>waiting\<close>) are 500: neither changes
  anything. Otherwise 200, and the row is the one \<open>callback_row\<close> computes.
\<close>
theorem callback_outcome:
  assumes "quiet w" and "k \<noteq> []"
    and "run_state (handleStatusUpdate c k (Bound req)) w = (rep, w')"
  shows "let st = NormalizeExecutionStatus (req_Status req) in
    if st = stUnknown then code rep = 400 \<and> data w' = data w
    else (case find_execution (data w) k of
        None \<Rightarrow> code rep = 404 \<and> data w' = data w
      | Some e \<Rightarrow>
          if IsTerminalExecutionStatus (ex_Status e) then
            if st = ex_Status e
            then code rep = 200 \<and> data w' = persist_execution (e\<lparr>ex_UpdatedAt := clock (data w)\<rparr>) (data w)
            else code rep = (if IsTerminalExecutionStatus st then 409 else 500) \<and> data w' = data w
          else if ex_Status e = stWaiting \<and> st \<notin> {stRunning, stCancelled, stFailed}
          then code rep = 500 \<and> data w' = data w
          else code rep = 200 \<and>
            executions (data w') = executions (persist_execution (callback_row c req (clock (data w)) e) (data w)) \<and>
            effects (data w') = effects (data w) @ callback_effects c k req e (data w))"
proof (cases "NormalizeExecutionStatus (req_Status req) = stUnknown")
  case True
  with callback_unsupported [OF True assms(2,3)] show ?thesis by simp
next
  case st: False
  show ?thesis
  proof (cases "find_execution (data w) k")
    case None
    with callback_absent [OF assms(1,2) st None assms(3)] st show ?thesis by (simp add: Let_def)
  next
    case (Some e)
    note tx = callback_refused_tx [OF Some] and err = callback_error [OF assms(1,2) st _ assms(3)]
      and acc = callback_accepted [OF assms(1,2) Some st _ _ assms(3)]
      and rep = callback_repeat [OF assms(1,2) Some _ _ assms(3), unfolded touched_def]
    consider (waiting) "ex_Status e = stWaiting" "NormalizeExecutionStatus (req_Status req) \<notin> {stRunning, stCancelled, stFailed}"
      | (tm) "IsTerminalExecutionStatus (ex_Status e)" "NormalizeExecutionStatus (req_Status req) = ex_Status e"
      | (conflict) "IsTerminalExecutionStatus (ex_Status e)" "NormalizeExecutionStatus (req_Status req) \<noteq> ex_Status e"
      | (ok) "\<not> IsTerminalExecutionStatus (ex_Status e)"
          "ex_Status e = stWaiting \<Longrightarrow> NormalizeExecutionStatus (req_Status req) \<in> {stRunning, stCancelled, stFailed}"
      by blast
    then show ?thesis
    proof cases
      case waiting
      with err [OF tx(1) [OF waiting]] st Some show ?thesis by (simp add: Let_def)
    next
      case tm
      with rep [OF tm(2,1)] st Some show ?thesis by (simp add: Let_def)
    next
      case conflict
      with err [OF tx(2) [OF conflict]] st Some show ?thesis by (simp add: Let_def split: if_splits)
    next
      case ok
      with acc [OF ok] st Some show ?thesis by (auto simp: Let_def)
    qed
  qed
qed

theorem callback_outcome_witness:
  "code (fst (run_state (handleStatusUpdate demo_controller ''e1'' (Bound (demo_request ''failed'' None)))
     (idle (one_row ''e1'' stSucceeded 5)))) = 409"
proof -
  have "NormalizeExecutionStatus ''failed'' = stFailed" by code_simp
  then show ?thesis
    using callback_outcome [where k = "''e1''" and c = demo_controller and req = "demo_request ''failed'' None"
        and w = "idle (one_row ''e1'' stSucceeded 5)", OF _ _ surjective_pairing]
    by (simp add: demo_request_def zero_execution_def)
qed



text \<open>
  \<open>completeExecution\<close> in an undisturbed world: a cancelled execution, and one that waits for
  an approval, keeps its status and result, and no workflow row, webhook or hand-off follows; any
  other execution is recorded as \<open>succeeded\<close> with the result. The guard does not include the
  other terminal statuses: an execution that has failed or timed out meanwhile becomes
  \<open>succeeded\<close>.
\<close>
theorem completion_outcome:
  assumes "quiet w" and "find_execution (data w) (ex_ExecutionID (pl_exec pl)) = Some e"
    and "run_state (completeExecution c pl result el) w = (r, w')"
  shows "r = Inr () \<and>
    (if ex_Status e = stCancelled \<or> ex_Status e = stWaiting
     then executions (data w') = executions (persist_execution (e\<lparr>ex_UpdatedAt := clock (data w)\<rparr>) (data w)) \<and>
       workflows (data w') = workflows (data w) \<and> effects (data w') = effects (data w)
     else executions (data w') = executions (persist_execution
       (completed_exec result el (savePayload c result) (clock (data w)) e) (data w)))"
proof (cases "ex_Status e = stCancelled \<or> ex_Status e = stWaiting")
  case True
  with complete_skipped [OF assms(1,2) True assms(3)] show ?thesis by (simp add: touched_def)
next
  case False
  with complete_done [OF assms(1,2) _ _ assms(3)] show ?thesis by simp
qed

definition demo_plan :: plan where
  "demo_plan = \<lparr>pl_exec = zero_execution\<lparr>ex_ExecutionID := ''e1''\<rparr>, pl_NodeID = ''node'',
     pl_TargetName = ''reasoner'', pl_targetType = ''reasoner'', pl_executionMode = ''sync'',
     pl_webhookRegistered = False\<rparr>"

theorem completion_outcome_witness:
  "map ex_Status (executions (data (snd (run_state (completeExecution demo_controller demo_plan ''{}'' 3)
     (idle (one_row ''e1'' stTimeout 5)))))) = [stSucceeded]"
  using completion_outcome [where w = "idle (one_row ''e1'' stTimeout 5)"
      and pl = demo_plan and c = demo_controller and result = "''{}''" and el = 3
      and e = "zero_execution\<lparr>ex_ExecutionID := ''e1'', ex_Status := stTimeout\<rparr>", OF _ _ surjective_pairing]
  by (simp add: demo_plan_def persist_execution_def modify_def completed_exec_def zero_execution_def)

end
