(* ===== verification/Exec_Approval.thy ===== *)
theory Exec_Approval
  imports Exec_Status
begin

text \<open>
  Executions that wait: the awaiter status of an agent's own call loop
  (\<open>execute_awaiter_status.go\<close>), the request for a human approval (\<open>execute_approval.go\<close>) and
  its resolution through the signed webhook (\<open>webhook_approval.go\<close>). These handlers consult the
  workflow row, write the execution row, then write the workflow row; only the last write is
  validated by the state machine.
\<close>

subsection \<open>Ownership\<close>

text \<open>\<open>verifyExecutionOwnership\<close>: the reply it writes, or nothing when the caller may proceed.\<close>

definition verifyExecutionOwnership :: "string \<Rightarrow> string \<Rightarrow> reply option proc" where
  "verifyExecutionOwnership executionID nodeID = do {
     wf \<leftarrow> GetWorkflowExecution executionID;
     State_Monad.return (case wf of
         Inl _ \<Rightarrow> Some (JSONreply 500 [(''error'', JStr ''failed to look up execution'')])
       | Inr None \<Rightarrow> Some (JSONreply 404 [(''error'', JStr (''execution '' @ executionID @ '' not found''))])
       | Inr (Some f) \<Rightarrow>
           if wf_AgentNodeID f \<noteq> nodeID
           then Some (JSONreply 403 [(''error'', JStr ''execution_ownership_mismatch''),
                  (''message'', JStr ''this execution does not belong to the requesting agent'')])
           else None)
   }"

definition agent_scoped :: "string \<Rightarrow> string \<Rightarrow> reply proc \<Rightarrow> reply proc" where
  "agent_scoped nodeID executionID handler =
     (if nodeID = [] \<or> executionID = []
      then reply_with 400 [(''error'', JStr ''node_id and execution_id are required'')]
      else do {
        denied \<leftarrow> verifyExecutionOwnership executionID nodeID;
        case denied of Some r \<Rightarrow> State_Monad.return r | None \<Rightarrow> handler
      })"

subsection \<open>Awaiter status\<close>

definition awaiterStatusReason :: string where
  "awaiterStatusReason = ''awaiting_child''"

record AwaiterStatusRequest =
  aw_Status :: string
  aw_Reason :: string

definition awaiter_reply :: "status \<Rightarrow> bool \<Rightarrow> (string \<times> json) list" where
  "awaiter_reply st applied = [(''status'', JStr st), (''applied'', JBool applied)]"

text \<open>
  The target status and reason of a request on a workflow row, or nothing when the request does
  not apply: \<open>waiting\<close> only cascades from \<open>running\<close>, and \<open>running\<close> only resumes a \<open>waiting\<close>
  that this endpoint has set.
\<close>

definition awaiter_target :: "string \<Rightarrow> WorkflowExecution \<Rightarrow> (status \<times> string option) option" where
  "awaiter_target requested f =
     (let currentStatus = NormalizeExecutionStatus (wf_Status f)
      in if requested = ''waiting'' then
           (if currentStatus \<noteq> stRunning then None else Some (stWaiting, Some awaiterStatusReason))
         else
           (if currentStatus \<noteq> stWaiting then None
            else if wf_StatusReason f \<noteq> Some awaiterStatusReason then None
            else Some (stRunning, None)))"

text \<open>An updater that sets status and reason without looking at the row.\<close>

definition set_status_updater :: "string \<Rightarrow> status \<Rightarrow> string option \<Rightarrow> (Execution, unit) updater" where
  "set_status_updater executionID st r _ current =
     (case current of
        None \<Rightarrow> Inl (Errorf (''execution '' @ executionID @ '' not found''))
      | Some e \<Rightarrow> Inr (Some (e\<lparr>ex_Status := st, ex_StatusReason := r\<rparr>), ()))"

definition set_workflow_status :: "string \<Rightarrow> status \<Rightarrow> string option \<Rightarrow> wf_updater" where
  "set_workflow_status executionID st r _ current =
     (case current of
        None \<Rightarrow> Inl (Errorf (''execution '' @ executionID @ '' not found''))
      | Some f \<Rightarrow> Inr (f\<lparr>wf_Status := st, wf_StatusReason := r\<rparr>))"

definition awaiter_event_payload :: "string \<Rightarrow> (string \<times> json) list" where
  "awaiter_event_payload reason = [(''reason'', JStr reason), (''wait_kind'', JStr ''awaiter_cascade'')]"

definition awaiter_apply ::
    "bool \<Rightarrow> string \<Rightarrow> WorkflowExecution \<Rightarrow> status \<Rightarrow> string option \<Rightarrow> string \<Rightarrow> reply proc" where
  "awaiter_apply hasBus executionID f targetStatus reasonPtr reason = do {
     now \<leftarrow> time_Now;
     upd \<leftarrow> UpdateExecutionRecord executionID (set_status_updater executionID targetStatus reasonPtr);
     case upd of
       Inl _ \<Rightarrow> reply_with 500 [(''error'', JStr ''failed to update execution status'')]
     | Inr _ \<Rightarrow> do {
         wfu \<leftarrow> UpdateWorkflowExecution executionID (set_workflow_status executionID targetStatus reasonPtr);
         case wfu of
           Inl _ \<Rightarrow> reply_with 500 [(''error'', JStr ''failed to update execution'')]
         | Inr _ \<Rightarrow> do {
             _ \<leftarrow> StoreWorkflowExecutionEvent
               \<lparr>we_ExecutionID = executionID, we_WorkflowID = wf_WorkflowID f, we_RunID = wf_RunID f,
                we_EventType = (if targetStatus = stWaiting then ''execution.waiting'' else ''execution.running''),
                we_Status = Some targetStatus, we_StatusReason = reasonPtr,
                we_Payload = awaiter_event_payload reason, we_EmittedAt = now\<rparr>;
             (if hasBus
              then publish \<lparr>ev_Type = (if targetStatus = stWaiting then ExecutionWaiting else ExecutionResumed),
                     ev_ExecutionID = executionID, ev_WorkflowID = wf_WorkflowID f,
                     ev_AgentNodeID = wf_AgentNodeID f, ev_Status = targetStatus, ev_Timestamp = now,
                     ev_Data = awaiter_event_payload reason\<rparr>
              else State_Monad.return ());
             reply_with 200 (awaiter_reply targetStatus True)
           }
       }
   }"

definition awaiter_handle :: "bool \<Rightarrow> string \<Rightarrow> AwaiterStatusRequest bound \<Rightarrow> reply proc" where
  "awaiter_handle hasBus executionID request =
     (case request of
        BoundErr err \<Rightarrow> reply_with 400 [(''error'', JStr (''invalid request body: '' @ err))]
      | BoundEOF \<Rightarrow> reply_with 400 [(''error'', JStr ''invalid request body: EOF'')]
      | Bound req \<Rightarrow>
          if aw_Status req \<noteq> ''waiting'' \<and> aw_Status req \<noteq> ''running''
          then reply_with 400 [(''error'', JStr (''status must be '' @ quoted ''waiting'' @ '' or '' @ quoted ''running''))]
          else do {
            wf \<leftarrow> GetWorkflowExecution executionID;
            case wf of
              Inl _ \<Rightarrow> reply_with 500 [(''error'', JStr ''failed to look up execution'')]
            | Inr None \<Rightarrow>
                reply_with 404 [(''error'', JStr (''execution '' @ executionID @ '' not found''))]
            | Inr (Some f) \<Rightarrow>
                (let currentStatus = NormalizeExecutionStatus (wf_Status f)
                 in if IsTerminalExecutionStatus currentStatus
                    then reply_with 200 (awaiter_reply currentStatus False)
                    else case awaiter_target (aw_Status req) f of
                      None \<Rightarrow> reply_with 200 (awaiter_reply currentStatus False)
                    | Some (targetStatus, reasonPtr) \<Rightarrow>
                        awaiter_apply hasBus executionID f targetStatus reasonPtr (aw_Reason req))
          })"

definition UpdateAwaiterStatusHandler ::
    "bool \<Rightarrow> string \<Rightarrow> string \<Rightarrow> AwaiterStatusRequest bound \<Rightarrow> reply proc" where
  "UpdateAwaiterStatusHandler hasBus nodeID executionID request =
     agent_scoped nodeID executionID (awaiter_handle hasBus executionID request)"

subsection \<open>Requesting an approval\<close>

text \<open>\<open>ar_urlError\<close>: the verdict of \<open>services.ValidateWebhookURL\<close> on the callback URL.\<close>

record RequestApprovalRequest =
  ar_ApprovalRequestID :: string
  ar_ApprovalRequestURL :: string
  ar_CallbackURL :: string
  ar_ExpiresInHours :: "int option"
  ar_urlError :: "string option"

definition approval_pending :: "WorkflowExecution \<Rightarrow> bool" where
  "approval_pending f \<longleftrightarrow>
     (case wf_ApprovalRequestID f of None \<Rightarrow> False | Some r \<Rightarrow> r \<noteq> []) \<and>
     (case wf_ApprovalStatus f of None \<Rightarrow> True | Some s \<Rightarrow> s = ''pending'')"

definition approval_expiry :: "RequestApprovalRequest \<Rightarrow> instant \<Rightarrow> instant" where
  "approval_expiry req now =
     (let expiryHours = (case ar_ExpiresInHours req of
            None \<Rightarrow> 72 | Some h \<Rightarrow> if 0 < h then h else 72)
      in now + wrap64 (expiryHours * hour))"

definition request_approval_workflow_updater ::
    "string \<Rightarrow> RequestApprovalRequest \<Rightarrow> instant \<Rightarrow> wf_updater" where
  "request_approval_workflow_updater executionID req now _ current =
     (case current of
        None \<Rightarrow> Inl (Errorf (''execution '' @ executionID @ '' not found''))
      | Some f \<Rightarrow>
          (let f = f\<lparr>wf_Status := stWaiting, wf_StatusReason := Some ''waiting_for_approval'',
                 wf_ApprovalRequestID := Some (ar_ApprovalRequestID req)\<rparr>;
               f = (if ar_ApprovalRequestURL req \<noteq> []
                    then f\<lparr>wf_ApprovalRequestURL := Some (ar_ApprovalRequestURL req)\<rparr> else f);
               f = f\<lparr>wf_ApprovalStatus := Some ''pending'', wf_ApprovalRequestedAt := Some now\<rparr>;
               f = (if ar_CallbackURL req \<noteq> []
                    then f\<lparr>wf_ApprovalCallbackURL := Some (ar_CallbackURL req)\<rparr> else f)
           in Inr (f\<lparr>wf_ApprovalExpiresAt := Some (approval_expiry req now)\<rparr>)))"

definition request_approval_apply ::
    "bool \<Rightarrow> string \<Rightarrow> WorkflowExecution \<Rightarrow> RequestApprovalRequest \<Rightarrow> reply proc" where
  "request_approval_apply hasBus executionID f req = do {
     now \<leftarrow> time_Now;
     upd \<leftarrow> UpdateExecutionRecord executionID
       (set_status_updater executionID stWaiting (Some ''waiting_for_approval''));
     case upd of
       Inl _ \<Rightarrow> reply_with 500 [(''error'', JStr ''failed to update execution status'')]
     | Inr _ \<Rightarrow> do {
         wfu \<leftarrow> UpdateWorkflowExecution executionID (request_approval_workflow_updater executionID req now);
         case wfu of
           Inl _ \<Rightarrow> reply_with 500 [(''error'', JStr ''failed to update execution with approval data'')]
         | Inr _ \<Rightarrow>
            (let payload = [(''approval_request_id'', JStr (ar_ApprovalRequestID req)),
                            (''approval_request_url'', JStr (ar_ApprovalRequestURL req)),
                            (''wait_kind'', JStr ''approval'')]
             in do {
               _ \<leftarrow> StoreWorkflowExecutionEvent
                 \<lparr>we_ExecutionID = executionID, we_WorkflowID = wf_WorkflowID f, we_RunID = wf_RunID f,
                  we_EventType = ''execution.waiting'', we_Status = Some stWaiting,
                  we_StatusReason = Some ''waiting_for_approval'', we_Payload = payload, we_EmittedAt = now\<rparr>;
               (if hasBus
                then publish \<lparr>ev_Type = ExecutionWaiting, ev_ExecutionID = executionID,
                       ev_WorkflowID = wf_WorkflowID f, ev_AgentNodeID = wf_AgentNodeID f,
                       ev_Status = stWaiting, ev_Timestamp = now,
                       ev_Data = (''status_reason'', JStr ''waiting_for_approval'') # payload\<rparr>
                else State_Monad.return ());
               reply_with 200 [(''approval_request_id'', JStr (ar_ApprovalRequestID req)),
                 (''approval_request_url'', JStr (ar_ApprovalRequestURL req)), (''status'', JStr ''pending'')]
             })
       }
   }"

definition handleRequestApproval :: "bool \<Rightarrow> string \<Rightarrow> RequestApprovalRequest bound \<Rightarrow> reply proc" where
  "handleRequestApproval hasBus executionID request =
     (if executionID = [] then reply_with 400 [(''error'', JStr ''execution_id is required'')]
      else case request of
        BoundErr err \<Rightarrow> reply_with 400 [(''error'', JStr (''invalid request body: '' @ err))]
      | BoundEOF \<Rightarrow> reply_with 400 [(''error'', JStr ''invalid request body: EOF'')]
      | Bound req \<Rightarrow> do {
          wf \<leftarrow> GetWorkflowExecution executionID;
          case wf of
            Inl _ \<Rightarrow> reply_with 500 [(''error'', JStr ''failed to look up execution'')]
          | Inr None \<Rightarrow>
              reply_with 404 [(''error'', JStr (''execution '' @ executionID @ '' not found''))]
          | Inr (Some f) \<Rightarrow>
              (let normalized = NormalizeExecutionStatus (wf_Status f)
               in if normalized \<noteq> stRunning
                  then reply_with 409 [(''error'', JStr ''invalid_state''),
                    (''message'', JStr (''execution is in '' @ quoted normalized @ '' state; must be '' @
                       quoted ''running'' @ '' to request approval''))]
                  else if approval_pending f
                  then reply_with 409 [(''error'', JStr ''approval_already_requested''),
                    (''message'', JStr ''An approval request already exists for this execution''),
                    (''approval_request_id'', json_opt (wf_ApprovalRequestID f))]
                  else case (if ar_CallbackURL req \<noteq> [] then ar_urlError req else None) of
                    Some err \<Rightarrow> reply_with 400 [(''error'', JStr ''invalid_callback_url''),
                      (''message'', JStr (''callback_url rejected: '' @ err))]
                  | None \<Rightarrow> request_approval_apply hasBus executionID f req)
        })"

definition handleGetApprovalStatus :: "string \<Rightarrow> reply proc" where
  "handleGetApprovalStatus executionID =
     (if executionID = [] then reply_with 400 [(''error'', JStr ''execution_id is required'')]
      else do {
        wf \<leftarrow> GetWorkflowExecution executionID;
        case wf of
          Inl _ \<Rightarrow> reply_with 500 [(''error'', JStr ''failed to look up execution'')]
        | Inr None \<Rightarrow> reply_with 404 [(''error'', JStr (''execution '' @ executionID @ '' not found''))]
        | Inr (Some f) \<Rightarrow>
            if wf_ApprovalRequestID f = None
            then reply_with 404 [(''error'', JStr ''no_approval_request''),
              (''message'', JStr ''No approval request exists for this execution'')]
            else reply_with 200
              ([(''status'', JStr (case wf_ApprovalStatus f of None \<Rightarrow> ''unknown'' | Some s \<Rightarrow> s))] @
               opt_field ''response'' JStr (wf_ApprovalResponse f) @
               opt_field ''request_url'' JStr (case wf_ApprovalRequestURL f of
                 None \<Rightarrow> None | Some u \<Rightarrow> reason_ptr u) @
               opt_field ''requested_at'' JTime (wf_ApprovalRequestedAt f) @
               opt_field ''responded_at'' JTime (wf_ApprovalRespondedAt f) @
               opt_field ''expires_at'' JTime (wf_ApprovalExpiresAt f))
      })"

definition AgentScopedRequestApprovalHandler ::
    "bool \<Rightarrow> string \<Rightarrow> string \<Rightarrow> RequestApprovalRequest bound \<Rightarrow> reply proc" where
  "AgentScopedRequestApprovalHandler hasBus nodeID executionID request =
     agent_scoped nodeID executionID (handleRequestApproval hasBus executionID request)"

definition AgentScopedGetApprovalStatusHandler :: "string \<Rightarrow> string \<Rightarrow> reply proc" where
  "AgentScopedGetApprovalStatusHandler nodeID executionID =
     agent_scoped nodeID executionID (handleGetApprovalStatus executionID)"

subsection \<open>Resolving an approval\<close>

record ApprovalPayload =
  ap_RequestID :: string
  ap_Decision :: string
  ap_Response :: string
  ap_Feedback :: string

definition normalizeDecision :: "string \<Rightarrow> string" where
  "normalizeDecision raw =
     (if raw \<in> set [''approve'', ''continue'', ''confirm''] then ''approved''
      else if raw \<in> set [''reject'', ''deny'', ''abort'', ''cancel''] then ''rejected''
      else raw)"

definition approval_response :: "ApprovalPayload \<Rightarrow> string option" where
  "approval_response payload =
     (if ap_Response payload \<noteq> [] then Some (ap_Response payload)
      else if ap_Feedback payload \<noteq> []
      then Some (''{'' @ go_quote ''feedback'' @ '':'' @ go_quote (ap_Feedback payload) @ ''}'')
      else None)"

text \<open>The status and reason a decision leads to (empty for a decision outside the four).\<close>

definition with_feedback :: "string \<Rightarrow> string \<Rightarrow> string" where
  "with_feedback r feedback = (if feedback \<noteq> [] then r @ '': '' @ feedback else r)"

definition decision_outcome :: "string \<Rightarrow> string \<Rightarrow> status \<times> string option" where
  "decision_outcome decision feedback =
     (if decision = ''approved'' then (stRunning, Some ''approval_granted'')
      else if decision = ''rejected'' then (stCancelled, Some (with_feedback ''approval_rejected'' feedback))
      else if decision = ''request_changes''
      then (stRunning, Some (with_feedback ''approval_changes_requested'' feedback))
      else if decision = ''expired'' then (stCancelled, Some ''approval_expired'')
      else ([], None))"

definition continues :: "string \<Rightarrow> bool" where
  "continues decision \<longleftrightarrow> decision = ''approved'' \<or> decision = ''request_changes''"

definition decision_updater ::
    "string \<Rightarrow> string \<Rightarrow> status \<Rightarrow> string option \<Rightarrow> instant \<Rightarrow> (Execution, unit) updater" where
  "decision_updater executionID decision newStatus r now _ current =
     (case current of
        None \<Rightarrow> Inl (Errorf (''execution '' @ executionID @ '' not found''))
      | Some e \<Rightarrow>
          (let e = e\<lparr>ex_Status := newStatus, ex_StatusReason := r\<rparr>
           in Inr (Some (if continues decision then e
                         else e\<lparr>ex_CompletedAt := Some now,
                                ex_DurationMS := Some (milliseconds (time_Sub now (ex_StartedAt e)))\<rparr>), ())))"

definition decision_workflow_updater ::
    "string \<Rightarrow> string \<Rightarrow> status \<Rightarrow> string option \<Rightarrow> string option \<Rightarrow> instant \<Rightarrow> wf_updater" where
  "decision_workflow_updater executionID decision newStatus r responseStr now _ current =
     (case current of
        None \<Rightarrow> Inl (Errorf (''execution '' @ executionID @ '' not found''))
      | Some f \<Rightarrow>
          (let f = f\<lparr>wf_Status := newStatus, wf_StatusReason := r, wf_ApprovalStatus := Some decision,
                 wf_ApprovalResponse := responseStr, wf_ApprovalRespondedAt := Some now\<rparr>;
               f = (if continues decision then f
                    else f\<lparr>wf_CompletedAt := Some now,
                           wf_DurationMS := Some (milliseconds (time_Sub now (wf_StartedAt f)))\<rparr>)
           in Inr (if decision = ''request_changes''
                   then f\<lparr>wf_ApprovalRequestID := None, wf_ApprovalRequestURL := None,
                          wf_ApprovalCallbackURL := None\<rparr>
                   else if decision = ''approved''
                   then f\<lparr>wf_ApprovalRequestURL := None, wf_ApprovalCallbackURL := None\<rparr>
                   else f)))"

definition approval_callback :: "WorkflowExecution \<Rightarrow> string \<Rightarrow> unit proc" where
  "approval_callback f decision =
     (case wf_ApprovalCallbackURL f of
        None \<Rightarrow> State_Monad.return ()
      | Some url \<Rightarrow> if url = [] then State_Monad.return () else emit (ApprovalCallback url decision))"

definition applyApprovalDecision ::
    "bool \<Rightarrow> string \<Rightarrow> WorkflowExecution \<Rightarrow> ApprovalPayload \<Rightarrow> string \<Rightarrow> reply proc" where
  "applyApprovalDecision hasBus executionID f payload decision =
     (let normalized = NormalizeExecutionStatus (wf_Status f);
          reaperTimeout = (normalized = stTimeout \<and> wf_ApprovalStatus f = Some ''pending'')
      in if normalized \<noteq> stWaiting \<and> \<not> reaperTimeout
         then reply_with 200 [(''status'', JStr ''already_processed''), (''execution_id'', JStr executionID),
           (''current_status'', JStr normalized),
           (''approval_status'', JStr (case wf_ApprovalStatus f of None \<Rightarrow> [] | Some s \<Rightarrow> s))]
         else
           (let responseStr = approval_response payload;
                (newStatus, newStatusReason) = decision_outcome decision (ap_Feedback payload)
            in do {
              now \<leftarrow> time_Now;
              upd \<leftarrow> UpdateExecutionRecord executionID
                (decision_updater executionID decision newStatus newStatusReason now);
              let recordSyncFailed = (case upd of Inl _ \<Rightarrow> True | Inr _ \<Rightarrow> False);
              wfu \<leftarrow> UpdateWorkflowExecution executionID
                (decision_workflow_updater executionID decision newStatus newStatusReason responseStr now);
              case wfu of
                Inl _ \<Rightarrow> reply_with 500 [(''error'', JStr ''failed to update execution'')]
              | Inr _ \<Rightarrow> do {
                  _ \<leftarrow> StoreWorkflowExecutionEvent
                    \<lparr>we_ExecutionID = executionID, we_WorkflowID = wf_WorkflowID f, we_RunID = wf_RunID f,
                     we_EventType = ''execution.approval_resolved'', we_Status = Some newStatus,
                     we_StatusReason = newStatusReason,
                     we_Payload = [(''approval_request_id'', JStr (ap_RequestID payload)),
                       (''decision'', JStr decision), (''feedback'', JStr (ap_Feedback payload)),
                       (''new_status'', JStr newStatus)], we_EmittedAt = now\<rparr>;
                  (if hasBus
                   then publish \<lparr>ev_Type = ExecutionApprovalResolved, ev_ExecutionID = executionID,
                          ev_WorkflowID = wf_WorkflowID f, ev_AgentNodeID = wf_AgentNodeID f,
                          ev_Status = newStatus, ev_Timestamp = now,
                          ev_Data = [(''approval_decision'', JStr decision),
                            (''approval_request_id'', JStr (ap_RequestID payload)),
                            (''feedback'', JStr (ap_Feedback payload))]\<rparr>
                   else State_Monad.return ());
                  approval_callback f decision;
                  reply_with 200
                    ([(''status'', JStr ''processed''), (''execution_id'', JStr executionID),
                      (''decision'', JStr decision), (''new_status'', JStr newStatus)] @
                     (if recordSyncFailed
                      then [(''warning'', JStr ''lightweight execution record update failed'')] else []))
                }
            }))"

text \<open>
  The rows with a given approval request, most recently started first; the handler takes one.
\<close>

definition findExecutionByApprovalRequestID :: "string \<Rightarrow> (goerr + WorkflowExecution option) proc" where
  "findExecutionByApprovalRequestID requestID = db_call (\<lambda>d.
     (case sort_key (\<lambda>f. Desc (wf_StartedAt f))
             (filter (\<lambda>f. wf_ApprovalRequestID f = Some requestID) (workflows d)) of
        [] \<Rightarrow> (Inr None, d)
      | f # _ \<Rightarrow> (Inr (Some f), d)))"

definition decisions :: "string list" where
  "decisions = [''approved'', ''rejected'', ''request_changes'', ''expired'']"

definition handleResolveApproval :: "bool \<Rightarrow> string \<Rightarrow> ApprovalPayload bound \<Rightarrow> reply proc" where
  "handleResolveApproval hasBus executionID request =
     (if executionID = [] then reply_with 400 [(''error'', JStr ''execution_id is required'')]
      else case request of
        BoundErr err \<Rightarrow> reply_with 400 [(''error'', JStr (''invalid request body: '' @ err))]
      | BoundEOF \<Rightarrow> reply_with 400 [(''error'', JStr ''invalid request body: EOF'')]
      | Bound req \<Rightarrow>
          (let decision = normalizeDecision (TrimSpace (ap_Decision req))
           in if decision \<notin> set [''approved'', ''rejected'', ''request_changes'']
              then reply_with 400 [(''error'', JStr ''invalid_decision''),
                (''message'', JStr (''invalid decision '' @ quoted (ap_Decision req) @
                   ''; must be approved, rejected, or request_changes''))]
              else do {
                wf \<leftarrow> GetWorkflowExecution executionID;
                case wf of
                  Inl _ \<Rightarrow> reply_with 500 [(''error'', JStr ''failed to look up execution'')]
                | Inr None \<Rightarrow>
                    reply_with 404 [(''error'', JStr (''execution '' @ executionID @ '' not found''))]
                | Inr (Some f) \<Rightarrow>
                    (case wf_ApprovalRequestID f of
                       None \<Rightarrow> reply_with 404 [(''error'', JStr ''no_approval_request''),
                         (''message'', JStr ''No approval request exists for this execution'')]
                     | Some rid \<Rightarrow>
                         if rid = [] then reply_with 404 [(''error'', JStr ''no_approval_request''),
                           (''message'', JStr ''No approval request exists for this execution'')]
                         else applyApprovalDecision hasBus executionID f
                           \<lparr>ap_RequestID = rid, ap_Decision = decision, ap_Response = ap_Response req,
                            ap_Feedback = ap_Feedback req\<rparr> decision)
              }))"

subsection \<open>The signature of the approval webhook\<close>

definition signature_parts :: "string \<Rightarrow> (string \<times> string) list" where
  "signature_parts sig = concat (map (\<lambda>part.
     case str_index part ''='' of
       None \<Rightarrow> []
     | Some idx \<Rightarrow> if 0 < idx then [(take idx part, drop (Suc idx) part)] else [])
     (split_on (CHR '','') sig))"

definition parseHaxSignature :: "string \<Rightarrow> (string \<times> string) option" where
  "parseHaxSignature sig =
     (let parts = map_of (rev (signature_parts sig))
      in case (parts ''t'', parts ''v1'') of
           (Some ts, Some v1) \<Rightarrow> Some (ts, v1)
         | _ \<Rightarrow> None)"

definition trimSignaturePrefix :: "string \<Rightarrow> string" where
  "trimSignaturePrefix sig =
     (if 7 < length sig \<and> take 7 sig = ''sha256='' then drop 7 sig else sig)"

text \<open>
  \<open>mac secret message\<close> is the hexadecimal HMAC-SHA256; \<open>now\<close> is the Unix time in seconds, a
  64-bit integer, and the difference wraps around like the code's.
\<close>

definition verifySignature ::
    "(string \<Rightarrow> string \<Rightarrow> string) \<Rightarrow> string \<Rightarrow> int \<Rightarrow> string \<Rightarrow> string \<Rightarrow> bool" where
  "verifySignature mac secret now bdy signature =
     (if secret = [] then False
      else if signature = [] then False
      else case parseHaxSignature signature of
        Some (ts, sig) \<Rightarrow>
          (case Atoi ts of
             None \<Rightarrow> False
           | Some tsInt \<Rightarrow>
               (let diff = wrap64 (now - tsInt)
                in if diff > 300 \<or> diff < - 300 then False
                   else sig = mac secret (ts @ ''.'' @ bdy)))
      | None \<Rightarrow> trimSignaturePrefix signature = mac secret bdy)"

definition handleApprovalWebhook ::
    "bool \<Rightarrow> (string \<Rightarrow> string \<Rightarrow> string) \<Rightarrow> (string \<Rightarrow> string + ApprovalPayload) \<Rightarrow> string \<Rightarrow> int \<Rightarrow>
     string option \<Rightarrow> string list \<Rightarrow> reply proc" where
  "handleApprovalWebhook hasBus mac parsePayload secret unixNow bodyRead headers =
     (case bodyRead of
        None \<Rightarrow> reply_with 400 [(''error'', JStr ''failed to read request body'')]
      | Some bdy \<Rightarrow>
          if secret = [] then reply_with 503 [(''error'', JStr ''approval webhook not configured'')]
          else (case filter (\<lambda>h. h \<noteq> []) headers of
            [] \<Rightarrow> reply_with 401 [(''error'', JStr ''missing webhook signature'')]
          | signature # _ \<Rightarrow>
              if \<not> verifySignature mac secret unixNow bdy signature
              then reply_with 401 [(''error'', JStr ''invalid webhook signature'')]
              else (case parsePayload bdy of
                Inl err \<Rightarrow> reply_with 400 [(''error'', JStr (''invalid payload: '' @ err))]
              | Inr payload \<Rightarrow>
                  if ap_RequestID payload = []
                  then reply_with 400 [(''error'', JStr ''requestId is required'')]
                  else
                    (let decision = normalizeDecision (ap_Decision payload)
                     in if decision \<notin> set decisions
                        then reply_with 400 [(''error'', JStr (''invalid decision '' @ quoted (ap_Decision payload) @
                               ''; must be approved, rejected, request_changes, or expired''))]
                        else do {
                          found \<leftarrow> findExecutionByApprovalRequestID (ap_RequestID payload);
                          case found of
                            Inl _ \<Rightarrow> reply_with 500 [(''error'', JStr ''failed to look up execution'')]
                          | Inr None \<Rightarrow> reply_with 404 [(''error'', JStr
                              (''no execution found for approval request '' @ ap_RequestID payload))]
                          | Inr (Some f) \<Rightarrow>
                              applyApprovalDecision hasBus (wf_ExecutionID f) f payload decision
                        }))))"

subsection \<open>What the handlers keep\<close>

lemma waiting_updaters_ok:
  "keeps_id (set_status_updater k st r)" "keeps_id (decision_updater k dec st r now)"
  by (auto simp: keeps_id_def set_status_updater_def decision_updater_def Let_def
      split: option.splits if_splits)

lemma keeps_agent_scoped:
  "keeps store_kept h \<Longrightarrow> keeps store_kept (agent_scoped node k h)"
  unfolding agent_scoped_def verifyExecutionOwnership_def by (intro handler_cases store_keeps)

lemma keeps_awaiter: "keeps store_kept (UpdateAwaiterStatusHandler b node k r)"
  unfolding UpdateAwaiterStatusHandler_def awaiter_handle_def awaiter_apply_def
  by (intro keeps_agent_scoped handler_cases store_keeps waiting_updaters_ok)

lemma keeps_request_approval: "keeps store_kept (handleRequestApproval b k r)"
  unfolding handleRequestApproval_def request_approval_apply_def
  by (intro handler_cases store_keeps waiting_updaters_ok)

lemma keeps_apply_decision: "keeps store_kept (applyApprovalDecision b k f p dec)"
  unfolding applyApprovalDecision_def approval_callback_def
  by (intro handler_cases store_keeps waiting_updaters_ok)

lemma keeps_find_approval: "keeps store_kept (findExecutionByApprovalRequestID r)"
  unfolding findExecutionByApprovalRequestID_def
  by (rule store.keeps_db_call) (simp add: store.refl split: list.splits)

lemma keeps_resolve_approval: "keeps store_kept (handleResolveApproval b k r)"
  unfolding handleResolveApproval_def by (intro handler_cases store_keeps keeps_apply_decision)

lemma keeps_case_list:
  assumes "xs = [] \<Longrightarrow> keeps R f" and "\<And>y ys. xs = y # ys \<Longrightarrow> keeps R (g y ys)"
  shows "keeps R (case xs of [] \<Rightarrow> f | y # ys \<Rightarrow> g y ys)"
  using assms by (cases xs) auto

lemma keeps_approval_webhook: "keeps store_kept (handleApprovalWebhook b mac prs sec t bdy hs)"
  unfolding handleApprovalWebhook_def
  by (intro handler_cases keeps_case_list store_keeps keeps_apply_decision keeps_find_approval)

subsection \<open>Outcome of the waiting handlers\<close>

lemma set_status_tx:
  assumes "find_execution d k = Some e"
  shows "update_execution_tx k (set_status_updater k st r) d =
    (Inr (Some (moved_exec st r (clock d) e), ()), persist_execution (moved_exec st r (clock d) e) d)"
  using assms by (simp add: update_execution_tx_def set_status_updater_def moved_exec_def Let_def)

definition moved_workflow :: "status \<Rightarrow> string option \<Rightarrow> WorkflowExecution \<Rightarrow> WorkflowExecution" where
  "moved_workflow st r f = f\<lparr>wf_Status := st, wf_StatusReason := r\<rparr>"

lemma moved_workflow_sel [simp]:
  "wf_ExecutionID (moved_workflow st r f) = wf_ExecutionID f" "wf_Status (moved_workflow st r f) = st"
  "wf_StatusReason (moved_workflow st r f) = r"
  by (simp_all add: moved_workflow_def)

lemma set_workflow_attempt:
  assumes "find_workflow d k = Some f" and "transition_ok (wf_Status f) st"
  shows "attemptWorkflowExecutionUpdate k (set_workflow_status k st r) d =
    (Inr (), store_workflow (moved_workflow st r f) d)"
  by (rule attempt_ok [where f = f])
    (use assms lookup_key [OF assms(1)] in \<open>simp_all add: set_workflow_status_def moved_workflow_def\<close>)

lemma awaiter_target_ok:
  "awaiter_target requested f = Some (st, r) \<Longrightarrow>
     transition_ok (wf_Status f) st \<and> \<not> IsTerminalExecutionStatus (wf_Status f) \<and>
     (st = stWaiting \<or> st = stRunning)"
  by (rule normalize_cases [of "wf_Status f"])
    (auto simp: awaiter_target_def transition_ok_eq IsTerminalExecutionStatus_def Let_def split: if_splits)

lemma awaiter_applies:
  assumes w: "quiet w" and f: "find_workflow (data w) k = Some f" and e: "find_execution (data w) k = Some e"
    and req: "requested \<in> {''waiting'', ''running''}" and tgt: "awaiter_target requested f = Some (st, r)"
    and run: "run_state (awaiter_handle b k (Bound \<lparr>aw_Status = requested, aw_Reason = reason\<rparr>)) w = (rep, w')"
  shows "rep = JSONreply 200 (awaiter_reply st True)"
    and "map_option ex_Status (find_execution (data w') k) = Some st"
    and "map_option wf_Status (find_workflow (data w') k) = Some st"
    and "map_option wf_StatusReason (find_workflow (data w') k) = Some r"
proof -
  note ok = awaiter_target_ok [OF tgt]
  have tx: "attemptWorkflowExecutionUpdate k (set_workflow_status k st r) (persist_execution u (data w)) =
      (Inr (), store_workflow (moved_workflow st r f) (persist_execution u (data w)))" for u
    by (rule set_workflow_attempt) (use f ok in simp_all)
  show "rep = JSONreply 200 (awaiter_reply st True)"
    and "map_option ex_Status (find_execution (data w') k) = Some st"
    and "map_option wf_Status (find_workflow (data w') k) = Some st"
    and "map_option wf_StatusReason (find_workflow (data w') k) = Some r"
    using run req ok
    by (auto simp: awaiter_handle_def awaiter_apply_def w f tgt quiet_GetWorkflow quiet_Event
        quiet_Update [where c = "()"] set_status_tx [OF e] quiet_UpdateWorkflow_ok tx
        find_moved [OF e] lookup_key [OF f] find_store_workflow Let_def cong: bind_cong_weak split: if_splits)
qed

text \<open>Asking for an approval, and resolving it.\<close>

definition requested_workflow ::
    "RequestApprovalRequest \<Rightarrow> instant \<Rightarrow> WorkflowExecution \<Rightarrow> WorkflowExecution" where
  "requested_workflow req now f =
     the (case request_approval_workflow_updater [] req now now (Some f) of Inr u \<Rightarrow> Some u | Inl _ \<Rightarrow> None)"

lemma request_updater_eq:
  "request_approval_workflow_updater k req now t (Some f) = Inr (requested_workflow req now f)"
  by (simp add: request_approval_workflow_updater_def requested_workflow_def Let_def)

lemma requested_workflow_sel [simp]:
  "wf_ExecutionID (requested_workflow req now f) = wf_ExecutionID f"
  "wf_Status (requested_workflow req now f) = stWaiting"
  "wf_ApprovalRequestID (requested_workflow req now f) = Some (ar_ApprovalRequestID req)"
  "wf_ApprovalStatus (requested_workflow req now f) = Some ''pending''"
  by (simp_all add: requested_workflow_def request_approval_workflow_updater_def Let_def)

lemma running_transitions:
  "NormalizeExecutionStatus s = stRunning \<Longrightarrow> transition_ok s stWaiting"
  "NormalizeExecutionStatus s = stWaiting \<Longrightarrow> transition_ok s stRunning"
  "NormalizeExecutionStatus s = stWaiting \<Longrightarrow> transition_ok s stCancelled"
  by (simp_all add: transition_ok_eq)

lemma update_columns_approval [simp]:
  "wf_ApprovalRequestID (workflow_update_columns u now old) = wf_ApprovalRequestID u"
  "wf_ApprovalStatus (workflow_update_columns u now old) = wf_ApprovalStatus u"
  by (simp_all add: workflow_update_columns_def)

lemma request_approval_running:
  assumes w: "quiet w" and f: "find_workflow (data w) k = Some f" and e: "find_execution (data w) k = Some e"
    and k: "k \<noteq> []" and st: "NormalizeExecutionStatus (wf_Status f) = stRunning"
    and np: "\<not> approval_pending f" and url: "ar_CallbackURL req = [] \<or> ar_urlError req = None"
    and run: "run_state (handleRequestApproval b k (Bound req)) w = (rep, w')"
  shows "code rep = 200"
    and "map_option ex_Status (find_execution (data w') k) = Some stWaiting"
    and "\<exists>f'. find_workflow (data w') k = Some f' \<and> wf_Status f' = stWaiting \<and>
          wf_ApprovalRequestID f' = Some (ar_ApprovalRequestID req) \<and> wf_ApprovalStatus f' = Some ''pending''"
proof -
  have tx: "attemptWorkflowExecutionUpdate k (request_approval_workflow_updater k req now)
      (persist_execution u (data w)) =
      (Inr (), store_workflow (requested_workflow req now f) (persist_execution u (data w)))" for u now
    by (rule attempt_ok [where f = f])
      (use f st lookup_key [OF f] in \<open>simp_all add: request_updater_eq running_transitions\<close>)
  show "code rep = 200"
    and "map_option ex_Status (find_execution (data w') k) = Some stWaiting"
    and "\<exists>f'. find_workflow (data w') k = Some f' \<and> wf_Status f' = stWaiting \<and>
          wf_ApprovalRequestID f' = Some (ar_ApprovalRequestID req) \<and> wf_ApprovalStatus f' = Some ''pending''"
    using run url
    by (auto simp: handleRequestApproval_def request_approval_apply_def w f k st np quiet_GetWorkflow
        quiet_Event quiet_Update [where c = "()"] set_status_tx [OF e] quiet_UpdateWorkflow_ok tx f
        find_moved [OF e] lookup_key [OF f] find_store_workflow Let_def cong: bind_cong_weak split: if_splits)
qed

definition decided_workflow ::
    "string \<Rightarrow> status \<Rightarrow> string option \<Rightarrow> string option \<Rightarrow> instant \<Rightarrow> WorkflowExecution \<Rightarrow> WorkflowExecution" where
  "decided_workflow dec st r resp now f =
     the (case decision_workflow_updater [] dec st r resp now now (Some f) of Inr u \<Rightarrow> Some u | Inl _ \<Rightarrow> None)"

lemma decided_updater_eq:
  "decision_workflow_updater k dec st r resp now t (Some f) = Inr (decided_workflow dec st r resp now f)"
  by (simp add: decision_workflow_updater_def decided_workflow_def Let_def)

lemma decided_workflow_sel [simp]:
  "wf_ExecutionID (decided_workflow dec st r resp now f) = wf_ExecutionID f"
  "wf_Status (decided_workflow dec st r resp now f) = st"
  "wf_ApprovalStatus (decided_workflow dec st r resp now f) = Some dec"
  by (simp_all add: decided_workflow_def decision_workflow_updater_def Let_def)

definition decided_exec :: "string \<Rightarrow> status \<Rightarrow> string option \<Rightarrow> instant \<Rightarrow> instant \<Rightarrow> Execution \<Rightarrow> Execution" where
  "decided_exec dec st r now t e =
     the (case decision_updater [] dec st r now now (Some e) of Inr (Some u, _) \<Rightarrow> Some (touched t u) | _ \<Rightarrow> None)"

lemma decided_exec_sel [simp]:
  "ex_ExecutionID (decided_exec dec st r now t e) = ex_ExecutionID e"
  "ex_Status (decided_exec dec st r now t e) = st"
  by (simp_all add: decided_exec_def decision_updater_def touched_def Let_def)

lemma decision_tx:
  assumes "find_execution d k = Some e"
  shows "update_execution_tx k (decision_updater k dec st r now) d =
    (Inr (Some (decided_exec dec st r now (clock d) e), ()), persist_execution (decided_exec dec st r now (clock d) e) d)"
  using assms by (simp add: update_execution_tx_def decision_updater_def decided_exec_def touched_def Let_def)

lemma decision_applies:
  assumes w: "quiet w" and f: "find_workflow (data w) k = Some f" and e: "find_execution (data w) k = Some e"
    and st: "NormalizeExecutionStatus (wf_Status f) = stWaiting" and dec: "dec \<in> set decisions"
    and run: "run_state (applyApprovalDecision b k f payload dec) w = (rep, w')"
  shows "code rep = 200"
    and "map_option ex_Status (find_execution (data w') k) = Some (fst (decision_outcome dec (ap_Feedback payload)))"
    and "\<exists>f'. find_workflow (data w') k = Some f' \<and>
           wf_Status f' = fst (decision_outcome dec (ap_Feedback payload)) \<and> wf_ApprovalStatus f' = Some dec"
proof -
  obtain st' r where out: "decision_outcome dec (ap_Feedback payload) = (st', r)" by fastforce
  have ok: "transition_ok (wf_Status f) st'"
    using dec out st running_transitions
    by (auto simp: decisions_def decision_outcome_def split: if_splits)
  have tx: "attemptWorkflowExecutionUpdate k (decision_workflow_updater k dec st' r resp now)
      (persist_execution u (data w)) =
      (Inr (), store_workflow (decided_workflow dec st' r resp now f) (persist_execution u (data w)))"
    for u resp now
    by (rule attempt_ok [where f = f])
      (use f ok lookup_key [OF f] in \<open>simp_all add: decided_updater_eq\<close>)
  have fe: "find_execution (persist_execution (decided_exec dec st' r now t e) (data w)) k =
      Some ((decided_exec dec st' r now t e)\<lparr>ex_CreatedAt := ex_CreatedAt e, ex_WebhookRegistered := False\<rparr>)" for now t
    using e lookup_key [OF e] by (simp add: find_persist)
  have cb: "run_state (approval_callback f dec) v = ((), on_data ((data v)\<lparr>effects := effects (data v) @
      (case wf_ApprovalCallbackURL f of None \<Rightarrow> [] | Some u \<Rightarrow> if u = [] then [] else [ApprovalCallback u dec])\<rparr>) (calls v) v)" for v
    by (auto simp: approval_callback_def on_data_def split: option.splits)
  show "code rep = 200"
    and "map_option ex_Status (find_execution (data w') k) = Some (fst (decision_outcome dec (ap_Feedback payload)))"
    and "\<exists>f'. find_workflow (data w') k = Some f' \<and>
           wf_Status f' = fst (decision_outcome dec (ap_Feedback payload)) \<and> wf_ApprovalStatus f' = Some dec"
    using run
    by (auto simp: applyApprovalDecision_def w f st out quiet_Event quiet_Update [where c = "()"]
        decision_tx [OF e] quiet_UpdateWorkflow_ok tx fe cb lookup_key [OF f] find_store_workflow Let_def
        cong: bind_cong_weak split: if_splits)
qed

lemma wrap64_near:
  assumes "0 \<le> now" and "now < 2 ^ 62" and "in_int64 t" and "\<bar>wrap64 (now - t)\<bar> \<le> 300"
  shows "\<bar>now - t\<bar> \<le> 300"
proof (cases "now - t < 2 ^ 63")
  case True
  with assms have "wrap64 (now - t) = now - t"
    by (intro wrap64_id) (auto simp: in_int64_def)
  with assms show ?thesis by simp
next
  case False
  have eq: "(now - t + 2 ^ 63) mod 2 ^ 64 = now - t - 2 ^ 63"
    using False assms by (intro int_mod_pos_eq [where q = 1]) (auto simp: in_int64_def)
  with False assms show ?thesis by (simp add: wrap64_def in_int64_def)
qed

lemma Atoi_in_range: "Atoi s = Some i \<Longrightarrow> in_int64 i"
  by (auto simp: Atoi_def Let_def split: option.splits if_splits)

definition authentic :: "(string \<Rightarrow> string \<Rightarrow> string) \<Rightarrow> string \<Rightarrow> int \<Rightarrow> string \<Rightarrow> string \<Rightarrow> bool" where
  "authentic mac secret now bdy signature \<longleftrightarrow>
     (case parseHaxSignature signature of
        Some (ts, v1) \<Rightarrow> (case Atoi ts of None \<Rightarrow> False
          | Some t \<Rightarrow> \<bar>now - t\<bar> \<le> 300 \<and> v1 = mac secret (ts @ ''.'' @ bdy))
      | None \<Rightarrow> trimSignaturePrefix signature = mac secret bdy)"

lemma verify_authentic:
  assumes "verifySignature mac secret now bdy signature" and "0 \<le> now" and "now < 2 ^ 62"
  shows "secret \<noteq> [] \<and> authentic mac secret now bdy signature"
  using assms
  by (auto simp: verifySignature_def authentic_def Let_def split: option.splits if_splits
      intro!: wrap64_near dest: Atoi_in_range)

subsection \<open>Properties\<close>

text \<open>
  The awaiter status request of an agent on its own execution, in an undisturbed world: it
  applies exactly when the workflow row is \<open>running\<close> (to \<open>waiting\<close>) or is \<open>waiting\<close> because of an
  earlier request of the same kind (back to \<open>running\<close>); otherwise the reply is a no-op and nothing
  changes. When it applies, both rows get the new status. The execution row is not consulted:
  whatever status it has, terminal ones included, it is overwritten.
\<close>
theorem awaiter_outcome:
  assumes "quiet w" and "find_workflow (data w) k = Some f" and "find_execution (data w) k = Some e"
    and "requested \<in> {''waiting'', ''running''}"
    and "run_state (awaiter_handle b k (Bound \<lparr>aw_Status = requested, aw_Reason = reason\<rparr>)) w = (rep, w')"
  shows "case awaiter_target requested f of
      None \<Rightarrow> rep = JSONreply 200 (awaiter_reply (NormalizeExecutionStatus (wf_Status f)) False) \<and> data w' = data w
    | Some (st, r) \<Rightarrow> rep = JSONreply 200 (awaiter_reply st True) \<and>
        map_option ex_Status (find_execution (data w') k) = Some st \<and>
        map_option wf_Status (find_workflow (data w') k) = Some st \<and>
        map_option wf_StatusReason (find_workflow (data w') k) = Some r"
proof (cases "awaiter_target requested f")
  case None
  then show ?thesis
    using assms(4,5) by (auto simp: awaiter_handle_def assms(1,2) quiet_GetWorkflow Let_def
        cong: bind_cong_weak split: if_splits)
next
  case (Some tgt)
  obtain st r where "tgt = (st, r)" by fastforce
  with Some awaiter_applies [OF assms(1-4) _ assms(5)] show ?thesis by simp
qed

text \<open>A database with an execution row and a workflow row for the same execution.\<close>

definition two_rows :: "string \<Rightarrow> status \<Rightarrow> status \<Rightarrow> db" where
  "two_rows k est wst = (one_row k est 5)\<lparr>workflows :=
     [zero_workflow_execution\<lparr>wf_ExecutionID := k, wf_Status := wst, wf_AgentNodeID := ''node''\<rparr>]\<rparr>"

theorem awaiter_outcome_witness:
  "map_option ex_Status (find_execution (data (snd (run_state (awaiter_handle True ''e1''
     (Bound \<lparr>aw_Status = ''waiting'', aw_Reason = []\<rparr>)) (idle (two_rows ''e1'' stFailed stRunning))))) ''e1'') =
     Some stWaiting"
  using awaiter_outcome [where w = "idle (two_rows ''e1'' stFailed stRunning)" and k = "''e1''"
      and f = "zero_workflow_execution\<lparr>wf_ExecutionID := ''e1'', wf_Status := stRunning, wf_AgentNodeID := ''node''\<rparr>"
      and e = "zero_execution\<lparr>ex_ExecutionID := ''e1'', ex_Status := stFailed\<rparr>"
      and requested = "''waiting''" and b = True and reason = "[]", OF _ _ _ _ surjective_pairing]
  by (simp add: two_rows_def awaiter_target_def)

text \<open>
  C17. The approval round. For an execution that is \<open>running\<close> and has no pending approval, a
  request for approval puts both rows to \<open>waiting\<close> with the request recorded as pending; a
  decision on that row then brings both rows to the status of the decision (\<open>running\<close> for
  approved and request_changes, \<open>cancelled\<close> for rejected and expired), records the decision, and
  leaves no approval pending, so that a resumed execution can ask again.
\<close>
theorem approval_round:
  assumes "quiet w" and "k \<noteq> []" and "find_workflow (data w) k = Some f" and "find_execution (data w) k = Some e"
    and "NormalizeExecutionStatus (wf_Status f) = stRunning" and "\<not> approval_pending f"
    and "ar_CallbackURL req = []" and "dec \<in> set decisions"
    and "run_state (handleRequestApproval b k (Bound req)) w = (rep1, w1)"
    and "find_workflow (data w1) k = Some f1"
    and "run_state (applyApprovalDecision b k f1 payload dec) (idle (data w1)) = (rep2, w2)"
  shows "code rep1 = 200 \<and> map_option ex_Status (find_execution (data w1) k) = Some stWaiting \<and>
    wf_Status f1 = stWaiting \<and> wf_ApprovalRequestID f1 = Some (ar_ApprovalRequestID req) \<and>
    code rep2 = 200 \<and>
    map_option ex_Status (find_execution (data w2) k) = Some (fst (decision_outcome dec (ap_Feedback payload))) \<and>
    (\<exists>f2. find_workflow (data w2) k = Some f2 \<and> wf_Status f2 = fst (decision_outcome dec (ap_Feedback payload)) \<and>
       wf_ApprovalStatus f2 = Some dec \<and> \<not> approval_pending f2)"
proof -
  have url: "ar_CallbackURL req = [] \<or> ar_urlError req = None" using assms(7) by simp
  note r = request_approval_running [OF assms(1,3,4,2,5,6) url assms(9)]
  have f1: "wf_Status f1 = stWaiting" "wf_ApprovalRequestID f1 = Some (ar_ApprovalRequestID req)"
    using r(3) assms(10) by auto
  obtain e1 where e1: "find_execution (data (idle (data w1))) k = Some e1" "ex_Status e1 = stWaiting"
    using r(2) by auto
  have q: "quiet (idle (data w1))" "find_workflow (data (idle (data w1))) k = Some f1"
    using assms(10) by simp_all
  have st: "NormalizeExecutionStatus (wf_Status f1) = stWaiting" using f1 by simp
  note d = decision_applies [OF q e1(1) st assms(8,11)]
  have "dec \<noteq> ''pending''" using assms(8) by (auto simp: decisions_def)
  then have "wf_ApprovalStatus f2 = Some dec \<Longrightarrow> \<not> approval_pending f2" for f2
    by (simp add: approval_pending_def)
  with r(1,2) d f1 show ?thesis by blast
qed

theorem approval_round_witness:
  "code (fst (run_state (handleRequestApproval True ''e1'' (Bound
     \<lparr>ar_ApprovalRequestID = ''r1'', ar_ApprovalRequestURL = [], ar_CallbackURL = [],
      ar_ExpiresInHours = None, ar_urlError = None\<rparr>)) (idle (two_rows ''e1'' stRunning stRunning)))) = 200"
proof -
  let ?w = "idle (two_rows ''e1'' stRunning stRunning)"
  let ?req = "\<lparr>ar_ApprovalRequestID = ''r1'', ar_ApprovalRequestURL = [], ar_CallbackURL = [],
      ar_ExpiresInHours = None, ar_urlError = None\<rparr>"
  let ?f = "zero_workflow_execution\<lparr>wf_ExecutionID := ''e1'', wf_Status := stRunning, wf_AgentNodeID := ''node''\<rparr>"
  let ?e = "zero_execution\<lparr>ex_ExecutionID := ''e1'', ex_Status := stRunning\<rparr>"
  let ?w1 = "snd (run_state (handleRequestApproval True ''e1'' (Bound ?req)) ?w)"
  have rows: "find_workflow (data ?w) ''e1'' = Some ?f" "find_execution (data ?w) ''e1'' = Some ?e"
    "NormalizeExecutionStatus (wf_Status ?f) = stRunning" "\<not> approval_pending ?f"
    by (simp_all add: two_rows_def approval_pending_def zero_workflow_execution_def)
  have "\<exists>f1. find_workflow (data ?w1) ''e1'' = Some f1"
    using request_approval_running(3) [OF quiet_idle rows(1,2) _ rows(3,4) _ surjective_pairing, of ?req]
    by auto
  then obtain f1 where "find_workflow (data ?w1) ''e1'' = Some f1" ..
  from approval_round [OF quiet_idle _ rows _ _ surjective_pairing this surjective_pairing,
      where dec = "''approved''"]
  show ?thesis by (simp add: decisions_def)
qed

text \<open>
  Resolving an approval is idempotent: a decision for an execution whose workflow row is no
  longer \<open>waiting\<close> (and is not a \<open>timeout\<close> with the approval still pending) is acknowledged with
  200 and leaves the world as it was, under any faults and interleavings.
\<close>
theorem approval_idempotent:
  assumes "NormalizeExecutionStatus (wf_Status f) \<noteq> stWaiting"
    and "NormalizeExecutionStatus (wf_Status f) \<noteq> stTimeout \<or> wf_ApprovalStatus f \<noteq> Some ''pending''"
  shows "\<exists>rep. run_state (applyApprovalDecision b k f payload dec) w = (rep, w) \<and> code rep = 200"
  using assms by (auto simp: applyApprovalDecision_def Let_def)

theorem approval_idempotent_witness:
  "\<exists>rep. run_state (applyApprovalDecision True ''e1'' (zero_workflow_execution\<lparr>wf_Status := stCancelled\<rparr>)
     \<lparr>ap_RequestID = ''r1'', ap_Decision = ''approved'', ap_Response = [], ap_Feedback = []\<rparr> ''approved'')
     (idle (two_rows ''e1'' stCancelled stCancelled)) =
     (rep, idle (two_rows ''e1'' stCancelled stCancelled)) \<and> code rep = 200"
  by (rule approval_idempotent) simp_all



end
