(* ===== verification/Exec_Query.thy ===== *)
theory Exec_Query
  imports Exec_Cancel "HOL-Library.Multiset" "HOL-Library.List_Lexorder" "HOL-Library.Char_ord" "HOL-Library.Option_ord"
begin

text \<open>
  Queries over the execution rows: \<open>QueryExecutionRecords\<close> and the batch read of
  \<open>internal/storage/execution_records.go\<close>, the batch status handler of \<open>execute.go\<close>, and the
  grouping and graph helpers of \<open>pkg/types/execution.go\<close>.
\<close>

subsection \<open>The filter\<close>

record ExecutionFilter =
  fl_RunID :: "string option"
  fl_ExecutionID :: "string option"
  fl_ParentExecutionID :: "string option"
  fl_AgentNodeID :: "string option"
  fl_ReasonerID :: "string option"
  fl_Status :: "string option"
  fl_SessionID :: "string option"
  fl_ActorID :: "string option"
  fl_Limit :: int
  fl_Offset :: int
  fl_StartTime :: "instant option"
  fl_EndTime :: "instant option"
  fl_UpdatedAfter :: "instant option"
  fl_UpdatedBefore :: "instant option"
  fl_StatusReasons :: "string list"
  fl_StatusReasonPrefixes :: "string list"
  fl_TerminalOnly :: bool
  fl_RootOnly :: bool
  fl_WithoutRestartedAs :: bool
  fl_SortBy :: string
  fl_SortDescending :: bool
  fl_ExcludePayloads :: bool

definition no_filter :: ExecutionFilter where
  "no_filter = \<lparr>fl_RunID = None, fl_ExecutionID = None, fl_ParentExecutionID = None,
     fl_AgentNodeID = None, fl_ReasonerID = None, fl_Status = None, fl_SessionID = None,
     fl_ActorID = None, fl_Limit = 0, fl_Offset = 0, fl_StartTime = None, fl_EndTime = None,
     fl_UpdatedAfter = None, fl_UpdatedBefore = None, fl_StatusReasons = [],
     fl_StatusReasonPrefixes = [], fl_TerminalOnly = False, fl_RootOnly = False,
     fl_WithoutRestartedAs = False, fl_SortBy = [], fl_SortDescending = False,
     fl_ExcludePayloads = False\<rparr>"

text \<open>
  \<open>col = ?\<close> for an optional argument (absent: no condition). A comparison with a NULL column
  is never true.
\<close>

definition eq_arg :: "'a option \<Rightarrow> 'a option \<Rightarrow> bool" where
  "eq_arg arg col \<longleftrightarrow> (case arg of None \<Rightarrow> True | Some x \<Rightarrow> col = Some x)"

definition coalesce_empty :: "string option \<Rightarrow> bool" where
  "coalesce_empty s \<longleftrightarrow> (case s of None \<Rightarrow> True | Some x \<Rightarrow> x = [])"

definition reason_matches :: "ExecutionFilter \<Rightarrow> string option \<Rightarrow> bool" where
  "reason_matches fl r \<longleftrightarrow>
     (fl_StatusReasons fl = [] \<and> fl_StatusReasonPrefixes fl = []) \<or>
     (case r of None \<Rightarrow> False
      | Some s \<Rightarrow> s \<in> set (fl_StatusReasons fl) \<or> list_ex (\<lambda>p. HasPrefix s p) (fl_StatusReasonPrefixes fl))"

definition filter_matches :: "ExecutionFilter \<Rightarrow> Execution \<Rightarrow> bool" where
  "filter_matches fl e \<longleftrightarrow>
     eq_arg (fl_ExecutionID fl) (Some (ex_ExecutionID e)) \<and>
     eq_arg (fl_RunID fl) (Some (ex_RunID e)) \<and>
     eq_arg (fl_ParentExecutionID fl) (ex_ParentExecutionID e) \<and>
     eq_arg (fl_AgentNodeID fl) (Some (ex_AgentNodeID e)) \<and>
     eq_arg (fl_ReasonerID fl) (Some (ex_ReasonerID e)) \<and>
     eq_arg (fl_Status fl) (Some (ex_Status e)) \<and>
     eq_arg (fl_SessionID fl) (ex_SessionID e) \<and>
     eq_arg (fl_ActorID fl) (ex_ActorID e) \<and>
     (case fl_StartTime fl of None \<Rightarrow> True | Some t \<Rightarrow> t \<le> ex_StartedAt e) \<and>
     (case fl_EndTime fl of None \<Rightarrow> True | Some t \<Rightarrow> ex_StartedAt e \<le> t) \<and>
     (case fl_UpdatedAfter fl of None \<Rightarrow> True | Some t \<Rightarrow> t \<le> ex_UpdatedAt e) \<and>
     (case fl_UpdatedBefore fl of None \<Rightarrow> True | Some t \<Rightarrow> ex_UpdatedAt e \<le> t) \<and>
     (fl_TerminalOnly fl \<longrightarrow> ex_Status e \<in> set [stSucceeded, stFailed, stCancelled, stTimeout]) \<and>
     (fl_RootOnly fl \<longrightarrow> coalesce_empty (ex_ParentExecutionID e)) \<and>
     (fl_WithoutRestartedAs fl \<longrightarrow> coalesce_empty (ex_RestartedAsExecutionID e)) \<and>
     reason_matches fl (ex_StatusReason e)"

subsection \<open>Order and window\<close>

definition order_by :: "('r \<Rightarrow> 'k::linorder) \<Rightarrow> bool \<Rightarrow> 'r list \<Rightarrow> 'r list" where
  "order_by f descending rows =
     (if descending then sort_key (\<lambda>r. Desc (f r)) rows else sort_key f rows)"

definition order_executions :: "string \<Rightarrow> bool \<Rightarrow> Execution list \<Rightarrow> Execution list" where
  "order_executions sortBy d rows =
     (if sortBy = ''status'' then order_by ex_Status d rows
      else if sortBy = ''duration_ms'' then order_by ex_DurationMS d rows
      else if sortBy = ''agent_node_id'' then order_by ex_AgentNodeID d rows
      else if sortBy = ''reasoner_id'' then order_by ex_ReasonerID d rows
      else if sortBy = ''execution_id'' then order_by ex_ExecutionID d rows
      else if sortBy = ''run_id'' then order_by ex_RunID d rows
      else if sortBy = ''created_at'' then order_by ex_CreatedAt d rows
      else if sortBy = ''updated_at'' then order_by ex_UpdatedAt d rows
      else order_by ex_StartedAt d rows)"

text \<open>
  \<open>LIMIT\<close> and \<open>OFFSET\<close>. The code writes an \<open>OFFSET\<close> also when there is no \<open>LIMIT\<close>; SQLite
  rejects that text, so such a query is an error.
\<close>

definition window :: "int \<Rightarrow> int \<Rightarrow> 'r list \<Rightarrow> goerr + 'r list" where
  "window limit offset rows =
     (if 0 < offset \<and> \<not> 0 < limit
      then Inl (Errorf ''query executions: near OFFSET: syntax error'')
      else
        (let rows = (if 0 < offset then drop (nat offset) rows else rows)
         in Inr (if 0 < limit then take (nat limit) rows else rows)))"

definition without_payloads :: "Execution \<Rightarrow> Execution" where
  "without_payloads e = e\<lparr>ex_InputPayload := [], ex_ResultPayload := []\<rparr>"

definition select_executions :: "ExecutionFilter \<Rightarrow> Execution list \<Rightarrow> goerr + Execution list" where
  "select_executions fl rows =
     (case window (fl_Limit fl) (fl_Offset fl)
             (order_executions (fl_SortBy fl) (fl_SortDescending fl) (filter (filter_matches fl) rows)) of
        Inl e \<Rightarrow> Inl e
      | Inr sel \<Rightarrow> Inr (if fl_ExcludePayloads fl then map without_payloads sel else sel))"

text \<open>The registration flags of a result are read in one further query; without it they stay false.\<close>

definition populateWebhookRegistration :: "Execution list \<Rightarrow> Execution list proc" where
  "populateWebhookRegistration es =
     (if es = [] then State_Monad.return es
      else do {
        r \<leftarrow> db_call (\<lambda>d. (Inr (webhooks d), d));
        State_Monad.return (case r of
            Inl _ \<Rightarrow> es
          | Inr ids \<Rightarrow> map (\<lambda>e. e\<lparr>ex_WebhookRegistered := ex_ExecutionID e \<in> set ids\<rparr>) es)
      })"

definition QueryExecutionRecords :: "ExecutionFilter \<Rightarrow> (goerr + Execution list) proc" where
  "QueryExecutionRecords fl = do {
     r \<leftarrow> db_call (\<lambda>d. (select_executions fl (executions d), d));
     case r of
       Inl e \<Rightarrow> State_Monad.return (Inl e)
     | Inr es \<Rightarrow> do {
         es \<leftarrow> populateWebhookRegistration es;
         State_Monad.return (Inr es)
       }
   }"

subsection \<open>Batch read\<close>

definition maxBatchExecutionIDs :: nat where
  "maxBatchExecutionIDs = 500"

definition GetExecutionRecordsBatch :: "string list \<Rightarrow> (goerr + Execution list) proc" where
  "GetExecutionRecordsBatch ids =
     (if ids = [] then State_Monad.return (Inr [])
      else if maxBatchExecutionIDs < length ids
      then State_Monad.return (Inl (Errorf (''batch fetch supports at most 500 execution IDs, got '' @
             show_nat (length ids))))
      else do {
        r \<leftarrow> db_call (\<lambda>d. (Inr (filter (\<lambda>e. ex_ExecutionID e \<in> set ids) (executions d)), d));
        case r of
          Inl e \<Rightarrow> State_Monad.return (Inl e)
        | Inr es \<Rightarrow> do {
            es \<leftarrow> populateWebhookRegistration es;
            State_Monad.return (Inr es)
          }
      })"

subsection \<open>Grouping and the execution graph\<close>

definition GroupExecutionsByRun :: "Execution list \<Rightarrow> string \<Rightarrow> Execution list" where
  "GroupExecutionsByRun es runID = filter (\<lambda>e. ex_RunID e = runID) es"

definition has_parent :: "Execution \<Rightarrow> string option" where
  "has_parent e = (case ex_ParentExecutionID e of None \<Rightarrow> None | Some p \<Rightarrow> if p = [] then None else Some p)"

definition BuildExecutionGraph ::
    "Execution list \<Rightarrow> (string \<Rightarrow> Execution option) \<times> (string \<times> string) list \<times> string list" where
  "BuildExecutionGraph es =
     (map_of (rev (map (\<lambda>e. (ex_ExecutionID e, e)) es)),
      concat (map (\<lambda>e. case has_parent e of None \<Rightarrow> [] | Some p \<Rightarrow> [(p, ex_ExecutionID e)]) es),
      remdups (concat (map (\<lambda>e. case has_parent e of None \<Rightarrow> [ex_ExecutionID e] | Some _ \<Rightarrow> []) es)))"

subsection \<open>Lemmas\<close>

lemma order_by_props [simp]:
  "mset (order_by f d rows) = mset rows" "set (order_by f d rows) = set rows"
  by (simp_all add: order_by_def)

lemma order_executions_mset [simp]: "mset (order_executions s d rows) = mset rows"
  by (simp add: order_executions_def)

lemma order_executions_set [simp]: "set (order_executions s d rows) = set rows"
  by (simp add: order_executions_def)

lemma order_started: "order_executions ''started_at'' False rows = sort_key ex_StartedAt rows"
  unfolding order_executions_def order_by_def by (simp only: if_False) simp

lemma window_set: "window l k rows = Inr sel \<Longrightarrow> set sel \<subseteq> set rows"
  by (auto simp: window_def Let_def split: if_splits dest: in_set_takeD in_set_dropD)

lemma window_all [simp]: "window 0 0 rows = Inr rows"
  by (simp add: window_def)

lemma select_sound:
  assumes "select_executions fl rows = Inr sel" and "\<not> fl_ExcludePayloads fl" and "e \<in> set sel"
  shows "e \<in> set rows \<and> filter_matches fl e"
  using assms by (auto simp: select_executions_def split: sum.splits dest!: window_set)

lemma select_complete:
  assumes "fl_Limit fl \<le> 0" and "fl_Offset fl \<le> 0" and "\<not> fl_ExcludePayloads fl"
  shows "\<exists>sel. select_executions fl rows = Inr sel \<and> mset sel = mset (filter (filter_matches fl) rows)"
  using assms by (simp add: select_executions_def window_def)

lemma keeps_query: "keeps store_kept (QueryExecutionRecords fl)"
  unfolding QueryExecutionRecords_def populateWebhookRegistration_def
  by (intro handler_cases store_keeps store.keeps_db_call) (simp_all add: store.refl)

lemma keeps_query_terminal: "keeps terminal_kept (QueryExecutionRecords fl)"
  unfolding QueryExecutionRecords_def populateWebhookRegistration_def
  by (intro handler_cases terminal_keeps terminal.keeps_db_call) (simp_all add: terminal.refl)

end
