(* ===== verification/Cancel_Tree.thy ===== *)
theory Cancel_Tree
  imports Exec_Query
begin

text \<open>
  Cancelling a whole run: \<open>CancelWorkflowTreeHandler\<close>, \<open>cancelOneExecution\<close>,
  \<open>orderExecutionsLeafFirst\<close> and \<open>computeExecutionDepths\<close> of
  \<open>internal/handlers/execute_cancel_tree.go\<close>. The memoised recursion over the parent chains is
  kept as it is, with its table of finished depths and its set of executions in progress, which
  is what makes it terminate on a cyclic parent relation.
\<close>

subsection \<open>Depths\<close>

text \<open>The map from ids to executions; a later row replaces an earlier one of the same id.\<close>

definition exec_map :: "Execution list \<Rightarrow> string \<Rightarrow> Execution option" where
  "exec_map es k = map_of (rev (map (\<lambda>e. (ex_ExecutionID e, e)) es)) k"

definition parent_in :: "Execution list \<Rightarrow> Execution \<Rightarrow> Execution option" where
  "parent_in es e = (case ex_ParentExecutionID e of
      None \<Rightarrow> None | Some p \<Rightarrow> if p = [] then None else exec_map es p)"

lemma exec_map_mem: "exec_map es k = Some e \<Longrightarrow> e \<in> set es \<and> ex_ExecutionID e = k"
  unfolding exec_map_def by (drule map_of_SomeD) auto

lemma parent_in_mem: "parent_in es e = Some p \<Longrightarrow> p \<in> set es"
  by (auto simp: parent_in_def dest: exec_map_mem split: option.splits if_splits)

function (sequential) compute_depth ::
    "Execution list \<Rightarrow> string list \<Rightarrow> Execution \<Rightarrow> (string \<Rightarrow> nat option) \<Rightarrow> nat \<times> (string \<Rightarrow> nat option)"
where
  "compute_depth es computing e depths =
     (case depths (ex_ExecutionID e) of
        Some d \<Rightarrow> (d, depths)
      | None \<Rightarrow>
          if ex_ExecutionID e \<in> set computing then (0, depths)
          else
            (case (case parent_in es e of
                     None \<Rightarrow> (0, depths)
                   | Some parent \<Rightarrow>
                       (case compute_depth es (ex_ExecutionID e # computing) parent depths of
                          (d, depths) \<Rightarrow> (d + 1, depths))) of
               (d, depths) \<Rightarrow> (d, depths(ex_ExecutionID e \<mapsto> d))))"
  by pat_completeness auto

text \<open>Each nested call adds an execution of the slice to the set in progress.\<close>

termination
proof (relation "measure (\<lambda>(es, computing, e, depths).
    card (insert (ex_ExecutionID e) (ex_ExecutionID ` set es) - set computing))", simp, clarsimp)
  fix es :: "Execution list" and computing and e p :: Execution
  assume c: "ex_ExecutionID e \<notin> set computing" and p: "parent_in es e = Some p"
  let ?ids = "ex_ExecutionID ` set es" and ?e = "ex_ExecutionID e"
  have "insert (ex_ExecutionID p) ?ids = ?ids"
    using parent_in_mem [OF p] by auto
  then have "insert (ex_ExecutionID p) ?ids - insert ?e (set computing) \<subset> insert ?e ?ids - set computing"
    using c by auto
  then show "card (insert (ex_ExecutionID p) ?ids - insert ?e (set computing)) <
      card (insert ?e ?ids - set computing)"
    by (intro psubset_card_mono) auto
qed

declare compute_depth.simps [simp del]

definition computeExecutionDepths :: "Execution list \<Rightarrow> string \<Rightarrow> nat option" where
  "computeExecutionDepths es = fold (\<lambda>e depths. snd (compute_depth es [] e depths)) es Map.empty"

definition depth_of :: "(string \<Rightarrow> nat option) \<Rightarrow> Execution \<Rightarrow> nat" where
  "depth_of depths e = (case depths (ex_ExecutionID e) of None \<Rightarrow> 0 | Some d \<Rightarrow> d)"

definition orderExecutionsLeafFirst :: "Execution list \<Rightarrow> Execution list \<times> (string \<Rightarrow> nat option)" where
  "orderExecutionsLeafFirst es =
     (let depths = computeExecutionDepths es
      in (sort_key (\<lambda>e. (Desc (depth_of depths e), Desc (ex_StartedAt e))) es, depths))"

subsection \<open>One execution\<close>

definition cancel_tree_updater :: "string \<Rightarrow> string option \<Rightarrow> (Execution, status) updater" where
  "cancel_tree_updater executionID reasonPtr _ current =
     (case current of
        None \<Rightarrow> Inl (Errorf (''execution '' @ executionID @ '' not found''))
      | Some e \<Rightarrow>
          if IsTerminalExecutionStatus (ex_Status e)
          then Inl \<lparr>err_msg = ''execution already terminal'', err_is = Some ErrAlreadyTerminal\<rparr>
          else
            (let previousStatus = ex_Status e;
                 e = e\<lparr>ex_Status := stCancelled\<rparr>;
                 e = (if reasonPtr \<noteq> None then e\<lparr>ex_StatusReason := reasonPtr\<rparr> else e)
             in Inr (Some e, previousStatus)))"

text \<open>A nil record without an error, which the updater never produces, is a nil dereference.\<close>

definition cancelOneExecution ::
    "string \<Rightarrow> string option \<Rightarrow> instant \<Rightarrow> string \<Rightarrow> (goerr + (Execution \<times> status)) proc" where
  "cancelOneExecution executionID reasonPtr now reasonRaw = do {
     wf \<leftarrow> GetWorkflowExecution executionID;
     let wfExec = non_fatal wf;
     upd \<leftarrow> UpdateExecutionRecord executionID (cancel_tree_updater executionID reasonPtr);
     case upd of
       Inl err \<Rightarrow> State_Monad.return (Inl err)
     | Inr (None, _) \<Rightarrow> State_Monad.return (Inl (Errorf ''nil pointer dereference''))
     | Inr (Some updated, previousStatus) \<Rightarrow> do {
         sync_workflow wfExec executionID (cancel_workflow_updater executionID reasonPtr);
         PublishExecutionCancelled (ex_ExecutionID updated) (ex_RunID updated) (ex_AgentNodeID updated)
           (cancel_event_data
              [(''reason'', JStr reasonRaw), (''source'', JStr ''cancel_tree''),
               (''transition_source'', JStr ''cancel_tree'')] updated wfExec);
         _ \<leftarrow> StoreWorkflowExecutionEvent
           \<lparr>we_ExecutionID = ex_ExecutionID updated, we_WorkflowID = fst (workflow_ids updated wfExec),
            we_RunID = snd (workflow_ids updated wfExec), we_EventType = ''execution.cancelled'',
            we_Status = Some stCancelled, we_StatusReason = reasonPtr,
            we_Payload = [(''reason'', JStr reasonRaw), (''source'', JStr ''cancel_tree'')],
            we_EmittedAt = now\<rparr>;
         State_Monad.return (Inr (updated, previousStatus))
       }
   }"

subsection \<open>The run\<close>

record cancelTreeNodeResult =
  nr_ExecutionID :: string
  nr_AgentNodeID :: string
  nr_ReasonerID :: string
  nr_WorkflowDepth :: nat
  nr_PreviousStatus :: status
  nr_Status :: string
  nr_SkipReason :: string

record cancelTreeResponse =
  tr_RunID :: string
  tr_TotalNodes :: nat
  tr_CancelledCount :: nat
  tr_SkippedCount :: nat
  tr_ErrorCount :: nat
  tr_Nodes :: "cancelTreeNodeResult list"
  tr_CancelledAt :: instant

definition omitempty_str :: "string \<Rightarrow> string \<Rightarrow> (string \<times> json) list" where
  "omitempty_str k v = (if v = [] then [] else [(k, JStr v)])"

definition node_json :: "cancelTreeNodeResult \<Rightarrow> json" where
  "node_json n = JObj ([(''execution_id'', JStr (nr_ExecutionID n))] @
     omitempty_str ''agent_node_id'' (nr_AgentNodeID n) @
     omitempty_str ''reasoner_id'' (nr_ReasonerID n) @
     [(''workflow_depth'', JInt (int (nr_WorkflowDepth n))),
      (''previous_status'', JStr (nr_PreviousStatus n)), (''status'', JStr (nr_Status n))] @
     omitempty_str ''skip_reason'' (nr_SkipReason n))"

definition response_json :: "cancelTreeResponse \<Rightarrow> (string \<times> json) list" where
  "response_json r =
     [(''run_id'', JStr (tr_RunID r)), (''total_nodes'', JInt (int (tr_TotalNodes r))),
      (''cancelled_count'', JInt (int (tr_CancelledCount r))),
      (''skipped_count'', JInt (int (tr_SkippedCount r))),
      (''error_count'', JInt (int (tr_ErrorCount r))),
      (''nodes'', JArr (map node_json (tr_Nodes r))), (''cancelled_at'', JTime (tr_CancelledAt r))]"

definition new_result :: "(string \<Rightarrow> nat option) \<Rightarrow> Execution \<Rightarrow> cancelTreeNodeResult" where
  "new_result depths e = \<lparr>nr_ExecutionID = ex_ExecutionID e, nr_AgentNodeID = ex_AgentNodeID e,
     nr_ReasonerID = ex_ReasonerID e, nr_WorkflowDepth = depth_of depths e,
     nr_PreviousStatus = ex_Status e, nr_Status = [], nr_SkipReason = []\<rparr>"

text \<open>The switch over the outcome of one cancellation.\<close>

definition record_outcome ::
    "cancelTreeNodeResult \<Rightarrow> goerr + (Execution \<times> status) \<Rightarrow> cancelTreeResponse \<Rightarrow> cancelTreeResponse" where
  "record_outcome result r resp =
     (case r of
        Inl err \<Rightarrow>
          if err_is err = Some ErrAlreadyTerminal
          then resp\<lparr>tr_Nodes := tr_Nodes resp @
                   [result\<lparr>nr_Status := ''skipped'', nr_SkipReason := ''raced_to_terminal''\<rparr>],
                 tr_SkippedCount := tr_SkippedCount resp + 1\<rparr>
          else resp\<lparr>tr_Nodes := tr_Nodes resp @
                   [result\<lparr>nr_Status := ''error'', nr_SkipReason := err_msg err\<rparr>],
                 tr_ErrorCount := tr_ErrorCount resp + 1\<rparr>
      | Inr (_, previousStatus) \<Rightarrow>
          resp\<lparr>tr_Nodes := tr_Nodes resp @
                   [result\<lparr>nr_PreviousStatus := previousStatus, nr_Status := stCancelled\<rparr>],
                 tr_CancelledCount := tr_CancelledCount resp + 1\<rparr>)"

text \<open>The loop over the ordered executions; \<open>resp\<close> carries the results and the three counters.\<close>

fun cancel_tree_loop ::
    "(string \<Rightarrow> nat option) \<Rightarrow> string option \<Rightarrow> instant \<Rightarrow> string \<Rightarrow> Execution list \<Rightarrow>
     cancelTreeResponse \<Rightarrow> cancelTreeResponse proc" where
  "cancel_tree_loop depths reasonPtr now reason [] resp = State_Monad.return resp"
| "cancel_tree_loop depths reasonPtr now reason (e # es) resp =
     (let result = new_result depths e
      in if IsTerminalExecutionStatus (ex_Status e) then
        cancel_tree_loop depths reasonPtr now reason es
          (resp\<lparr>tr_Nodes := tr_Nodes resp @ [result\<lparr>nr_Status := ex_Status e, nr_SkipReason := ''terminal''\<rparr>],
                tr_SkippedCount := tr_SkippedCount resp + 1\<rparr>)
      else do {
        r \<leftarrow> cancelOneExecution (ex_ExecutionID e) reasonPtr now reason;
        cancel_tree_loop depths reasonPtr now reason es
          (record_outcome result r resp)
      })"

definition run_filter :: "string \<Rightarrow> ExecutionFilter" where
  "run_filter runID = no_filter\<lparr>fl_RunID := Some runID, fl_SortBy := ''started_at''\<rparr>"

definition CancelWorkflowTreeHandler :: "string \<Rightarrow> string \<Rightarrow> string bound \<Rightarrow> reply proc" where
  "CancelWorkflowTreeHandler workflowId workflow_id request =
     (let runID = TrimSpace workflowId;
          runID = (if runID = [] then TrimSpace workflow_id else runID)
      in if runID = [] then reply_with 400 [(''error'', JStr ''workflowId is required'')]
      else case request of
        BoundErr err \<Rightarrow> reply_with 400 [(''error'', JStr (''invalid request body: '' @ err))]
      | _ \<Rightarrow>
       (let reason = (case request of Bound r \<Rightarrow> TrimSpace r | _ \<Rightarrow> []);
            reasonPtr = reason_ptr reason
        in do {
          got \<leftarrow> QueryExecutionRecords (run_filter runID);
          case got of
            Inl _ \<Rightarrow> reply_with 500 [(''error'', JStr ''failed to load run'')]
          | Inr es \<Rightarrow>
              if es = [] then reply_with 404 [(''error'', JStr (''run '' @ runID @ '' not found''))]
              else (case orderExecutionsLeafFirst es of (ordered, depthByID) \<Rightarrow> do {
                now \<leftarrow> time_Now;
                resp \<leftarrow> cancel_tree_loop depthByID reasonPtr now reason ordered
                  \<lparr>tr_RunID = runID, tr_TotalNodes = length es, tr_CancelledCount = 0,
                   tr_SkippedCount = 0, tr_ErrorCount = 0, tr_Nodes = [], tr_CancelledAt = now\<rparr>;
                reply_with 200 (response_json resp)
              })
        }))"

subsection \<open>The depths are the numbers of ancestors\<close>

definition parent_edges :: "Execution list \<Rightarrow> (string \<times> string) set" where
  "parent_edges es = set (concat (map (\<lambda>e. case parent_in es e of
     None \<Rightarrow> [] | Some p \<Rightarrow> [(ex_ExecutionID e, ex_ExecutionID p)]) es))"

definition ancestors :: "Execution list \<Rightarrow> Execution \<Rightarrow> string set" where
  "ancestors es e = {a. (ex_ExecutionID e, a) \<in> (parent_edges es)\<^sup>+}"

lemma parent_edges_iff:
  "(a, b) \<in> parent_edges es \<longleftrightarrow>
     (\<exists>e p. e \<in> set es \<and> parent_in es e = Some p \<and> a = ex_ExecutionID e \<and> b = ex_ExecutionID p)"
  by (force simp: parent_edges_def split: option.splits)

text \<open>\<open>f\<close> assigns every execution its depth when it satisfies the equation of the code.\<close>

definition depth_function :: "Execution list \<Rightarrow> (string \<Rightarrow> nat) \<Rightarrow> bool" where
  "depth_function es f \<longleftrightarrow> (\<forall>e \<in> set es. f (ex_ExecutionID e) =
     (case parent_in es e of None \<Rightarrow> 0 | Some p \<Rightarrow> f (ex_ExecutionID p) + 1))"

definition agrees :: "(string \<Rightarrow> nat option) \<Rightarrow> (string \<Rightarrow> nat) \<Rightarrow> bool" where
  "agrees depths f \<longleftrightarrow> (\<forall>k d. depths k = Some d \<longrightarrow> d = f k)"

lemma agrees_upd [intro]: "agrees depths f \<Longrightarrow> d = f k \<Longrightarrow> agrees (depths(k \<mapsto> d)) f"
  by (simp add: agrees_def)

lemma compute_depth_correct:
  "depth_function es f \<Longrightarrow> e \<in> set es \<Longrightarrow> agrees depths f \<Longrightarrow>
    \<forall>k \<in> set computing. f (ex_ExecutionID e) < f k \<Longrightarrow>
    compute_depth es computing e depths = (d, depths') \<Longrightarrow>
    d = f (ex_ExecutionID e) \<and> agrees depths' f \<and> insert (ex_ExecutionID e) (dom depths) \<subseteq> dom depths'"
proof (induction es computing e depths arbitrary: d depths' rule: compute_depth.induct)
  case (1 es computing e depths)
  let ?k = "ex_ExecutionID e"
  have fresh: "?k \<notin> set computing" using "1.prems"(4) by auto
  have f: "f ?k = (case parent_in es e of None \<Rightarrow> 0 | Some p \<Rightarrow> f (ex_ExecutionID p) + 1)"
    using "1.prems"(1,2) by (auto simp: depth_function_def)
  show ?case
  proof (cases "depths ?k")
    case (Some d0)
    then have "d0 = f ?k" using "1.prems"(3) by (simp add: agrees_def)
    with Some "1.prems"(3,5) show ?thesis
      by (auto simp: compute_depth.simps [of es computing e])
  next
    case None
    show ?thesis
    proof (cases "parent_in es e")
      case None': None
      with None fresh f "1.prems"(3,5) show ?thesis
        by (auto simp: compute_depth.simps [of es computing e])
    next
      case (Some p)
      obtain d1 depths1 where c: "compute_depth es (?k # computing) p depths = (d1, depths1)"
        by fastforce
      have "d1 = f (ex_ExecutionID p) \<and> agrees depths1 f \<and>
          insert (ex_ExecutionID p) (dom depths) \<subseteq> dom depths1"
        using "1.prems"(1,3,4) f parent_in_mem [OF Some] Some
        by (intro "1.IH" [OF None fresh Some _ _ _ _ c]) auto
      with None fresh Some c f "1.prems"(5) show ?thesis
        by (auto simp: compute_depth.simps [of es computing e])
    qed
  qed
qed

lemma depths_correct:
  assumes f: "depth_function es f"
  shows "agrees (computeExecutionDepths es) f \<and> ex_ExecutionID ` set es \<subseteq> dom (computeExecutionDepths es)"
proof -
  let ?step = "\<lambda>e depths. snd (compute_depth es [] e depths)"
  have "agrees (fold ?step xs depths) f \<and>
      ex_ExecutionID ` set xs \<union> dom depths \<subseteq> dom (fold ?step xs depths)"
    if "set xs \<subseteq> set es" "agrees depths f" for xs depths
    using that
  proof (induction xs arbitrary: depths)
    case (Cons x xs)
    obtain d depths' where c: "compute_depth es [] x depths = (d, depths')" by fastforce
    have "agrees depths' f \<and> insert (ex_ExecutionID x) (dom depths) \<subseteq> dom depths'"
      using compute_depth_correct [OF f _ Cons.prems(2) _ c] Cons.prems(1) by simp
    moreover from this have "agrees (fold ?step xs depths') f \<and>
        ex_ExecutionID ` set xs \<union> dom depths' \<subseteq> dom (fold ?step xs depths')"
      using Cons.prems(1) by (intro Cons.IH) auto
    ultimately show ?case using c by (simp add: subset_iff)
  qed simp
  from this [of es Map.empty] show ?thesis
    by (simp add: computeExecutionDepths_def agrees_def)
qed

lemma depth_of_correct:
  assumes "depth_function es f" and "e \<in> set es"
  shows "depth_of (computeExecutionDepths es) e = f (ex_ExecutionID e)"
  using depths_correct [OF assms(1)] assms(2) unfolding depth_of_def agrees_def
  by (auto split: option.splits)

lemma ancestors_finite: "finite (ancestors es e)"
proof -
  have "ancestors es e \<subseteq> snd ` ((parent_edges es)\<^sup>+)"
    by (force simp: ancestors_def)
  moreover have "parent_edges es \<subseteq> ex_ExecutionID ` set es \<times> ex_ExecutionID ` set es"
    by (auto simp: parent_edges_iff intro!: imageI dest: parent_in_mem)
  then have "finite (parent_edges es)"
    by (rule finite_subset) simp
  ultimately show ?thesis
    by (meson finite_imageI finite_subset finite_trancl)
qed

lemma ancestors_step:
  assumes d: "distinct (map ex_ExecutionID es)" and e: "e \<in> set es"
  shows "ancestors es e = (case parent_in es e of None \<Rightarrow> {}
           | Some p \<Rightarrow> insert (ex_ExecutionID p) (ancestors es p))"
proof -
  have only: "e' = e" if "e' \<in> set es" "ex_ExecutionID e' = ex_ExecutionID e" for e'
    using d e that by (metis distinct_map inj_onD)
  have edge: "(ex_ExecutionID e, a) \<in> parent_edges es \<longleftrightarrow>
      (\<exists>p. parent_in es e = Some p \<and> a = ex_ExecutionID p)" for a
  proof
    assume "(ex_ExecutionID e, a) \<in> parent_edges es"
    then obtain e' p where "e' \<in> set es" "ex_ExecutionID e = ex_ExecutionID e'"
      "parent_in es e' = Some p" "a = ex_ExecutionID p" by (auto simp: parent_edges_iff)
    with only [of e'] show "\<exists>p. parent_in es e = Some p \<and> a = ex_ExecutionID p" by auto
  qed (use e in \<open>auto simp: parent_edges_iff\<close>)
  have "(ex_ExecutionID e, a) \<in> (parent_edges es)\<^sup>+ \<longleftrightarrow> (\<exists>p. parent_in es e = Some p \<and>
      (a = ex_ExecutionID p \<or> (ex_ExecutionID p, a) \<in> (parent_edges es)\<^sup>+))" for a
  proof -
    have "(ex_ExecutionID e, a) \<in> (parent_edges es)\<^sup>+ \<longleftrightarrow>
        (\<exists>b. (ex_ExecutionID e, b) \<in> parent_edges es \<and> (b, a) \<in> (parent_edges es)\<^sup>*)"
      by (meson rtrancl_into_trancl2 tranclD)
    then show ?thesis by (auto simp: edge rtrancl_eq_or_trancl)
  qed
  then show ?thesis
    by (auto simp: ancestors_def split: option.splits)
qed

lemma depth_function_ancestors:
  assumes d: "distinct (map ex_ExecutionID es)" and a: "acyclic (parent_edges es)"
  shows "depth_function es (\<lambda>k. card {x. (k, x) \<in> (parent_edges es)\<^sup>+})"
  unfolding depth_function_def
proof
  fix e assume e: "e \<in> set es"
  have "ex_ExecutionID p \<notin> ancestors es p" for p
    using a by (simp add: acyclic_def ancestors_def)
  with ancestors_step [OF d e] ancestors_finite
  have "card (ancestors es e) = (case parent_in es e of None \<Rightarrow> 0 | Some p \<Rightarrow> card (ancestors es p) + 1)"
    by (simp split: option.splits)
  then show "card {x. (ex_ExecutionID e, x) \<in> (parent_edges es)\<^sup>+} =
      (case parent_in es e of None \<Rightarrow> 0 | Some p \<Rightarrow> card {x. (ex_ExecutionID p, x) \<in> (parent_edges es)\<^sup>+} + 1)"
    unfolding ancestors_def .
qed

lemma order_props [simp]:
  "mset (fst (orderExecutionsLeafFirst es)) = mset es" "set (fst (orderExecutionsLeafFirst es)) = set es"
  by (simp_all add: orderExecutionsLeafFirst_def Let_def)

subsection \<open>What a tree cancel keeps, and what its counters count\<close>

lemma cancel_tree_updater_ok:
  "keeps_id (cancel_tree_updater k r)" "respects_terminal (cancel_tree_updater k r)"
  by (auto simp: keeps_id_def respects_terminal_def cancel_tree_updater_def Let_def
      split: option.splits if_splits)

lemma cancelOne_keeps:
  "keeps terminal_kept (cancelOneExecution k r now t)" "keeps store_kept (cancelOneExecution k r now t)"
  unfolding cancelOneExecution_def
  by (intro handler_cases terminal_keeps sync_workflow_keeps cancel_tree_updater_ok)
     (intro handler_cases store_keeps sync_workflow_keeps cancel_tree_updater_ok)

lemma cancel_tree_loop_keeps:
  "keeps terminal_kept (cancel_tree_loop ds r now t es resp)"
  "keeps store_kept (cancel_tree_loop ds r now t es resp)"
proof (induction es arbitrary: resp)
  case Nil
  { case 1 show ?case by (simp add: terminal.keeps_return) }
  { case 2 show ?case by (simp add: store.keeps_return) }
next
  case (Cons e es)
  { case 1 show ?case
      unfolding cancel_tree_loop.simps by (intro keeps_if keeps_Let terminal.keeps_bind Cons cancelOne_keeps) }
  { case 2 show ?case
      unfolding cancel_tree_loop.simps by (intro keeps_if keeps_Let store.keeps_bind Cons cancelOne_keeps) }
qed

lemma cancel_tree_keeps:
  "keeps terminal_kept (CancelWorkflowTreeHandler p q r)" "keeps store_kept (CancelWorkflowTreeHandler p q r)"
  unfolding CancelWorkflowTreeHandler_def
  by (intro handler_cases terminal_keeps cancel_tree_loop_keeps keeps_query_terminal)
     (intro handler_cases store_keeps cancel_tree_loop_keeps keeps_query)

text \<open>An execution that is over, and the errors only the updater itself can make.\<close>

definition over :: "db \<Rightarrow> string \<Rightarrow> bool" where
  "over d k \<longleftrightarrow> (\<exists>e. find_execution d k = Some e \<and> IsTerminalExecutionStatus (ex_Status e))"

definition plain_faults :: "world \<Rightarrow> bool" where
  "plain_faults w \<longleftrightarrow> (\<forall>n e. fault w n = Some e \<longrightarrow> err_is e \<noteq> Some ErrAlreadyTerminal)"

definition peers_keep :: "world \<Rightarrow> bool" where
  "peers_keep w \<longleftrightarrow> (\<forall>n d. terminal_kept d (env w n d) \<and> store_kept d (env w n d))"

lemma over_kept: "terminal_kept d d' \<Longrightarrow> over d k \<Longrightarrow> over d' k"
  unfolding over_def terminal_kept_def by metis

lemma run_keeps:
  assumes "peers_keep w" and "run_state p w = (a, w')" and "keeps terminal_kept p" and "keeps store_kept p"
  shows "terminal_kept (data w) (data w')" "store_kept (data w) (data w')"
    "peers_keep w'" "plain_faults w' = plain_faults w"
proof -
  have "\<forall>n d. terminal_kept d (env w n d)" "\<forall>n d. store_kept d (env w n d)"
    using assms(1) by (auto simp: peers_keep_def)
  then show "terminal_kept (data w) (data w')" "store_kept (data w) (data w')"
      "peers_keep w'" "plain_faults w' = plain_faults w"
    using keeps_run [OF assms(3) _ assms(2)] keeps_run [OF assms(4) _ assms(2)] assms(1)
    by (auto simp: peers_keep_def plain_faults_def)
qed

lemma db_call_run:
  assumes "run_state (db_call tx) w = (r, w')"
  shows "(\<exists>e. fault w (calls w) = Some e \<and> r = Inl e) \<or>
         (\<exists>d. tx (env w (calls w) (data w)) = (r, d) \<and> data w' = d)"
  using assms by (auto simp: db_call_def Let_def split: option.splits prod.splits)

lemma cancel_tree_tx_over:
  assumes "update_execution_tx k (cancel_tree_updater k r) d = (res, d')"
    and "case res of Inl err \<Rightarrow> err_is err = Some ErrAlreadyTerminal | Inr _ \<Rightarrow> True"
  shows "over d' k"
  using assms
  by (cases "find_execution d k")
    (auto simp: update_execution_tx_def cancel_tree_updater_def Let_def over_def find_persist
       dest: lookup_key split: if_splits)

lemma update_tree_over:
  assumes w: "peers_keep w" "plain_faults w"
    and run: "run_state (UpdateExecutionRecord k (cancel_tree_updater k r)) w = (res, w')"
    and res: "case res of Inl err \<Rightarrow> err_is err = Some ErrAlreadyTerminal | Inr _ \<Rightarrow> True"
  shows "over (data w') k"
proof -
  obtain r1 w1 where 1: "run_state (db_call (update_execution_tx k (cancel_tree_updater k r))) w = (r1, w1)"
    by fastforce
  have k1: "keeps terminal_kept (db_call (update_execution_tx k (cancel_tree_updater k r)))"
      "keeps store_kept (db_call (update_execution_tx k (cancel_tree_updater k r)))"
    by (intro terminal.keeps_db_call terminal_kept_update store.keeps_db_call store_kept_update
        cancel_tree_updater_ok)+
  note w1 = run_keeps [OF w(1) 1 k1]
  have r1: "case r1 of Inl err \<Rightarrow> err_is err = Some ErrAlreadyTerminal | Inr _ \<Rightarrow> True"
    using run 1 res by (auto simp: UpdateExecutionRecord_def split: sum.splits)
  then have "over (data w1) k"
    using db_call_run [OF 1] w(2) cancel_tree_tx_over by (fastforce simp: plain_faults_def)
  moreover have "terminal_kept (data w1) (data w')"
  proof (cases r1)
    case (Inl err)
    with run 1 show ?thesis by (simp add: UpdateExecutionRecord_def terminal.refl)
  next
    case (Inr xc)
    obtain x c where xc: "xc = (x, c)" by fastforce
    with run 1 Inr have "w' = snd (run_state (enrichExecutionWebhook x) w1)"
      by (auto simp: UpdateExecutionRecord_def split: prod.splits)
    with keepsD [OF terminal.keeps_enrich] w1(3) show ?thesis by (simp add: peers_keep_def)
  qed
  ultimately show ?thesis using over_kept by blast
qed

lemma cancelOne_over:
  assumes w: "peers_keep w" "plain_faults w"
    and run: "run_state (cancelOneExecution k r now t) w = (res, w')"
    and res: "case res of Inl err \<Rightarrow> err_is err = Some ErrAlreadyTerminal | Inr _ \<Rightarrow> True"
  shows "over (data w') k"
proof -
  obtain wf w1 where 1: "run_state (GetWorkflowExecution k) w = (wf, w1)" by fastforce
  obtain upd w2 where 2: "run_state (UpdateExecutionRecord k (cancel_tree_updater k r)) w1 = (upd, w2)"
    by fastforce
  note w1 = run_keeps [OF w(1) 1 terminal.keeps_GetWorkflowExecution store.keeps_GetWorkflowExecution]
  note w2 = run_keeps [OF w1(3) 2 terminal.keeps_UpdateExecutionRecord [OF terminal_kept_update]
      store.keeps_UpdateExecutionRecord [OF store_kept_update], OF cancel_tree_updater_ok cancel_tree_updater_ok(1)]
  have upd: "case upd of Inl err \<Rightarrow> err_is err = Some ErrAlreadyTerminal | Inr _ \<Rightarrow> True"
  proof (cases upd)
    case (Inl err)
    with run 1 2 res show ?thesis by (auto simp: cancelOneExecution_def Let_def)
  qed simp
  have over: "over (data w2) k"
    using w1(3,4) w(2) 2 upd by (intro update_tree_over) auto
  show ?thesis
  proof (cases upd)
    case (Inl err)
    with run 1 2 over show ?thesis by (simp add: cancelOneExecution_def Let_def)
  next
    case (Inr xc)
    obtain x c where xc: "xc = (x, c)" by fastforce
    show ?thesis
    proof (cases x)
      case None
      with run 1 2 over Inr xc show ?thesis by (simp add: cancelOneExecution_def Let_def)
    next
      case (Some u)
      let ?rest = "do {
         sync_workflow (non_fatal wf) k (cancel_workflow_updater k r);
         PublishExecutionCancelled (ex_ExecutionID u) (ex_RunID u) (ex_AgentNodeID u)
           (cancel_event_data
              [(''reason'', JStr t), (''source'', JStr ''cancel_tree''),
               (''transition_source'', JStr ''cancel_tree'')] u (non_fatal wf));
         _ \<leftarrow> StoreWorkflowExecutionEvent
           \<lparr>we_ExecutionID = ex_ExecutionID u, we_WorkflowID = fst (workflow_ids u (non_fatal wf)),
            we_RunID = snd (workflow_ids u (non_fatal wf)), we_EventType = ''execution.cancelled'',
            we_Status = Some stCancelled, we_StatusReason = r,
            we_Payload = [(''reason'', JStr t), (''source'', JStr ''cancel_tree'')],
            we_EmittedAt = now\<rparr>;
         State_Monad.return (Inr (u, c))
       }"
      have rest: "run_state ?rest w2 = (res, w')"
        using run 1 2 Inr xc Some by (simp add: cancelOneExecution_def Let_def)
      have "keeps terminal_kept ?rest"
        by (intro terminal_keeps sync_workflow_keeps)
      moreover have "\<forall>n d. terminal_kept d (env w2 n d)"
        using w2(3) by (simp add: peers_keep_def)
      ultimately have "terminal_kept (data w2) (data w')"
        using rest by (rule keeps_run [THEN conjunct1])
      with over show ?thesis by (rule over_kept [rotated])
    qed
  qed
qed

text \<open>The results of the loop: one node per execution, in order, counted by the three counters.\<close>

definition counted :: "cancelTreeResponse \<Rightarrow> nat" where
  "counted resp = tr_CancelledCount resp + tr_SkippedCount resp + tr_ErrorCount resp"

definition nodes_over :: "cancelTreeResponse \<Rightarrow> db \<Rightarrow> bool" where
  "nodes_over resp d \<longleftrightarrow>
     (\<forall>n \<in> set (tr_Nodes resp). nr_Status n \<noteq> ''error'' \<or> tr_ErrorCount resp = 0 \<longrightarrow> over d (nr_ExecutionID n))"

lemma nodes_over_kept: "terminal_kept d d' \<Longrightarrow> nodes_over resp d \<Longrightarrow> nodes_over resp d'"
  unfolding nodes_over_def using over_kept by blast

lemma new_result_sel [simp]:
  "nr_ExecutionID (new_result ds e) = ex_ExecutionID e"
  "nr_PreviousStatus (new_result ds e) = ex_Status e"
  by (simp_all add: new_result_def)

lemma record_outcome_sel [simp]:
  "map nr_ExecutionID (tr_Nodes (record_outcome n r resp)) =
     map nr_ExecutionID (tr_Nodes resp) @ [nr_ExecutionID n]"
  "counted (record_outcome n r resp) = Suc (counted resp)"
  "tr_TotalNodes (record_outcome n r resp) = tr_TotalNodes resp"
  "tr_RunID (record_outcome n r resp) = tr_RunID resp"
  by (auto simp: record_outcome_def counted_def split: sum.splits)

lemma nodes_over_outcome:
  assumes "nodes_over resp d"
    and "case r of Inl err \<Rightarrow> err_is err = Some ErrAlreadyTerminal | Inr _ \<Rightarrow> True \<Longrightarrow> over d (nr_ExecutionID n)"
  shows "nodes_over (record_outcome n r resp) d"
  using assms by (cases r) (auto simp: record_outcome_def nodes_over_def)

lemma cancel_tree_loop_nodes:
  "run_state (cancel_tree_loop ds r now t es resp) w = (resp', w') \<Longrightarrow>
   map nr_ExecutionID (tr_Nodes resp') = map nr_ExecutionID (tr_Nodes resp) @ map ex_ExecutionID es \<and>
   counted resp' = counted resp + length es \<and> tr_TotalNodes resp' = tr_TotalNodes resp \<and>
   tr_RunID resp' = tr_RunID resp"
proof (induction es arbitrary: resp w)
  case (Cons e es)
  show ?case
  proof (cases "IsTerminalExecutionStatus (ex_Status e)")
    case True
    then show ?thesis using Cons.prems
      by (auto simp: counted_def dest!: Cons.IH)
  next
    case False
    then show ?thesis using Cons.prems
      by (auto dest!: Cons.IH split: prod.splits)
  qed
qed simp

lemma cancel_tree_loop_over:
  assumes "peers_keep w" "plain_faults w"
    and "\<forall>e \<in> set es. IsTerminalExecutionStatus (ex_Status e) \<longrightarrow> over (data w) (ex_ExecutionID e)"
    and "nodes_over resp (data w)"
    and "run_state (cancel_tree_loop ds r now t es resp) w = (resp', w')"
  shows "nodes_over resp' (data w')"
  using assms
proof (induction es arbitrary: resp w)
  case (Cons e es)
  show ?case
  proof (cases "IsTerminalExecutionStatus (ex_Status e)")
    case True
    let ?resp = "resp\<lparr>tr_Nodes := tr_Nodes resp @
        [(new_result ds e)\<lparr>nr_Status := ex_Status e, nr_SkipReason := ''terminal''\<rparr>],
        tr_SkippedCount := tr_SkippedCount resp + 1\<rparr>"
    have "nodes_over ?resp (data w)"
      using True Cons.prems(3,4) by (auto simp: nodes_over_def)
    with True Cons.prems(3,5) show ?thesis
      by (intro Cons.IH [OF Cons.prems(1,2)]) auto
  next
    case False
    obtain res w1 where 1: "run_state (cancelOneExecution (ex_ExecutionID e) r now t) w = (res, w1)"
      by fastforce
    note w1 = run_keeps [OF Cons.prems(1) 1 cancelOne_keeps]
    have o1: "over (data w1) (ex_ExecutionID e)"
      if "case res of Inl err \<Rightarrow> err_is err = Some ErrAlreadyTerminal | Inr _ \<Rightarrow> True"
      using cancelOne_over [OF Cons.prems(1,2) 1 that] .
    have es: "\<forall>e \<in> set es. IsTerminalExecutionStatus (ex_Status e) \<longrightarrow> over (data w1) (ex_ExecutionID e)"
      using Cons.prems(3) over_kept [OF w1(1)] by simp
    have r1: "nodes_over resp (data w1)" by (rule nodes_over_kept [OF w1(1) Cons.prems(4)])
    from Cons.prems(5) False 1
    have "run_state (cancel_tree_loop ds r now t es (record_outcome (new_result ds e) res resp)) w1 = (resp', w')"
      by simp
    then show ?thesis
      using w1(4) Cons.prems(2) o1 by (intro Cons.IH [OF w1(3) _ es nodes_over_outcome [OF r1]]) auto
  qed
qed simp

subsection \<open>Reading the run\<close>

lemma run_filter_matches [simp]: "filter_matches (run_filter k) = (\<lambda>e. ex_RunID e = k)"
  by (auto simp: fun_eq_iff run_filter_def no_filter_def filter_matches_def eq_arg_def reason_matches_def)

lemma select_run:
  "select_executions (run_filter k) rows = Inr (sort_key ex_StartedAt (filter (\<lambda>e. ex_RunID e = k) rows))"
proof -
  have "fl_SortBy (run_filter k) = ''started_at''" "fl_SortDescending (run_filter k) = False"
    "fl_Limit (run_filter k) = 0" "fl_Offset (run_filter k) = 0" "fl_ExcludePayloads (run_filter k) = False"
    by (simp_all add: run_filter_def no_filter_def)
  then show ?thesis by (simp only: select_executions_def order_started window_all) simp
qed

text \<open>The flag query changes no id and no status.\<close>

definition same_rows :: "Execution list \<Rightarrow> Execution list \<Rightarrow> bool" where
  "same_rows es es' \<longleftrightarrow> map (\<lambda>e. (ex_ExecutionID e, ex_Status e)) es' = map (\<lambda>e. (ex_ExecutionID e, ex_Status e)) es"

lemma populate_run:
  assumes "run_state (populateWebhookRegistration es) w = (es', w')"
  shows "same_rows es es'"
proof (cases "es = []")
  case True
  with assms show ?thesis by (simp add: populateWebhookRegistration_def same_rows_def)
next
  case False
  obtain r w1 where "run_state (db_call (\<lambda>d. (Inr (webhooks d), d))) w = (r, w1)" by fastforce
  with assms False
  have es': "es' = (case r of Inl _ \<Rightarrow> es | Inr ids \<Rightarrow> map (\<lambda>e. e\<lparr>ex_WebhookRegistered := ex_ExecutionID e \<in> set ids\<rparr>) es)"
    by (simp add: populateWebhookRegistration_def)
  show ?thesis unfolding es' by (rule sum.exhaust [of r]) (simp_all add: same_rows_def)
qed

lemma same_rowsD:
  assumes "same_rows es es'" and "e \<in> set es'"
  obtains e0 where "e0 \<in> set es" "ex_ExecutionID e0 = ex_ExecutionID e" "ex_Status e0 = ex_Status e"
proof -
  have "(ex_ExecutionID e, ex_Status e) \<in> set (map (\<lambda>e. (ex_ExecutionID e, ex_Status e)) es)"
    using assms unfolding same_rows_def by (metis (mono_tags, lifting) image_eqI list.set_map)
  then show ?thesis using that by auto
qed

lemma keeps_populate: "keeps terminal_kept (populateWebhookRegistration es)"
  "keeps store_kept (populateWebhookRegistration es)"
  unfolding populateWebhookRegistration_def
  by (intro handler_cases terminal_keeps terminal.keeps_db_call, simp add: terminal.refl)
     (intro handler_cases store_keeps store.keeps_db_call, simp add: store.refl)

lemma over_mem:
  "tables_ok d \<Longrightarrow> e \<in> set (executions d) \<Longrightarrow> IsTerminalExecutionStatus (ex_Status e) \<Longrightarrow>
    over d (ex_ExecutionID e)"
  using lookup_distinct [of ex_ExecutionID "executions d" e] by (auto simp: over_def tables_ok_def)

lemma query_run_over:
  assumes w: "peers_keep w" and ok: "tables_ok (data w)"
    and run: "run_state (QueryExecutionRecords (run_filter k)) w = (Inr es, w')"
    and e: "e \<in> set es" "IsTerminalExecutionStatus (ex_Status e)"
  shows "over (data w') (ex_ExecutionID e)"
proof -
  let ?tx = "\<lambda>d. (select_executions (run_filter k) (executions d), d)"
  obtain r1 w1 where 1: "run_state (db_call ?tx) w = (r1, w1)" by fastforce
  obtain es1 where r1: "r1 = Inr es1"
    using run 1 by (cases r1) (auto simp: QueryExecutionRecords_def)
  then have 2: "run_state (populateWebhookRegistration es1) w1 = (es, w')"
    using run 1 by (auto simp: QueryExecutionRecords_def split: prod.splits)
  have k1: "keeps terminal_kept (db_call ?tx)" "keeps store_kept (db_call ?tx)"
    by (rule terminal.keeps_db_call, simp add: terminal.refl) (rule store.keeps_db_call, simp add: store.refl)
  note w1 = run_keeps [OF w 1 k1] and w2 = run_keeps [OF run_keeps(3) [OF w 1 k1] 2 keeps_populate]
  have d1: "data w1 = env w (calls w) (data w)" and es1: "set es1 \<subseteq> set (executions (data w1))"
    using db_call_run [OF 1] r1 by (auto simp: select_run)
  have "tables_ok (data w1)" using w1(2) ok by (simp add: store_kept_def tables_kept_def)
  moreover obtain e1 where "e1 \<in> set es1" "ex_Status e1 = ex_Status e" "ex_ExecutionID e1 = ex_ExecutionID e"
    using same_rowsD [OF populate_run [OF 2] e(1)] by metis
  ultimately have "over (data w1) (ex_ExecutionID e)"
    using es1 e(2) over_mem [of "data w1" e1] by auto
  then show ?thesis by (rule over_kept [OF w2(1)])
qed

definition tree_run_id :: "string \<Rightarrow> string \<Rightarrow> string" where
  "tree_run_id p q = (if TrimSpace p = [] then TrimSpace q else TrimSpace p)"

definition request_reason :: "string bound \<Rightarrow> string" where
  "request_reason r = (case r of Bound t \<Rightarrow> TrimSpace t | _ \<Rightarrow> [])"

definition start_response :: "string \<Rightarrow> nat \<Rightarrow> instant \<Rightarrow> cancelTreeResponse" where
  "start_response runID n now = \<lparr>tr_RunID = runID, tr_TotalNodes = n, tr_CancelledCount = 0,
     tr_SkippedCount = 0, tr_ErrorCount = 0, tr_Nodes = [], tr_CancelledAt = now\<rparr>"

lemma start_response_sel [simp]:
  "tr_Nodes (start_response k n now) = []" "counted (start_response k n now) = 0"
  "tr_TotalNodes (start_response k n now) = n" "tr_RunID (start_response k n now) = k"
  "tr_CancelledCount (start_response k n now) = 0" "tr_SkippedCount (start_response k n now) = 0"
  "tr_ErrorCount (start_response k n now) = 0"
  by (simp_all add: start_response_def counted_def)

text \<open>The handler on a request whose query succeeds.\<close>

lemma cancel_tree_run:
  assumes k: "tree_run_id p q = k" "k \<noteq> []" and r: "\<And>err. r \<noteq> BoundErr err"
    and query: "run_state (QueryExecutionRecords (run_filter k)) w = (Inr es, w1)"
    and es: "es \<noteq> []"
    and loop: "run_state (cancel_tree_loop (snd (orderExecutionsLeafFirst es)) (reason_ptr (request_reason r))
       (clock (data w1)) (request_reason r) (fst (orderExecutionsLeafFirst es))
       (start_response k (length es) (clock (data w1)))) w1 = (resp, w')"
  shows "run_state (CancelWorkflowTreeHandler p q r) w = (JSONreply 200 (response_json resp), w')"
proof -
  have "(if TrimSpace p = [] then TrimSpace q else TrimSpace p) = k" using k by (simp add: tree_run_id_def)
  note k' = this k(2)
  show ?thesis
    using r query es loop unfolding CancelWorkflowTreeHandler_def Let_def k'(1)
    by (cases r; cases "orderExecutionsLeafFirst es")
      (simp_all add: k' request_reason_def start_response_def)
qed

lemma cancel_tree_not_ok:
  assumes "tree_run_id p q = [] \<or> (\<exists>err. r = BoundErr err) \<or>
      (\<exists>e. fst (run_state (QueryExecutionRecords (run_filter (tree_run_id p q))) w) = Inl e) \<or>
      fst (run_state (QueryExecutionRecords (run_filter (tree_run_id p q))) w) = Inr []"
  shows "code (fst (run_state (CancelWorkflowTreeHandler p q r) w)) \<noteq> 200"
proof -
  obtain got w1 where "run_state (QueryExecutionRecords (run_filter (tree_run_id p q))) w = (got, w1)"
    by fastforce
  then show ?thesis
    using assms unfolding CancelWorkflowTreeHandler_def Let_def tree_run_id_def [symmetric]
    by (cases r) auto
qed

lemma cancel_tree_ok:
  assumes run: "run_state (CancelWorkflowTreeHandler p q r) w = (rep, w')" and ok: "code rep = 200"
  obtains es w1 resp where "run_state (QueryExecutionRecords (run_filter (tree_run_id p q))) w = (Inr es, w1)"
    and "es \<noteq> []" and "run_state (cancel_tree_loop (snd (orderExecutionsLeafFirst es)) (reason_ptr (request_reason r))
       (clock (data w1)) (request_reason r) (fst (orderExecutionsLeafFirst es))
       (start_response (tree_run_id p q) (length es) (clock (data w1)))) w1 = (resp, w')"
    and "body rep = response_json resp"
proof -
  let ?k = "tree_run_id p q"
  obtain got w1 where q: "run_state (QueryExecutionRecords (run_filter ?k)) w = (got, w1)" by fastforce
  have "\<not> (?k = [] \<or> (\<exists>err. r = BoundErr err) \<or> (\<exists>e. got = Inl e) \<or> got = Inr [])"
    using cancel_tree_not_ok [of p q r w] run ok q by auto
  moreover from this obtain es where es: "got = Inr es" "es \<noteq> []" by (cases got) auto
  moreover obtain resp w2 where l: "run_state (cancel_tree_loop (snd (orderExecutionsLeafFirst es))
       (reason_ptr (request_reason r)) (clock (data w1)) (request_reason r) (fst (orderExecutionsLeafFirst es))
       (start_response ?k (length es) (clock (data w1)))) w1 = (resp, w2)" by fastforce
  ultimately have "run_state (CancelWorkflowTreeHandler p q r) w = (JSONreply 200 (response_json resp), w2)"
    using q by (intro cancel_tree_run [OF _ _ _ _ es(2) l]) auto
  with run that [of es w1 resp] q es l show ?thesis by auto
qed

subsection \<open>An undisturbed tree cancel\<close>

lemma cancel_tree_tx:
  assumes "find_execution d k = Some e" and "\<not> IsTerminalExecutionStatus (ex_Status e)"
  shows "update_execution_tx k (cancel_tree_updater k r) d =
    (Inr (Some (cancelled_exec r (clock d) e), ex_Status e), persist_execution (cancelled_exec r (clock d) e) d)"
  using assms by (simp add: update_execution_tx_def cancel_tree_updater_def cancelled_exec_def Let_def)

definition cancelled_row :: "string option \<Rightarrow> instant \<Rightarrow> Execution \<Rightarrow> Execution" where
  "cancelled_row r now e = (cancelled_exec r now e)\<lparr>ex_WebhookRegistered := False\<rparr>"

lemma cancelOne_quiet:
  assumes w: "quiet w"
    and e: "find_execution (data w) k = Some e" "\<not> IsTerminalExecutionStatus (ex_Status e)"
    and run: "run_state (cancelOneExecution k r now t) w = (res, w')"
  shows "\<exists>u. res = Inr (u, ex_Status e)"
    and "find_execution (data w') j = (if j = k then Some (cancelled_row r (clock (data w)) e)
           else find_execution (data w) j)"
    and "clock (data w') = clock (data w)"
  using run
  by (auto simp: cancelOneExecution_def Let_def w e(1) cancel_tree_tx [OF e] quiet_simps quiet_sync
      PublishExecutionCancelled_def non_fatal_def find_cancelled [OF e(1)] cancelled_row_def
      cong: bind_cong_weak)

definition open_ids :: "Execution list \<Rightarrow> string set" where
  "open_ids es = ex_ExecutionID ` {e \<in> set es. \<not> IsTerminalExecutionStatus (ex_Status e)}"

lemma open_ids_simps [simp]:
  "open_ids [] = {}"
  "open_ids (e # es) = (if IsTerminalExecutionStatus (ex_Status e) then open_ids es
     else insert (ex_ExecutionID e) (open_ids es))"
  by (auto simp: open_ids_def)

lemma cancel_tree_loop_quiet:
  assumes "quiet w" and "distinct (map ex_ExecutionID es)"
    and "\<forall>e \<in> set es. \<exists>x. find_execution (data w) (ex_ExecutionID e) = Some x \<and> ex_Status x = ex_Status e"
    and "run_state (cancel_tree_loop ds r now t es resp) w = (resp', w')"
  shows "(\<forall>j. find_execution (data w') j =
       (if j \<in> open_ids es
        then map_option (cancelled_row r (clock (data w))) (find_execution (data w) j)
        else find_execution (data w) j)) \<and>
     tr_CancelledCount resp' = tr_CancelledCount resp +
       length (filter (\<lambda>e. \<not> IsTerminalExecutionStatus (ex_Status e)) es) \<and>
     tr_ErrorCount resp' = tr_ErrorCount resp"
  using assms
proof (induction es arbitrary: resp w)
  case (Cons e es)
  show ?case
  proof (cases "IsTerminalExecutionStatus (ex_Status e)")
    case True
    then have "run_state (cancel_tree_loop ds r now t es (resp\<lparr>tr_Nodes := tr_Nodes resp @
        [(new_result ds e)\<lparr>nr_Status := ex_Status e, nr_SkipReason := ''terminal''\<rparr>],
        tr_SkippedCount := tr_SkippedCount resp + 1\<rparr>)) w = (resp', w')"
      using Cons.prems(4) by simp
    from Cons.IH [OF Cons.prems(1) _ _ this] True Cons.prems(2,3) show ?thesis by simp
  next
    case False
    obtain res w1 where 1: "run_state (cancelOneExecution (ex_ExecutionID e) r now t) w = (res, w1)"
      by fastforce
    obtain x where x: "find_execution (data w) (ex_ExecutionID e) = Some x" "ex_Status x = ex_Status e"
      using Cons.prems(3) by auto
    have nt: "\<not> IsTerminalExecutionStatus (ex_Status x)" using False x(2) by simp
    note q = cancelOne_quiet [OF Cons.prems(1) x(1) nt 1]
    obtain u where u: "res = Inr (u, ex_Status x)" using q(1) ..
    have w1: "quiet w1"
      using keeps_quiet [OF cancelOne_keeps(1) Cons.prems(1) terminal.refl] 1 by (metis snd_conv)
    have "run_state (cancel_tree_loop ds r now t es (record_outcome (new_result ds e) res resp)) w1 = (resp', w')"
      using Cons.prems(4) False 1 by simp
    moreover have fresh: "\<forall>e' \<in> set es. ex_ExecutionID e' \<noteq> ex_ExecutionID e" and "distinct (map ex_ExecutionID es)"
      using Cons.prems(2) by (auto simp: image_iff)
    moreover have "\<forall>e' \<in> set es. \<exists>x. find_execution (data w1) (ex_ExecutionID e') = Some x \<and> ex_Status x = ex_Status e'"
      using Cons.prems(3) fresh by (simp add: q(2))
    ultimately have IH: "(\<forall>j. find_execution (data w') j =
         (if j \<in> open_ids es
          then map_option (cancelled_row r (clock (data w1))) (find_execution (data w1) j)
          else find_execution (data w1) j)) \<and>
       tr_CancelledCount resp' = tr_CancelledCount (record_outcome (new_result ds e) res resp) +
         length (filter (\<lambda>e. \<not> IsTerminalExecutionStatus (ex_Status e)) es) \<and>
       tr_ErrorCount resp' = tr_ErrorCount (record_outcome (new_result ds e) res resp)"
      by (intro Cons.IH w1)
    have "find_execution (data w') j =
        (if j \<in> open_ids (e # es)
         then map_option (cancelled_row r (clock (data w))) (find_execution (data w) j)
         else find_execution (data w) j)" for j
    proof (cases "j = ex_ExecutionID e")
      case True
      then have "find_execution (data w') j = Some (cancelled_row r (clock (data w)) x)"
        using IH [THEN conjunct1, rule_format, of j] fresh by (auto simp: q(2) open_ids_def)
      with True False x(1) show ?thesis by simp
    next
      case False
      then show ?thesis using IH [THEN conjunct1, rule_format, of j] nt x(2) by (simp add: q(2,3))
    qed
    with IH False u show ?thesis by (simp add: record_outcome_def)
  qed
qed simp

lemma same_rows_filter:
  assumes "same_rows es es'"
  shows "length (filter (\<lambda>e. P (ex_Status e)) es') = length (filter (\<lambda>e. P (ex_Status e)) es)"
proof -
  have a: "length (filter (\<lambda>e. P (ex_Status e)) xs) =
      length (filter (\<lambda>x. P (snd x)) (map (\<lambda>e. (ex_ExecutionID e, ex_Status e)) xs))" for xs
    by (simp add: filter_map o_def)
  show ?thesis
    unfolding a [of es] a [of es'] using assms by (simp only: same_rows_def)
qed

text \<open>The rows of one run, as the query returns them.\<close>

abbreviation run_rows :: "db \<Rightarrow> string \<Rightarrow> Execution list" where
  "run_rows d k \<equiv> filter (\<lambda>e. ex_RunID e = k) (executions d)"

lemma same_rows_ids:
  assumes "same_rows es es'"
  shows "map ex_ExecutionID es' = map ex_ExecutionID es"
  using arg_cong [OF assms [unfolded same_rows_def], of "map fst"] by (simp add: o_def)

lemma same_rows_open:
  assumes "same_rows es es'"
  shows "open_ids es' = open_ids es"
proof -
  have o: "open_ids xs = fst ` set (filter (\<lambda>p. \<not> IsTerminalExecutionStatus (snd p))
      (map (\<lambda>e. (ex_ExecutionID e, ex_Status e)) xs))" for xs
    by (simp add: open_ids_def filter_map o_def image_image)
  show ?thesis using assms unfolding o [of es] o [of es'] by (simp only: same_rows_def)
qed

lemma run_rows_read:
  assumes ok: "tables_ok d" and es: "same_rows (sort_key ex_StartedAt (run_rows d k)) es"
  shows "distinct (map ex_ExecutionID es)"
    and "e \<in> set es \<Longrightarrow> \<exists>x. find_execution d (ex_ExecutionID e) = Some x \<and> ex_Status x = ex_Status e"
    and "j \<in> open_ids es \<longleftrightarrow>
      (\<exists>x. find_execution d j = Some x \<and> ex_RunID x = k \<and> \<not> IsTerminalExecutionStatus (ex_Status x))"
    and "length es = length (run_rows d k)"
proof -
  have d: "distinct (map ex_ExecutionID (executions d))" using ok by (simp add: tables_ok_def)
  have "distinct (map ex_ExecutionID (run_rows d k))"
    using d by (rule distinct_map_filter)
  moreover have "mset (map ex_ExecutionID es) = mset (map ex_ExecutionID (run_rows d k))"
    by (simp add: same_rows_ids [OF es])
  ultimately show "distinct (map ex_ExecutionID es)"
    using mset_eq_imp_distinct_iff by blast
  show "\<exists>x. find_execution d (ex_ExecutionID e) = Some x \<and> ex_Status x = ex_Status e" if mem: "e \<in> set es"
  proof -
    obtain x where "x \<in> set (sort_key ex_StartedAt (run_rows d k))"
      "ex_ExecutionID x = ex_ExecutionID e" "ex_Status x = ex_Status e"
      by (rule same_rowsD [OF es mem])
    with lookup_distinct [OF d, of x] show ?thesis by auto
  qed
  have "open_ids es = open_ids (run_rows d k)"
    using same_rows_open [OF es] by (simp add: open_ids_def)
  then show "j \<in> open_ids es \<longleftrightarrow>
      (\<exists>x. find_execution d j = Some x \<and> ex_RunID x = k \<and> \<not> IsTerminalExecutionStatus (ex_Status x))"
    using lookup_distinct [OF d] lookup_mem [of ex_ExecutionID j "executions d"]
      lookup_key [of ex_ExecutionID j "executions d"]
    by (auto simp: open_ids_def image_iff)
  show "length es = length (run_rows d k)"
    using arg_cong [OF same_rows_ids [OF es], of length] by simp
qed

text \<open>The rows the query of an undisturbed tree cancel returns.\<close>

lemma quiet_query_run:
  assumes "quiet w"
  obtains es n where "run_state (QueryExecutionRecords (run_filter k)) w = (Inr es, on_data (data w) n w)"
    and "same_rows (sort_key ex_StartedAt (run_rows (data w) k)) es"
proof -
  let ?rows = "sort_key ex_StartedAt (filter (\<lambda>e. ex_RunID e = k) (executions (data w)))"
  let ?w1 = "on_data (data w) (Suc (calls w)) w"
  have q1: "quiet ?w1" using assms by simp
  have q: "run_state (QueryExecutionRecords (run_filter k)) w =
      (case run_state (populateWebhookRegistration ?rows) ?w1 of (es, w') \<Rightarrow> (Inr es, w'))"
    using assms by (simp add: QueryExecutionRecords_def quiet_db_call select_run)
  obtain es w2 where p: "run_state (populateWebhookRegistration ?rows) ?w1 = (es, w2)" by fastforce
  moreover have "\<exists>n. w2 = on_data (data w) n w"
  proof (cases "?rows = []")
    case True
    with p have "w2 = ?w1" unfolding populateWebhookRegistration_def by (simp del: sort_key_simps)
    then show ?thesis by blast
  next
    case False
    with p have "w2 = on_data (data w) (Suc (Suc (calls w))) w"
      using assms by (simp add: populateWebhookRegistration_def quiet_db_call)
    then show ?thesis by blast
  qed
  ultimately show ?thesis
    using that [of es] q populate_run [OF p] by auto
qed

subsection \<open>Properties\<close>

text \<open>
  C20. The order of a tree cancel: when the parent relation of a run has no cycle, the depth
  computed for an execution is its number of ancestors in the run, every execution appears exactly once, and every
  execution stands before its parent.
\<close>
theorem leaf_first_order:
  assumes "distinct (map ex_ExecutionID es)" and "acyclic (parent_edges es)"
    and "orderExecutionsLeafFirst es = (ordered, depths)"
  shows "mset ordered = mset es \<and>
    (\<forall>e \<in> set es. depth_of depths e = card (ancestors es e)) \<and>
    (\<forall>i j. i < length ordered \<longrightarrow> j < length ordered \<longrightarrow>
       parent_in es (ordered ! i) = Some (ordered ! j) \<longrightarrow> i < j)"
proof -
  note f = depth_function_ancestors [OF assms(1,2)]
  let ?key = "\<lambda>e. (Desc (depth_of depths e), Desc (ex_StartedAt e))"
  have o: "ordered = sort_key ?key es" and dp: "depths = computeExecutionDepths es"
    using assms(3) by (auto simp: orderExecutionsLeafFirst_def Let_def)
  have 1: "depth_of depths e = card (ancestors es e)" if "e \<in> set es" for e
    using depth_of_correct [OF f that] by (simp add: dp ancestors_def)
  have 2: "i < j" if ij: "i < length ordered" "j < length ordered"
      and p: "parent_in es (ordered ! i) = Some (ordered ! j)" for i j
  proof (rule ccontr)
    assume "\<not> i < j"
    moreover have "sorted (map ?key ordered)" by (simp add: o)
    ultimately have "map ?key ordered ! j \<le> map ?key ordered ! i"
      using ij by (intro sorted_nth_mono) auto
    then have "depth_of depths (ordered ! i) \<le> depth_of depths (ordered ! j)"
      using ij by (auto simp: less_eq_prod_def)
    moreover have mem: "ordered ! i \<in> set es" "ordered ! j \<in> set es"
      using nth_mem [OF ij(1)] nth_mem [OF ij(2)] by (simp_all add: o)
    moreover have "card (ancestors es (ordered ! i)) = card (ancestors es (ordered ! j)) + 1"
      using f mem(1) p by (auto simp: depth_function_def ancestors_def)
    ultimately show False using 1 by simp
  qed
  show ?thesis using 1 2 by (simp add: o)
qed


text \<open>A run of three executions, the last two forming a chain below the first.\<close>

definition tree_exec :: "string \<Rightarrow> string option \<Rightarrow> status \<Rightarrow> Execution" where
  "tree_exec k p st = zero_execution\<lparr>ex_ExecutionID := k, ex_ParentExecutionID := p, ex_RunID := ''r'',
     ex_Status := st\<rparr>"

definition demo_tree :: "Execution list" where
  "demo_tree = [tree_exec ''a'' None stSucceeded, tree_exec ''b'' (Some ''a'') stRunning,
     tree_exec ''c'' (Some ''b'') stQueued]"

lemma demo_tree_edges: "parent_edges demo_tree = {(''b'', ''a''), (''c'', ''b'')}"
  by (simp add: parent_edges_def demo_tree_def tree_exec_def parent_in_def exec_map_def
      zero_execution_def insert_commute)

lemma demo_tree_acyclic: "acyclic (parent_edges demo_tree)"
proof -
  have "wf {(''b'', ''a''), (''c'', ''b'')}"
    by (rule wf_subset [of "measure (\<lambda>s. if s = ''b'' then 1 else if s = ''a'' then 2 else 0)"]) auto
  then show ?thesis unfolding demo_tree_edges by (rule wf_acyclic)
qed

theorem leaf_first_order_witness:
  "mset (fst (orderExecutionsLeafFirst demo_tree)) = mset demo_tree"
proof -
  have "distinct (map ex_ExecutionID demo_tree)"
    by (simp add: demo_tree_def tree_exec_def)
  from leaf_first_order [OF this demo_tree_acyclic surjective_pairing] show ?thesis by simp
qed



definition demo_run :: db where
  "demo_run = (one_row [] [] 5)\<lparr>executions := demo_tree\<rparr>"

lemma demo_run_ok: "tables_ok demo_run" "peers_keep (idle d)" "plain_faults (idle d)"
  by (simp_all add: tables_ok_def demo_run_def demo_tree_def tree_exec_def peers_keep_def
      plain_faults_def terminal.refl store.refl)



text \<open>
  Cancelling a run nobody else touches: the reply is 200 with no errors, the cancelled count
  is the number of executions of the run that were not over; those rows become \<open>cancelled\<close>
  (with the reason of the request, when it has one) and no other execution row changes.
\<close>
theorem cancel_tree_outcome:
  assumes "quiet w" and "tables_ok (data w)" and "tree_run_id p q = k" and "k \<noteq> []"
    and "\<exists>e \<in> set (executions (data w)). ex_RunID e = k"
    and "run_state (CancelWorkflowTreeHandler p q (Bound text)) w = (rep, w')"
  shows "code rep = 200 \<and>
     (\<exists>resp. body rep = response_json resp \<and> tr_ErrorCount resp = 0 \<and>
        tr_CancelledCount resp = length (filter (\<lambda>e. ex_RunID e = k \<and>
          \<not> IsTerminalExecutionStatus (ex_Status e)) (executions (data w)))) \<and>
     (\<forall>j. find_execution (data w') j = map_option (\<lambda>e.
        if ex_RunID e = k \<and> \<not> IsTerminalExecutionStatus (ex_Status e)
        then cancelled_row (reason_ptr (TrimSpace text)) (clock (data w)) e else e)
        (find_execution (data w) j))"
proof -
  let ?run = "run_rows (data w) k" and ?r = "reason_ptr (TrimSpace text)"
  let ?active = "\<lambda>e. \<not> IsTerminalExecutionStatus (ex_Status e)"
  obtain es n where q: "run_state (QueryExecutionRecords (run_filter k)) w = (Inr es, on_data (data w) n w)"
    and es: "same_rows (sort_key ex_StartedAt ?run) es"
    using quiet_query_run [OF assms(1)] .
  note rows = run_rows_read [OF assms(2) es]
  let ?o = "fst (orderExecutionsLeafFirst es)"
  obtain resp w2 where l: "run_state (cancel_tree_loop (snd (orderExecutionsLeafFirst es))
       ?r (clock (data w)) (TrimSpace text) ?o
       (start_response k (length es) (clock (data w)))) (on_data (data w) n w) = (resp, w2)"
    by (metis surj_pair)
  have "?run \<noteq> []" using assms(5) by (auto simp: filter_empty_conv)
  then have ne: "es \<noteq> []" using rows(4) by auto
  have run: "run_state (CancelWorkflowTreeHandler p q (Bound text)) w = (JSONreply 200 (response_json resp), w2)"
    by (rule cancel_tree_run [OF assms(3,4) _ q ne]) (use l in \<open>simp_all add: request_reason_def\<close>)
  have "mset (map ex_ExecutionID ?o) = mset (map ex_ExecutionID es)" by simp
  then have "distinct (map ex_ExecutionID ?o)" using rows(1) mset_eq_imp_distinct_iff by blast
  moreover have "open_ids ?o = open_ids es" by (simp add: open_ids_def)
  ultimately have L: "(\<forall>j. find_execution (data w2) j = (if j \<in> open_ids es
        then map_option (cancelled_row ?r (clock (data w))) (find_execution (data w) j)
        else find_execution (data w) j)) \<and>
     tr_CancelledCount resp = length (filter ?active ?o) \<and> tr_ErrorCount resp = 0"
    using cancel_tree_loop_quiet [OF _ _ _ l] assms(1) rows(2) by simp
  have "mset (filter ?active ?o) = mset (filter ?active es)"
    by (simp add: mset_filter)
  then have "length (filter ?active ?o) = length (filter ?active es)"
    by (rule mset_eq_length)
  also have "\<dots> = length (filter ?active (sort_key ex_StartedAt ?run))"
    by (rule same_rows_filter [OF es, of "\<lambda>s. \<not> IsTerminalExecutionStatus s"])
  also have "\<dots> = length (filter ?active ?run)"
    by (metis mset_filter mset_sort size_mset)
  finally have count: "tr_CancelledCount resp = length (filter ?active ?run)" using L by simp
  have "find_execution (data w2) j = map_option (\<lambda>e. if ex_RunID e = k \<and> ?active e
      then cancelled_row ?r (clock (data w)) e else e) (find_execution (data w) j)" for j
    using L [THEN conjunct1, rule_format, of j] rows(3) [of j] by (cases "find_execution (data w) j") auto
  moreover have "w' = w2" "rep = JSONreply 200 (response_json resp)" using run assms(6) by simp_all
  ultimately show ?thesis
    using L count by (auto simp: conj_commute intro!: exI [of _ resp])
qed

theorem cancel_tree_outcome_witness:
  "code (fst (run_state (CancelWorkflowTreeHandler ''r'' [] (Bound [])) (idle demo_run))) = 200"
proof -
  have "TrimSpace ''r'' = ''r''" by code_simp
  then have "tree_run_id ''r'' [] = ''r''" by (simp add: tree_run_id_def)
  from cancel_tree_outcome [OF quiet_idle _ this _ _ surjective_pairing, of demo_run "[]"]
  show ?thesis using demo_run_ok(1) by (simp add: demo_run_def demo_tree_def tree_exec_def)
qed

end
