(* ===== verification/Reaper.thy ===== *)
theory Reaper
  imports Exec_Query
begin

text \<open>
  The maintenance sweeps over the two execution tables (\<open>internal/storage/execution_records.go\<close>):
  \<open>MarkStaleExecutions\<close>, \<open>MarkStaleWorkflowExecutions\<close>, \<open>RetryStaleWorkflowExecutions\<close> and the
  orphaning of an agent's executions. The \<open>WHERE\<close> clauses are predicates over the rows; a sweep selects its
  candidates in one read and re-evaluates the predicate for each of them in a later
  transaction. The time stamps of the rows are never NULL here, so
  \<open>COALESCE(updated_at, \<dots>)\<close> is \<open>updated_at\<close>, and instants compare as instants (\<open>julianday\<close>). A
  cancelled context is the parameter \<open>ctx\<close>.
\<close>

subsection \<open>Predicates\<close>

definition active3 :: "status list" where
  "active3 = [''running'', ''pending'', ''queued'']"

definition active4 :: "status list" where
  "active4 = active3 @ [''waiting'']"

text \<open>The later of the record time and the reported completion time.\<close>

definition child_recency :: "instant option \<Rightarrow> instant \<Rightarrow> instant" where
  "child_recency completed updated = max (case completed of None \<Rightarrow> updated | Some t \<Rightarrow> t) updated"

definition execution_shields :: "instant \<Rightarrow> Execution \<Rightarrow> bool" where
  "execution_shields cutoff c \<longleftrightarrow> ex_Status c \<in> set active3 \<or>
     (ex_Status c \<noteq> ''timeout'' \<and> cutoff < child_recency (ex_CompletedAt c) (ex_UpdatedAt c))"

definition execution_shielded :: "db \<Rightarrow> instant \<Rightarrow> string \<Rightarrow> bool" where
  "execution_shielded d cutoff k \<longleftrightarrow>
     list_ex (\<lambda>c. ex_ParentExecutionID c = Some k \<and> execution_shields cutoff c) (executions d)"

definition stale_execution :: "db \<Rightarrow> instant \<Rightarrow> Execution \<Rightarrow> bool" where
  "stale_execution d cutoff e \<longleftrightarrow> ex_Status e \<in> set active3 \<and> ex_UpdatedAt e \<le> cutoff \<and>
     \<not> execution_shielded d cutoff (ex_ExecutionID e)"

definition workflow_shields :: "instant \<Rightarrow> WorkflowExecution \<Rightarrow> bool" where
  "workflow_shields cutoff c \<longleftrightarrow> wf_Status c \<in> set active4 \<or>
     (wf_Status c \<noteq> ''timeout'' \<and> cutoff < child_recency (wf_CompletedAt c) (wf_UpdatedAt c))"

definition workflow_shielded :: "db \<Rightarrow> instant \<Rightarrow> string \<Rightarrow> bool" where
  "workflow_shielded d cutoff k \<longleftrightarrow>
     list_ex (\<lambda>c. wf_ParentExecutionID c = Some k \<and> workflow_shields cutoff c) (workflows d)"

text \<open>
  The paired execution row, when it is active, is idle as well. The primary key makes the \<open>LEFT JOIN\<close>
  of the query and the two \<open>EXISTS\<close> of the update the same condition.
\<close>

definition paired_idle :: "db \<Rightarrow> instant \<Rightarrow> string \<Rightarrow> bool" where
  "paired_idle d cutoff k \<longleftrightarrow>
     (case find_execution d k of
        None \<Rightarrow> True
      | Some e \<Rightarrow> ex_Status e \<in> set active4 \<longrightarrow> ex_UpdatedAt e \<le> cutoff)"

definition approval_open :: "WorkflowExecution \<Rightarrow> bool" where
  "approval_open f \<longleftrightarrow> (case wf_ApprovalStatus f of None \<Rightarrow> False | Some s \<Rightarrow> s = ''pending'')"

definition stale_workflow :: "db \<Rightarrow> instant \<Rightarrow> WorkflowExecution \<Rightarrow> bool" where
  "stale_workflow d cutoff f \<longleftrightarrow> wf_Status f \<in> set active4 \<and> wf_UpdatedAt f \<le> cutoff \<and>
     paired_idle d cutoff (wf_ExecutionID f) \<and> \<not> approval_open f \<and>
     \<not> workflow_shielded d cutoff (wf_ExecutionID f)"

definition retriable_workflow :: "db \<Rightarrow> instant \<Rightarrow> int \<Rightarrow> WorkflowExecution \<Rightarrow> bool" where
  "retriable_workflow d cutoff maxRetries f \<longleftrightarrow> wf_Status f \<in> set active3 \<and>
     wf_RetryCount f < maxRetries \<and> wf_UpdatedAt f \<le> cutoff \<and>
     paired_idle d cutoff (wf_ExecutionID f) \<and> \<not> approval_open f \<and>
     \<not> workflow_shielded d cutoff (wf_ExecutionID f)"

subsection \<open>Timing out executions\<close>

definition timeoutMessage :: string where
  "timeoutMessage = ''execution timed out (no activity)''"

definition sweep_duration :: "instant \<Rightarrow> instant \<Rightarrow> int" where
  "sweep_duration now startedAt = max 0 (milliseconds (max 0 (time_Sub now startedAt)))"

text \<open>A candidate is the id and the start time the query returned.\<close>

type_synonym candidate = "string \<times> instant"

definition timeout_execution :: "instant \<Rightarrow> candidate \<Rightarrow> db \<Rightarrow> db" where
  "timeout_execution now cand d = d\<lparr>executions := modify ex_ExecutionID (fst cand)
     (\<lambda>e. e\<lparr>ex_Status := stTimeout, ex_ErrorMessage := Some timeoutMessage, ex_CompletedAt := Some now,
            ex_DurationMS := Some (sweep_duration now (snd cand)), ex_UpdatedAt := now\<rparr>) (executions d)\<rparr>"

definition timeout_workflow :: "instant \<Rightarrow> candidate \<Rightarrow> db \<Rightarrow> db" where
  "timeout_workflow now cand d = d\<lparr>workflows := modify wf_ExecutionID (fst cand)
     (\<lambda>f. f\<lparr>wf_Status := stTimeout, wf_ErrorMessage := Some timeoutMessage, wf_CompletedAt := Some now,
            wf_DurationMS := Some (sweep_duration now (snd cand)), wf_UpdatedAt := now\<rparr>) (workflows d)\<rparr>"

text \<open>
  One conditional \<open>UPDATE\<close> per candidate, counting the rows it affects: the predicate is
  evaluated on the row the database holds at that moment.
\<close>

fun sweep_rows ::
    "(db \<Rightarrow> string \<Rightarrow> bool) \<Rightarrow> (candidate \<Rightarrow> db \<Rightarrow> db) \<Rightarrow> candidate list \<Rightarrow> db \<Rightarrow> int \<Rightarrow> int \<times> db" where
  "sweep_rows stale update [] d updated = (updated, d)"
| "sweep_rows stale update (cand # cands) d updated =
     (if stale d (fst cand) then sweep_rows stale update cands (update cand d) (updated + 1)
      else sweep_rows stale update cands d updated)"

definition row_stale_execution :: "instant \<Rightarrow> db \<Rightarrow> string \<Rightarrow> bool" where
  "row_stale_execution cutoff d k \<longleftrightarrow>
     (case find_execution d k of None \<Rightarrow> False | Some e \<Rightarrow> stale_execution d cutoff e)"

definition row_stale_workflow :: "instant \<Rightarrow> db \<Rightarrow> string \<Rightarrow> bool" where
  "row_stale_workflow cutoff d k \<longleftrightarrow>
     (case find_workflow d k of None \<Rightarrow> False | Some f \<Rightarrow> stale_workflow d cutoff f)"

definition stale_candidates :: "instant \<Rightarrow> int \<Rightarrow> db \<Rightarrow> candidate list" where
  "stale_candidates cutoff limit d = map (\<lambda>e. (ex_ExecutionID e, ex_StartedAt e))
     (take (nat limit) (sort_key ex_UpdatedAt (filter (stale_execution d cutoff) (executions d))))"

definition mark_stale_tx :: "instant \<Rightarrow> candidate list \<Rightarrow> db \<Rightarrow> (goerr + int) \<times> db" where
  "mark_stale_tx cutoff stale d =
     (case sweep_rows (row_stale_execution cutoff) (timeout_execution (clock d)) stale d 0 of
        (updated, d) \<Rightarrow> (Inr updated, d))"

definition context_error :: "string \<Rightarrow> string option \<Rightarrow> goerr option" where
  "context_error m ctx = map_option (\<lambda>e. Errorf (m @ e)) ctx"

definition MarkStaleExecutions :: "string option \<Rightarrow> duration \<Rightarrow> int \<Rightarrow> (goerr + int) proc" where
  "MarkStaleExecutions ctx staleAfter limit =
     (if limit \<le> 0 then State_Monad.return (Inr 0)
      else case context_error ''context cancelled before marking stale executions: '' ctx of
        Some e \<Rightarrow> State_Monad.return (Inl e)
      | None \<Rightarrow> do {
          now \<leftarrow> time_Now;
          let cutoff = now - staleAfter;
          r \<leftarrow> db_call (\<lambda>d. (Inr (stale_candidates cutoff limit d), d));
          case r of
            Inl e \<Rightarrow> State_Monad.return (Inl (wrapErr ''query stale executions: '' e))
          | Inr stale \<Rightarrow>
              if length stale = 0 then State_Monad.return (Inr 0)
              else db_call (mark_stale_tx cutoff stale)
        })"

subsection \<open>Timing out workflow executions\<close>

definition stale_workflow_candidates :: "instant \<Rightarrow> int \<Rightarrow> db \<Rightarrow> candidate list" where
  "stale_workflow_candidates cutoff limit d = map (\<lambda>f. (wf_ExecutionID f, wf_StartedAt f))
     (take (nat limit) (sort_key wf_UpdatedAt (filter (stale_workflow d cutoff) (workflows d))))"

text \<open>
  The update of the workflow row and, when it took effect, of its execution row. A failing
  synchronisation statement is ignored, and then only the workflow row moves: \<open>sync\<close> says
  for which candidates it runs.
\<close>

definition sync_timeout :: "instant \<Rightarrow> candidate \<Rightarrow> db \<Rightarrow> db" where
  "sync_timeout now cand d =
     (case find_execution d (fst cand) of
        None \<Rightarrow> d
      | Some e \<Rightarrow> if ex_Status e \<in> set active4 then timeout_execution now cand d else d)"

definition timeout_both :: "(string \<Rightarrow> bool) \<Rightarrow> instant \<Rightarrow> candidate \<Rightarrow> db \<Rightarrow> db" where
  "timeout_both sync now cand d =
     (let d = timeout_workflow now cand d
      in if sync (fst cand) then sync_timeout now cand d else d)"

definition mark_stale_workflow_tx ::
    "(string \<Rightarrow> bool) \<Rightarrow> instant \<Rightarrow> candidate list \<Rightarrow> db \<Rightarrow> (goerr + int) \<times> db" where
  "mark_stale_workflow_tx sync cutoff stale d =
     (case sweep_rows (row_stale_workflow cutoff) (timeout_both sync (clock d)) stale d 0 of
        (updated, d) \<Rightarrow> (Inr updated, d))"

definition MarkStaleWorkflowExecutions ::
    "(string \<Rightarrow> bool) \<Rightarrow> string option \<Rightarrow> duration \<Rightarrow> int \<Rightarrow> (goerr + int) proc" where
  "MarkStaleWorkflowExecutions sync ctx staleAfter limit =
     (if limit \<le> 0 then State_Monad.return (Inr 0)
      else case context_error ''context cancelled before marking stale workflow executions: '' ctx of
        Some e \<Rightarrow> State_Monad.return (Inl e)
      | None \<Rightarrow> do {
          now \<leftarrow> time_Now;
          let cutoff = now - staleAfter;
          r \<leftarrow> db_call (\<lambda>d. (Inr (stale_workflow_candidates cutoff limit d), d));
          case r of
            Inl e \<Rightarrow> State_Monad.return (Inl (wrapErr ''query stale workflow executions: '' e))
          | Inr stale \<Rightarrow>
              if length stale = 0 then State_Monad.return (Inr 0)
              else db_call (mark_stale_workflow_tx sync cutoff stale)
        })"

subsection \<open>Retrying\<close>

definition retryReason :: string where
  "retryReason = ''auto-retry after stale timeout''"

definition retriable_candidates :: "instant \<Rightarrow> int \<Rightarrow> int \<Rightarrow> db \<Rightarrow> string list" where
  "retriable_candidates cutoff maxRetries limit d = map wf_ExecutionID
     (take (nat limit) (sort_key wf_UpdatedAt (filter (retriable_workflow d cutoff maxRetries) (workflows d))))"

definition row_retriable :: "instant \<Rightarrow> int \<Rightarrow> db \<Rightarrow> string \<Rightarrow> bool" where
  "row_retriable cutoff maxRetries d k \<longleftrightarrow>
     (case find_workflow d k of None \<Rightarrow> False | Some f \<Rightarrow> retriable_workflow d cutoff maxRetries f)"

definition retry_workflow_row :: "instant \<Rightarrow> WorkflowExecution \<Rightarrow> WorkflowExecution" where
  "retry_workflow_row now f = f\<lparr>wf_Status := ''pending'', wf_RetryCount := wf_RetryCount f + 1,
     wf_ErrorMessage := Some retryReason, wf_CompletedAt := None, wf_UpdatedAt := now\<rparr>"

definition retry_execution_row :: "instant \<Rightarrow> Execution \<Rightarrow> Execution" where
  "retry_execution_row now e = e\<lparr>ex_Status := ''pending'', ex_ErrorMessage := Some retryReason,
     ex_CompletedAt := None, ex_DurationMS := None, ex_UpdatedAt := now\<rparr>"

text \<open>
  One candidate inside the transaction: the workflow statement, then the execution statement, and the
  roll-back to the savepoint when the execution woke up in between. \<open>mid\<close> is what other
  connections commit between the two statements; the workflow row stays locked by this transaction, so
  the roll-back restores exactly that row.
\<close>

definition retry_candidate ::
    "instant \<Rightarrow> int \<Rightarrow> (db \<Rightarrow> db) \<Rightarrow> instant \<Rightarrow> string \<Rightarrow> db \<Rightarrow> bool \<times> db" where
  "retry_candidate cutoff maxRetries mid now k d =
     (if \<not> row_retriable cutoff maxRetries d k then (False, d)
      else
        (let before = find_workflow d k;
             d = mid (d\<lparr>workflows := modify wf_ExecutionID k (retry_workflow_row now) (workflows d)\<rparr>)
         in case find_execution d k of
              Some e \<Rightarrow>
                if ex_Status e \<in> set active3 then
                  if ex_UpdatedAt e \<le> cutoff
                  then (True, d\<lparr>executions := modify ex_ExecutionID k (retry_execution_row now) (executions d)\<rparr>)
                  else (False, d\<lparr>workflows := modify wf_ExecutionID k (\<lambda>f. case before of None \<Rightarrow> f | Some b \<Rightarrow> b) (workflows d)\<rparr>)
                else (True, d)
            | None \<Rightarrow> (True, d)))"

fun retry_rows ::
    "instant \<Rightarrow> int \<Rightarrow> (string \<Rightarrow> db \<Rightarrow> db) \<Rightarrow> instant \<Rightarrow> string list \<Rightarrow> db \<Rightarrow> string list \<times> db" where
  "retry_rows cutoff maxRetries mid now [] d = ([], d)"
| "retry_rows cutoff maxRetries mid now (k # ks) d =
     (case retry_candidate cutoff maxRetries (mid k) now k d of
        (moved, d) \<Rightarrow>
          (case retry_rows cutoff maxRetries mid now ks d of
             (retried, d) \<Rightarrow> (if moved then k # retried else retried, d)))"

definition RetryStaleWorkflowExecutions ::
    "(string \<Rightarrow> db \<Rightarrow> db) \<Rightarrow> string option \<Rightarrow> duration \<Rightarrow> int \<Rightarrow> int \<Rightarrow> (goerr + string list) proc" where
  "RetryStaleWorkflowExecutions mid ctx staleAfter maxRetries limit =
     (if limit \<le> 0 \<or> maxRetries \<le> 0 then State_Monad.return (Inr [])
      else case context_error ''context cancelled: '' ctx of
        Some e \<Rightarrow> State_Monad.return (Inl e)
      | None \<Rightarrow> do {
          now \<leftarrow> time_Now;
          let cutoff = now - staleAfter;
          r \<leftarrow> db_call (\<lambda>d. (Inr (retriable_candidates cutoff maxRetries limit d), d));
          case r of
            Inl e \<Rightarrow> State_Monad.return (Inl (wrapErr ''query retriable workflow executions: '' e))
          | Inr ids \<Rightarrow>
              if length ids = 0 then State_Monad.return (Inr [])
              else db_call (\<lambda>d. case retry_rows cutoff maxRetries mid (clock d) ids d of
                     (retried, d') \<Rightarrow> (Inr retried, d'))
        })"

subsection \<open>Orphaned executions of an agent\<close>

text \<open>
  The \<open>WHERE\<close> clause, over the columns the two tables share. The instance \<open>*\<close> stands for all
  instances; a zero \<open>createdBefore\<close> is no bound.
\<close>

definition orphaned ::
    "string \<Rightarrow> string \<Rightarrow> instant \<Rightarrow> string \<Rightarrow> string \<Rightarrow> status \<Rightarrow> string option \<Rightarrow> instant \<Rightarrow> bool" where
  "orphaned agentNodeID departing createdBefore node inst st reason created \<longleftrightarrow>
     node = agentNodeID \<and> (departing = ''*'' \<or> inst = [] \<or> inst = departing) \<and> st \<in> set active4 \<and>
     reason \<noteq> Some ExecutionReasonAwaitingAgentRestart \<and> (createdBefore \<noteq> 0 \<longrightarrow> created < createdBefore)"

definition orphaned_workflow :: "string \<Rightarrow> string \<Rightarrow> instant \<Rightarrow> WorkflowExecution \<Rightarrow> bool" where
  "orphaned_workflow node inst createdBefore f =
     orphaned node inst createdBefore (wf_AgentNodeID f) (wf_InstanceID f) (wf_Status f) (wf_StatusReason f) (wf_CreatedAt f)"

definition orphaned_execution :: "string \<Rightarrow> string \<Rightarrow> instant \<Rightarrow> Execution \<Rightarrow> bool" where
  "orphaned_execution node inst createdBefore e =
     orphaned node inst createdBefore (ex_AgentNodeID e) (ex_InstanceID e) (ex_Status e) (ex_StatusReason e) (ex_CreatedAt e)"

definition fail_workflow_row :: "string \<Rightarrow> instant \<Rightarrow> WorkflowExecution \<Rightarrow> WorkflowExecution" where
  "fail_workflow_row reason now f = f\<lparr>wf_Status := stFailed, wf_StatusReason := Some reason,
     wf_ErrorMessage := Some reason, wf_CompletedAt := Some now, wf_UpdatedAt := now\<rparr>"

definition fail_execution_row :: "string \<Rightarrow> instant \<Rightarrow> Execution \<Rightarrow> Execution" where
  "fail_execution_row reason now e = e\<lparr>ex_Status := stFailed, ex_StatusReason := Some reason,
     ex_ErrorMessage := Some reason, ex_CompletedAt := Some now, ex_UpdatedAt := now\<rparr>"

definition markAgentExecutionsOrphaned ::
    "string \<Rightarrow> string \<Rightarrow> string \<Rightarrow> instant \<Rightarrow> (goerr + int) proc" where
  "markAgentExecutionsOrphaned agentNodeID departing reasonMessage createdBefore =
     (if TrimSpace agentNodeID = [] then State_Monad.return (Inl (Errorf ''agent_node_id is required''))
      else
        (let reason = (if TrimSpace reasonMessage = [] then ''agent_restart_orphaned'' else reasonMessage)
         in do {
           now \<leftarrow> time_Now;
           r \<leftarrow> db_call (\<lambda>d. (Inr (int (length (filter (orphaned_workflow agentNodeID departing createdBefore) (workflows d)))),
                   d\<lparr>workflows := map (\<lambda>f. if orphaned_workflow agentNodeID departing createdBefore f
                       then fail_workflow_row reason now f else f) (workflows d)\<rparr>));
           case r of
             Inl e \<Rightarrow> State_Monad.return (Inl (wrapErr ''update orphaned workflow executions: '' e))
           | Inr affected \<Rightarrow> do {
               _ \<leftarrow> db_call (\<lambda>d. (Inr (),
                   d\<lparr>executions := map (\<lambda>e. if orphaned_execution agentNodeID departing createdBefore e
                       then fail_execution_row reason now e else e) (executions d)\<rparr>));
               State_Monad.return (Inr affected)
             }
         }))"

definition MarkAgentExecutionsOrphaned :: "string \<Rightarrow> string \<Rightarrow> (goerr + int) proc" where
  "MarkAgentExecutionsOrphaned agentNodeID reasonMessage =
     markAgentExecutionsOrphaned agentNodeID ''*'' reasonMessage 0"

definition MarkAgentInstanceExecutionsOrphaned ::
    "string \<Rightarrow> string \<Rightarrow> string \<Rightarrow> instant \<Rightarrow> (goerr + int) proc" where
  "MarkAgentInstanceExecutionsOrphaned agentNodeID departing reasonMessage createdBefore =
     markAgentExecutionsOrphaned agentNodeID departing reasonMessage createdBefore"

subsection \<open>The maintenance pass\<close>

text \<open>The stale section of \<open>performCleanup\<close>; errors are logged and the next sweep runs all the same.\<close>

record cleanup_config =
  cc_StaleExecutionTimeout :: duration
  cc_MaxRetries :: int
  cc_BatchSize :: int

definition stale_sweeps ::
    "(string \<Rightarrow> db \<Rightarrow> db) \<Rightarrow> (string \<Rightarrow> bool) \<Rightarrow> string option \<Rightarrow> cleanup_config \<Rightarrow> unit proc" where
  "stale_sweeps mid sync ctx cfg =
     (if 0 < cc_StaleExecutionTimeout cfg then do {
        (if 0 < cc_MaxRetries cfg then do {
           _ \<leftarrow> RetryStaleWorkflowExecutions mid ctx (cc_StaleExecutionTimeout cfg) (cc_MaxRetries cfg) (cc_BatchSize cfg);
           State_Monad.return ()
         } else State_Monad.return ());
        _ \<leftarrow> MarkStaleExecutions ctx (cc_StaleExecutionTimeout cfg) (cc_BatchSize cfg);
        _ \<leftarrow> MarkStaleWorkflowExecutions sync ctx (cc_StaleExecutionTimeout cfg) (cc_BatchSize cfg);
        State_Monad.return ()
      } else State_Monad.return ())"

subsection \<open>What the sweeps keep\<close>

lemma active_statuses:
  "s \<in> set active4 \<Longrightarrow> \<not> IsTerminalExecutionStatus s"
  "s \<in> set active4 \<Longrightarrow> NormalizeExecutionStatus s \<notin> settled"
  "s \<in> set active3 \<Longrightarrow> s \<in> set active4"
proof -
  have "\<forall>s \<in> set active4. \<not> IsTerminalExecutionStatus s \<and> NormalizeExecutionStatus s \<notin> settled"
    unfolding active4_def active3_def settled_def by code_simp
  then show "s \<in> set active4 \<Longrightarrow> \<not> IsTerminalExecutionStatus s"
    "s \<in> set active4 \<Longrightarrow> NormalizeExecutionStatus s \<notin> settled" by auto
qed (simp add: active4_def)

lemma timeout_not_active [simp]: "''timeout'' \<notin> set active3" "''timeout'' \<notin> set active4" "stTimeout = ''timeout''"
  by (simp_all add: active3_def active4_def stTimeout_def)

definition swept :: "db \<Rightarrow> db \<Rightarrow> bool" where
  "swept d d' \<longleftrightarrow> terminal_kept d d' \<and> store_kept d d'"

lemma swept_refl [simp]: "swept d d"
  by (simp add: swept_def terminal.refl store.refl)

lemma swept_trans: "swept d d' \<Longrightarrow> swept d' d'' \<Longrightarrow> swept d d''"
  unfolding swept_def using terminal.trans store.trans by metis

lemma lookup_map:
  assumes "\<And>r. key (g r) = key r"
  shows "lookup key k (map g rows) = map_option g (lookup key k rows)"
  using assms by (induction rows) auto

lemma modify_map: "modify key k f rows = map (\<lambda>r. if key r = k then f r else r) rows"
  by (simp add: modify_def)

text \<open>An update of execution rows that touches no terminal one, and of workflow rows that touches no settled one.\<close>

lemma swept_executions:
  assumes g: "\<And>e. ex_ExecutionID (g e) = ex_ExecutionID e"
    and t: "\<And>k e. find_execution d k = Some e \<Longrightarrow> IsTerminalExecutionStatus (ex_Status e) \<Longrightarrow> ex_Status (g e) = ex_Status e"
  shows "swept d (d\<lparr>executions := map g (executions d)\<rparr>)"
proof -
  have ids: "map (ex_ExecutionID \<circ> g) (executions d) = map ex_ExecutionID (executions d)"
      "ex_ExecutionID ` g ` set (executions d) = ex_ExecutionID ` set (executions d)"
    using g by (simp_all add: image_image)
  have "terminal_kept d (d\<lparr>executions := map g (executions d)\<rparr>)"
    using t by (auto simp: terminal_kept_def lookup_map [of ex_ExecutionID, OF g])
  moreover have "store_kept d (d\<lparr>executions := map g (executions d)\<rparr>)"
    by (simp add: ids store_kept_def workflow_settled_def tables_kept_def tables_ok_def)
  ultimately show ?thesis by (simp add: swept_def)
qed

lemma swept_workflows:
  assumes g: "\<And>f. wf_ExecutionID (g f) = wf_ExecutionID f"
    and t: "\<And>k f. find_workflow d k = Some f \<Longrightarrow> NormalizeExecutionStatus (wf_Status f) \<in> settled \<Longrightarrow>
      NormalizeExecutionStatus (wf_Status (g f)) = NormalizeExecutionStatus (wf_Status f)"
  shows "swept d (d\<lparr>workflows := map g (workflows d)\<rparr>)"
proof -
  have ids: "map (wf_ExecutionID \<circ> g) (workflows d) = map wf_ExecutionID (workflows d)"
      "wf_ExecutionID ` g ` set (workflows d) = wf_ExecutionID ` set (workflows d)"
    using g by (simp_all add: image_image)
  have "workflow_settled d (d\<lparr>workflows := map g (workflows d)\<rparr>)"
    using t by (auto simp: workflow_settled_def lookup_map [of wf_ExecutionID, OF g])
  then show ?thesis
    by (simp add: ids swept_def terminal_kept_def store_kept_def tables_kept_def tables_ok_def)
qed

text \<open>
  The interface of a sweep: an update of a stale row keeps a transitive relation, and makes no
  other stale row fresh. Its clients are the two reapers.
\<close>

locale sweep =
  fixes stale :: "db \<Rightarrow> string \<Rightarrow> bool" and update :: "candidate \<Rightarrow> db \<Rightarrow> db"
  assumes update_keeps: "stale d (fst c) \<Longrightarrow> swept d (update c d)"
    and update_others: "stale d j \<Longrightarrow> stale d (fst c) \<Longrightarrow> j \<noteq> fst c \<Longrightarrow> stale (update c d) j"
begin

lemma sweep_keeps: "swept d (snd (sweep_rows stale update cs d n))"
proof (induction cs arbitrary: d n)
  case (Cons c cs)
  show ?case
  proof (cases "stale d (fst c)")
    case True
    then show ?thesis using swept_trans [OF update_keeps [OF True] Cons.IH] by simp
  qed (simp add: Cons.IH)
qed simp

lemma sweep_all:
  "distinct (map fst cs) \<Longrightarrow> \<forall>c \<in> set cs. stale d (fst c) \<Longrightarrow>
    sweep_rows stale update cs d n = (n + int (length cs), fold update cs d)"
proof (induction cs arbitrary: d n)
  case (Cons c cs)
  then have "\<forall>c' \<in> set cs. stale (update c d) (fst c')"
    using update_others by (metis distinct.simps(2) list.set_intros image_eqI list.set_map list.simps(9))
  with Cons show ?case by simp
qed simp

end

lemma find_timeout_execution:
  "find_execution (timeout_execution now c d) j = (if j = fst c
     then map_option (\<lambda>e. e\<lparr>ex_Status := stTimeout, ex_ErrorMessage := Some timeoutMessage, ex_CompletedAt := Some now,
            ex_DurationMS := Some (sweep_duration now (snd c)), ex_UpdatedAt := now\<rparr>) (find_execution d j)
     else find_execution d j)"
  by (simp add: timeout_execution_def lookup_modify)

lemma timeout_execution_frame [simp]:
  "workflows (timeout_execution now c d) = workflows d" "clock (timeout_execution now c d) = clock d"
  by (simp_all add: timeout_execution_def)

lemma swept_timeout_execution:
  assumes "find_execution d (fst c) = Some e" and "ex_Status e \<in> set active4"
  shows "swept d (timeout_execution now c d)"
  unfolding timeout_execution_def modify_map
proof (rule swept_executions)
  fix k e'
  assume e': "find_execution d k = Some e'" "IsTerminalExecutionStatus (ex_Status e')"
  then have "ex_ExecutionID e' \<noteq> fst c"
    using assms active_statuses(1) lookup_key [OF e'(1)] by auto
  then show "ex_Status (if ex_ExecutionID e' = fst c then e'\<lparr>ex_Status := stTimeout,
      ex_ErrorMessage := Some timeoutMessage, ex_CompletedAt := Some now,
      ex_DurationMS := Some (sweep_duration now (snd c)), ex_UpdatedAt := now\<rparr> else e') = ex_Status e'"
    by simp
qed simp

lemma timeout_shields:
  "execution_shielded (timeout_execution now c d) cutoff k \<Longrightarrow> execution_shielded d cutoff k"
  by (auto simp: execution_shielded_def timeout_execution_def modify_map list_ex_iff execution_shields_def
      split: if_splits)

interpretation executions_sweep: sweep "row_stale_execution cutoff" "timeout_execution now" for cutoff now
proof
  show "swept d (timeout_execution now c d)" if "row_stale_execution cutoff d (fst c)" for d c
    using that swept_timeout_execution active_statuses(3)
    by (auto simp: row_stale_execution_def stale_execution_def split: option.splits)
  show "row_stale_execution cutoff (timeout_execution now c d) j"
    if "row_stale_execution cutoff d j" "row_stale_execution cutoff d (fst c)" "j \<noteq> fst c" for d j c
    using that
    by (auto simp: row_stale_execution_def stale_execution_def find_timeout_execution
        split: option.splits dest: timeout_shields)
qed

lemma find_timeout_workflow:
  "find_workflow (timeout_workflow now c d) j = (if j = fst c
     then map_option (\<lambda>f. f\<lparr>wf_Status := stTimeout, wf_ErrorMessage := Some timeoutMessage, wf_CompletedAt := Some now,
            wf_DurationMS := Some (sweep_duration now (snd c)), wf_UpdatedAt := now\<rparr>) (find_workflow d j)
     else find_workflow d j)"
  by (simp add: timeout_workflow_def lookup_modify)

lemma timeout_workflow_frame [simp]:
  "executions (timeout_workflow now c d) = executions d" "clock (timeout_workflow now c d) = clock d"
  by (simp_all add: timeout_workflow_def)

lemma swept_timeout_workflow:
  assumes "find_workflow d (fst c) = Some f" and "wf_Status f \<in> set active4"
  shows "swept d (timeout_workflow now c d)"
  unfolding timeout_workflow_def modify_map
proof (rule swept_workflows)
  fix k f'
  assume f': "find_workflow d k = Some f'" "NormalizeExecutionStatus (wf_Status f') \<in> settled"
  then have "wf_ExecutionID f' \<noteq> fst c"
    using assms active_statuses(2) lookup_key [OF f'(1)] by auto
  then show "NormalizeExecutionStatus (wf_Status (if wf_ExecutionID f' = fst c then f'\<lparr>wf_Status := stTimeout,
      wf_ErrorMessage := Some timeoutMessage, wf_CompletedAt := Some now,
      wf_DurationMS := Some (sweep_duration now (snd c)), wf_UpdatedAt := now\<rparr> else f')) =
      NormalizeExecutionStatus (wf_Status f')"
    by simp
qed simp

lemma sync_timeout_frame [simp]: "workflows (sync_timeout now c d) = workflows d"
  by (simp add: sync_timeout_def split: option.splits)

lemma swept_sync: "swept d (sync_timeout now c d)"
  using swept_timeout_execution by (auto simp: sync_timeout_def split: option.splits)

lemma timeout_both_frame [simp]: "workflows (timeout_both sync now c d) = workflows (timeout_workflow now c d)"
  by (simp add: timeout_both_def Let_def)

lemma find_timeout_both:
  "find_workflow (timeout_both sync now c d) j = find_workflow (timeout_workflow now c d) j"
  "j \<noteq> fst c \<Longrightarrow> find_execution (timeout_both sync now c d) j = find_execution d j"
  by (simp_all add: timeout_both_def sync_timeout_def Let_def find_timeout_execution split: option.splits)

lemma timeout_workflow_shields:
  "workflow_shielded (timeout_both sync now c d) cutoff k \<Longrightarrow> workflow_shielded d cutoff k"
  by (auto simp: workflow_shielded_def timeout_workflow_def modify_map list_ex_iff workflow_shields_def
      split: if_splits)

lemma paired_idle_both: "j \<noteq> fst c \<Longrightarrow> paired_idle (timeout_both sync now c d) cutoff j = paired_idle d cutoff j"
  by (simp add: paired_idle_def find_timeout_both)

interpretation workflows_sweep: sweep "row_stale_workflow cutoff" "timeout_both sync now" for cutoff sync now
proof
  show "swept d (timeout_both sync now c d)" if st: "row_stale_workflow cutoff d (fst c)" for d c
  proof -
    obtain f where "find_workflow d (fst c) = Some f" "wf_Status f \<in> set active4"
      using st by (auto simp: row_stale_workflow_def stale_workflow_def split: option.splits)
    then have 1: "swept d (timeout_workflow now c d)" by (rule swept_timeout_workflow)
    then show ?thesis
      using swept_trans [OF 1 swept_sync] by (simp add: timeout_both_def Let_def)
  qed
  show "row_stale_workflow cutoff (timeout_both sync now c d) j"
    if st: "row_stale_workflow cutoff d j" "row_stale_workflow cutoff d (fst c)" "j \<noteq> fst c" for d j c
  proof -
    obtain f where f: "find_workflow d j = Some f" "stale_workflow d cutoff f"
      using st(1) by (auto simp: row_stale_workflow_def split: option.splits)
    moreover have "wf_ExecutionID f = j" by (rule lookup_key [OF f(1)])
    ultimately show ?thesis
      using st(3) timeout_workflow_shields [of sync now c d cutoff j] paired_idle_both [OF st(3)]
      by (auto simp: row_stale_workflow_def stale_workflow_def find_timeout_both find_timeout_workflow)
  qed
qed

text \<open>Retrying and orphaning.\<close>

text \<open>
  \<open>mid\<close> respects the lock on the candidate's workflow row, and is otherwise like any other
  interference.
\<close>

definition mid_ok :: "(string \<Rightarrow> db \<Rightarrow> db) \<Rightarrow> bool" where
  "mid_ok mid \<longleftrightarrow> (\<forall>k d. swept d (mid k d) \<and> find_workflow (mid k d) k = find_workflow d k)"

lemma swept_retry_candidate:
  assumes m: "\<And>d. swept d (mid d)" "\<And>d. find_workflow (mid d) k = find_workflow d k"
  shows "swept d (snd (retry_candidate cutoff maxRetries mid now k d))"
proof (cases "row_retriable cutoff maxRetries d k")
  case False
  then show ?thesis by (simp add: retry_candidate_def)
next
  case True
  then obtain f where f: "find_workflow d k = Some f" "wf_Status f \<in> set active4"
    using active_statuses(3) by (auto simp: row_retriable_def retriable_workflow_def split: option.splits)
  let ?d1 = "d\<lparr>workflows := modify wf_ExecutionID k (retry_workflow_row now) (workflows d)\<rparr>"
  obtain d2 where d2: "d2 = mid ?d1" by simp
  have "swept d ?d1"
    unfolding modify_map
  proof (rule swept_workflows)
    fix j g
    assume g: "find_workflow d j = Some g" "NormalizeExecutionStatus (wf_Status g) \<in> settled"
    then have "wf_ExecutionID g \<noteq> k" using f active_statuses(2) lookup_key [OF g(1)] by auto
    then show "NormalizeExecutionStatus (wf_Status (if wf_ExecutionID g = k then retry_workflow_row now g else g)) =
        NormalizeExecutionStatus (wf_Status g)" by simp
  qed (simp add: retry_workflow_row_def)
  with m(1) have 2: "swept d d2" unfolding d2 using swept_trans by blast
  have row: "find_workflow d2 k = Some (retry_workflow_row now f)"
    using m(2) f(1) unfolding d2 by (simp add: lookup_modify retry_workflow_row_def lookup_key [of wf_ExecutionID])
  have undo: "swept d2 (d2\<lparr>workflows := modify wf_ExecutionID k (\<lambda>_. f) (workflows d2)\<rparr>)"
    unfolding modify_map
  proof (rule swept_workflows)
    show "wf_ExecutionID (if wf_ExecutionID g = k then f else g) = wf_ExecutionID g" for g
      using lookup_key [OF f(1)] by simp
    fix j g
    assume g: "find_workflow d2 j = Some g" "NormalizeExecutionStatus (wf_Status g) \<in> settled"
    have "NormalizeExecutionStatus ''pending'' \<notin> settled"
      by (rule active_statuses(2)) (simp add: active4_def active3_def)
    with g have "wf_ExecutionID g \<noteq> k"
      using row lookup_key [OF g(1)] by (auto simp: retry_workflow_row_def)
    then show "NormalizeExecutionStatus (wf_Status (if wf_ExecutionID g = k then f else g)) =
        NormalizeExecutionStatus (wf_Status g)" by simp
  qed
  have fwd: "swept d2 (d2\<lparr>executions := modify ex_ExecutionID k (retry_execution_row now) (executions d2)\<rparr>)"
    if e: "find_execution d2 k = Some e" "ex_Status e \<in> set active3" for e
    unfolding modify_map
  proof (rule swept_executions)
    fix j e'
    assume e': "find_execution d2 j = Some e'" "IsTerminalExecutionStatus (ex_Status e')"
    then have "ex_ExecutionID e' \<noteq> k"
      using e active_statuses(1,3) lookup_key [OF e'(1)] by auto
    then show "ex_Status (if ex_ExecutionID e' = k then retry_execution_row now e' else e') = ex_Status e'" by simp
  qed (simp add: retry_execution_row_def)
  show ?thesis
    using True 2 swept_trans [OF 2 undo] swept_trans [OF 2 fwd] f(1)
    by (auto simp: retry_candidate_def Let_def d2 [symmetric] split: option.splits)
qed

lemma swept_retry_rows:
  "mid_ok mid \<Longrightarrow> swept d (snd (retry_rows cutoff maxRetries mid now ks d))"
proof (induction ks arbitrary: d)
  case (Cons k ks)
  obtain moved d1 where 1: "retry_candidate cutoff maxRetries (mid k) now k d = (moved, d1)" by fastforce
  obtain retried d2 where 2: "retry_rows cutoff maxRetries mid now ks d1 = (retried, d2)" by fastforce
  have "swept d d1"
    using swept_retry_candidate [of "mid k" k d cutoff maxRetries now] Cons.prems 1 by (simp add: mid_ok_def)
  moreover have "swept d1 d2" using Cons.IH [OF Cons.prems, of d1] 2 by simp
  ultimately have "swept d d2" by (rule swept_trans)
  with 1 2 show ?case by simp
qed simp

lemma swept_orphaned_workflows:
  "swept d (d\<lparr>workflows := map (\<lambda>f. if orphaned_workflow a i t f then fail_workflow_row r now f else f) (workflows d)\<rparr>)"
proof (rule swept_workflows)
  fix k and f :: WorkflowExecution
  assume "NormalizeExecutionStatus (wf_Status f) \<in> settled"
  then show "NormalizeExecutionStatus (wf_Status (if orphaned_workflow a i t f then fail_workflow_row r now f else f)) =
      NormalizeExecutionStatus (wf_Status f)"
    using active_statuses(2) by (auto simp: orphaned_workflow_def orphaned_def)
qed (simp add: fail_workflow_row_def)

lemma swept_orphaned_executions:
  "swept d (d\<lparr>executions := map (\<lambda>e. if orphaned_execution a i t e then fail_execution_row r now e else e) (executions d)\<rparr>)"
proof (rule swept_executions)
  fix k and e :: Execution
  assume "IsTerminalExecutionStatus (ex_Status e)"
  then show "ex_Status (if orphaned_execution a i t e then fail_execution_row r now e else e) = ex_Status e"
    using active_statuses(1) by (auto simp: orphaned_execution_def orphaned_def)
qed (simp add: fail_execution_row_def)

lemma keeps_swept:
  "keeps terminal_kept (db_call tx)" "keeps store_kept (db_call tx)" if "\<And>d. swept d (snd (tx d))"
  using that by (auto simp: swept_def intro!: terminal.keeps_db_call store.keeps_db_call)

lemma swept_marks:
  "swept d (snd (mark_stale_tx cutoff cs d))" "swept d (snd (mark_stale_workflow_tx sync cutoff cs d))"
  using executions_sweep.sweep_keeps [of d cutoff "clock d" cs 0]
    workflows_sweep.sweep_keeps [of d cutoff sync "clock d" cs 0]
  by (auto simp: mark_stale_tx_def mark_stale_workflow_tx_def split: prod.splits)

lemma swept_retry_tx:
  "mid_ok mid \<Longrightarrow> swept d (snd (case retry_rows cutoff m mid (clock d) ids d of (retried, d') \<Rightarrow> (Inr retried, d')))"
  using swept_retry_rows [of mid d cutoff m "clock d" ids]
  by (cases "retry_rows cutoff m mid (clock d) ids d") simp

lemma mark_stale_keeps:
  "keeps terminal_kept (MarkStaleExecutions ctx a l)" "keeps store_kept (MarkStaleExecutions ctx a l)"
  unfolding MarkStaleExecutions_def
  by (intro handler_cases terminal_keeps keeps_swept; simp add: swept_marks)
    (intro handler_cases store_keeps keeps_swept; simp add: swept_marks)

lemma mark_stale_workflow_keeps:
  "keeps terminal_kept (MarkStaleWorkflowExecutions sync ctx a l)"
  "keeps store_kept (MarkStaleWorkflowExecutions sync ctx a l)"
  unfolding MarkStaleWorkflowExecutions_def
  by (intro handler_cases terminal_keeps keeps_swept; simp add: swept_marks)
    (intro handler_cases store_keeps keeps_swept; simp add: swept_marks)

lemma retry_stale_keeps:
  assumes "mid_ok mid"
  shows "keeps terminal_kept (RetryStaleWorkflowExecutions mid ctx a m l)"
    and "keeps store_kept (RetryStaleWorkflowExecutions mid ctx a m l)"
  unfolding RetryStaleWorkflowExecutions_def
  by (intro handler_cases terminal_keeps keeps_swept; simp add: swept_retry_tx [OF assms])
    (intro handler_cases store_keeps keeps_swept; simp add: swept_retry_tx [OF assms])

lemma orphaned_keeps:
  "keeps terminal_kept (markAgentExecutionsOrphaned a i r t)"
  "keeps store_kept (markAgentExecutionsOrphaned a i r t)"
  unfolding markAgentExecutionsOrphaned_def
  by (intro handler_cases terminal_keeps keeps_swept; simp add: swept_orphaned_workflows swept_orphaned_executions)
    (intro handler_cases store_keeps keeps_swept; simp add: swept_orphaned_workflows swept_orphaned_executions)

lemma stale_sweeps_keeps:
  assumes "mid_ok mid"
  shows "keeps terminal_kept (stale_sweeps mid sync ctx cfg)" and "keeps store_kept (stale_sweeps mid sync ctx cfg)"
  unfolding stale_sweeps_def
  by (intro handler_cases terminal_keeps mark_stale_keeps mark_stale_workflow_keeps retry_stale_keeps assms)
    (intro handler_cases store_keeps mark_stale_keeps mark_stale_workflow_keeps retry_stale_keeps assms)

subsection \<open>The rows a sweep changes\<close>

lemma sweep_shields:
  "execution_shielded (snd (sweep_rows (row_stale_execution cutoff) (timeout_execution now) cs d n)) cutoff k \<Longrightarrow>
    execution_shielded d cutoff k"
  by (induction cs arbitrary: d n) (auto dest: timeout_shields split: if_splits)

lemma sweep_changes:
  "sweep_rows (row_stale_execution cutoff) (timeout_execution now) cs d n = (m, d') \<Longrightarrow>
   find_execution d k = Some e \<Longrightarrow> find_execution d' k = Some e' \<Longrightarrow>
   e' = e \<or> (k \<in> fst ` set cs \<and> ex_Status e \<in> set active3 \<and> ex_UpdatedAt e \<le> cutoff \<and>
     ex_Status e' = stTimeout \<and> \<not> execution_shielded d' cutoff k)"
proof (induction cs arbitrary: d n e)
  case (Cons c cs)
  show ?case
  proof (cases "row_stale_execution cutoff d (fst c)")
    case False
    with Cons.prems show ?thesis using Cons.IH [of d n e] by auto
  next
    case True
    let ?d1 = "timeout_execution now c d"
    have run: "sweep_rows (row_stale_execution cutoff) (timeout_execution now) cs ?d1 (n + 1) = (m, d')"
      using Cons.prems(1) True by simp
    show ?thesis
    proof (cases "k = fst c")
      case no: False
      with Cons.IH [OF run _ Cons.prems(3), of e] Cons.prems(2) show ?thesis
        by (auto simp: find_timeout_execution)
    next
      case yes: True
      with True Cons.prems(2) have e: "ex_Status e \<in> set active3" "ex_UpdatedAt e \<le> cutoff"
        "\<not> execution_shielded d cutoff k"
        using lookup_key [OF Cons.prems(2)] by (auto simp: row_stale_execution_def stale_execution_def)
      obtain e1 where e1: "find_execution ?d1 k = Some e1" "ex_Status e1 = stTimeout"
        using Cons.prems(2) yes by (simp add: find_timeout_execution)
      have "ex_Status e' = stTimeout"
        using Cons.IH [OF run e1(1) Cons.prems(3)] e1(2) by auto
      moreover have "\<not> execution_shielded d' cutoff k"
        using sweep_shields [of cutoff now cs ?d1 "n + 1" k] run timeout_shields [of now c d cutoff k] e(3) by auto
      ultimately show ?thesis using e yes by simp
    qed
  qed
qed simp

text \<open>The candidates of an undisturbed sweep are all taken.\<close>

lemma stale_candidates_props:
  assumes "tables_ok d"
  shows "distinct (map fst (stale_candidates cutoff limit d))"
    and "c \<in> set (stale_candidates cutoff limit d) \<Longrightarrow> row_stale_execution cutoff d (fst c)"
    and "length (stale_candidates cutoff limit d) =
      min (length (filter (stale_execution d cutoff) (executions d))) (nat limit)"
proof -
  let ?sel = "sort_key ex_UpdatedAt (filter (stale_execution d cutoff) (executions d))"
  have d: "distinct (map ex_ExecutionID (executions d))" using assms by (simp add: tables_ok_def)
  have "mset (map ex_ExecutionID ?sel) = mset (map ex_ExecutionID (filter (stale_execution d cutoff) (executions d)))"
    by simp
  then have "distinct (map ex_ExecutionID ?sel)"
    using distinct_map_filter [OF d] mset_eq_imp_distinct_iff by blast
  then show "distinct (map fst (stale_candidates cutoff limit d))"
    by (simp add: stale_candidates_def o_def take_map [symmetric])
  show "row_stale_execution cutoff d (fst c)" if c: "c \<in> set (stale_candidates cutoff limit d)"
  proof -
    obtain e where "e \<in> set (executions d)" "stale_execution d cutoff e" "fst c = ex_ExecutionID e"
      using c by (auto simp: stale_candidates_def dest!: in_set_takeD)
    with lookup_distinct [OF d, of e] show ?thesis by (simp add: row_stale_execution_def)
  qed
  show "length (stale_candidates cutoff limit d) =
      min (length (filter (stale_execution d cutoff) (executions d))) (nat limit)"
    by (simp add: stale_candidates_def)
qed

lemma find_timeout_fold:
  "distinct (map fst cs) \<Longrightarrow> find_execution (fold (timeout_execution now) cs d) j =
     (case map_of cs j of
        None \<Rightarrow> find_execution d j
      | Some start \<Rightarrow> map_option (\<lambda>e. e\<lparr>ex_Status := stTimeout, ex_ErrorMessage := Some timeoutMessage,
            ex_CompletedAt := Some now, ex_DurationMS := Some (sweep_duration now start), ex_UpdatedAt := now\<rparr>)
          (find_execution d j))"
proof (induction cs arbitrary: d)
  case (Cons c cs)
  obtain k t where c: "c = (k, t)" by fastforce
  with Cons.prems have "map_of cs k = None" by (auto simp: map_of_eq_None_iff)
  with Cons c show ?case by (auto simp: find_timeout_execution split: option.splits)
qed simp

lemma quiet_mark_stale:
  assumes w: "quiet w" and ok: "tables_ok (data w)" and l: "0 < limit"
    and run: "run_state (MarkStaleExecutions None staleAfter limit) w = (r, w')"
  shows "r = Inr (int (length (stale_candidates (clock (data w) - staleAfter) limit (data w))))"
    and "data w' = fold (timeout_execution (clock (data w)))
        (stale_candidates (clock (data w) - staleAfter) limit (data w)) (data w)"
proof -
  let ?cut = "clock (data w) - staleAfter"
  let ?cs = "stale_candidates ?cut limit (data w)"
  have tx: "mark_stale_tx ?cut ?cs (data w) =
      (Inr (int (length ?cs)), fold (timeout_execution (clock (data w))) ?cs (data w))"
    using executions_sweep.sweep_all [of ?cs ?cut "data w" "clock (data w)" 0] stale_candidates_props [OF ok]
    by (simp add: mark_stale_tx_def)
  show "r = Inr (int (length ?cs))"
    "data w' = fold (timeout_execution (clock (data w))) ?cs (data w)"
    using run w l tx
    by (auto simp: MarkStaleExecutions_def context_error_def Let_def quiet_db_call split: if_splits)
qed

subsection \<open>Repeated sweeps drain a chain\<close>

definition child_edges :: "db \<Rightarrow> (string \<times> string) set" where
  "child_edges d = set (concat (map (\<lambda>e. case ex_ParentExecutionID e of
     None \<Rightarrow> [] | Some p \<Rightarrow> [(ex_ExecutionID e, p)]) (executions d)))"

definition idle_since :: "instant \<Rightarrow> Execution \<Rightarrow> bool" where
  "idle_since cutoff e \<longleftrightarrow> (ex_Status e \<in> set active3 \<longrightarrow> ex_UpdatedAt e \<le> cutoff) \<and>
     (ex_Status e \<notin> set active3 \<and> ex_Status e \<noteq> ''timeout'' \<longrightarrow>
        child_recency (ex_CompletedAt e) (ex_UpdatedAt e) \<le> cutoff)"

definition active_count :: "db \<Rightarrow> nat" where
  "active_count d = length (filter (\<lambda>e. ex_Status e \<in> set active3) (executions d))"

text \<open>
  Some active row has no active child: the parent relation is well-founded, so among
  the active rows there is one below which nothing is active.
\<close>

lemma some_stale:
  assumes "acyclic (child_edges d)" and idle: "\<forall>e \<in> set (executions d). idle_since cutoff e"
    and "0 < active_count d"
  shows "filter (stale_execution d cutoff) (executions d) \<noteq> []"
proof -
  let ?act = "{e \<in> set (executions d). ex_Status e \<in> set active3}"
  have wf: "wf (child_edges d)"
    by (rule finite_acyclic_wf [OF _ assms(1)]) (unfold child_edges_def, rule finite_set)
  obtain e0 where "e0 \<in> ?act"
    using assms(3) by (force simp: active_count_def filter_empty_conv)
  then have mem: "ex_ExecutionID e0 \<in> ex_ExecutionID ` ?act" by (rule imageI)
  obtain k where k: "k \<in> ex_ExecutionID ` ?act"
    and least: "\<And>j. (j, k) \<in> child_edges d \<Longrightarrow> j \<notin> ex_ExecutionID ` ?act"
    using wfE_min [OF wf mem] by blast
  then obtain e where e: "e \<in> set (executions d)" "ex_Status e \<in> set active3" "ex_ExecutionID e = k"
    by auto
  have "\<not> execution_shields cutoff c" if c: "c \<in> set (executions d)" "ex_ParentExecutionID c = Some k" for c
  proof -
    have "(ex_ExecutionID c, k) \<in> child_edges d"
      using c by (force simp: child_edges_def)
    then have "ex_Status c \<notin> set active3" using least c(1) by blast
    with idle c(1) show ?thesis by (fastforce simp: execution_shields_def idle_since_def)
  qed
  then have "\<not> execution_shielded d cutoff k" by (auto simp: execution_shielded_def list_ex_iff)
  with e idle have "stale_execution d cutoff e" by (auto simp: stale_execution_def idle_since_def)
  with e(1) show ?thesis by (auto simp: filter_empty_conv)
qed

lemma timeout_fold_rows:
  "\<exists>g. executions (fold (timeout_execution now) cs d) = map g (executions d) \<and>
     (\<forall>e. ex_ExecutionID (g e) = ex_ExecutionID e \<and> ex_ParentExecutionID (g e) = ex_ParentExecutionID e \<and>
        (ex_ExecutionID e \<in> fst ` set cs \<longrightarrow> ex_Status (g e) = stTimeout) \<and>
        (ex_ExecutionID e \<notin> fst ` set cs \<longrightarrow> g e = e))"
proof (induction cs arbitrary: d)
  case Nil
  show ?case by (rule exI [of _ id]) simp
next
  case (Cons c cs)
  let ?t = "\<lambda>e. if ex_ExecutionID e = fst c then e\<lparr>ex_Status := stTimeout, ex_ErrorMessage := Some timeoutMessage,
      ex_CompletedAt := Some now, ex_DurationMS := Some (sweep_duration now (snd c)), ex_UpdatedAt := now\<rparr> else e"
  obtain g where g: "executions (fold (timeout_execution now) cs (timeout_execution now c d)) =
      map g (executions (timeout_execution now c d))"
    "\<And>e. ex_ExecutionID (g e) = ex_ExecutionID e" "\<And>e. ex_ParentExecutionID (g e) = ex_ParentExecutionID e"
    "\<And>e. ex_ExecutionID e \<in> fst ` set cs \<Longrightarrow> ex_Status (g e) = stTimeout"
    "\<And>e. ex_ExecutionID e \<notin> fst ` set cs \<Longrightarrow> g e = e"
    using Cons.IH [of "timeout_execution now c d"] by blast
  have id: "ex_ExecutionID (?t e) = ex_ExecutionID e" for e by simp
  have st: "ex_Status (g (?t e)) = stTimeout" if "ex_ExecutionID e \<in> fst ` set (c # cs)" for e
  proof (cases "ex_ExecutionID e \<in> fst ` set cs")
    case True
    then have "ex_ExecutionID (?t e) \<in> fst ` set cs" by (simp only: id)
    then show ?thesis by (rule g(4))
  next
    case False
    then have "ex_ExecutionID (?t e) \<notin> fst ` set cs" by (simp only: id not_False_eq_True)
    then have "g (?t e) = ?t e" by (rule g(5))
    with False that show ?thesis by simp
  qed
  have "executions (timeout_execution now c d) = map ?t (executions d)"
    by (simp add: timeout_execution_def modify_map)
  with g(1) have rows: "executions (fold (timeout_execution now) (c # cs) d) = map (g \<circ> ?t) (executions d)"
    by simp
  have "g (?t e) = e" if "ex_ExecutionID e \<notin> fst ` set (c # cs)" for e
    using that g(5) [of e] by simp
  with rows g(2,3) st show ?case by (intro exI [of _ "g \<circ> ?t"]) simp
qed

lemma sweep_progress:
  assumes "tables_ok d" and "acyclic (child_edges d)" and "\<forall>e \<in> set (executions d). idle_since cutoff e"
    and "0 < limit" and "d' = fold (timeout_execution now) (stale_candidates cutoff limit d) d"
  shows "active_count d' \<le> active_count d - 1 \<and> tables_ok d' \<and> child_edges d' = child_edges d \<and>
     (\<forall>e \<in> set (executions d'). idle_since cutoff e)"
proof -
  let ?cs = "stale_candidates cutoff limit d"
  obtain g where g: "executions d' = map g (executions d)"
    "\<And>e. ex_ExecutionID (g e) = ex_ExecutionID e" "\<And>e. ex_ParentExecutionID (g e) = ex_ParentExecutionID e"
    "\<And>e. ex_ExecutionID e \<in> fst ` set ?cs \<Longrightarrow> ex_Status (g e) = stTimeout"
    "\<And>e. ex_ExecutionID e \<notin> fst ` set ?cs \<Longrightarrow> g e = e"
    using timeout_fold_rows [of now ?cs d] assms(5) by blast
  have wf: "workflows d' = workflows d"
    unfolding assms(5) by (rule fold_invariant [where Q = "\<lambda>_. True"]) simp_all
  have keep: "ex_Status (g e) \<in> set active3 \<Longrightarrow> ex_Status e \<in> set active3 \<and> g e = e" for e
    using g(4,5) [of e] by (cases "ex_ExecutionID e \<in> fst ` set ?cs") auto
  have le: "length (filter (\<lambda>e. ex_Status (g e) \<in> set active3) xs) \<le>
      length (filter (\<lambda>e. ex_Status e \<in> set active3) xs)" for xs
    using keep by (induction xs) auto
  have lt: "length (filter (\<lambda>e. ex_Status (g e) \<in> set active3) xs) <
      length (filter (\<lambda>e. ex_Status e \<in> set active3) xs)"
    if "x \<in> set xs" "ex_Status x \<in> set active3" "ex_Status (g x) = stTimeout" for x xs
    using that
  proof (induction xs)
    case (Cons y ys)
    then show ?case using le [of ys] keep [of y] by (cases "x = y") auto
  qed simp
  have "active_count d' \<le> active_count d - 1"
  proof (cases "active_count d = 0")
    case True
    then show ?thesis using le [of "executions d"] by (simp add: active_count_def g(1) filter_map o_def)
  next
    case False
    then have "filter (stale_execution d cutoff) (executions d) \<noteq> []"
      using some_stale [OF assms(2,3)] by simp
    then have "?cs \<noteq> []"
      using stale_candidates_props(3) [OF assms(1), of cutoff limit] assms(4) by (auto simp: min_def split: if_splits)
    then obtain c where c: "c \<in> set ?cs" by (meson list.set_sel(1))
    then obtain e where e: "find_execution d (fst c) = Some e" "ex_Status e \<in> set active3"
      using stale_candidates_props(2) [OF assms(1) c]
      by (auto simp: row_stale_execution_def stale_execution_def split: option.splits)
    have "ex_Status (g e) = stTimeout"
      using g(4) c lookup_key [OF e(1)] by (metis image_eqI)
    from lt [OF lookup_mem [OF e(1)] e(2) this] show ?thesis
      by (simp add: active_count_def g(1) filter_map o_def)
  qed
  moreover have "tables_ok d'"
    using assms(1) g(2) wf by (simp add: tables_ok_def g(1) o_def)
  moreover have "child_edges d' = child_edges d"
    by (simp add: child_edges_def g(1,2,3) o_def)
  moreover have "\<forall>e \<in> set (executions d'). idle_since cutoff e"
  proof -
    have "idle_since cutoff (g e)" if "e \<in> set (executions d)" for e
      using that assms(3) g(4,5) [of e]
      by (cases "ex_ExecutionID e \<in> fst ` set ?cs") (auto simp: idle_since_def)
    then show ?thesis by (simp add: g(1))
  qed
  ultimately show ?thesis by simp
qed

lemma quiet_mark_quiet: "quiet w \<Longrightarrow> quiet (snd (run_state (MarkStaleExecutions None a l) w))"
  using keeps_quiet [OF mark_stale_keeps(1)] terminal.refl by blast

lemma fold_timeout_clock: "clock (fold (timeout_execution now) cs d) = clock d"
  by (induction cs arbitrary: d) simp_all

definition mark_stale_pass :: "duration \<Rightarrow> int \<Rightarrow> world \<Rightarrow> world" where
  "mark_stale_pass staleAfter limit w = snd (run_state (MarkStaleExecutions None staleAfter limit) w)"

subsection \<open>Properties\<close>

text \<open>
  C24. The conditional update of a sweep re-evaluates staleness: whatever the other requests did since the
  candidates were selected, an execution changes only if it is a candidate that is still active and still has no
  activity since the cutoff; it is then timed out, and when the transaction ends no child
  shields it: none is active, and none but timed-out ones has finished after the cutoff.
\<close>
theorem reaper_only_stale:
  assumes "mark_stale_tx cutoff cands d = (Inr n, d')"
    and "find_execution d k = Some e" and "find_execution d' k = Some e'" and "e' \<noteq> e"
  shows "k \<in> fst ` set cands \<and> ex_Status e \<in> set active3 \<and> ex_UpdatedAt e \<le> cutoff \<and>
     ex_Status e' = stTimeout \<and>
     (\<forall>c \<in> set (executions d'). ex_ParentExecutionID c = Some k \<longrightarrow> ex_Status c \<notin> set active3 \<and>
        (ex_Status c = stTimeout \<or> child_recency (ex_CompletedAt c) (ex_UpdatedAt c) \<le> cutoff))"
proof -
  obtain m where "sweep_rows (row_stale_execution cutoff) (timeout_execution (clock d)) cands d 0 = (m, d')"
    using assms(1) by (auto simp: mark_stale_tx_def split: prod.splits)
  from sweep_changes [OF this assms(2,3)] assms(4) show ?thesis
    by (auto simp: execution_shielded_def list_ex_iff execution_shields_def)
qed

text \<open>A run whose root waits for a child that has been idle as well.\<close>

definition idle_exec :: "string \<Rightarrow> string option \<Rightarrow> status \<Rightarrow> Execution" where
  "idle_exec k p st = zero_execution\<lparr>ex_ExecutionID := k, ex_ParentExecutionID := p, ex_Status := st\<rparr>"

definition idle_pair :: "status \<Rightarrow> db" where
  "idle_pair st = (one_row [] [] 1000)\<lparr>executions := [idle_exec ''a'' None ''running'', idle_exec ''b'' (Some ''a'') st]\<rparr>"

lemma idle_pair_simps [simp]:
  "executions (idle_pair st) = [idle_exec ''a'' None ''running'', idle_exec ''b'' (Some ''a'') st]"
  "clock (idle_pair st) = 1000" "tables_ok (idle_pair st)"
  by (simp_all add: idle_pair_def idle_exec_def tables_ok_def)

lemma idle_exec_sel [simp]:
  "ex_ExecutionID (idle_exec k p st) = k" "ex_ParentExecutionID (idle_exec k p st) = p"
  "ex_Status (idle_exec k p st) = st" "ex_UpdatedAt (idle_exec k p st) = 0"
  "ex_CompletedAt (idle_exec k p st) = None" "ex_StartedAt (idle_exec k p st) = 0"
  by (simp_all add: idle_exec_def zero_execution_def)

text \<open>
  A child that waits for a human shields its parent only while it is fresh: with both idle since the cutoff
  the parent of a waiting child is reaped, although the comment on \<open>MarkStaleExecutions\<close> says
  that rows with a non-terminal child are skipped.
\<close>

lemma waiting_child_does_not_shield:
  "row_stale_execution 100 (idle_pair stWaiting) ''a''" "row_stale_execution 100 (idle_pair stPaused) ''a''"
  "\<not> row_stale_execution 100 (idle_pair ''running'') ''a''"
  by (simp_all add: row_stale_execution_def stale_execution_def execution_shielded_def execution_shields_def
      active3_def child_recency_def stWaiting_def stPaused_def)

theorem reaper_only_stale_witness:
  "\<exists>d'. mark_stale_tx 100 [(''a'', 0)] (idle_pair stWaiting) = (Inr 1, d') \<and>
     map_option ex_Status (find_execution d' ''a'') = Some stTimeout"
proof -
  let ?d' = "timeout_execution 1000 (''a'', 0) (idle_pair stWaiting)"
  have tx: "mark_stale_tx 100 [(''a'', 0)] (idle_pair stWaiting) = (Inr 1, ?d')"
    using waiting_child_does_not_shield(1) by (simp add: mark_stale_tx_def)
  obtain e' where e': "find_execution ?d' ''a'' = Some e'" "e' \<noteq> idle_exec ''a'' None ''running''"
    by (simp add: find_timeout_execution) (simp add: idle_exec_def zero_execution_def)
  have "ex_Status e' = stTimeout"
    using reaper_only_stale [OF tx _ e'] by simp
  with tx e' show ?thesis by (intro exI [of _ ?d']) simp
qed

text \<open>
  An undisturbed sweep times out exactly the stale executions its query selects, as many as the batch
  allows: the result is their number, every chosen row becomes \<open>timeout\<close> with the
  elapsed time, and every other row is as before.
\<close>
theorem mark_stale_outcome:
  assumes "quiet w" and "tables_ok (data w)" and "0 < limit" and "now = clock (data w)"
    and "run_state (MarkStaleExecutions None staleAfter limit) w = (r, w')"
    and "chosen = stale_candidates (now - staleAfter) limit (data w)"
  shows "r = Inr (int (length chosen)) \<and>
     length chosen = min (length (filter (stale_execution (data w) (now - staleAfter)) (executions (data w)))) (nat limit) \<and>
     (\<forall>k. find_execution (data w') k = (case map_of chosen k of
        None \<Rightarrow> find_execution (data w) k
      | Some start \<Rightarrow> map_option (\<lambda>e. e\<lparr>ex_Status := stTimeout, ex_ErrorMessage := Some timeoutMessage,
            ex_CompletedAt := Some now, ex_DurationMS := Some (sweep_duration now start), ex_UpdatedAt := now\<rparr>)
          (find_execution (data w) k)))"
proof (intro conjI allI)
  note q = quiet_mark_stale [OF assms(1,2,3,5)]
  show "r = Inr (int (length chosen))" unfolding assms(4,6) by (rule q(1))
  show "length chosen = min (length (filter (stale_execution (data w) (now - staleAfter)) (executions (data w)))) (nat limit)"
    unfolding assms(6) by (rule stale_candidates_props(3) [OF assms(2)])
  show "find_execution (data w') k = (case map_of chosen k of
        None \<Rightarrow> find_execution (data w) k
      | Some start \<Rightarrow> map_option (\<lambda>e. e\<lparr>ex_Status := stTimeout, ex_ErrorMessage := Some timeoutMessage,
            ex_CompletedAt := Some now, ex_DurationMS := Some (sweep_duration now start), ex_UpdatedAt := now\<rparr>)
          (find_execution (data w) k))" for k
    unfolding q(2) assms(4,6) by (rule find_timeout_fold [OF stale_candidates_props(1) [OF assms(2)]])
qed

theorem mark_stale_outcome_witness:
  "fst (run_state (MarkStaleExecutions None 900 10) (idle (idle_pair stWaiting))) = Inr 1"
proof -
  have "length (filter (stale_execution (idle_pair stWaiting) 100) (executions (idle_pair stWaiting))) = 1"
    by (simp add: stale_execution_def execution_shielded_def execution_shields_def active3_def
        child_recency_def stWaiting_def)
  then show ?thesis
    using mark_stale_outcome [OF quiet_idle _ _ refl surjective_pairing refl, of "idle_pair stWaiting" 10 900]
    by simp
qed

text \<open>
  Nothing is stuck for good: if no execution has shown activity since the cutoff and the parent relation has
  no cycle, sweeping repeatedly drains every chain; after as many passes as there are active
  executions none is left active, whatever the batch size.
\<close>
theorem reaper_drains:
  assumes "quiet w" and "tables_ok (data w)" and "acyclic (child_edges (data w))" and "0 < limit"
    and "\<forall>e \<in> set (executions (data w)). idle_since (clock (data w) - staleAfter) e"
    and "active_count (data w) \<le> n"
  shows "active_count (data ((mark_stale_pass staleAfter limit ^^ n) w)) = 0"
  using assms
proof (induction n arbitrary: w)
  case (Suc n)
  let ?w' = "mark_stale_pass staleAfter limit w"
  obtain r where run: "run_state (MarkStaleExecutions None staleAfter limit) w = (r, ?w')"
    by (metis mark_stale_pass_def prod.collapse)
  note q = quiet_mark_stale [OF Suc.prems(1,2,4) run]
  note p = sweep_progress [OF Suc.prems(2,3,5,4) q(2)]
  have "clock (data ?w') = clock (data w)" by (simp add: q(2) fold_timeout_clock)
  moreover have "quiet ?w'" using quiet_mark_quiet [OF Suc.prems(1)] by (simp add: mark_stale_pass_def)
  ultimately have "active_count (data ((mark_stale_pass staleAfter limit ^^ n) ?w')) = 0"
    using p Suc.prems(3,4,6) by (intro Suc.IH) auto
  then show ?case by (simp add: funpow_swap1)
qed simp

theorem reaper_drains_witness:
  "active_count (data ((mark_stale_pass 900 1 ^^ 2) (idle (idle_pair ''running'')))) = 0"
proof -
  have a: "active_count (data (idle (idle_pair ''running''))) \<le> 2" by (simp add: active_count_def active3_def)
  have "wf {(''b'', ''a'')}"
    by (rule wf_subset [of "measure (\<lambda>s. if s = ''b'' then 0 else 1)"]) auto
  then have "acyclic (child_edges (idle_pair ''running''))"
    by (simp add: child_edges_def wf_acyclic)
  then show ?thesis
    using reaper_drains [OF quiet_idle _ _ _ _ a, of 1 900]
    by (simp add: idle_since_def active3_def)
qed


definition stuck_workflow :: WorkflowExecution where
  "stuck_workflow = zero_workflow_execution\<lparr>wf_ExecutionID := ''a'', wf_Status := ''running''\<rparr>"

definition stuck_pair :: db where
  "stuck_pair = (idle_pair ''running'')\<lparr>executions := [idle_exec ''a'' None ''running''], workflows := [stuck_workflow]\<rparr>"


text \<open>
  What orphaning does in an undisturbed world: in both tables exactly the active rows of the agent fail, with the reason
  given, that belong to the departing instance or to none, were created before the boundary, and are not held open
  for a retry across the restart; every other row is as before, and the result counts the workflow rows.
\<close>
theorem orphaned_outcome:
  assumes "quiet w" and "TrimSpace node \<noteq> []" and "TrimSpace reason \<noteq> []"
    and "run_state (markAgentExecutionsOrphaned node inst reason before) w = (r, w')"
  shows "r = Inr (int (length (filter (orphaned_workflow node inst before) (workflows (data w))))) \<and>
     (\<forall>k. find_workflow (data w') k = map_option (\<lambda>f. if orphaned_workflow node inst before f
        then fail_workflow_row reason (clock (data w)) f else f) (find_workflow (data w) k)) \<and>
     (\<forall>k. find_execution (data w') k = map_option (\<lambda>e. if orphaned_execution node inst before e
        then fail_execution_row reason (clock (data w)) e else e) (find_execution (data w) k)) \<and>
     (\<forall>e. ex_StatusReason e = Some ExecutionReasonAwaitingAgentRestart \<longrightarrow> \<not> orphaned_execution node inst before e)"
proof -
  have w: "wf_ExecutionID (if orphaned_workflow node inst before f then fail_workflow_row reason t f else f) =
      wf_ExecutionID f" for f t by (simp add: fail_workflow_row_def)
  have e: "ex_ExecutionID (if orphaned_execution node inst before f then fail_execution_row reason t f else f) =
      ex_ExecutionID f" for f t by (simp add: fail_execution_row_def)
  have "ex_StatusReason e = Some ExecutionReasonAwaitingAgentRestart \<longrightarrow> \<not> orphaned_execution node inst before e" for e
    by (simp add: orphaned_execution_def orphaned_def)
  then show ?thesis
    using assms
    by (auto simp: markAgentExecutionsOrphaned_def Let_def quiet_db_call lookup_map [of wf_ExecutionID, OF w]
        lookup_map [of ex_ExecutionID, OF e])
qed

definition orphan_db :: db where
  "orphan_db = (idle_pair ''running'')\<lparr>workflows := [stuck_workflow\<lparr>wf_AgentNodeID := ''n''\<rparr>]\<rparr>"

theorem orphaned_outcome_witness:
  "fst (run_state (markAgentExecutionsOrphaned ''n'' ''i1'' ''restart'' 0) (idle orphan_db)) = Inr 1"
proof -
  have t: "TrimSpace ''n'' \<noteq> []" "TrimSpace ''restart'' \<noteq> []" by code_simp+
  have "filter (orphaned_workflow ''n'' ''i1'' 0) (workflows (data (idle orphan_db))) =
      [stuck_workflow\<lparr>wf_AgentNodeID := ''n''\<rparr>]"
    by (simp add: orphan_db_def orphaned_workflow_def orphaned_def stuck_workflow_def active4_def active3_def
        zero_workflow_execution_def)
  then show ?thesis
    using orphaned_outcome [OF quiet_idle t surjective_pairing, of "''i1''" 0 orphan_db] by simp
qed

end
