(* ===== verification/Breaker.thy ===== *)
theory Breaker
  imports Prelude
begin

text \<open>
  What the two circuit breakers of the program share (the health monitor of the control plane
  and the rate limiter of the Go SDK): the three states, and the law by which a closed breaker
  counts failures. The interface \<open>failure_counter\<close> is that law; whoever obeys it opens exactly when
  a full run of consecutive failures has been seen.
\<close>

datatype circuit = CircuitClosed | CircuitOpen | CircuitHalfOpen

text \<open>
  A verdict is a success (\<open>True\<close>) or a failure. \<open>trips n k vs\<close>: starting with \<open>k\<close>
  failures counted, some run of consecutive failures reaches \<open>n\<close>.
\<close>

fun trips :: "int \<Rightarrow> int \<Rightarrow> bool list \<Rightarrow> bool" where
  "trips n k [] = False"
| "trips n k (True # vs) = trips n 0 vs"
| "trips n k (False # vs) = (n \<le> k + 1 \<or> trips n (k + 1) vs)"

lemma trips_replicate_prefix:
  "prefix (replicate m False) vs \<Longrightarrow> n \<le> k + int m \<Longrightarrow> k < n \<Longrightarrow> trips n k vs"
proof (induction vs arbitrary: k m)
  case (Cons v vs)
  obtain m' where m: "m = Suc m'" using Cons.prems(2,3) by (cases m) auto
  with Cons.prems(1) have v: "\<not> v" and p: "prefix (replicate m' False) vs" by auto
  show ?case
  proof (cases "n \<le> k + 1")
    case False
    then have "trips n (k + 1) vs" using Cons.IH [OF p] Cons.prems(2) m by simp
    with v show ?thesis by simp
  qed (use v in simp)
qed (auto split: if_splits)

lemma trips_run:
  "trips n k vs \<Longrightarrow> k < n \<Longrightarrow> 0 \<le> k \<Longrightarrow>
     prefix (replicate (nat (n - k)) False) vs \<or> sublist (replicate (nat n) False) vs"
proof (induction vs arbitrary: k)
  case (Cons v vs)
  show ?case
  proof (cases v)
    case True
    then have "trips n 0 vs" using Cons.prems(1) by simp
    with Cons.IH [of 0] Cons.prems(2,3) have "sublist (replicate (nat n) False) vs"
      by (auto intro: prefix_imp_sublist)
    then show ?thesis by (simp add: sublist_Cons_right)
  next
    case False
    show ?thesis
    proof (cases "n \<le> k + 1")
      case True
      with Cons.prems(2) have "nat (n - k) = 1" by simp
      with False show ?thesis by simp
    next
      case no: False
      then have "trips n (k + 1) vs" using Cons.prems(1) False by simp
      from Cons.IH [OF this] no Cons.prems(3) consider
        "prefix (replicate (nat (n - (k + 1))) False) vs" | "sublist (replicate (nat n) False) vs" by auto
      then show ?thesis
      proof cases
        case 1
        moreover have "nat (n - k) = Suc (nat (n - (k + 1)))" using no by simp
        ultimately show ?thesis using False by simp
      qed (simp add: sublist_Cons_right)
    qed
  qed
qed simp

text \<open>Starting from zero, the counter trips when the verdicts contain a full run of failures.\<close>

lemma trips_iff_run:
  assumes "0 < n"
  shows "trips n 0 vs \<longleftrightarrow> sublist (replicate (nat n) False) vs"
proof
  assume "trips n 0 vs"
  then show "sublist (replicate (nat n) False) vs"
    using trips_run [of n 0 vs] assms by (auto intro: prefix_imp_sublist)
next
  have "trips n k vs" if "prefix (replicate (nat n) False) zs" "vs = ys @ zs" "0 \<le> k" "k < n" for ys zs k vs
    using that
  proof (induction ys arbitrary: k vs)
    case Nil
    then show ?case using trips_replicate_prefix [of "nat n" zs n k] by simp
  next
    case (Cons y ys)
    show ?case
    proof (cases y)
      case True
      with Cons.IH [OF Cons.prems(1) refl, of 0] Cons.prems(2) assms show ?thesis by simp
    next
      case False
      then show ?thesis
        using Cons.IH [OF Cons.prems(1) refl, of "k + 1"] Cons.prems(2,3) by (cases "n \<le> k + 1") auto
    qed
  qed
  moreover assume "sublist (replicate (nat n) False) vs"
  then obtain ys zs where "vs = ys @ zs" "prefix (replicate (nat n) False) zs"
    by (auto simp: sublist_def prefix_def)
  ultimately show "trips n 0 vs" using assms by blast
qed

locale failure_counter =
  fixes closed :: "'s \<Rightarrow> bool" and failures :: "'s \<Rightarrow> int" and threshold :: int
    and verdict :: "bool \<Rightarrow> 't \<Rightarrow> 's \<Rightarrow> 's"
  assumes success_closed: "closed s \<Longrightarrow> closed (verdict True t s)"
    and success_resets: "closed s \<Longrightarrow> failures (verdict True t s) = 0"
    and failure_counts: "closed s \<Longrightarrow> failures (verdict False t s) = failures s + 1"
    and failure_trips: "closed s \<Longrightarrow> closed (verdict False t s) \<longleftrightarrow> failures s + 1 < threshold"
begin

fun after :: "(bool \<times> 't) list \<Rightarrow> 's \<Rightarrow> 's" where
  "after [] s = s"
| "after ((v, t) # vs) s = after vs (verdict v t s)"

lemma opens_iff:
  "closed s \<Longrightarrow> (\<exists>n \<le> length vs. \<not> closed (after (take n vs) s)) \<longleftrightarrow> trips threshold (failures s) (map fst vs)"
proof (induction vs arbitrary: s)
  case (Cons x vs)
  obtain v t where x: "x = (v, t)" by fastforce
  have split: "(\<exists>n \<le> length (x # vs). \<not> closed (after (take n (x # vs)) s)) \<longleftrightarrow>
      (\<exists>n \<le> length vs. \<not> closed (after (take n vs) (verdict v t s)))" (is "?l \<longleftrightarrow> ?r")
  proof
    assume ?l
    then obtain n where n: "n \<le> Suc (length vs)" "\<not> closed (after (take n (x # vs)) s)" by auto
    then obtain m where "n = Suc m" using Cons.prems by (cases n) auto
    with n x show ?r by auto
  next
    assume ?r
    then obtain n where "n \<le> length vs" "\<not> closed (after (take n vs) (verdict v t s))" by blast
    with x show ?l by (intro exI [of _ "Suc n"]) simp
  qed
  show ?case
  proof (cases v)
    case True
    then show ?thesis unfolding split
      using Cons.IH [of "verdict v t s"] x Cons.prems by (simp add: success_closed success_resets)
  next
    case False
    show ?thesis
    proof (cases "failures s + 1 < threshold")
      case True
      then show ?thesis unfolding split
        using Cons.IH [of "verdict v t s"] x Cons.prems False by (simp add: failure_trips failure_counts)
    next
      case no: False
      then have "\<not> closed (after (take 0 vs) (verdict v t s))"
        using Cons.prems False by (simp add: failure_trips)
      then show ?thesis unfolding split using x no False by auto
    qed
  qed
qed simp

lemma opens_iff_run:
  assumes "closed s" and "failures s = 0" and "0 < threshold"
  shows "(\<exists>n \<le> length vs. \<not> closed (after (take n vs) s)) \<longleftrightarrow>
    sublist (replicate (nat threshold) False) (map fst vs)"
  using opens_iff [OF assms(1)] assms(2,3) by (simp add: trips_iff_run)

lemma stays_closed:
  assumes "closed s" and "failures s = 0" and "0 < threshold"
    and "\<not> sublist (replicate (nat threshold) False) (map fst vs)"
  shows "closed (after vs s)"
  using opens_iff_run [OF assms(1-3), of vs] assms(4) by (metis order_refl take_all)

end

end
