(* ===== verification/LLM_Health.thy ===== *)
theory LLM_Health
  imports Breaker "HOL-Library.AList"
begin

text \<open>
  The health monitor of the LLM backends (\<open>internal/services/llm_health_monitor.go\<close>): one circuit
  breaker per configured endpoint, advanced by the periodic check. The HTTP client is a
  parameter (the outcome of the request), and so are the readings of the clock. The endpoint map
  is an association list; \<open>time.Now\<close> and the injectable clock are the same clock.
\<close>

record LLMEndpoint =
  lp_Name :: string
  lp_URL :: string
  lp_Method :: string
  lp_Header :: string

record LLMHealthConfig =
  lc_Enabled :: bool
  lc_Endpoints :: "LLMEndpoint list"
  lc_CheckInterval :: duration
  lc_CheckTimeout :: duration
  lc_FailureThreshold :: int
  lc_RecoveryTimeout :: duration
  lc_HalfOpenMaxProbes :: int

record LLMEndpointStatus =
  le_Name :: string
  le_URL :: string
  le_CircuitState :: circuit
  le_Healthy :: bool
  le_LastChecked :: instant
  le_LastSuccess :: instant
  le_LastError :: string
  le_ConsecutiveFailures :: int
  le_TotalChecks :: int
  le_TotalFailures :: int
  le_circuitOpenedAt :: instant
  le_nextProbeAt :: instant
  le_halfOpenSuccesses :: int

record LLMHealthMonitor =
  lm_config :: LLMHealthConfig
  lm_endpoints :: "(string \<times> LLMEndpointStatus) list"
  lm_nextCheckAt :: instant

definition normalizeLLMEndpointName :: "string \<Rightarrow> string" where
  "normalizeLLMEndpointName name = TrimSpace (ToLower name)"

definition health_defaults :: "LLMHealthConfig \<Rightarrow> LLMHealthConfig" where
  "health_defaults cfg =
     (let cfg = (if lc_CheckInterval cfg \<le> 0 then cfg\<lparr>lc_CheckInterval := 15 * second\<rparr> else cfg);
          cfg = (if lc_CheckTimeout cfg \<le> 0 then cfg\<lparr>lc_CheckTimeout := 5 * second\<rparr> else cfg);
          cfg = (if lc_FailureThreshold cfg \<le> 0 then cfg\<lparr>lc_FailureThreshold := 3\<rparr> else cfg);
          cfg = (if lc_RecoveryTimeout cfg \<le> 0 then cfg\<lparr>lc_RecoveryTimeout := 30 * second\<rparr> else cfg)
      in if lc_HalfOpenMaxProbes cfg \<le> 0 then cfg\<lparr>lc_HalfOpenMaxProbes := 2\<rparr> else cfg)"

definition new_endpoint :: "LLMEndpoint \<Rightarrow> LLMEndpointStatus" where
  "new_endpoint ep = \<lparr>le_Name = normalizeLLMEndpointName (lp_Name ep), le_URL = lp_URL ep,
     le_CircuitState = CircuitClosed, le_Healthy = True, le_LastChecked = 0, le_LastSuccess = 0,
     le_LastError = [], le_ConsecutiveFailures = 0, le_TotalChecks = 0, le_TotalFailures = 0,
     le_circuitOpenedAt = 0, le_nextProbeAt = 0, le_halfOpenSuccesses = 0\<rparr>"

definition NewLLMHealthMonitor :: "LLMHealthConfig \<Rightarrow> LLMHealthMonitor" where
  "NewLLMHealthMonitor cfg =
     (let cfg = health_defaults cfg
      in \<lparr>lm_config = cfg,
          lm_endpoints = fold (\<lambda>ep. AList.update (normalizeLLMEndpointName (lp_Name ep)) (new_endpoint ep))
            (lc_Endpoints cfg) [],
          lm_nextCheckAt = 0\<rparr>)"

subsection \<open>Queries\<close>

definition find_endpoint :: "LLMHealthMonitor \<Rightarrow> string \<Rightarrow> LLMEndpointStatus option" where
  "find_endpoint m name = map_of (lm_endpoints m) (normalizeLLMEndpointName name)"

definition EndpointCount :: "LLMHealthMonitor option \<Rightarrow> nat" where
  "EndpointCount m = (case m of None \<Rightarrow> 0 | Some m \<Rightarrow> length (lm_endpoints m))"

definition IsEndpointHealthy :: "LLMHealthMonitor \<Rightarrow> string \<Rightarrow> bool" where
  "IsEndpointHealthy m name =
     (if \<not> lc_Enabled (lm_config m) then True
      else case find_endpoint m name of None \<Rightarrow> True | Some ep \<Rightarrow> le_CircuitState ep \<noteq> CircuitOpen)"

definition IsAnyEndpointHealthy :: "LLMHealthMonitor \<Rightarrow> bool" where
  "IsAnyEndpointHealthy m =
     (if \<not> lc_Enabled (lm_config m) \<or> length (lm_endpoints m) = 0 then True
      else list_ex (\<lambda>(_, ep). le_CircuitState ep \<noteq> CircuitOpen) (lm_endpoints m))"

text \<open>
  \<open>math.Ceil(remaining.Seconds())\<close> on 64-bit floats is the exact ceiling as long as a duration
  is below about 48 days, where a float still separates whole seconds from their neighbours.
\<close>

definition ceil_seconds :: "duration \<Rightarrow> int" where
  "ceil_seconds d = - ((- d) div second)"

definition RetryAfterSeconds :: "LLMHealthMonitor option \<Rightarrow> string \<Rightarrow> instant \<Rightarrow> int" where
  "RetryAfterSeconds mon name now =
     (case mon of
        None \<Rightarrow> 30
      | Some m \<Rightarrow>
          (let recovery = (if lc_RecoveryTimeout (lm_config m) \<le> 0 then 30 * second
                           else lc_RecoveryTimeout (lm_config m));
               remaining = (case find_endpoint m name of
                   None \<Rightarrow> recovery
                 | Some ep \<Rightarrow>
                     if le_CircuitState ep = CircuitOpen \<and> le_circuitOpenedAt ep \<noteq> 0
                     then (let nextProbeAt = (if le_nextProbeAt ep = 0
                               then le_circuitOpenedAt ep + (recovery + lc_CheckInterval (lm_config m))
                               else le_nextProbeAt ep)
                           in time_Sub nextProbeAt now)
                     else recovery);
               seconds = ceil_seconds remaining
           in if seconds < 1 then 1 else seconds))"

subsection \<open>The check\<close>

text \<open>
  The first scheduled check at or after the recovery deadline. The interval is positive whenever
  the code gets here; the guard makes the loop total without that.
\<close>

function advance_to :: "instant \<Rightarrow> duration \<Rightarrow> instant \<Rightarrow> instant" where
  "advance_to deadline interval candidate =
     (if candidate < deadline \<and> 0 < interval then advance_to deadline interval (candidate + interval)
      else candidate)"
  by pat_completeness auto
termination
  by (relation "measure (\<lambda>(deadline, interval, candidate). nat (deadline - candidate))") auto

declare advance_to.simps [simp del]

definition nextCircuitProbeAtLocked :: "LLMHealthConfig \<Rightarrow> instant \<Rightarrow> instant \<Rightarrow> instant" where
  "nextCircuitProbeAtLocked cfg nextCheckAt openedAt =
     (let deadline = openedAt + lc_RecoveryTimeout cfg;
          interval = (if lc_CheckInterval cfg \<le> 0 then 15 * second else lc_CheckInterval cfg);
          candidate = (if nextCheckAt = 0 \<or> \<not> openedAt < nextCheckAt then openedAt + interval else nextCheckAt)
      in advance_to deadline interval candidate)"

definition handleSuccess :: "LLMHealthConfig \<Rightarrow> instant \<Rightarrow> LLMEndpointStatus \<Rightarrow> LLMEndpointStatus" where
  "handleSuccess cfg now ep =
     (let ep = ep\<lparr>le_LastSuccess := now, le_ConsecutiveFailures := 0\<rparr>
      in case le_CircuitState ep of
           CircuitHalfOpen \<Rightarrow>
             (let ep = ep\<lparr>le_halfOpenSuccesses := le_halfOpenSuccesses ep + 1\<rparr>
              in if lc_HalfOpenMaxProbes cfg \<le> le_halfOpenSuccesses ep
                 then ep\<lparr>le_CircuitState := CircuitClosed, le_nextProbeAt := 0, le_Healthy := True\<rparr>
                 else ep)
         | CircuitClosed \<Rightarrow> ep\<lparr>le_Healthy := True\<rparr>
         | CircuitOpen \<Rightarrow> ep)"

definition handleFailure ::
    "LLMHealthConfig \<Rightarrow> instant \<Rightarrow> instant \<Rightarrow> LLMEndpointStatus \<Rightarrow> LLMEndpointStatus" where
  "handleFailure cfg nextCheckAt now ep =
     (let ep = ep\<lparr>le_ConsecutiveFailures := le_ConsecutiveFailures ep + 1,
                  le_TotalFailures := le_TotalFailures ep + 1\<rparr>
      in case le_CircuitState ep of
           CircuitClosed \<Rightarrow>
             if lc_FailureThreshold cfg \<le> le_ConsecutiveFailures ep
             then ep\<lparr>le_CircuitState := CircuitOpen, le_Healthy := False, le_circuitOpenedAt := now,
                     le_nextProbeAt := nextCircuitProbeAtLocked cfg nextCheckAt now\<rparr>
             else ep
         | CircuitHalfOpen \<Rightarrow>
             ep\<lparr>le_CircuitState := CircuitOpen, le_Healthy := False, le_circuitOpenedAt := now,
                le_nextProbeAt := nextCircuitProbeAtLocked cfg nextCheckAt now, le_halfOpenSuccesses := 0\<rparr>
         | CircuitOpen \<Rightarrow> ep)"

text \<open>The probe: what the HTTP client answers, and the verdict.\<close>

datatype http_outcome = RequestFailed string | DoFailed string | StatusCode int

type_synonym http_client = "string \<Rightarrow> string \<Rightarrow> string option \<Rightarrow> http_outcome"

definition probeEndpoint :: "http_client \<Rightarrow> LLMEndpoint \<Rightarrow> bool \<times> string" where
  "probeEndpoint http ep =
     (let method = (if lp_Method ep = [] then ''GET'' else lp_Method ep);
          auth = (if lp_Header ep \<noteq> [] then Some (lp_Header ep) else None)
      in case http method (lp_URL ep) auth of
           RequestFailed e \<Rightarrow> (False, ''failed to create request: '' @ e)
         | DoFailed e \<Rightarrow> (False, ''request failed: '' @ e)
         | StatusCode c \<Rightarrow> if 200 \<le> c \<and> c < 300 then (True, [])
                           else (False, ''unhealthy status code: '' @ show_int c))"

text \<open>
  The two locked sections of \<open>checkEndpoint\<close>: what happens before the probe (\<open>False\<close>:
  the check stops there), and after it.
\<close>

definition before_probe :: "LLMHealthConfig \<Rightarrow> instant \<Rightarrow> LLMEndpointStatus \<Rightarrow> bool \<times> LLMEndpointStatus" where
  "before_probe cfg now ep =
     (if le_CircuitState ep = CircuitOpen
      then if lc_RecoveryTimeout cfg \<le> time_Sub now (le_circuitOpenedAt ep)
           then (True, ep\<lparr>le_CircuitState := CircuitHalfOpen, le_nextProbeAt := 0, le_halfOpenSuccesses := 0\<rparr>)
           else (False, ep\<lparr>le_TotalChecks := le_TotalChecks ep + 1, le_LastChecked := now\<rparr>)
      else (True, ep))"

definition after_probe ::
    "LLMHealthConfig \<Rightarrow> instant \<Rightarrow> instant \<Rightarrow> bool \<times> string \<Rightarrow> LLMEndpointStatus \<Rightarrow> LLMEndpointStatus" where
  "after_probe cfg nextCheckAt now result ep =
     (let ep = ep\<lparr>le_TotalChecks := le_TotalChecks ep + 1, le_LastChecked := now\<rparr>
      in case result of (healthy, errMsg) \<Rightarrow>
           if healthy then handleSuccess cfg now ep
           else handleFailure cfg nextCheckAt now (ep\<lparr>le_LastError := errMsg\<rparr>))"

definition check_status ::
    "LLMHealthConfig \<Rightarrow> instant \<Rightarrow> instant \<Rightarrow> bool \<times> string \<Rightarrow> instant \<Rightarrow> LLMEndpointStatus \<Rightarrow> LLMEndpointStatus" where
  "check_status cfg nextCheckAt now1 result now2 ep =
     (case before_probe cfg now1 ep of
        (False, ep) \<Rightarrow> ep
      | (True, ep) \<Rightarrow> after_probe cfg nextCheckAt now2 result ep)"

text \<open>One observation of a check: the clock before the probe, the HTTP client, the clock after.\<close>

type_synonym observation = "instant \<times> http_client \<times> instant"

definition checkEndpoint :: "observation \<Rightarrow> LLMEndpoint \<Rightarrow> LLMHealthMonitor \<Rightarrow> LLMHealthMonitor" where
  "checkEndpoint obs epCfg m =
     (case obs of (now1, http, now2) \<Rightarrow>
        case find_endpoint m (lp_Name epCfg) of
          None \<Rightarrow> m
        | Some ep \<Rightarrow> m\<lparr>lm_endpoints := AList.update (normalizeLLMEndpointName (lp_Name epCfg))
            (check_status (lm_config m) (lm_nextCheckAt m) now1 (probeEndpoint http epCfg) now2 ep)
            (lm_endpoints m)\<rparr>)"

fun check_endpoints :: "observation list \<Rightarrow> LLMEndpoint list \<Rightarrow> LLMHealthMonitor \<Rightarrow> LLMHealthMonitor" where
  "check_endpoints (ob # obs) (ep # eps) m = check_endpoints obs eps (checkEndpoint ob ep m)"
| "check_endpoints obs eps m = m"

definition checkAllEndpoints :: "observation list \<Rightarrow> LLMHealthMonitor \<Rightarrow> LLMHealthMonitor" where
  "checkAllEndpoints obs m = check_endpoints obs (lc_Endpoints (lm_config m)) m"

definition setNextCheckAt :: "instant \<Rightarrow> LLMHealthMonitor \<Rightarrow> LLMHealthMonitor" where
  "setNextCheckAt t m = m\<lparr>lm_nextCheckAt := t\<rparr>"

text \<open>One turn of the loop of \<open>Start\<close>: the tick, with the observations of its checks.\<close>

definition health_tick :: "instant \<times> observation list \<Rightarrow> LLMHealthMonitor \<Rightarrow> LLMHealthMonitor" where
  "health_tick tick m =
     checkAllEndpoints (snd tick) (setNextCheckAt (fst tick + lc_CheckInterval (lm_config m)) m)"

definition Start :: "(instant \<times> observation list) list \<Rightarrow> LLMHealthMonitor \<Rightarrow> LLMHealthMonitor" where
  "Start ticks m =
     (if \<not> lc_Enabled (lm_config m) \<or> length (lc_Endpoints (lm_config m)) = 0 then m
      else fold health_tick ticks m)"

subsection \<open>The schedule\<close>

lemma advance_to_reaches: "0 < interval \<Longrightarrow> deadline \<le> advance_to deadline interval c"
proof (induction deadline interval c rule: advance_to.induct)
  case (1 deadline interval c)
  then show ?case by (subst advance_to.simps) auto
qed

lemma advance_to_least:
  "0 < interval \<Longrightarrow> \<exists>n. advance_to deadline interval c = c + int n * interval \<and>
     (n = 0 \<or> advance_to deadline interval c - interval < deadline)"
proof (induction deadline interval c rule: advance_to.induct)
  case (1 deadline interval c)
  show ?case
  proof (cases "c < deadline")
    case True
    with 1 obtain n where n: "advance_to deadline interval (c + interval) = c + interval + int n * interval"
      "n = 0 \<or> advance_to deadline interval (c + interval) - interval < deadline" by auto
    have "advance_to deadline interval c = advance_to deadline interval (c + interval)"
      using True 1 by (simp add: advance_to.simps [of _ _ c])
    with n True show ?thesis by (intro exI [of _ "Suc n"]) (auto simp: algebra_simps)
  next
    case False
    then show ?thesis by (intro exI [of _ 0]) (simp add: advance_to.simps [of _ _ c])
  qed
qed

lemma next_probe_after_recovery:
  "openedAt + lc_RecoveryTimeout cfg \<le> nextCircuitProbeAtLocked cfg nx openedAt"
  unfolding nextCircuitProbeAtLocked_def Let_def
  by (intro advance_to_reaches) (simp add: second_def)

subsection \<open>The invariant of an endpoint\<close>

definition config_ok :: "LLMHealthConfig \<Rightarrow> bool" where
  "config_ok cfg \<longleftrightarrow> 0 < lc_CheckInterval cfg \<and> 0 < lc_CheckTimeout cfg \<and> 0 < lc_FailureThreshold cfg \<and>
     0 < lc_RecoveryTimeout cfg \<and> 0 < lc_HalfOpenMaxProbes cfg"

lemma health_defaults_ok: "config_ok (health_defaults cfg)"
  by (simp add: config_ok_def health_defaults_def Let_def duration_units)

definition endpoint_ok :: "LLMHealthConfig \<Rightarrow> LLMEndpointStatus \<Rightarrow> bool" where
  "endpoint_ok cfg ep \<longleftrightarrow> 0 \<le> le_ConsecutiveFailures ep \<and>
     (case le_CircuitState ep of
        CircuitClosed \<Rightarrow> le_Healthy ep \<and> le_ConsecutiveFailures ep < lc_FailureThreshold cfg
      | CircuitOpen \<Rightarrow> \<not> le_Healthy ep \<and> 0 < le_ConsecutiveFailures ep \<and>
          le_circuitOpenedAt ep + lc_RecoveryTimeout cfg \<le> le_nextProbeAt ep
      | CircuitHalfOpen \<Rightarrow> \<not> le_Healthy ep \<and> 0 \<le> le_halfOpenSuccesses ep \<and>
          le_halfOpenSuccesses ep < lc_HalfOpenMaxProbes cfg)"

lemma new_endpoint_ok: "config_ok cfg \<Longrightarrow> endpoint_ok cfg (new_endpoint ep)"
  by (simp add: endpoint_ok_def new_endpoint_def config_ok_def)

lemma before_probe_ok:
  "config_ok cfg \<Longrightarrow> endpoint_ok cfg ep \<Longrightarrow> endpoint_ok cfg (snd (before_probe cfg now ep))"
  by (cases "le_CircuitState ep") (auto simp: before_probe_def endpoint_ok_def config_ok_def)

lemma after_probe_ok:
  "config_ok cfg \<Longrightarrow> endpoint_ok cfg ep \<Longrightarrow> le_CircuitState ep \<noteq> CircuitOpen \<Longrightarrow>
    endpoint_ok cfg (after_probe cfg nx now r ep)"
  by (cases "le_CircuitState ep"; cases r)
    (auto simp: after_probe_def handleSuccess_def handleFailure_def endpoint_ok_def config_ok_def Let_def
       next_probe_after_recovery)

lemma check_status_ok:
  assumes "config_ok cfg" and "endpoint_ok cfg ep"
  shows "endpoint_ok cfg (check_status cfg nx t1 r t2 ep)"
proof -
  obtain b ep' where b: "before_probe cfg t1 ep = (b, ep')" by fastforce
  then have "b \<longrightarrow> le_CircuitState ep' \<noteq> CircuitOpen"
    by (auto simp: before_probe_def split: if_splits)
  with before_probe_ok [OF assms, of t1] after_probe_ok [OF assms(1)] b show ?thesis
    by (cases b) (simp_all add: check_status_def)
qed

definition monitor_ok :: "LLMHealthMonitor \<Rightarrow> bool" where
  "monitor_ok m \<longleftrightarrow> config_ok (lm_config m) \<and>
     (\<forall>name ep. map_of (lm_endpoints m) name = Some ep \<longrightarrow> endpoint_ok (lm_config m) ep)"

lemma map_of_alist_update: "map_of (AList.update k v al) = (map_of al)(k \<mapsto> v)"
  by (rule update_conv')

lemma checkEndpoint_ok: "monitor_ok m \<Longrightarrow> monitor_ok (checkEndpoint ob ep m)"
  by (cases ob) (auto simp: checkEndpoint_def monitor_ok_def find_endpoint_def map_of_alist_update
      check_status_ok split: option.splits)

lemma check_endpoints_ok: "monitor_ok m \<Longrightarrow> monitor_ok (check_endpoints obs eps m)"
  by (induction obs eps m rule: check_endpoints.induct) (simp_all add: checkEndpoint_ok)

lemma health_tick_ok: "monitor_ok m \<Longrightarrow> monitor_ok (health_tick tick m)"
  unfolding health_tick_def checkAllEndpoints_def
  by (intro check_endpoints_ok) (simp add: monitor_ok_def setNextCheckAt_def)

lemma Start_ok:
  assumes "monitor_ok m"
  shows "monitor_ok (Start ticks m)"
proof -
  have "monitor_ok (fold health_tick ticks m)"
    using assms by (induction ticks arbitrary: m) (simp_all add: health_tick_ok)
  with assms show ?thesis by (simp add: Start_def)
qed

lemma New_ok: "monitor_ok (NewLLMHealthMonitor cfg)"
proof -
  let ?cfg = "health_defaults cfg"
  have "\<forall>name ep. map_of (fold (\<lambda>ep. AList.update (normalizeLLMEndpointName (lp_Name ep)) (new_endpoint ep)) eps al)
      name = Some ep \<longrightarrow> endpoint_ok ?cfg ep"
    if "\<forall>name ep. map_of al name = Some ep \<longrightarrow> endpoint_ok ?cfg ep" for eps al
    using that
  proof (induction eps arbitrary: al)
    case (Cons e eps)
    have "\<forall>name ep. map_of (AList.update (normalizeLLMEndpointName (lp_Name e)) (new_endpoint e) al) name = Some ep
        \<longrightarrow> endpoint_ok ?cfg ep"
      using Cons.prems new_endpoint_ok [OF health_defaults_ok] by (simp add: map_of_alist_update)
    from Cons.IH [OF this] show ?case by simp
  qed simp
  from this [of "[]"] show ?thesis
    by (simp add: NewLLMHealthMonitor_def monitor_ok_def health_defaults_ok Let_def)
qed

subsection \<open>The endpoint as a failure counter\<close>

definition check_verdict ::
    "LLMHealthConfig \<Rightarrow> bool \<Rightarrow> instant \<times> instant \<times> string \<times> instant \<Rightarrow> LLMEndpointStatus \<Rightarrow> LLMEndpointStatus" where
  "check_verdict cfg v t ep = (case t of (nx, t1, err, t2) \<Rightarrow> check_status cfg nx t1 (v, err) t2 ep)"

interpretation llm: failure_counter "\<lambda>ep. le_CircuitState ep = CircuitClosed" le_ConsecutiveFailures
    "lc_FailureThreshold cfg" "check_verdict cfg" for cfg
  by unfold_locales
    (auto simp: check_verdict_def check_status_def before_probe_def after_probe_def handleSuccess_def
       handleFailure_def Let_def split: prod.splits)

definition check_history ::
    "LLMHealthConfig \<Rightarrow> (bool \<times> instant \<times> instant \<times> string \<times> instant) list \<Rightarrow> LLMEndpointStatus \<Rightarrow> LLMEndpointStatus" where
  "check_history cfg vs ep = fold (\<lambda>(v, t). check_verdict cfg v t) vs ep"

lemma check_history_after: "check_history cfg vs ep = llm.after cfg vs ep"
  by (induction vs arbitrary: ep) (auto simp: check_history_def)

subsection \<open>Recovery\<close>

lemma time_Sub_exact: "\<bar>a - b\<bar> < 2 ^ 63 \<Longrightarrow> time_Sub a b = a - b"
  by (auto simp: time_Sub_def)

lemma half_open_probes:
  "le_CircuitState ep = CircuitHalfOpen \<Longrightarrow> le_halfOpenSuccesses ep + int (length ts) = lc_HalfOpenMaxProbes cfg \<Longrightarrow>
   ts \<noteq> [] \<Longrightarrow>
   le_CircuitState (check_history cfg (map (Pair True) ts) ep) = CircuitClosed \<and>
   le_Healthy (check_history cfg (map (Pair True) ts) ep) \<and>
   le_ConsecutiveFailures (check_history cfg (map (Pair True) ts) ep) = 0"
proof (induction ts arbitrary: ep)
  case (Cons t ts)
  obtain nx t1 err t2 where t: "t = (nx, t1, err, t2)" by (cases t) auto
  let ?ep = "check_verdict cfg True t ep"
  have step: "check_history cfg (map (Pair True) (t # ts)) ep = check_history cfg (map (Pair True) ts) ?ep"
    by (simp add: check_history_def)
  show ?case
  proof (cases "ts = []")
    case True
    with Cons.prems show ?thesis
      by (simp add: check_history_def t check_verdict_def check_status_def before_probe_def after_probe_def
          handleSuccess_def Let_def)
  next
    case False
    then have "1 \<le> int (length ts)" by (cases ts) auto
    with Cons.prems have "le_CircuitState ?ep = CircuitHalfOpen"
      "le_halfOpenSuccesses ?ep = le_halfOpenSuccesses ep + 1"
      by (simp_all add: t check_verdict_def check_status_def before_probe_def after_probe_def
          handleSuccess_def Let_def)
    with Cons.IH [of ?ep] Cons.prems(2) False show ?thesis unfolding step by simp
  qed
qed simp

lemma ceil_seconds_bounds:
  "d \<le> ceil_seconds d * second" "(ceil_seconds d - 1) * second < d"
proof -
  let ?q = "(- d) div second"
  have "?q * second + (- d) mod second = - d" by (rule div_mult_mod_eq)
  moreover have "0 \<le> (- d) mod second" "(- d) mod second < second" by (simp_all add: second_def)
  moreover have "ceil_seconds d * second = - (?q * second)" "(ceil_seconds d - 1) * second = ceil_seconds d * second - second"
    by (simp_all add: ceil_seconds_def left_diff_distrib)
  ultimately show "d \<le> ceil_seconds d * second" "(ceil_seconds d - 1) * second < d"
    by linarith+
qed

subsection \<open>Properties\<close>

text \<open>
  C21. Whatever the probes answer and whenever the checks run, every endpoint of a monitor keeps
  its invariant: it is marked healthy exactly while its circuit is closed, a closed circuit has seen
  fewer consecutive failures than the threshold, an open one has a probe scheduled no earlier than the
  end of its recovery time, and a half-open one has fewer successes than the probes it needs.
\<close>
theorem llm_monitor_invariant: "monitor_ok (Start ticks (NewLLMHealthMonitor cfg))"
  by (intro Start_ok New_ok)

text \<open>
  The circuit of a new endpoint leaves the closed state in the course of a series of checks exactly when the
  series contains as many consecutive failures as the threshold; until then the endpoint counts as healthy.
\<close>
theorem llm_circuit_opens:
  "(\<exists>n \<le> length vs. le_CircuitState (check_history (health_defaults cfg) (take n vs) (new_endpoint ep)) \<noteq> CircuitClosed)
   \<longleftrightarrow> sublist (replicate (nat (lc_FailureThreshold (health_defaults cfg))) False) (map fst vs)"
  using llm.opens_iff_run [of "new_endpoint ep" "health_defaults cfg" vs] health_defaults_ok [of cfg]
  by (simp add: check_history_after config_ok_def new_endpoint_def)

text \<open>
  Recovery. An open endpoint whose backend answers again closes after \<open>HalfOpenMaxProbes\<close>
  healthy checks, the first of them at its scheduled probe time or later; it is then healthy with no
  failures counted.
\<close>
theorem llm_circuit_recovers:
  assumes "config_ok cfg" and "endpoint_ok cfg ep" and "le_CircuitState ep = CircuitOpen"
    and "length ts = nat (lc_HalfOpenMaxProbes cfg)" and "ts = (nx, t1, err, t2) # rest"
    and "le_nextProbeAt ep \<le> t1" and "t1 - le_circuitOpenedAt ep < 2 ^ 63"
  shows "le_CircuitState (check_history cfg (map (Pair True) ts) ep) = CircuitClosed \<and>
     le_Healthy (check_history cfg (map (Pair True) ts) ep) \<and>
     le_ConsecutiveFailures (check_history cfg (map (Pair True) ts) ep) = 0"
proof -
  let ?half = "ep\<lparr>le_CircuitState := CircuitHalfOpen, le_nextProbeAt := 0, le_halfOpenSuccesses := 0\<rparr>"
  have "le_circuitOpenedAt ep + lc_RecoveryTimeout cfg \<le> t1"
    using assms(2,3,6) by (simp add: endpoint_ok_def)
  moreover from this have "time_Sub t1 (le_circuitOpenedAt ep) = t1 - le_circuitOpenedAt ep"
    using assms(1,7) by (intro time_Sub_exact) (simp add: config_ok_def)
  ultimately have "check_verdict cfg True (nx, t1, err, t2) ep = check_verdict cfg True (nx, t1, err, t2) ?half"
    using assms(3) by (simp add: check_verdict_def check_status_def before_probe_def)
  then have "check_history cfg (map (Pair True) ts) ep = check_history cfg (map (Pair True) ts) ?half"
    by (simp add: check_history_def assms(5))
  moreover have "0 < lc_HalfOpenMaxProbes cfg" using assms(1) by (simp add: config_ok_def)
  ultimately show ?thesis
    using half_open_probes [of ?half ts cfg] assms(4,5) by simp
qed

definition demo_health :: LLMHealthConfig where
  "demo_health = health_defaults \<lparr>lc_Enabled = True, lc_Endpoints = [], lc_CheckInterval = 0, lc_CheckTimeout = 0,
     lc_FailureThreshold = 0, lc_RecoveryTimeout = 0, lc_HalfOpenMaxProbes = 1\<rparr>"

definition demo_open :: LLMEndpointStatus where
  "demo_open = (new_endpoint \<lparr>lp_Name = ''llm'', lp_URL = [], lp_Method = [], lp_Header = []\<rparr>)
     \<lparr>le_CircuitState := CircuitOpen, le_Healthy := False, le_ConsecutiveFailures := 3,
      le_circuitOpenedAt := 100 * second, le_nextProbeAt := 135 * second\<rparr>"

lemma demo_health_ok: "config_ok demo_health" "endpoint_ok demo_health demo_open"
  "lc_HalfOpenMaxProbes demo_health = 1"
proof -
  show "config_ok demo_health" by (simp add: demo_health_def health_defaults_ok)
  show "endpoint_ok demo_health demo_open" "lc_HalfOpenMaxProbes demo_health = 1"
    by (simp_all add: demo_health_def demo_open_def health_defaults_def Let_def endpoint_ok_def second_def)
qed

theorem llm_circuit_recovers_witness:
  "le_CircuitState (check_history demo_health [(True, 150 * second, 140 * second, [], 141 * second)] demo_open) =
     CircuitClosed"
  using llm_circuit_recovers [OF demo_health_ok(1,2), of "[(150 * second, 140 * second, [], 141 * second)]"]
  by (simp add: demo_health_ok(3)) (simp add: demo_open_def second_def)

text \<open>
  The retry hint of an open endpoint is the number of whole seconds, at least one, after
  which its scheduled probe is due and not before; a check made then passes the open circuit.
\<close>
theorem llm_retry_after_exact:
  assumes "monitor_ok m" and "find_endpoint m name = Some ep" and "le_CircuitState ep = CircuitOpen"
    and "0 < le_circuitOpenedAt ep" and "\<bar>le_nextProbeAt ep - now\<bar> < 2 ^ 62"
    and "le_circuitOpenedAt ep \<le> now" and "now - le_circuitOpenedAt ep < 2 ^ 60"
    and "s = RetryAfterSeconds (Some m) name now"
  shows "1 \<le> s \<and> le_nextProbeAt ep \<le> now + s * second \<and>
     (1 < s \<longrightarrow> now + (s - 1) * second < le_nextProbeAt ep) \<and>
     fst (before_probe (lm_config m) (now + s * second) ep)"
proof -
  have ok: "config_ok (lm_config m)" "endpoint_ok (lm_config m) ep"
    using assms(1,2) by (auto simp: monitor_ok_def find_endpoint_def)
  then have np: "le_circuitOpenedAt ep + lc_RecoveryTimeout (lm_config m) \<le> le_nextProbeAt ep"
    and rec: "0 < lc_RecoveryTimeout (lm_config m)"
    using assms(3) by (simp_all add: endpoint_ok_def config_ok_def)
  let ?d = "le_nextProbeAt ep - now"
  have "time_Sub (le_nextProbeAt ep) now = ?d" using assms(5) by (intro time_Sub_exact) simp
  then have s: "s = max 1 (ceil_seconds ?d)"
    using assms(2-4,8) np rec by (simp add: RetryAfterSeconds_def Let_def)
  have due: "le_nextProbeAt ep \<le> now + s * second"
    using ceil_seconds_bounds(1) [of ?d] s by (cases "ceil_seconds ?d \<le> 1") (auto simp: second_def max_def)
  have early: "1 < s \<longrightarrow> now + (s - 1) * second < le_nextProbeAt ep"
    using ceil_seconds_bounds(2) [of ?d] s by (auto simp: max_def)
  have "s * second \<le> max second (?d + second)"
    using ceil_seconds_bounds(2) [of ?d] s by (auto simp: max_def second_def split: if_splits)
  then have "now + s * second - le_circuitOpenedAt ep < 2 ^ 63"
    using assms(5,7) by (simp add: second_def max_def split: if_splits)
  then have "time_Sub (now + s * second) (le_circuitOpenedAt ep) = now + s * second - le_circuitOpenedAt ep"
    using due np rec by (intro time_Sub_exact) simp
  with due np assms(3) have "fst (before_probe (lm_config m) (now + s * second) ep)"
    by (simp add: before_probe_def)
  with due early s show ?thesis by simp
qed

definition demo_monitor :: LLMHealthMonitor where
  "demo_monitor = \<lparr>lm_config = demo_health, lm_endpoints = [(''llm'', demo_open)], lm_nextCheckAt = 0\<rparr>"

theorem llm_retry_after_exact_witness:
  "RetryAfterSeconds (Some demo_monitor) ''llm'' (100 * second) = 35"
proof -
  have n: "normalizeLLMEndpointName ''llm'' = ''llm''" by code_simp
  have f: "find_endpoint demo_monitor ''llm'' = Some demo_open"
    by (simp add: demo_monitor_def find_endpoint_def n)
  have "monitor_ok demo_monitor"
    using demo_health_ok by (simp add: monitor_ok_def demo_monitor_def)
  from llm_retry_after_exact [OF this f _ _ _ _ _ refl, of "100 * second"]
  have "35 \<le> RetryAfterSeconds (Some demo_monitor) ''llm'' (100 * second) \<and>
      (1 < RetryAfterSeconds (Some demo_monitor) ''llm'' (100 * second) \<longrightarrow>
       RetryAfterSeconds (Some demo_monitor) ''llm'' (100 * second) < 36)"
    by (simp add: demo_open_def second_def)
  then show ?thesis by linarith
qed

end
