(* ===== verification/AI_Limiter.thy ===== *)
theory AI_Limiter
  imports Breaker
begin

text \<open>
  The rate limiter of the Go SDK (\<open>sdk/go/ai/rate_limiter.go\<close>): retries with exponential backoff,
  guarded by a circuit breaker that goroutines share. The mutex makes \<open>admit\<close>, \<open>onResult\<close> and
  \<open>releaseProbe\<close> atomic; the calls in flight between them interleave freely, which the step
  relation at the end describes. The called function, the sleep and the clock are parameters;
  so are the jitter (a float computation over a pseudo-random number) and the parsed
  Retry-After hint. A nil limiter only runs the function.
\<close>

record RateLimiterConfig =
  rc_MaxRetries :: int
  rc_BaseDelay :: duration
  rc_MaxDelay :: duration
  rc_CircuitBreakerThreshold :: int
  rc_CircuitBreakerTimeout :: duration

record RateLimiter =
  rl_config :: RateLimiterConfig
  rl_consecutiveFailures :: int
  rl_openedAt :: instant
  rl_probing :: bool
  rl_open :: bool

definition rateLimiterMinDelay :: duration where "rateLimiterMinDelay = 100 * millisecond"

definition limiter_defaults :: "RateLimiterConfig \<Rightarrow> RateLimiterConfig" where
  "limiter_defaults cfg =
     (let cfg = (if rc_MaxRetries cfg \<le> 0 then cfg\<lparr>rc_MaxRetries := 5\<rparr> else cfg);
          cfg = (if rc_BaseDelay cfg \<le> 0 then cfg\<lparr>rc_BaseDelay := 500 * millisecond\<rparr> else cfg);
          cfg = (if rc_MaxDelay cfg \<le> 0 then cfg\<lparr>rc_MaxDelay := 30 * second\<rparr> else cfg);
          cfg = (if rc_CircuitBreakerThreshold cfg = 0 then cfg\<lparr>rc_CircuitBreakerThreshold := 5\<rparr> else cfg)
      in if rc_CircuitBreakerTimeout cfg \<le> 0 then cfg\<lparr>rc_CircuitBreakerTimeout := 30 * second\<rparr> else cfg)"

definition NewRateLimiter :: "RateLimiterConfig \<Rightarrow> RateLimiter" where
  "NewRateLimiter cfg = \<lparr>rl_config = limiter_defaults cfg, rl_consecutiveFailures = 0, rl_openedAt = 0,
     rl_probing = False, rl_open = False\<rparr>"

subsection \<open>The breaker\<close>

abbreviation rl_threshold :: "RateLimiter \<Rightarrow> int" where
  "rl_threshold r \<equiv> rc_CircuitBreakerThreshold (rl_config r)"

definition stateLocked :: "RateLimiter \<Rightarrow> instant \<Rightarrow> circuit" where
  "stateLocked r now =
     (if \<not> rl_open r then CircuitClosed
      else if rc_CircuitBreakerTimeout (rl_config r) < time_Sub now (rl_openedAt r) then CircuitHalfOpen
      else CircuitOpen)"

definition limiter_State :: "RateLimiter option \<Rightarrow> instant \<Rightarrow> circuit" where
  "limiter_State r now = (case r of None \<Rightarrow> CircuitClosed
     | Some r \<Rightarrow> if rl_threshold r \<le> 0 then CircuitClosed else stateLocked r now)"

text \<open>\<open>(admitted, isProbe)\<close> and the limiter afterwards.\<close>

definition admit :: "instant \<Rightarrow> RateLimiter \<Rightarrow> (bool \<times> bool) \<times> RateLimiter" where
  "admit now r =
     (if rl_threshold r \<le> 0 then ((True, False), r)
      else case stateLocked r now of
             CircuitClosed \<Rightarrow> ((True, False), r)
           | CircuitHalfOpen \<Rightarrow>
               if rl_probing r then ((False, False), r)
               else ((True, True), r\<lparr>rl_probing := True\<rparr>)
           | CircuitOpen \<Rightarrow> ((False, False), r))"

definition onResult :: "instant \<Rightarrow> bool \<Rightarrow> bool \<Rightarrow> RateLimiter \<Rightarrow> RateLimiter" where
  "onResult now isProbe success r =
     (if rl_threshold r \<le> 0 then r
      else
        (let r = (if isProbe then r\<lparr>rl_probing := False\<rparr> else r)
         in if success
            then r\<lparr>rl_consecutiveFailures := 0, rl_open := False, rl_openedAt := 0\<rparr>
            else
              (let r = r\<lparr>rl_consecutiveFailures := rl_consecutiveFailures r + 1\<rparr>
               in if isProbe \<or> rl_threshold r \<le> rl_consecutiveFailures r
                  then r\<lparr>rl_open := True, rl_openedAt := now\<rparr>
                  else r)))"

definition releaseProbe :: "bool \<Rightarrow> RateLimiter \<Rightarrow> RateLimiter" where
  "releaseProbe isProbe r =
     (if rl_threshold r \<le> 0 \<or> \<not> isProbe then r else r\<lparr>rl_probing := False\<rparr>)"

subsection \<open>Rate-limit errors\<close>

text \<open>An error of a call: its text, and the status of the API error in its chain, if any.\<close>

record call_error =
  ce_text :: string
  ce_status :: "int option"
  ce_retryAfter :: duration

definition rateLimitKeywords :: "string list" where
  "rateLimitKeywords =
     [''rate limit'', ''rate-limit'', ''rate_limit'', ''too many requests'', ''quota exceeded'',
      ''temporarily rate-limited'', ''rate limited'', ''requests per'', ''rpm exceeded'',
      ''tpm exceeded'', ''usage limit'', ''throttled'', ''throttling'']"

definition isRateLimitError :: "call_error option \<Rightarrow> bool" where
  "isRateLimitError err =
     (case err of
        None \<Rightarrow> False
      | Some e \<Rightarrow> ce_status e = Some 429 \<or> ce_status e = Some 503 \<or>
          list_ex (Contains (ToLower (ce_text e))) rateLimitKeywords)"

subsection \<open>Backoff\<close>

text \<open>
  The delay before the jitter. The scaling by a power of two is exact in floating point for a
  base delay below \<open>2 ^ 53\<close> nanoseconds. \<open>jitter\<close> is the conversion of \<open>float64(base) + jitter\<close> to a duration.
\<close>

definition backoff_base :: "RateLimiterConfig \<Rightarrow> nat \<Rightarrow> duration \<Rightarrow> duration" where
  "backoff_base cfg attempt retryAfter =
     (if 0 < retryAfter \<and> retryAfter \<le> rc_MaxDelay cfg then retryAfter
      else if rc_MaxDelay cfg < rc_BaseDelay cfg * 2 ^ attempt then rc_MaxDelay cfg
      else rc_BaseDelay cfg * 2 ^ attempt)"

definition backoffDelay :: "(nat \<Rightarrow> duration \<Rightarrow> duration) \<Rightarrow> RateLimiterConfig \<Rightarrow> nat \<Rightarrow> duration \<Rightarrow> duration" where
  "backoffDelay jitter cfg attempt retryAfter =
     (let delay = jitter attempt (backoff_base cfg attempt retryAfter)
      in if delay < rateLimiterMinDelay then rateLimiterMinDelay else delay)"

subsection \<open>A call\<close>

datatype limiter_error = ErrCircuitOpen | ErrMaxRetriesExceeded int call_error
  | CallError call_error | SleepError string

text \<open>
  What one call does between admission and verdict. \<open>fn n\<close> is the error of the attempt number \<open>n\<close>
  (\<open>None\<close>: success), \<open>sleep n d\<close> the error of the sleep of duration \<open>d\<close> after it. The verdict is
  what the call then reports to the breaker: \<open>onResult True\<close>, \<open>onResult False\<close> or \<open>releaseProbe\<close>.
  \<open>NewRateLimiter\<close> makes \<open>maxRetries\<close> positive, so the first attempt is always made.
\<close>

datatype verdict = Succeeded | RateLimited | NoVerdict

function attempts ::
    "(nat \<Rightarrow> duration \<Rightarrow> duration) \<Rightarrow> RateLimiterConfig \<Rightarrow> (nat \<Rightarrow> call_error option) \<Rightarrow>
     (nat \<Rightarrow> duration \<Rightarrow> string option) \<Rightarrow> nat \<Rightarrow> verdict \<times> limiter_error option" where
  "attempts jitter cfg fn sleep attempt =
     (case fn attempt of
        None \<Rightarrow> (Succeeded, None)
      | Some err \<Rightarrow>
          if \<not> isRateLimitError (Some err) then (NoVerdict, Some (CallError err))
          else if rc_MaxRetries cfg \<le> int attempt
          then (RateLimited, Some (ErrMaxRetriesExceeded (rc_MaxRetries cfg) err))
          else (case sleep attempt (backoffDelay jitter cfg attempt (ce_retryAfter err)) of
                  Some e \<Rightarrow> (NoVerdict, Some (SleepError e))
                | None \<Rightarrow> attempts jitter cfg fn sleep (Suc attempt)))"
  by pat_completeness auto
termination
  by (relation "measure (\<lambda>(jitter, cfg, fn, sleep, attempt). nat (rc_MaxRetries cfg - int attempt))") auto

declare attempts.simps [simp del]

definition report :: "instant \<Rightarrow> bool \<Rightarrow> verdict \<Rightarrow> RateLimiter \<Rightarrow> RateLimiter" where
  "report now isProbe v r =
     (case v of Succeeded \<Rightarrow> onResult now isProbe True r
      | RateLimited \<Rightarrow> onResult now isProbe False r
      | NoVerdict \<Rightarrow> releaseProbe isProbe r)"

text \<open>
  \<open>Execute\<close> on a limiter nobody else uses meanwhile; \<open>now1\<close> is the clock at admission, \<open>now2\<close> at
  the report.
\<close>

definition Execute ::
    "(nat \<Rightarrow> duration \<Rightarrow> duration) \<Rightarrow> (nat \<Rightarrow> call_error option) \<Rightarrow> (nat \<Rightarrow> duration \<Rightarrow> string option) \<Rightarrow>
     instant \<Rightarrow> instant \<Rightarrow> RateLimiter \<Rightarrow> limiter_error option \<times> RateLimiter" where
  "Execute jitter fn sleep now1 now2 r =
     (case admit now1 r of
        ((admitted, isProbe), r) \<Rightarrow>
          if \<not> admitted then (Some ErrCircuitOpen, r)
          else (case attempts jitter (rl_config r) fn sleep 0 of
                  (v, err) \<Rightarrow> (err, report now2 isProbe v r)))"

subsection \<open>Goroutines\<close>

text \<open>
  The limiter with the calls in flight, each with its probe flag: a call is admitted (a rejected
  one returns at once), a call in flight reports, and time passes.
\<close>

record limiter_system =
  ls_limiter :: RateLimiter
  ls_inflight :: "bool list"
  ls_now :: instant

inductive limiter_step :: "limiter_system \<Rightarrow> limiter_system \<Rightarrow> bool" where
  arrive: "admit (ls_now s) (ls_limiter s) = ((admitted, isProbe), r) \<Longrightarrow>
     limiter_step s (s\<lparr>ls_limiter := r, ls_inflight := ls_inflight s @ (if admitted then [isProbe] else [])\<rparr>)"
| finish: "ls_inflight s = xs @ isProbe # ys \<Longrightarrow>
     limiter_step s (s\<lparr>ls_limiter := report (ls_now s) isProbe v (ls_limiter s), ls_inflight := xs @ ys\<rparr>)"
| pass_time: "ls_now s \<le> t \<Longrightarrow> limiter_step s (s\<lparr>ls_now := t\<rparr>)"

inductive_cases limiter_stepE: "limiter_step s s'"

definition limiter_start :: "RateLimiterConfig \<Rightarrow> instant \<Rightarrow> limiter_system" where
  "limiter_start cfg t = \<lparr>ls_limiter = NewRateLimiter cfg, ls_inflight = [], ls_now = t\<rparr>"

subsection \<open>The breaker as a failure counter\<close>

lemma limiter_defaults_pos:
  "0 < rc_MaxRetries (limiter_defaults cfg)" "0 < rc_BaseDelay (limiter_defaults cfg)"
  "0 < rc_MaxDelay (limiter_defaults cfg)" "0 < rc_CircuitBreakerTimeout (limiter_defaults cfg)"
  "rc_CircuitBreakerThreshold (limiter_defaults cfg) \<noteq> 0"
  by (simp_all add: limiter_defaults_def Let_def duration_units)

lemma limiter_config [simp]:
  "rl_config (onResult now p v r) = rl_config r" "rl_config (releaseProbe p r) = rl_config r"
  "rl_config (report now p w r) = rl_config r" "rl_config (snd (admit now r)) = rl_config r"
  "rl_config (NewRateLimiter cfg) = limiter_defaults cfg"
  by (auto simp: onResult_def releaseProbe_def report_def admit_def NewRateLimiter_def Let_def
      split: verdict.splits circuit.splits)

definition ordinary_result :: "bool \<Rightarrow> instant \<Rightarrow> RateLimiter \<Rightarrow> RateLimiter" where
  "ordinary_result success now r = onResult now False success r"

interpretation limiter: failure_counter
    "\<lambda>r. \<not> rl_open r \<and> rl_config r = cfg \<and> 0 < rc_CircuitBreakerThreshold cfg" rl_consecutiveFailures
    "rc_CircuitBreakerThreshold cfg" ordinary_result for cfg
  by unfold_locales (auto simp: ordinary_result_def onResult_def Let_def)

definition result_history :: "(bool \<times> instant) list \<Rightarrow> RateLimiter \<Rightarrow> RateLimiter" where
  "result_history vs r = fold (\<lambda>(v, t). ordinary_result v t) vs r"

lemma result_history_after: "result_history vs r = limiter.after vs r"
  by (induction vs arbitrary: r) (auto simp: result_history_def)

lemma result_history_config [simp]: "rl_config (result_history vs r) = rl_config r"
proof (induction vs arbitrary: r)
  case (Cons x vs)
  then show ?case by (cases x) (simp add: result_history_def ordinary_result_def)
qed (simp add: result_history_def)

subsection \<open>Calls in flight\<close>

definition probes :: "bool list \<Rightarrow> nat" where
  "probes bs = length (filter id bs)"

lemma probes_simps [simp]:
  "probes [] = 0" "probes (b # bs) = (if b then Suc (probes bs) else probes bs)"
  "probes (xs @ ys) = probes xs + probes ys"
  by (simp_all add: probes_def)

definition system_ok :: "limiter_system \<Rightarrow> bool" where
  "system_ok s \<longleftrightarrow> probes (ls_inflight s) = (if rl_probing (ls_limiter s) then 1 else 0) \<and>
     (rl_threshold (ls_limiter s) \<le> 0 \<longrightarrow> \<not> rl_probing (ls_limiter s)) \<and>
     0 \<le> rl_consecutiveFailures (ls_limiter s)"

lemma report_probing:
  "rl_probing (report now p v r) \<longleftrightarrow> (if rl_threshold r \<le> 0 \<or> \<not> p then rl_probing r else False)"
  by (auto simp: report_def onResult_def releaseProbe_def Let_def split: verdict.splits)

lemma report_failures:
  "0 \<le> rl_consecutiveFailures r \<Longrightarrow> 0 \<le> rl_consecutiveFailures (report now p v r)"
  by (auto simp: report_def onResult_def releaseProbe_def Let_def split: verdict.splits)

lemma admit_cases:
  assumes "admit now r = ((a, p), r')"
  shows "(p \<longrightarrow> a \<and> \<not> rl_probing r \<and> r' = r\<lparr>rl_probing := True\<rparr> \<and> 0 < rl_threshold r) \<and> (\<not> p \<longrightarrow> r' = r)"
  using assms by (auto simp: admit_def split: if_splits circuit.splits)

lemma limiter_step_ok: "limiter_step s s' \<Longrightarrow> system_ok s \<Longrightarrow> system_ok s'"
proof (induction rule: limiter_step.induct)
  case (arrive s admitted isProbe r)
  from admit_cases [OF arrive.hyps] arrive.prems show ?case
    by (cases isProbe) (auto simp: system_ok_def)
next
  case (finish s xs isProbe ys v)
  then show ?case
    by (auto simp: system_ok_def report_probing report_failures split: if_splits)
qed (simp add: system_ok_def)

lemma limiter_start_ok: "system_ok (limiter_start cfg t)"
  by (simp add: system_ok_def limiter_start_def NewRateLimiter_def)

lemma limiter_reach_ok: "limiter_step\<^sup>*\<^sup>* (limiter_start cfg t) s \<Longrightarrow> system_ok s"
  by (induction rule: rtranclp_induct) (auto intro: limiter_step_ok limiter_start_ok)

lemma limiter_step_config: "limiter_step s s' \<Longrightarrow> rl_config (ls_limiter s') = rl_config (ls_limiter s)"
proof (induction rule: limiter_step.induct)
  case (arrive s admitted isProbe r)
  then have "r = snd (admit (ls_now s) (ls_limiter s))" by simp
  then show ?case by simp
qed simp_all

subsection \<open>The attempts of a call\<close>

definition attempt_outcome ::
    "RateLimiterConfig \<Rightarrow> (nat \<Rightarrow> call_error option) \<Rightarrow> (nat \<Rightarrow> duration \<Rightarrow> string option) \<Rightarrow> nat \<Rightarrow> verdict \<Rightarrow>
     limiter_error option \<Rightarrow> bool" where
  "attempt_outcome cfg fn sleep n v err \<longleftrightarrow> (case v of
        Succeeded \<Rightarrow> fn n = None \<and> err = None
      | RateLimited \<Rightarrow> n = nat (rc_MaxRetries cfg) \<and> isRateLimitError (fn n) \<and>
          err = map_option (ErrMaxRetriesExceeded (rc_MaxRetries cfg)) (fn n)
      | NoVerdict \<Rightarrow> (\<not> isRateLimitError (fn n) \<and> fn n \<noteq> None \<and> err = map_option CallError (fn n)) \<or>
          (isRateLimitError (fn n) \<and> (\<exists>d e. sleep n d = Some e \<and> err = Some (SleepError e))))"

lemma attempts_from:
  "int k \<le> rc_MaxRetries cfg \<Longrightarrow> attempts jitter cfg fn sleep k = (v, err) \<Longrightarrow>
   \<exists>n \<ge> k. n \<le> nat (rc_MaxRetries cfg) \<and> (\<forall>i < n. k \<le> i \<longrightarrow> isRateLimitError (fn i)) \<and>
     attempt_outcome cfg fn sleep n v err"
proof (induction jitter cfg fn sleep k rule: attempts.induct)
  case (1 jitter cfg fn sleep k)
  show ?case
  proof (cases "fn k")
    case None
    with "1.prems" show ?thesis
      by (intro exI [of _ k]) (auto simp: attempts.simps [of jitter cfg fn sleep k] attempt_outcome_def)
  next
    case (Some e)
    note unf = attempts.simps [of jitter cfg fn sleep k] Some
    show ?thesis
    proof (cases "isRateLimitError (Some e) \<and> int k < rc_MaxRetries cfg \<and>
        sleep k (backoffDelay jitter cfg k (ce_retryAfter e)) = None")
      case True
      then have "attempts jitter cfg fn sleep (Suc k) = (v, err)" using "1.prems" by (simp add: unf)
      then obtain n where n: "n \<ge> Suc k" "n \<le> nat (rc_MaxRetries cfg)"
        "\<forall>i < n. Suc k \<le> i \<longrightarrow> isRateLimitError (fn i)" "attempt_outcome cfg fn sleep n v err"
        using "1.IH" [OF Some] True by auto
      have "\<forall>i < n. k \<le> i \<longrightarrow> isRateLimitError (fn i)"
        using n(3) True Some by (metis le_eq_less_or_eq Suc_leI)
      with n show ?thesis by (intro exI [of _ n]) simp
    next
      case False
      with "1.prems" Some show ?thesis
        by (intro exI [of _ k]) (auto simp: unf attempt_outcome_def split: if_splits option.splits)
    qed
  qed
qed

text \<open>The delay without the jitter doubles up to its cap.\<close>

lemma backoff_base_min:
  "retryAfter \<le> 0 \<Longrightarrow> backoff_base cfg n retryAfter = min (rc_MaxDelay cfg) (rc_BaseDelay cfg * 2 ^ n)"
  by (simp add: backoff_base_def)

lemma backoff_base_bounds:
  "0 < rc_BaseDelay cfg \<Longrightarrow> 0 < rc_MaxDelay cfg \<Longrightarrow>
     0 < backoff_base cfg n retryAfter \<and> backoff_base cfg n retryAfter \<le> rc_MaxDelay cfg"
  by (auto simp: backoff_base_def)

subsection \<open>Properties\<close>

text \<open>
  C22. Among the goroutines that share a rate limiter at most one holds the half-open probe, in
  every interleaving of arrivals, reports and passing time; and the probe slot is taken exactly while that call is
  in flight, so a call that ends in an error of its own, or is cancelled, never leaves the
  breaker waiting for a probe that is gone.
\<close>
theorem limiter_one_probe:
  assumes "limiter_step\<^sup>*\<^sup>* (limiter_start cfg t) s"
  shows "length (filter id (ls_inflight s)) \<le> 1 \<and>
     (rl_probing (ls_limiter s) \<longleftrightarrow> True \<in> set (ls_inflight s))"
proof -
  have "probes bs = 0 \<longleftrightarrow> True \<notin> set bs" for bs
    by (induction bs) auto
  note p = this [of "ls_inflight s"]
  show ?thesis
    using limiter_reach_ok [OF assms] p unfolding probes_def [symmetric]
    by (cases "rl_probing (ls_limiter s)") (simp_all add: system_ok_def)
qed

definition demo_limiter :: RateLimiterConfig where
  "demo_limiter = \<lparr>rc_MaxRetries = 0, rc_BaseDelay = 0, rc_MaxDelay = 0, rc_CircuitBreakerThreshold = 1,
     rc_CircuitBreakerTimeout = 0\<rparr>"

theorem limiter_one_probe_witness:
  "\<exists>s. limiter_step\<^sup>*\<^sup>* (limiter_start demo_limiter 0) s \<and> ls_inflight s = [False] \<and>
     \<not> rl_probing (ls_limiter s)"
proof -
  let ?s = "(limiter_start demo_limiter 0)\<lparr>ls_inflight := [False]\<rparr>"
  have "limiter_step (limiter_start demo_limiter 0)
      ((limiter_start demo_limiter 0)\<lparr>ls_limiter := NewRateLimiter demo_limiter,
        ls_inflight := ls_inflight (limiter_start demo_limiter 0) @ (if True then [False] else [])\<rparr>)"
    by (rule limiter_step.arrive)
      (simp add: limiter_start_def admit_def stateLocked_def NewRateLimiter_def)
  then have "limiter_step\<^sup>*\<^sup>* (limiter_start demo_limiter 0) ?s"
    by (simp add: limiter_start_def)
  with limiter_one_probe [OF this] show ?thesis by (intro exI [of _ ?s]) simp
qed

text \<open>
  The breaker never stays shut for good: in a reachable state without a probe in flight, once the timeout
  after the last opening has passed, the next call is admitted as the probe; if it succeeds the circuit is
  closed with no failures counted, if it is rate-limited the circuit is open again from that
  instant.
\<close>
theorem limiter_recovers:
  assumes "limiter_step\<^sup>*\<^sup>* (limiter_start cfg t) s" and "True \<notin> set (ls_inflight s)"
    and "stateLocked (ls_limiter s) now = CircuitHalfOpen" and "0 < rl_threshold (ls_limiter s)"
  shows "\<exists>r. admit now (ls_limiter s) = ((True, True), r) \<and>
     stateLocked (report later True Succeeded r) later' = CircuitClosed \<and>
     rl_consecutiveFailures (report later True Succeeded r) = 0 \<and>
     rl_open (report later True RateLimited r) \<and> rl_openedAt (report later True RateLimited r) = later"
proof -
  have "probes bs = 0" if "True \<notin> set bs" for bs
    using that by (induction bs) auto
  then have "\<not> rl_probing (ls_limiter s)"
    using limiter_reach_ok [OF assms(1)] assms(2) by (auto simp: system_ok_def split: if_splits)
  with assms(3,4) show ?thesis
    by (simp add: admit_def report_def onResult_def Let_def stateLocked_def)
qed

lemma demo_limiter_sel [simp]:
  "rc_CircuitBreakerThreshold (limiter_defaults demo_limiter) = 1"
  "rc_CircuitBreakerTimeout (limiter_defaults demo_limiter) = 30 * second"
  by (simp_all add: limiter_defaults_def demo_limiter_def Let_def)

theorem limiter_recovers_witness:
  "\<exists>s r. limiter_step\<^sup>*\<^sup>* (limiter_start demo_limiter 0) s \<and> rl_open (ls_limiter s) \<and>
     admit (31 * second) (ls_limiter s) = ((True, True), r)"
proof -
  let ?s0 = "limiter_start demo_limiter 0"
  let ?s1 = "?s0\<lparr>ls_inflight := [False]\<rparr>"
  let ?s2 = "?s1\<lparr>ls_limiter := report 0 False RateLimited (NewRateLimiter demo_limiter), ls_inflight := []\<rparr>"
  have "limiter_step ?s0 (?s0\<lparr>ls_limiter := NewRateLimiter demo_limiter,
        ls_inflight := ls_inflight ?s0 @ (if True then [False] else [])\<rparr>)"
    by (rule limiter_step.arrive)
      (simp add: limiter_start_def admit_def stateLocked_def NewRateLimiter_def)
  then have 1: "limiter_step ?s0 ?s1" by (simp add: limiter_start_def)
  have "limiter_step ?s1 (?s1\<lparr>ls_limiter := report (ls_now ?s1) False RateLimited (ls_limiter ?s1),
        ls_inflight := [] @ []\<rparr>)"
    by (rule limiter_step.finish) simp
  then have 2: "limiter_step ?s1 ?s2" by (simp add: limiter_start_def)
  have r: "limiter_step\<^sup>*\<^sup>* ?s0 ?s2"
    by (rule converse_rtranclp_into_rtranclp [of limiter_step, OF 1 r_into_rtranclp [of limiter_step, OF 2]])
  have open': "rl_open (ls_limiter ?s2)" "rl_openedAt (ls_limiter ?s2) = 0"
    by (simp_all add: report_def onResult_def NewRateLimiter_def Let_def)
  have h: "stateLocked (ls_limiter ?s2) (31 * second) = CircuitHalfOpen"
    using open' by (simp add: stateLocked_def time_Sub_def second_def)
  obtain r' where "admit (31 * second) (ls_limiter ?s2) = ((True, True), r')"
    using limiter_recovers [OF r _ h, of 0 0] by auto
  with r open'(1) show ?thesis by (intro exI conjI) assumption+
qed

text \<open>
  The circuit of a new limiter opens in the course of a series of ordinary calls exactly when the series
  contains as many consecutive rate-limited calls as the threshold.
\<close>
theorem limiter_opens:
  assumes "0 < rc_CircuitBreakerThreshold cfg"
  shows "(\<exists>n \<le> length vs. rl_open (result_history (take n vs) (NewRateLimiter cfg))) \<longleftrightarrow>
    sublist (replicate (nat (rc_CircuitBreakerThreshold cfg)) False) (map fst vs)"
proof -
  have t: "rc_CircuitBreakerThreshold (limiter_defaults cfg) = rc_CircuitBreakerThreshold cfg"
    using assms by (simp add: limiter_defaults_def Let_def)
  have "(\<not> rl_open (result_history xs (NewRateLimiter cfg)) \<and>
      rl_config (result_history xs (NewRateLimiter cfg)) = limiter_defaults cfg \<and>
      0 < rc_CircuitBreakerThreshold (limiter_defaults cfg)) = (\<not> rl_open (result_history xs (NewRateLimiter cfg)))" for xs
    using assms t by simp
  then show ?thesis
    using limiter.opens_iff_run [of "NewRateLimiter cfg" "limiter_defaults cfg" vs] assms t
    by (simp add: result_history_after [symmetric]) (simp add: NewRateLimiter_def)
qed

theorem limiter_opens_witness:
  "\<exists>n \<le> 1. rl_open (result_history (take n [(False, 7)]) (NewRateLimiter demo_limiter))"
  using limiter_opens [of demo_limiter "[(False, 7)]"] by (simp add: demo_limiter_def)

text \<open>
  C23. What a call does with its attempts: they stop at the first one that succeeds, fails for another reason than
  rate limiting, exhausts the retries or is followed by a cancelled sleep. So there are at most
  \<open>maxRetries + 1\<close> of them, the outcome is that of the last one, and the retries are reported as exhausted only after
  that many rate-limited attempts.
\<close>
theorem limiter_attempts:
  assumes "0 < rc_MaxRetries cfg" and "attempts jitter cfg fn sleep 0 = (v, err)"
  shows "\<exists>n \<le> nat (rc_MaxRetries cfg).
     (\<forall>i < n. isRateLimitError (fn i)) \<and>
     (case v of
        Succeeded \<Rightarrow> fn n = None \<and> err = None
      | RateLimited \<Rightarrow> n = nat (rc_MaxRetries cfg) \<and> isRateLimitError (fn n) \<and>
          err = map_option (ErrMaxRetriesExceeded (rc_MaxRetries cfg)) (fn n)
      | NoVerdict \<Rightarrow> (\<not> isRateLimitError (fn n) \<and> fn n \<noteq> None \<and> err = map_option CallError (fn n)) \<or>
          (isRateLimitError (fn n) \<and> (\<exists>d e. sleep n d = Some e \<and> err = Some (SleepError e))))"
  using attempts_from [of 0 cfg jitter fn sleep v err] assms
  unfolding attempt_outcome_def [symmetric] by auto

theorem limiter_attempts_witness:
  "attempts (\<lambda>_ d. d) (limiter_defaults demo_limiter) (\<lambda>n. if n = 0
      then Some \<lparr>ce_text = ''boom'', ce_status = Some 429, ce_retryAfter = 0\<rparr> else None) (\<lambda>_ _. None) 0 =
     (Succeeded, None)"
proof -
  let ?fn = "\<lambda>n. if n = (0::nat) then Some \<lparr>ce_text = ''boom'', ce_status = Some 429, ce_retryAfter = 0\<rparr> else None"
  obtain v err where r: "attempts (\<lambda>_ d. d) (limiter_defaults demo_limiter) ?fn (\<lambda>_ _. None) 0 = (v, err)"
    by fastforce
  have m: "0 < rc_MaxRetries (limiter_defaults demo_limiter)" by (rule limiter_defaults_pos)
  then have "nat (rc_MaxRetries (limiter_defaults demo_limiter)) \<noteq> 0" by simp
  with limiter_attempts [OF m r] have "v = Succeeded \<and> err = None"
    by (cases v) (auto simp: isRateLimitError_def split: if_splits)
  with r show ?thesis by simp
qed

text \<open>
  The delays of a limiter with default configuration values filled in: without a server hint the delay
  before the jitter is the base delay doubled per attempt and capped by the maximum; a hint is honoured
  when it is positive and within the maximum; and with a jitter of at most a quarter of it, every delay lies
  between 100 ms and five quarters of the maximum (or 100 ms, if that is more).
\<close>
theorem limiter_backoff_bounds:
  assumes "\<And>n b. 0 \<le> b \<Longrightarrow> \<bar>jitter n b - b\<bar> \<le> b div 4" and "c = limiter_defaults cfg"
  shows "(hint \<le> 0 \<longrightarrow> backoff_base c n hint = min (rc_MaxDelay c) (rc_BaseDelay c * 2 ^ n)) \<and>
     (0 < hint \<and> hint \<le> rc_MaxDelay c \<longrightarrow> backoff_base c n hint = hint) \<and>
     rateLimiterMinDelay \<le> backoffDelay jitter c n hint \<and>
     backoffDelay jitter c n hint \<le> max rateLimiterMinDelay (rc_MaxDelay c + rc_MaxDelay c div 4)"
proof -
  let ?b = "backoff_base c n hint"
  have b: "0 < ?b" "?b \<le> rc_MaxDelay c"
    using backoff_base_bounds limiter_defaults_pos assms(2) by blast+
  then have "\<bar>jitter n ?b - ?b\<bar> \<le> ?b div 4" using assms(1) by simp
  moreover have "?b div 4 \<le> rc_MaxDelay c div 4" using b(2) by (simp add: zdiv_mono1)
  ultimately have "jitter n ?b \<le> rc_MaxDelay c + rc_MaxDelay c div 4" using b(2) by linarith
  then show ?thesis
    by (auto simp: backoffDelay_def Let_def backoff_base_min) (simp add: backoff_base_def)
qed

theorem limiter_backoff_bounds_witness:
  "backoff_base (limiter_defaults demo_limiter) 3 0 = 4 * second"
  using limiter_backoff_bounds [of "\<lambda>_ b. b", OF _ refl, of 0 demo_limiter 3]
  by (simp add: limiter_defaults_def demo_limiter_def Let_def duration_units)

end
