(* ===== verification/Node_Store.thy ===== *)
theory Node_Store
  imports Prelude "HOL-Library.State_Monad" "HOL-Library.AList" "HOL-Library.List_Lexorder" "HOL-Library.Char_ord"
begin

text \<open>
  The nodes of the fleet as the control plane sees them (\<open>pkg/types/types.go\<close>), the table
  \<open>agent_nodes\<close> (\<open>internal/storage/local.go\<close>), and the state the status services share: the table,
  the caches and registries in memory, the events published and the goroutines started.

  The enumerations are open, as the code's string types are: a word that is no constant is kept by
  the \<open>Other\<close> constructors. Of a row the fields that no modelled operation reads or writes
  (reasoners, skills, features, metadata, callback discovery) are left out. A Go map that is
  iterated is an association list, whose order is the order of the iteration.
\<close>

subsection \<open>Status words\<close>

datatype HealthStatus = HealthActive | HealthInactive | HealthDegraded | HealthUnknown | OtherHealth string

datatype AgentLifecycleStatus = LcStarting | LcReady | LcDegraded | LcOffline | LcPendingApproval | OtherLc string

abbreviation LcEmpty :: AgentLifecycleStatus where "LcEmpty \<equiv> OtherLc []"

datatype AgentState = StateActive | StateInactive | StateStarting | StateStopping | OtherState string

datatype StatusSource = SourceHeartbeat | SourceHealthCheck | SourceManual | SourceReconcile | SourcePresence

definition lifecycle_of :: "string \<Rightarrow> AgentLifecycleStatus" where
  "lifecycle_of s = (if s = ''starting'' then LcStarting else if s = ''ready'' then LcReady
     else if s = ''degraded'' then LcDegraded else if s = ''offline'' then LcOffline
     else if s = ''pending_approval'' then LcPendingApproval else OtherLc s)"

primrec state_word :: "AgentState \<Rightarrow> string" where
  "state_word StateActive = ''active''"
| "state_word StateInactive = ''inactive''"
| "state_word StateStarting = ''starting''"
| "state_word StateStopping = ''stopping''"
| "state_word (OtherState s) = s"

primrec source_word :: "StatusSource \<Rightarrow> string" where
  "source_word SourceHeartbeat = ''heartbeat''"
| "source_word SourceHealthCheck = ''health_check''"
| "source_word SourceManual = ''manual''"
| "source_word SourceReconcile = ''reconcile''"
| "source_word SourcePresence = ''presence''"

subsection \<open>Nodes and their status\<close>

record AgentNode =
  an_ID :: string
  an_GroupID :: string
  an_TeamID :: string
  an_BaseURL :: string
  an_Version :: string
  an_TrafficWeight :: int
  an_DeploymentType :: string
  an_HealthStatus :: HealthStatus
  an_LifecycleStatus :: AgentLifecycleStatus
  an_LastHeartbeat :: instant
  an_RegisteredAt :: instant
  an_InstanceID :: string
  an_ProposedTags :: "string list"
  an_ApprovedTags :: "string list"

record StateTransition =
  str_From :: AgentState
  str_To :: AgentState
  str_StartedAt :: instant
  str_Reason :: string

record AgentStatus =
  as_State :: AgentState
  as_HealthScore :: int
  as_LastSeen :: instant
  as_LifecycleStatus :: AgentLifecycleStatus
  as_HealthStatus :: HealthStatus
  as_StateTransition :: "StateTransition option"
  as_LastUpdated :: instant
  as_LastVerified :: "instant option"
  as_Source :: StatusSource

record AgentStatusUpdate =
  au_State :: "AgentState option"
  au_HealthScore :: "int option"
  au_LifecycleStatus :: "AgentLifecycleStatus option"
  au_Source :: StatusSource
  au_Reason :: string
  au_Version :: string

definition ToLegacyHealthStatus :: "AgentStatus \<Rightarrow> HealthStatus" where
  "ToLegacyHealthStatus s =
     (case as_State s of
        StateActive \<Rightarrow> HealthActive
      | StateInactive \<Rightarrow> HealthInactive
      | StateStopping \<Rightarrow> HealthInactive
      | _ \<Rightarrow> HealthUnknown)"

definition ToLegacyLifecycleStatus :: "AgentStatus \<Rightarrow> AgentLifecycleStatus" where
  "ToLegacyLifecycleStatus s =
     (if as_LifecycleStatus s \<noteq> LcEmpty then as_LifecycleStatus s
      else case as_State s of
        StateActive \<Rightarrow> if 90 \<le> as_HealthScore s then LcReady
                       else if 50 \<le> as_HealthScore s then LcDegraded else LcReady
      | StateStarting \<Rightarrow> LcStarting
      | _ \<Rightarrow> LcOffline)"

definition NewAgentStatus :: "instant \<Rightarrow> AgentState \<Rightarrow> StatusSource \<Rightarrow> AgentStatus" where
  "NewAgentStatus now st src = \<lparr>as_State = st, as_HealthScore = 100, as_LastSeen = now,
     as_LifecycleStatus = LcStarting, as_HealthStatus = HealthUnknown, as_StateTransition = None,
     as_LastUpdated = now, as_LastVerified = None, as_Source = src\<rparr>"

definition legacy_state :: "HealthStatus \<Rightarrow> AgentLifecycleStatus \<Rightarrow> AgentState \<times> int" where
  "legacy_state h l =
     (case h of
        HealthActive \<Rightarrow> (StateActive, 85)
      | HealthInactive \<Rightarrow> (StateInactive, 0)
      | _ \<Rightarrow> (case l of
            LcReady \<Rightarrow> (StateActive, 90)
          | LcStarting \<Rightarrow> (StateStarting, 50)
          | LcDegraded \<Rightarrow> (StateActive, 60)
          | _ \<Rightarrow> (StateInactive, 0)))"

definition FromLegacyStatus :: "instant \<Rightarrow> HealthStatus \<Rightarrow> AgentLifecycleStatus \<Rightarrow> instant \<Rightarrow> AgentStatus" where
  "FromLegacyStatus now h l lastHeartbeat = \<lparr>as_State = fst (legacy_state h l),
     as_HealthScore = snd (legacy_state h l), as_LastSeen = lastHeartbeat, as_LifecycleStatus = l,
     as_HealthStatus = h, as_StateTransition = None, as_LastUpdated = now, as_LastVerified = None,
     as_Source = SourceReconcile\<rparr>"

definition StartTransition :: "instant \<Rightarrow> AgentState \<Rightarrow> string \<Rightarrow> AgentStatus \<Rightarrow> AgentStatus" where
  "StartTransition now to reason s = s\<lparr>as_StateTransition := Some \<lparr>str_From = as_State s, str_To = to,
     str_StartedAt = now, str_Reason = reason\<rparr>, as_LastUpdated := now\<rparr>"

definition CompleteTransition :: "instant \<Rightarrow> AgentStatus \<Rightarrow> AgentStatus" where
  "CompleteTransition now s =
     (case as_StateTransition s of
        None \<Rightarrow> s
      | Some t \<Rightarrow>
          (let s = s\<lparr>as_State := str_To t, as_StateTransition := None, as_LastUpdated := now\<rparr>;
               s = s\<lparr>as_HealthStatus := ToLegacyHealthStatus s\<rparr>
           in s\<lparr>as_LifecycleStatus := ToLegacyLifecycleStatus s\<rparr>))"

definition heartbeat_status :: "instant \<Rightarrow> AgentLifecycleStatus option \<Rightarrow> AgentStatus \<Rightarrow> AgentStatus" where
  "heartbeat_status now l s =
     (let s = s\<lparr>as_LastSeen := now, as_LastUpdated := now, as_Source := SourceHeartbeat\<rparr>;
          s = (case l of
                 None \<Rightarrow> s
               | Some lc \<Rightarrow>
                   (let s = s\<lparr>as_LifecycleStatus := lc\<rparr>
                    in case lc of
                         LcReady \<Rightarrow> s\<lparr>as_State := StateActive,
                           as_HealthScore := (if as_HealthScore s < 70 then 85 else as_HealthScore s)\<rparr>
                       | LcStarting \<Rightarrow> s\<lparr>as_State := StateStarting, as_HealthScore := 50\<rparr>
                       | LcDegraded \<Rightarrow> s\<lparr>as_State := StateActive, as_HealthScore := 60\<rparr>
                       | LcOffline \<Rightarrow> s\<lparr>as_State := StateInactive, as_HealthScore := 0\<rparr>
                       | _ \<Rightarrow> s))
      in s\<lparr>as_HealthStatus := ToLegacyHealthStatus s\<rparr>)"

subsection \<open>The shared state\<close>

record cachedAgentStatus =
  cas_Status :: AgentStatus
  cas_Timestamp :: instant

record presenceLease =
  ple_LastSeen :: instant
  ple_LastExpired :: instant
  ple_MarkedOffline :: bool
  ple_Version :: string

record ActiveAgent =
  aa_NodeID :: string
  aa_BaseURL :: string
  aa_LastStatus :: HealthStatus
  aa_LastChecked :: instant
  aa_ConsecutiveFailures :: int
  aa_LastTransition :: instant

record CachedNodeData =
  cnd_LastDBUpdate :: instant
  cnd_LastCacheUpdate :: instant
  cnd_Status :: string

datatype node_event =
    UnifiedStatusChanged string AgentStatus AgentStatus string
  | NodeOnline string AgentNode
  | NodeOffline string AgentNode
  | NodeHealthChanged string HealthStatus AgentNode
  | NodeStatusRefreshed string AgentStatus
  | HandlersNotified string AgentStatus AgentStatus
  | UIStatusChanged AgentNode

datatype node_job = HeartbeatWrite string string | ExpireCallback string

text \<open>
  \<open>fl_now\<close> is the clock, \<open>fl_fault\<close> says which storage calls fail (by their number), and
  \<open>fl_probe\<close> what the status endpoint of a node answers (by the number of the probe; \<open>None\<close> when the
  call fails).
\<close>

record fleet =
  fl_rows :: "AgentNode list"
  fl_cache :: "string \<Rightarrow> cachedAgentStatus option"
  fl_leases :: "string \<Rightarrow> instant option"
  fl_presence :: "(string \<times> presenceLease) list"
  fl_monitored :: "(string \<times> ActiveAgent) list"
  fl_heartbeats :: "string \<Rightarrow> CachedNodeData option"
  fl_events :: "node_event list"
  fl_jobs :: "node_job list"
  fl_now :: instant
  fl_calls :: nat
  fl_fault :: "nat \<Rightarrow> goerr option"
  fl_probes :: nat
  fl_probe :: "nat \<Rightarrow> string \<Rightarrow> string option"

type_synonym 'a fop = "(fleet, 'a) state"

definition getf :: "(fleet \<Rightarrow> 'a) \<Rightarrow> 'a fop" where
  "getf g = State (\<lambda>w. (g w, w))"

definition modf :: "(fleet \<Rightarrow> fleet) \<Rightarrow> unit fop" where
  "modf h = State (\<lambda>w. ((), h w))"

abbreviation now_is :: "instant fop" where "now_is \<equiv> getf fl_now"

definition sql :: "(fleet \<Rightarrow> (goerr + 'a) \<times> fleet) \<Rightarrow> (goerr + 'a) fop" where
  "sql tx = State (\<lambda>w.
     let w' = w\<lparr>fl_calls := Suc (fl_calls w)\<rparr>
     in case fl_fault w (fl_calls w) of Some e \<Rightarrow> (Inl e, w') | None \<Rightarrow> tx w')"

definition probe_node :: "string \<Rightarrow> string option fop" where
  "probe_node k = State (\<lambda>w. (fl_probe w (fl_probes w) k, w\<lparr>fl_probes := Suc (fl_probes w)\<rparr>))"

definition publish_node :: "node_event \<Rightarrow> unit fop" where
  "publish_node e = modf (\<lambda>w. w\<lparr>fl_events := fl_events w @ [e]\<rparr>)"

definition spawn :: "node_job \<Rightarrow> unit fop" where
  "spawn j = modf (\<lambda>w. w\<lparr>fl_jobs := fl_jobs w @ [j]\<rparr>)"

subsection \<open>The table\<close>

text \<open>
  \<open>GetAgent\<close> takes the row without a version, and otherwise the one whose version sorts first. The
  rows of one node differ in their versions.
\<close>

definition select_agent :: "string \<Rightarrow> AgentNode list \<Rightarrow> AgentNode option" where
  "select_agent k rows = (case sort_key (\<lambda>a. (an_Version a \<noteq> [], an_Version a))
       (filter (\<lambda>a. an_ID a = k) rows) of [] \<Rightarrow> None | a # _ \<Rightarrow> Some a)"

definition GetAgent :: "string \<Rightarrow> (goerr + AgentNode) fop" where
  "GetAgent k = sql (\<lambda>w. (case select_agent k (fl_rows w) of
       None \<Rightarrow> Inl (Errorf (''agent node with ID '' @ quoted k @ '' not found''))
     | Some a \<Rightarrow> Inr a, w))"

definition GetAgentVersion :: "string \<Rightarrow> string \<Rightarrow> (goerr + AgentNode) fop" where
  "GetAgentVersion k v = sql (\<lambda>w. (case find (\<lambda>a. an_ID a = k \<and> an_Version a = v) (fl_rows w) of
       None \<Rightarrow> Inl (Errorf ''agent node not found'')
     | Some a \<Rightarrow> Inr a, w))"

definition ListAgentVersions :: "string \<Rightarrow> (goerr + AgentNode list) fop" where
  "ListAgentVersions k = sql (\<lambda>w. (Inr (sort_key (\<lambda>a. Desc (an_RegisteredAt a))
     (filter (\<lambda>a. an_ID a = k \<and> an_Version a \<noteq> []) (fl_rows w))), w))"

definition ListAgents :: "(goerr + AgentNode list) fop" where
  "ListAgents = sql (\<lambda>w. (Inr (sort_key (\<lambda>a. Desc (an_RegisteredAt a)) (fl_rows w)), w))"

definition update_rows :: "(AgentNode \<Rightarrow> bool) \<Rightarrow> (AgentNode \<Rightarrow> AgentNode) \<Rightarrow> fleet \<Rightarrow> fleet" where
  "update_rows P f w = w\<lparr>fl_rows := map (\<lambda>a. if P a then f a else a) (fl_rows w)\<rparr>"

definition UpdateAgentHealth :: "string \<Rightarrow> HealthStatus \<Rightarrow> (goerr + unit) fop" where
  "UpdateAgentHealth k h = sql (\<lambda>w. (Inr (),
     update_rows (\<lambda>a. an_ID a = k) (\<lambda>a. a\<lparr>an_HealthStatus := h\<rparr>) w))"

definition UpdateAgentLifecycleStatus :: "string \<Rightarrow> AgentLifecycleStatus \<Rightarrow> (goerr + unit) fop" where
  "UpdateAgentLifecycleStatus k l = sql (\<lambda>w. (Inr (),
     update_rows (\<lambda>a. an_ID a = k) (\<lambda>a. a\<lparr>an_LifecycleStatus := l\<rparr>) w))"

definition UpdateAgentHeartbeat :: "string \<Rightarrow> string \<Rightarrow> instant \<Rightarrow> (goerr + unit) fop" where
  "UpdateAgentHeartbeat k v t = sql (\<lambda>w. (Inr (),
     update_rows (\<lambda>a. an_ID a = k \<and> an_Version a = v) (\<lambda>a. a\<lparr>an_LastHeartbeat := t\<rparr>) w))"

text \<open>The upsert of a registration leaves \<open>registered_at\<close> of an existing row alone.\<close>

definition upsert_agent :: "AgentNode \<Rightarrow> AgentNode list \<Rightarrow> AgentNode list" where
  "upsert_agent a rows =
     (if \<exists>b \<in> set rows. an_ID b = an_ID a \<and> an_Version b = an_Version a
      then map (\<lambda>b. if an_ID b = an_ID a \<and> an_Version b = an_Version a
             then a\<lparr>an_RegisteredAt := an_RegisteredAt b,
                    an_InstanceID := (if an_InstanceID a = [] then an_InstanceID b else an_InstanceID a)\<rparr>
             else b) rows
      else rows @ [a])"

definition RegisterAgent :: "AgentNode \<Rightarrow> (goerr + unit) fop" where
  "RegisterAgent a =
     (let a = (if TrimSpace (an_DeploymentType a) = [] then a\<lparr>an_DeploymentType := ''long_running''\<rparr> else a);
          a = (if an_TrafficWeight a = 0 then a\<lparr>an_TrafficWeight := 100\<rparr> else a)
      in sql (\<lambda>w. (Inr (), w\<lparr>fl_rows := upsert_agent a (fl_rows w)\<rparr>)))"

text \<open>The filters of a listing are joined by AND; an absent one does not restrict it.\<close>

record AgentFilters =
  af_TeamID :: "string option"
  af_GroupID :: "string option"
  af_HealthStatus :: "HealthStatus option"

definition agent_matches :: "AgentFilters \<Rightarrow> AgentNode \<Rightarrow> bool" where
  "agent_matches f a \<longleftrightarrow>
     (case af_HealthStatus f of None \<Rightarrow> True | Some h \<Rightarrow> an_HealthStatus a = h) \<and>
     (case af_TeamID f of None \<Rightarrow> True | Some t \<Rightarrow> an_TeamID a = t) \<and>
     (case af_GroupID f of None \<Rightarrow> True | Some g \<Rightarrow> an_GroupID a = g)"

definition ListAgentsFiltered :: "AgentFilters \<Rightarrow> (goerr + AgentNode list) fop" where
  "ListAgentsFiltered f = sql (\<lambda>w. (Inr (sort_key (\<lambda>a. Desc (an_RegisteredAt a))
     (filter (agent_matches f) (fl_rows w))), w))"

definition ListAgentsByGroup :: "string \<Rightarrow> (goerr + AgentNode list) fop" where
  "ListAgentsByGroup g = ListAgentsFiltered \<lparr>af_TeamID = None, af_GroupID = Some g, af_HealthStatus = None\<rparr>"

text \<open>Two statements that report an error when no row was updated.\<close>

definition update_some :: "goerr \<Rightarrow> (AgentNode \<Rightarrow> bool) \<Rightarrow> (AgentNode \<Rightarrow> AgentNode) \<Rightarrow> (goerr + unit) fop" where
  "update_some e P f = sql (\<lambda>w. (if \<exists>a \<in> set (fl_rows w). P a then (Inr (), update_rows P f w) else (Inl e, w)))"

definition UpdateAgentHealthAtomic :: "string \<Rightarrow> HealthStatus \<Rightarrow> instant option \<Rightarrow> (goerr + unit) fop" where
  "UpdateAgentHealthAtomic k h seen =
     (case seen of
        Some t \<Rightarrow> update_some (Errorf (''no rows updated for agent ID '' @ quoted k @
              '' - possible concurrent modification or node not found''))
            (\<lambda>a. an_ID a = k \<and> an_LastHeartbeat a = t) (\<lambda>a. a\<lparr>an_HealthStatus := h\<rparr>)
      | None \<Rightarrow> update_some (Errorf (''agent node with ID '' @ quoted k @ '' not found''))
            (\<lambda>a. an_ID a = k) (\<lambda>a. a\<lparr>an_HealthStatus := h\<rparr>))"

definition UpdateAgentTrafficWeight :: "string \<Rightarrow> string \<Rightarrow> int \<Rightarrow> (goerr + unit) fop" where
  "UpdateAgentTrafficWeight k v weight =
     update_some (Errorf (''agent (id='' @ k @ '', version='' @ v @ '') not found''))
       (\<lambda>a. an_ID a = k \<and> an_Version a = v) (\<lambda>a. a\<lparr>an_TrafficWeight := weight\<rparr>)"

definition DeleteAgentVersion :: "string \<Rightarrow> string \<Rightarrow> (goerr + unit) fop" where
  "DeleteAgentVersion k v = sql (\<lambda>w. (Inr (),
     w\<lparr>fl_rows := filter (\<lambda>a. \<not> (an_ID a = k \<and> an_Version a = v)) (fl_rows w)\<rparr>))"

subsection \<open>Evaluation\<close>

lemma run_fleet_bind [simp]:
  "run_state (State_Monad.bind p f) (w :: fleet) = (case run_state p w of (a, w') \<Rightarrow> run_state (f a) w')"
  by (cases p; cases "run_state p w") (simp add: State_Monad.bind_def split: prod.splits)

lemma run_fleet_return [simp]: "run_state (State_Monad.return a) (w :: fleet) = (a, w)"
  by (simp add: State_Monad.return_def)

lemma run_getf [simp]: "run_state (getf g) w = (g w, w)"
  by (simp add: getf_def)

lemma run_modf [simp]: "run_state (modf h) w = ((), h w)"
  by (simp add: modf_def)

lemma run_publish_node [simp]: "run_state (publish_node e) w = ((), w\<lparr>fl_events := fl_events w @ [e]\<rparr>)"
  by (simp add: publish_node_def)

lemma run_spawn [simp]: "run_state (spawn j) w = ((), w\<lparr>fl_jobs := fl_jobs w @ [j]\<rparr>)"
  by (simp add: spawn_def)

lemma run_probe_node [simp]:
  "run_state (probe_node k) w = (fl_probe w (fl_probes w) k, w\<lparr>fl_probes := Suc (fl_probes w)\<rparr>)"
  by (simp add: probe_node_def)

end
