(* ===== verification/Status_Manager.thy ===== *)
theory Status_Manager
  imports Node_Store
begin

text \<open>
  The status manager (\<open>internal/services/status_manager.go\<close>): the one service that writes the status
  of a node. An update resolves the node's row, takes the last known status from the cache, applies
  the state transition, and writes health, lifecycle and (for a heartbeat) the time of the heartbeat
  back to the table. Reconciliation corrects rows whose status contradicts the age of their
  heartbeat.

  One operation reads one clock. \<open>Start\<close> and its loops are the lists of their ticks; the map of active
  transitions is never written by the code, so its timeout check has nothing to check and is left
  out.
\<close>

record StatusManagerConfig =
  smc_ReconcileInterval :: duration
  smc_StatusCacheTTL :: duration
  smc_MaxTransitionTime :: duration
  smc_HeartbeatStaleThreshold :: duration

definition status_manager_defaults :: "StatusManagerConfig \<Rightarrow> StatusManagerConfig" where
  "status_manager_defaults c =
     (let c = (if smc_ReconcileInterval c = 0 then c\<lparr>smc_ReconcileInterval := 30 * second\<rparr> else c);
          c = (if smc_StatusCacheTTL c = 0 then c\<lparr>smc_StatusCacheTTL := 5 * minute\<rparr> else c);
          c = (if smc_MaxTransitionTime c = 0 then c\<lparr>smc_MaxTransitionTime := 2 * minute\<rparr> else c)
      in if smc_HeartbeatStaleThreshold c = 0 then c\<lparr>smc_HeartbeatStaleThreshold := 60 * second\<rparr> else c)"

record StatusManager =
  sm_config :: StatusManagerConfig
  sm_hasUI :: bool
  sm_hasClient :: bool
  sm_eventHandlers :: nat

definition NewStatusManager :: "StatusManagerConfig \<Rightarrow> bool \<Rightarrow> bool \<Rightarrow> StatusManager" where
  "NewStatusManager c ui client = \<lparr>sm_config = status_manager_defaults c, sm_hasUI = ui,
     sm_hasClient = client, sm_eventHandlers = 0\<rparr>"

definition AddEventHandler :: "StatusManager \<Rightarrow> StatusManager" where
  "AddEventHandler sm = sm\<lparr>sm_eventHandlers := Suc (sm_eventHandlers sm)\<rparr>"

subsection \<open>Leases\<close>

definition grantedLeaseGrace :: duration where "grantedLeaseGrace = 30 * second"

definition RecordLease :: "string \<Rightarrow> instant \<Rightarrow> unit fop" where
  "RecordLease k t = modf (\<lambda>w. w\<lparr>fl_leases := (fl_leases w)(k := Some t)\<rparr>)"

definition hasUnexpiredLease :: "string \<Rightarrow> instant \<Rightarrow> bool fop" where
  "hasUnexpiredLease k now = do {
     l \<leftarrow> getf (\<lambda>w. fl_leases w k);
     case l of
       None \<Rightarrow> State_Monad.return False
     | Some t \<Rightarrow>
         if now < t + grantedLeaseGrace then State_Monad.return True
         else do { modf (\<lambda>w. w\<lparr>fl_leases := (fl_leases w)(k := None)\<rparr>); State_Monad.return False }
   }"

subsection \<open>The cache\<close>

definition cache_status :: "string \<Rightarrow> AgentStatus \<Rightarrow> unit fop" where
  "cache_status k s = modf (\<lambda>w. w\<lparr>fl_cache := (fl_cache w)(k :=
     Some \<lparr>cas_Status = s, cas_Timestamp = fl_now w\<rparr>)\<rparr>)"

definition drop_cached :: "string \<Rightarrow> unit fop" where
  "drop_cached k = modf (\<lambda>w. w\<lparr>fl_cache := (fl_cache w)(k := None)\<rparr>)"

text \<open>An inactive status is served from the cache for five seconds, an active one for one.\<close>

definition cached_fresh :: "instant \<Rightarrow> cachedAgentStatus \<Rightarrow> bool" where
  "cached_fresh now c \<longleftrightarrow>
     (let age = time_Sub now (cas_Timestamp c); s = as_State (cas_Status c)
      in (s = StateInactive \<and> age < 5 * second) \<or> (s = StateActive \<and> age < 1 * second))"

subsection \<open>Live status\<close>

definition probed_status :: "instant \<Rightarrow> bool \<Rightarrow> AgentLifecycleStatus \<Rightarrow> AgentStatus" where
  "probed_status now up l = \<lparr>as_State = (if up then StateActive else StateInactive),
     as_HealthScore = (if up then 85 else 0), as_LastSeen = now,
     as_LifecycleStatus = (if up then l else LcOffline),
     as_HealthStatus = (if up then HealthActive else HealthInactive), as_StateTransition = None,
     as_LastUpdated = now, as_LastVerified = Some now, as_Source = SourceHealthCheck\<rparr>"

definition live_check :: "string \<Rightarrow> (AgentStatus \<times> bool) fop" where
  "live_check k = do {
     answer \<leftarrow> probe_node k;
     (if answer = None then drop_cached k else State_Monad.return ());
     now \<leftarrow> now_is;
     a \<leftarrow> GetAgent k;
     let pending = (case a of Inl _ \<Rightarrow> False | Inr a \<Rightarrow> an_LifecycleStatus a = LcPendingApproval);
     State_Monad.return (probed_status now (answer = Some ''running'') (if pending then LcPendingApproval else LcReady),
       answer \<noteq> None)
   }"

definition GetAgentStatus :: "StatusManager \<Rightarrow> string \<Rightarrow> (goerr + AgentStatus) fop" where
  "GetAgentStatus sm k = do {
     now \<leftarrow> now_is;
     cached \<leftarrow> getf (\<lambda>w. fl_cache w k);
     case (case cached of None \<Rightarrow> None | Some c \<Rightarrow> if cached_fresh now c then Some c else None) of
       Some c \<Rightarrow> State_Monad.return (Inr (cas_Status c))
     | None \<Rightarrow> do {
         r \<leftarrow> (if sm_hasClient sm then do { x \<leftarrow> live_check k; State_Monad.return (Inr x) }
              else do {
                a \<leftarrow> GetAgent k;
                case a of
                  Inl e \<Rightarrow> State_Monad.return (Inl (wrapErr ''failed to get agent: '' e))
                | Inr a \<Rightarrow> State_Monad.return (Inr (FromLegacyStatus now (an_HealthStatus a)
                    (an_LifecycleStatus a) (an_LastHeartbeat a), False))
              });
         case r of
           Inl e \<Rightarrow> State_Monad.return (Inl e)
         | Inr (status, ok) \<Rightarrow> do {
             _ \<leftarrow> UpdateAgentHealth k (if ok then HealthActive else HealthInactive);
             cache_status k status;
             (if sm_hasUI sm then do {
                a \<leftarrow> GetAgent k;
                case a of Inl _ \<Rightarrow> State_Monad.return () | Inr a \<Rightarrow> publish_node (UIStatusChanged a)
              } else State_Monad.return ());
             State_Monad.return (Inr status)
           }
       }
   }"

definition snapshot_of :: "instant \<Rightarrow> AgentNode \<Rightarrow> AgentStatus" where
  "snapshot_of now a = (FromLegacyStatus now (an_HealthStatus a) (an_LifecycleStatus a) (an_LastHeartbeat a))
     \<lparr>as_LastSeen := an_LastHeartbeat a, as_LastUpdated := an_LastHeartbeat a,
      as_HealthStatus := an_HealthStatus a, as_LifecycleStatus := an_LifecycleStatus a,
      as_Source := SourceReconcile\<rparr>"

definition GetAgentStatusSnapshot :: "string \<Rightarrow> AgentNode option \<Rightarrow> (goerr + AgentStatus) fop" where
  "GetAgentStatusSnapshot k node = do {
     cached \<leftarrow> getf (\<lambda>w. fl_cache w k);
     case cached of
       Some c \<Rightarrow> State_Monad.return (Inr (cas_Status c))
     | None \<Rightarrow> do {
         a \<leftarrow> (case node of Some a \<Rightarrow> State_Monad.return (Inr a) | None \<Rightarrow> GetAgent k);
         case a of
           Inl e \<Rightarrow> State_Monad.return (Inl (wrapErr ''failed to get agent: '' e))
         | Inr a \<Rightarrow> do {
             now \<leftarrow> now_is;
             cache_status k (snapshot_of now a);
             State_Monad.return (Inr (snapshot_of now a))
           }
       }
   }"

subsection \<open>Transitions\<close>

definition isValidTransition :: "AgentState \<Rightarrow> AgentState \<Rightarrow> bool" where
  "isValidTransition from to =
     (case from of
        StateInactive \<Rightarrow> to \<in> {StateStarting, StateActive}
      | StateStarting \<Rightarrow> to \<in> {StateActive, StateInactive}
      | StateActive \<Rightarrow> to \<in> {StateInactive, StateStopping}
      | StateStopping \<Rightarrow> to \<in> {StateInactive, StateActive, StateStarting}
      | OtherState _ \<Rightarrow> False)"

definition handleStateTransition ::
    "instant \<Rightarrow> AgentState \<Rightarrow> string \<Rightarrow> AgentStatus \<Rightarrow> goerr + AgentStatus" where
  "handleStateTransition now to reason s =
     (if \<not> isValidTransition (as_State s) to
      then Inl (Errorf (''invalid state transition from '' @ state_word (as_State s) @ '' to '' @ state_word to))
      else Inr (CompleteTransition now (StartTransition now to reason s)))"

text \<open>The lifecycle word follows a change of the state.\<close>

definition sync_lifecycle :: "AgentState \<Rightarrow> AgentStatus \<Rightarrow> AgentStatus" where
  "sync_lifecycle st s =
     (let l = as_LifecycleStatus s
      in case st of
        StateInactive \<Rightarrow> s\<lparr>as_LifecycleStatus := LcOffline\<rparr>
      | StateStopping \<Rightarrow> s\<lparr>as_LifecycleStatus := LcOffline\<rparr>
      | StateActive \<Rightarrow> if l \<in> {LcOffline, LcEmpty, LcStarting} then s\<lparr>as_LifecycleStatus := LcReady\<rparr> else s
      | StateStarting \<Rightarrow> if l \<in> {LcOffline, LcEmpty} then s\<lparr>as_LifecycleStatus := LcStarting\<rparr> else s
      | OtherState _ \<Rightarrow> s)"

definition apply_update :: "instant \<Rightarrow> AgentStatusUpdate \<Rightarrow> AgentStatus \<Rightarrow> goerr + AgentStatus" where
  "apply_update now u s =
     (case (case au_State u of
              None \<Rightarrow> Inr s
            | Some st \<Rightarrow>
                if as_State s = st then Inr s
                else (case handleStateTransition now st (au_Reason u) s of
                        Inl e \<Rightarrow> Inl (wrapErr ''failed to handle state transition: '' e)
                      | Inr s' \<Rightarrow> Inr (sync_lifecycle st s'))) of
        Inl e \<Rightarrow> Inl e
      | Inr s \<Rightarrow>
          (let s = (case au_HealthScore u of None \<Rightarrow> s | Some h \<Rightarrow> s\<lparr>as_HealthScore := h\<rparr>);
               s = (case au_LifecycleStatus u of None \<Rightarrow> s | Some l \<Rightarrow> s\<lparr>as_LifecycleStatus := l\<rparr>);
               s = s\<lparr>as_LastUpdated := now, as_Source := au_Source u\<rparr>;
               s = (if au_Source u = SourceHeartbeat then s\<lparr>as_LastSeen := now\<rparr> else s);
               s = s\<lparr>as_HealthStatus := ToLegacyHealthStatus s\<rparr>
           in Inr (if as_LifecycleStatus s = LcEmpty then s\<lparr>as_LifecycleStatus := ToLegacyLifecycleStatus s\<rparr> else s)))"

definition enforce_lifecycle :: "AgentStatus \<Rightarrow> AgentStatus" where
  "enforce_lifecycle s =
     (case as_State s of
        StateInactive \<Rightarrow> s\<lparr>as_LifecycleStatus := LcOffline\<rparr>
      | StateStopping \<Rightarrow> s\<lparr>as_LifecycleStatus := LcOffline\<rparr>
      | StateActive \<Rightarrow> if as_LifecycleStatus s = LcOffline then s\<lparr>as_LifecycleStatus := LcReady\<rparr> else s
      | StateStarting \<Rightarrow> if as_LifecycleStatus s = LcOffline then s\<lparr>as_LifecycleStatus := LcStarting\<rparr> else s
      | OtherState _ \<Rightarrow> s)"

definition persistStatus :: "string \<Rightarrow> string \<Rightarrow> AgentStatus \<Rightarrow> (goerr + AgentStatus) fop" where
  "persistStatus k version status = do {
     let status = enforce_lifecycle status;
     r \<leftarrow> UpdateAgentHealth k (as_HealthStatus status);
     case r of
       Inl e \<Rightarrow> State_Monad.return (Inl (wrapErr ''failed to update health status: '' e))
     | Inr _ \<Rightarrow> do {
         r \<leftarrow> UpdateAgentLifecycleStatus k (as_LifecycleStatus status);
         case r of
           Inl e \<Rightarrow> State_Monad.return (Inl (wrapErr ''failed to update lifecycle status: '' e))
         | Inr _ \<Rightarrow>
             if as_Source status = SourceHeartbeat then do {
               r \<leftarrow> UpdateAgentHeartbeat k version (as_LastSeen status);
               case r of
                 Inl e \<Rightarrow> State_Monad.return (Inl (wrapErr ''failed to update heartbeat: '' e))
               | Inr _ \<Rightarrow> State_Monad.return (Inr status)
             } else State_Monad.return (Inr status)
       }
   }"

definition notifyStatusChanged :: "StatusManager \<Rightarrow> string \<Rightarrow> AgentStatus \<Rightarrow> AgentStatus \<Rightarrow> unit fop" where
  "notifyStatusChanged sm k old new =
     modf (\<lambda>w. w\<lparr>fl_events := fl_events w @ replicate (sm_eventHandlers sm) (HandlersNotified k old new)\<rparr>)"

definition status_events :: "string \<Rightarrow> AgentStatus \<Rightarrow> AgentStatus \<Rightarrow> AgentNode \<Rightarrow> node_event list" where
  "status_events k old new a =
     (if as_State old \<noteq> as_State new \<or> as_LifecycleStatus old \<noteq> as_LifecycleStatus new \<or>
         as_HealthStatus old \<noteq> as_HealthStatus new
      then [UnifiedStatusChanged k old new (source_word (as_Source new))] else []) @
     (if as_State old = as_State new then []
      else case as_State new of
        StateActive \<Rightarrow> [NodeOnline k a]
      | StateInactive \<Rightarrow> [NodeOffline k a]
      | _ \<Rightarrow> [])"

definition broadcastStatusEvents :: "StatusManager \<Rightarrow> string \<Rightarrow> AgentStatus \<Rightarrow> AgentStatus \<Rightarrow> unit fop" where
  "broadcastStatusEvents sm k old new = do {
     a \<leftarrow> GetAgent k;
     case a of
       Inl _ \<Rightarrow> State_Monad.return ()
     | Inr a \<Rightarrow> modf (\<lambda>w. w\<lparr>fl_events := fl_events w @ status_events k old new a @
         (if sm_hasUI sm then [UIStatusChanged a] else [])\<rparr>)
   }"

subsection \<open>Updates\<close>

definition resolve_agent :: "string \<Rightarrow> string \<Rightarrow> AgentNode option fop" where
  "resolve_agent k version = do {
     a \<leftarrow> GetAgent k;
     case a of
       Inr a \<Rightarrow> State_Monad.return (Some a)
     | Inl _ \<Rightarrow>
         if version = [] then State_Monad.return None
         else do {
           b \<leftarrow> GetAgentVersion k version;
           State_Monad.return (case b of Inl _ \<Rightarrow> None | Inr b \<Rightarrow> Some b)
         }
   }"

definition score_cached :: "string \<Rightarrow> int \<Rightarrow> unit fop" where
  "score_cached k h = modf (\<lambda>w. case fl_cache w k of
       None \<Rightarrow> w
     | Some c \<Rightarrow> w\<lparr>fl_cache := (fl_cache w)(k := Some (c\<lparr>cas_Status := (cas_Status c)\<lparr>as_HealthScore := h\<rparr>\<rparr>))\<rparr>)"

definition UpdateAgentStatus :: "StatusManager \<Rightarrow> string \<Rightarrow> AgentStatusUpdate \<Rightarrow> (goerr + unit) fop" where
  "UpdateAgentStatus sm k u = do {
     resolved \<leftarrow> resolve_agent k (au_Version u);
     if (case resolved of None \<Rightarrow> False | Some a \<Rightarrow> an_LifecycleStatus a = LcPendingApproval)
     then do {
       (case au_HealthScore u of None \<Rightarrow> State_Monad.return () | Some h \<Rightarrow> score_cached k h);
       State_Monad.return (Inr ())
     } else do {
       current \<leftarrow> GetAgentStatusSnapshot k resolved;
       case current of
         Inl e \<Rightarrow> State_Monad.return (Inl (wrapErr ''failed to get current status: '' e))
       | Inr old \<Rightarrow> do {
           now \<leftarrow> now_is;
           case apply_update now u old of
             Inl e \<Rightarrow> State_Monad.return (Inl e)
           | Inr new \<Rightarrow> do {
               r \<leftarrow> persistStatus k (case resolved of None \<Rightarrow> [] | Some a \<Rightarrow> an_Version a) new;
               case r of
                 Inl e \<Rightarrow> State_Monad.return (Inl (wrapErr ''failed to persist status: '' e))
               | Inr new \<Rightarrow> do {
                   cache_status k new;
                   notifyStatusChanged sm k old new;
                   broadcastStatusEvents sm k old new;
                   State_Monad.return (Inr ())
                 }
             }
         }
     }
   }"

definition derived_state :: "AgentLifecycleStatus \<Rightarrow> AgentState option" where
  "derived_state l =
     (case l of
        LcReady \<Rightarrow> Some StateActive
      | LcStarting \<Rightarrow> Some StateStarting
      | LcDegraded \<Rightarrow> Some StateActive
      | LcOffline \<Rightarrow> Some StateInactive
      | _ \<Rightarrow> None)"

text \<open>The status computed from the heartbeat itself is dropped: only the update is applied.\<close>

definition UpdateFromHeartbeat ::
    "StatusManager \<Rightarrow> string \<Rightarrow> AgentLifecycleStatus option \<Rightarrow> string \<Rightarrow> (goerr + unit) fop" where
  "UpdateFromHeartbeat sm k l version = do {
     now \<leftarrow> now_is;
     current \<leftarrow> GetAgentStatusSnapshot k None;
     let current = (case current of Inl _ \<Rightarrow> NewAgentStatus now StateStarting SourceHeartbeat | Inr s \<Rightarrow> s);
     let l = (if l = Some LcStarting \<and> as_LifecycleStatus current \<in> {LcReady, LcDegraded} then None else l);
     UpdateAgentStatus sm k \<lparr>au_State = Option.bind l derived_state, au_HealthScore = None,
       au_LifecycleStatus = l, au_Source = SourceHeartbeat, au_Reason = ''heartbeat update'',
       au_Version = version\<rparr>
   }"

definition RefreshAgentStatus :: "StatusManager \<Rightarrow> string \<Rightarrow> (goerr + unit) fop" where
  "RefreshAgentStatus sm k = do {
     drop_cached k;
     r \<leftarrow> GetAgentStatus sm k;
     case r of
       Inl e \<Rightarrow> State_Monad.return (Inl (wrapErr ''failed to refresh status: '' e))
     | Inr s \<Rightarrow> do { publish_node (NodeStatusRefreshed k s); State_Monad.return (Inr ()) }
   }"

subsection \<open>Reconciliation\<close>

text \<open>The lease is only looked at when the node is active and its heartbeat stale.\<close>

definition needsReconciliation :: "StatusManagerConfig \<Rightarrow> AgentNode \<Rightarrow> bool fop" where
  "needsReconciliation cfg a = do {
     now \<leftarrow> now_is;
     let age = time_Sub now (an_LastHeartbeat a);
     leased \<leftarrow> (if smc_HeartbeatStaleThreshold cfg < age \<and> an_HealthStatus a = HealthActive
                then hasUnexpiredLease (an_ID a) now else State_Monad.return True);
     State_Monad.return
       (\<not> leased \<or>
        (an_HealthStatus a = HealthActive \<and> an_LifecycleStatus a = LcOffline) \<or>
        (an_LifecycleStatus a = LcStarting \<and> smc_MaxTransitionTime cfg < age) \<or>
        (an_LifecycleStatus a = LcStarting \<and> age \<le> smc_HeartbeatStaleThreshold cfg \<and>
          an_RegisteredAt a \<noteq> 0 \<and> smc_MaxTransitionTime cfg < time_Sub now (an_RegisteredAt a)) \<or>
        (an_HealthStatus a = HealthUnknown \<and> age \<le> smc_HeartbeatStaleThreshold cfg \<and>
          an_RegisteredAt a \<noteq> 0 \<and> smc_MaxTransitionTime cfg < time_Sub now (an_RegisteredAt a)))
   }"

definition reconciled_status :: "StatusManagerConfig \<Rightarrow> instant \<Rightarrow> AgentNode \<Rightarrow> HealthStatus \<times> AgentLifecycleStatus" where
  "reconciled_status cfg now a =
     (if smc_HeartbeatStaleThreshold cfg < time_Sub now (an_LastHeartbeat a) then (HealthInactive, LcOffline)
      else (HealthActive, if an_LifecycleStatus a \<in> {LcEmpty, LcOffline, LcStarting} then LcReady
                          else an_LifecycleStatus a))"

definition reconcile_update :: "HealthStatus \<times> AgentLifecycleStatus \<Rightarrow> AgentNode \<Rightarrow> AgentStatusUpdate" where
  "reconcile_update hl a =
     \<lparr>au_State = (if an_HealthStatus a = fst hl then None
        else Some (if fst hl = HealthActive then StateActive else StateInactive)),
      au_HealthScore = None,
      au_LifecycleStatus = (if an_LifecycleStatus a = snd hl then None else Some (snd hl)),
      au_Source = SourceReconcile, au_Reason = ''periodic reconciliation'', au_Version = []\<rparr>"

definition reconcileAgentStatus :: "StatusManager \<Rightarrow> AgentNode \<Rightarrow> (goerr + unit) fop" where
  "reconcileAgentStatus sm a = do {
     now \<leftarrow> now_is;
     let hl = reconciled_status (sm_config sm) now a;
     if an_HealthStatus a \<noteq> fst hl \<or> an_LifecycleStatus a \<noteq> snd hl
     then UpdateAgentStatus sm (an_ID a) (reconcile_update hl a)
     else State_Monad.return (Inr ())
   }"

primrec reconcile_all :: "StatusManager \<Rightarrow> AgentNode list \<Rightarrow> unit fop" where
  "reconcile_all sm [] = State_Monad.return ()"
| "reconcile_all sm (a # as) = do {
     needed \<leftarrow> needsReconciliation (sm_config sm) a;
     (if needed then do { _ \<leftarrow> reconcileAgentStatus sm a; State_Monad.return () } else State_Monad.return ());
     reconcile_all sm as
   }"

definition performReconciliation :: "StatusManager \<Rightarrow> unit fop" where
  "performReconciliation sm = do {
     r \<leftarrow> ListAgents;
     case r of Inl _ \<Rightarrow> State_Monad.return () | Inr as \<Rightarrow> reconcile_all sm as
   }"

subsection \<open>Transitions that take too long\<close>

text \<open>
  \<open>checkTransitionTimeouts\<close> goes through the transitions in progress, in any order, and drops those that have run for
  longer than the configured time, after completing them. No code adds to that map, so the argument is always empty
  when the server runs; a transition is completed in the step that starts it. The status that \<open>GetAgentStatus\<close> returns is the one
  in the cache, so completing it changes the cached status too.
\<close>

definition finish_stuck :: "StatusManager \<Rightarrow> string \<Rightarrow> unit fop" where
  "finish_stuck sm k = do {
     a \<leftarrow> GetAgent k;
     if (case a of Inr n \<Rightarrow> an_LifecycleStatus n = LcPendingApproval | Inl _ \<Rightarrow> False) then State_Monad.return ()
     else do {
       r \<leftarrow> GetAgentStatus sm k;
       case r of
         Inl _ \<Rightarrow> State_Monad.return ()
       | Inr s \<Rightarrow> do {
           now \<leftarrow> now_is;
           x \<leftarrow> persistStatus k (case a of Inr n \<Rightarrow> an_Version n | Inl _ \<Rightarrow> []) (CompleteTransition now s);
           modf (\<lambda>w. w\<lparr>fl_cache := (fl_cache w)(k := map_option
             (\<lambda>c. c\<lparr>cas_Status := enforce_lifecycle (CompleteTransition now s)\<rparr>) (fl_cache w k))\<rparr>)
         }
     }
   }"

primrec checkTransitionTimeouts ::
    "StatusManager \<Rightarrow> (string \<times> StateTransition) list \<Rightarrow> (string \<times> StateTransition) list fop" where
  "checkTransitionTimeouts sm [] = State_Monad.return []"
| "checkTransitionTimeouts sm (t # ts) = do {
     now \<leftarrow> now_is;
     (if smc_MaxTransitionTime (sm_config sm) < time_Sub now (str_StartedAt (snd t)) then do {
        finish_stuck sm (fst t);
        checkTransitionTimeouts sm ts
      } else do { rest \<leftarrow> checkTransitionTimeouts sm ts; State_Monad.return (t # rest) })
   }"

end
