(* ===== verification/Presence_Manager.thy ===== *)
theory Presence_Manager
  imports Status_Manager
begin

text \<open>
  The presence manager (\<open>internal/services/presence_manager.go\<close>): a lease per node, renewed by every sign of
  life. A sweep marks the leases that have run out and reports their nodes inactive, after looking at each lease
  again, since a sign of life may have come between. The sweep is two operations for that reason:
  \<open>collectExpired\<close> under the lock and then one \<open>markInactive\<close> per collected node.
\<close>

record PresenceManagerConfig =
  pmc_HeartbeatTTL :: duration
  pmc_SweepInterval :: duration
  pmc_HardEvictTTL :: duration

definition presence_defaults :: "PresenceManagerConfig \<Rightarrow> PresenceManagerConfig" where
  "presence_defaults c =
     (let c = (if pmc_HeartbeatTTL c = 0 then c\<lparr>pmc_HeartbeatTTL := 15 * second\<rparr> else c);
          c = (if pmc_SweepInterval c = 0
               then c\<lparr>pmc_SweepInterval := max second (trunc_div (pmc_HeartbeatTTL c) 3)\<rparr> else c)
      in if pmc_HardEvictTTL c = 0 then c\<lparr>pmc_HardEvictTTL := 5 * minute\<rparr> else c)"

record PresenceManager =
  pm_status :: "StatusManager option"
  pm_config :: PresenceManagerConfig
  pm_hasCallback :: bool

definition NewPresenceManager :: "StatusManager option \<Rightarrow> PresenceManagerConfig \<Rightarrow> PresenceManager" where
  "NewPresenceManager sm c = \<lparr>pm_status = sm, pm_config = presence_defaults c, pm_hasCallback = False\<rparr>"

definition SetExpireCallback :: "PresenceManager \<Rightarrow> PresenceManager" where
  "SetExpireCallback pm = pm\<lparr>pm_hasCallback := True\<rparr>"

definition no_lease :: presenceLease where
  "no_lease = \<lparr>ple_LastSeen = 0, ple_LastExpired = 0, ple_MarkedOffline = False, ple_Version = []\<rparr>"

definition touched_lease :: "string \<Rightarrow> instant \<Rightarrow> presenceLease option \<Rightarrow> presenceLease" where
  "touched_lease version seenAt l =
     (let l = (case l of None \<Rightarrow> no_lease | Some l \<Rightarrow> l);
          l = l\<lparr>ple_LastSeen := seenAt, ple_MarkedOffline := False\<rparr>
      in if version \<noteq> [] then l\<lparr>ple_Version := version\<rparr> else l)"

definition Touch :: "string \<Rightarrow> string \<Rightarrow> instant \<Rightarrow> unit fop" where
  "Touch k version seenAt = modf (\<lambda>w. w\<lparr>fl_presence :=
     AList.update k (touched_lease version seenAt (map_of (fl_presence w) k)) (fl_presence w)\<rparr>)"

definition Forget :: "string \<Rightarrow> unit fop" where
  "Forget k = modf (\<lambda>w. w\<lparr>fl_presence := AList.delete k (fl_presence w)\<rparr>)"

definition HasLease :: "string \<Rightarrow> bool fop" where
  "HasLease k = getf (\<lambda>w. map_of (fl_presence w) k \<noteq> None)"

definition HasFreshLease :: "PresenceManager \<Rightarrow> string \<Rightarrow> bool fop" where
  "HasFreshLease pm k = getf (\<lambda>w. case map_of (fl_presence w) k of
       None \<Rightarrow> False
     | Some l \<Rightarrow> \<not> ple_MarkedOffline l \<and> time_Sub (fl_now w) (ple_LastSeen l) < pmc_HeartbeatTTL (pm_config pm))"

definition recovered_lease :: "PresenceManager \<Rightarrow> instant \<Rightarrow> AgentNode \<Rightarrow> presenceLease" where
  "recovered_lease pm now a = \<lparr>ple_LastSeen = an_LastHeartbeat a, ple_LastExpired = 0,
     ple_MarkedOffline = (pmc_HeartbeatTTL (pm_config pm) < time_Sub now (an_LastHeartbeat a)),
     ple_Version = an_Version a\<rparr>"

definition RecoverLeases :: "PresenceManager \<Rightarrow> (goerr + unit) fop" where
  "RecoverLeases pm = do {
     r \<leftarrow> ListAgents;
     case r of
       Inl e \<Rightarrow> State_Monad.return (Inl e)
     | Inr as \<Rightarrow> do {
         modf (\<lambda>w. w\<lparr>fl_presence := fold (\<lambda>a. AList.update (an_ID a) (recovered_lease pm (fl_now w) a))
           as (fl_presence w)\<rparr>);
         State_Monad.return (Inr ())
       }
   }"

subsection \<open>The sweep\<close>

definition lease_over :: "PresenceManager \<Rightarrow> instant \<Rightarrow> presenceLease \<Rightarrow> bool" where
  "lease_over pm now l \<longleftrightarrow> pmc_HeartbeatTTL (pm_config pm) \<le> time_Sub now (ple_LastSeen l)"

definition lease_evicted :: "PresenceManager \<Rightarrow> instant \<Rightarrow> presenceLease \<Rightarrow> bool" where
  "lease_evicted pm now l \<longleftrightarrow> lease_over pm now l \<and> ple_MarkedOffline l \<and>
     0 < pmc_HardEvictTTL (pm_config pm) \<and> pmc_HardEvictTTL (pm_config pm) \<le> time_Sub now (ple_LastSeen l)"

definition expire_lease :: "PresenceManager \<Rightarrow> instant \<Rightarrow> presenceLease \<Rightarrow> presenceLease" where
  "expire_lease pm now l = (if lease_over pm now l \<and> \<not> ple_MarkedOffline l
     then l\<lparr>ple_MarkedOffline := True, ple_LastExpired := now\<rparr> else l)"

definition collectExpired :: "PresenceManager \<Rightarrow> string list fop" where
  "collectExpired pm = do {
     now \<leftarrow> now_is;
     ls \<leftarrow> getf fl_presence;
     modf (\<lambda>w. w\<lparr>fl_presence := map (\<lambda>(k, l). (k, expire_lease pm now l))
       (filter (\<lambda>(k, l). \<not> lease_evicted pm now l) ls)\<rparr>);
     State_Monad.return (map fst (filter (\<lambda>(k, l). lease_over pm now l \<and> \<not> ple_MarkedOffline l) ls))
   }"

definition inactive_update :: "StatusSource \<Rightarrow> string \<Rightarrow> string \<Rightarrow> AgentStatusUpdate" where
  "inactive_update src reason version = \<lparr>au_State = Some StateInactive, au_HealthScore = Some 0,
     au_LifecycleStatus = None, au_Source = src, au_Reason = reason, au_Version = version\<rparr>"

definition markInactive :: "PresenceManager \<Rightarrow> string \<Rightarrow> unit fop" where
  "markInactive pm k =
     (case pm_status pm of
        None \<Rightarrow> State_Monad.return ()
      | Some sm \<Rightarrow> do {
          l \<leftarrow> getf (\<lambda>w. map_of (fl_presence w) k);
          case l of
            None \<Rightarrow> State_Monad.return ()
          | Some l \<Rightarrow>
              if \<not> ple_MarkedOffline l then State_Monad.return ()
              else do {
                r \<leftarrow> UpdateAgentStatus sm k (inactive_update SourcePresence ''presence lease expired'' (ple_Version l));
                case r of
                  Inl _ \<Rightarrow> State_Monad.return ()
                | Inr _ \<Rightarrow> if pm_hasCallback pm then spawn (ExpireCallback k) else State_Monad.return ()
              }
        })"

primrec mark_all :: "PresenceManager \<Rightarrow> string list \<Rightarrow> unit fop" where
  "mark_all pm [] = State_Monad.return ()"
| "mark_all pm (k # ks) = do { markInactive pm k; mark_all pm ks }"

definition checkExpirations :: "PresenceManager \<Rightarrow> unit fop" where
  "checkExpirations pm = do { ks \<leftarrow> collectExpired pm; mark_all pm ks }"

end
