(* ===== verification/Node_Health.thy ===== *)
theory Node_Health
  imports Presence_Manager
begin

text \<open>
  The health monitor (\<open>internal/services/health_monitor.go\<close>): it polls the status endpoint of the registered nodes.
  A node is marked inactive after a run of failed polls, unless a fresh heartbeat contradicts them, and active again
  after a successful poll, when the debounce has passed. \<open>poll_verdict\<close> is the decision of \<open>checkAgentHealth\<close> on the
  monitor's record of the node; \<open>checkAgentHealth\<close> is the whole operation. A node can be unregistered during a poll,
  so the poll and its verdict are separate operations too.
\<close>

definition healthScoreActive :: int where "healthScoreActive = 85"
definition healthScoreInactive :: int where "healthScoreInactive = 0"

record HealthMonitorConfig =
  hmc_CheckInterval :: duration
  hmc_CheckTimeout :: duration
  hmc_ConsecutiveFailures :: int
  hmc_RecoveryDebounce :: duration

definition health_monitor_defaults :: "HealthMonitorConfig \<Rightarrow> HealthMonitorConfig" where
  "health_monitor_defaults c =
     (let c = (if hmc_CheckInterval c = 0 then c\<lparr>hmc_CheckInterval := 10 * second\<rparr> else c);
          c = (if hmc_CheckTimeout c = 0 then c\<lparr>hmc_CheckTimeout := 5 * second\<rparr> else c);
          c = (if hmc_ConsecutiveFailures c = 0 then c\<lparr>hmc_ConsecutiveFailures := 3\<rparr> else c)
      in if hmc_RecoveryDebounce c = 0 then c\<lparr>hmc_RecoveryDebounce := 5 * second\<rparr> else c)"

record HealthMonitor =
  hm_config :: HealthMonitorConfig
  hm_hasUI :: bool
  hm_status :: "StatusManager option"
  hm_presence :: bool

definition NewHealthMonitor :: "HealthMonitorConfig \<Rightarrow> bool \<Rightarrow> StatusManager option \<Rightarrow> bool \<Rightarrow> HealthMonitor" where
  "NewHealthMonitor c ui sm pm =
     \<lparr>hm_config = health_monitor_defaults c, hm_hasUI = ui, hm_status = sm, hm_presence = pm\<rparr>"

definition new_active_agent :: "string \<Rightarrow> string \<Rightarrow> instant \<Rightarrow> ActiveAgent" where
  "new_active_agent k url now = \<lparr>aa_NodeID = k, aa_BaseURL = url, aa_LastStatus = HealthUnknown,
     aa_LastChecked = now, aa_ConsecutiveFailures = 0, aa_LastTransition = now\<rparr>"

definition touch_if :: "bool \<Rightarrow> string \<Rightarrow> unit fop" where
  "touch_if presence k = (if presence then do { now \<leftarrow> now_is; Touch k [] now } else State_Monad.return ())"

definition RegisterMonitored :: "HealthMonitor \<Rightarrow> string \<Rightarrow> string \<Rightarrow> unit fop" where
  "RegisterMonitored hm k url = do {
     now \<leftarrow> now_is;
     known \<leftarrow> getf (\<lambda>w. case map_of (fl_monitored w) k of None \<Rightarrow> False | Some a \<Rightarrow> aa_BaseURL a = url);
     (if known then State_Monad.return ()
      else modf (\<lambda>w. w\<lparr>fl_monitored := AList.update k (new_active_agent k url now) (fl_monitored w)\<rparr>));
     touch_if (hm_presence hm) k
   }"

definition IsMonitoring :: "string \<Rightarrow> bool fop" where
  "IsMonitoring k = getf (\<lambda>w. map_of (fl_monitored w) k \<noteq> None)"

text \<open>The events of the paths without a status manager.\<close>

definition legacy_offline_events :: "HealthMonitor \<Rightarrow> string \<Rightarrow> AgentNode \<Rightarrow> node_event list" where
  "legacy_offline_events hm k a = [NodeOffline k a, NodeHealthChanged k HealthInactive a] @
     (if hm_hasUI hm then [UIStatusChanged a] else [])"

definition publish_all :: "node_event list \<Rightarrow> unit fop" where
  "publish_all es = modf (\<lambda>w. w\<lparr>fl_events := fl_events w @ es\<rparr>)"

definition UnregisterMonitored :: "HealthMonitor \<Rightarrow> string \<Rightarrow> unit fop" where
  "UnregisterMonitored hm k = do {
     known \<leftarrow> IsMonitoring k;
     if \<not> known then State_Monad.return ()
     else do {
       modf (\<lambda>w. w\<lparr>fl_monitored := AList.delete k (fl_monitored w)\<rparr>);
       (if hm_presence hm then Forget k else State_Monad.return ());
       (case hm_status hm of
          Some sm \<Rightarrow> do {
            r \<leftarrow> UpdateAgentStatus sm k
                  (inactive_update SourceHealthCheck ''agent unregistered from health monitoring'' []);
            case r of
              Inr _ \<Rightarrow> State_Monad.return ()
            | Inl _ \<Rightarrow> do { _ \<leftarrow> UpdateAgentHealth k HealthInactive; State_Monad.return () }
          }
        | None \<Rightarrow> do {
            _ \<leftarrow> UpdateAgentHealth k HealthInactive;
            _ \<leftarrow> UpdateAgentLifecycleStatus k LcOffline;
            if hm_hasUI hm then do {
              a \<leftarrow> GetAgent k;
              case a of Inl _ \<Rightarrow> State_Monad.return () | Inr a \<Rightarrow> publish_all (legacy_offline_events hm k a)
            } else State_Monad.return ()
          })
     }
   }"

definition monitorable :: "AgentNode \<Rightarrow> bool" where
  "monitorable a \<longleftrightarrow> an_BaseURL a \<noteq> [] \<and> an_DeploymentType a \<noteq> ''serverless''"

primrec register_all :: "HealthMonitor \<Rightarrow> AgentNode list \<Rightarrow> unit fop" where
  "register_all hm [] = State_Monad.return ()"
| "register_all hm (a # as) = do {
     (if monitorable a then RegisterMonitored hm (an_ID a) (an_BaseURL a) else State_Monad.return ());
     register_all hm as
   }"

definition RecoverMonitored :: "HealthMonitor \<Rightarrow> (goerr + unit) fop" where
  "RecoverMonitored hm = do {
     r \<leftarrow> ListAgents;
     case r of
       Inl e \<Rightarrow> State_Monad.return (Inl e)
     | Inr as \<Rightarrow> do { register_all hm as; State_Monad.return (Inr ()) }
   }"

subsection \<open>The verdict of a poll\<close>

datatype poll_outcome = Unchanged | BecameActive | BecameInactive int

definition poll_passed :: "HealthMonitorConfig \<Rightarrow> instant \<Rightarrow> ActiveAgent \<Rightarrow> ActiveAgent \<times> poll_outcome" where
  "poll_passed cfg now a =
     (let a = a\<lparr>aa_LastChecked := now, aa_ConsecutiveFailures := 0\<rparr>
      in if aa_LastStatus a = HealthInactive then
           (if time_Sub now (aa_LastTransition a) < hmc_RecoveryDebounce cfg then (a, Unchanged)
            else (a\<lparr>aa_LastStatus := HealthActive, aa_LastTransition := now\<rparr>, BecameActive))
         else if aa_LastStatus a \<noteq> HealthActive
         then (a\<lparr>aa_LastStatus := HealthActive, aa_LastTransition := now\<rparr>, BecameActive)
         else (a, Unchanged))"

definition poll_counted :: "HealthMonitorConfig \<Rightarrow> instant \<Rightarrow> ActiveAgent \<Rightarrow> ActiveAgent" where
  "poll_counted cfg now a =
     (let a = a\<lparr>aa_LastChecked := now\<rparr>
      in if aa_ConsecutiveFailures a < hmc_ConsecutiveFailures cfg + 1
         then a\<lparr>aa_ConsecutiveFailures := aa_ConsecutiveFailures a + 1\<rparr> else a)"

text \<open>\<open>alive\<close> says that the row of the node has a fresh heartbeat.\<close>

definition poll_failed :: "HealthMonitorConfig \<Rightarrow> instant \<Rightarrow> bool \<Rightarrow> ActiveAgent \<Rightarrow> ActiveAgent \<times> poll_outcome" where
  "poll_failed cfg now alive a =
     (let a = poll_counted cfg now a
      in if aa_ConsecutiveFailures a < hmc_ConsecutiveFailures cfg \<or> alive \<or> aa_LastStatus a = HealthInactive
         then (a, Unchanged)
         else (a\<lparr>aa_LastStatus := HealthInactive, aa_LastTransition := now\<rparr>,
               BecameInactive (aa_ConsecutiveFailures a)))"

definition poll_verdict ::
    "HealthMonitorConfig \<Rightarrow> instant \<Rightarrow> bool \<Rightarrow> bool \<Rightarrow> ActiveAgent \<Rightarrow> ActiveAgent \<times> poll_outcome" where
  "poll_verdict cfg now passed alive a = (if passed then poll_passed cfg now a else poll_failed cfg now alive a)"

subsection \<open>Marking\<close>

definition markAgentActive :: "HealthMonitor \<Rightarrow> string \<Rightarrow> unit fop" where
  "markAgentActive hm k =
     (case hm_status hm of
        Some sm \<Rightarrow> do {
          r \<leftarrow> UpdateAgentStatus sm k \<lparr>au_State = Some StateActive, au_HealthScore = Some healthScoreActive,
                 au_LifecycleStatus = None, au_Source = SourceHealthCheck, au_Reason = ''HTTP health check passed'',
                 au_Version = []\<rparr>;
          case r of
            Inl _ \<Rightarrow> do { _ \<leftarrow> UpdateAgentHealth k HealthActive; State_Monad.return () }
          | Inr _ \<Rightarrow> touch_if (hm_presence hm) k
        }
      | None \<Rightarrow> do {
          r \<leftarrow> UpdateAgentHealth k HealthActive;
          case r of
            Inl _ \<Rightarrow> State_Monad.return ()
          | Inr _ \<Rightarrow> do {
              _ \<leftarrow> UpdateAgentLifecycleStatus k LcReady;
              a \<leftarrow> GetAgent k;
              case a of
                Inl _ \<Rightarrow> State_Monad.return ()
              | Inr a \<Rightarrow> do {
                  publish_node (NodeOnline k a);
                  touch_if (hm_presence hm) k;
                  publish_all (NodeHealthChanged k HealthActive a # (if hm_hasUI hm then [UIStatusChanged a] else []))
                }
            }
        })"

definition markAgentInactive :: "HealthMonitor \<Rightarrow> string \<Rightarrow> int \<Rightarrow> unit fop" where
  "markAgentInactive hm k failCount =
     (case hm_status hm of
        Some sm \<Rightarrow> do {
          r \<leftarrow> UpdateAgentStatus sm k (inactive_update SourceHealthCheck
                 (show_int failCount @ '' consecutive health check failures'') []);
          case r of
            Inl _ \<Rightarrow> do { _ \<leftarrow> UpdateAgentHealth k HealthInactive; State_Monad.return () }
          | Inr _ \<Rightarrow> State_Monad.return ()
        }
      | None \<Rightarrow> do {
          r \<leftarrow> UpdateAgentHealth k HealthInactive;
          case r of
            Inl _ \<Rightarrow> State_Monad.return ()
          | Inr _ \<Rightarrow> do {
              _ \<leftarrow> UpdateAgentLifecycleStatus k LcOffline;
              a \<leftarrow> GetAgent k;
              case a of
                Inl _ \<Rightarrow> State_Monad.return ()
              | Inr a \<Rightarrow> publish_all (legacy_offline_events hm k a)
            }
        })"

subsection \<open>A check\<close>

text \<open>The row is only looked at when the failed polls reach the threshold and there is a status manager.\<close>

definition gate_threshold :: "StatusManager \<Rightarrow> duration" where
  "gate_threshold sm = (if smc_HeartbeatStaleThreshold (sm_config sm) = 0 then 60 * second
     else smc_HeartbeatStaleThreshold (sm_config sm))"

definition heartbeat_gate :: "HealthMonitor \<Rightarrow> string \<Rightarrow> ActiveAgent \<Rightarrow> bool fop" where
  "heartbeat_gate hm k a =
     (case hm_status hm of
        None \<Rightarrow> State_Monad.return False
      | Some sm \<Rightarrow> do {
          now \<leftarrow> now_is;
          if aa_ConsecutiveFailures (poll_counted (hm_config hm) now a) < hmc_ConsecutiveFailures (hm_config hm)
          then State_Monad.return False
          else do {
            r \<leftarrow> GetAgent k;
            State_Monad.return (case r of Inl _ \<Rightarrow> False
              | Inr n \<Rightarrow> time_Sub now (an_LastHeartbeat n) < gate_threshold sm)
          }
        })"

definition judge_poll :: "HealthMonitor \<Rightarrow> string \<Rightarrow> bool \<Rightarrow> unit fop" where
  "judge_poll hm k passed = do {
     a \<leftarrow> getf (\<lambda>w. map_of (fl_monitored w) k);
     case a of
       None \<Rightarrow> State_Monad.return ()
     | Some a \<Rightarrow> do {
         now \<leftarrow> now_is;
         alive \<leftarrow> (if passed then State_Monad.return False else heartbeat_gate hm k a);
         let (a', outcome) = poll_verdict (hm_config hm) now passed alive a;
         modf (\<lambda>w. w\<lparr>fl_monitored := AList.update k a' (fl_monitored w)\<rparr>);
         case outcome of
           Unchanged \<Rightarrow> State_Monad.return ()
         | BecameActive \<Rightarrow> markAgentActive hm k
         | BecameInactive n \<Rightarrow> markAgentInactive hm k n
       }
   }"

definition checkAgentHealth :: "HealthMonitor \<Rightarrow> string \<Rightarrow> unit fop" where
  "checkAgentHealth hm k = do {
     known \<leftarrow> IsMonitoring k;
     if \<not> known then State_Monad.return ()
     else do { answer \<leftarrow> probe_node k; judge_poll hm k (answer = Some ''running'') }
   }"

primrec check_all :: "HealthMonitor \<Rightarrow> string list \<Rightarrow> unit fop" where
  "check_all hm [] = State_Monad.return ()"
| "check_all hm (k # ks) = do { checkAgentHealth hm k; check_all hm ks }"

definition checkActiveAgents :: "HealthMonitor \<Rightarrow> unit fop" where
  "checkActiveAgents hm = do { ks \<leftarrow> getf (\<lambda>w. map fst (fl_monitored w)); check_all hm ks }"

subsection \<open>A history of polls\<close>

text \<open>
  \<open>run_polls\<close> feeds the polls of a node to the monitor's record of it; \<open>expected_polls\<close> says, from the history
  alone, what each poll should have led to: a success makes the node active, unless it already is or was made inactive
  less than the debounce ago; a failure makes it inactive when the failures since the last success reach the threshold,
  no fresh heartbeat contradicts them and it is not inactive already.
\<close>

record poll =
  po_now :: instant
  po_passed :: bool
  po_alive :: bool

primrec run_polls :: "HealthMonitorConfig \<Rightarrow> poll list \<Rightarrow> ActiveAgent \<Rightarrow> ActiveAgent \<times> poll_outcome list" where
  "run_polls cfg [] a = (a, [])"
| "run_polls cfg (p # ps) a =
     (let (a1, out) = poll_verdict cfg (po_now p) (po_passed p) (po_alive p) a; (a2, outs) = run_polls cfg ps a1
      in (a2, out # outs))"

text \<open>The histories here are newest first; the last change is the newest outcome that is not \<open>Unchanged\<close>.\<close>

definition failures :: "poll list \<Rightarrow> int" where
  "failures past = int (length (takeWhile (\<lambda>p. \<not> po_passed p) past))"

definition last_change :: "(poll \<times> poll_outcome) list \<Rightarrow> (poll \<times> poll_outcome) option" where
  "last_change past = find (\<lambda>(p, out). out \<noteq> Unchanged) past"

definition marked_inactive :: "(poll \<times> poll_outcome) list \<Rightarrow> bool" where
  "marked_inactive past = (case last_change past of Some (_, BecameInactive _) \<Rightarrow> True | _ \<Rightarrow> False)"

definition expected :: "HealthMonitorConfig \<Rightarrow> (poll \<times> poll_outcome) list \<Rightarrow> poll \<Rightarrow> poll_outcome" where
  "expected cfg past p =
     (let n = failures (p # map fst past); N = hmc_ConsecutiveFailures cfg
      in if po_passed p then
           (case last_change past of
              None \<Rightarrow> BecameActive
            | Some (q, BecameInactive _) \<Rightarrow>
                if time_Sub (po_now p) (po_now q) < hmc_RecoveryDebounce cfg then Unchanged else BecameActive
            | Some _ \<Rightarrow> Unchanged)
         else if N \<le> n \<and> \<not> po_alive p \<and> \<not> marked_inactive past then BecameInactive (min n (N + 1))
         else Unchanged)"

primrec expected_polls :: "HealthMonitorConfig \<Rightarrow> (poll \<times> poll_outcome) list \<Rightarrow> poll list \<Rightarrow> poll_outcome list" where
  "expected_polls cfg past [] = []"
| "expected_polls cfg past (p # ps) = (let out = expected cfg past p in out # expected_polls cfg ((p, out) # past) ps)"

definition recalls :: "HealthMonitorConfig \<Rightarrow> (poll \<times> poll_outcome) list \<Rightarrow> ActiveAgent \<Rightarrow> bool" where
  "recalls cfg past a \<longleftrightarrow>
     aa_ConsecutiveFailures a = min (failures (map fst past)) (hmc_ConsecutiveFailures cfg + 1) \<and>
     (case last_change past of
        None \<Rightarrow> aa_LastStatus a = HealthUnknown
      | Some (q, out) \<Rightarrow> aa_LastTransition a = po_now q \<and>
          aa_LastStatus a = (case out of BecameInactive _ \<Rightarrow> HealthInactive | _ \<Rightarrow> HealthActive))"

lemma last_change_Cons [simp]:
  "last_change ((p, out) # past) = (if out = Unchanged then last_change past else Some (p, out))"
  by (simp add: last_change_def)

lemma last_change_changed: "last_change past = Some (q, out) \<Longrightarrow> out \<noteq> Unchanged"
  by (auto simp: last_change_def find_Some_iff)

lemma failures_Cons [simp]: "failures (p # ps) = (if po_passed p then 0 else failures ps + 1)"
  by (simp add: failures_def)

lemma failures_nonneg [simp]: "0 \<le> failures ps"
  by (simp add: failures_def)

lemma verdict_recalls:
  assumes "recalls cfg past a" and "0 \<le> hmc_ConsecutiveFailures cfg"
  shows "snd (poll_verdict cfg (po_now p) (po_passed p) (po_alive p) a) = expected cfg past p"
    and "recalls cfg ((p, expected cfg past p) # past) (fst (poll_verdict cfg (po_now p) (po_passed p) (po_alive p) a))"
proof -
  note defs = recalls_def poll_verdict_def poll_passed_def poll_failed_def poll_counted_def expected_def marked_inactive_def Let_def
  have n: "0 \<le> failures (map fst past)" by simp
  have "snd (poll_verdict cfg (po_now p) (po_passed p) (po_alive p) a) = expected cfg past p \<and>
    recalls cfg ((p, expected cfg past p) # past) (fst (poll_verdict cfg (po_now p) (po_passed p) (po_alive p) a))"
  proof (cases "po_passed p")
    case True
    then show ?thesis using assms last_change_changed [of past]
      by (cases "last_change past") (auto simp: defs split: poll_outcome.splits if_splits)
  next
    case False
    then show ?thesis using assms n last_change_changed [of past]
      by (cases "last_change past") (auto simp: defs split: poll_outcome.splits)
  qed
  then show "snd (poll_verdict cfg (po_now p) (po_passed p) (po_alive p) a) = expected cfg past p"
    and "recalls cfg ((p, expected cfg past p) # past) (fst (poll_verdict cfg (po_now p) (po_passed p) (po_alive p) a))"
    by blast+
qed

lemma run_expected:
  assumes "recalls cfg past a" and "0 \<le> hmc_ConsecutiveFailures cfg"
  shows "snd (run_polls cfg ps a) = expected_polls cfg past ps"
  using assms
proof (induction ps arbitrary: past a)
  case (Cons p ps)
  note v = verdict_recalls [OF Cons.prems, of p]
  from Cons.IH [OF v(2) Cons.prems(2)] v(1) show ?case by (simp add: split_beta Let_def)
qed simp

text \<open>
  C32. The health monitor follows the history of its polls. From the moment a node is registered with it, the outcome of
  every poll is what the history calls for: the node is marked inactive exactly when the failed polls since the last
  successful one reach the threshold while no fresh heartbeat contradicts them, and active again exactly on a
  successful poll that is not within the debounce of the mark.
\<close>

theorem monitor_follows_polls:
  assumes "0 \<le> hmc_ConsecutiveFailures cfg"
  shows "snd (run_polls cfg ps (new_active_agent k url now)) = expected_polls cfg [] ps"
  using assms by (intro run_expected) (simp_all add: recalls_def new_active_agent_def last_change_def failures_def)

definition default_monitor :: HealthMonitorConfig where
  "default_monitor = health_monitor_defaults
     \<lparr>hmc_CheckInterval = 0, hmc_CheckTimeout = 0, hmc_ConsecutiveFailures = 0, hmc_RecoveryDebounce = 0\<rparr>"

definition failed_at :: "instant \<Rightarrow> poll" where
  "failed_at t = \<lparr>po_now = t, po_passed = False, po_alive = False\<rparr>"

definition passed_at :: "instant \<Rightarrow> poll" where
  "passed_at t = \<lparr>po_now = t, po_passed = True, po_alive = False\<rparr>"

theorem monitor_follows_polls_witness:
  "snd (run_polls default_monitor [passed_at 1, failed_at 2, failed_at 3, failed_at 4, failed_at 5, passed_at 6,
     passed_at (10 * second)] (new_active_agent ''n'' ''u'' 0)) =
   [BecameActive, Unchanged, Unchanged, BecameInactive 3, Unchanged, Unchanged, BecameActive]"
proof -
  have "0 \<le> hmc_ConsecutiveFailures default_monitor" by code_simp
  from monitor_follows_polls [OF this] show ?thesis
    by (simp only:) code_simp
qed

end
