(* ===== verification/Node_Handlers.thy ===== *)
theory Node_Handlers
  imports Node_Health
begin

text \<open>
  The requests by which nodes and operators report and read the status of a node
  (\<open>internal/handlers/nodes_heartbeat.go\<close>, \<open>nodes_rest.go\<close>, \<open>nodes_status.go\<close>). A body that fails to bind is the
  left case of a sum; the heartbeat handler works with whatever the binding has filled in.
\<close>

record node_services =
  ns_status :: "StatusManager option"
  ns_monitor :: "HealthMonitor option"
  ns_presence :: bool

abbreviation reply_node :: "nat \<Rightarrow> (string \<times> json) list \<Rightarrow> reply fop" where
  "reply_node c b \<equiv> State_Monad.return (JSONreply c b)"

definition error_reply :: "nat \<Rightarrow> string \<Rightarrow> reply" where
  "error_reply c e = JSONreply c [(''error'', JStr e)]"

definition coded_error :: "nat \<Rightarrow> string \<Rightarrow> string \<Rightarrow> (string \<times> json) list \<Rightarrow> reply" where
  "coded_error c e word details = JSONreply c ([(''error'', JStr e), (''code'', JStr word)] @ details)"

definition touch_node :: "node_services \<Rightarrow> string \<Rightarrow> string \<Rightarrow> instant \<Rightarrow> unit fop" where
  "touch_node ns k v t = (if ns_presence ns then Touch k v t else State_Monad.return ())"

definition agent_of :: "string \<Rightarrow> string \<Rightarrow> (goerr + AgentNode) fop" where
  "agent_of k version = (if version \<noteq> [] then GetAgentVersion k version else GetAgent k)"

subsection \<open>Heartbeats\<close>

definition dbUpdateThreshold :: duration where "dbUpdateThreshold = 2 * second"

definition heartbeat_cached :: "instant \<Rightarrow> string \<Rightarrow> CachedNodeData option \<Rightarrow> bool \<times> CachedNodeData" where
  "heartbeat_cached now status c =
     (case c of
        None \<Rightarrow> (True, \<lparr>cnd_LastDBUpdate = now, cnd_LastCacheUpdate = now, cnd_Status = status\<rparr>)
      | Some c \<Rightarrow>
          (let c = c\<lparr>cnd_LastCacheUpdate := now, cnd_Status := status\<rparr>
           in if dbUpdateThreshold \<le> time_Sub now (cnd_LastDBUpdate c)
              then (True, c\<lparr>cnd_LastDBUpdate := now\<rparr>) else (False, c)))"

definition shouldUpdateDatabase :: "string \<Rightarrow> instant \<Rightarrow> string \<Rightarrow> bool fop" where
  "shouldUpdateDatabase k now status = do {
     c \<leftarrow> getf (\<lambda>w. fl_heartbeats w k);
     let (due, c') = heartbeat_cached now status c;
     modf (\<lambda>w. w\<lparr>fl_heartbeats := (fl_heartbeats w)(k := Some c')\<rparr>);
     State_Monad.return due
   }"

text \<open>The goroutine of a heartbeat; it reads the time of the last write when it runs.\<close>

definition processHeartbeatAsync :: "string \<Rightarrow> string \<Rightarrow> unit fop" where
  "processHeartbeatAsync k version = do {
     found \<leftarrow> (if version \<noteq> [] then do {
                  a \<leftarrow> GetAgentVersion k version;
                  State_Monad.return (case a of Inl _ \<Rightarrow> False | Inr _ \<Rightarrow> True)
                } else do {
                  a \<leftarrow> GetAgent k;
                  case a of
                    Inr _ \<Rightarrow> State_Monad.return True
                  | Inl _ \<Rightarrow> do {
                      vs \<leftarrow> ListAgentVersions k;
                      State_Monad.return (case vs of Inl _ \<Rightarrow> False | Inr vs \<Rightarrow> vs \<noteq> [])
                    }
                });
     c \<leftarrow> getf (\<lambda>w. fl_heartbeats w k);
     case (found, c) of
       (True, Some c) \<Rightarrow> do { _ \<leftarrow> UpdateAgentHeartbeat k version (cnd_LastDBUpdate c); State_Monad.return () }
     | _ \<Rightarrow> State_Monad.return ()
   }"

record enhanced_heartbeat =
  ehb_Version :: string
  ehb_Status :: string
  ehb_HealthScore :: "int option"

definition valid_lifecycle :: "string \<Rightarrow> bool" where
  "valid_lifecycle s \<longleftrightarrow> s \<in> {''starting'', ''ready'', ''degraded'', ''offline''}"

definition heartbeat_reply :: "instant \<Rightarrow> reply" where
  "heartbeat_reply now = JSONreply 200 [(''success'', JBool True), (''message'', JStr ''heartbeat received''),
     (''timestamp'', JTime now)]"

text \<open>The node a heartbeat found when it wrote to the database, looked up again when it did not.\<close>

definition known_or_lookup :: "AgentNode option \<Rightarrow> AgentNode option fop \<Rightarrow> AgentNode option fop" where
  "known_or_lookup existing look = (case existing of Some a \<Rightarrow> State_Monad.return (Some a) | None \<Rightarrow> look)"

definition heartbeat_unified ::
    "StatusManager \<Rightarrow> string \<Rightarrow> enhanced_heartbeat \<Rightarrow> AgentNode option \<Rightarrow> unit fop" where
  "heartbeat_unified sm k hb existing = do {
     existing \<leftarrow> (if valid_lifecycle (ehb_Status hb)
                   then known_or_lookup existing (do {
                     a \<leftarrow> agent_of k (ehb_Version hb);
                     State_Monad.return (case a of Inl _ \<Rightarrow> None | Inr a \<Rightarrow> Some a)
                   }) else State_Monad.return existing);
     let pending = (case existing of None \<Rightarrow> False | Some a \<Rightarrow> an_LifecycleStatus a = LcPendingApproval);
     let lifecycle = (if valid_lifecycle (ehb_Status hb) \<and> \<not> pending
                      then Some (lifecycle_of (ehb_Status hb)) else None);
     let version = (case existing of None \<Rightarrow> ehb_Version hb | Some a \<Rightarrow> an_Version a);
     _ \<leftarrow> UpdateFromHeartbeat sm k lifecycle version;
     case ehb_HealthScore hb of
       None \<Rightarrow> State_Monad.return ()
     | Some h \<Rightarrow> do {
         _ \<leftarrow> UpdateAgentStatus sm k \<lparr>au_State = None, au_HealthScore = Some h, au_LifecycleStatus = None,
                au_Source = SourceHeartbeat, au_Reason = ''health score from heartbeat'', au_Version = version\<rparr>;
         State_Monad.return ()
       }
   }"

text \<open>Without a status manager; \<open>False\<close> when the node is not found.\<close>

definition heartbeat_legacy :: "string \<Rightarrow> enhanced_heartbeat \<Rightarrow> AgentNode option \<Rightarrow> bool fop" where
  "heartbeat_legacy k hb existing =
     (if \<not> valid_lifecycle (ehb_Status hb) then State_Monad.return True
      else do {
        existing \<leftarrow> known_or_lookup existing (resolve_agent k (ehb_Version hb));
        case existing of
          None \<Rightarrow> State_Monad.return False
        | Some a \<Rightarrow>
            if an_LifecycleStatus a = LcPendingApproval \<or> an_LifecycleStatus a = lifecycle_of (ehb_Status hb)
            then State_Monad.return True
            else do { _ \<leftarrow> UpdateAgentLifecycleStatus k (lifecycle_of (ehb_Status hb)); State_Monad.return True }
      })"

definition HeartbeatHandler :: "node_services \<Rightarrow> string \<Rightarrow> enhanced_heartbeat \<Rightarrow> reply fop" where
  "HeartbeatHandler ns k hb =
     (if k = [] then State_Monad.return (error_reply 400 ''node_id is required'')
      else do {
        now \<leftarrow> now_is;
        leased \<leftarrow> HasLease k;
        (if leased then touch_node ns k (ehb_Version hb) now else State_Monad.return ());
        due \<leftarrow> shouldUpdateDatabase k now (ehb_Status hb);
        found \<leftarrow> (if due then do {
                    a \<leftarrow> agent_of k (ehb_Version hb);
                    case a of
                      Inl _ \<Rightarrow> State_Monad.return (Inl ())
                    | Inr a \<Rightarrow> do {
                        (case ns_monitor ns of None \<Rightarrow> State_Monad.return ()
                         | Some hm \<Rightarrow> RegisterMonitored hm k (an_BaseURL a));
                        touch_node ns k (an_Version a) now;
                        spawn (HeartbeatWrite k (an_Version a));
                        State_Monad.return (Inr (Some a))
                      }
                  } else State_Monad.return (Inr None));
        case found of
          Inl _ \<Rightarrow> State_Monad.return (error_reply 404 ''node not found'')
        | Inr existing \<Rightarrow>
            if ns_status ns \<noteq> None \<and> (ehb_Status hb \<noteq> [] \<or> ehb_HealthScore hb \<noteq> None)
            then do {
              heartbeat_unified (the (ns_status ns)) k hb existing;
              State_Monad.return (heartbeat_reply now)
            } else do {
              ok \<leftarrow> heartbeat_legacy k hb existing;
              State_Monad.return (if ok then heartbeat_reply now else error_reply 404 ''node not found'')
            }
      })"

subsection \<open>Leases\<close>

definition DefaultLeaseTTL :: duration where "DefaultLeaseTTL = 5 * minute"

definition lease_ttl :: "duration \<Rightarrow> duration" where
  "lease_ttl d = (if d \<le> 0 then DefaultLeaseTTL else d)"

definition lease_fields :: "duration \<Rightarrow> instant \<Rightarrow> (string \<times> json) list" where
  "lease_fields ttl now = [(''lease_seconds'', JInt (trunc_div ttl second)), (''next_lease_renewal'', JTime (now + ttl))]"

definition normalizePhase :: "string \<Rightarrow> string + (AgentState \<times> AgentLifecycleStatus) option" where
  "normalizePhase phase =
     (let p = ToLower (TrimSpace phase)
      in if phase = [] then Inr None
         else if p = ''starting'' then Inr (Some (StateStarting, LcStarting))
         else if p = ''ready'' then Inr (Some (StateActive, LcReady))
         else if p = ''degraded'' then Inr (Some (StateActive, LcDegraded))
         else if p = ''offline'' then Inr (Some (StateInactive, LcOffline))
         else Inl (''unsupported phase: '' @ phase))"

record lease_request =
  lr_Phase :: string
  lr_Version :: string
  lr_HealthScore :: "int option"

definition record_lease :: "node_services \<Rightarrow> string \<Rightarrow> instant \<Rightarrow> unit fop" where
  "record_lease ns k t = (case ns_status ns of None \<Rightarrow> State_Monad.return () | Some _ \<Rightarrow> RecordLease k t)"

text \<open>The renewal that every accepted request ends with.\<close>

definition renew_lease :: "node_services \<Rightarrow> duration \<Rightarrow> string \<Rightarrow> string \<Rightarrow> reply fop" where
  "renew_lease ns ttl k version = do {
     now \<leftarrow> now_is;
     record_lease ns k (now + ttl);
     _ \<leftarrow> UpdateAgentHeartbeat k version now;
     touch_node ns k version now;
     reply_node 200 (lease_fields ttl now)
   }"

definition lease_update :: "lease_request \<Rightarrow> string \<Rightarrow> string + AgentStatusUpdate" where
  "lease_update r version =
     (if (case lr_HealthScore r of None \<Rightarrow> False | Some h \<Rightarrow> h < 0 \<or> 100 < h)
      then Inl ''health_score must be between 0 and 100''
      else case normalizePhase (lr_Phase r) of
        Inl e \<Rightarrow> Inl e
      | Inr sl \<Rightarrow> Inr \<lparr>au_State = map_option fst sl, au_HealthScore = lr_HealthScore r,
          au_LifecycleStatus = map_option snd sl, au_Source = SourceHeartbeat, au_Reason = [], au_Version = version\<rparr>)"

definition NodeStatusLeaseHandler ::
    "node_services \<Rightarrow> duration \<Rightarrow> string \<Rightarrow> string + lease_request \<Rightarrow> reply fop" where
  "NodeStatusLeaseHandler ns leaseTTL k payload =
     (let ttl = lease_ttl leaseTTL
      in if k = [] then State_Monad.return (error_reply 400 ''node_id is required'')
         else case payload of
           Inl e \<Rightarrow> reply_node 400 [(''error'', JStr ''invalid payload''), (''details'', JStr e)]
         | Inr r \<Rightarrow> do {
             a \<leftarrow> agent_of k (lr_Version r);
             case a of
               Inl _ \<Rightarrow> State_Monad.return (error_reply 404 ''node not found'')
             | Inr a \<Rightarrow>
                 if an_LifecycleStatus a = LcPendingApproval then renew_lease ns ttl k (an_Version a)
                 else do {
                   (case ns_monitor ns of
                      Some hm \<Rightarrow> if monitorable a then RegisterMonitored hm k (an_BaseURL a) else State_Monad.return ()
                    | None \<Rightarrow> State_Monad.return ());
                   case lease_update r (an_Version a) of
                     Inl e \<Rightarrow> State_Monad.return (error_reply 400 e)
                   | Inr u \<Rightarrow> do {
                       res \<leftarrow> (case ns_status ns of None \<Rightarrow> State_Monad.return (Inr ()) | Some sm \<Rightarrow> UpdateAgentStatus sm k u);
                       case res of
                         Inl _ \<Rightarrow> State_Monad.return (error_reply 500 ''failed to update status'')
                       | Inr _ \<Rightarrow> renew_lease ns ttl k (an_Version a)
                     }
                 }
           })"

record ack_request =
  ak_ActionID :: string
  ak_Status :: string

text \<open>An acknowledged action and a poll for actions renew the presence, not the status lease.\<close>

definition seen_now :: "node_services \<Rightarrow> string \<Rightarrow> string \<Rightarrow> instant fop" where
  "seen_now ns k version = do {
     now \<leftarrow> now_is;
     _ \<leftarrow> UpdateAgentHeartbeat k version now;
     touch_node ns k version now;
     State_Monad.return now
   }"

definition NodeActionAckHandler ::
    "node_services \<Rightarrow> duration \<Rightarrow> string \<Rightarrow> string + ack_request \<Rightarrow> reply fop" where
  "NodeActionAckHandler ns leaseTTL k payload =
     (let ttl = lease_ttl leaseTTL
      in if k = [] then State_Monad.return (error_reply 400 ''node_id is required'')
         else case payload of
           Inl e \<Rightarrow> reply_node 400 [(''error'', JStr ''invalid payload''), (''details'', JStr e)]
         | Inr r \<Rightarrow>
             if ak_ActionID r = [] \<or> ak_Status r = []
             then State_Monad.return (error_reply 400 ''action_id and status are required'')
             else do {
               a \<leftarrow> GetAgent k;
               case a of
                 Inl _ \<Rightarrow> State_Monad.return (error_reply 404 ''node not found'')
               | Inr a \<Rightarrow> do { now \<leftarrow> seen_now ns k (an_Version a); reply_node 200 (lease_fields ttl now) }
             })"

record claim_request =
  cr_NodeID :: string
  cr_MaxItems :: int
  cr_WaitSeconds :: int

definition ClaimActionsHandler :: "node_services \<Rightarrow> duration \<Rightarrow> string + claim_request \<Rightarrow> reply fop" where
  "ClaimActionsHandler ns leaseTTL payload =
     (let ttl = lease_ttl leaseTTL
      in case payload of
           Inl e \<Rightarrow> reply_node 400 [(''error'', JStr ''invalid payload''), (''details'', JStr e)]
         | Inr r \<Rightarrow>
             if cr_NodeID r = [] then State_Monad.return (error_reply 400 ''node_id is required'')
             else do {
               a \<leftarrow> GetAgent (cr_NodeID r);
               case a of
                 Inl _ \<Rightarrow> State_Monad.return (error_reply 404 ''node not found'')
               | Inr a \<Rightarrow> do {
                   now \<leftarrow> seen_now ns (cr_NodeID r) (an_Version a);
                   reply_node 200 ([(''items'', JArr [])] @ lease_fields ttl now @
                     [(''next_poll_after'', JInt (if cr_WaitSeconds r \<le> 0 then 5 else cr_WaitSeconds r))])
                 }
             })"

text \<open>A shutdown body that fails to bind counts as an empty one.\<close>

definition NodeShutdownHandler :: "node_services \<Rightarrow> string \<Rightarrow> string \<Rightarrow> reply fop" where
  "NodeShutdownHandler ns k version =
     (if k = [] then State_Monad.return (error_reply 400 ''node_id is required'')
      else do {
        a \<leftarrow> agent_of k version;
        case a of
          Inl _ \<Rightarrow> State_Monad.return (error_reply 404 ''node not found'')
        | Inr a \<Rightarrow> do {
            now \<leftarrow> now_is;
            (if ns_presence ns then Forget k else State_Monad.return ());
            _ \<leftarrow> UpdateAgentHeartbeat k (an_Version a) now;
            (case ns_status ns of
               None \<Rightarrow> State_Monad.return ()
             | Some sm \<Rightarrow> do {
                 _ \<leftarrow> UpdateAgentStatus sm k \<lparr>au_State = Some StateStopping, au_HealthScore = None,
                        au_LifecycleStatus = Some LcOffline, au_Source = SourceManual,
                        au_Reason = ''agent shutdown'', au_Version = an_Version a\<rparr>;
                 State_Monad.return ()
               });
            reply_node 202 [(''lease_seconds'', JInt 0), (''next_lease_renewal'', JTime now),
              (''message'', JStr ''shutdown acknowledged'')]
          }
      })"

subsection \<open>Reading and setting a status\<close>

definition UpdateLifecycleStatusHandler ::
    "node_services \<Rightarrow> string \<Rightarrow> string + string \<Rightarrow> reply fop" where
  "UpdateLifecycleStatusHandler ns k payload =
     (if k = [] then State_Monad.return (error_reply 400 ''node_id is required'')
      else case payload of
        Inl e \<Rightarrow> State_Monad.return (error_reply 400 (''Invalid JSON format: '' @ e))
      | Inr s \<Rightarrow>
          if \<not> valid_lifecycle s then State_Monad.return (error_reply 400 ''Invalid lifecycle status'')
          else do {
            a \<leftarrow> GetAgent k;
            case a of
              Inl _ \<Rightarrow> State_Monad.return (error_reply 404 ''node not found'')
            | Inr a \<Rightarrow>
                if an_LifecycleStatus a = LcPendingApproval
                then reply_node 409 [(''error'', JStr ''agent_pending_approval''), (''message'',
                  JStr ''Cannot update lifecycle status: agent is awaiting tag approval. Use admin approval endpoint instead.'')]
                else do {
                  r \<leftarrow> (case ns_status ns of
                         Some sm \<Rightarrow> do {
                           r \<leftarrow> UpdateFromHeartbeat sm k (Some (lifecycle_of s)) [];
                           State_Monad.return (case r of Inl _ \<Rightarrow> Some ''failed to update status'' | Inr _ \<Rightarrow> None)
                         }
                       | None \<Rightarrow> do {
                           r \<leftarrow> UpdateAgentLifecycleStatus k (lifecycle_of s);
                           State_Monad.return (case r of Inl _ \<Rightarrow> Some ''failed to update lifecycle status'' | Inr _ \<Rightarrow> None)
                         });
                  now \<leftarrow> now_is;
                  case r of
                    Some e \<Rightarrow> State_Monad.return (error_reply 500 e)
                  | None \<Rightarrow> reply_node 200 [(''success'', JBool True),
                      (''message'', JStr ''Lifecycle status updated successfully''),
                      (''lifecycle_status'', JStr s), (''timestamp'', JTime now)]
                }
          })"

definition health_word :: "HealthStatus \<Rightarrow> string" where
  "health_word h = (case h of HealthActive \<Rightarrow> ''active'' | HealthInactive \<Rightarrow> ''inactive''
     | HealthDegraded \<Rightarrow> ''degraded'' | HealthUnknown \<Rightarrow> ''unknown'' | OtherHealth s \<Rightarrow> s)"

definition lifecycle_word :: "AgentLifecycleStatus \<Rightarrow> string" where
  "lifecycle_word l = (case l of LcStarting \<Rightarrow> ''starting'' | LcReady \<Rightarrow> ''ready'' | LcDegraded \<Rightarrow> ''degraded''
     | LcOffline \<Rightarrow> ''offline'' | LcPendingApproval \<Rightarrow> ''pending_approval'' | OtherLc s \<Rightarrow> s)"

definition status_json :: "AgentStatus \<Rightarrow> json" where
  "status_json s = JObj ([(''state'', JStr (state_word (as_State s))), (''health_score'', JInt (as_HealthScore s)),
     (''last_seen'', JTime (as_LastSeen s)), (''lifecycle_status'', JStr (lifecycle_word (as_LifecycleStatus s))),
     (''health_status'', JStr (health_word (as_HealthStatus s)))] @
     (case as_StateTransition s of None \<Rightarrow> [] | Some t \<Rightarrow>
        [(''state_transition'', JObj ([(''from'', JStr (state_word (str_From t))), (''to'', JStr (state_word (str_To t))),
           (''started_at'', JTime (str_StartedAt t))] @ (if str_Reason t = [] then [] else [(''reason'', JStr (str_Reason t))])))]) @
     [(''last_updated'', JTime (as_LastUpdated s))] @
     (case as_LastVerified s of None \<Rightarrow> [] | Some t \<Rightarrow> [(''last_verified'', JTime t)]) @
     [(''source'', JStr (source_word (as_Source s)))])"

definition missing_node_id :: reply where
  "missing_node_id = coded_error 400 ''node_id is required'' ''MISSING_NODE_ID'' []"

definition no_status_manager :: reply where
  "no_status_manager = coded_error 503 ''Status manager not available'' ''SERVICE_UNAVAILABLE'' []"

definition GetNodeStatusHandler :: "node_services \<Rightarrow> string \<Rightarrow> reply fop" where
  "GetNodeStatusHandler ns k =
     (if k = [] then State_Monad.return missing_node_id
      else if ns_status ns = None then State_Monad.return no_status_manager
      else do {
        r \<leftarrow> GetAgentStatusSnapshot k None;
        State_Monad.return (case r of
          Inl e \<Rightarrow> coded_error 404 ''Node not found or status unavailable'' ''NODE_NOT_FOUND'' [(''details'', JStr (err_msg e))]
        | Inr s \<Rightarrow> JSONreply 200 [(''success'', JBool True), (''node_id'', JStr k), (''status'', status_json s)])
      })"

definition RefreshNodeStatusHandler :: "node_services \<Rightarrow> string \<Rightarrow> reply fop" where
  "RefreshNodeStatusHandler ns k =
     (if k = [] then State_Monad.return missing_node_id
      else case ns_status ns of
        None \<Rightarrow> State_Monad.return no_status_manager
      | Some sm \<Rightarrow> do {
          r \<leftarrow> RefreshAgentStatus sm k;
          case r of
            Inl e \<Rightarrow> State_Monad.return (coded_error 500 ''Failed to refresh node status'' ''REFRESH_FAILED''
              [(''details'', JStr (err_msg e))])
          | Inr _ \<Rightarrow> do {
              r \<leftarrow> GetAgentStatus sm k;
              State_Monad.return (case r of
                Inl e \<Rightarrow> coded_error 500 ''Failed to get refreshed status'' ''STATUS_RETRIEVAL_FAILED''
                  [(''details'', JStr (err_msg e))]
              | Inr s \<Rightarrow> JSONreply 200 [(''success'', JBool True), (''message'', JStr ''Node status refreshed successfully''),
                  (''node_id'', JStr k), (''status'', status_json s)])
            }
        })"

text \<open>One line per node that could not be read; a repeated id overwrites its result.\<close>

primrec bulk_status :: "string list \<Rightarrow> (string \<times> json) list \<times> string list \<Rightarrow> ((string \<times> json) list \<times> string list) fop" where
  "bulk_status [] acc = State_Monad.return acc"
| "bulk_status (k # ks) acc = do {
     r \<leftarrow> GetAgentStatusSnapshot k None;
     bulk_status ks (case r of
       Inl e \<Rightarrow> (set_field k (JObj [(''error'', JStr ''Status unavailable''), (''details'', JStr (err_msg e))]) (fst acc),
                 snd acc @ [''Node '' @ k @ '': '' @ err_msg e])
     | Inr s \<Rightarrow> (set_field k (status_json s) (fst acc), snd acc))
   }"

definition BulkNodeStatusHandler :: "node_services \<Rightarrow> string + string list \<Rightarrow> reply fop" where
  "BulkNodeStatusHandler ns request =
     (case request of
        Inl e \<Rightarrow> State_Monad.return (coded_error 400 ''Invalid request format'' ''INVALID_REQUEST'' [(''details'', JStr e)])
      | Inr ids \<Rightarrow>
          if 50 < length ids
          then State_Monad.return (coded_error 400 ''Too many node IDs requested (max 50)'' ''TOO_MANY_NODES'' [])
          else if ns_status ns = None then State_Monad.return no_status_manager
          else do {
            x \<leftarrow> bulk_status ids ([], []);
            let (results, errors) = x;
            let n = length ids;
            let failed = length errors;
            State_Monad.return (JSONreply
              (if 0 < failed \<and> failed < n then 207 else if failed = n then 500 else 200)
              ([(''success'', JBool (errors = [])), (''results'', JObj results), (''total_requested'', JInt (int n)),
                (''successful'', JInt (int n - int failed)), (''failed'', JInt (int failed))] @
               (if errors = [] then [] else [(''errors'', JArr (map JStr errors))])))
          })"

primrec refresh_all :: "StatusManager \<Rightarrow> AgentNode list \<Rightarrow> nat \<times> string list \<Rightarrow> (nat \<times> string list) fop" where
  "refresh_all sm [] acc = State_Monad.return acc"
| "refresh_all sm (a # as) acc = do {
     r \<leftarrow> RefreshAgentStatus sm (an_ID a);
     refresh_all sm as (case r of
       Inl e \<Rightarrow> (fst acc, snd acc @ [''Node '' @ an_ID a @ '': '' @ err_msg e])
     | Inr _ \<Rightarrow> (Suc (fst acc), snd acc))
   }"

definition RefreshAllNodeStatusHandler :: "node_services \<Rightarrow> reply fop" where
  "RefreshAllNodeStatusHandler ns =
     (case ns_status ns of
        None \<Rightarrow> State_Monad.return no_status_manager
      | Some sm \<Rightarrow> do {
          r \<leftarrow> ListAgents;
          case r of
            Inl e \<Rightarrow> State_Monad.return (coded_error 500 ''Failed to list agents'' ''LIST_AGENTS_FAILED'' [(''details'', JStr (err_msg e))])
          | Inr nodes \<Rightarrow> do {
              x \<leftarrow> refresh_all sm nodes (0, []);
              let (successful, errors) = x;
              let failed = length errors;
              State_Monad.return (JSONreply
                (if 0 < failed \<and> 0 < successful then 207
                 else if failed = length nodes \<and> nodes \<noteq> [] then 500 else 200)
                ([(''success'', JBool (failed = 0)), (''message'', JStr ''Bulk node status refresh completed''),
                  (''total_nodes'', JInt (int (length nodes))), (''successful'', JInt (int successful)),
                  (''failed'', JInt (int failed))] @
                 (if errors = [] then [] else [(''errors'', JArr (map JStr errors))])))
            }
        })"

definition manual_update :: "AgentState \<Rightarrow> string \<Rightarrow> AgentStatusUpdate" where
  "manual_update st reason = \<lparr>au_State = Some st, au_HealthScore = None, au_LifecycleStatus = None,
     au_Source = SourceManual, au_Reason = reason, au_Version = []\<rparr>"

definition manual_handler ::
    "node_services \<Rightarrow> string \<Rightarrow> AgentState \<Rightarrow> string \<Rightarrow> string \<Rightarrow> string \<Rightarrow> string \<Rightarrow> string \<Rightarrow> reply fop" where
  "manual_handler ns k st reason failure failure_code success_msg word =
     (if k = [] then State_Monad.return missing_node_id
      else do {
        a \<leftarrow> GetAgent k;
        case a of
          Inl _ \<Rightarrow> State_Monad.return (coded_error 404 ''Node not found'' ''NODE_NOT_FOUND'' [])
        | Inr _ \<Rightarrow>
            (case ns_status ns of
               None \<Rightarrow> State_Monad.return no_status_manager
             | Some sm \<Rightarrow> do {
                 r \<leftarrow> UpdateAgentStatus sm k (manual_update st reason);
                 State_Monad.return (case r of
                   Inl e \<Rightarrow> coded_error 500 failure failure_code [(''details'', JStr (err_msg e))]
                 | Inr _ \<Rightarrow> JSONreply 200 [(''success'', JBool True), (''message'', JStr success_msg),
                     (''node_id'', JStr k), (''status'', JStr word)])
               })
      })"

definition StartNodeHandler :: "node_services \<Rightarrow> string \<Rightarrow> reply fop" where
  "StartNodeHandler ns k = manual_handler ns k StateStarting ''manual start request'' ''Failed to start node''
     ''START_FAILED'' ''Node start initiated'' ''starting''"

definition StopNodeHandler :: "node_services \<Rightarrow> string \<Rightarrow> reply fop" where
  "StopNodeHandler ns k = manual_handler ns k StateStopping ''manual stop request'' ''Failed to stop node''
     ''STOP_FAILED'' ''Node stop initiated'' ''stopping''"

end
