(* ===== verification/Node_Fleet.thy ===== *)
theory Node_Fleet
  imports Node_Handlers
begin

text \<open>
  The fleet as a whole: histories of requests, sweeps, polls and clock ticks over the shared state, and what they
  keep. \<open>upholds R p\<close> says that \<open>p\<close>, in a world without storage failures, moves the state within \<open>R\<close>. The relation
  \<open>others k\<close> lets only node \<open>k\<close> change; every operation about a node is within it, and the properties of a history
  follow from that and from what an operation does to its own node.
\<close>

abbreviation calm :: "fleet \<Rightarrow> bool" where
  "calm w \<equiv> fl_fault w = (\<lambda>_. None)"

definition upholds :: "(fleet \<Rightarrow> fleet \<Rightarrow> bool) \<Rightarrow> 'a fop \<Rightarrow> bool" where
  "upholds R p \<longleftrightarrow> (\<forall>w. calm w \<longrightarrow> calm (snd (run_state p w)) \<and> R w (snd (run_state p w)))"

lemma upholdsD:
  assumes "upholds R p" and "calm w"
  shows "calm (snd (run_state p w))" and "R w (snd (run_state p w))"
  using assms by (auto simp: upholds_def)

lemma upholds_run:
  assumes "upholds R p" and "calm w" and "run_state p w = (a, w')"
  shows "calm w'" and "R w w'"
  using upholdsD [OF assms(1,2)] assms(3) by auto

subsection \<open>The node-related part of the state\<close>

definition rows_of :: "string \<Rightarrow> fleet \<Rightarrow> AgentNode list" where
  "rows_of k w = filter (\<lambda>a. an_ID a = k) (fl_rows w)"

definition same_nodes :: "fleet \<Rightarrow> fleet \<Rightarrow> bool" where
  "same_nodes w w' \<longleftrightarrow> fl_rows w' = fl_rows w \<and> fl_leases w' = fl_leases w \<and>
     fl_presence w' = fl_presence w \<and> fl_now w' = fl_now w"

locale fleet_relation =
  fixes R :: "fleet \<Rightarrow> fleet \<Rightarrow> bool"
  assumes frame: "same_nodes w w' \<Longrightarrow> R w w'"
    and trans: "R w w' \<Longrightarrow> R w' w'' \<Longrightarrow> R w w''"
begin

lemma upholds_return: "upholds R (State_Monad.return a)"
  by (simp add: upholds_def frame same_nodes_def)

lemma upholds_bind:
  assumes "upholds R p" and "\<And>a. upholds R (f a)"
  shows "upholds R (State_Monad.bind p f)"
  unfolding upholds_def
proof (intro allI impI)
  fix w :: fleet
  assume w: "calm w"
  obtain a w1 where w1: "run_state p w = (a, w1)" by fastforce
  note p = upholds_run [OF assms(1) w w1]
  from upholdsD [OF assms(2) p(1), of a] trans [OF p(2)] w1
  show "calm (snd (run_state (State_Monad.bind p f) w)) \<and> R w (snd (run_state (State_Monad.bind p f) w))"
    by simp
qed

lemma upholds_getf: "upholds R (getf g)"
  by (simp add: upholds_def frame same_nodes_def)

lemma upholds_modf:
  assumes "\<And>w. R w (h w)" and "\<And>w. fl_fault (h w) = fl_fault w"
  shows "upholds R (modf h)"
  using assms by (simp add: upholds_def)

lemma upholds_frame:
  assumes "\<And>w. same_nodes w (h w)" and "\<And>w. fl_fault (h w) = fl_fault w"
  shows "upholds R (modf h)"
  using assms frame by (simp add: upholds_def)

lemma upholds_sql:
  assumes "\<And>w. R w (snd (tx w))" and "\<And>w. fl_fault (snd (tx w)) = fl_fault w"
  shows "upholds R (sql tx)"
  unfolding upholds_def
proof (intro allI impI)
  fix w :: fleet
  assume w: "calm w"
  let ?w = "w\<lparr>fl_calls := Suc (fl_calls w)\<rparr>"
  have "R w ?w" by (rule frame) (simp add: same_nodes_def)
  then have "R w (snd (tx ?w))" using trans assms(1) by blast
  with w assms(2) [of ?w] show "calm (snd (run_state (sql tx) w)) \<and> R w (snd (run_state (sql tx) w))"
    by (simp add: sql_def Let_def)
qed

lemma upholds_read: "(\<And>w. snd (tx w) = w) \<Longrightarrow> upholds R (sql tx)"
  by (rule upholds_sql) (simp_all add: frame same_nodes_def)

lemma upholds_probe: "upholds R (probe_node k)"
  by (simp add: upholds_def frame same_nodes_def)

lemma upholds_publish: "upholds R (publish_node e)" "upholds R (spawn j)" "upholds R (publish_all es)"
  unfolding publish_node_def spawn_def publish_all_def
  by (rule upholds_frame; simp add: same_nodes_def)+

lemma upholds_if: "\<lbrakk> b \<Longrightarrow> upholds R p; \<not> b \<Longrightarrow> upholds R q \<rbrakk> \<Longrightarrow> upholds R (if b then p else q)"
  by simp

lemma upholds_option:
  "\<lbrakk> x = None \<Longrightarrow> upholds R p; \<And>a. x = Some a \<Longrightarrow> upholds R (f a) \<rbrakk> \<Longrightarrow>
     upholds R (case x of None \<Rightarrow> p | Some a \<Rightarrow> f a)"
  by (cases x) auto

lemma upholds_sum:
  "\<lbrakk> \<And>e. x = Inl e \<Longrightarrow> upholds R (f e); \<And>a. x = Inr a \<Longrightarrow> upholds R (g a) \<rbrakk> \<Longrightarrow>
     upholds R (case x of Inl e \<Rightarrow> f e | Inr a \<Rightarrow> g a)"
  by (cases x) auto

lemma upholds_prod:
  "(\<And>a b. x = (a, b) \<Longrightarrow> upholds R (f a b)) \<Longrightarrow> upholds R (case x of (a, b) \<Rightarrow> f a b)"
  by (cases x) auto

lemma upholds_Let: "(\<And>a. a = x \<Longrightarrow> upholds R (f a)) \<Longrightarrow> upholds R (Let x f)"
  by simp

lemma upholds_reads:
  "upholds R (GetAgent k)" "upholds R (GetAgentVersion k v)" "upholds R (ListAgents)" "upholds R (ListAgentVersions k)"
  unfolding GetAgent_def GetAgentVersion_def ListAgents_def ListAgentVersions_def
  by (rule upholds_read; simp)+

lemma upholds_caches:
  "upholds R (cache_status k s)" "upholds R (drop_cached k)" "upholds R (score_cached k h)"
  unfolding cache_status_def drop_cached_def score_cached_def
  by (rule upholds_frame; simp add: same_nodes_def split: option.split)+

lemmas upholds_cases = upholds_if upholds_option upholds_sum upholds_prod upholds_Let
lemmas upholds_basic = upholds_return upholds_bind upholds_getf upholds_probe upholds_publish
  upholds_reads upholds_caches

lemma upholds_resolve: "upholds R (resolve_agent k v)"
  unfolding resolve_agent_def by (intro upholds_cases upholds_basic)

lemma upholds_snapshot: "upholds R (GetAgentStatusSnapshot k a)"
  unfolding GetAgentStatusSnapshot_def by (intro upholds_cases upholds_basic)

lemma upholds_notify: "upholds R (notifyStatusChanged sm k s t)" "upholds R (broadcastStatusEvents sm k s t)"
  unfolding notifyStatusChanged_def broadcastStatusEvents_def
  by (rule upholds_frame; simp add: same_nodes_def)
    (intro upholds_cases upholds_basic upholds_frame; simp add: same_nodes_def)

lemma upholds_shouldUpdateDatabase: "upholds R (shouldUpdateDatabase k t s)"
  unfolding shouldUpdateDatabase_def
  by (intro upholds_cases upholds_basic upholds_frame) (simp_all add: same_nodes_def)

lemma upholds_agent_of: "upholds R (agent_of k v)"
  unfolding agent_of_def by (intro upholds_cases upholds_basic)

lemma upholds_bulk: "upholds R (bulk_status ks acc)"
proof (induction ks arbitrary: acc)
  case Nil
  show ?case by (simp add: upholds_return)
next
  case (Cons k ks)
  show ?case unfolding bulk_status.simps by (intro upholds_basic upholds_snapshot Cons)
qed

end

subsection \<open>Operations about one node\<close>

definition others :: "string \<Rightarrow> fleet \<Rightarrow> fleet \<Rightarrow> bool" where
  "others j w w' \<longleftrightarrow> fl_now w' = fl_now w \<and>
     (distinct (map fst (fl_presence w)) \<longrightarrow> distinct (map fst (fl_presence w'))) \<and>
     (\<forall>k. k \<noteq> j \<longrightarrow> rows_of k w' = rows_of k w \<and> fl_leases w' k = fl_leases w k \<and>
        map_of (fl_presence w') k = map_of (fl_presence w) k)"

interpretation others: fleet_relation "others j" for j
  by unfold_locales (auto simp: others_def same_nodes_def rows_of_def)

lemma rows_of_update_rows:
  assumes "\<And>a. an_ID (f a) = an_ID a"
  shows "rows_of k (update_rows P f w) = map (\<lambda>a. if P a then f a else a) (rows_of k w)"
  using assms by (simp add: rows_of_def update_rows_def filter_map o_def if_distrib)

lemma rows_of_untouched:
  assumes "\<And>a. an_ID (f a) = an_ID a" and "\<And>a. P a \<Longrightarrow> an_ID a = j" and "k \<noteq> j"
  shows "rows_of k (update_rows P f w) = rows_of k w"
proof -
  have "map (\<lambda>a. if P a then f a else a) (rows_of k w) = rows_of k w"
    using assms(2,3) by (intro map_idI) (auto simp: rows_of_def)
  then show ?thesis using rows_of_update_rows [OF assms(1)] by simp
qed

lemma update_rows_sel [simp]:
  "fl_now (update_rows P f w) = fl_now w" "fl_leases (update_rows P f w) = fl_leases w"
  "fl_presence (update_rows P f w) = fl_presence w" "fl_fault (update_rows P f w) = fl_fault w"
  "fl_cache (update_rows P f w) = fl_cache w" "fl_rows (update_rows P f w) = map (\<lambda>a. if P a then f a else a) (fl_rows w)"
  "fl_monitored (update_rows P f w) = fl_monitored w"
  by (simp_all add: update_rows_def)

lemma others_update_rows:
  "(\<And>a. an_ID (f a) = an_ID a) \<Longrightarrow> (\<And>a. P a \<Longrightarrow> an_ID a = j) \<Longrightarrow> others j w (update_rows P f w)"
  by (auto simp: others_def rows_of_untouched)

lemma others_writes:
  "upholds (others j) (UpdateAgentHealth j h)" "upholds (others j) (UpdateAgentLifecycleStatus j l)"
  "upholds (others j) (UpdateAgentHeartbeat j v t)"
  unfolding UpdateAgentHealth_def UpdateAgentLifecycleStatus_def UpdateAgentHeartbeat_def
  by (rule others.upholds_sql; auto intro: others_update_rows)+

lemma others_registry:
  "upholds (others j) (RecordLease j t)" "upholds (others j) (Touch j v t)" "upholds (others j) (Forget j)"
  unfolding RecordLease_def Touch_def Forget_def
  by (rule others.upholds_modf; auto simp: others_def rows_of_def update_conv delete_conv distinct_update distinct_delete)+

lemma others_lease: "upholds (others j) (hasUnexpiredLease j t)"
  unfolding hasUnexpiredLease_def
  by (intro others.upholds_cases others.upholds_basic others.upholds_modf) (simp_all add: others_def rows_of_def)

lemma others_persist: "upholds (others j) (persistStatus j v s)"
  unfolding persistStatus_def by (intro others.upholds_cases others.upholds_basic others_writes)

lemma others_update: "upholds (others j) (UpdateAgentStatus sm j u)"
  unfolding UpdateAgentStatus_def
  by (intro others.upholds_cases others.upholds_basic others.upholds_resolve others.upholds_snapshot
      others.upholds_notify others_persist)

lemma others_heartbeat: "upholds (others j) (UpdateFromHeartbeat sm j l v)"
  unfolding UpdateFromHeartbeat_def
  by (intro others.upholds_cases others.upholds_basic others.upholds_snapshot others_update)

lemma others_status: "upholds (others j) (GetAgentStatus sm j)"
  unfolding GetAgentStatus_def live_check_def
  by (intro others.upholds_cases others.upholds_basic others_writes)

lemma others_refresh: "upholds (others j) (RefreshAgentStatus sm j)"
  unfolding RefreshAgentStatus_def by (intro others.upholds_cases others.upholds_basic others_status)

lemma others_mark: "upholds (others j) (markInactive pm j)"
  unfolding markInactive_def by (intro others.upholds_cases others.upholds_basic others_update)

lemma others_monitored: "upholds (others j) (modf (\<lambda>w. w\<lparr>fl_monitored := f w\<rparr>))"
  by (rule others.upholds_frame) (simp_all add: same_nodes_def)

lemma others_register: "upholds (others j) (RegisterMonitored hm j url)"
  unfolding RegisterMonitored_def touch_if_def
  by (intro others.upholds_cases others.upholds_basic others_monitored others_registry)

lemma others_unregister: "upholds (others j) (UnregisterMonitored hm j)"
  unfolding UnregisterMonitored_def IsMonitoring_def
  by (intro others.upholds_cases others.upholds_basic others_monitored others_registry others_update others_writes)

lemma others_poll: "upholds (others j) (checkAgentHealth hm j)" "upholds (others j) (judge_poll hm j b)"
proof -
  have m: "upholds (others j) (markAgentActive hm j)" "upholds (others j) (markAgentInactive hm j n)" for n
    unfolding markAgentActive_def markAgentInactive_def touch_if_def
    by (intro others.upholds_cases others.upholds_basic others_registry others_update others_writes)+
  have c: "upholds (others j) (case x of Unchanged \<Rightarrow> State_Monad.return () | BecameActive \<Rightarrow> markAgentActive hm j
     | BecameInactive n \<Rightarrow> markAgentInactive hm j n)" for x
    by (cases x) (auto intro: m others.upholds_return)
  show p: "upholds (others j) (judge_poll hm j b)" for b
    unfolding judge_poll_def heartbeat_gate_def
    by (intro others.upholds_cases others.upholds_basic others_monitored c)
  show "upholds (others j) (checkAgentHealth hm j)"
    unfolding checkAgentHealth_def IsMonitoring_def by (intro others.upholds_cases others.upholds_basic p)
qed

lemma others_touch_node: "upholds (others j) (touch_node ns j v t)"
  unfolding touch_node_def by (intro others.upholds_cases others.upholds_basic others_registry)

lemma others_async: "upholds (others j) (processHeartbeatAsync j v)"
proof -
  have c: "upholds (others j) (case x of (True, Some c) \<Rightarrow> do { _ \<leftarrow> UpdateAgentHeartbeat j v (cnd_LastDBUpdate c); State_Monad.return () }
       | _ \<Rightarrow> State_Monad.return ())" for x :: "bool \<times> CachedNodeData option"
    by (auto split: prod.split bool.split option.split intro!: others.upholds_basic others_writes)
  show ?thesis
    unfolding processHeartbeatAsync_def by (intro others.upholds_cases others.upholds_basic c)
qed

lemma others_HeartbeatHandler: "upholds (others j) (HeartbeatHandler ns j hb)"
  unfolding HeartbeatHandler_def HasLease_def heartbeat_unified_def heartbeat_legacy_def known_or_lookup_def
  by (intro others.upholds_cases others.upholds_basic others.upholds_shouldUpdateDatabase others.upholds_agent_of
      others.upholds_resolve others_touch_node others_register others_heartbeat others_update others_writes)

lemma others_renew: "upholds (others j) (renew_lease ns ttl j v)" "upholds (others j) (seen_now ns j v)"
  unfolding renew_lease_def record_lease_def seen_now_def
  by (intro others.upholds_cases others.upholds_basic others_touch_node others_registry others_writes)+

lemma others_requests:
  "upholds (others j) (NodeStatusLeaseHandler ns d j p)" "upholds (others j) (NodeActionAckHandler ns d j q)"
  "upholds (others j) (NodeShutdownHandler ns j v)" "upholds (others j) (UpdateLifecycleStatusHandler ns j r)"
  "upholds (others j) (GetNodeStatusHandler ns j)" "upholds (others j) (RefreshNodeStatusHandler ns j)"
  "upholds (others j) (StartNodeHandler ns j)" "upholds (others j) (StopNodeHandler ns j)"
  unfolding NodeStatusLeaseHandler_def NodeActionAckHandler_def NodeShutdownHandler_def UpdateLifecycleStatusHandler_def
    GetNodeStatusHandler_def RefreshNodeStatusHandler_def StartNodeHandler_def StopNodeHandler_def manual_handler_def
  by (intro others.upholds_cases others.upholds_basic others.upholds_agent_of others.upholds_snapshot others_renew
      others_register others_registry others_update others_heartbeat others_refresh others_status others_writes)+

subsection \<open>Nodes that wait for approval\<close>

definition pending :: "string \<Rightarrow> fleet \<Rightarrow> bool" where
  "pending k w \<longleftrightarrow> (case select_agent k (fl_rows w) of None \<Rightarrow> False
     | Some a \<Rightarrow> an_LifecycleStatus a = LcPendingApproval)"

definition lifecycles :: "string \<Rightarrow> fleet \<Rightarrow> (string \<times> AgentLifecycleStatus) list" where
  "lifecycles k w = map (\<lambda>a. (an_Version a, an_LifecycleStatus a)) (rows_of k w)"

definition pending_kept :: "fleet \<Rightarrow> fleet \<Rightarrow> bool" where
  "pending_kept w w' \<longleftrightarrow> (\<forall>k. pending k w \<longrightarrow> lifecycles k w' = lifecycles k w)"

lemma sort_key_map: "sort_key f (map g xs) = map g (sort_key (\<lambda>x. f (g x)) xs)"
proof (induction xs)
  case (Cons x xs)
  have "insort_key f (g x) (map g ys) = map g (insort_key (\<lambda>x. f (g x)) x ys)" for ys
    by (induction ys) auto
  with Cons show ?case by simp
qed simp

lemma pending_lifecycles:
  "pending k w \<longleftrightarrow> (case sort_key (\<lambda>(v, l). (v \<noteq> [], v)) (lifecycles k w) of [] \<Rightarrow> False
     | (v, l) # _ \<Rightarrow> l = LcPendingApproval)"
  unfolding pending_def lifecycles_def rows_of_def select_agent_def sort_key_map
  by (simp split: list.split)

lemma pending_cong: "lifecycles k w' = lifecycles k w \<Longrightarrow> pending k w' = pending k w"
  by (simp add: pending_lifecycles)

interpretation pending: fleet_relation pending_kept
proof
  show "pending_kept w w'" if "same_nodes w w'" for w w'
    using that by (simp add: pending_kept_def lifecycles_def rows_of_def same_nodes_def)
  show "pending_kept w w''" if "pending_kept w w'" "pending_kept w' w''" for w w' w''
    using that pending_cong unfolding pending_kept_def by metis
qed

lemma pending_kept_rows: "map (\<lambda>a. (an_ID a, an_Version a, an_LifecycleStatus a)) (fl_rows w') =
    map (\<lambda>a. (an_ID a, an_Version a, an_LifecycleStatus a)) (fl_rows w) \<Longrightarrow> pending_kept w w'"
proof -
  assume eq: "map (\<lambda>a. (an_ID a, an_Version a, an_LifecycleStatus a)) (fl_rows w') =
    map (\<lambda>a. (an_ID a, an_Version a, an_LifecycleStatus a)) (fl_rows w)"
  have "lifecycles k v = map snd (filter (\<lambda>x. fst x = k)
      (map (\<lambda>a. (an_ID a, an_Version a, an_LifecycleStatus a)) (fl_rows v)))" for k and v :: fleet
    by (simp add: lifecycles_def rows_of_def filter_map o_def)
  with eq show "pending_kept w w'" by (simp add: pending_kept_def)
qed

lemma pending_writes:
  "upholds pending_kept (UpdateAgentHealth k h)" "upholds pending_kept (UpdateAgentHeartbeat k v t)"
  unfolding UpdateAgentHealth_def UpdateAgentHeartbeat_def
  by (rule pending.upholds_sql; auto intro!: pending_kept_rows)+

lemma pending_same_rows: "fl_rows w' = fl_rows w \<Longrightarrow> pending_kept w w'"
  by (rule pending_kept_rows) simp

lemma pending_registry:
  "upholds pending_kept (RecordLease k t)" "upholds pending_kept (Touch k v t)" "upholds pending_kept (Forget k)"
  "upholds pending_kept (hasUnexpiredLease k t)" "upholds pending_kept (modf (\<lambda>w. w\<lparr>fl_monitored := f w\<rparr>))"
  unfolding RecordLease_def Touch_def Forget_def hasUnexpiredLease_def
  by (intro pending.upholds_cases pending.upholds_basic pending.upholds_modf; simp add: pending_same_rows)+

lemma others_pending: "others j w w' \<Longrightarrow> \<not> pending j w \<Longrightarrow> pending_kept w w'"
  unfolding others_def pending_kept_def lifecycles_def by metis

text \<open>The one place where the protection is decided.\<close>

lemma pending_update: "upholds pending_kept (UpdateAgentStatus sm k u)"
  unfolding upholds_def
proof (intro allI impI)
  fix w :: fleet
  assume w: "calm w"
  let ?w' = "snd (run_state (UpdateAgentStatus sm k u) w)"
  note o = upholdsD [OF others_update [of k sm u] w]
  show "calm ?w' \<and> pending_kept w ?w'"
  proof (cases "pending k w")
    case False
    with o others_pending show ?thesis by blast
  next
    case True
    then obtain a where a: "select_agent k (fl_rows w) = Some a" "an_LifecycleStatus a = LcPendingApproval"
      by (auto simp: pending_def split: option.splits)
    have "fl_rows ?w' = fl_rows w"
      using w a by (auto simp: UpdateAgentStatus_def resolve_agent_def GetAgent_def sql_def score_cached_def Let_def
          split: option.split)
    with o(1) show ?thesis by (simp add: pending_same_rows)
  qed
qed

lemma pending_heartbeat: "upholds pending_kept (UpdateFromHeartbeat sm k l v)"
  unfolding UpdateFromHeartbeat_def
  by (intro pending.upholds_cases pending.upholds_basic pending.upholds_snapshot pending_update)

lemma pending_status: "upholds pending_kept (GetAgentStatus sm k)"
  unfolding GetAgentStatus_def live_check_def
  by (intro pending.upholds_cases pending.upholds_basic pending_writes)

lemma pending_refresh: "upholds pending_kept (RefreshAgentStatus sm k)"
  unfolding RefreshAgentStatus_def by (intro pending.upholds_cases pending.upholds_basic pending_status)

lemma pending_reconcile: "upholds pending_kept (performReconciliation sm)"
proof -
  have "upholds pending_kept (reconcile_all sm as)" for as
    by (induction as) (auto intro!: pending.upholds_cases pending.upholds_basic pending_registry pending_update
        simp: needsReconciliation_def reconcileAgentStatus_def)
  then show ?thesis
    unfolding performReconciliation_def by (intro pending.upholds_cases pending.upholds_basic)
qed

lemma pending_mark: "upholds pending_kept (markInactive pm k)"
  unfolding markInactive_def by (intro pending.upholds_cases pending.upholds_basic pending_update)

lemma pending_sweep: "upholds pending_kept (checkExpirations pm)"
proof -
  have "upholds pending_kept (mark_all pm ks)" for ks
    by (induction ks) (auto intro!: pending.upholds_basic pending_mark)
  then show ?thesis
    unfolding checkExpirations_def collectExpired_def
    by (intro pending.upholds_cases pending.upholds_basic pending.upholds_modf) (simp_all add: pending_same_rows)
qed

end
