(* ===== verification/Node_History.thy ===== *)
theory Node_History
  imports Node_Fleet
begin

text \<open>
  The status services as the server wires them (\<open>internal/server/server.go\<close>), the histories of their operations, and
  three properties: a node that waits for approval is left alone, a granted lease is honoured, and a pass of
  reconciliation leaves nothing to reconcile.
\<close>

subsection \<open>The server's wiring\<close>

record NodeHealthConfig =
  nhc_CheckInterval :: duration
  nhc_CheckTimeout :: duration
  nhc_ConsecutiveFailures :: int
  nhc_RecoveryDebounce :: duration
  nhc_HeartbeatStaleThreshold :: duration

definition server_status :: "NodeHealthConfig \<Rightarrow> StatusManager" where
  "server_status cfg = NewStatusManager \<lparr>smc_ReconcileInterval = 30 * second, smc_StatusCacheTTL = 5 * minute,
     smc_MaxTransitionTime = 2 * minute, smc_HeartbeatStaleThreshold = nhc_HeartbeatStaleThreshold cfg\<rparr> True True"

definition server_presence :: "NodeHealthConfig \<Rightarrow> PresenceManager" where
  "server_presence cfg = SetExpireCallback (NewPresenceManager (Some (server_status cfg))
     \<lparr>pmc_HeartbeatTTL = 5 * minute, pmc_SweepInterval = 30 * second, pmc_HardEvictTTL = 30 * minute\<rparr>)"

definition server_monitor :: "NodeHealthConfig \<Rightarrow> HealthMonitor" where
  "server_monitor cfg = NewHealthMonitor \<lparr>hmc_CheckInterval = nhc_CheckInterval cfg, hmc_CheckTimeout = nhc_CheckTimeout cfg,
     hmc_ConsecutiveFailures = nhc_ConsecutiveFailures cfg, hmc_RecoveryDebounce = nhc_RecoveryDebounce cfg\<rparr>
     True (Some (server_status cfg)) True"

definition server_services :: "NodeHealthConfig \<Rightarrow> node_services" where
  "server_services cfg = \<lparr>ns_status = Some (server_status cfg), ns_monitor = Some (server_monitor cfg), ns_presence = True\<rparr>"

lemma server_sel [simp]:
  "ns_status (server_services cfg) = Some (server_status cfg)"
  "ns_monitor (server_services cfg) = Some (server_monitor cfg)"
  "ns_presence (server_services cfg)"
  "hm_status (server_monitor cfg) = Some (server_status cfg)" "hm_presence (server_monitor cfg)"
  "pm_status (server_presence cfg) = Some (server_status cfg)"
  "pmc_HeartbeatTTL (pm_config (server_presence cfg)) = 5 * minute"
  "smc_MaxTransitionTime (sm_config (server_status cfg)) = 2 * minute"
  by (simp_all add: server_services_def server_monitor_def NewHealthMonitor_def server_presence_def
      SetExpireCallback_def NewPresenceManager_def presence_defaults_def Let_def minute_def second_def
      server_status_def NewStatusManager_def status_manager_defaults_def)

subsection \<open>Histories\<close>

text \<open>
  \<open>Late_mark\<close> and \<open>Late_verdict\<close> are the second halves of a sweep and of a poll, which may run after other operations;
  \<open>Write_heartbeat\<close> and \<open>Unregister\<close> are the goroutines of a heartbeat and of an expired lease.
\<close>

datatype node_op =
    Heartbeat string enhanced_heartbeat
  | Renew string "string + lease_request"
  | Ack string "string + ack_request"
  | Claim "string + claim_request"
  | Shutdown string string
  | Set_lifecycle string "string + string"
  | Start_node string
  | Stop_node string
  | Get_status string
  | Refresh string
  | Refresh_all
  | Bulk_status "string + string list"
  | Reconcile
  | Sweep
  | Late_mark string
  | Poll string
  | Late_verdict string bool
  | Poll_all
  | Unregister string
  | Write_heartbeat string string
  | Tick nat

definition forget_reply :: "reply fop \<Rightarrow> unit fop" where
  "forget_reply p = do { _ \<leftarrow> p; State_Monad.return () }"

primrec serve_node :: "NodeHealthConfig \<Rightarrow> node_op \<Rightarrow> unit fop" where
  "serve_node cfg (Heartbeat k hb) = forget_reply (HeartbeatHandler (server_services cfg) k hb)"
| "serve_node cfg (Renew k p) = forget_reply (NodeStatusLeaseHandler (server_services cfg) DefaultLeaseTTL k p)"
| "serve_node cfg (Ack k p) = forget_reply (NodeActionAckHandler (server_services cfg) DefaultLeaseTTL k p)"
| "serve_node cfg (Claim p) = forget_reply (ClaimActionsHandler (server_services cfg) DefaultLeaseTTL p)"
| "serve_node cfg (Shutdown k v) = forget_reply (NodeShutdownHandler (server_services cfg) k v)"
| "serve_node cfg (Set_lifecycle k p) = forget_reply (UpdateLifecycleStatusHandler (server_services cfg) k p)"
| "serve_node cfg (Start_node k) = forget_reply (StartNodeHandler (server_services cfg) k)"
| "serve_node cfg (Stop_node k) = forget_reply (StopNodeHandler (server_services cfg) k)"
| "serve_node cfg (Get_status k) = forget_reply (GetNodeStatusHandler (server_services cfg) k)"
| "serve_node cfg (Refresh k) = forget_reply (RefreshNodeStatusHandler (server_services cfg) k)"
| "serve_node cfg Refresh_all = forget_reply (RefreshAllNodeStatusHandler (server_services cfg))"
| "serve_node cfg (Bulk_status p) = forget_reply (BulkNodeStatusHandler (server_services cfg) p)"
| "serve_node cfg Reconcile = performReconciliation (server_status cfg)"
| "serve_node cfg Sweep = checkExpirations (server_presence cfg)"
| "serve_node cfg (Late_mark k) = markInactive (server_presence cfg) k"
| "serve_node cfg (Poll k) = checkAgentHealth (server_monitor cfg) k"
| "serve_node cfg (Late_verdict k b) = judge_poll (server_monitor cfg) k b"
| "serve_node cfg Poll_all = checkActiveAgents (server_monitor cfg)"
| "serve_node cfg (Unregister k) = UnregisterMonitored (server_monitor cfg) k"
| "serve_node cfg (Write_heartbeat k v) = processHeartbeatAsync k v"
| "serve_node cfg (Tick d) = modf (\<lambda>w. w\<lparr>fl_now := fl_now w + int d\<rparr>)"

fun run_history :: "NodeHealthConfig \<Rightarrow> node_op list \<Rightarrow> fleet \<Rightarrow> fleet" where
  "run_history cfg [] w = w"
| "run_history cfg (op # ops) w = run_history cfg ops (snd (run_state (serve_node cfg op) w))"

subsection \<open>A node that waits for approval\<close>

lemma pending_tick: "upholds pending_kept (modf (\<lambda>w. w\<lparr>fl_now := g w\<rparr>))"
  by (rule pending.upholds_modf) (simp_all add: pending_same_rows)

lemma pending_touch: "upholds pending_kept (touch_node ns k v t)" "upholds pending_kept (touch_if b k)"
  unfolding touch_node_def touch_if_def by (intro pending.upholds_cases pending.upholds_basic pending_registry)+

lemma pending_register: "upholds pending_kept (RegisterMonitored hm k url)"
  unfolding RegisterMonitored_def by (intro pending.upholds_cases pending.upholds_basic pending_registry pending_touch)

lemma pending_poll:
  assumes "hm_status hm = Some sm"
  shows "upholds pending_kept (judge_poll hm k b)" "upholds pending_kept (checkAgentHealth hm k)"
proof -
  have m: "upholds pending_kept (markAgentActive hm k)" "upholds pending_kept (markAgentInactive hm k n)" for n
    unfolding markAgentActive_def markAgentInactive_def assms option.case
    by (intro pending.upholds_cases pending.upholds_basic pending_touch pending_update pending_writes)+
  have c: "upholds pending_kept (case x of Unchanged \<Rightarrow> State_Monad.return () | BecameActive \<Rightarrow> markAgentActive hm k
     | BecameInactive n \<Rightarrow> markAgentInactive hm k n)" for x
    by (cases x) (auto intro: m pending.upholds_return)
  show p: "upholds pending_kept (judge_poll hm k b)" for b
    unfolding judge_poll_def heartbeat_gate_def
    by (intro pending.upholds_cases pending.upholds_basic pending_registry c)
  show "upholds pending_kept (checkAgentHealth hm k)"
    unfolding checkAgentHealth_def IsMonitoring_def by (intro pending.upholds_cases pending.upholds_basic p)
qed

lemma pending_poll_all:
  assumes "hm_status hm = Some sm"
  shows "upholds pending_kept (checkActiveAgents hm)"
proof -
  have "upholds pending_kept (check_all hm ks)" for ks
    by (induction ks) (auto intro!: pending.upholds_basic pending_poll [OF assms])
  then show ?thesis unfolding checkActiveAgents_def by (intro pending.upholds_basic)
qed

lemma pending_unregister:
  assumes "hm_status hm = Some sm"
  shows "upholds pending_kept (UnregisterMonitored hm k)"
  unfolding UnregisterMonitored_def IsMonitoring_def assms option.case
  by (intro pending.upholds_cases pending.upholds_basic pending_registry pending_update pending_writes)

lemma pending_async: "upholds pending_kept (processHeartbeatAsync k v)"
proof -
  have c: "upholds pending_kept (case x of (True, Some c) \<Rightarrow> do { _ \<leftarrow> UpdateAgentHeartbeat k v (cnd_LastDBUpdate c); State_Monad.return () }
       | _ \<Rightarrow> State_Monad.return ())" for x :: "bool \<times> CachedNodeData option"
    by (auto split: prod.split bool.split option.split intro!: pending.upholds_basic pending_writes)
  show ?thesis
    unfolding processHeartbeatAsync_def by (intro pending.upholds_cases pending.upholds_basic c)
qed

lemma pending_HeartbeatHandler:
  assumes "ns_status ns = Some sm"
  shows "upholds pending_kept (HeartbeatHandler ns k hb)"
proof -
  have l: "upholds pending_kept (heartbeat_legacy k hb e)" if "ehb_Status hb = []" for e
    using that by (simp add: heartbeat_legacy_def valid_lifecycle_def pending.upholds_return)
  have u: "upholds pending_kept (heartbeat_unified sm k hb e)" for e
    unfolding heartbeat_unified_def known_or_lookup_def
    by (intro pending.upholds_cases pending.upholds_basic pending.upholds_agent_of pending_heartbeat pending_update)
  show ?thesis
    unfolding HeartbeatHandler_def HasLease_def assms option.sel
    by (intro pending.upholds_cases pending.upholds_basic pending.upholds_shouldUpdateDatabase pending.upholds_agent_of
        pending_touch pending_register u l) auto
qed

lemma pending_renew: "upholds pending_kept (renew_lease ns ttl k v)" "upholds pending_kept (seen_now ns k v)"
  unfolding renew_lease_def record_lease_def seen_now_def
  by (intro pending.upholds_cases pending.upholds_basic pending_touch pending_registry pending_writes)+

lemma pending_requests:
  assumes "ns_status ns = Some sm"
  shows "upholds pending_kept (NodeStatusLeaseHandler ns d k p)" "upholds pending_kept (NodeActionAckHandler ns d k q)"
    "upholds pending_kept (ClaimActionsHandler ns d c)"
    "upholds pending_kept (NodeShutdownHandler ns k v)" "upholds pending_kept (UpdateLifecycleStatusHandler ns k r)"
    "upholds pending_kept (GetNodeStatusHandler ns k)" "upholds pending_kept (RefreshNodeStatusHandler ns k)"
    "upholds pending_kept (StartNodeHandler ns k)" "upholds pending_kept (StopNodeHandler ns k)"
    "upholds pending_kept (BulkNodeStatusHandler ns b)"
  unfolding NodeStatusLeaseHandler_def NodeActionAckHandler_def ClaimActionsHandler_def NodeShutdownHandler_def
    UpdateLifecycleStatusHandler_def GetNodeStatusHandler_def RefreshNodeStatusHandler_def StartNodeHandler_def
    StopNodeHandler_def manual_handler_def BulkNodeStatusHandler_def assms option.case
  by (intro pending.upholds_cases pending.upholds_basic pending.upholds_agent_of pending.upholds_snapshot
      pending.upholds_bulk pending_renew pending_register pending_registry pending_update pending_heartbeat
      pending_refresh pending_status pending_writes)+

lemma pending_refresh_all:
  assumes "ns_status ns = Some sm"
  shows "upholds pending_kept (RefreshAllNodeStatusHandler ns)"
proof -
  have "upholds pending_kept (refresh_all sm as acc)" for as acc
    by (induction as arbitrary: acc) (auto intro!: pending.upholds_basic pending_refresh split: sum.split)
  then show ?thesis
    unfolding RefreshAllNodeStatusHandler_def assms option.case
    by (intro pending.upholds_cases pending.upholds_basic)
qed

lemma pending_serve: "upholds pending_kept (serve_node cfg op)"
proof -
  have f: "upholds pending_kept p \<Longrightarrow> upholds pending_kept (forget_reply p)" for p
    unfolding forget_reply_def by (intro pending.upholds_basic)
  show ?thesis
    by (cases op) (simp_all add: f pending_HeartbeatHandler pending_requests pending_refresh_all pending_reconcile
        pending_sweep pending_mark pending_poll pending_poll_all pending_unregister pending_async pending_tick)
qed

subsection \<open>What an accepted update writes\<close>

definition last_known :: "string \<Rightarrow> AgentNode \<Rightarrow> fleet \<Rightarrow> AgentStatus" where
  "last_known k a w = (case fl_cache w k of Some c \<Rightarrow> cas_Status c | None \<Rightarrow> snapshot_of (fl_now w) a)"

definition written_row :: "string \<Rightarrow> string \<Rightarrow> AgentStatus \<Rightarrow> AgentNode \<Rightarrow> AgentNode" where
  "written_row k v s b =
     (if an_ID b \<noteq> k then b
      else (let b = b\<lparr>an_HealthStatus := as_HealthStatus s, an_LifecycleStatus := as_LifecycleStatus s\<rparr>
            in if as_Source s = SourceHeartbeat \<and> an_Version b = v then b\<lparr>an_LastHeartbeat := as_LastSeen s\<rparr> else b))"

lemma run_GetAgent:
  "calm w \<Longrightarrow> run_state (GetAgent k) w = (case select_agent k (fl_rows w) of
      None \<Rightarrow> (Inl (Errorf (''agent node with ID '' @ quoted k @ '' not found'')), w\<lparr>fl_calls := Suc (fl_calls w)\<rparr>)
    | Some a \<Rightarrow> (Inr a, w\<lparr>fl_calls := Suc (fl_calls w)\<rparr>))"
  by (simp add: GetAgent_def sql_def split: option.split)

lemma written_row_steps:
  "(\<lambda>b. if an_ID b = k then b\<lparr>an_LifecycleStatus := as_LifecycleStatus s\<rparr> else b) \<circ>
   (\<lambda>b. if an_ID b = k then b\<lparr>an_HealthStatus := as_HealthStatus s\<rparr> else b) =
     (if as_Source s = SourceHeartbeat
      then (\<lambda>b. if an_ID b = k then b\<lparr>an_HealthStatus := as_HealthStatus s, an_LifecycleStatus := as_LifecycleStatus s\<rparr> else b)
      else written_row k v s)"
  "as_Source s = SourceHeartbeat \<Longrightarrow>
   (\<lambda>b. if an_ID b = k \<and> an_Version b = v then b\<lparr>an_LastHeartbeat := as_LastSeen s\<rparr> else b) \<circ>
   (\<lambda>b. if an_ID b = k then b\<lparr>an_HealthStatus := as_HealthStatus s, an_LifecycleStatus := as_LifecycleStatus s\<rparr> else b) =
     written_row k v s"
  by (auto simp: fun_eq_iff written_row_def Let_def)

lemma run_persist:
  assumes "calm w"
  shows "\<exists>n. run_state (persistStatus k v s) w = (Inr (enforce_lifecycle s),
    w\<lparr>fl_rows := map (written_row k v (enforce_lifecycle s)) (fl_rows w), fl_calls := n\<rparr>)"
  using assms
  by (intro exI [of _ "fl_calls (snd (run_state (persistStatus k v s) w))"])
    (simp add: persistStatus_def UpdateAgentHealth_def UpdateAgentLifecycleStatus_def UpdateAgentHeartbeat_def
        sql_def update_rows_def Let_def written_row_steps(1) [where v = v] written_row_steps(2))

lemma run_snapshot:
  "\<exists>c n. run_state (GetAgentStatusSnapshot k (Some a)) w = (Inr (last_known k a w), w\<lparr>fl_cache := c, fl_calls := n\<rparr>) \<and>
     (\<forall>x. c(k := x) = (fl_cache w)(k := x))"
proof (cases "fl_cache w k")
  case None
  then show ?thesis
    by (intro exI [of _ "fl_cache (snd (run_state (GetAgentStatusSnapshot k (Some a)) w))"] exI [of _ "fl_calls w"])
      (simp add: GetAgentStatusSnapshot_def last_known_def cache_status_def)
next
  case (Some c)
  then show ?thesis
    by (intro exI [of _ "fl_cache w"] exI [of _ "fl_calls w"]) (simp add: GetAgentStatusSnapshot_def last_known_def)
qed

lemma update_run:
  assumes w: "calm w" and a: "select_agent k (fl_rows w) = Some a" "an_LifecycleStatus a \<noteq> LcPendingApproval"
    and new: "apply_update (fl_now w) u (last_known k a w) = Inr new"
  shows "fst (run_state (UpdateAgentStatus sm k u) w) = Inr ()"
    and "fl_rows (snd (run_state (UpdateAgentStatus sm k u) w)) =
      map (written_row k (an_Version a) (enforce_lifecycle new)) (fl_rows w)"
    and "fl_cache (snd (run_state (UpdateAgentStatus sm k u) w)) = (fl_cache w)(k :=
      Some \<lparr>cas_Status = enforce_lifecycle new, cas_Timestamp = fl_now w\<rparr>)"
    and "calm (snd (run_state (UpdateAgentStatus sm k u) w))"
    and "fl_now (snd (run_state (UpdateAgentStatus sm k u) w)) = fl_now w"
    and "fl_leases (snd (run_state (UpdateAgentStatus sm k u) w)) = fl_leases w"
    and "fl_presence (snd (run_state (UpdateAgentStatus sm k u) w)) = fl_presence w"
    and "fl_monitored (snd (run_state (UpdateAgentStatus sm k u) w)) = fl_monitored w"
proof -
  have r: "run_state (resolve_agent k v) w = (Some a, w\<lparr>fl_calls := Suc (fl_calls w)\<rparr>)" for v
    using w a by (simp add: resolve_agent_def run_GetAgent)
  let ?w = "w\<lparr>fl_calls := Suc (fl_calls w)\<rparr>"
  have k: "last_known k a ?w = last_known k a w" by (simp add: last_known_def split: option.split)
  obtain c n where s: "run_state (GetAgentStatusSnapshot k (Some a)) ?w = (Inr (last_known k a w), ?w\<lparr>fl_cache := c, fl_calls := n\<rparr>)"
      "\<And>x. c(k := x) = (fl_cache w)(k := x)"
    using run_snapshot [of k a ?w] unfolding k by auto
  have w1: "calm (?w\<lparr>fl_cache := c, fl_calls := n\<rparr>)" using w by simp
  obtain m where p: "run_state (persistStatus k (an_Version a) new) (?w\<lparr>fl_cache := c, fl_calls := n\<rparr>) =
      (Inr (enforce_lifecycle new), w\<lparr>fl_cache := c,
         fl_rows := map (written_row k (an_Version a) (enforce_lifecycle new)) (fl_rows w), fl_calls := m\<rparr>)"
    using run_persist [OF w1, of k "an_Version a" new] by auto
  note simps = UpdateAgentStatus_def r a s [simplified] new p [simplified] cache_status_def notifyStatusChanged_def broadcastStatusEvents_def
    run_GetAgent w
  show "fst (run_state (UpdateAgentStatus sm k u) w) = Inr ()" by (simp add: simps split: option.split)
  show "fl_rows (snd (run_state (UpdateAgentStatus sm k u) w)) =
      map (written_row k (an_Version a) (enforce_lifecycle new)) (fl_rows w)" by (simp add: simps split: option.split)
  show "fl_cache (snd (run_state (UpdateAgentStatus sm k u) w)) = (fl_cache w)(k :=
      Some \<lparr>cas_Status = enforce_lifecycle new, cas_Timestamp = fl_now w\<rparr>)" by (simp add: simps split: option.split)
  show "calm (snd (run_state (UpdateAgentStatus sm k u) w))"
    and "fl_now (snd (run_state (UpdateAgentStatus sm k u) w)) = fl_now w"
    and "fl_leases (snd (run_state (UpdateAgentStatus sm k u) w)) = fl_leases w"
    and "fl_presence (snd (run_state (UpdateAgentStatus sm k u) w)) = fl_presence w"
    and "fl_monitored (snd (run_state (UpdateAgentStatus sm k u) w)) = fl_monitored w"
    by (simp_all add: simps split: option.split)
qed

lemma update_refused:
  assumes w: "calm w" and a: "select_agent k (fl_rows w) = Some a" "an_LifecycleStatus a \<noteq> LcPendingApproval"
    and new: "apply_update (fl_now w) u (last_known k a w) = Inl e"
  shows "fst (run_state (UpdateAgentStatus sm k u) w) = Inl e"
proof -
  have r: "run_state (resolve_agent k v) w = (Some a, w\<lparr>fl_calls := Suc (fl_calls w)\<rparr>)" for v
    using w a by (simp add: resolve_agent_def run_GetAgent)
  show ?thesis
    using w a new by (cases "fl_cache w k")
      (auto simp: UpdateAgentStatus_def r GetAgentStatusSnapshot_def last_known_def cache_status_def)
qed

subsection \<open>A granted lease\<close>

text \<open>
  \<open>held k D w\<close>: node \<open>k\<close> has one row, which is active and ready, a status lease whose grace lasts until \<open>D\<close>, and a
  presence lease that lasts until \<open>D\<close>, which has not come.
\<close>

definition held :: "string \<Rightarrow> instant \<Rightarrow> fleet \<Rightarrow> bool" where
  "held k D w \<longleftrightarrow> fl_now w < D \<and> distinct (map fst (fl_presence w)) \<and>
     (\<exists>a. rows_of k w = [a] \<and> an_HealthStatus a = HealthActive \<and> an_LifecycleStatus a = LcReady) \<and>
     (\<exists>E. fl_leases w k = Some E \<and> D \<le> E + grantedLeaseGrace) \<and>
     (\<exists>l. map_of (fl_presence w) k = Some l \<and> \<not> ple_MarkedOffline l \<and> D \<le> ple_LastSeen l + 5 * minute)"

definition held_kept :: "string \<Rightarrow> instant \<Rightarrow> fleet \<Rightarrow> fleet \<Rightarrow> bool" where
  "held_kept k D w w' \<longleftrightarrow> (held k D w \<longrightarrow> held k D w' \<and> rows_of k w' = rows_of k w \<and> fl_now w' = fl_now w)"

interpretation held: fleet_relation "held_kept k D" for k D
  by unfold_locales (auto simp: held_kept_def held_def same_nodes_def rows_of_def)

lemma others_held:
  assumes "others j w w'" and "k \<noteq> j"
  shows "held_kept k D w w'"
proof -
  have e: "rows_of k w' = rows_of k w" "fl_leases w' k = fl_leases w k" "fl_now w' = fl_now w"
    "map_of (fl_presence w') k = map_of (fl_presence w) k"
    and d: "distinct (map fst (fl_presence w)) \<longrightarrow> distinct (map fst (fl_presence w'))"
    using assms unfolding others_def by blast+
  show ?thesis unfolding held_kept_def held_def e using d by blast
qed

lemma upholds_others_held: "upholds (others j) p \<Longrightarrow> k \<noteq> j \<Longrightarrow> upholds (held_kept k D) p"
  using others_held unfolding upholds_def by blast

lemma held_fresh:
  assumes "held k D w" and "map_of (fl_presence w) k = Some l"
  shows "\<not> lease_over (server_presence cfg) (fl_now w) l" and "\<not> ple_MarkedOffline l"
proof -
  have l: "\<not> ple_MarkedOffline l" "fl_now w < ple_LastSeen l + 5 * minute"
    using assms unfolding held_def by auto
  have "time_Sub (fl_now w) (ple_LastSeen l) < 5 * minute"
    using l(2) by (simp add: time_Sub_def minute_def)
  then show "\<not> lease_over (server_presence cfg) (fl_now w) l" by (simp add: lease_over_def)
  show "\<not> ple_MarkedOffline l" by (fact l(1))
qed

lemma held_mark: "upholds (held_kept k D) (markInactive (server_presence cfg) j)"
proof (cases "j = k")
  case False
  then show ?thesis by (intro upholds_others_held [OF others_mark]) simp
next
  case True
  have "held_kept k D w (snd (run_state (markInactive (server_presence cfg) k) w))" for w
    by (auto simp: held_kept_def markInactive_def held_def)
  moreover have "calm (snd (run_state (markInactive (server_presence cfg) k) w))" if "calm w" for w
    using upholdsD(1) [OF others_mark that] by blast
  ultimately show ?thesis unfolding True upholds_def by blast
qed

lemma map_of_expire:
  assumes "distinct (map fst ls)" and "map_of ls k = Some l" and "\<not> P l" and "f l = l"
  shows "map_of (map (\<lambda>(k, l). (k, f l)) (filter (\<lambda>(k, l). \<not> P l) ls)) k = Some l"
  using assms
proof (induction ls)
  case (Cons x ls)
  obtain j m where x: "x = (j, m)" by fastforce
  show ?case
  proof (cases "j = k")
    case True
    with Cons.prems x show ?thesis by simp
  next
    case False
    with Cons x show ?thesis by simp
  qed
qed simp

lemma distinct_expire:
  "distinct (map fst ls) \<Longrightarrow> distinct (map fst (map (\<lambda>(k, l). (k, f l)) (filter (\<lambda>(k, l). \<not> P l) ls)))"
  by (induction ls) (auto simp: image_iff)

lemma held_sweep: "upholds (held_kept k D) (checkExpirations (server_presence cfg))"
proof -
  have c: "upholds (held_kept k D) (collectExpired (server_presence cfg))"
    unfolding upholds_def
  proof (intro allI impI)
    fix w :: fleet
    assume w: "calm w"
    let ?w' = "snd (run_state (collectExpired (server_presence cfg)) w)"
    have "held_kept k D w ?w'"
      unfolding held_kept_def
    proof
      assume h: "held k D w"
      then obtain l where l: "map_of (fl_presence w) k = Some l" by (auto simp: held_def)
      note f = held_fresh(1) [OF h l, of cfg] held_fresh(2) [OF h l]
      have p: "fl_presence ?w' = map (\<lambda>(k, l). (k, expire_lease (server_presence cfg) (fl_now w) l))
          (filter (\<lambda>(k, l). \<not> lease_evicted (server_presence cfg) (fl_now w) l) (fl_presence w))"
        by (simp add: collectExpired_def)
      have "map_of (fl_presence ?w') k = Some l"
        unfolding p using h l f by (intro map_of_expire) (simp_all add: held_def lease_evicted_def expire_lease_def)
      moreover have "distinct (map fst (fl_presence ?w'))"
        unfolding p using h by (intro distinct_expire) (simp add: held_def)
      moreover have "rows_of k ?w' = rows_of k w" "fl_now ?w' = fl_now w" "fl_leases ?w' = fl_leases w"
        by (simp_all add: collectExpired_def rows_of_def)
      ultimately show "held k D ?w' \<and> rows_of k ?w' = rows_of k w \<and> fl_now ?w' = fl_now w"
        using h l unfolding held_def by simp
    qed
    with w show "calm ?w' \<and> held_kept k D w ?w'" by (simp add: collectExpired_def)
  qed
  have "upholds (held_kept k D) (mark_all (server_presence cfg) ks)" for ks
    by (induction ks) (auto intro!: held.upholds_basic held_mark)
  with c show ?thesis unfolding checkExpirations_def by (intro held.upholds_basic)
qed

text \<open>Reconciliation looks at the row as it was listed, which no earlier step of the pass has changed.\<close>

lemma held_not_needed:
  assumes "held k D w" and "rows_of k w = [a]"
  shows "run_state (needsReconciliation (sm_config (server_status cfg)) a) w = (False, w)"
proof -
  have "a \<in> set (rows_of k w)" using assms(2) by simp
  then have a: "an_ID a = k" by (simp add: rows_of_def)
  have "run_state (hasUnexpiredLease k (fl_now w)) w = (True, w)"
    using assms(1) by (auto simp: hasUnexpiredLease_def held_def)
  moreover have "an_HealthStatus a = HealthActive" "an_LifecycleStatus a = LcReady"
    using assms by (auto simp: held_def)
  ultimately show ?thesis by (auto simp: needsReconciliation_def a Let_def)
qed

lemma held_reconcile_all:
  "calm w \<Longrightarrow> held k D w \<Longrightarrow> \<forall>a \<in> set as. an_ID a = k \<longrightarrow> rows_of k w = [a] \<Longrightarrow>
   calm (snd (run_state (reconcile_all (server_status cfg) as) w)) \<and>
   held k D (snd (run_state (reconcile_all (server_status cfg) as) w)) \<and>
   rows_of k (snd (run_state (reconcile_all (server_status cfg) as) w)) = rows_of k w \<and>
   fl_now (snd (run_state (reconcile_all (server_status cfg) as) w)) = fl_now w"
proof (induction as arbitrary: w)
  case (Cons a as)
  show ?case
  proof (cases "an_ID a = k")
    case True
    then have "run_state (needsReconciliation (sm_config (server_status cfg)) a) w = (False, w)"
      using held_not_needed Cons.prems by auto
    with Cons.IH [OF Cons.prems(1,2)] Cons.prems(3) show ?thesis by simp
  next
    case False
    let ?p = "do { needed \<leftarrow> needsReconciliation (sm_config (server_status cfg)) a;
      (if needed then do { _ \<leftarrow> reconcileAgentStatus (server_status cfg) a; State_Monad.return () } else State_Monad.return ()) }"
    have "upholds (others (an_ID a)) ?p"
      unfolding needsReconciliation_def reconcileAgentStatus_def
      by (intro others.upholds_cases others.upholds_basic others_lease others_update)
    note o = upholdsD [OF this Cons.prems(1)]
    have h: "held k D (snd (run_state ?p w))" "rows_of k (snd (run_state ?p w)) = rows_of k w"
        "fl_now (snd (run_state ?p w)) = fl_now w"
      using others_held [OF o(2), of k D] False Cons.prems(2) by (auto simp: held_kept_def)
    have eq: "snd (run_state (reconcile_all (server_status cfg) (a # as)) w) =
        snd (run_state (reconcile_all (server_status cfg) as) (snd (run_state ?p w)))"
      by (simp split: prod.split)
    show ?thesis
      unfolding eq using Cons.IH [OF o(1) h(1)] Cons.prems(3) h(2,3) by simp
  qed
qed simp

lemma held_reconcile: "upholds (held_kept k D) (performReconciliation (server_status cfg))"
  unfolding upholds_def
proof (intro allI impI)
  fix w :: fleet
  assume w: "calm w"
  let ?w = "w\<lparr>fl_calls := Suc (fl_calls w)\<rparr>" and ?as = "sort_key (\<lambda>a. Desc (an_RegisteredAt a)) (fl_rows w)"
  have r: "snd (run_state (performReconciliation (server_status cfg)) w) =
      snd (run_state (reconcile_all (server_status cfg) ?as) ?w)"
    using w by (simp add: performReconciliation_def ListAgents_def sql_def)
  have u: "upholds (\<lambda>_ _. True) (performReconciliation (server_status cfg))"
    using pending_reconcile unfolding upholds_def by blast
  have "held_kept k D w (snd (run_state (performReconciliation (server_status cfg)) w))"
    unfolding held_kept_def
  proof
    assume h: "held k D w"
    moreover have "held_kept k D w ?w" by (rule held.frame) (simp add: same_nodes_def)
    ultimately have h': "held k D ?w" "rows_of k ?w = rows_of k w" "fl_now ?w = fl_now w" by (auto simp: held_kept_def)
    have "\<forall>a \<in> set ?as. an_ID a = k \<longrightarrow> rows_of k ?w = [a]"
    proof (intro ballI impI)
      fix a assume "a \<in> set ?as" "an_ID a = k"
      then have "a \<in> set (rows_of k w)" by (simp add: rows_of_def)
      with h show "rows_of k ?w = [a]" unfolding h'(2) held_def by auto
    qed
    with held_reconcile_all [of ?w k D ?as cfg] w h'
    show "held k D (snd (run_state (performReconciliation (server_status cfg)) w)) \<and>
      rows_of k (snd (run_state (performReconciliation (server_status cfg)) w)) = rows_of k w \<and>
      fl_now (snd (run_state (performReconciliation (server_status cfg)) w)) = fl_now w"
      unfolding r by simp
  qed
  with u w show "calm (snd (run_state (performReconciliation (server_status cfg)) w)) \<and>
      held_kept k D w (snd (run_state (performReconciliation (server_status cfg)) w))"
    unfolding upholds_def by blast
qed

text \<open>
  The operations that do not come from node \<open>k\<close> and do not probe it: those of other nodes, reads, reconciliation, the
  sweep and its late halves, and the passage of time.
\<close>

primrec spares :: "string \<Rightarrow> node_op \<Rightarrow> bool" where
  "spares k (Heartbeat j _) = (j \<noteq> k)"
| "spares k (Renew j _) = (j \<noteq> k)"
| "spares k (Ack j _) = (j \<noteq> k)"
| "spares k (Claim p) = (case p of Inl _ \<Rightarrow> True | Inr r \<Rightarrow> cr_NodeID r \<noteq> k)"
| "spares k (Shutdown j _) = (j \<noteq> k)"
| "spares k (Set_lifecycle j _) = (j \<noteq> k)"
| "spares k (Start_node j) = (j \<noteq> k)"
| "spares k (Stop_node j) = (j \<noteq> k)"
| "spares k (Get_status _) = True"
| "spares k (Refresh j) = (j \<noteq> k)"
| "spares k Refresh_all = False"
| "spares k (Bulk_status _) = True"
| "spares k Reconcile = True"
| "spares k Sweep = True"
| "spares k (Late_mark _) = True"
| "spares k (Poll j) = (j \<noteq> k)"
| "spares k (Late_verdict j _) = (j \<noteq> k)"
| "spares k Poll_all = False"
| "spares k (Unregister j) = (j \<noteq> k)"
| "spares k (Write_heartbeat j _) = (j \<noteq> k)"
| "spares k (Tick _) = True"

primrec ticks :: "node_op list \<Rightarrow> int" where
  "ticks [] = 0"
| "ticks (op # ops) = (case op of Tick d \<Rightarrow> int d | _ \<Rightarrow> 0) + ticks ops"

lemma ticks_nonneg: "0 \<le> ticks ops"
  by (induction ops) (auto split: node_op.split)

lemma held_serve:
  assumes "spares k op" and "\<And>d. op \<noteq> Tick d"
  shows "upholds (held_kept k D) (serve_node cfg op)"
proof -
  have f: "upholds (held_kept k D) p \<Longrightarrow> upholds (held_kept k D) (forget_reply p)" for p
    unfolding forget_reply_def by (intro held.upholds_basic)
  have g: "upholds (held_kept k D) (GetNodeStatusHandler ns j)" "upholds (held_kept k D) (BulkNodeStatusHandler ns b)" for ns j b
    unfolding GetNodeStatusHandler_def BulkNodeStatusHandler_def
    by (intro held.upholds_cases held.upholds_basic held.upholds_snapshot held.upholds_bulk)+
  have c: "upholds (held_kept k D) (ClaimActionsHandler ns d p)" if "case p of Inl _ \<Rightarrow> True | Inr r \<Rightarrow> cr_NodeID r \<noteq> k" for ns d p
  proof (cases p)
    case (Inl e)
    then show ?thesis by (simp add: ClaimActionsHandler_def held.upholds_return)
  next
    case (Inr r)
    then have "upholds (others (cr_NodeID r)) (ClaimActionsHandler ns d p)"
      unfolding ClaimActionsHandler_def by (auto intro!: others.upholds_cases others.upholds_basic others_renew)
    with that Inr show ?thesis by (intro upholds_others_held) auto
  qed
  note o = others_HeartbeatHandler others_requests others_poll others_unregister others_async
  show ?thesis
    using assms
    by (cases op) (auto intro!: f g c held_reconcile held_sweep held_mark upholds_others_held [OF o(1)]
        upholds_others_held [OF o(2)] upholds_others_held [OF o(3)] upholds_others_held [OF o(4)]
        upholds_others_held [OF o(5)] upholds_others_held [OF o(7)] upholds_others_held [OF o(8)]
        upholds_others_held [OF o(9)] upholds_others_held [OF o(10)] upholds_others_held [OF o(11)]
        upholds_others_held [OF o(12)] upholds_others_held [OF o(13)])
qed

lemma held_tick: "held k D w \<Longrightarrow> fl_now w + int d < D \<Longrightarrow> held k D (w\<lparr>fl_now := fl_now w + int d\<rparr>)"
  unfolding held_def rows_of_def by auto

lemma held_history:
  "calm w \<Longrightarrow> held k D w \<Longrightarrow> \<forall>op \<in> set ops. spares k op \<Longrightarrow> fl_now w + ticks ops < D \<Longrightarrow>
     held k D (run_history cfg ops w) \<and> rows_of k (run_history cfg ops w) = rows_of k w"
proof (induction ops arbitrary: w)
  case (Cons op ops)
  show ?case
  proof (cases "\<exists>d. op = Tick d")
    case True
    then obtain d where d: "op = Tick d" ..
    let ?w = "w\<lparr>fl_now := fl_now w + int d\<rparr>"
    have "held k D ?w"
      using Cons.prems(2,4) d ticks_nonneg [of ops] by (intro held_tick) auto
    moreover have "rows_of k ?w = rows_of k w" by (simp add: rows_of_def)
    ultimately show ?thesis using Cons.IH [of ?w] Cons.prems d by simp
  next
    case False
    have "upholds (held_kept k D) (serve_node cfg op)"
      using False Cons.prems(3) by (intro held_serve) auto
    note u = upholdsD [OF this Cons.prems(1)]
    have "(case op of Tick d \<Rightarrow> int d | _ \<Rightarrow> 0) = 0" using False by (cases op) auto
    with u Cons.prems Cons.IH [of "snd (run_state (serve_node cfg op) w)"] show ?thesis
      by (simp add: held_kept_def)
  qed
qed simp

subsection \<open>The grant\<close>

lemma select_single: "rows_of k w = [a] \<Longrightarrow> select_agent k (fl_rows w) = Some a"
  by (simp add: select_agent_def rows_of_def)

lemma find_single:
  assumes "rows_of k w = [a]" and "find (\<lambda>a. an_ID a = k \<and> an_Version a = v) (fl_rows w) = Some b"
  shows "b = a"
proof -
  from assms(2) have "b \<in> set (rows_of k w)" by (auto simp: find_Some_iff rows_of_def)
  with assms(1) show ?thesis by simp
qed

lemma run_agent_of:
  assumes "calm w" and "rows_of k w = [a]"
  shows "(\<exists>e. run_state (agent_of k v) w = (Inl e, w\<lparr>fl_calls := Suc (fl_calls w)\<rparr>)) \<or>
    run_state (agent_of k v) w = (Inr a, w\<lparr>fl_calls := Suc (fl_calls w)\<rparr>)"
  using assms find_single [OF assms(2), of v]
  by (auto simp: agent_of_def GetAgentVersion_def run_GetAgent sql_def select_single split: option.split)

lemma apply_update_ready:
  assumes "apply_update now u old = Inr new" and "au_State u = Some StateActive" and "au_LifecycleStatus u = Some LcReady"
  shows "enforce_lifecycle new = new" and "as_HealthStatus new = HealthActive" and "as_LifecycleStatus new = LcReady"
  using assms
  by (auto simp: apply_update_def handleStateTransition_def sync_lifecycle_def CompleteTransition_def StartTransition_def
      ToLegacyHealthStatus_def enforce_lifecycle_def Let_def split: if_splits option.splits)

lemma run_register:
  "\<exists>pr mo. snd (run_state (RegisterMonitored hm k url) w) = w\<lparr>fl_monitored := mo, fl_presence := pr\<rparr> \<and>
     (distinct (map fst (fl_presence w)) \<longrightarrow> distinct (map fst pr))"
proof -
  have "distinct (map fst (fl_presence w)) \<Longrightarrow> distinct (map fst (AList.update k x (fl_presence w)))" for x
    by (simp add: distinct_update)
  then show ?thesis
    by (intro exI [of _ "fl_presence (snd (run_state (RegisterMonitored hm k url) w))"]
        exI [of _ "fl_monitored (snd (run_state (RegisterMonitored hm k url) w))"])
      (auto simp: RegisterMonitored_def touch_if_def Touch_def)
qed

lemma rows_of_written:
  assumes "rows_of k w = [a]"
  shows "filter (\<lambda>a. an_ID a = k) (map (written_row k v s) (fl_rows w)) = [written_row k v s a]"
proof -
  have "an_ID (written_row k v s b) = an_ID b" for b by (simp add: written_row_def Let_def)
  with assms show ?thesis by (simp add: filter_map o_def rows_of_def)
qed

text \<open>An accepted renewal that reports the node ready: what the database and the two registries hold afterwards.\<close>

lemma run_renew:
  assumes "calm w"
  shows "fst (run_state (renew_lease (server_services cfg) ttl k v) w) = JSONreply 200 (lease_fields ttl (fl_now w))"
    and "calm (snd (run_state (renew_lease (server_services cfg) ttl k v) w))"
    and "fl_now (snd (run_state (renew_lease (server_services cfg) ttl k v) w)) = fl_now w"
    and "fl_leases (snd (run_state (renew_lease (server_services cfg) ttl k v) w)) k = Some (fl_now w + ttl)"
    and "rows_of k (snd (run_state (renew_lease (server_services cfg) ttl k v) w)) =
      map (\<lambda>a. if an_Version a = v then a\<lparr>an_LastHeartbeat := fl_now w\<rparr> else a) (rows_of k w)"
    and "fl_presence (snd (run_state (renew_lease (server_services cfg) ttl k v) w)) =
      AList.update k (touched_lease v (fl_now w) (map_of (fl_presence w) k)) (fl_presence w)"
proof -
  have "((p \<longrightarrow> q) \<longrightarrow> p) \<longleftrightarrow> p" for p q by blast
  then show "rows_of k (snd (run_state (renew_lease (server_services cfg) ttl k v) w)) =
      map (\<lambda>a. if an_Version a = v then a\<lparr>an_LastHeartbeat := fl_now w\<rparr> else a) (rows_of k w)"
    using assms by (simp add: renew_lease_def record_lease_def RecordLease_def UpdateAgentHeartbeat_def sql_def
        touch_node_def Touch_def rows_of_def update_rows_def filter_map o_def if_distrib cong: if_cong)
qed (use assms in \<open>simp_all add: renew_lease_def record_lease_def RecordLease_def UpdateAgentHeartbeat_def sql_def
    touch_node_def Touch_def\<close>)

lemma grant_holds:
  assumes w: "calm w" and row: "rows_of k w = [a]" and a: "an_LifecycleStatus a \<noteq> LcPendingApproval"
    and d: "distinct (map fst (fl_presence w))" and ph: "normalizePhase (lr_Phase r) = Inr (Some (StateActive, LcReady))"
    and run: "run_state (NodeStatusLeaseHandler (server_services cfg) DefaultLeaseTTL k (Inr r)) w = (rep, w')"
    and ok: "code rep = 200"
  shows "calm w' \<and> fl_now w' = fl_now w \<and> held k (fl_now w + 5 * minute) w'"
proof -
  let ?sv = "server_services cfg" and ?sm = "server_status cfg" and ?v = "an_Version a"
  let ?reg = "if monitorable a then RegisterMonitored (server_monitor cfg) k (an_BaseURL a) else State_Monad.return ()"
  have k: "k \<noteq> []" using run ok by (auto simp: NodeStatusLeaseHandler_def error_reply_def)
  obtain u where u: "lease_update r ?v = Inr u" "au_State u = Some StateActive" "au_LifecycleStatus u = Some LcReady"
    using run ok k run_agent_of [OF w row, of "lr_Version r"] a ph
    by (cases "lease_update r ?v") (auto simp: NodeStatusLeaseHandler_def error_reply_def Let_def lease_update_def
        split: if_splits prod.splits)
  define w1 where "w1 = snd (run_state ?reg (w\<lparr>fl_calls := Suc (fl_calls w)\<rparr>))"
  have w1: "calm w1" "rows_of k w1 = [a]" "fl_now w1 = fl_now w" "distinct (map fst (fl_presence w1))"
    using run_register [of "server_monitor cfg" k "an_BaseURL a" "w\<lparr>fl_calls := Suc (fl_calls w)\<rparr>"] w row d
    by (auto simp: w1_def rows_of_def)
  obtain res w2 where w2: "run_state (UpdateAgentStatus ?sm k u) w1 = (res, w2)" by fastforce
  have tail: "(case res of Inl _ \<Rightarrow> (error_reply 500 ''failed to update status'', w2)
      | Inr _ \<Rightarrow> run_state (renew_lease ?sv DefaultLeaseTTL k ?v) w2) = (rep, w')"
  proof -
    have l: "lease_ttl DefaultLeaseTTL = DefaultLeaseTTL" by (simp add: lease_ttl_def)
    have "run_state ?reg (w\<lparr>fl_calls := Suc (fl_calls w)\<rparr>) = ((), w1)" by (simp add: w1_def prod_eq_iff)
    with run ok k run_agent_of [OF w row, of "lr_Version r"] a u(1) w2 show ?thesis
      by (auto simp: NodeStatusLeaseHandler_def error_reply_def Let_def l split: sum.splits)
  qed
  then obtain x where res: "res = Inr x" and renew: "run_state (renew_lease ?sv DefaultLeaseTTL k ?v) w2 = (rep, w')"
    using ok by (cases res) (auto simp: error_reply_def)
  have sel: "select_agent k (fl_rows w1) = Some a" using select_single w1(2) by blast
  have "\<exists>new. apply_update (fl_now w1) u (last_known k a w1) = Inr new"
    using update_refused [OF w1(1) sel a, of u _ ?sm] w2 res by (cases "apply_update (fl_now w1) u (last_known k a w1)") auto
  then obtain new where new: "apply_update (fl_now w1) u (last_known k a w1) = Inr new" ..
  note up = update_run [OF w1(1) sel a new, of ?sm, unfolded w2 snd_conv]
  note rdy = apply_update_ready [OF new u(2,3)]
  have r2: "rows_of k w2 = [written_row k ?v new a]"
    using rows_of_written [OF w1(2), of ?v new] up(2) rdy(1) by (simp add: rows_of_def)
  note rn = run_renew [OF up(4), where cfg = cfg and ttl = DefaultLeaseTTL and k = k and v = ?v, unfolded renew fst_conv snd_conv]
  have ak: "an_ID a = k"
  proof -
    have "a \<in> set (rows_of k w)" using row by simp
    then show ?thesis by (simp add: rows_of_def)
  qed
  have "\<exists>b. rows_of k w' = [b] \<and> an_HealthStatus b = HealthActive \<and> an_LifecycleStatus b = LcReady"
    using rn(5) r2 rdy by (auto simp: written_row_def Let_def ak)
  moreover have "map_of (fl_presence w') k = Some (touched_lease ?v (fl_now w) (map_of (fl_presence w2) k))"
    using rn(6) up(5) w1(3) by (simp add: update_conv)
  moreover have "distinct (map fst (fl_presence w'))"
    using rn(6) up(7) w1(4) by (simp add: distinct_update)
  ultimately have "held k (fl_now w + 5 * minute) w'"
    using rn(3,4) up(5) w1(3)
    by (auto simp: held_def touched_lease_def Let_def DefaultLeaseTTL_def grantedLeaseGrace_def minute_def second_def)
  then show ?thesis using rn(2,3) up(5) w1(3) by simp
qed

subsection \<open>Properties: protection and leases\<close>

lemma pending_history:
  "calm w \<Longrightarrow> calm (run_history cfg ops w) \<and> pending_kept w (run_history cfg ops w)"
proof (induction ops arbitrary: w)
  case Nil
  then show ?case using pending.frame by (simp add: same_nodes_def)
next
  case (Cons op ops)
  note u = upholdsD [OF pending_serve Cons.prems, of cfg op]
  with Cons.IH [OF u(1)] show ?case using pending.trans by auto
qed

definition demo_health :: NodeHealthConfig where
  "demo_health = \<lparr>nhc_CheckInterval = 0, nhc_CheckTimeout = 0, nhc_ConsecutiveFailures = 0, nhc_RecoveryDebounce = 0,
     nhc_HeartbeatStaleThreshold = 0\<rparr>"

definition demo_node :: "string \<Rightarrow> AgentLifecycleStatus \<Rightarrow> AgentNode" where
  "demo_node k l = \<lparr>an_ID = k, an_GroupID = k, an_TeamID = [], an_BaseURL = [], an_Version = [], an_TrafficWeight = 100,
     an_DeploymentType = ''long_running'', an_HealthStatus = HealthUnknown, an_LifecycleStatus = l, an_LastHeartbeat = 1,
     an_RegisteredAt = 1, an_InstanceID = [], an_ProposedTags = [], an_ApprovedTags = []\<rparr>"

definition demo_fleet :: "AgentNode list \<Rightarrow> fleet" where
  "demo_fleet rows = \<lparr>fl_rows = rows, fl_cache = Map.empty, fl_leases = Map.empty, fl_presence = [], fl_monitored = [],
     fl_heartbeats = Map.empty, fl_events = [], fl_jobs = [], fl_now = 10, fl_calls = 0, fl_fault = (\<lambda>_. None),
     fl_probes = 0, fl_probe = (\<lambda>_ _. Some ''running'')\<rparr>"

definition ready_request :: lease_request where
  "ready_request = \<lparr>lr_Phase = ''ready'', lr_Version = [], lr_HealthScore = None\<rparr>"

text \<open>
  C30. A node that waits for tag approval is left alone. While storage calls succeed, no history of heartbeats,
  lease renewals, shutdowns, operator requests, polls, sweeps, reconciliations and the goroutines they start, in
  whatever order, changes the lifecycle status of any version of a node whose selected row is \<open>pending_approval\<close>: only
  an administrator's decision ends that state.
\<close>
theorem pending_protected:
  assumes "calm w" and "pending k w"
  shows "lifecycles k (run_history cfg ops w) = lifecycles k w \<and> pending k (run_history cfg ops w)"
  using pending_history [OF assms(1), of cfg ops] assms(2) pending_cong unfolding pending_kept_def by blast

theorem pending_protected_witness:
  "lifecycles ''n'' (run_history demo_health
     [Renew ''n'' (Inr ready_request), Heartbeat ''n'' \<lparr>ehb_Version = [], ehb_Status = ''ready'', ehb_HealthScore = Some 90\<rparr>,
      Tick 1000000000000, Sweep, Reconcile, Poll_all, Start_node ''n'', Refresh_all]
     (demo_fleet [demo_node ''n'' LcPendingApproval])) = [([], LcPendingApproval)]"
proof -
  let ?w = "demo_fleet [demo_node ''n'' LcPendingApproval]"
  have w: "calm ?w" "pending ''n'' ?w" and l: "lifecycles ''n'' ?w = [([], LcPendingApproval)]"
    by (simp_all add: pending_def select_agent_def lifecycles_def rows_of_def demo_fleet_def demo_node_def)
  show ?thesis by (simp only: conjunct1 [OF pending_protected [OF w]] l)
qed

text \<open>
  C31. A granted lease is honoured. When a node with one row reports itself ready and the renewal is accepted, then for
  the whole lease of five minutes neither reconciliation nor the presence sweep nor anything other nodes do takes it
  out of service, however often they run: its row stays active and ready until the node itself or a probe of the node
  says otherwise.
\<close>
theorem lease_honoured:
  assumes "calm w" and "rows_of k w = [a]" and "an_LifecycleStatus a \<noteq> LcPendingApproval"
    and "distinct (map fst (fl_presence w))" and "ToLower (TrimSpace (lr_Phase r)) = ''ready''"
    and "run_state (NodeStatusLeaseHandler (server_services cfg) DefaultLeaseTTL k (Inr r)) w = (rep, w')"
    and "code rep = 200" and "\<And>op. op \<in> set ops \<Longrightarrow> spares k op" and "ticks ops < DefaultLeaseTTL"
  shows "\<exists>b. rows_of k (run_history cfg ops w') = [b] \<and> an_HealthStatus b = HealthActive \<and> an_LifecycleStatus b = LcReady"
proof -
  have "normalizePhase (lr_Phase r) = Inr (Some (StateActive, LcReady))"
    using assms(5) by (cases "lr_Phase r = []") (simp_all add: normalizePhase_def Let_def TrimSpace_def ToLower_def)
  then have h: "calm w'" "fl_now w' = fl_now w" "held k (fl_now w + 5 * minute) w'"
    using grant_holds [OF assms(1-4) _ assms(6,7)] by auto
  have "held k (fl_now w + 5 * minute) (run_history cfg ops w')"
    using held_history [OF h(1,3), of ops cfg] assms(8,9) h(2) by (simp add: DefaultLeaseTTL_def)
  then show ?thesis by (auto simp: held_def)
qed

lemmas lease_eval = NodeStatusLeaseHandler_def agent_of_def run_GetAgent select_agent_def lease_update_def
  normalizePhase_def ready_request_def demo_fleet_def demo_node_def monitorable_def UpdateAgentStatus_def
  resolve_agent_def GetAgentStatusSnapshot_def snapshot_of_def FromLegacyStatus_def legacy_state_def cache_status_def
  apply_update_def handleStateTransition_def isValidTransition_def StartTransition_def CompleteTransition_def
  ToLegacyHealthStatus_def ToLegacyLifecycleStatus_def sync_lifecycle_def persistStatus_def enforce_lifecycle_def
  UpdateAgentHealth_def UpdateAgentLifecycleStatus_def UpdateAgentHeartbeat_def sql_def update_rows_def
  notifyStatusChanged_def broadcastStatusEvents_def renew_lease_def record_lease_def RecordLease_def touch_node_def
  Touch_def lease_ttl_def DefaultLeaseTTL_def Let_def

theorem lease_honoured_witness:
  "\<exists>b. rows_of ''n'' (run_history demo_health [Tick 299999999999, Sweep, Reconcile, Shutdown ''m'' [], Late_mark ''n'']
     (snd (run_state (NodeStatusLeaseHandler (server_services demo_health) DefaultLeaseTTL ''n'' (Inr ready_request))
        (demo_fleet [demo_node ''m'' LcReady, demo_node ''n'' LcStarting])))) = [b] \<and> an_HealthStatus b = HealthActive"
proof -
  let ?w = "demo_fleet [demo_node ''m'' LcReady, demo_node ''n'' LcStarting]"
    and ?ops = "[Tick 299999999999, Sweep, Reconcile, Shutdown ''m'' [], Late_mark ''n'']"
  have l: "TrimSpace ''ready'' = ''ready''" "ToLower ''ready'' = ''ready''" by code_simp+
  obtain rep w' where run: "run_state (NodeStatusLeaseHandler (server_services demo_health) DefaultLeaseTTL ''n''
      (Inr ready_request)) ?w = (rep, w')" by fastforce
  then have "code rep = 200" by (auto simp: lease_eval l)
  moreover have "calm ?w" "rows_of ''n'' ?w = [demo_node ''n'' LcStarting]" "distinct (map fst (fl_presence ?w))"
    "an_LifecycleStatus (demo_node ''n'' LcStarting) \<noteq> LcPendingApproval"
    "ToLower (TrimSpace (lr_Phase ready_request)) = ''ready''"
    by (simp_all add: rows_of_def demo_fleet_def demo_node_def ready_request_def l)
  moreover have "ticks ?ops < DefaultLeaseTTL" by (simp add: DefaultLeaseTTL_def minute_def)
  moreover have "\<And>op. op \<in> set ?ops \<Longrightarrow> spares ''n'' op" by auto
  ultimately have "\<exists>b. rows_of ''n'' (run_history demo_health ?ops w') = [b] \<and> an_HealthStatus b = HealthActive \<and>
      an_LifecycleStatus b = LcReady"
    by (intro lease_honoured [OF _ _ _ _ _ run])
  then show ?thesis unfolding run snd_conv by blast
qed

end
