(* ===== verification/Node_Reconcile.thy ===== *)
theory Node_Reconcile
  imports Node_History
begin

text \<open>
  What a pass of reconciliation does to the table, and that one pass is enough: while the cache agrees with the table
  and every node has one row, a pass corrects exactly the rows that need it, to the status their heartbeat calls for, and
  leaves no row that needs another pass.
\<close>

subsection \<open>The decision\<close>

definition lease_runs :: "instant \<Rightarrow> instant option \<Rightarrow> bool" where
  "lease_runs now l \<longleftrightarrow> (case l of None \<Rightarrow> False | Some t \<Rightarrow> now < t + grantedLeaseGrace)"

definition needed :: "StatusManagerConfig \<Rightarrow> instant \<Rightarrow> instant option \<Rightarrow> AgentNode \<Rightarrow> bool" where
  "needed cfg now lease a \<longleftrightarrow>
     (let age = time_Sub now (an_LastHeartbeat a); stale = smc_HeartbeatStaleThreshold cfg < age;
          settled_in = an_RegisteredAt a \<noteq> 0 \<and> smc_MaxTransitionTime cfg < time_Sub now (an_RegisteredAt a)
      in (stale \<and> an_HealthStatus a = HealthActive \<and> \<not> lease_runs now lease) \<or>
         (an_HealthStatus a = HealthActive \<and> an_LifecycleStatus a = LcOffline) \<or>
         (an_LifecycleStatus a = LcStarting \<and> smc_MaxTransitionTime cfg < age) \<or>
         (\<not> stale \<and> settled_in \<and> (an_LifecycleStatus a = LcStarting \<or> an_HealthStatus a = HealthUnknown)))"

lemma run_needs:
  "fst (run_state (needsReconciliation cfg a) w) = needed cfg (fl_now w) (fl_leases w (an_ID a)) a"
  "\<exists>l. snd (run_state (needsReconciliation cfg a) w) = w\<lparr>fl_leases := l\<rparr> \<and> (\<forall>k. k \<noteq> an_ID a \<longrightarrow> l k = fl_leases w k) \<and>
     (\<not> needed cfg (fl_now w) (fl_leases w (an_ID a)) a \<longrightarrow> l = fl_leases w)"
proof -
  show "fst (run_state (needsReconciliation cfg a) w) = needed cfg (fl_now w) (fl_leases w (an_ID a)) a"
    by (auto simp: needsReconciliation_def hasUnexpiredLease_def needed_def lease_runs_def Let_def split: option.splits)
  show "\<exists>l. snd (run_state (needsReconciliation cfg a) w) = w\<lparr>fl_leases := l\<rparr> \<and> (\<forall>k. k \<noteq> an_ID a \<longrightarrow> l k = fl_leases w k) \<and>
     (\<not> needed cfg (fl_now w) (fl_leases w (an_ID a)) a \<longrightarrow> l = fl_leases w)"
    by (intro exI [of _ "fl_leases (snd (run_state (needsReconciliation cfg a) w))"])
      (auto simp: needsReconciliation_def hasUnexpiredLease_def needed_def lease_runs_def Let_def split: option.splits)
qed

definition corrected :: "StatusManagerConfig \<Rightarrow> instant \<Rightarrow> instant option \<Rightarrow> AgentNode \<Rightarrow> AgentNode" where
  "corrected cfg now lease a =
     (if needed cfg now lease a \<and> an_LifecycleStatus a \<noteq> LcPendingApproval
      then a\<lparr>an_HealthStatus := fst (reconciled_status cfg now a), an_LifecycleStatus := snd (reconciled_status cfg now a)\<rparr>
      else a)"

lemma corrected_ID [simp]: "an_ID (corrected cfg now lease a) = an_ID a"
  by (simp add: corrected_def)

text \<open>The status the table calls for needs no correction, whatever the lease.\<close>

lemma corrected_settled:
  assumes "an_LifecycleStatus (corrected cfg now lease a) \<noteq> LcPendingApproval"
  shows "\<not> needed cfg now lease (corrected cfg now lease a)"
  using assms by (auto simp: corrected_def needed_def reconciled_status_def Let_def)

lemma corrected_unneeded:
  assumes "an_HealthStatus a = fst (reconciled_status cfg now a)" and "an_LifecycleStatus a = snd (reconciled_status cfg now a)"
  shows "corrected cfg now lease a = a"
  using assms by (simp add: corrected_def)

subsection \<open>Agreement of cache and table\<close>

definition agrees_with :: "AgentNode \<Rightarrow> AgentStatus \<Rightarrow> bool" where
  "agrees_with a s \<longleftrightarrow> (\<forall>x. as_State s \<noteq> OtherState x) \<and> as_LifecycleStatus s = an_LifecycleStatus a \<and>
     (an_HealthStatus a = HealthActive \<longrightarrow> as_State s = StateActive) \<and>
     (an_HealthStatus a = HealthInactive \<longrightarrow> as_State s \<in> {StateInactive, StateStopping})"

definition coherent :: "fleet \<Rightarrow> AgentNode \<Rightarrow> bool" where
  "coherent w a \<longleftrightarrow> (\<forall>c. fl_cache w (an_ID a) = Some c \<longrightarrow> agrees_with a (cas_Status c))"

lemma known_agrees: "coherent w a \<Longrightarrow> agrees_with a (last_known (an_ID a) a w)"
  by (cases "fl_cache w (an_ID a)")
    (auto simp: coherent_def last_known_def agrees_with_def snapshot_of_def FromLegacyStatus_def legacy_state_def
      split: HealthStatus.split AgentLifecycleStatus.split)

text \<open>A correction is never refused: from every state the manager knows, active and inactive can be reached.\<close>

lemma correction_valid:
  "(\<forall>x. src \<noteq> OtherState x) \<Longrightarrow> dst \<in> {StateActive, StateInactive} \<Longrightarrow> src \<noteq> dst \<Longrightarrow> isValidTransition src dst"
  by (cases src) (auto simp: isValidTransition_def)

lemma transition_applied:
  assumes "isValidTransition (as_State s) dst"
  shows "\<exists>s1. handleStateTransition now dst r s = Inr s1 \<and> as_State s1 = dst \<and>
    (as_LifecycleStatus s \<noteq> LcEmpty \<longrightarrow> as_LifecycleStatus s1 = as_LifecycleStatus s)"
  using assms
  by (simp add: handleStateTransition_def StartTransition_def CompleteTransition_def ToLegacyLifecycleStatus_def Let_def)

text \<open>The second half of an update, once the state has been moved.\<close>

lemma apply_update_finish:
  assumes "(case au_State u of None \<Rightarrow> Inr s | Some st \<Rightarrow> if as_State s = st then Inr s
      else (case handleStateTransition now st (au_Reason u) s of
          Inl e \<Rightarrow> Inl (wrapErr ''failed to handle state transition: '' e) | Inr s' \<Rightarrow> Inr (sync_lifecycle st s'))) = Inr s1"
    and "l = (case au_LifecycleStatus u of None \<Rightarrow> as_LifecycleStatus s1 | Some l \<Rightarrow> l)" and "l \<noteq> LcEmpty"
  shows "\<exists>new. apply_update now u s = Inr new \<and> as_State new = as_State s1 \<and> as_LifecycleStatus new = l \<and>
    as_Source new = au_Source u \<and> as_HealthStatus new = ToLegacyHealthStatus s1"
  using assms unfolding apply_update_def assms(1)
  by (cases "au_LifecycleStatus u"; cases "au_HealthScore u") (simp_all add: Let_def ToLegacyHealthStatus_def)

lemma correction_applied:
  assumes a: "agrees_with a s" and hl: "hl = reconciled_status cfg now a"
  shows "\<exists>new. apply_update now (reconcile_update hl a) s = Inr new \<and> as_Source (enforce_lifecycle new) = SourceReconcile \<and>
    as_HealthStatus (enforce_lifecycle new) = fst hl \<and> as_LifecycleStatus (enforce_lifecycle new) = snd hl"
proof -
  let ?u = "reconcile_update hl a"
  let ?st = "if fst hl = HealthActive then StateActive else StateInactive"
  have cases: "hl = (HealthInactive, LcOffline) \<or>
      (fst hl = HealthActive \<and> snd hl \<notin> {LcEmpty, LcOffline, LcStarting} \<and> (snd hl = an_LifecycleStatus a \<or> snd hl = LcReady))"
    unfolding hl reconciled_status_def by auto
  let ?stage = "case au_State ?u of None \<Rightarrow> Inr s | Some st \<Rightarrow> if as_State s = st then Inr s
      else (case handleStateTransition now st (au_Reason ?u) s of
          Inl e \<Rightarrow> Inl (wrapErr ''failed to handle state transition: '' e) | Inr s' \<Rightarrow> Inr (sync_lifecycle st s'))"
  let ?l = "\<lambda>s1. case au_LifecycleStatus ?u of None \<Rightarrow> as_LifecycleStatus s1 | Some l \<Rightarrow> l"
  have "\<exists>s1. ?stage = Inr s1 \<and> ToLegacyHealthStatus s1 = fst hl \<and> ?l s1 = snd hl"
  proof (cases "au_State ?u = None \<or> as_State s = ?st")
    case True
    then have "?stage = Inr s" by (auto simp: reconcile_update_def)
    moreover have "ToLegacyHealthStatus s = fst hl"
      using True a cases by (auto simp: reconcile_update_def agrees_with_def ToLegacyHealthStatus_def split: if_splits)
    ultimately show ?thesis using a by (auto simp: reconcile_update_def agrees_with_def)
  next
    case False
    then have st: "au_State ?u = Some ?st" "as_State s \<noteq> ?st" by (auto simp: reconcile_update_def split: if_splits)
    have "isValidTransition (as_State s) ?st"
      using a st(2) by (intro correction_valid) (auto simp: agrees_with_def)
    from transition_applied [OF this, of now "au_Reason ?u"] obtain s1 where
      s1: "handleStateTransition now ?st (au_Reason ?u) s = Inr s1" "as_State s1 = ?st"
        "as_LifecycleStatus s \<noteq> LcEmpty \<longrightarrow> as_LifecycleStatus s1 = as_LifecycleStatus s" by blast
    have "?stage = Inr (sync_lifecycle ?st s1)" using st s1(1) by simp
    moreover have "as_State (sync_lifecycle ?st s1) = ?st" using s1(2) by (simp add: sync_lifecycle_def Let_def)
    then have "ToLegacyHealthStatus (sync_lifecycle ?st s1) = fst hl"
      using cases by (auto simp: ToLegacyHealthStatus_def)
    moreover have "?l (sync_lifecycle ?st s1) = snd hl"
    proof (cases "an_LifecycleStatus a = snd hl")
      case False
      then show ?thesis by (simp add: reconcile_update_def)
    next
      case same: True
      then have l: "as_LifecycleStatus s = snd hl" using a by (simp add: agrees_with_def)
      show ?thesis
      proof (cases "fst hl = HealthActive")
        case True
        then have "snd hl \<notin> {LcEmpty, LcOffline, LcStarting}" using cases by auto
        then show ?thesis using True same l s1(3) by (auto simp: reconcile_update_def sync_lifecycle_def Let_def)
      next
        case False
        then show ?thesis using same cases by (auto simp: reconcile_update_def sync_lifecycle_def Let_def)
      qed
    qed
    ultimately show ?thesis by blast
  qed
  then obtain s1 where s1: "?stage = Inr s1" "ToLegacyHealthStatus s1 = fst hl" "?l s1 = snd hl" by blast
  have "snd hl \<noteq> LcEmpty" using cases by auto
  with apply_update_finish [OF s1(1) s1(3) [symmetric]] obtain new where
    new: "apply_update now ?u s = Inr new" "as_State new = as_State s1" "as_LifecycleStatus new = snd hl"
      "as_Source new = SourceReconcile" "as_HealthStatus new = fst hl"
    using s1(2) by (auto simp: reconcile_update_def)
  have "enforce_lifecycle new = new"
  proof (cases "fst hl = HealthActive")
    case True
    then have "as_State new = StateActive" using new(2) s1(2)
      by (simp add: ToLegacyHealthStatus_def split: AgentState.splits)
    then show ?thesis using True cases new(3) by (auto simp: enforce_lifecycle_def)
  next
    case False
    then have "hl = (HealthInactive, LcOffline)" using cases by simp
    then have "as_State new = StateInactive \<or> as_State new = StateStopping" "as_LifecycleStatus new = LcOffline"
      using new(2,3) s1(2) by (auto simp: ToLegacyHealthStatus_def split: AgentState.splits)
    then show ?thesis by (auto simp: enforce_lifecycle_def)
  qed
  with new show ?thesis by auto
qed

subsection \<open>One row\<close>

lemma needed_cases:
  assumes "needed cfg now lease a"
  shows "an_HealthStatus a \<noteq> fst (reconciled_status cfg now a) \<or> an_LifecycleStatus a \<noteq> snd (reconciled_status cfg now a)"
  using assms by (auto simp: needed_def reconciled_status_def Let_def)

lemma corrected_settles:
  assumes "needed cfg now lease a" and "an_LifecycleStatus a \<noteq> LcPendingApproval"
  shows "\<not> needed cfg now lease' (corrected cfg now lease a)"
  using assms by (auto simp: corrected_def needed_def reconciled_status_def Let_def)

definition reconcile_one :: "StatusManager \<Rightarrow> AgentNode \<Rightarrow> unit fop" where
  "reconcile_one sm a = do {
     needs \<leftarrow> needsReconciliation (sm_config sm) a;
     (if needs then do { _ \<leftarrow> reconcileAgentStatus sm a; State_Monad.return () } else State_Monad.return ())
   }"

lemma select_unique:
  assumes "distinct (map an_ID rows)" and "a \<in> set rows"
  shows "select_agent (an_ID a) rows = Some a"
proof -
  have "filter (\<lambda>b. an_ID b = an_ID a) rows = [a]"
    using assms by (induction rows) (auto simp: filter_empty_conv dest: image_eqI)
  then show ?thesis by (simp add: select_agent_def)
qed

lemma map_unique:
  assumes "distinct (map an_ID rows)" and "a \<in> set rows"
  shows "map (\<lambda>b. if an_ID b = an_ID a then f b else b) rows = map (\<lambda>b. if b = a then f b else b) rows"
  using assms by (auto simp: distinct_map inj_on_def)

lemma written_corrected:
  assumes "an_ID b = an_ID a \<Longrightarrow> b = a" and "as_Source s = SourceReconcile"
    and "as_HealthStatus s = fst (reconciled_status cfg now a)" "as_LifecycleStatus s = snd (reconciled_status cfg now a)"
    and "needed cfg now lease a" and "an_LifecycleStatus a \<noteq> LcPendingApproval"
  shows "written_row (an_ID a) v s b = (if b = a then corrected cfg now lease b else b)"
  using assms by (auto simp: written_row_def corrected_def)

lemma reconcile_step:
  assumes w: "calm w" and d: "distinct (map an_ID (fl_rows w))" and a: "a \<in> set (fl_rows w)" and c: "coherent w a"
    and w': "w' = snd (run_state (reconcile_one sm a) w)"
  shows "calm w'" and "fl_now w' = fl_now w"
    and "fl_rows w' = map (\<lambda>b. if b = a then corrected (sm_config sm) (fl_now w) (fl_leases w (an_ID a)) b else b) (fl_rows w)"
    and "k \<noteq> an_ID a \<Longrightarrow> fl_leases w' k = fl_leases w k" and "k \<noteq> an_ID a \<Longrightarrow> fl_cache w' k = fl_cache w k"
    and "\<not> needed (sm_config sm) (fl_now w) (fl_leases w (an_ID a)) a \<Longrightarrow> fl_leases w' = fl_leases w"
proof -
  let ?cfg = "sm_config sm" and ?k = "an_ID a"
  let ?need = "needed ?cfg (fl_now w) (fl_leases w ?k) a"
  obtain l where l: "snd (run_state (needsReconciliation ?cfg a) w) = w\<lparr>fl_leases := l\<rparr>"
    "\<forall>k. k \<noteq> ?k \<longrightarrow> l k = fl_leases w k" "\<not> ?need \<longrightarrow> l = fl_leases w"
    using run_needs(2) by blast
  have n: "run_state (needsReconciliation ?cfg a) w = (?need, w\<lparr>fl_leases := l\<rparr>)"
    using l(1) run_needs(1) [of ?cfg a w] by (simp add: prod_eq_iff)
  have sel: "select_agent ?k (fl_rows (w\<lparr>fl_leases := l\<rparr>)) = Some a" using select_unique [OF d a] by simp
  let ?u = "reconcile_update (reconciled_status ?cfg (fl_now w) a) a"
  have "calm w' \<and> fl_now w' = fl_now w \<and> fl_leases w' = l \<and>
    fl_rows w' = map (\<lambda>b. if b = a then corrected ?cfg (fl_now w) (fl_leases w ?k) b else b) (fl_rows w) \<and>
    (\<forall>k. k \<noteq> ?k \<longrightarrow> fl_cache w' k = fl_cache w k)"
  proof (cases ?need)
    case False
    then have "w' = w\<lparr>fl_leases := l\<rparr>" using n by (simp add: w' reconcile_one_def)
    with False w show ?thesis by (auto simp: corrected_def intro!: map_idI [symmetric])
  next
    case True
    let ?w = "w\<lparr>fl_leases := l\<rparr>"
    have run: "w' = snd (run_state (UpdateAgentStatus sm ?k ?u) ?w)"
      using n True needed_cases [OF True] by (simp add: w' reconcile_one_def reconcileAgentStatus_def Let_def split: prod.split)
    show ?thesis
    proof (cases "an_LifecycleStatus a = LcPendingApproval")
      case pend: True
      have "w' = ?w\<lparr>fl_calls := Suc (fl_calls w)\<rparr>"
        using w sel pend by (simp add: run UpdateAgentStatus_def resolve_agent_def run_GetAgent reconcile_update_def)
      with pend w show ?thesis by (auto simp: corrected_def intro!: map_idI [symmetric])
    next
      case ok: False
      have "last_known ?k a ?w = last_known ?k a w" by (simp add: last_known_def split: option.split)
      with correction_applied [OF known_agrees [OF c] refl] obtain new where
        new: "apply_update (fl_now ?w) ?u (last_known ?k a ?w) = Inr new" "as_Source (enforce_lifecycle new) = SourceReconcile"
          "as_HealthStatus (enforce_lifecycle new) = fst (reconciled_status ?cfg (fl_now w) a)"
          "as_LifecycleStatus (enforce_lifecycle new) = snd (reconciled_status ?cfg (fl_now w) a)" by auto
      have cw: "calm ?w" using w by simp
      note up = update_run [OF cw sel ok new(1), of sm, folded run]
      have "map (written_row ?k (an_Version a) (enforce_lifecycle new)) (fl_rows w) =
          map (\<lambda>b. if b = a then corrected ?cfg (fl_now w) (fl_leases w ?k) b else b) (fl_rows w)"
        using d a new(2-4) True ok by (intro map_cong refl written_corrected) (auto simp: distinct_map inj_on_def)
      with up show ?thesis by simp
    qed
  qed
  then show "calm w'" and "fl_now w' = fl_now w"
    and "fl_rows w' = map (\<lambda>b. if b = a then corrected ?cfg (fl_now w) (fl_leases w ?k) b else b) (fl_rows w)"
    and "k \<noteq> ?k \<Longrightarrow> fl_leases w' k = fl_leases w k" and "k \<noteq> ?k \<Longrightarrow> fl_cache w' k = fl_cache w k"
    and "\<not> ?need \<Longrightarrow> fl_leases w' = fl_leases w"
    using l(2,3) by auto
qed


subsection \<open>A pass\<close>

definition pass_row :: "StatusManager \<Rightarrow> fleet \<Rightarrow> AgentNode \<Rightarrow> AgentNode" where
  "pass_row sm w a = corrected (sm_config sm) (fl_now w) (fl_leases w (an_ID a)) a"

lemma reconcile_all_Cons:
  "reconcile_all sm (a # as) = do { reconcile_one sm a; reconcile_all sm as }"
  by (simp add: reconcile_one_def State_Monad.bind_assoc)

lemma row_by_id: "distinct (map an_ID rows) \<Longrightarrow> a \<in> set rows \<Longrightarrow> b \<in> set rows \<Longrightarrow> an_ID a = an_ID b \<Longrightarrow> a = b"
  by (auto simp: distinct_map dest: inj_onD)

lemma reconcile_pass:
  assumes "calm w" and "distinct (map an_ID (fl_rows w))" and "distinct as" and "set as \<subseteq> set (fl_rows w)"
    and "\<And>a. a \<in> set as \<Longrightarrow> coherent w a"
  shows "fl_rows (snd (run_state (reconcile_all sm as) w)) = map (\<lambda>b. if b \<in> set as then pass_row sm w b else b) (fl_rows w)
    \<and> fl_now (snd (run_state (reconcile_all sm as) w)) = fl_now w
    \<and> (\<forall>k. (\<forall>a \<in> set as. an_ID a = k \<longrightarrow> \<not> needed (sm_config sm) (fl_now w) (fl_leases w k) a) \<longrightarrow>
          fl_leases (snd (run_state (reconcile_all sm as) w)) k = fl_leases w k)"
  using assms
proof (induction as arbitrary: w)
  case Nil
  then show ?case by simp
next
  case (Cons a as)
  let ?w = "snd (run_state (reconcile_one sm a) w)"
  have a: "a \<in> set (fl_rows w)" and c: "coherent w a" using Cons.prems by auto
  note step = reconcile_step [OF Cons.prems(1,2) a c refl, where sm = sm]
  note same = row_by_id [OF Cons.prems(2)]
  have rows: "fl_rows ?w = map (\<lambda>b. if b = a then pass_row sm w b else b) (fl_rows w)"
    unfolding step(3) by (auto simp: pass_row_def)
  have ids: "map an_ID (fl_rows ?w) = map an_ID (fl_rows w)" by (simp add: rows pass_row_def)
  have other: "an_ID b \<noteq> an_ID a" if "b \<in> set as" for b
    using that Cons.prems(3,4) same [OF a, of b] by auto
  have sub: "set as \<subseteq> set (fl_rows ?w)"
    using Cons.prems(4) other unfolding rows by fastforce
  have coh: "coherent ?w b" if "b \<in> set as" for b
    using Cons.prems(5) [of b] that step(5) [OF other [OF that]] by (simp add: coherent_def)
  from Cons.prems(2,3) ids have "distinct (map an_ID (fl_rows ?w))" "distinct as" by simp_all
  note IH = Cons.IH [OF step(1) this sub coh]
  have "fl_leases (snd (run_state (reconcile_all sm as) ?w)) k = fl_leases w k"
    if k: "\<forall>b \<in> set (a # as). an_ID b = k \<longrightarrow> \<not> needed (sm_config sm) (fl_now w) (fl_leases w k) b" for k
  proof -
    have l: "fl_leases ?w k = fl_leases w k"
      using step(4) [of k] step(6) k by (cases "k = an_ID a") auto
    then have "\<forall>b \<in> set as. an_ID b = k \<longrightarrow> \<not> needed (sm_config sm) (fl_now ?w) (fl_leases ?w k) b"
      using k step(2) by simp
    with IH l show ?thesis by metis
  qed
  moreover have "fl_rows (snd (run_state (reconcile_all sm as) ?w)) = map (\<lambda>b. if b \<in> set (a # as) then pass_row sm w b else b) (fl_rows w)"
  proof -
  have "fl_rows (snd (run_state (reconcile_all sm as) ?w)) = map (\<lambda>b. if b \<in> set as then pass_row sm ?w b else b) (fl_rows ?w)"
    using IH by blast
  also have "\<dots> = map (\<lambda>b. if b \<in> set (a # as) then pass_row sm w b else b) (fl_rows w)"
  proof -
    have new: "pass_row sm w a \<notin> set as" using other [of "pass_row sm w a"] by (auto simp: pass_row_def)
    have "pass_row sm ?w b = pass_row sm w b" if "b \<in> set as" for b
      using step(2) step(4) [OF other [OF that]] by (simp add: pass_row_def)
    with new Cons.prems(3) show ?thesis by (auto simp: rows)
  qed
  finally show ?thesis .
  qed
  ultimately show ?case using IH step(2) unfolding reconcile_all_Cons by (simp add: split_beta)
qed

lemma reconciliation_pass:
  assumes "calm w" and "distinct (map an_ID (fl_rows w))" and "\<And>a. a \<in> set (fl_rows w) \<Longrightarrow> coherent w a"
  shows "fl_rows (snd (run_state (performReconciliation sm) w)) = map (pass_row sm w) (fl_rows w)"
    and "fl_now (snd (run_state (performReconciliation sm) w)) = fl_now w"
    and "\<And>a. a \<in> set (fl_rows w) \<Longrightarrow> \<not> needed (sm_config sm) (fl_now w) (fl_leases w (an_ID a)) a \<Longrightarrow>
      fl_leases (snd (run_state (performReconciliation sm) w)) (an_ID a) = fl_leases w (an_ID a)"
proof -
  let ?as = "sort_key (\<lambda>a. Desc (an_RegisteredAt a)) (fl_rows w)"
  let ?w = "w\<lparr>fl_calls := Suc (fl_calls w)\<rparr>"
  have d: "distinct ?as" using assms(2) by (simp add: distinct_map)
  have run: "run_state (performReconciliation sm) w = run_state (reconcile_all sm ?as) ?w"
    using assms(1) by (simp add: performReconciliation_def ListAgents_def sql_def)
  have pass: "pass_row sm ?w = pass_row sm w" by (simp add: pass_row_def fun_eq_iff)
  note all = reconcile_pass [of ?w ?as sm, simplified, folded run]
  from assms d pass all show "fl_rows (snd (run_state (performReconciliation sm) w)) = map (pass_row sm w) (fl_rows w)"
    and "fl_now (snd (run_state (performReconciliation sm) w)) = fl_now w"
    by (simp_all add: coherent_def)
  fix a assume a: "a \<in> set (fl_rows w)" "\<not> needed (sm_config sm) (fl_now w) (fl_leases w (an_ID a)) a"
  then have "\<forall>b \<in> set (fl_rows w). an_ID b = an_ID a \<longrightarrow> \<not> needed (sm_config sm) (fl_now w) (fl_leases w (an_ID a)) b"
    using row_by_id [OF assms(2) a(1)] by metis
  with assms d all show "fl_leases (snd (run_state (performReconciliation sm) w)) (an_ID a) = fl_leases w (an_ID a)"
    by (simp add: coherent_def)
qed


definition tired_node :: AgentNode where
  "tired_node = (demo_node ''m'' LcReady)\<lparr>an_HealthStatus := HealthActive\<rparr>"

definition fresh_node :: AgentNode where
  "fresh_node = (demo_node ''n'' LcStarting)\<lparr>an_LastHeartbeat := 999 * second\<rparr>"

definition demo_manager :: StatusManager where
  "demo_manager = NewStatusManager \<lparr>smc_ReconcileInterval = 0, smc_StatusCacheTTL = 0, smc_MaxTransitionTime = 0,
     smc_HeartbeatStaleThreshold = 0\<rparr> True False"


end
