(* ===== verification/Webhooks.thy ===== *)
theory Webhooks
  imports Exec_Store "HOL-Library.Char_ord" "HOL-Library.List_Lexorder" "HOL-Library.Product_Lexorder"
begin

text \<open>
  Delivery of execution webhooks: the table of registrations (\<open>internal/storage/execution_webhooks.go\<close>) and the
  dispatcher (\<open>internal/services/webhook_dispatcher.go\<close>). The state is the record \<open>hooks\<close>: the table, the channel of
  jobs, the requests that workers are waiting for, and the log of the requests sent. A worker's \<open>process\<close> has two
  halves, up to the request and after the answer, since other workers, the poller and the handlers run in between;
  the clock advances while a request is under way, and every storage call of a job fails once the deadline of its
  context has passed. A job that waits for room in the channel is counted as being in it.
\<close>

subsection \<open>Registrations\<close>

definition whPending :: string where "whPending = ''pending''"
definition whDelivering :: string where "whDelivering = ''delivering''"
definition whDelivered :: string where "whDelivered = ''delivered''"
definition whFailed :: string where "whFailed = ''failed''"

record ExecutionWebhook =
  hk_ExecutionID :: string
  hk_URL :: string
  hk_Secret :: "string option"
  hk_Headers :: "(string \<times> string) list"
  hk_Status :: string
  hk_AttemptCount :: int
  hk_NextAttemptAt :: "instant option"
  hk_LastAttemptAt :: "instant option"
  hk_LastError :: "string option"
  hk_CreatedAt :: instant
  hk_UpdatedAt :: instant

record ExecutionWebhookStateUpdate =
  hu_Status :: string
  hu_AttemptCount :: int
  hu_NextAttemptAt :: "instant option"
  hu_LastAttemptAt :: "instant option"
  hu_LastError :: "string option"

record ExecutionWebhookPayload =
  hp_Event :: string
  hp_ExecutionID :: string
  hp_RunID :: string
  hp_AgentNodeID :: string
  hp_ReasonerID :: string
  hp_Status :: string
  hp_StatusReason :: "string option"
  hp_Target :: string
  hp_TargetType :: string
  hp_StartedAt :: instant
  hp_CompletedAt :: "instant option"
  hp_DurationMS :: "int option"
  hp_RetryCount :: int
  hp_ErrorCategory :: "string option"
  hp_SessionID :: "string option"
  hp_ActorID :: "string option"
  hp_Context :: json
  hp_Result :: json
  hp_ErrorMessage :: "string option"
  hp_Timestamp :: instant

record ExecutionWebhookEvent =
  he_ExecutionID :: string
  he_EventType :: string
  he_Status :: string
  he_HTTPStatus :: "nat option"
  he_Payload :: string
  he_ResponseBody :: "string option"
  he_ErrorMessage :: "string option"
  he_CreatedAt :: instant

subsection \<open>The dispatcher's state\<close>

record WebhookDispatcherConfig =
  wc_Timeout :: duration
  wc_MaxAttempts :: int
  wc_RetryBackoff :: duration
  wc_MaxRetryBackoff :: duration
  wc_PollInterval :: duration
  wc_PollBatchSize :: int
  wc_WorkerCount :: int
  wc_QueueSize :: int
  wc_ResponseBodyLimit :: int

definition normalizeWebhookConfig :: "WebhookDispatcherConfig \<Rightarrow> WebhookDispatcherConfig" where
  "normalizeWebhookConfig c =
     (let c = (if wc_Timeout c \<le> 0 then c\<lparr>wc_Timeout := 10 * second\<rparr> else c);
          c = (if wc_MaxAttempts c \<le> 0 then c\<lparr>wc_MaxAttempts := 5\<rparr> else c);
          c = (if wc_RetryBackoff c \<le> 0 then c\<lparr>wc_RetryBackoff := 5 * second\<rparr> else c);
          c = (if wc_MaxRetryBackoff c \<le> 0 then c\<lparr>wc_MaxRetryBackoff := 5 * minute\<rparr> else c);
          c = (if wc_PollInterval c \<le> 0 then c\<lparr>wc_PollInterval := 5 * second\<rparr> else c);
          c = (if wc_PollBatchSize c \<le> 0 then c\<lparr>wc_PollBatchSize := 64\<rparr> else c);
          c = (if wc_WorkerCount c \<le> 0 then c\<lparr>wc_WorkerCount := 4\<rparr> else c);
          c = (if wc_QueueSize c \<le> 0 then c\<lparr>wc_QueueSize := 256\<rparr> else c)
      in if wc_ResponseBodyLimit c \<le> 0 then c\<lparr>wc_ResponseBodyLimit := 16 * 1024\<rparr> else c)"

text \<open>
  What is outside the repository: the JSON codec (\<open>nt_marshal\<close>, \<open>nt_decode\<close> and the stored context \<open>nt_context\<close>),
  whether a request can be built for a URL, the keyed hash of a signature, and the answer of the receiver to the n-th
  request: an error of the client, or a status code and a body. The functions an agent offers come from its row.
\<close>

record network =
  nt_marshal :: "ExecutionWebhookPayload \<Rightarrow> string option"
  nt_decode :: "string \<Rightarrow> json option"
  nt_context :: "string \<Rightarrow> json"
  nt_valid_url :: "string \<Rightarrow> bool"
  nt_mac :: "string \<Rightarrow> string \<Rightarrow> string"
  nt_answer :: "nat \<Rightarrow> string + (nat \<times> string)"

record webhook_request =
  rq_ExecutionID :: string
  rq_URL :: string
  rq_Headers :: "(string \<times> string) list"
  rq_Event :: string
  rq_Body :: string

record delivery =
  dl_Webhook :: ExecutionWebhook
  dl_Event :: string
  dl_Body :: string
  dl_Answer :: "string + (nat \<times> string)"
  dl_Deadline :: instant

record agent_functions =
  af_Reasoners :: "string list"
  af_Skills :: "string list"

record hooks =
  hs_rows :: "ExecutionWebhook list"
  hs_jobs :: "string list"
  hs_flight :: "delivery list"
  hs_sent :: "webhook_request list"
  hs_log :: "ExecutionWebhookEvent list"
  hs_db :: db
  hs_agents :: "string \<Rightarrow> agent_functions option"
  hs_now :: instant
  hs_calls :: nat
  hs_fault :: "nat \<Rightarrow> goerr option"

type_synonym 'a hop = "(hooks, 'a) state"

definition geth :: "(hooks \<Rightarrow> 'a) \<Rightarrow> 'a hop" where
  "geth g = State (\<lambda>s. (g s, s))"

definition modh :: "(hooks \<Rightarrow> hooks) \<Rightarrow> unit hop" where
  "modh f = State (\<lambda>s. ((), f s))"

text \<open>A storage call under a context: \<open>Some t\<close> is its deadline.\<close>

definition sqlh :: "instant option \<Rightarrow> (hooks \<Rightarrow> (goerr + 'a) \<times> hooks) \<Rightarrow> (goerr + 'a) hop" where
  "sqlh ctx tx = State (\<lambda>s.
     let s' = s\<lparr>hs_calls := Suc (hs_calls s)\<rparr>
     in if (case ctx of None \<Rightarrow> False | Some t \<Rightarrow> t \<le> hs_now s) then (Inl (Errorf ''context deadline exceeded''), s')
        else case hs_fault s (hs_calls s) of Some e \<Rightarrow> (Inl e, s') | None \<Rightarrow> tx s')"

subsection \<open>The table\<close>

definition upsert_hook :: "ExecutionWebhook \<Rightarrow> ExecutionWebhook list \<Rightarrow> ExecutionWebhook list" where
  "upsert_hook h rows =
     (case lookup hk_ExecutionID (hk_ExecutionID h) rows of
        None \<Rightarrow> rows @ [h]
      | Some _ \<Rightarrow> modify hk_ExecutionID (hk_ExecutionID h) (\<lambda>b. h\<lparr>hk_CreatedAt := hk_CreatedAt b\<rparr>) rows)"

definition registered_row :: "instant \<Rightarrow> ExecutionWebhook \<Rightarrow> ExecutionWebhook" where
  "registered_row now h = h\<lparr>
     hk_Secret := (case hk_Secret h of None \<Rightarrow> None | Some x \<Rightarrow> if TrimSpace x = [] then None else Some x),
     hk_AttemptCount := 0,
     hk_NextAttemptAt := Some (case hk_NextAttemptAt h of None \<Rightarrow> now | Some t \<Rightarrow> if t = 0 then now else t),
     hk_LastAttemptAt := None, hk_LastError := None, hk_CreatedAt := now, hk_UpdatedAt := now\<rparr>"

definition RegisterExecutionWebhook :: "ExecutionWebhook option \<Rightarrow> (goerr + unit) hop" where
  "RegisterExecutionWebhook webhook =
     (case webhook of
        None \<Rightarrow> State_Monad.return (Inl (Errorf ''execution webhook registration is nil''))
      | Some h \<Rightarrow>
          if TrimSpace (hk_ExecutionID h) = []
          then State_Monad.return (Inl (Errorf ''execution id is required for webhook registration''))
          else if TrimSpace (hk_URL h) = [] then State_Monad.return (Inl (Errorf ''webhook url is required''))
          else do {
            now \<leftarrow> geth hs_now;
            r \<leftarrow> sqlh None (\<lambda>s. (Inr (), s\<lparr>hs_rows := upsert_hook (registered_row now h) (hs_rows s)\<rparr>));
            State_Monad.return (case r of Inl e \<Rightarrow> Inl (wrapErr ''register execution webhook: '' e) | Inr _ \<Rightarrow> Inr ())
          })"

text \<open>The registration that goes with a new execution (\<open>execute_prepare.go\<close>): it is due at once.\<close>

definition new_registration ::
    "string \<Rightarrow> string \<Rightarrow> string option \<Rightarrow> (string \<times> string) list \<Rightarrow> instant \<Rightarrow> ExecutionWebhook" where
  "new_registration executionID url secret headers now = \<lparr>hk_ExecutionID = executionID, hk_URL = url, hk_Secret = secret,
     hk_Headers = headers, hk_Status = whPending, hk_AttemptCount = 0, hk_NextAttemptAt = Some now,
     hk_LastAttemptAt = None, hk_LastError = None, hk_CreatedAt = 0, hk_UpdatedAt = 0\<rparr>"

definition GetExecutionWebhook :: "instant option \<Rightarrow> string \<Rightarrow> (goerr + ExecutionWebhook option) hop" where
  "GetExecutionWebhook ctx k = sqlh ctx (\<lambda>s. (Inr (lookup hk_ExecutionID k (hs_rows s)), s))"

definition due :: "instant \<Rightarrow> ExecutionWebhook \<Rightarrow> bool" where
  "due now h \<longleftrightarrow> hk_Status h = whPending \<and> (case hk_NextAttemptAt h of None \<Rightarrow> True | Some t \<Rightarrow> t \<le> now)"

definition due_key :: "ExecutionWebhook \<Rightarrow> (bool \<times> instant) \<times> string" where
  "due_key h = (case hk_NextAttemptAt h of None \<Rightarrow> ((False, 0), hk_ExecutionID h) | Some t \<Rightarrow> ((True, t), hk_ExecutionID h))"

definition ListDueExecutionWebhooks :: "instant option \<Rightarrow> int \<Rightarrow> (goerr + ExecutionWebhook list) hop" where
  "ListDueExecutionWebhooks ctx limit = sqlh ctx (\<lambda>s.
     (Inr (take (if limit \<le> 0 then 100 else nat limit) (sort_key due_key (filter (due (hs_now s)) (hs_rows s)))), s))"

definition TryMarkExecutionWebhookInFlight :: "instant option \<Rightarrow> string \<Rightarrow> instant \<Rightarrow> (goerr + bool) hop" where
  "TryMarkExecutionWebhookInFlight ctx k now = sqlh ctx (\<lambda>s.
     (Inr (\<exists>h \<in> set (hs_rows s). hk_ExecutionID h = k \<and> due now h),
      s\<lparr>hs_rows := map (\<lambda>h. if hk_ExecutionID h = k \<and> due now h
        then h\<lparr>hk_Status := whDelivering, hk_UpdatedAt := now\<rparr> else h) (hs_rows s)\<rparr>))"

definition set_or_null :: "instant option \<Rightarrow> instant option" where
  "set_or_null t = (case t of None \<Rightarrow> None | Some t \<Rightarrow> if t = 0 then None else Some t)"

definition hook_updated :: "instant \<Rightarrow> ExecutionWebhookStateUpdate \<Rightarrow> ExecutionWebhook \<Rightarrow> ExecutionWebhook" where
  "hook_updated now u h = h\<lparr>hk_Status := hu_Status u, hk_AttemptCount := hu_AttemptCount u,
     hk_NextAttemptAt := set_or_null (hu_NextAttemptAt u), hk_LastAttemptAt := set_or_null (hu_LastAttemptAt u),
     hk_LastError := (case hu_LastError u of None \<Rightarrow> None | Some e \<Rightarrow> if TrimSpace e = [] then None else Some e),
     hk_UpdatedAt := now\<rparr>"

definition UpdateExecutionWebhookState ::
    "instant option \<Rightarrow> string \<Rightarrow> ExecutionWebhookStateUpdate \<Rightarrow> (goerr + unit) hop" where
  "UpdateExecutionWebhookState ctx k u = sqlh ctx (\<lambda>s.
     (Inr (), s\<lparr>hs_rows := modify hk_ExecutionID k (hook_updated (hs_now s) u) (hs_rows s)\<rparr>))"

definition StoreExecutionWebhookEvent :: "instant option \<Rightarrow> ExecutionWebhookEvent \<Rightarrow> (goerr + unit) hop" where
  "StoreExecutionWebhookEvent ctx e = sqlh ctx (\<lambda>s. (Inr (), s\<lparr>hs_log := hs_log s @ [e\<lparr>he_CreatedAt := hs_now s\<rparr>]\<rparr>))"

subsection \<open>Scheduling\<close>

definition enqueue :: "string \<Rightarrow> unit hop" where
  "enqueue k = modh (\<lambda>s. s\<lparr>hs_jobs := hs_jobs s @ [k]\<rparr>)"

text \<open>\<open>started\<close> says that the dispatcher has been started.\<close>

definition Notify :: "WebhookDispatcherConfig \<Rightarrow> bool \<Rightarrow> string \<Rightarrow> (goerr + unit) hop" where
  "Notify cfg started k =
     (if k = [] then State_Monad.return (Inr ())
      else if \<not> started then State_Monad.return (Inl (Errorf ''webhook dispatcher has not been started''))
      else do {
        now \<leftarrow> geth hs_now;
        let ctx = Some (now + wc_Timeout cfg);
        r \<leftarrow> GetExecutionWebhook ctx k;
        case r of
          Inl e \<Rightarrow> State_Monad.return (Inl e)
        | Inr None \<Rightarrow> State_Monad.return (Inr ())
        | Inr (Some h) \<Rightarrow>
            if hk_Status h = whDelivered \<or> hk_Status h = whFailed then State_Monad.return (Inr ())
            else do {
              (if hk_Status h \<noteq> whPending \<or> (case hk_NextAttemptAt h of None \<Rightarrow> False | Some t \<Rightarrow> now < t)
               then do {
                 _ \<leftarrow> UpdateExecutionWebhookState ctx k \<lparr>hu_Status = whPending, hu_AttemptCount = hk_AttemptCount h,
                        hu_NextAttemptAt = Some now, hu_LastAttemptAt = hk_LastAttemptAt h, hu_LastError = hk_LastError h\<rparr>;
                 State_Monad.return ()
               } else State_Monad.return ());
              r \<leftarrow> TryMarkExecutionWebhookInFlight ctx k (now + wc_Timeout cfg);
              case r of
                Inl e \<Rightarrow> State_Monad.return (Inl e)
              | Inr ok \<Rightarrow> do { (if ok then enqueue k else State_Monad.return ()); State_Monad.return (Inr ()) }
            }
      })"

primrec mark_due :: "instant option \<Rightarrow> instant \<Rightarrow> ExecutionWebhook list \<Rightarrow> unit hop" where
  "mark_due ctx now [] = State_Monad.return ()"
| "mark_due ctx now (h # hs) = do {
     r \<leftarrow> TryMarkExecutionWebhookInFlight ctx (hk_ExecutionID h) now;
     (case r of
        Inl _ \<Rightarrow> State_Monad.return ()
      | Inr ok \<Rightarrow> if ok then enqueue (hk_ExecutionID h) else State_Monad.return ());
     mark_due ctx now hs
   }"

definition scanDue :: "WebhookDispatcherConfig \<Rightarrow> unit hop" where
  "scanDue cfg = do {
     now \<leftarrow> geth hs_now;
     let ctx = Some (now + wc_Timeout cfg);
     r \<leftarrow> ListDueExecutionWebhooks ctx (wc_PollBatchSize cfg);
     case r of Inl _ \<Rightarrow> State_Monad.return () | Inr hs \<Rightarrow> mark_due ctx now hs
   }"

subsection \<open>The delivery of a job\<close>

definition determineWebhookEvent :: "string \<Rightarrow> string" where
  "determineWebhookEvent st = (if NormalizeExecutionStatus st = stSucceeded then ''execution.completed'' else ''execution.failed'')"

definition decodeExecutionPayload :: "network \<Rightarrow> string \<Rightarrow> json" where
  "decodeExecutionPayload net raw = (if raw = [] then JNull else case nt_decode net raw of Some v \<Rightarrow> v | None \<Rightarrow> JStr raw)"

definition generateWebhookSignature :: "network \<Rightarrow> string \<Rightarrow> string \<Rightarrow> string" where
  "generateWebhookSignature net secret bdy = ''sha256='' @ nt_mac net secret bdy"

definition resolveTargetType :: "instant option \<Rightarrow> Execution \<Rightarrow> string hop" where
  "resolveTargetType ctx e = do {
     r \<leftarrow> sqlh ctx (\<lambda>s. (Inr (hs_agents s (ex_NodeID e)), s));
     State_Monad.return (case r of
         Inr (Some a) \<Rightarrow>
           if ex_ReasonerID e \<in> set (af_Reasoners a) then ''reasoner''
           else if ex_ReasonerID e \<in> set (af_Skills a) then ''skill'' else ''reasoner''
       | _ \<Rightarrow> ''reasoner'')
   }"

definition buildPayload :: "network \<Rightarrow> instant option \<Rightarrow> Execution \<Rightarrow> string \<Rightarrow> ExecutionWebhookPayload hop" where
  "buildPayload net ctx e eventType = do {
     targetType \<leftarrow> resolveTargetType ctx e;
     wf \<leftarrow> sqlh ctx (\<lambda>s. (Inr (find_workflow (hs_db s) (ex_ExecutionID e)), s));
     now \<leftarrow> geth hs_now;
     State_Monad.return \<lparr>hp_Event = eventType, hp_ExecutionID = ex_ExecutionID e, hp_RunID = ex_RunID e,
       hp_AgentNodeID = ex_AgentNodeID e, hp_ReasonerID = ex_ReasonerID e, hp_Status = ex_Status e,
       hp_StatusReason = ex_StatusReason e, hp_Target = ex_NodeID e @ ''.'' @ ex_ReasonerID e,
       hp_TargetType = targetType, hp_StartedAt = ex_StartedAt e, hp_CompletedAt = ex_CompletedAt e,
       hp_DurationMS = ex_DurationMS e, hp_RetryCount = (case wf of Inr (Some f) \<Rightarrow> wf_RetryCount f | _ \<Rightarrow> 0),
       hp_ErrorCategory = (if ex_StatusReason e = Some [] then None else ex_StatusReason e),
       hp_SessionID = ex_SessionID e, hp_ActorID = ex_ActorID e, hp_Context = nt_context net (ex_InputPayload e),
       hp_Result = (if eventType = ''execution.completed'' then decodeExecutionPayload net (ex_ResultPayload e) else JNull),
       hp_ErrorMessage = (if eventType = ''execution.completed'' then None else ex_ErrorMessage e),
       hp_Timestamp = (case ex_CompletedAt e of Some t \<Rightarrow> t | None \<Rightarrow> now)\<rparr>
   }"

definition request_headers :: "network \<Rightarrow> ExecutionWebhook \<Rightarrow> string \<Rightarrow> (string \<times> string) list" where
  "request_headers net h bdy =
     [(''Content-Type'', ''application/json'')] @
     map (\<lambda>(k, v). (TrimSpace k, v)) (filter (\<lambda>(k, v). TrimSpace k \<noteq> []) (hk_Headers h)) @
     (case hk_Secret h of None \<Rightarrow> [] | Some x \<Rightarrow> [(''X-AgentField-Signature'', generateWebhookSignature net x bdy)])"

text \<open>The first half of \<open>process\<close>: the worker takes a job and sends the request. It gives up when a row is missing.\<close>

definition send_request :: "network \<Rightarrow> instant \<Rightarrow> string \<Rightarrow> ExecutionWebhook \<Rightarrow> Execution \<Rightarrow> unit hop" where
  "send_request net deadline k h e = do {
     let eventType = determineWebhookEvent (ex_Status e);
     payload \<leftarrow> buildPayload net (Some deadline) e eventType;
     case nt_marshal net payload of
       None \<Rightarrow> State_Monad.return ()
     | Some bdy \<Rightarrow>
         if \<not> nt_valid_url net (hk_URL h) then State_Monad.return ()
         else modh (\<lambda>s. s\<lparr>hs_sent := hs_sent s @ [\<lparr>rq_ExecutionID = k, rq_URL = hk_URL h,
                  rq_Headers = request_headers net h bdy, rq_Event = eventType, rq_Body = bdy\<rparr>],
                hs_flight := hs_flight s @ [\<lparr>dl_Webhook = h, dl_Event = eventType, dl_Body = bdy,
                  dl_Answer = nt_answer net (length (hs_sent s)), dl_Deadline = deadline\<rparr>]\<rparr>)
   }"

definition start_delivery :: "network \<Rightarrow> WebhookDispatcherConfig \<Rightarrow> string \<Rightarrow> unit hop" where
  "start_delivery net cfg k = do {
     now \<leftarrow> geth hs_now;
     let ctx = Some (now + wc_Timeout cfg);
     r \<leftarrow> sqlh ctx (\<lambda>s. (Inr (find_execution (hs_db s) k), s));
     case r of
       Inr (Some e) \<Rightarrow> do {
         r \<leftarrow> GetExecutionWebhook ctx k;
         case r of
           Inr (Some h) \<Rightarrow> send_request net (now + wc_Timeout cfg) k h e
         | _ \<Rightarrow> State_Monad.return ()
       }
     | _ \<Rightarrow> State_Monad.return ()
   }"

definition computeBackoff :: "WebhookDispatcherConfig \<Rightarrow> int \<Rightarrow> duration" where
  "computeBackoff cfg attempt =
     (let attempt = (if attempt \<le> 0 then 1 else attempt);
          backoff = wrap64 (wc_RetryBackoff cfg * wrap64 (2 ^ nat (attempt - 1)))
      in if wc_MaxRetryBackoff cfg < backoff then wc_MaxRetryBackoff cfg else backoff)"

text \<open>What the answer means: the recorded attempt and the error, if any.\<close>

definition attempt_error :: "string + (nat \<times> string) \<Rightarrow> string option" where
  "attempt_error answer =
     (case answer of
        Inl e \<Rightarrow> Some e
      | Inr (st, _) \<Rightarrow> if st < 200 \<or> 300 \<le> st then Some (''non-2xx response: '' @ show_nat st) else None)"

definition attempt_event :: "WebhookDispatcherConfig \<Rightarrow> instant \<Rightarrow> delivery \<Rightarrow> ExecutionWebhookEvent" where
  "attempt_event cfg now d = \<lparr>he_ExecutionID = hk_ExecutionID (dl_Webhook d), he_EventType = dl_Event d,
     he_Status = (if attempt_error (dl_Answer d) = None then ''delivered'' else ''failed''),
     he_HTTPStatus = (case dl_Answer d of Inl _ \<Rightarrow> None | Inr (st, _) \<Rightarrow> Some st), he_Payload = dl_Body d,
     he_ResponseBody = (case dl_Answer d of Inl _ \<Rightarrow> None
       | Inr (_, b) \<Rightarrow> let b = take (nat (wc_ResponseBodyLimit cfg)) b in if b = [] then None else Some b),
     he_ErrorMessage = attempt_error (dl_Answer d), he_CreatedAt = now\<rparr>"

definition attempt_update :: "WebhookDispatcherConfig \<Rightarrow> instant \<Rightarrow> delivery \<Rightarrow> ExecutionWebhookStateUpdate" where
  "attempt_update cfg now d =
     (let n = hk_AttemptCount (dl_Webhook d) + 1
      in case attempt_error (dl_Answer d) of
           None \<Rightarrow> \<lparr>hu_Status = whDelivered, hu_AttemptCount = n, hu_NextAttemptAt = None,
             hu_LastAttemptAt = Some now, hu_LastError = None\<rparr>
         | Some e \<Rightarrow>
             if wc_MaxAttempts cfg \<le> n
             then \<lparr>hu_Status = whFailed, hu_AttemptCount = n, hu_NextAttemptAt = None,
               hu_LastAttemptAt = Some now, hu_LastError = Some e\<rparr>
             else \<lparr>hu_Status = whPending, hu_AttemptCount = n, hu_NextAttemptAt = Some (now + computeBackoff cfg n),
               hu_LastAttemptAt = Some now, hu_LastError = Some e\<rparr>)"

text \<open>The second half of \<open>process\<close>, once the answer is there.\<close>

definition finish_delivery :: "WebhookDispatcherConfig \<Rightarrow> delivery \<Rightarrow> unit hop" where
  "finish_delivery cfg d = do {
     now \<leftarrow> geth hs_now;
     _ \<leftarrow> StoreExecutionWebhookEvent (Some (dl_Deadline d)) (attempt_event cfg now d);
     _ \<leftarrow> UpdateExecutionWebhookState (Some (dl_Deadline d)) (hk_ExecutionID (dl_Webhook d)) (attempt_update cfg now d);
     State_Monad.return ()
   }"

end
