(* ===== verification/Maintains.thy ===== *)
theory Maintains
  imports Prelude "HOL-Library.State_Monad"
begin

text \<open>
  Programs of a state monad that keep a reflexive and transitive relation between the states before and after. The
  interface \<open>kept_relation\<close> is what makes a relation compose; an invariant \<open>I\<close> is the relation that leads from \<open>I\<close> to \<open>I\<close>.
\<close>

definition maintains :: "('s \<Rightarrow> 's \<Rightarrow> bool) \<Rightarrow> ('s, 'a) state \<Rightarrow> bool" where
  "maintains R p \<longleftrightarrow> (\<forall>s. R s (snd (run_state p s)))"

lemma maintainsD: "maintains R p \<Longrightarrow> R s (snd (run_state p s))"
  by (simp add: maintains_def)

lemma run_state_bind: "run_state (State_Monad.bind p f) s = (case run_state p s of (a, s') \<Rightarrow> run_state (f a) s')"
  by (simp add: State_Monad.bind_def)

locale kept_relation =
  fixes R :: "'s \<Rightarrow> 's \<Rightarrow> bool"
  assumes refl: "R s s" and trans: "R s s' \<Longrightarrow> R s' s'' \<Longrightarrow> R s s''"
begin

lemma m_return: "maintains R (State_Monad.return a)"
  by (simp add: maintains_def State_Monad.return_def refl)

lemma m_bind: "maintains R p \<Longrightarrow> (\<And>a. maintains R (f a)) \<Longrightarrow> maintains R (State_Monad.bind p f)"
  unfolding maintains_def run_state_bind by (auto split: prod.split intro: trans)

lemma m_if: "(b \<Longrightarrow> maintains R p) \<Longrightarrow> (\<not> b \<Longrightarrow> maintains R q) \<Longrightarrow> maintains R (if b then p else q)"
  by simp

lemma m_sum: "(\<And>e. maintains R (f e)) \<Longrightarrow> (\<And>x. maintains R (g x)) \<Longrightarrow> maintains R (case r of Inl e \<Rightarrow> f e | Inr x \<Rightarrow> g x)"
  by (cases r) simp_all

lemma m_option: "maintains R p \<Longrightarrow> (\<And>x. maintains R (g x)) \<Longrightarrow> maintains R (case r of None \<Rightarrow> p | Some x \<Rightarrow> g x)"
  by (cases r) simp_all

lemmas m_intros = m_return m_bind m_if m_sum m_option

end

definition kept_by :: "('s \<Rightarrow> bool) \<Rightarrow> 's \<Rightarrow> 's \<Rightarrow> bool" where
  "kept_by I s s' \<longleftrightarrow> (I s \<longrightarrow> I s')"

interpretation invariant: kept_relation "kept_by I" for I
  by unfold_locales (auto simp: kept_by_def)

end
