(* ===== verification/Webhook_Delivery.thy ===== *)
theory Webhook_Delivery
  imports Webhooks Maintains
begin

text \<open>
  The dispatcher at work: its steps in any order, the invariant that ties a registration to the jobs and requests for
  it, and what follows for the number of attempts.
\<close>

subsection \<open>Steps\<close>

datatype hook_label =
    LRegister "ExecutionWebhook option"
  | LNotify string
  | LScan
  | LTake
  | LFinish
  | LPass
  | LElsewhere
  | LRestart

inductive dispatch :: "network \<Rightarrow> WebhookDispatcherConfig \<Rightarrow> hook_label \<Rightarrow> hooks \<Rightarrow> hooks \<Rightarrow> bool" for net cfg where
  Register: "dispatch net cfg (LRegister h) s (snd (run_state (RegisterExecutionWebhook h) s))"
| Notify: "dispatch net cfg (LNotify k) s (snd (run_state (Notify cfg True k) s))"
| Scan: "dispatch net cfg LScan s (snd (run_state (scanDue cfg) s))"
| Take: "hs_jobs s = k # ks \<Longrightarrow>
    dispatch net cfg LTake s (snd (run_state (start_delivery net cfg k) (s\<lparr>hs_jobs := ks\<rparr>)))"
| Finish: "hs_flight s = ds @ d # es \<Longrightarrow>
    dispatch net cfg LFinish s (snd (run_state (finish_delivery cfg d) (s\<lparr>hs_flight := ds @ es\<rparr>)))"
| Pass: "0 \<le> t \<Longrightarrow> dispatch net cfg LPass s (s\<lparr>hs_now := hs_now s + t\<rparr>)"
| Elsewhere: "dispatch net cfg LElsewhere s (s\<lparr>hs_db := d, hs_agents := a\<rparr>)"
| Restart: "dispatch net cfg LRestart s (snd (run_state (scanDue cfg) (s\<lparr>hs_jobs := [], hs_flight := []\<rparr>)))"

inductive_cases dispatch_elim: "dispatch net cfg l s s'"

inductive dispatches :: "network \<Rightarrow> WebhookDispatcherConfig \<Rightarrow> hook_label list \<Rightarrow> hooks \<Rightarrow> hooks \<Rightarrow> bool" for net cfg where
  Done: "dispatches net cfg [] s s"
| Step: "dispatch net cfg l s s1 \<Longrightarrow> dispatches net cfg ls s1 s2 \<Longrightarrow> dispatches net cfg (l # ls) s s2"

subsection \<open>What belongs to an execution\<close>

definition hook_of :: "string \<Rightarrow> hooks \<Rightarrow> ExecutionWebhook option" where
  "hook_of k s = lookup hk_ExecutionID k (hs_rows s)"

definition jobs_of :: "string \<Rightarrow> hooks \<Rightarrow> nat" where
  "jobs_of k s = count_list (hs_jobs s) k"

definition flights_of :: "string \<Rightarrow> hooks \<Rightarrow> delivery list" where
  "flights_of k s = filter (\<lambda>d. hk_ExecutionID (dl_Webhook d) = k) (hs_flight s)"

definition sent_of :: "string \<Rightarrow> hooks \<Rightarrow> nat" where
  "sent_of k s = length (filter (\<lambda>r. rq_ExecutionID r = k) (hs_sent s))"

definition outstanding :: "string \<Rightarrow> hooks \<Rightarrow> nat" where
  "outstanding k s = jobs_of k s + length (flights_of k s)"

definition keyed :: "hooks \<Rightarrow> bool" where
  "keyed s \<longleftrightarrow> distinct (map hk_ExecutionID (hs_rows s))"

definition hooks_apart :: "string \<Rightarrow> hooks \<Rightarrow> hooks \<Rightarrow> bool" where
  "hooks_apart k s s' \<longleftrightarrow> hook_of k s' = hook_of k s \<and> jobs_of k s' = jobs_of k s \<and> flights_of k s' = flights_of k s \<and>
     sent_of k s' = sent_of k s \<and> (keyed s \<longrightarrow> keyed s')"

interpretation apart: kept_relation "hooks_apart k" for k
  by unfold_locales (auto simp: hooks_apart_def)

lemma apart_modh:
  assumes "\<And>s. hooks_apart k s (f s)"
  shows "maintains (hooks_apart k) (modh f)"
  using assms by (simp add: maintains_def modh_def)

lemma apart_geth: "maintains (hooks_apart k) (geth g)"
  by (simp add: maintains_def geth_def apart.refl)

lemma run_sqlh:
  "\<exists>n. snd (run_state (sqlh ctx tx) s) = s\<lparr>hs_calls := n\<rparr> \<or> run_state (sqlh ctx tx) s = tx (s\<lparr>hs_calls := n\<rparr>)"
  by (auto simp: sqlh_def Let_def split: option.split)

lemma apart_calls [simp]: "hooks_apart k s (s\<lparr>hs_calls := n\<rparr>)"
  by (simp add: hooks_apart_def hook_of_def jobs_of_def flights_of_def sent_of_def keyed_def)

lemma apart_sqlh:
  assumes "\<And>s. hooks_apart k s (snd (tx s))"
  shows "maintains (hooks_apart k) (sqlh ctx tx)"
  unfolding maintains_def
proof
  fix s
  obtain n where "snd (run_state (sqlh ctx tx) s) = s\<lparr>hs_calls := n\<rparr> \<or> run_state (sqlh ctx tx) s = tx (s\<lparr>hs_calls := n\<rparr>)"
    using run_sqlh by blast
  then show "hooks_apart k s (snd (run_state (sqlh ctx tx) s))"
    using apart.trans [OF apart_calls assms] by auto
qed

lemma lookup_map_same:
  assumes "\<And>r. key (f r) = key r" and "\<And>r. key r = k \<Longrightarrow> f r = r"
  shows "lookup key k (map f rows) = lookup key k rows"
  using assms by (induction rows) auto

lemma apart_rows:
  assumes "lookup hk_ExecutionID k (f (hs_rows s)) = lookup hk_ExecutionID k (hs_rows s)"
    and "distinct (map hk_ExecutionID (hs_rows s)) \<Longrightarrow> distinct (map hk_ExecutionID (f (hs_rows s)))"
  shows "hooks_apart k s (s\<lparr>hs_rows := f (hs_rows s)\<rparr>)"
  using assms by (simp add: hooks_apart_def hook_of_def jobs_of_def flights_of_def sent_of_def keyed_def)

lemma apart_tagged:
  assumes "\<And>h. hk_ExecutionID (f h) = hk_ExecutionID h" and "\<And>h. hk_ExecutionID h = k \<Longrightarrow> f h = h"
  shows "hooks_apart k s (s\<lparr>hs_rows := map f (hs_rows s)\<rparr>)"
  using assms by (intro apart_rows) (auto simp: lookup_map_same comp_def)

lemma apart_enqueue: "j \<noteq> k \<Longrightarrow> maintains (hooks_apart k) (enqueue j)"
  unfolding enqueue_def
  by (rule apart_modh) (simp add: hooks_apart_def hook_of_def jobs_of_def flights_of_def sent_of_def keyed_def)

lemma apart_reads:
  "maintains (hooks_apart k) (GetExecutionWebhook ctx j)"
  "maintains (hooks_apart k) (ListDueExecutionWebhooks ctx n)"
  unfolding GetExecutionWebhook_def ListDueExecutionWebhooks_def by (rule apart_sqlh, simp add: apart.refl)+

lemma apart_mark: "j \<noteq> k \<Longrightarrow> maintains (hooks_apart k) (TryMarkExecutionWebhookInFlight ctx j now)"
  unfolding TryMarkExecutionWebhookInFlight_def by (rule apart_sqlh) (simp, rule apart_tagged, auto)

lemma hook_updated_ID [simp]: "hk_ExecutionID (hook_updated now u h) = hk_ExecutionID h"
  by (simp add: hook_updated_def)

lemma apart_update: "j \<noteq> k \<Longrightarrow> maintains (hooks_apart k) (UpdateExecutionWebhookState ctx j u)"
  unfolding UpdateExecutionWebhookState_def modify_def by (rule apart_sqlh) (simp, rule apart_tagged, auto)

lemma apart_event: "maintains (hooks_apart k) (StoreExecutionWebhookEvent ctx e)"
  unfolding StoreExecutionWebhookEvent_def
  by (rule apart_sqlh) (simp add: hooks_apart_def hook_of_def jobs_of_def flights_of_def sent_of_def keyed_def)

lemma apart_upsert: "hk_ExecutionID h \<noteq> k \<Longrightarrow> hooks_apart k s (s\<lparr>hs_rows := upsert_hook h (hs_rows s)\<rparr>)"
  by (rule apart_rows)
    (auto simp: upsert_hook_def lookup_modify modify_keys lookup_None_iff [THEN iffD1] split: option.splits)

lemma registered_row_sel [simp]:
  "hk_ExecutionID (registered_row now h) = hk_ExecutionID h" "hk_Status (registered_row now h) = hk_Status h"
  "hk_AttemptCount (registered_row now h) = 0" "hk_URL (registered_row now h) = hk_URL h"
  by (simp_all add: registered_row_def)

lemma apart_register:
  assumes "\<And>h. webhook = Some h \<Longrightarrow> hk_ExecutionID h \<noteq> k"
  shows "maintains (hooks_apart k) (RegisterExecutionWebhook webhook)"
proof (cases webhook)
  case (Some h)
  show ?thesis unfolding RegisterExecutionWebhook_def Some option.case Let_def
    by (intro apart.m_intros apart_geth apart_sqlh) (use assms [OF Some] in \<open>simp add: apart_upsert\<close>)
qed (simp add: RegisterExecutionWebhook_def apart.m_return)

lemma apart_notify:
  assumes "j \<noteq> k"
  shows "maintains (hooks_apart k) (Notify cfg started j)"
  unfolding Notify_def Let_def
  by (intro apart.m_intros apart_geth apart_reads apart_update apart_mark apart_enqueue assms)

text \<open>The two halves of a job, by their effect.\<close>

lemma run_modh: "run_state (modh f) s = ((), f s)" and run_geth: "run_state (geth g) s = (g s, s)"
  and run_return: "run_state (State_Monad.return a) (s :: hooks) = (a, s)"
  by (simp_all add: modh_def geth_def State_Monad.return_def)

definition counted :: "hooks \<Rightarrow> nat \<Rightarrow> hooks" where
  "counted s n = s\<lparr>hs_calls := n\<rparr>"

lemma counted_sel [simp]:
  "hs_rows (counted s n) = hs_rows s" "hs_jobs (counted s n) = hs_jobs s" "hs_flight (counted s n) = hs_flight s"
  "hs_sent (counted s n) = hs_sent s" "hs_db (counted s n) = hs_db s" "hs_now (counted s n) = hs_now s"
  "counted (counted s m) n = counted s n"
  by (simp_all add: counted_def)

lemma counted_sent:
  "(counted s n)\<lparr>hs_sent := rs, hs_flight := ds\<rparr> = counted (s\<lparr>hs_sent := rs, hs_flight := ds\<rparr>) n"
  by (simp add: counted_def)

lemma read_sqlh: "\<exists>r n. run_state (sqlh ctx (\<lambda>s. (Inr (g s), s))) s = (r, counted s n) \<and> (r = Inr (g (counted s n)) \<or> (\<exists>e. r = Inl e))"
  by (auto simp: sqlh_def counted_def Let_def split: option.split)

lemma run_buildPayload: "\<exists>p n. run_state (buildPayload net ctx e ev) s = (p, counted s n)"
proof -
  obtain r n where r: "run_state (sqlh ctx (\<lambda>s. (Inr (hs_agents s (ex_NodeID e)), s))) s = (r, counted s n)"
    using read_sqlh [of ctx "\<lambda>s. hs_agents s (ex_NodeID e)" s] by blast
  obtain r' n' where r': "run_state (sqlh ctx (\<lambda>s. (Inr (find_workflow (hs_db s) (ex_ExecutionID e)), s))) (counted s n) =
      (r', counted s n')"
    using read_sqlh [of ctx "\<lambda>s. find_workflow (hs_db s) (ex_ExecutionID e)" "counted s n"] by auto
  show ?thesis
    by (simp add: buildPayload_def resolveTargetType_def run_state_bind r r' run_geth State_Monad.return_def) blast
qed

lemma start_effect:
  "\<exists>n. snd (run_state (start_delivery net cfg k) s) = counted s n \<or>
     (\<exists>h r d. hook_of k s = Some h \<and> rq_ExecutionID r = k \<and> dl_Webhook d = h \<and>
        snd (run_state (start_delivery net cfg k) s) =
          counted (s\<lparr>hs_sent := hs_sent s @ [r], hs_flight := hs_flight s @ [d]\<rparr>) n)"
proof -
  let ?ctx = "Some (hs_now s + wc_Timeout cfg)"
  obtain r n where r: "run_state (sqlh ?ctx (\<lambda>s. (Inr (find_execution (hs_db s) k), s))) s = (r, counted s n)"
    using read_sqlh [of ?ctx "\<lambda>s. find_execution (hs_db s) k" s] by blast
  show ?thesis
  proof (cases "\<exists>e. r = Inr (Some e)")
    case False
    then have "snd (run_state (start_delivery net cfg k) s) = counted s n"
      by (cases r) (auto simp: start_delivery_def run_state_bind run_geth Let_def r run_return split: option.split)
    then show ?thesis by blast
  next
    case True
    then obtain e where e: "r = Inr (Some e)" by blast
    obtain r2 n2 where r2: "run_state (GetExecutionWebhook ?ctx k) (counted s n) = (r2, counted s n2)"
        "r2 = Inr (hook_of k s) \<or> (\<exists>e. r2 = Inl e)"
      unfolding GetExecutionWebhook_def
      using read_sqlh [of ?ctx "\<lambda>s. lookup hk_ExecutionID k (hs_rows s)" "counted s n"] by (auto simp: hook_of_def)
    show ?thesis
    proof (cases "\<exists>h. r2 = Inr (Some h)")
      case False
      then have "snd (run_state (start_delivery net cfg k) s) = counted s n2"
        by (cases r2) (auto simp: start_delivery_def run_state_bind run_geth Let_def r e r2(1) run_return split: option.split)
      then show ?thesis by blast
    next
      case True
      then obtain h where h: "r2 = Inr (Some h)" "hook_of k s = Some h" using r2(2) by (cases "hook_of k s") auto
      obtain p n3 where p: "run_state (buildPayload net ?ctx e (determineWebhookEvent (ex_Status e))) (counted s n2) = (p, counted s n3)"
        using run_buildPayload [of net ?ctx e "determineWebhookEvent (ex_Status e)" "counted s n2"] by auto
      have run: "run_state (start_delivery net cfg k) s =
          run_state (send_request net (hs_now s + wc_Timeout cfg) k h e) (counted s n2)"
        by (simp add: start_delivery_def run_state_bind run_geth Let_def r e r2(1) h(1))
      show ?thesis
      proof (cases "nt_marshal net p = None \<or> \<not> nt_valid_url net (hk_URL h)")
        case True
        then have "snd (run_state (start_delivery net cfg k) s) = counted s n3"
          by (auto simp: run send_request_def run_state_bind Let_def p run_return split: option.split)
        then show ?thesis by blast
      next
        case False
        then obtain b where b: "nt_marshal net p = Some b" "nt_valid_url net (hk_URL h)" by auto
        let ?ev = "determineWebhookEvent (ex_Status e)"
        let ?r = "\<lparr>rq_ExecutionID = k, rq_URL = hk_URL h, rq_Headers = request_headers net h b, rq_Event = ?ev, rq_Body = b\<rparr>"
        let ?d = "\<lparr>dl_Webhook = h, dl_Event = ?ev, dl_Body = b, dl_Answer = nt_answer net (length (hs_sent s)),
          dl_Deadline = hs_now s + wc_Timeout cfg\<rparr>"
        have "snd (run_state (start_delivery net cfg k) s) =
            counted (s\<lparr>hs_sent := hs_sent s @ [?r], hs_flight := hs_flight s @ [?d]\<rparr>) n3"
          using b by (simp add: run send_request_def run_state_bind Let_def p run_modh counted_sent)
        with h(2) show ?thesis
          by (intro exI [of _ n3] disjI2 exI [of _ h] exI [of _ ?r] exI [of _ ?d]) simp
      qed
    qed
  qed
qed

lemma finish_effect:
  "\<exists>n es. snd (run_state (finish_delivery cfg d) s) = counted (s\<lparr>hs_log := es\<rparr>) n \<or>
     snd (run_state (finish_delivery cfg d) s) = counted (s\<lparr>hs_log := es, hs_rows := modify hk_ExecutionID
       (hk_ExecutionID (dl_Webhook d)) (hook_updated (hs_now s) (attempt_update cfg (hs_now s) d)) (hs_rows s)\<rparr>) n"
proof -
  have "\<exists>n es. snd (run_state (StoreExecutionWebhookEvent ctx e) s) = counted (s\<lparr>hs_log := es\<rparr>) n" for ctx e
    unfolding StoreExecutionWebhookEvent_def sqlh_def Let_def
    by (intro exI [of _ "Suc (hs_calls s)"] exI [of _ "if (case ctx of None \<Rightarrow> False | Some t \<Rightarrow> t \<le> hs_now s) \<or>
        hs_fault s (hs_calls s) \<noteq> None then hs_log s else hs_log s @ [e\<lparr>he_CreatedAt := hs_now s\<rparr>]"])
      (auto simp: counted_def split: option.split)
  then obtain n es r where ev: "run_state (StoreExecutionWebhookEvent (Some (dl_Deadline d)) (attempt_event cfg (hs_now s) d)) s =
      (r, counted (s\<lparr>hs_log := es\<rparr>) n)" by (metis surj_pair snd_conv)
  show ?thesis
    by (intro exI [of _ "Suc n"] exI [of _ es])
      (auto simp: finish_delivery_def run_state_bind run_geth ev UpdateExecutionWebhookState_def sqlh_def Let_def run_return
        counted_def split: option.split prod.split)
qed

subsection \<open>The invariant\<close>

text \<open>
  A registration that nobody notifies has at most one job or request under way, exactly while it is \<open>delivering\<close>, and
  its requests are counted. A job that gives up, or whose result cannot be recorded, leaves it delivering for good.
\<close>

definition orderly :: "int \<Rightarrow> string \<Rightarrow> hooks \<Rightarrow> bool" where
  "orderly M k s \<longleftrightarrow> keyed s \<and>
     (case hook_of k s of
        None \<Rightarrow> False
      | Some h \<Rightarrow> 0 \<le> hk_AttemptCount h \<and> hk_AttemptCount h \<le> M \<and>
          (if hk_Status h = whPending
           then hk_AttemptCount h < M \<and> outstanding k s = 0 \<and> int (sent_of k s) \<le> hk_AttemptCount h
           else if hk_Status h = whDelivering
           then hk_AttemptCount h < M \<and> outstanding k s \<le> 1 \<and>
             (\<forall>d \<in> set (flights_of k s). hk_AttemptCount (dl_Webhook d) = hk_AttemptCount h) \<and>
             int (sent_of k s) + int (jobs_of k s) \<le> hk_AttemptCount h + 1
           else hk_Status h \<in> {whDelivered, whFailed} \<and> outstanding k s = 0 \<and> int (sent_of k s) \<le> hk_AttemptCount h))"

definition ended :: "nat \<Rightarrow> string \<Rightarrow> hooks \<Rightarrow> bool" where
  "ended n k s \<longleftrightarrow> keyed s \<and> outstanding k s = 0 \<and> sent_of k s = n \<and>
     (case hook_of k s of None \<Rightarrow> False | Some h \<Rightarrow> hk_Status h \<in> {whDelivered, whFailed})"

lemmas wh_words = whPending_def whDelivering_def whDelivered_def whFailed_def

lemma apart_invariants:
  assumes "hooks_apart k s s'"
  shows "orderly M k s \<Longrightarrow> orderly M k s'" and "ended n k s \<Longrightarrow> ended n k s'"
  using assms by (auto simp: hooks_apart_def orderly_def ended_def outstanding_def split: option.splits)

lemma apart_kept:
  assumes "maintains (hooks_apart k) p"
  shows "maintains (kept_by (orderly M k)) p" and "maintains (kept_by (ended n k)) p"
  using assms apart_invariants unfolding maintains_def kept_by_def by blast+

text \<open>Marking a row and enqueueing the job for it.\<close>

definition mark_job :: "instant option \<Rightarrow> instant \<Rightarrow> string \<Rightarrow> unit hop" where
  "mark_job ctx now j = do {
     r \<leftarrow> TryMarkExecutionWebhookInFlight ctx j now;
     case r of Inl _ \<Rightarrow> State_Monad.return () | Inr ok \<Rightarrow> if ok then enqueue j else State_Monad.return ()
   }"

lemma mark_due_Cons: "mark_due ctx now (h # hs) = do { mark_job ctx now (hk_ExecutionID h); mark_due ctx now hs }"
  by (simp add: mark_job_def State_Monad.bind_assoc)

lemma mark_job_effect:
  assumes "keyed s"
  shows "\<exists>n. snd (run_state (mark_job ctx now k) s) = counted s n \<or>
    (\<exists>h. hook_of k s = Some h \<and> due now h \<and> snd (run_state (mark_job ctx now k) s) =
       counted (s\<lparr>hs_rows := modify hk_ExecutionID k (\<lambda>h. h\<lparr>hk_Status := whDelivering, hk_UpdatedAt := now\<rparr>) (hs_rows s),
         hs_jobs := hs_jobs s @ [k]\<rparr>) n)"
proof -
  let ?f = "\<lambda>h. h\<lparr>hk_Status := whDelivering, hk_UpdatedAt := now\<rparr>"
  let ?rows = "map (\<lambda>h. if hk_ExecutionID h = k \<and> due now h then ?f h else h) (hs_rows s)"
  show ?thesis
  proof (cases "\<exists>h. hook_of k s = Some h \<and> due now h")
    case True
    then obtain h where h: "hook_of k s = Some h" "due now h" by blast
    then have ex: "\<exists>h \<in> set (hs_rows s). hk_ExecutionID h = k \<and> due now h"
      by (auto simp: hook_of_def dest: lookup_mem lookup_key)
    have "\<forall>b \<in> set (hs_rows s). hk_ExecutionID b = k \<longrightarrow> b = h"
      using h(1) assms lookup_distinct [of hk_ExecutionID "hs_rows s"] by (auto simp: hook_of_def keyed_def)
    then have "?rows = modify hk_ExecutionID k ?f (hs_rows s)" using h(2) by (auto simp: modify_def)
    then show ?thesis using h ex
      by (intro exI [of _ "Suc (hs_calls s)"])
        (auto simp: mark_job_def TryMarkExecutionWebhookInFlight_def run_state_bind sqlh_def Let_def enqueue_def run_modh
          run_return counted_def split: option.split)
  next
    case False
    have "\<not> (\<exists>b \<in> set (hs_rows s). hk_ExecutionID b = k \<and> due now b)"
      using False assms lookup_distinct [of hk_ExecutionID "hs_rows s"] by (auto simp: hook_of_def keyed_def)
    moreover from this have "?rows = hs_rows s" by (auto intro!: map_idI)
    ultimately show ?thesis
      by (intro exI [of _ "Suc (hs_calls s)"])
        (auto simp: mark_job_def TryMarkExecutionWebhookInFlight_def run_state_bind sqlh_def Let_def run_return
          counted_def split: option.split)
  qed
qed

lemma counted_invariants [simp]:
  "hook_of k (counted s n) = hook_of k s" "jobs_of k (counted s n) = jobs_of k s"
  "flights_of k (counted s n) = flights_of k s" "sent_of k (counted s n) = sent_of k s" "keyed (counted s n) = keyed s"
  by (simp_all add: hook_of_def jobs_of_def flights_of_def sent_of_def keyed_def)

lemma counted_kept [simp]: "orderly M k (counted s n) = orderly M k s" "ended m k (counted s n) = ended m k s"
  by (cases "hook_of k s"; simp add: orderly_def ended_def outstanding_def)+

lemma mark_job_kept:
  "maintains (kept_by (orderly M k)) (mark_job ctx now j)" "maintains (kept_by (ended n k)) (mark_job ctx now j)"
proof -
  have both: "maintains (kept_by (orderly M k)) (mark_job ctx now j) \<and> maintains (kept_by (ended n k)) (mark_job ctx now j)"
  proof (cases "j = k")
    case False
    then have "maintains (hooks_apart k) (mark_job ctx now j)"
      unfolding mark_job_def by (intro apart.m_intros apart_mark apart_enqueue)
    then show ?thesis using apart_kept by blast
  next
    case j: True
    have "orderly M k (snd (run_state (mark_job ctx now k) s))" if s: "orderly M k s" for s
    proof -
      have "keyed s" using s by (simp add: orderly_def)
      from mark_job_effect [OF this] consider m where "snd (run_state (mark_job ctx now k) s) = counted s m"
        | m h where "hook_of k s = Some h" "due now h" "snd (run_state (mark_job ctx now k) s) =
           counted (s\<lparr>hs_rows := modify hk_ExecutionID k (\<lambda>h. h\<lparr>hk_Status := whDelivering, hk_UpdatedAt := now\<rparr>) (hs_rows s),
             hs_jobs := hs_jobs s @ [k]\<rparr>) m" by blast
      then show ?thesis
      proof cases
        case 2
        let ?s = "s\<lparr>hs_rows := modify hk_ExecutionID k (\<lambda>h. h\<lparr>hk_Status := whDelivering, hk_UpdatedAt := now\<rparr>) (hs_rows s),
             hs_jobs := hs_jobs s @ [k]\<rparr>"
        have "hook_of k ?s = Some (h\<lparr>hk_Status := whDelivering, hk_UpdatedAt := now\<rparr>)" "jobs_of k ?s = Suc (jobs_of k s)"
          "flights_of k ?s = flights_of k s" "sent_of k ?s = sent_of k s" "keyed ?s = keyed s"
          using 2(1) by (auto simp: hook_of_def jobs_of_def flights_of_def sent_of_def keyed_def lookup_modify modify_keys)
        with 2 s show ?thesis by (auto simp: orderly_def outstanding_def due_def wh_words)
      qed (use s in simp)
    qed
    moreover have "ended n k (snd (run_state (mark_job ctx now k) s))" if s: "ended n k s" for s
    proof -
      have "keyed s" using s by (simp add: ended_def)
      from mark_job_effect [OF this, of ctx now] consider m where "snd (run_state (mark_job ctx now k) s) = counted s m"
        | h where "hook_of k s = Some h" "due now h" by blast
      then show ?thesis using s by cases (simp, auto simp: ended_def due_def wh_words)
    qed
    ultimately show ?thesis by (simp add: j maintains_def kept_by_def)
  qed
  then show "maintains (kept_by (orderly M k)) (mark_job ctx now j)" "maintains (kept_by (ended n k)) (mark_job ctx now j)"
    by blast+
qed

lemma scan_kept:
  "maintains (kept_by (orderly M k)) (scanDue cfg)" "maintains (kept_by (ended n k)) (scanDue cfg)"
proof -
  have "maintains (kept_by (orderly M k)) (mark_due ctx now hs)" for ctx now hs
    by (induction hs) (simp add: invariant.m_return, unfold mark_due_Cons, intro invariant.m_bind mark_job_kept, blast)
  moreover have "maintains (kept_by (ended n k)) (mark_due ctx now hs)" for ctx now hs
    by (induction hs) (simp add: invariant.m_return, unfold mark_due_Cons, intro invariant.m_bind mark_job_kept, blast)
  ultimately have marks: "maintains (kept_by (orderly M k)) (mark_due ctx now hs)" "maintains (kept_by (ended n k)) (mark_due ctx now hs)"
    for ctx now hs by blast+
  show "maintains (kept_by (orderly M k)) (scanDue cfg)" unfolding scanDue_def Let_def
    by (intro invariant.m_intros marks apart_kept(1) [OF apart_geth] apart_kept(1) [OF apart_reads(2)])
  show "maintains (kept_by (ended n k)) (scanDue cfg)" unfolding scanDue_def Let_def
    by (intro invariant.m_intros marks apart_kept(2) [OF apart_geth] apart_kept(2) [OF apart_reads(2)])
qed

text \<open>A notification for a registration that has ended does nothing.\<close>

lemma notify_ended: "maintains (kept_by (ended n k)) (Notify cfg started j)"
proof (cases "j = k")
  case False
  then show ?thesis by (intro apart_kept apart_notify)
next
  case True
  have "ended n k (snd (run_state (Notify cfg started k) s))" if s: "ended n k s" for s
  proof -
    obtain h where h: "hook_of k s = Some h" "hk_Status h = whDelivered \<or> hk_Status h = whFailed"
      using s by (auto simp: ended_def split: option.splits)
    obtain r m where r: "run_state (GetExecutionWebhook (Some (hs_now s + wc_Timeout cfg)) k) s = (r, counted s m)"
        "r = Inr (Some h) \<or> (\<exists>e. r = Inl e)"
      unfolding GetExecutionWebhook_def
      using read_sqlh [of "Some (hs_now s + wc_Timeout cfg)" "\<lambda>s. lookup hk_ExecutionID k (hs_rows s)" s] h(1)
      by (auto simp: hook_of_def)
    then have "\<exists>m. snd (run_state (Notify cfg started k) s) = counted s m \<or> snd (run_state (Notify cfg started k) s) = s"
      using h(2) by (auto simp: Notify_def run_state_bind run_geth Let_def r(1) run_return)
    then show ?thesis using s by auto
  qed
  then show ?thesis by (simp add: True maintains_def kept_by_def)
qed

text \<open>The two halves of a job.\<close>

lemma take_sel:
  assumes "hs_jobs s = j # js"
  shows "hook_of k (s\<lparr>hs_jobs := js\<rparr>) = hook_of k s" "flights_of k (s\<lparr>hs_jobs := js\<rparr>) = flights_of k s"
    "sent_of k (s\<lparr>hs_jobs := js\<rparr>) = sent_of k s" "keyed (s\<lparr>hs_jobs := js\<rparr>) = keyed s"
    "jobs_of k s = (if j = k then 1 else 0) + jobs_of k (s\<lparr>hs_jobs := js\<rparr>)"
  using assms by (simp_all add: hook_of_def flights_of_def sent_of_def keyed_def jobs_of_def)

lemma send_sel:
  assumes "rq_ExecutionID r = j" and "hk_ExecutionID (dl_Webhook d) = j"
  shows "hook_of k (s\<lparr>hs_sent := hs_sent s @ [r], hs_flight := hs_flight s @ [d]\<rparr>) = hook_of k s"
    "jobs_of k (s\<lparr>hs_sent := hs_sent s @ [r], hs_flight := hs_flight s @ [d]\<rparr>) = jobs_of k s"
    "keyed (s\<lparr>hs_sent := hs_sent s @ [r], hs_flight := hs_flight s @ [d]\<rparr>) = keyed s"
    "sent_of k (s\<lparr>hs_sent := hs_sent s @ [r], hs_flight := hs_flight s @ [d]\<rparr>) = sent_of k s + (if j = k then 1 else 0)"
    "flights_of k (s\<lparr>hs_sent := hs_sent s @ [r], hs_flight := hs_flight s @ [d]\<rparr>) = flights_of k s @ (if j = k then [d] else [])"
  using assms by (simp_all add: hook_of_def flights_of_def sent_of_def keyed_def jobs_of_def)

lemma take_kept:
  assumes j: "hs_jobs s = j # js" and s': "s' = snd (run_state (start_delivery net cfg j) (s\<lparr>hs_jobs := js\<rparr>))"
  shows "orderly M k s \<Longrightarrow> orderly M k s'" and "ended n k s \<Longrightarrow> ended n k s'"
proof -
  let ?s = "s\<lparr>hs_jobs := js\<rparr>"
  note sel = take_sel [OF j]
  from start_effect [of net cfg j ?s] consider m where "s' = counted ?s m"
    | m h r d where "hook_of j ?s = Some h" "rq_ExecutionID r = j" "dl_Webhook d = h"
      "s' = counted (?s\<lparr>hs_sent := hs_sent ?s @ [r], hs_flight := hs_flight ?s @ [d]\<rparr>) m"
    unfolding s' by blast
  then have "(orderly M k s \<longrightarrow> orderly M k s') \<and> (ended n k s \<longrightarrow> ended n k s')"
  proof cases
    case 1
    then show ?thesis using sel by (cases "hook_of k s") (auto simp: orderly_def ended_def outstanding_def)
  next
    case 2
    have "hk_ExecutionID h = j" using 2(1) by (auto simp: hook_of_def dest: lookup_key)
    with 2(3) have d: "hk_ExecutionID (dl_Webhook d) = j" by simp
    show ?thesis using sel send_sel [OF 2(2) d, where s = ?s] 2(1,3,4)
      by (cases "hook_of k s"; cases "j = k") (auto simp: orderly_def ended_def outstanding_def wh_words)
  qed
  then show "orderly M k s \<Longrightarrow> orderly M k s'" and "ended n k s \<Longrightarrow> ended n k s'" by blast+
qed

lemma attempt_update_cases:
  "hu_AttemptCount (attempt_update cfg now d) = hk_AttemptCount (dl_Webhook d) + 1"
  "hu_Status (attempt_update cfg now d) \<in> {whDelivered, whFailed} \<or>
     (hu_Status (attempt_update cfg now d) = whPending \<and> hk_AttemptCount (dl_Webhook d) + 1 < wc_MaxAttempts cfg)"
  by (auto simp: attempt_update_def Let_def split: option.split)

lemma hook_updated_sel [simp]:
  "hk_Status (hook_updated now u h) = hu_Status u" "hk_AttemptCount (hook_updated now u h) = hu_AttemptCount u"
  by (simp_all add: hook_updated_def)

lemma finish_kept:
  assumes d: "hs_flight s = ds @ d # es" and s': "s' = snd (run_state (finish_delivery cfg d) (s\<lparr>hs_flight := ds @ es\<rparr>))"
  shows "orderly (wc_MaxAttempts cfg) k s \<Longrightarrow> orderly (wc_MaxAttempts cfg) k s'" and "ended n k s \<Longrightarrow> ended n k s'"
proof -
  let ?s = "s\<lparr>hs_flight := ds @ es\<rparr>" and ?j = "hk_ExecutionID (dl_Webhook d)"
  let ?u = "hook_updated (hs_now s) (attempt_update cfg (hs_now s) d)"
  have len: "length (flights_of k s) = (if ?j = k then 1 else 0) + length (flights_of k ?s)"
    "set (flights_of k s) = (if ?j = k then {d} else {}) \<union> set (flights_of k ?s)"
    using d by (auto simp: flights_of_def)
  have same: "hook_of k (s\<lparr>hs_flight := fs, hs_log := es'\<rparr>) = hook_of k s" "jobs_of k (s\<lparr>hs_flight := fs, hs_log := es'\<rparr>) = jobs_of k s"
    "flights_of k (s\<lparr>hs_flight := fs, hs_log := es'\<rparr>) = flights_of k (s\<lparr>hs_flight := fs\<rparr>)"
    "sent_of k (s\<lparr>hs_flight := fs, hs_log := es'\<rparr>) = sent_of k s" "keyed (s\<lparr>hs_flight := fs, hs_log := es'\<rparr>) = keyed s" for fs es'
    by (simp_all add: hook_of_def flights_of_def sent_of_def keyed_def jobs_of_def)
  from finish_effect [of cfg d ?s] consider m es' where "s' = counted (?s\<lparr>hs_log := es'\<rparr>) m"
    | m es' where "s' = counted (?s\<lparr>hs_log := es', hs_rows := modify hk_ExecutionID ?j ?u (hs_rows s)\<rparr>) m"
    unfolding s' by auto
  then have "(orderly (wc_MaxAttempts cfg) k s \<longrightarrow> orderly (wc_MaxAttempts cfg) k s') \<and> (ended n k s \<longrightarrow> ended n k s')"
  proof cases
    case 1
    then show ?thesis using len same
      by (cases "hook_of k s") (auto simp: orderly_def ended_def outstanding_def split: if_splits)
  next
    case 2
    let ?r = "?s\<lparr>hs_log := es', hs_rows := modify hk_ExecutionID ?j ?u (hs_rows s)\<rparr>"
    have "hook_of k ?r = (if ?j = k then map_option ?u (hook_of k s) else hook_of k s)" "jobs_of k ?r = jobs_of k s"
      "flights_of k ?r = flights_of k ?s" "sent_of k ?r = sent_of k s" "keyed ?r = keyed s"
      by (auto simp: hook_of_def flights_of_def sent_of_def keyed_def jobs_of_def lookup_modify modify_keys)
    then show ?thesis unfolding 2 using len attempt_update_cases [of cfg "hs_now s" d]
      by (cases "hook_of k s"; cases "?j = k") (auto simp: orderly_def ended_def outstanding_def wh_words split: if_splits)
  qed
  then show "orderly (wc_MaxAttempts cfg) k s \<Longrightarrow> orderly (wc_MaxAttempts cfg) k s'" and "ended n k s \<Longrightarrow> ended n k s'"
    by blast+
qed

subsection \<open>Histories\<close>

text \<open>A step leaves the registration of an execution alone unless it registers it again.\<close>

definition leaves :: "string \<Rightarrow> hook_label \<Rightarrow> bool" where
  "leaves k l \<longleftrightarrow> (case l of LRegister (Some h) \<Rightarrow> hk_ExecutionID h \<noteq> k | _ \<Rightarrow> True)"

lemma restarted_kept:
  "orderly M k s \<Longrightarrow> orderly M k (s\<lparr>hs_jobs := [], hs_flight := []\<rparr>)"
  "ended n k s \<Longrightarrow> ended n k (s\<lparr>hs_jobs := [], hs_flight := []\<rparr>)"
proof -
  let ?s = "s\<lparr>hs_jobs := [], hs_flight := []\<rparr>"
  have "hook_of k ?s = hook_of k s" "jobs_of k ?s = 0" "flights_of k ?s = []" "sent_of k ?s = sent_of k s" "keyed ?s = keyed s"
    by (simp_all add: hook_of_def flights_of_def sent_of_def keyed_def jobs_of_def)
  then show "orderly M k s \<Longrightarrow> orderly M k ?s" and "ended n k s \<Longrightarrow> ended n k ?s"
    by (cases "hook_of k s"; auto simp: orderly_def ended_def outstanding_def)+
qed

lemma apart_clock: "hooks_apart k s (s\<lparr>hs_now := t\<rparr>)" "hooks_apart k s (s\<lparr>hs_db := d, hs_agents := a\<rparr>)"
  by (simp_all add: hooks_apart_def hook_of_def jobs_of_def flights_of_def sent_of_def keyed_def)

lemma kept_byD: "maintains (kept_by I) p \<Longrightarrow> I s \<Longrightarrow> I (snd (run_state p s))"
  by (simp add: maintains_def kept_by_def)

lemma dispatch_kept:
  assumes "dispatch net cfg l s s'" and "leaves k l"
  shows "l \<noteq> LNotify k \<Longrightarrow> orderly (wc_MaxAttempts cfg) k s \<Longrightarrow> orderly (wc_MaxAttempts cfg) k s'"
    and "ended n k s \<Longrightarrow> ended n k s'"
proof -
  note apart_step = apart_kept [THEN kept_byD]
  have "(l \<noteq> LNotify k \<longrightarrow> orderly (wc_MaxAttempts cfg) k s \<longrightarrow> orderly (wc_MaxAttempts cfg) k s') \<and> (ended n k s \<longrightarrow> ended n k s')"
    using assms(1)
  proof cases
    case (Register h)
    have "maintains (hooks_apart k) (RegisterExecutionWebhook h)"
      using assms(2) Register(1) by (intro apart_register) (auto simp: leaves_def)
    then show ?thesis unfolding Register using apart_step by blast
  next
    case (Notify j)
    then show ?thesis using apart_step(1) [OF apart_notify [of j k cfg True]] kept_byD [OF notify_ended] by blast
  next
    case Scan
    then show ?thesis using scan_kept [THEN kept_byD] by blast
  next
    case (Take j js)
    then show ?thesis using take_kept [OF _ refl] by blast
  next
    case (Finish ds d es)
    then show ?thesis using finish_kept [OF _ refl] by blast
  next
    case Pass
    then show ?thesis using apart_invariants [OF apart_clock(1)] by blast
  next
    case Elsewhere
    then show ?thesis using apart_invariants [OF apart_clock(2)] by blast
  next
    case Restart
    then show ?thesis using scan_kept [THEN kept_byD] restarted_kept by blast
  qed
  then show "l \<noteq> LNotify k \<Longrightarrow> orderly (wc_MaxAttempts cfg) k s \<Longrightarrow> orderly (wc_MaxAttempts cfg) k s'"
    and "ended n k s \<Longrightarrow> ended n k s'" by blast+
qed

lemma dispatches_kept:
  assumes "dispatches net cfg ls s s'" and "\<forall>l \<in> set ls. leaves k l"
  shows "\<forall>l \<in> set ls. l \<noteq> LNotify k \<Longrightarrow> orderly (wc_MaxAttempts cfg) k s \<Longrightarrow> orderly (wc_MaxAttempts cfg) k s'"
    and "ended n k s \<Longrightarrow> ended n k s'"
proof -
  have "((\<forall>l \<in> set ls. l \<noteq> LNotify k) \<longrightarrow> orderly (wc_MaxAttempts cfg) k s \<longrightarrow> orderly (wc_MaxAttempts cfg) k s') \<and>
      (ended n k s \<longrightarrow> ended n k s')"
    using assms
  proof (induction rule: dispatches.induct)
    case (Step l s s1 ls s2)
    then show ?case using dispatch_kept [OF Step.hyps(1), of k] by simp
  qed simp
  then show "\<forall>l \<in> set ls. l \<noteq> LNotify k \<Longrightarrow> orderly (wc_MaxAttempts cfg) k s \<Longrightarrow> orderly (wc_MaxAttempts cfg) k s'"
    and "ended n k s \<Longrightarrow> ended n k s'" by blast+
qed

text \<open>A registration that succeeds starts the count.\<close>

lemma registered_orderly:
  assumes "keyed s" and "outstanding (hk_ExecutionID h) s = 0" and "sent_of (hk_ExecutionID h) s = 0" and "hk_Status h = whPending"
    and "run_state (RegisterExecutionWebhook (Some h)) s = (Inr (), s0)" and "0 < M"
  shows "orderly M (hk_ExecutionID h) s0"
proof -
  let ?k = "hk_ExecutionID h"
  let ?row = "registered_row (hs_now s) h"
  have "s0 = counted (s\<lparr>hs_rows := upsert_hook ?row (hs_rows s)\<rparr>) (Suc (hs_calls s))"
    using assms(5)
    by (auto simp: RegisterExecutionWebhook_def Let_def run_state_bind run_geth run_return sqlh_def counted_def
        split: if_splits option.splits prod.splits)
  then obtain row n where row: "hk_ExecutionID row = ?k" "hk_Status row = whPending" "hk_AttemptCount row = 0"
    "s0 = counted (s\<lparr>hs_rows := upsert_hook row (hs_rows s)\<rparr>) n"
    using assms(4) that [of ?row] by simp
  let ?s = "s\<lparr>hs_rows := upsert_hook row (hs_rows s)\<rparr>"
  have "keyed ?s" using assms(1) row(1)
    by (auto simp: keyed_def upsert_hook_def modify_keys lookup_None_iff split: option.splits)
  moreover obtain b where "hook_of ?k ?s = Some b" "hk_Status b = whPending" "hk_AttemptCount b = 0"
    using row(1-3) by (cases "lookup hk_ExecutionID ?k (hs_rows s)") (auto simp: hook_of_def upsert_hook_def lookup_modify)
  moreover have "jobs_of ?k ?s = jobs_of ?k s" "flights_of ?k ?s = flights_of ?k s" "sent_of ?k ?s = sent_of ?k s"
    by (simp_all add: jobs_of_def flights_of_def sent_of_def)
  ultimately show ?thesis unfolding row(4) counted_kept using assms(2,3,6)
    by (simp add: orderly_def outstanding_def)
qed


subsection \<open>Retries\<close>

text \<open>A round of the dispatcher for a single registration: the longest backoff passes, the poller scans, a worker delivers.\<close>

definition take_job :: "network \<Rightarrow> WebhookDispatcherConfig \<Rightarrow> hooks \<Rightarrow> hooks" where
  "take_job net cfg s = (case hs_jobs s of [] \<Rightarrow> s | k # ks \<Rightarrow> snd (run_state (start_delivery net cfg k) (s\<lparr>hs_jobs := ks\<rparr>)))"

definition finish_job :: "WebhookDispatcherConfig \<Rightarrow> hooks \<Rightarrow> hooks" where
  "finish_job cfg s = (case hs_flight s of [] \<Rightarrow> s | d # ds \<Rightarrow> snd (run_state (finish_delivery cfg d) (s\<lparr>hs_flight := ds\<rparr>)))"

definition delivery_round :: "network \<Rightarrow> WebhookDispatcherConfig \<Rightarrow> hooks \<Rightarrow> hooks" where
  "delivery_round net cfg s = finish_job cfg (take_job net cfg
     (snd (run_state (scanDue cfg) (s\<lparr>hs_now := hs_now s + wc_MaxRetryBackoff cfg\<rparr>))))"

text \<open>A world with one registration, no failures, a positive configuration and requests that can be built.\<close>

definition lone :: "network \<Rightarrow> WebhookDispatcherConfig \<Rightarrow> hooks \<Rightarrow> ExecutionWebhook \<Rightarrow> bool" where
  "lone net cfg s h \<longleftrightarrow> hs_rows s = [h] \<and> hs_jobs s = [] \<and> hs_flight s = [] \<and> hs_fault s = (\<lambda>_. None) \<and>
     find_execution (hs_db s) (hk_ExecutionID h) \<noteq> None \<and> (\<forall>p. nt_marshal net p \<noteq> None) \<and> nt_valid_url net (hk_URL h) \<and>
     0 < wc_Timeout cfg \<and> 0 < wc_PollBatchSize cfg"

lemma computeBackoff_cap: "computeBackoff cfg n \<le> wc_MaxRetryBackoff cfg"
  by (simp add: computeBackoff_def Let_def)

lemma lone_sql:
  assumes "hs_fault s = (\<lambda>_. None)" and "0 < T"
  shows "run_state (sqlh (Some (hs_now s + T)) tx) s = tx (counted s (Suc (hs_calls s)))"
  using assms by (simp add: sqlh_def counted_def)

lemma scan_lone:
  assumes "lone net cfg s h" and "due (hs_now s) h"
  shows "\<exists>n. snd (run_state (scanDue cfg) s) =
    counted (s\<lparr>hs_rows := [h\<lparr>hk_Status := whDelivering, hk_UpdatedAt := hs_now s\<rparr>], hs_jobs := [hk_ExecutionID h]\<rparr>) n"
  using assms unfolding lone_def
  by (intro exI [of _ "Suc (Suc (hs_calls s))"])
    (auto simp: scanDue_def Let_def run_state_bind run_geth ListDueExecutionWebhooks_def TryMarkExecutionWebhookInFlight_def
      sqlh_def counted_def take_Cons' enqueue_def run_modh run_return)

lemma take_lone:
  assumes "hs_fault s = (\<lambda>_. None)" and "hs_jobs s = [hk_ExecutionID h]" and "hs_rows s = [h]" and "hs_flight s = []"
    and "find_execution (hs_db s) (hk_ExecutionID h) = Some e" and "\<forall>p. nt_marshal net p \<noteq> None"
    and "nt_valid_url net (hk_URL h)" and "0 < wc_Timeout cfg"
  shows "\<exists>n r d. take_job net cfg s = counted (s\<lparr>hs_jobs := [], hs_sent := hs_sent s @ [r], hs_flight := [d]\<rparr>) n \<and>
    dl_Webhook d = h \<and> dl_Answer d = nt_answer net (length (hs_sent s)) \<and> dl_Deadline d = hs_now s + wc_Timeout cfg"
proof -
  let ?s = "s\<lparr>hs_jobs := []\<rparr>" and ?ctx = "Some (hs_now s + wc_Timeout cfg)"
  have run: "run_state (start_delivery net cfg (hk_ExecutionID h)) ?s =
      run_state (send_request net (hs_now s + wc_Timeout cfg) (hk_ExecutionID h) h e) (counted ?s (Suc (Suc (hs_calls s))))"
    using assms(1,3,5,8)
    by (simp add: start_delivery_def run_state_bind run_geth Let_def GetExecutionWebhook_def sqlh_def counted_def)
  obtain p n where p: "run_state (buildPayload net ?ctx e (determineWebhookEvent (ex_Status e))) (counted ?s (Suc (Suc (hs_calls s)))) =
      (p, counted ?s n)"
    using run_buildPayload [of net ?ctx e "determineWebhookEvent (ex_Status e)" "counted ?s (Suc (Suc (hs_calls s)))"] by auto
  obtain b where b: "nt_marshal net p = Some b" using assms(6) by blast
  have "take_job net cfg s = snd (run_state (start_delivery net cfg (hk_ExecutionID h)) ?s)"
    using assms(2) by (simp add: take_job_def)
  also have "\<dots> = counted (s\<lparr>hs_jobs := [], hs_sent := hs_sent s @ [\<lparr>rq_ExecutionID = hk_ExecutionID h, rq_URL = hk_URL h,
        rq_Headers = request_headers net h b, rq_Event = determineWebhookEvent (ex_Status e), rq_Body = b\<rparr>],
      hs_flight := [\<lparr>dl_Webhook = h, dl_Event = determineWebhookEvent (ex_Status e), dl_Body = b,
        dl_Answer = nt_answer net (length (hs_sent s)), dl_Deadline = hs_now s + wc_Timeout cfg\<rparr>]\<rparr>) n"
    unfolding run using assms(4,7) b by (simp add: send_request_def run_state_bind Let_def p run_modh counted_sent)
  finally show ?thesis by force
qed

lemma finish_lone:
  assumes "hs_fault s = (\<lambda>_. None)" and "hs_flight s = [d]" and "dl_Webhook d = h" and "hs_rows s = [h]"
    and "hs_now s < dl_Deadline d"
  shows "\<exists>n es. finish_job cfg s = counted (s\<lparr>hs_flight := [], hs_log := es,
    hs_rows := [hook_updated (hs_now s) (attempt_update cfg (hs_now s) d) h]\<rparr>) n"
  using assms
  by (intro exI [of _ "Suc (Suc (hs_calls s))"] exI [of _ "hs_log s @ [(attempt_event cfg (hs_now s) d)\<lparr>he_CreatedAt := hs_now s\<rparr>]"])
    (simp add: finish_job_def finish_delivery_def run_state_bind run_geth StoreExecutionWebhookEvent_def
      UpdateExecutionWebhookState_def sqlh_def counted_def run_return modify_def)

lemma delivery_round_lone:
  assumes "lone net cfg s h" and "due (hs_now s + wc_MaxRetryBackoff cfg) h"
  shows "\<exists>h'. lone net cfg (delivery_round net cfg s) h' \<and> length (hs_sent (delivery_round net cfg s)) = Suc (length (hs_sent s)) \<and>
    hs_now (delivery_round net cfg s) = hs_now s + wc_MaxRetryBackoff cfg \<and>
    hk_AttemptCount h' = hk_AttemptCount h + 1 \<and> hk_Status h' =
      (if attempt_error (nt_answer net (length (hs_sent s))) = None then whDelivered
       else if wc_MaxAttempts cfg \<le> hk_AttemptCount h + 1 then whFailed else whPending) \<and>
    (hk_Status h' = whPending \<longrightarrow> due (hs_now (delivery_round net cfg s) + wc_MaxRetryBackoff cfg) h')"
proof -
  let ?t = "hs_now s + wc_MaxRetryBackoff cfg"
  let ?s = "s\<lparr>hs_now := ?t\<rparr>" and ?h = "h\<lparr>hk_Status := whDelivering, hk_UpdatedAt := ?t\<rparr>"
  have "lone net cfg ?s h" using assms(1) by (simp add: lone_def)
  with assms(2) obtain n1 where s1: "snd (run_state (scanDue cfg) ?s) = counted (?s\<lparr>hs_rows := [?h], hs_jobs := [hk_ExecutionID h]\<rparr>) n1"
    using scan_lone by fastforce
  let ?s1 = "counted (?s\<lparr>hs_rows := [?h], hs_jobs := [hk_ExecutionID h]\<rparr>) n1"
  obtain e where "find_execution (hs_db ?s1) (hk_ExecutionID ?h) = Some e" using assms(1) by (auto simp: lone_def)
  with take_lone [of ?s1 ?h e net cfg] assms(1) obtain n2 r d where
    s2: "take_job net cfg ?s1 = counted (?s1\<lparr>hs_jobs := [], hs_sent := hs_sent s @ [r], hs_flight := [d]\<rparr>) n2"
      "dl_Webhook d = ?h" "dl_Answer d = nt_answer net (length (hs_sent s))" "dl_Deadline d = ?t + wc_Timeout cfg"
    by (auto simp: lone_def counted_def)
  let ?s2 = "counted (?s1\<lparr>hs_jobs := [], hs_sent := hs_sent s @ [r], hs_flight := [d]\<rparr>) n2"
  let ?h' = "hook_updated ?t (attempt_update cfg ?t d) ?h"
  from finish_lone [of ?s2 d ?h cfg] assms(1) s2(2,4) obtain n3 es where
    s3: "finish_job cfg ?s2 = counted (?s2\<lparr>hs_flight := [], hs_log := es, hs_rows := [?h']\<rparr>) n3"
    by (auto simp: lone_def counted_def)
  have round: "delivery_round net cfg s = counted (?s2\<lparr>hs_flight := [], hs_log := es, hs_rows := [?h']\<rparr>) n3"
    by (simp only: delivery_round_def s1 s2(1) s3)
  have "lone net cfg (delivery_round net cfg s) ?h'"
    using assms(1) by (simp add: round lone_def counted_def hook_updated_def)
  moreover have "due (?t + wc_MaxRetryBackoff cfg) ?h'" if "hk_Status ?h' = whPending"
    using that computeBackoff_cap [of cfg "hk_AttemptCount h + 1"] s2(2)
    by (auto simp: due_def hook_updated_def attempt_update_def Let_def set_or_null_def wh_words split: option.splits if_splits)
  moreover have "hk_AttemptCount ?h' = hk_AttemptCount h + 1" "hk_Status ?h' =
      (if attempt_error (nt_answer net (length (hs_sent s))) = None then whDelivered
       else if wc_MaxAttempts cfg \<le> hk_AttemptCount h + 1 then whFailed else whPending)"
    using s2(2,3) by (auto simp: attempt_update_def Let_def split: option.split)
  ultimately show ?thesis by (intro exI [of _ ?h']) (simp add: round)
qed

lemma rounds_failing:
  assumes "lone net cfg s h" and "hk_Status h = whPending" and "hk_AttemptCount h = 0"
    and "due (hs_now s + wc_MaxRetryBackoff cfg) h"
    and "\<forall>i < m. attempt_error (nt_answer net (length (hs_sent s) + i)) \<noteq> None" and "int m \<le> wc_MaxAttempts cfg" and "0 < wc_MaxAttempts cfg"
  shows "\<exists>h'. lone net cfg ((delivery_round net cfg ^^ m) s) h' \<and> hk_AttemptCount h' = int m \<and>
    length (hs_sent ((delivery_round net cfg ^^ m) s)) = length (hs_sent s) + m \<and>
    hk_Status h' = (if int m = wc_MaxAttempts cfg then whFailed else whPending) \<and>
    (int m < wc_MaxAttempts cfg \<longrightarrow> due (hs_now ((delivery_round net cfg ^^ m) s) + wc_MaxRetryBackoff cfg) h')"
  using assms(5,6)
proof (induction m)
  case 0
  then show ?case using assms by auto
next
  case (Suc m)
  let ?s = "(delivery_round net cfg ^^ m) s"
  from Suc obtain h1 where h1: "lone net cfg ?s h1" "hk_AttemptCount h1 = int m" "length (hs_sent ?s) = length (hs_sent s) + m"
    "due (hs_now ?s + wc_MaxRetryBackoff cfg) h1" by auto
  have "attempt_error (nt_answer net (length (hs_sent s) + m)) \<noteq> None" using Suc.prems(1) by blast
  with delivery_round_lone [OF h1(1,4)] h1(2,3) Suc.prems(2) show ?case by (auto simp: wh_words)
qed


text \<open>
  The delay doubles up to its cap as long as the doubled delay fits into 64 bits; beyond that it wraps around, and a
  retry can be due at once.
\<close>

lemma backoff_doubles:
  assumes "1 \<le> n" and "0 < wc_RetryBackoff cfg" and "wc_RetryBackoff cfg * 2 ^ nat (n - 1) < 2 ^ 63"
  shows "computeBackoff cfg n = min (wc_RetryBackoff cfg * 2 ^ nat (n - 1)) (wc_MaxRetryBackoff cfg)"
proof -
  have "(2::int) ^ nat (n - 1) \<le> wc_RetryBackoff cfg * 2 ^ nat (n - 1)" using assms(2) by simp
  from order.strict_trans1 [OF this assms(3)] have p: "(0::int) < 2 ^ nat (n - 1)" "(2::int) ^ nat (n - 1) < 2 ^ 63" by auto
  then have "wrap64 (2 ^ nat (n - 1)) = 2 ^ nat (n - 1)" by (intro wrap64_id order.trans [OF _ less_imp_le [OF p(1)]] p(2)) simp
  moreover have "0 < wc_RetryBackoff cfg * 2 ^ nat (n - 1)" using assms(2) p(1) by simp
  then have "wrap64 (wc_RetryBackoff cfg * 2 ^ nat (n - 1)) = wc_RetryBackoff cfg * 2 ^ nat (n - 1)"
    using assms(3) by (intro wrap64_id) auto
  ultimately show ?thesis using assms(1) by (simp add: computeBackoff_def Let_def min_def)
qed

definition demo_webhooks :: WebhookDispatcherConfig where
  "demo_webhooks = normalizeWebhookConfig \<lparr>wc_Timeout = 0, wc_MaxAttempts = 0, wc_RetryBackoff = 0, wc_MaxRetryBackoff = 0,
     wc_PollInterval = 0, wc_PollBatchSize = 0, wc_WorkerCount = 0, wc_QueueSize = 0, wc_ResponseBodyLimit = 0\<rparr>"

definition demo_network :: network where
  "demo_network = \<lparr>nt_marshal = (\<lambda>p. Some (hp_Event p)), nt_decode = (\<lambda>_. None), nt_context = (\<lambda>_. JNull),
     nt_valid_url = (\<lambda>_. True), nt_mac = (\<lambda>_ _. []),
     nt_answer = (\<lambda>n. if n = 0 then Inr (503, ''busy'') else Inr (200, ''ok''))\<rparr>"

definition demo_hooks :: "ExecutionWebhook list \<Rightarrow> db \<Rightarrow> hooks" where
  "demo_hooks rows d = \<lparr>hs_rows = rows, hs_jobs = [], hs_flight = [], hs_sent = [], hs_log = [], hs_db = d,
     hs_agents = (\<lambda>_. None), hs_now = 1, hs_calls = 0, hs_fault = (\<lambda>_. None)\<rparr>"

lemma backoff_wraps: "computeBackoff demo_webhooks 32 < 0"
  by code_simp


subsection \<open>A history, and two that go wrong\<close>

definition demo_registration :: ExecutionWebhook where
  "demo_registration = new_registration ''e'' ''http://x'' None [] 1"

definition after_register :: "db \<Rightarrow> hooks" where
  "after_register d = snd (run_state (RegisterExecutionWebhook (Some demo_registration)) (demo_hooks [] d))"

definition after_scan :: "db \<Rightarrow> hooks" where
  "after_scan d = snd (run_state (scanDue demo_webhooks) (after_register d))"

definition after_take :: "db \<Rightarrow> hooks" where
  "after_take d = take_job demo_network demo_webhooks (after_scan d)"

definition after_finish :: "db \<Rightarrow> hooks" where
  "after_finish d = finish_job demo_webhooks (after_take d)"

lemma demo_history:
  "dispatches demo_network demo_webhooks [LScan, LTake, LFinish] (after_register (one_row ''e'' stRunning 0)) (after_finish (one_row ''e'' stRunning 0))"
proof -
  let ?d = "one_row ''e'' stRunning 0"
  have jobs: "hs_jobs (after_scan ?d) = [''e'']" by code_simp
  have "length (hs_flight (after_take ?d)) = 1" by code_simp
  then obtain x where x: "hs_flight (after_take ?d) = [x]" by (auto simp: length_Suc_conv)
  have "dispatch demo_network demo_webhooks LScan (after_register ?d) (after_scan ?d)"
    unfolding after_scan_def by (rule dispatch.Scan)
  moreover have "dispatch demo_network demo_webhooks LTake (after_scan ?d) (after_take ?d)"
    using dispatch.Take [OF jobs] by (simp add: after_take_def take_job_def jobs)
  moreover have "dispatch demo_network demo_webhooks LFinish (after_take ?d) (after_finish ?d)"
    using dispatch.Finish [of "after_take ?d" "[]" x "[]"] x by (simp add: after_finish_def finish_job_def)
  ultimately show ?thesis by (blast intro: dispatches.intros)
qed

lemma register_quiet:
  assumes "TrimSpace (hk_ExecutionID h) \<noteq> []" and "TrimSpace (hk_URL h) \<noteq> []" and "hs_fault s (hs_calls s) = None"
  shows "run_state (RegisterExecutionWebhook (Some h)) s =
    (Inr (), snd (run_state (RegisterExecutionWebhook (Some h)) s))"
  using assms by (simp add: RegisterExecutionWebhook_def run_state_bind run_geth run_return sqlh_def Let_def)


text \<open>
  A registration is due from the start and a scan does not look at the status of the execution, so a scan before the
  execution has completed tells the receiver that it failed, and when that delivery is accepted the notification of
  the real outcome finds nothing to do.
\<close>

lemma running_execution_reported_failed:
  "map rq_Event (hs_sent (after_take (one_row ''e'' stRunning 0))) = [''execution.failed'']"
  by code_simp

text \<open>
  When the answer takes as long as the deadline of the job, its outcome cannot be recorded, and no scan will find
  the registration again.
\<close>

lemma timed_out_delivery_stuck:
  "hs_now s \<ge> dl_Deadline d \<Longrightarrow> hs_rows (snd (run_state (finish_delivery cfg d) s)) = hs_rows s"
  by (simp add: finish_delivery_def run_state_bind run_geth StoreExecutionWebhookEvent_def UpdateExecutionWebhookState_def
      sqlh_def run_return Let_def)

lemma delivering_not_due: "hk_Status h = whDelivering \<Longrightarrow> \<not> due now h"
  by (simp add: due_def wh_words)

end
