(* ===== verification/Outbound.thy ===== *)
theory Outbound
  imports Prelude "HOL-Library.Word"
begin

text \<open>
  Where the control plane may send webhooks (\<open>internal/services/ssrf_safe_client.go\<close>): the filter on addresses, the
  dialer that enforces it on every connection, and the check of a webhook URL when it is registered
  (\<open>normalizeWebhookRequest\<close>). Addresses are words of 32 and 128 bits. The parsers of Go's \<open>net\<close> and \<open>net/url\<close>
  packages and the answers of the resolver are parameters.
\<close>

unbundle bit_operations_syntax

subsection \<open>Addresses and networks\<close>

datatype ip = V4 "32 word" | V6 "128 word"

datatype network_range = N4 "32 word" nat | N6 "128 word" nat

text \<open>\<open>To4\<close>: an address whose first 80 bits are zero and whose next 16 are set is the IPv4 address in the rest.\<close>

definition To4 :: "ip \<Rightarrow> 32 word option" where
  "To4 a = (case a of V4 w \<Rightarrow> Some w | V6 w \<Rightarrow> if drop_bit 32 w = 0xffff then Some (ucast w) else None)"

definition normalize_ip :: "ip \<Rightarrow> ip" where
  "normalize_ip a = (case To4 a of Some w \<Rightarrow> V4 w | None \<Rightarrow> a)"

definition network_bits :: "nat \<Rightarrow> nat \<Rightarrow> ('a :: len) word" where
  "network_bits len n = NOT (mask (len - n))"

text \<open>\<open>IPNet.Contains\<close> on a network of the list, whose address is never an embedded IPv4 one.\<close>

definition range_contains :: "network_range \<Rightarrow> ip \<Rightarrow> bool" where
  "range_contains r a =
     (case (r, normalize_ip a) of
        (N4 net n, V4 w) \<Rightarrow> w AND network_bits 32 n = net AND network_bits 32 n
      | (N6 net n, V6 w) \<Rightarrow> w AND network_bits 128 n = net AND network_bits 128 n
      | _ \<Rightarrow> False)"

definition ipv4 :: "nat \<Rightarrow> nat \<Rightarrow> nat \<Rightarrow> nat \<Rightarrow> 32 word" where
  "ipv4 a b c d = of_nat (((a * 256 + b) * 256 + c) * 256 + d)"

definition privateRanges :: "network_range list" where
  "privateRanges = [
     N4 (ipv4 0 0 0 0) 8, N4 (ipv4 127 0 0 0) 8, N4 (ipv4 10 0 0 0) 8, N4 (ipv4 172 16 0 0) 12,
     N4 (ipv4 192 168 0 0) 16, N4 (ipv4 169 254 0 0) 16, N4 (ipv4 100 64 0 0) 10, N4 (ipv4 198 18 0 0) 15,
     N4 (ipv4 192 0 0 0) 29, N4 (ipv4 240 0 0 0) 4,
     N6 1 128, N6 0xfe800000000000000000000000000000 10, N6 0xfc000000000000000000000000000000 7,
     N6 0xfec00000000000000000000000000000 10, N6 0x0064ff9b000000000000000000000000 96,
     N6 0x0064ff9b000100000000000000000000 48, N6 0x20020000000000000000000000000000 16,
     N6 0x20010000000000000000000000000000 32, N6 0x20010002000000000000000000000000 48, N6 0 96,
     N6 0x0000000000000000ffff000000000000 96]"

text \<open>\<open>IsGlobalUnicast\<close>: not the limited broadcast, unspecified, loopback, multicast or link-local unicast.\<close>

definition IsGlobalUnicast :: "ip \<Rightarrow> bool" where
  "IsGlobalUnicast a =
     (case normalize_ip a of
        V4 w \<Rightarrow> w \<noteq> 0xffffffff \<and> w \<noteq> 0 \<and> drop_bit 24 w \<noteq> 127 \<and> drop_bit 28 w \<noteq> 14 \<and> drop_bit 16 w \<noteq> 0xa9fe
      | V6 w \<Rightarrow> w \<noteq> 0 \<and> w \<noteq> 1 \<and> drop_bit 120 w \<noteq> 0xff \<and> drop_bit 118 w \<noteq> 0x3fa)"

definition isPrivateIP :: "ip option \<Rightarrow> bool" where
  "isPrivateIP a =
     (case a of
        None \<Rightarrow> True
      | Some a \<Rightarrow> \<not> IsGlobalUnicast (normalize_ip a) \<or> (\<exists>r \<in> set privateRanges. range_contains r (normalize_ip a)))"

definition isPrivateHost :: "string \<Rightarrow> bool" where
  "isPrivateHost host =
     (let lower = ToLower (TrimSpace host) in lower = ''localhost'' \<or> HasSuffix lower ''.localhost'')"

subsection \<open>The allowlist\<close>

definition SetWebhookAllowedHosts :: "string list \<Rightarrow> string list" where
  "SetWebhookAllowedHosts hosts = filter (\<lambda>h. h \<noteq> []) (map TrimSpace hosts)"

text \<open>\<open>cidr\<close> is \<open>net.ParseCIDR\<close> with \<open>Contains\<close>: the set of addresses of an entry that is a network.\<close>

definition entry_allows :: "(string \<Rightarrow> (ip \<Rightarrow> bool) option) \<Rightarrow> string \<Rightarrow> ip option \<Rightarrow> string \<Rightarrow> bool" where
  "entry_allows cidr host a entry =
     (let candidate = ToLower entry; hostLower = ToLower host
      in if candidate = [] then False
         else case cidr candidate of
           Some within \<Rightarrow> (case a of None \<Rightarrow> False | Some a \<Rightarrow> within a)
         | None \<Rightarrow>
             if HasPrefix candidate ''*.''
             then (let suffix = drop 1 candidate in HasSuffix hostLower suffix \<and> hostLower \<noteq> TrimPrefix suffix ''.'')
             else hostLower = candidate)"

definition isHostAllowlisted :: "(string \<Rightarrow> (ip \<Rightarrow> bool) option) \<Rightarrow> string \<Rightarrow> ip option \<Rightarrow> string list \<Rightarrow> bool" where
  "isHostAllowlisted cidr host a allowed \<longleftrightarrow> (\<exists>entry \<in> set allowed. entry_allows cidr host a entry)"

subsection \<open>The dialer\<close>

record resolver =
  rs_split :: "string \<Rightarrow> string + (string \<times> string)"
  rs_lookup :: "string \<Rightarrow> string + string list"
  rs_parse :: "string \<Rightarrow> ip option"
  rs_cidr :: "string \<Rightarrow> (ip \<Rightarrow> bool) option"

text \<open>The first address of an answer that is neither allowed nor public.\<close>

definition forbidden :: "resolver \<Rightarrow> string list \<Rightarrow> string \<Rightarrow> string \<Rightarrow> bool" where
  "forbidden rs allowed host s \<longleftrightarrow>
     \<not> isHostAllowlisted (rs_cidr rs) host (rs_parse rs s) allowed \<and> isPrivateIP (rs_parse rs s)"

definition DialContext :: "resolver \<Rightarrow> string list \<Rightarrow> string \<Rightarrow> string + (string \<times> string)" where
  "DialContext rs allowed addr =
     (case rs_split rs addr of
        Inl e \<Rightarrow> Inl (''ssrf: invalid address '' @ go_quote addr @ '': '' @ e)
      | Inr (host, port) \<Rightarrow>
          case rs_lookup rs host of
            Inl e \<Rightarrow> Inl (''ssrf: DNS lookup failed for '' @ go_quote host @ '': '' @ e)
          | Inr [] \<Rightarrow> Inl (''ssrf: no addresses found for '' @ go_quote host)
          | Inr (first # rest) \<Rightarrow>
              (case find (forbidden rs allowed host) (first # rest) of
                 Some s \<Rightarrow> Inl (''ssrf: webhook target resolves to private/internal address '' @ s)
               | None \<Rightarrow> Inr (first, port)))"

subsection \<open>Registration\<close>

record parsed_url =
  pu_Scheme :: string
  pu_Host :: string
  pu_Hostname :: string
  pu_User :: bool
  pu_String :: string

definition ValidateWebhookURL :: "resolver \<Rightarrow> (string \<Rightarrow> string + parsed_url) \<Rightarrow> string list \<Rightarrow> string \<Rightarrow> string option" where
  "ValidateWebhookURL rs parse allowed rawURL =
     (case parse rawURL of
        Inl e \<Rightarrow> Some (''ssrf: invalid URL: '' @ e)
      | Inr u \<Rightarrow>
          (let host = pu_Hostname u
           in if host = [] then Some ''ssrf: URL has no host''
              else case rs_parse rs host of
                Some a \<Rightarrow>
                  if isHostAllowlisted (rs_cidr rs) host (Some a) allowed then None
                  else if isPrivateIP (Some a) then Some (''webhook url must not target private/internal address '' @ host)
                  else None
              | None \<Rightarrow>
                  if isHostAllowlisted (rs_cidr rs) host None allowed then None
                  else if isPrivateHost host
                  then Some (''webhook url must not target private/internal host '' @ go_quote host)
                  else case rs_lookup rs host of
                    Inl _ \<Rightarrow> None
                  | Inr ips \<Rightarrow> map_option (\<lambda>s. ''webhook url host '' @ go_quote host @
                      '' resolves to private/internal address '' @ s) (find (forbidden rs allowed host) ips)))"

definition maxWebhookHeaders :: nat where "maxWebhookHeaders = 20"
definition maxWebhookHeaderLength :: nat where "maxWebhookHeaderLength = 512"
definition maxWebhookSecretLength :: nat where "maxWebhookSecretLength = 4096"

record WebhookRequest =
  wr_URL :: string
  wr_Secret :: string
  wr_Headers :: "(string \<times> string) list"

record normalizedWebhookConfig =
  nw_URL :: string
  nw_Secret :: "string option"
  nw_Headers :: "(string \<times> string) list"

text \<open>The headers of a request, in the order in which the map is ranged over.\<close>

fun normalize_headers :: "(string \<times> string) list \<Rightarrow> (string \<times> string) list \<Rightarrow> string + (string \<times> string) list" where
  "normalize_headers acc [] = Inr acc"
| "normalize_headers acc ((key, value) # rest) =
     (let k = TrimSpace key; v = TrimSpace value
      in if k = [] then normalize_headers acc rest
         else if maxWebhookHeaders \<le> length acc
         then Inl (''webhook.headers supports at most '' @ show_nat maxWebhookHeaders @ '' entries'')
         else if maxWebhookHeaderLength < length k then Inl (''webhook header name '' @ quoted k @ '' is too long'')
         else if maxWebhookHeaderLength < length v then Inl (''webhook header '' @ quoted k @ '' value is too long'')
         else normalize_headers (filter (\<lambda>(x, _). x \<noteq> k) acc @ [(k, v)]) rest)"

definition normalizeWebhookRequest ::
    "resolver \<Rightarrow> (string \<Rightarrow> string + parsed_url) \<Rightarrow> string list \<Rightarrow> WebhookRequest option \<Rightarrow> string + normalizedWebhookConfig option" where
  "normalizeWebhookRequest rs parse allowed req =
     (case req of
        None \<Rightarrow> Inr None
      | Some r \<Rightarrow>
          (let url = TrimSpace (wr_URL r)
           in if url = [] then Inl ''webhook.url is required''
              else case parse url of
                Inl e \<Rightarrow> Inl (''invalid webhook url: '' @ e)
              | Inr u \<Rightarrow>
                  if pu_Scheme u = [] \<or> pu_Host u = [] then Inl ''webhook url must include scheme and host''
                  else if ToLower (pu_Scheme u) \<notin> {''https'', ''http''} then Inl ''webhook url must use http or https''
                  else if pu_User u then Inl ''webhook url must not contain embedded credentials''
                  else case ValidateWebhookURL rs parse allowed url of
                    Some e \<Rightarrow> Inl (''webhook url rejected: '' @ e)
                  | None \<Rightarrow>
                      (case normalize_headers [] (wr_Headers r) of
                         Inl e \<Rightarrow> Inl e
                       | Inr hs \<Rightarrow>
                           (let s = TrimSpace (wr_Secret r)
                            in if maxWebhookSecretLength < length s
                               then Inl (''webhook secret exceeds '' @ show_nat maxWebhookSecretLength @ '' characters'')
                               else Inr (Some \<lparr>nw_URL = pu_String u, nw_Secret = (if s = [] then None else Some s),
                                 nw_Headers = hs\<rparr>)))))"

subsection \<open>The filter in numbers\<close>

text \<open>
  The reference: the blocks of addresses, as intervals of numbers, that must not be reached. An
  IPv6 address that embeds an IPv4 one is judged by the latter.
\<close>

definition reserved_v4 :: "(nat \<times> nat) list" where
  "reserved_v4 = [(0, 2 ^ 24), (10 * 2 ^ 24, 11 * 2 ^ 24), (100 * 2 ^ 24 + 64 * 2 ^ 16, 100 * 2 ^ 24 + 128 * 2 ^ 16),
     (127 * 2 ^ 24, 128 * 2 ^ 24), (169 * 2 ^ 24 + 254 * 2 ^ 16, 169 * 2 ^ 24 + 255 * 2 ^ 16),
     (172 * 2 ^ 24 + 16 * 2 ^ 16, 172 * 2 ^ 24 + 32 * 2 ^ 16), (192 * 2 ^ 24, 192 * 2 ^ 24 + 8),
     (192 * 2 ^ 24 + 168 * 2 ^ 16, 192 * 2 ^ 24 + 169 * 2 ^ 16), (198 * 2 ^ 24 + 18 * 2 ^ 16, 198 * 2 ^ 24 + 20 * 2 ^ 16),
     (224 * 2 ^ 24, 2 ^ 32)]"

definition reserved_v6 :: "(nat \<times> nat) list" where
  "reserved_v6 = [(0, 2 ^ 32), (0xffff * 2 ^ 48, 0xffff * 2 ^ 48 + 2 ^ 32), (0x64ff9b * 2 ^ 96, 0x64ff9b * 2 ^ 96 + 2 ^ 32),
     (0x64ff9b0001 * 2 ^ 80, 0x64ff9b0002 * 2 ^ 80), (0x20010000 * 2 ^ 96, 0x20010001 * 2 ^ 96),
     (0x200100020000 * 2 ^ 80, 0x200100020001 * 2 ^ 80), (0x2002 * 2 ^ 112, 0x2003 * 2 ^ 112), (0xfc * 2 ^ 120, 0xfe * 2 ^ 120),
     (0xfe80 * 2 ^ 112, 2 ^ 128)]"

definition in_block :: "nat \<Rightarrow> nat \<times> nat \<Rightarrow> bool" where
  "in_block n b \<longleftrightarrow> fst b \<le> n \<and> n < snd b"

definition public_v4 :: "nat \<Rightarrow> bool" where
  "public_v4 n \<longleftrightarrow> \<not> (\<exists>b \<in> set reserved_v4. in_block n b)"

definition public_v6 :: "nat \<Rightarrow> bool" where
  "public_v6 n \<longleftrightarrow> \<not> (\<exists>b \<in> set reserved_v6. in_block n b)"

definition public_address :: "ip \<Rightarrow> bool" where
  "public_address a =
     (case a of
        V4 w \<Rightarrow> public_v4 (unat w)
      | V6 w \<Rightarrow> if in_block (unat w) (0xffff * 2 ^ 32, 2 ^ 48) then public_v4 (unat w - 0xffff * 2 ^ 32) else public_v6 (unat w))"

lemma push_drop: "push_bit k (drop_bit k w) = w AND NOT (mask k :: 'a :: len word)"
  by (rule bit_eqI) (auto simp: bit_simps)

lemma masked_eq_iff: "w AND NOT (mask k) = a AND NOT (mask k) \<longleftrightarrow> drop_bit k w = drop_bit k (a :: 'a :: len word)"
proof
  assume h: "w AND NOT (mask k) = a AND NOT (mask k)"
  have "drop_bit k w = drop_bit k (w AND NOT (mask k))" for w :: "'a word"
    by (rule bit_eqI) (auto simp: bit_simps dest: bit_imp_le_length)
  with h show "drop_bit k w = drop_bit k a" by metis
next
  assume "drop_bit k w = drop_bit k a"
  then show "w AND NOT (mask k) = a AND NOT (mask k)" unfolding push_drop [symmetric] by simp
qed

lemma drop_bit_unat: "drop_bit k w = (a :: 'a :: len word) \<longleftrightarrow> unat w div 2 ^ k = unat a"
  by (metis unat_drop_bit_eq drop_bit_eq_div unsigned_word_eqI)

lemma div_block: "0 < d \<Longrightarrow> (n::nat) div d = q \<longleftrightarrow> in_block n (q * d, (q + 1) * d)"
  using div_nat_eqI [of d q n] dividend_less_div_times [of d n]
  by (auto simp: in_block_def mult.commute)

lemma in_range:
  "w AND network_bits len n = net AND network_bits len n \<longleftrightarrow>
     in_block (unat w) (unat (net :: 'a :: len word) div 2 ^ (len - n) * 2 ^ (len - n), (unat net div 2 ^ (len - n) + 1) * 2 ^ (len - n))"
proof -
  have "w AND network_bits len n = net AND network_bits len n \<longleftrightarrow> unat w div 2 ^ (len - n) = unat (drop_bit (len - n) net)"
    unfolding network_bits_def masked_eq_iff drop_bit_unat ..
  also have "\<dots> \<longleftrightarrow> unat w div 2 ^ (len - n) = unat net div 2 ^ (len - n)"
    unfolding unat_drop_bit_eq by (simp add: drop_bit_eq_div)
  finally show ?thesis by (simp add: div_block)
qed

text \<open>Two lists of blocks hold the same numbers when every block of either lies within one of the other.\<close>

definition covers :: "(nat \<times> nat) list \<Rightarrow> (nat \<times> nat) list \<Rightarrow> bool" where
  "covers bs cs = list_all (\<lambda>c. list_ex (\<lambda>b. fst b \<le> fst c \<and> snd c \<le> snd b) bs) cs"

lemma covers_in_block: "covers bs cs \<Longrightarrow> \<exists>c \<in> set cs. in_block n c \<Longrightarrow> \<exists>b \<in> set bs. in_block n b"
  unfolding covers_def in_block_def list_all_iff list_ex_iff by (meson le_less_trans less_le_trans le_trans)

lemma in_block_join: "a \<le> b \<Longrightarrow> b \<le> c \<Longrightarrow> in_block n (a, c) \<longleftrightarrow> in_block n (a, b) \<or> in_block n (b, c)"
  unfolding in_block_def by auto

lemma in_block_single: "in_block n (k, Suc k) \<longleftrightarrow> n = k"
  unfolding in_block_def by auto

definition range_blocks_v4 :: "(nat \<times> nat) list" where
  "range_blocks_v4 = [(0, 2 ^ 24), (127 * 2 ^ 24, 128 * 2 ^ 24), (10 * 2 ^ 24, 11 * 2 ^ 24),
     (172 * 2 ^ 24 + 16 * 2 ^ 16, 172 * 2 ^ 24 + 32 * 2 ^ 16), (192 * 2 ^ 24 + 168 * 2 ^ 16, 192 * 2 ^ 24 + 169 * 2 ^ 16),
     (169 * 2 ^ 24 + 254 * 2 ^ 16, 169 * 2 ^ 24 + 255 * 2 ^ 16), (100 * 2 ^ 24 + 64 * 2 ^ 16, 100 * 2 ^ 24 + 128 * 2 ^ 16),
     (198 * 2 ^ 24 + 18 * 2 ^ 16, 198 * 2 ^ 24 + 20 * 2 ^ 16), (192 * 2 ^ 24, 192 * 2 ^ 24 + 8), (240 * 2 ^ 24, 2 ^ 32)]"

definition range_blocks_v6 :: "(nat \<times> nat) list" where
  "range_blocks_v6 = [(1, 2), (0xfe80 * 2 ^ 112, 0xfec0 * 2 ^ 112), (0xfc * 2 ^ 120, 0xfe * 2 ^ 120),
     (0xfec0 * 2 ^ 112, 0xff00 * 2 ^ 112), (0x64ff9b * 2 ^ 96, 0x64ff9b * 2 ^ 96 + 2 ^ 32),
     (0x64ff9b0001 * 2 ^ 80, 0x64ff9b0002 * 2 ^ 80), (0x2002 * 2 ^ 112, 0x2003 * 2 ^ 112), (0x20010000 * 2 ^ 96, 0x20010001 * 2 ^ 96),
     (0x200100020000 * 2 ^ 80, 0x200100020001 * 2 ^ 80), (0, 2 ^ 32), (0xffff * 2 ^ 48, 0xffff * 2 ^ 48 + 2 ^ 32)]"

lemma ranges_v4:
  "(\<exists>r \<in> set privateRanges. range_contains r (V4 w)) \<longleftrightarrow> (\<exists>b \<in> set range_blocks_v4. in_block (unat w) b)"
proof -
  have n: "normalize_ip (V4 w) = V4 w" by (simp add: normalize_ip_def To4_def)
  have z: "w AND network_bits 32 8 = 0 \<longleftrightarrow> in_block (unat w) (0, 2 ^ 24)"
    using in_range [of w 32 8 0] by simp
  show ?thesis by (simp add: n range_contains_def privateRanges_def range_blocks_v4_def in_range z ipv4_def)
qed

lemma ranges_v6:
  assumes "normalize_ip (V6 w) = V6 w"
  shows "(\<exists>r \<in> set privateRanges. range_contains r (V6 w)) \<longleftrightarrow> (\<exists>b \<in> set range_blocks_v6. in_block (unat w) b)"
proof -
  have z: "w AND network_bits 128 96 = 0 \<longleftrightarrow> in_block (unat w) (0, 2 ^ 32)"
    using in_range [of w 128 96 0] by simp
  have o: "in_block (unat w) (Suc 0, 2) = in_block (unat w) (Suc 0, Suc (Suc 0))" by (simp add: numeral_2_eq_2)
  show ?thesis by (simp add: assms range_contains_def privateRanges_def range_blocks_v6_def in_range z o)
qed

lemma unicast_v4: "IsGlobalUnicast (V4 w) \<longleftrightarrow> \<not> (\<exists>b \<in> set [(0xffffffff, 2 ^ 32), (0, 1), (127 * 2 ^ 24, 128 * 2 ^ 24),
  (14 * 2 ^ 28, 15 * 2 ^ 28), (0xa9fe * 2 ^ 16, 0xa9ff * 2 ^ 16)]. in_block (unat w) b)"
proof -
  have "w = 0xffffffff \<longleftrightarrow> unat w = 0xffffffff" "w = 0 \<longleftrightarrow> unat w = 0"
    using drop_bit_unat [of 0 w "0xffffffff"] by (simp_all add: unat_eq_zero)
  moreover have "drop_bit 24 w = 127 \<longleftrightarrow> in_block (unat w) (127 * 2 ^ 24, 128 * 2 ^ 24)"
    "drop_bit 28 w = 14 \<longleftrightarrow> in_block (unat w) (14 * 2 ^ 28, 15 * 2 ^ 28)"
    "drop_bit 16 w = 0xa9fe \<longleftrightarrow> in_block (unat w) (0xa9fe * 2 ^ 16, 0xa9ff * 2 ^ 16)"
    unfolding drop_bit_unat by (simp_all add: div_block)
  ultimately show ?thesis
    using in_block_single [of "unat w" "0xffffffff"] in_block_single [of "unat w" 0]
    by (simp add: IsGlobalUnicast_def normalize_ip_def To4_def)
qed

lemma unicast_v6:
  assumes "normalize_ip (V6 w) = V6 w"
  shows "IsGlobalUnicast (V6 w) \<longleftrightarrow> \<not> (\<exists>b \<in> set [(0, 1), (1, 2), (0xff * 2 ^ 120, 2 ^ 128),
    (0xfe80 * 2 ^ 112, 0xfec0 * 2 ^ 112)]. in_block (unat w) b)"
proof -
  have "w = 0 \<longleftrightarrow> unat w = 0" "w = 1 \<longleftrightarrow> unat w = 1"
    using drop_bit_unat [of 0 w 1] by (simp_all add: unat_eq_zero)
  moreover have "drop_bit 120 w = 0xff \<longleftrightarrow> in_block (unat w) (0xff * 2 ^ 120, 2 ^ 128)"
    "drop_bit 118 w = 0x3fa \<longleftrightarrow> in_block (unat w) (0xfe80 * 2 ^ 112, 0xfec0 * 2 ^ 112)"
    unfolding drop_bit_unat by (simp_all add: div_block)
  ultimately show ?thesis
    using in_block_single [of "unat w" 0] in_block_single [of "unat w" 1]
    by (simp add: IsGlobalUnicast_def assms numeral_2_eq_2)
qed

lemma blocks_v4:
  "(\<exists>b \<in> set (range_blocks_v4 @ [(0xffffffff, 2 ^ 32), (0, 1), (127 * 2 ^ 24, 128 * 2 ^ 24), (14 * 2 ^ 28, 15 * 2 ^ 28),
     (0xa9fe * 2 ^ 16, 0xa9ff * 2 ^ 16)]). in_block n b) \<longleftrightarrow> (\<exists>b \<in> set reserved_v4. in_block n b)" (is "(\<exists>b \<in> set ?l. _) \<longleftrightarrow> _")
proof -
  have j: "in_block n (224 * 2 ^ 24, 2 ^ 32) \<longleftrightarrow> in_block n (14 * 2 ^ 28, 15 * 2 ^ 28) \<or> in_block n (240 * 2 ^ 24, 2 ^ 32)"
    using in_block_join [of "14 * 2 ^ 28" "15 * 2 ^ 28" "2 ^ 32" n] by simp
  have r: "covers reserved_v4 ?l" "covers ?l (butlast reserved_v4)"
    by (simp_all add: covers_def reserved_v4_def range_blocks_v4_def)
  have l: "reserved_v4 = butlast reserved_v4 @ [(224 * 2 ^ 24, 2 ^ 32)]" by (simp add: reserved_v4_def)
  have "\<exists>b \<in> set ?l. in_block n b" if "in_block n (224 * 2 ^ 24, 2 ^ 32)"
    using that unfolding j range_blocks_v4_def by auto
  moreover have "(\<exists>b \<in> set reserved_v4. in_block n b) \<longleftrightarrow>
    (\<exists>b \<in> set (butlast reserved_v4). in_block n b) \<or> in_block n (224 * 2 ^ 24, 2 ^ 32)"
    by (subst l) (simp only: set_append bex_Un list.set bex_simps simp_thms)
  ultimately show ?thesis using covers_in_block [OF r(1), of n] covers_in_block [OF r(2), of n] by blast
qed

lemma blocks_v6:
  "(\<exists>b \<in> set (range_blocks_v6 @ [(0, 1), (1, 2), (0xff * 2 ^ 120, 2 ^ 128), (0xfe80 * 2 ^ 112, 0xfec0 * 2 ^ 112)]). in_block n b) \<longleftrightarrow>
   (\<exists>b \<in> set reserved_v6. in_block n b)" (is "(\<exists>b \<in> set ?l. _) \<longleftrightarrow> _")
proof -
  have j: "in_block n (0xfe80 * 2 ^ 112, 2 ^ 128) \<longleftrightarrow> in_block n (0xfe80 * 2 ^ 112, 0xfec0 * 2 ^ 112) \<or>
      in_block n (0xfec0 * 2 ^ 112, 0xff00 * 2 ^ 112) \<or> in_block n (0xff * 2 ^ 120, 2 ^ 128)"
    using in_block_join [of "0xfe80 * 2 ^ 112" "0xfec0 * 2 ^ 112" "2 ^ 128" n]
      in_block_join [of "0xfec0 * 2 ^ 112" "0xff00 * 2 ^ 112" "2 ^ 128" n] by simp
  have r: "covers reserved_v6 ?l" "covers ?l (butlast reserved_v6)"
    by (simp_all add: covers_def reserved_v6_def range_blocks_v6_def)
  have l: "reserved_v6 = butlast reserved_v6 @ [(0xfe80 * 2 ^ 112, 2 ^ 128)]" by (simp add: reserved_v6_def)
  have "\<exists>b \<in> set ?l. in_block n b" if "in_block n (0xfe80 * 2 ^ 112, 2 ^ 128)"
    using that unfolding j range_blocks_v6_def by auto
  moreover have "(\<exists>b \<in> set reserved_v6. in_block n b) \<longleftrightarrow>
    (\<exists>b \<in> set (butlast reserved_v6). in_block n b) \<or> in_block n (0xfe80 * 2 ^ 112, 2 ^ 128)"
    by (subst l) (simp only: set_append bex_Un list.set bex_simps simp_thms)
  ultimately show ?thesis using covers_in_block [OF r(1), of n] covers_in_block [OF r(2), of n] by blast
qed

lemma private_v4: "isPrivateIP (Some (V4 w)) \<longleftrightarrow> (\<exists>b \<in> set reserved_v4. in_block (unat w) b)"
proof -
  have n: "normalize_ip (V4 w) = V4 w" by (simp add: normalize_ip_def To4_def)
  show ?thesis unfolding blocks_v4 [symmetric] set_append bex_Un
    unfolding isPrivateIP_def option.case n ranges_v4 unicast_v4 by blast
qed

lemma private_v6:
  assumes "normalize_ip (V6 w) = V6 w"
  shows "isPrivateIP (Some (V6 w)) \<longleftrightarrow> (\<exists>b \<in> set reserved_v6. in_block (unat w) b)"
  unfolding blocks_v6 [symmetric] set_append bex_Un
  unfolding isPrivateIP_def option.case assms ranges_v6 [OF assms] unicast_v6 [OF assms] by blast

lemma normalize_ip_idem [simp]: "normalize_ip (normalize_ip a) = normalize_ip a"
  by (auto simp: normalize_ip_def To4_def split: option.splits ip.splits if_splits)

text \<open>The filter is the reference, whichever way the address is written.\<close>

lemma To4_mapped:
  "To4 (V6 w) = (if in_block (unat w) (0xffff * 2 ^ 32, 2 ^ 48) then Some (ucast w) else None)"
  "in_block (unat w) (0xffff * 2 ^ 32, 2 ^ 48) \<Longrightarrow> unat (ucast w :: 32 word) = unat w - 0xffff * 2 ^ 32"
proof -
  have "drop_bit 32 w = 0xffff \<longleftrightarrow> in_block (unat w) (0xffff * 2 ^ 32, 2 ^ 48)"
    unfolding drop_bit_unat by (simp add: div_block)
  then show "To4 (V6 w) = (if in_block (unat w) (0xffff * 2 ^ 32, 2 ^ 48) then Some (ucast w) else None)" by (simp add: To4_def)
next
  assume "in_block (unat w) (0xffff * 2 ^ 32, 2 ^ 48)"
  then have "unat w div 2 ^ 32 = 0xffff" using div_block [of "2 ^ 32" "unat w" "0xffff"] by simp
  moreover have "unat (ucast w :: 32 word) = unat w mod 2 ^ 32" by (simp add: unsigned_ucast_eq unsigned_take_bit_eq take_bit_eq_mod)
  ultimately show "unat (ucast w :: 32 word) = unat w - 0xffff * 2 ^ 32"
    using minus_div_mult_eq_mod [of "unat w" "2 ^ 32"] by simp
qed

lemma isPrivateIP_exact: "isPrivateIP (Some a) \<longleftrightarrow> \<not> public_address a"
proof (cases a)
  case (V4 w)
  then show ?thesis by (simp add: private_v4 public_address_def public_v4_def)
next
  case (V6 w)
  have same: "isPrivateIP (Some a) = isPrivateIP (Some (normalize_ip a))" by (simp add: isPrivateIP_def)
  show ?thesis
  proof (cases "in_block (unat w) (0xffff * 2 ^ 32, 2 ^ 48)")
    case True
    then show ?thesis unfolding same
      by (simp add: V6 normalize_ip_def To4_mapped private_v4 public_address_def public_v4_def)
  next
    case False
    then have "normalize_ip (V6 w) = V6 w" unfolding normalize_ip_def To4_mapped by simp
    with False show ?thesis by (simp add: V6 private_v6 public_address_def public_v6_def)
  qed
qed

text \<open>
  C33. Webhooks cannot reach the inside. A connection of the webhook client is made to the first address of the answer
  of the resolver, and only if every address of that answer is allowed by the operator's list or is a public address:
  an IPv4 address outside the private, loopback, link-local, shared, benchmarking, multicast and reserved blocks, also
  when it is written as an IPv6 address, or an IPv6 address outside the local, multicast and IPv4-embedding blocks.
\<close>

theorem dial_public_only:
  assumes "DialContext rs allowed addr = Inr (s, port)"
  shows "\<exists>host ips. rs_split rs addr = Inr (host, port) \<and> rs_lookup rs host = Inr ips \<and> ips \<noteq> [] \<and> s = hd ips \<and>
    (\<forall>t \<in> set ips. isHostAllowlisted (rs_cidr rs) host (rs_parse rs t) allowed \<or>
       (\<exists>a. rs_parse rs t = Some a \<and> public_address a))"
proof -
  obtain host port' where split: "rs_split rs addr = Inr (host, port')"
    using assms by (auto simp: DialContext_def split: sum.splits)
  moreover obtain first rest where look: "rs_lookup rs host = Inr (first # rest)"
    using assms split by (auto simp: DialContext_def split: sum.splits list.splits)
  ultimately have none: "find (forbidden rs allowed host) (first # rest) = None" and eq: "s = first" "port = port'"
    using assms by (auto simp: DialContext_def split: option.splits if_splits)
  have "isHostAllowlisted (rs_cidr rs) host (rs_parse rs t) allowed \<or> (\<exists>a. rs_parse rs t = Some a \<and> public_address a)"
    if "t \<in> set (first # rest)" for t
    using none that isPrivateIP_exact
    by (cases "rs_parse rs t") (auto simp: find_None_iff forbidden_def isPrivateIP_def [of None] split: if_splits)
  then show ?thesis using split look eq by (intro exI [of _ host] exI [of _ "first # rest"]) auto
qed

definition demo_resolver :: resolver where
  "demo_resolver = \<lparr>rs_split = (\<lambda>_. Inr (''example.com'', ''443'')), rs_lookup = (\<lambda>_. Inr [''93.184.216.34'', ''::ffff:8.8.8.8'']),
     rs_parse = (\<lambda>s. if s = ''93.184.216.34'' then Some (V4 (ipv4 93 184 216 34)) else Some (V6 0xffff08080808)),
     rs_cidr = (\<lambda>_. None)\<rparr>"

lemma demo_dial: "DialContext demo_resolver [] ''example.com:443'' = Inr (''93.184.216.34'', ''443'')"
proof -
  have "public_address (V4 (ipv4 93 184 216 34))" "public_address (V6 0xffff08080808)"
    by (simp_all add: public_address_def public_v4_def ipv4_def in_block_def reserved_v4_def)
  then show ?thesis by (simp add: DialContext_def demo_resolver_def forbidden_def isHostAllowlisted_def isPrivateIP_exact)
qed

theorem dial_public_only_witness:
  "\<exists>host ips. rs_lookup demo_resolver host = Inr ips \<and> ''93.184.216.34'' = hd ips \<and>
    (\<forall>t \<in> set ips. isHostAllowlisted (rs_cidr demo_resolver) host (rs_parse demo_resolver t) [] \<or>
       (\<exists>a. rs_parse demo_resolver t = Some a \<and> public_address a))"
  using dial_public_only [OF demo_dial] by blast

end
