(* ===== verification/Routing.thy ===== *)
theory Routing
  imports Exec_Status Exec_Query Node_Store "HOL-Library.Word"
begin

text \<open>
  Where an execution goes (\<open>internal/handlers/execute_helpers.go\<close>, \<open>execute_agent_restart.go\<close>, \<open>execute_prepare.go\<close>):
  the version of a node that is selected, whether a node that is down or restarting is worth a call, what kind of
  function the target names, and whether the answer of an earlier run can be replayed instead of a call.
\<close>

subsection \<open>The node of a call\<close>

text \<open>The columns of a node that only a dispatch reads.\<close>

record callee = AgentNode +
  ce_Reasoners :: "string list"
  ce_Skills :: "string list"
  ce_InvocationURL :: "string option"
  ce_Serverless :: bool

definition determineTargetType :: "callee \<Rightarrow> string \<Rightarrow> string + string" where
  "determineTargetType agent name =
     (if name \<in> set (ce_Reasoners agent) then Inr ''reasoner''
      else if name \<in> set (ce_Skills agent) then Inr ''skill''
      else Inl (''target '' @ quoted name @ '' not found on agent '' @ quoted (an_ID agent)))"

text \<open>\<open>forNode\<close> is \<open>agenturl.ForNode\<close>: the endpoint of a base URL and path segments.\<close>

definition checkedAgentURL ::
    "(string \<Rightarrow> string \<Rightarrow> string list \<Rightarrow> string + string) \<Rightarrow> callee \<Rightarrow> string \<Rightarrow> string \<Rightarrow> string + string" where
  "checkedAgentURL forNode agent name targetType =
     (case ce_InvocationURL agent of
        Some url \<Rightarrow> if url \<noteq> [] then forNode (an_ID agent) url []
          else forNode (an_ID agent) (an_BaseURL agent)
            (if an_DeploymentType agent \<noteq> ''serverless''
             then [if targetType = ''skill'' then ''skills'' else ''reasoners'', name] else [''execute''])
      | None \<Rightarrow> forNode (an_ID agent) (an_BaseURL agent)
            (if an_DeploymentType agent \<noteq> ''serverless''
             then [if targetType = ''skill'' then ''skills'' else ''reasoners'', name] else [''execute'']))"

subsection \<open>The version of a call\<close>

definition routable_versions :: "'a AgentNode_scheme list \<Rightarrow> 'a AgentNode_scheme list" where
  "routable_versions versions =
     (let healthy = filter (\<lambda>v. an_HealthStatus v = HealthActive \<and> an_LifecycleStatus v = LcReady) versions
      in if healthy = []
         then filter (\<lambda>v. an_LifecycleStatus v \<noteq> LcOffline \<and> an_LifecycleStatus v \<noteq> LcPendingApproval) versions
         else healthy)"

definition version_weight :: "'a AgentNode_scheme \<Rightarrow> nat" where
  "version_weight v = (if an_TrafficWeight v \<le> 0 then 100 else nat (an_TrafficWeight v))"

definition total_weight :: "'a AgentNode_scheme list \<Rightarrow> nat" where
  "total_weight vs = sum_list (map version_weight vs)"

fun pick_weighted :: "nat \<Rightarrow> nat \<Rightarrow> 'a AgentNode_scheme list \<Rightarrow> 'a AgentNode_scheme option" where
  "pick_weighted counter cumulative [] = None"
| "pick_weighted counter cumulative (v # vs) =
     (let cumulative = cumulative + version_weight v
      in if counter < cumulative then Some v else pick_weighted counter cumulative vs)"

text \<open>The last argument is the process-wide counter, which wraps at 64 bits.\<close>

definition selectVersionedAgent ::
    "'a AgentNode_scheme list \<Rightarrow> 64 word \<Rightarrow> ('a AgentNode_scheme \<times> string) option \<times> 64 word" where
  "selectVersionedAgent versions n =
     (case routable_versions versions of
        [] \<Rightarrow> (None, n)
      | first # rest \<Rightarrow>
          (let healthy = first # rest;
               allEqual = list_all (\<lambda>v. int (version_weight v) = an_TrafficWeight first) healthy;
               selected = (if allEqual \<or> total_weight healthy = 0 then healthy ! (unat n mod length healthy)
                 else case pick_weighted (unat n mod total_weight healthy) 0 healthy of
                     Some v \<Rightarrow> v
                   | None \<Rightarrow> first)
           in (Some (selected, an_Version selected), n + 1)))"

subsection \<open>Nodes that are down or restarting\<close>

definition defaultAgentRestartGrace :: duration where "defaultAgentRestartGrace = 15 * second"
definition defaultAgentDrainGrace :: duration where "defaultAgentDrainGrace = 60 * second"
definition agentRestartPoll :: duration where "agentRestartPoll = 250 * millisecond"
definition packageUpdateRestartGrace :: duration where "packageUpdateRestartGrace = 10 * minute"

text \<open>\<open>rc_updating\<close> counts the package jobs that take a node down on purpose.\<close>

record restart_config =
  rc_restartGrace :: duration
  rc_drainGrace :: duration
  rc_updating :: "(string \<times> int) list"

definition default_restart_config :: restart_config where
  "default_restart_config = \<lparr>rc_restartGrace = defaultAgentRestartGrace, rc_drainGrace = defaultAgentDrainGrace,
     rc_updating = []\<rparr>"

definition SetAgentUpdateInProgress :: "string \<Rightarrow> bool \<Rightarrow> restart_config \<Rightarrow> restart_config" where
  "SetAgentUpdateInProgress nodeID active rc =
     (let count = (case map_of (rc_updating rc) nodeID of None \<Rightarrow> 0 | Some n \<Rightarrow> n)
      in rc\<lparr>rc_updating :=
           (if active then AList.update nodeID (count + 1) (rc_updating rc)
            else if count \<le> 1 then AList.delete nodeID (rc_updating rc)
            else AList.update nodeID (count - 1) (rc_updating rc))\<rparr>)"

definition fold_node_id :: "string \<Rightarrow> string" where
  "fold_node_id s = ToLower (map (\<lambda>c. if c = CHR ''-'' then CHR ''_'' else c) s)"

definition NodeIDsEquivalent :: "string \<Rightarrow> string \<Rightarrow> bool" where
  "NodeIDsEquivalent a b \<longleftrightarrow> fold_node_id a = fold_node_id b"

definition agentRestartGraceFor :: "restart_config \<Rightarrow> string \<Rightarrow> duration \<times> bool" where
  "agentRestartGraceFor rc nodeID =
     (let configured = rc_restartGrace rc
      in if configured \<le> 0 then (configured, False)
         else if list_ex (\<lambda>(u, _). NodeIDsEquivalent u nodeID) (rc_updating rc) then (packageUpdateRestartGrace, True)
         else (configured, False))"

definition agentIsDraining :: "restart_config \<Rightarrow> instant \<Rightarrow> 'a AgentNode_scheme \<Rightarrow> bool" where
  "agentIsDraining rc now agent \<longleftrightarrow>
     an_LifecycleStatus agent = LcOffline \<and> an_LastHeartbeat agent \<noteq> 0 \<and> 0 < rc_drainGrace rc \<and>
     time_Sub now (an_LastHeartbeat agent) \<le> rc_drainGrace rc"

definition node_unavailable :: "string \<Rightarrow> exec_error" where
  "node_unavailable message = PreconditionError 503 message ErrorCategoryNodeUnavailable ''node_unavailable'' 0"

definition ensureAgentDispatchable ::
    "restart_config \<Rightarrow> 'a AgentNode_scheme \<Rightarrow> string \<Rightarrow> exec_error option" where
  "ensureAgentDispatchable rc agent nodeID =
     (if snd (agentRestartGraceFor rc nodeID) then None
      else if an_HealthStatus agent = HealthInactive
      then Some (node_unavailable (''agent node '' @ quoted (an_ID agent) @
             '' is not reachable (health: inactive); start the node and retry''))
      else if an_LifecycleStatus agent = LcOffline
      then Some (node_unavailable (''agent node '' @ quoted (an_ID agent) @ '' is offline; start the node and retry''))
      else None)"

definition agentCameBack :: "'a AgentNode_scheme \<Rightarrow> string \<Rightarrow> instant \<Rightarrow> bool" where
  "agentCameBack agent observedInstance observedHeartbeat \<longleftrightarrow>
     (an_InstanceID agent \<noteq> [] \<and> an_InstanceID agent \<noteq> observedInstance) \<or> observedHeartbeat < an_LastHeartbeat agent"

definition agentMayRestart :: "restart_config \<Rightarrow> 'a AgentNode_scheme \<Rightarrow> string \<Rightarrow> bool" where
  "agentMayRestart rc agent nodeID \<longleftrightarrow>
     0 < fst (agentRestartGraceFor rc nodeID) \<and> an_DeploymentType agent \<noteq> ''serverless''"

subsection \<open>Replay of an earlier run\<close>

record executionHeaders =
  eh_runID :: string
  eh_parentExecutionID :: "string option"
  eh_sessionID :: "string option"
  eh_actorID :: "string option"
  eh_replaySourceRunID :: string
  eh_replayBeforeExecutionID :: string
  eh_replayMode :: string

record replayHit =
  rh_SourceExecutionID :: string
  rh_SourceRunID :: string
  rh_Result :: string

text \<open>\<open>canonical\<close> decodes a JSON text and encodes it again, which sorts the members of its objects.\<close>

definition canonicalReplayPayload :: "(string \<Rightarrow> string option) \<Rightarrow> string \<Rightarrow> string option" where
  "canonicalReplayPayload canonical raw = (if raw = [] then None else canonical raw)"

definition replayable ::
    "(string \<Rightarrow> string option) \<Rightarrow> string \<Rightarrow> string \<Rightarrow> string \<Rightarrow> instant option \<Rightarrow> Execution \<Rightarrow> bool" where
  "replayable canonical nodeID name newKey beforeTime e \<longleftrightarrow>
     (case beforeTime of None \<Rightarrow> True | Some t \<Rightarrow> ex_StartedAt e < t) \<and> ex_Status e = stSucceeded \<and>
     ex_NodeID e = nodeID \<and> ex_ReasonerID e = name \<and> ex_ResultPayload e \<noteq> [] \<and>
     canonicalReplayPayload canonical (ex_InputPayload e) = Some newKey"

definition replay_hit :: "Execution \<Rightarrow> replayHit" where
  "replay_hit e = \<lparr>rh_SourceExecutionID = ex_ExecutionID e, rh_SourceRunID = ex_RunID e, rh_Result = ex_ResultPayload e\<rparr>"

definition search_replay ::
    "(string \<Rightarrow> string option) \<Rightarrow> executionHeaders \<Rightarrow> string \<Rightarrow> string \<Rightarrow> string \<Rightarrow> string \<Rightarrow> Execution list \<Rightarrow> replayHit option" where
  "search_replay canonical h mode nodeID name storedPayload es =
     (let before = mode = ''succeeded-before'' \<and> TrimSpace (eh_replayBeforeExecutionID h) \<noteq> [];
          cut = (if before then find (\<lambda>e. ex_ExecutionID e = eh_replayBeforeExecutionID h) es else None)
      in if before \<and> cut = None then None
         else case canonicalReplayPayload canonical storedPayload of
             None \<Rightarrow> None
           | Some newKey \<Rightarrow>
               map_option replay_hit
                 (find (replayable canonical nodeID name newKey (map_option ex_StartedAt cut)) es))"

definition findReplayHit ::
    "(string \<Rightarrow> string option) \<Rightarrow> executionHeaders \<Rightarrow> string \<Rightarrow> string \<Rightarrow> string \<Rightarrow> (goerr + replayHit option) proc" where
  "findReplayHit canonical h nodeID name storedPayload =
     (if eh_parentExecutionID h = None then State_Monad.return (Inr None)
      else
        (let sourceRunID = TrimSpace (eh_replaySourceRunID h);
             mode = TrimSpace (eh_replayMode h);
             mode = (if mode = [] then ''succeeded-before'' else mode)
         in if sourceRunID = [] then State_Monad.return (Inr None)
            else if mode = ''none'' then State_Monad.return (Inr None)
            else if mode \<noteq> ''succeeded-before'' \<and> mode \<noteq> ''all-succeeded''
            then State_Monad.return (Inl (Errorf (''unsupported replay mode '' @ go_quote mode)))
            else do {
              r \<leftarrow> QueryExecutionRecords (no_filter\<lparr>fl_RunID := Some sourceRunID, fl_SortBy := ''started_at''\<rparr>);
              State_Monad.return (case r of
                  Inl e \<Rightarrow> Inl (wrapErr ''query replay source run: '' e)
                | Inr es \<Rightarrow>
                    if es = [] then Inr None else Inr (search_replay canonical h mode nodeID name storedPayload es))
            }))"

subsection \<open>The workflow row of an execution\<close>

definition deriveWorkflowHierarchy :: "Execution \<Rightarrow> (string option \<times> string option \<times> int) proc" where
  "deriveWorkflowHierarchy e =
     (case ex_ParentExecutionID e of
        None \<Rightarrow> State_Monad.return (Some (ex_RunID e), None, 0)
      | Some parent \<Rightarrow> do {
          r \<leftarrow> GetWorkflowExecution parent;
          State_Monad.return (case non_fatal r of
              Some f \<Rightarrow> (case wf_RootWorkflowID f of Some root \<Rightarrow> Some root | None \<Rightarrow> Some (wf_WorkflowID f),
                         Some (wf_WorkflowID f), wf_WorkflowDepth f + 1)
            | None \<Rightarrow> (Some (ex_RunID e), None, 1))
        })"

text \<open>\<open>genRun\<close> and \<open>genRequest\<close> are the identifiers the generators would give.\<close>

definition buildWorkflowExecutionRecord ::
    "string \<Rightarrow> string \<Rightarrow> Execution \<Rightarrow> string \<Rightarrow> string \<Rightarrow> WorkflowExecution proc" where
  "buildWorkflowExecutionRecord genRun genRequest e targetType payload = do {
     let runID = (if ex_RunID e = [] then genRun else ex_RunID e);
     (root, parent, depth) \<leftarrow> deriveWorkflowHierarchy e;
     now \<leftarrow> time_Now;
     let startTime = (if ex_StartedAt e = 0 then now else ex_StartedAt e);
     State_Monad.return (zero_workflow_execution\<lparr>wf_WorkflowID := runID, wf_ExecutionID := ex_ExecutionID e,
       wf_AgentFieldRequestID := genRequest, wf_RunID := Some runID, wf_SessionID := ex_SessionID e,
       wf_ActorID := ex_ActorID e, wf_AgentNodeID := ex_AgentNodeID e, wf_InstanceID := ex_InstanceID e,
       wf_ParentWorkflowID := parent, wf_ParentExecutionID := ex_ParentExecutionID e, wf_RootWorkflowID := root,
       wf_WorkflowDepth := depth, wf_ReasonerID := ex_ReasonerID e, wf_Status := ex_Status e,
       wf_WorkflowName := Some (ex_NodeID e @ ''.'' @ ex_ReasonerID e), wf_StartedAt := startTime,
       wf_CreatedAt := startTime, wf_UpdatedAt := startTime, wf_InputData := payload, wf_InputSize := int (length payload),
       wf_WorkflowTags := (if targetType \<noteq> [] then [targetType] else [])\<rparr>)
   }"

definition ensureWorkflowExecutionRecord :: "string \<Rightarrow> string \<Rightarrow> Execution \<Rightarrow> string \<Rightarrow> string \<Rightarrow> unit proc" where
  "ensureWorkflowExecutionRecord genRun genRequest e targetType payload = do {
     f \<leftarrow> buildWorkflowExecutionRecord genRun genRequest e targetType payload;
     _ \<leftarrow> StoreWorkflowExecution f;
     State_Monad.return ()
   }"

subsection \<open>Versions share the calls by weight\<close>

lemma pick_weighted_steps:
  "map (\<lambda>i. pick_weighted (c + i) c vs) [0..<total_weight vs] =
     concat (map (\<lambda>v. replicate (version_weight v) (Some v)) vs)"
proof (induction vs arbitrary: c)
  case (Cons v vs)
  let ?w = "version_weight v"
  have "[?w..<?w + total_weight vs] = map (\<lambda>i. ?w + i) [0..<total_weight vs]"
    using map_add_upt [of ?w "total_weight vs"] by (simp only: add.commute)
  then have "[0..<total_weight (v # vs)] = [0..<?w] @ map (\<lambda>i. ?w + i) [0..<total_weight vs]"
    using upt_add_eq_append [of 0 ?w "total_weight vs"] by (simp only: total_weight_def list.map sum_list.Cons zero_le)
  moreover have "map (\<lambda>i. pick_weighted (c + i) c (v # vs)) [0..<?w] = replicate ?w (Some v)"
    by (rule nth_equalityI) auto
  moreover have "map (\<lambda>i. pick_weighted (c + (?w + i)) c (v # vs)) [0..<total_weight vs] =
      map (\<lambda>i. pick_weighted ((c + ?w) + i) (c + ?w) vs) [0..<total_weight vs]"
    by (simp add: Let_def add.assoc)
  ultimately show ?case using Cons.IH [of "c + ?w"] by (simp add: comp_def)
qed (simp add: total_weight_def)

text \<open>The versions a counter walks through, as a function of the counter.\<close>

definition nth_version :: "'a AgentNode_scheme list \<Rightarrow> nat \<Rightarrow> 'a AgentNode_scheme" where
  "nth_version vs n =
     (if list_all (\<lambda>v. int (version_weight v) = an_TrafficWeight (hd vs)) vs then vs ! (n mod length vs)
      else the (pick_weighted (n mod total_weight vs) 0 vs))"

lemma version_weight_pos: "0 < version_weight v"
  by (simp add: version_weight_def)

lemma total_weight_pos: "vs \<noteq> [] \<Longrightarrow> 0 < total_weight vs"
  using version_weight_pos by (cases vs) (auto simp: total_weight_def)

lemma pick_weighted_some: "n < total_weight vs \<Longrightarrow> pick_weighted n 0 vs \<noteq> None"
proof -
  assume "n < total_weight vs"
  then have "pick_weighted n 0 vs = map (\<lambda>i. pick_weighted (0 + i) 0 vs) [0..<total_weight vs] ! n" by simp
  also have "\<dots> \<in> set (concat (map (\<lambda>v. replicate (version_weight v) (Some v)) vs))"
    unfolding pick_weighted_steps [of 0 vs, symmetric] using \<open>n < total_weight vs\<close> by (intro nth_mem) simp
  finally show ?thesis by auto
qed

lemma select_nth:
  assumes "routable_versions versions = vs" and "vs \<noteq> []"
  shows "selectVersionedAgent versions n = (Some (nth_version vs (unat n), an_Version (nth_version vs (unat n))), n + 1)"
proof -
  obtain first others where vs: "vs = first # others" using assms(2) by (cases vs) auto
  have "pick_weighted (unat n mod total_weight vs) 0 vs \<noteq> None"
    using pick_weighted_some [of "unat n mod total_weight vs" vs] total_weight_pos [OF assms(2)] by simp
  then obtain v where v: "pick_weighted (unat n mod total_weight vs) 0 vs = Some v" by blast
  have "total_weight vs \<noteq> 0" using total_weight_pos [OF assms(2)] by simp
  with v show ?thesis using assms(1) unfolding selectVersionedAgent_def nth_version_def Let_def vs
    by (simp only: list.case option.case list.sel if_False simp_thms option.sel split: if_split)
qed

lemma equal_weights:
  assumes "list_all (\<lambda>v. int (version_weight v) = an_TrafficWeight (hd vs)) vs" and "v \<in> set vs"
  shows "version_weight v = version_weight (hd vs)" "total_weight vs = length vs * version_weight (hd vs)"
proof -
  have all: "\<forall>v \<in> set vs. version_weight v = version_weight (hd vs)"
  proof
    fix u assume "u \<in> set vs"
    moreover from this have "hd vs \<in> set vs" by (cases vs) auto
    ultimately have "int (version_weight u) = an_TrafficWeight (hd vs)" "int (version_weight (hd vs)) = an_TrafficWeight (hd vs)"
      using assms(1) unfolding list_all_iff by blast+
    then show "version_weight u = version_weight (hd vs)" by simp
  qed
  then show "version_weight v = version_weight (hd vs)" using assms(2) by blast
  have "map version_weight vs = map (\<lambda>_. version_weight (hd vs)) vs" using all by (intro map_cong) auto
  then show "total_weight vs = length vs * version_weight (hd vs)"
    unfolding total_weight_def by (simp only: sum_list_triv of_nat_id)
qed

lemma full_rounds: "mset (map (\<lambda>i. xs ! (i mod length xs)) [0..<length xs * k]) = repeat_mset k (mset xs)"
proof (induction k)
  case (Suc k)
  let ?n = "length xs"
  have round: "map (\<lambda>i. xs ! (i mod ?n)) [?n * k..<?n * k + ?n] = xs"
  proof (rule nth_equalityI)
    fix i assume "i < length (map (\<lambda>i. xs ! (i mod ?n)) [?n * k..<?n * k + ?n])"
    then have "i < ?n" by simp
    then show "map (\<lambda>i. xs ! (i mod ?n)) [?n * k..<?n * k + ?n] ! i = xs ! i" by (simp del: upt_Suc)
  qed simp
  have "[0..<?n * Suc k] = [0..<?n * k] @ [?n * k..<?n * k + ?n]"
    using upt_add_eq_append [of 0 "?n * k" ?n] by (simp only: mult_Suc_right zero_le add.commute)
  then show ?case using Suc round by (simp only: map_append mset_append) simp
qed simp

lemma one_period:
  assumes "vs \<noteq> []"
  shows "mset (map (nth_version vs) [0..<total_weight vs]) = mset (concat (map (\<lambda>v. replicate (version_weight v) v) vs))"
proof (cases "list_all (\<lambda>v. int (version_weight v) = an_TrafficWeight (hd vs)) vs")
  case True
  let ?w = "version_weight (hd vs)"
  have "mset (concat (map (\<lambda>v. replicate k v) xs)) = repeat_mset k (mset xs)" for k and xs :: "'a AgentNode_scheme list"
    by (induction xs) (simp_all add: multiset_eq_iff)
  then have "mset (concat (map (\<lambda>v. replicate ?w v) vs)) = repeat_mset ?w (mset vs)" .
  moreover have "map (\<lambda>v. replicate (version_weight v) v) vs = map (\<lambda>v. replicate ?w v) vs"
    using equal_weights(1) [OF True] by (intro map_cong) auto
  moreover have "map (nth_version vs) [0..<total_weight vs] = map (\<lambda>i. vs ! (i mod length vs)) [0..<length vs * ?w]"
    unfolding equal_weights(2) [OF True hd_in_set [OF assms]] using True by (intro map_cong refl) (simp add: nth_version_def)
  ultimately show ?thesis using full_rounds [of vs ?w] by (simp only:)
next
  case False
  have "map (nth_version vs) [0..<total_weight vs] = map the (map (\<lambda>i. pick_weighted (0 + i) 0 vs) [0..<total_weight vs])"
    using False by (simp add: nth_version_def)
  also have "\<dots> = concat (map (\<lambda>v. replicate (version_weight v) v) vs)"
    unfolding pick_weighted_steps by (induction vs) simp_all
  finally show ?thesis by simp
qed

lemma nth_version_period: "vs \<noteq> [] \<Longrightarrow> nth_version vs (n + total_weight vs) = nth_version vs n"
proof -
  assume "vs \<noteq> []"
  show ?thesis
  proof (cases "list_all (\<lambda>v. int (version_weight v) = an_TrafficWeight (hd vs)) vs")
    case True
    then have "(n + total_weight vs) mod length vs = n mod length vs"
      using equal_weights(2) [OF True hd_in_set [OF \<open>vs \<noteq> []\<close>]] by simp
    then show ?thesis by (simp add: nth_version_def True)
  qed (simp add: nth_version_def)
qed

lemma any_period: "vs \<noteq> [] \<Longrightarrow> mset (map (nth_version vs) [n..<n + total_weight vs]) = mset (map (nth_version vs) [0..<total_weight vs])"
proof (induction n)
  case (Suc n)
  have "[n..<n + total_weight vs] = n # [Suc n..<n + total_weight vs]"
    using total_weight_pos [OF Suc.prems] by (simp add: upt_conv_Cons)
  moreover have "[Suc n..<Suc n + total_weight vs] = [Suc n..<n + total_weight vs] @ [n + total_weight vs]"
    using total_weight_pos [OF Suc.prems] by simp
  ultimately show ?case using Suc nth_version_period [OF Suc.prems, of n] by simp
qed simp

lemma weights_mset:
  "mset (concat (map (\<lambda>v. replicate (version_weight v) v) vs)) = (\<Sum>v \<in># mset vs. replicate_mset (version_weight v) v)"
  by (induction vs) simp_all

text \<open>The selections of consecutive calls.\<close>

primrec selections :: "nat \<Rightarrow> 'a AgentNode_scheme list \<Rightarrow> 64 word \<Rightarrow> 'a AgentNode_scheme list" where
  "selections 0 versions n = []"
| "selections (Suc k) versions n =
     (case selectVersionedAgent versions n of
        (None, n) \<Rightarrow> selections k versions n
      | (Some (v, _), n) \<Rightarrow> v # selections k versions n)"

lemma selections_nth:
  assumes "routable_versions versions = vs" and "vs \<noteq> []"
  shows "unat n + k \<le> 2 ^ 64 \<Longrightarrow> selections k versions n = map (nth_version vs) [unat n..<unat n + k]"
proof (induction k arbitrary: n)
  case (Suc k)
  show ?case
  proof (cases "k = 0")
    case False
    then have "unat (n + 1) = Suc (unat n)" using Suc.prems by (subst unat_add_lem [THEN iffD1]) simp_all
    then have "selections k versions (n + 1) = map (nth_version vs) [Suc (unat n)..<Suc (unat n) + k]"
      using Suc.IH [of "n + 1"] Suc.prems by simp
    moreover have "[unat n..<unat n + Suc k] = unat n # [Suc (unat n)..<Suc (unat n) + k]" by (subst upt_conv_Cons) simp_all
    ultimately show ?thesis by (simp add: select_nth [OF assms] del: upt_Suc)
  qed (simp add: select_nth [OF assms])
qed simp


text \<open>
  A node that has versions always has a first one, which \<open>GetAgent\<close> returns; so the selection by weight, which the
  preparation of an execution falls back to when \<open>GetAgent\<close> fails, is reached only when the database fails.
\<close>

lemma versions_never_selected:
  assumes "snd (run_state (GetAgent k) w) = w'" and "fst (run_state (GetAgent k) w) = Inl e" and "fl_fault w (fl_calls w) = None"
    and "fl_fault w' (fl_calls w') = None"
  shows "fst (run_state (ListAgentVersions k) w') = Inr []"
proof -
  have "filter (\<lambda>a. an_ID a = k) (fl_rows w) = []"
    using assms(2,3) by (auto simp: GetAgent_def sql_def select_agent_def Let_def split: option.splits list.splits)
      (metis length_0_conv length_sort list.size(3))
  then have "filter (\<lambda>a. an_ID a = k \<and> an_Version a \<noteq> []) (fl_rows w) = []" by (auto simp: filter_empty_conv)
  moreover have "fl_rows w' = fl_rows w" using assms(1,3) by (auto simp: GetAgent_def sql_def Let_def split: option.splits)
  ultimately show ?thesis using assms(4) by (simp add: ListAgentVersions_def sql_def Let_def)
qed

definition demo_version :: "string \<Rightarrow> int \<Rightarrow> AgentNode" where
  "demo_version v weight = \<lparr>an_ID = ''n'', an_GroupID = [], an_TeamID = [], an_BaseURL = [], an_Version = v,
     an_TrafficWeight = weight, an_DeploymentType = ''long_running'', an_HealthStatus = HealthActive,
     an_LifecycleStatus = LcReady, an_LastHeartbeat = 1, an_RegisteredAt = 1, an_InstanceID = [], an_ProposedTags = [],
     an_ApprovedTags = []\<rparr>"


subsection \<open>What may be replayed\<close>

text \<open>The rows a query returns are rows of the table, up to the registration flag.\<close>

definition flagged :: "(Execution \<Rightarrow> bool) \<Rightarrow> Execution \<Rightarrow> Execution" where
  "flagged f e = (if f e then e\<lparr>ex_WebhookRegistered := True\<rparr> else e\<lparr>ex_WebhookRegistered := False\<rparr>)"

lemma flagged_sel [simp]:
  "ex_StartedAt (flagged f e) = ex_StartedAt e" "ex_ExecutionID (flagged f e) = ex_ExecutionID e"
  "replayable canonical n m key t (flagged f e) = replayable canonical n m key t e" "replay_hit (flagged f e) = replay_hit e"
  by (simp_all add: flagged_def replayable_def replay_hit_def split: option.split)

lemma find_flagged: "find P (map (flagged f) xs) = map_option (flagged f) (find (P \<circ> flagged f) xs)"
  by (induction xs) auto

lemma search_flagged: "search_replay canonical h mode n m payload (map (flagged f) es) = search_replay canonical h mode n m payload es"
proof -
  have "map_option ex_StartedAt (map_option (flagged f) x) = map_option ex_StartedAt x" for x by (cases x) simp_all
  moreover have "map_option replay_hit (map_option (flagged f) x) = map_option replay_hit x" for x by (cases x) simp_all
  ultimately show ?thesis
    by (cases "mode = ''succeeded-before'' \<and> TrimSpace (eh_replayBeforeExecutionID h) \<noteq> []")
      (auto simp: search_replay_def find_flagged Let_def comp_def split: option.split)
qed

lemma query_source_run:
  assumes "run_state (QueryExecutionRecords (no_filter\<lparr>fl_RunID := Some k, fl_SortBy := ''started_at''\<rparr>)) w = (Inr es, w')"
  shows "\<exists>f. es = sort_key ex_StartedAt (filter (\<lambda>e. ex_RunID e = k) (executions (env w (calls w) (data w)))) \<or>
    es = map (flagged f) (sort_key ex_StartedAt (filter (\<lambda>e. ex_RunID e = k) (executions (env w (calls w) (data w)))))"
proof -
  let ?fl = "no_filter\<lparr>fl_RunID := Some k, fl_SortBy := ''started_at''\<rparr>" and ?d = "env w (calls w) (data w)"
  have fl: "fl_SortBy ?fl = ''started_at''" "fl_SortDescending ?fl = False" "fl_Limit ?fl = 0" "fl_Offset ?fl = 0"
    "fl_ExcludePayloads ?fl = False" "filter_matches ?fl = (\<lambda>e. ex_RunID e = k)"
    by (auto simp: no_filter_def filter_matches_def eq_arg_def reason_matches_def)
  have sel: "select_executions ?fl rows = Inr (sort_key ex_StartedAt (filter (\<lambda>e. ex_RunID e = k) rows))" for rows
    by (simp only: select_executions_def order_started window_all fl) simp
  have mp: "map (\<lambda>e. e\<lparr>ex_WebhookRegistered := ex_ExecutionID e \<in> S\<rparr>) rows = map (flagged (\<lambda>e. ex_ExecutionID e \<in> S)) rows" for S rows
    by (simp add: flagged_def)
  show ?thesis using assms
    by (auto simp: QueryExecutionRecords_def db_call_def Let_def sel populateWebhookRegistration_def State_Monad.return_def mp
        split: option.splits if_splits)
qed

lemma find_mem: "find P xs = Some x \<Longrightarrow> x \<in> set xs \<and> P x"
  by (induction xs) (auto split: if_splits)

lemma find_least:
  assumes "sorted (map g xs)" and "find P xs = Some x" and "y \<in> set xs" and "P y"
  shows "g x \<le> g y"
  using assms by (induction xs) (auto split: if_splits)

text \<open>What a caller may be given instead of a call.\<close>

definition same_call :: "(string \<Rightarrow> string option) \<Rightarrow> string \<Rightarrow> string \<Rightarrow> string \<Rightarrow> Execution \<Rightarrow> bool" where
  "same_call canonical nodeID name key e \<longleftrightarrow>
     ex_NodeID e = nodeID \<and> ex_ReasonerID e = name \<and> canonicalReplayPayload canonical (ex_InputPayload e) = Some key \<and>
     ex_Status e = stSucceeded \<and> ex_ResultPayload e \<noteq> []"

lemma replayable_same: "replayable canonical nodeID name key before e \<longleftrightarrow>
    same_call canonical nodeID name key e \<and> (\<forall>t. before = Some t \<longrightarrow> ex_StartedAt e < t)"
  by (auto simp: replayable_def same_call_def split: option.splits)


definition demo_source :: Execution where
  "demo_source = zero_execution\<lparr>ex_ExecutionID := ''old'', ex_RunID := ''r0'', ex_NodeID := ''n'', ex_ReasonerID := ''f'',
     ex_Status := stSucceeded, ex_InputPayload := ''{}'', ex_ResultPayload := ''42'', ex_StartedAt := 5\<rparr>"

definition demo_headers :: executionHeaders where
  "demo_headers = \<lparr>eh_runID = ''r1'', eh_parentExecutionID = Some ''p'', eh_sessionID = None, eh_actorID = None,
     eh_replaySourceRunID = ''r0'', eh_replayBeforeExecutionID = [], eh_replayMode = []\<rparr>"


end
