(* ===== verification/Admission.thy ===== *)
theory Admission
  imports Exec_Status LLM_Health
begin

text \<open>
  What an execution has to pass before it is recorded (\<open>internal/handlers/execution_guards.go\<close>): the circuit of the
  language model it asks for, and a slot of the concurrency limiter (\<open>agent_concurrency.go\<close>). The limiter keeps one
  counter per agent; its atomic instructions are the steps of a relation in which any number of calls interleave.
\<close>

subsection \<open>The concurrency limiter\<close>

text \<open>\<open>None\<close> as a limiter is the nil pointer before \<open>InitConcurrencyLimiter\<close> has run.\<close>

record AgentConcurrencyLimiter =
  cl_maxPerAgent :: int
  cl_counts :: "string \<Rightarrow> int option"

definition InitConcurrencyLimiter :: "int \<Rightarrow> AgentConcurrencyLimiter option \<Rightarrow> AgentConcurrencyLimiter option" where
  "InitConcurrencyLimiter maxPerAgent l =
     (case l of None \<Rightarrow> Some \<lparr>cl_maxPerAgent = maxPerAgent, cl_counts = (\<lambda>_. None)\<rparr> | Some _ \<Rightarrow> l)"

definition slot_count :: "AgentConcurrencyLimiter \<Rightarrow> string \<Rightarrow> int" where
  "slot_count l k = (case cl_counts l k of None \<Rightarrow> 0 | Some n \<Rightarrow> n)"

definition slot_set :: "string \<Rightarrow> int \<Rightarrow> AgentConcurrencyLimiter \<Rightarrow> AgentConcurrencyLimiter" where
  "slot_set k n l = l\<lparr>cl_counts := (cl_counts l)(k \<mapsto> n)\<rparr>"

definition slot_add :: "string \<Rightarrow> int \<Rightarrow> AgentConcurrencyLimiter \<Rightarrow> AgentConcurrencyLimiter" where
  "slot_add k n l = slot_set k (slot_count l k + n) l"

definition limit_message :: "AgentConcurrencyLimiter \<Rightarrow> string \<Rightarrow> string" where
  "limit_message l k = ''agent '' @ k @ '' has reached max concurrent executions ('' @ show_int (cl_maxPerAgent l) @ '')''"

definition Acquire :: "AgentConcurrencyLimiter option \<Rightarrow> string \<Rightarrow> string option \<times> AgentConcurrencyLimiter option" where
  "Acquire limiter k =
     (case limiter of
        None \<Rightarrow> (None, None)
      | Some l \<Rightarrow>
          if cl_maxPerAgent l \<le> 0 then (None, Some l)
          else (let l = slot_add k 1 l
                in if cl_maxPerAgent l < slot_count l k
                   then (Some (limit_message l k), Some (slot_add k (-1) l))
                   else (None, Some l)))"

definition Release :: "AgentConcurrencyLimiter option \<Rightarrow> string \<Rightarrow> AgentConcurrencyLimiter option" where
  "Release limiter k =
     (case limiter of
        None \<Rightarrow> None
      | Some l \<Rightarrow>
          if cl_maxPerAgent l \<le> 0 then Some l
          else if cl_counts l k = None then Some l
          else (let l = slot_add k (-1) l in Some (if slot_count l k < 0 then slot_set k 0 l else l)))"

definition GetRunningCount :: "AgentConcurrencyLimiter option \<Rightarrow> string \<Rightarrow> int" where
  "GetRunningCount limiter k = (case limiter of None \<Rightarrow> 0 | Some l \<Rightarrow> slot_count l k)"

definition MaxPerAgent :: "AgentConcurrencyLimiter option \<Rightarrow> int" where
  "MaxPerAgent limiter = (case limiter of None \<Rightarrow> 0 | Some l \<Rightarrow> cl_maxPerAgent l)"

definition GetAllCounts :: "AgentConcurrencyLimiter option \<Rightarrow> string \<Rightarrow> int option" where
  "GetAllCounts limiter k =
     (case limiter of
        None \<Rightarrow> None
      | Some l \<Rightarrow> (case cl_counts l k of None \<Rightarrow> None | Some n \<Rightarrow> if 0 < n then Some n else None))"

lemma slot_simps [simp]:
  "slot_count (slot_set k n l) j = (if j = k then n else slot_count l j)"
  "slot_count (slot_add k n l) j = (if j = k then slot_count l k + n else slot_count l j)"
  "cl_maxPerAgent (slot_set k n l) = cl_maxPerAgent l" "cl_maxPerAgent (slot_add k n l) = cl_maxPerAgent l"
  "cl_counts (slot_set k n l) = (cl_counts l)(k \<mapsto> n)" "cl_counts (slot_add k n l) = (cl_counts l)(k \<mapsto> slot_count l k + n)"
  by (auto simp: slot_set_def slot_add_def slot_count_def)

subsection \<open>Its atomic instructions, interleaved\<close>

text \<open>
  For every agent: how many calls hold a slot, how many were refused and have yet to take their increment back, and
  how many releases found the counter below zero and have yet to reset it.
\<close>

record gate =
  gt_limiter :: AgentConcurrencyLimiter
  gt_held :: "string \<Rightarrow> nat"
  gt_refused :: "string \<Rightarrow> nat"
  gt_below :: "string \<Rightarrow> nat"

definition gate_enter :: "string \<Rightarrow> gate \<Rightarrow> gate" where
  "gate_enter k g =
     (let l = slot_add k 1 (gt_limiter g)
      in if cl_maxPerAgent l < slot_count l k
         then g\<lparr>gt_limiter := l, gt_refused := (gt_refused g)(k := Suc (gt_refused g k))\<rparr>
         else g\<lparr>gt_limiter := l, gt_held := (gt_held g)(k := Suc (gt_held g k))\<rparr>)"

definition gate_back :: "string \<Rightarrow> gate \<Rightarrow> gate" where
  "gate_back k g = g\<lparr>gt_limiter := slot_add k (-1) (gt_limiter g), gt_refused := (gt_refused g)(k := gt_refused g k - 1)\<rparr>"

definition gate_leave :: "string \<Rightarrow> gate \<Rightarrow> gate" where
  "gate_leave k g =
     (let l = slot_add k (-1) (gt_limiter g); g = g\<lparr>gt_limiter := l, gt_held := (gt_held g)(k := gt_held g k - 1)\<rparr>
      in if slot_count l k < 0 then g\<lparr>gt_below := (gt_below g)(k := Suc (gt_below g k))\<rparr> else g)"

definition gate_reset :: "string \<Rightarrow> gate \<Rightarrow> gate" where
  "gate_reset k g = g\<lparr>gt_limiter := slot_set k 0 (gt_limiter g), gt_below := (gt_below g)(k := gt_below g k - 1)\<rparr>"

inductive gate_step :: "gate \<Rightarrow> gate \<Rightarrow> bool" where
  Enter: "gate_step g (gate_enter k g)"
| Back: "0 < gt_refused g k \<Longrightarrow> gate_step g (gate_back k g)"
| Leave: "0 < gt_held g k \<Longrightarrow> gate_step g (gate_leave k g)"
| Reset: "0 < gt_below g k \<Longrightarrow> gate_step g (gate_reset k g)"

inductive_cases gate_step_elim: "gate_step g g'"

definition fresh_gate :: "int \<Rightarrow> gate" where
  "fresh_gate maxPerAgent = \<lparr>gt_limiter = \<lparr>cl_maxPerAgent = maxPerAgent, cl_counts = (\<lambda>_. None)\<rparr>,
     gt_held = (\<lambda>_. 0), gt_refused = (\<lambda>_. 0), gt_below = (\<lambda>_. 0)\<rparr>"

definition gate_ok :: "int \<Rightarrow> gate \<Rightarrow> bool" where
  "gate_ok maxPerAgent g \<longleftrightarrow> cl_maxPerAgent (gt_limiter g) = maxPerAgent \<and>
     (\<forall>k. slot_count (gt_limiter g) k = int (gt_held g k) + int (gt_refused g k) \<and>
          int (gt_held g k) \<le> maxPerAgent \<and> gt_below g k = 0)"

lemma gate_step_ok: "gate_step g g' \<Longrightarrow> gate_ok m g \<Longrightarrow> gate_ok m g'"
proof (erule gate_step_elim)
  fix k assume "gate_ok m g" "g' = gate_enter k g"
  then show "gate_ok m g'" by (auto simp: gate_ok_def gate_enter_def Let_def)
next
  fix k assume "gate_ok m g" "g' = gate_back k g" "0 < gt_refused g k"
  then show "gate_ok m g'" by (auto simp: gate_ok_def gate_back_def)
next
  fix k assume "gate_ok m g" "g' = gate_leave k g" "0 < gt_held g k"
  moreover from this have "int (gt_held g k - 1) = int (gt_held g k) - 1" by simp
  moreover from calculation have "int (gt_held g k) - 1 \<le> m" "cl_maxPerAgent (gt_limiter g) = m"
    unfolding gate_ok_def by (metis (no_types) diff_le_eq le_add_same_cancel1 order.trans zero_le_one)+
  ultimately show "gate_ok m g'" by (auto simp: gate_ok_def gate_leave_def Let_def)
next
  fix k assume "gate_ok m g" "g' = gate_reset k g" "0 < gt_below g k"
  then show "gate_ok m g'" by (simp add: gate_ok_def)
qed

lemma gate_steps_ok: "gate_step\<^sup>*\<^sup>* g g' \<Longrightarrow> gate_ok m g \<Longrightarrow> gate_ok m g'"
  by (induction rule: rtranclp_induct) (auto intro: gate_step_ok)

lemma fresh_gate_ok: "0 \<le> m \<Longrightarrow> gate_ok m (fresh_gate m)"
  by (simp add: gate_ok_def fresh_gate_def slot_count_def)

text \<open>The two methods are sequences of these instructions.\<close>

lemma acquire_steps:
  assumes "0 < cl_maxPerAgent (gt_limiter g)"
  shows "\<exists>g'. gate_step\<^sup>*\<^sup>* g g' \<and> snd (Acquire (Some (gt_limiter g)) k) = Some (gt_limiter g') \<and>
    gt_held g' k = (if fst (Acquire (Some (gt_limiter g)) k) = None then Suc (gt_held g k) else gt_held g k)"
proof (cases "cl_maxPerAgent (gt_limiter g) < slot_count (gt_limiter g) k + 1")
  case True
  let ?g = "gate_enter k g"
  have "gate_step ?g (gate_back k ?g)" using True by (intro gate_step.Back) (simp add: gate_enter_def Let_def)
  with Enter have "gate_step\<^sup>*\<^sup>* g (gate_back k ?g)" by (meson rtranclp.rtrancl_into_rtrancl rtranclp.rtrancl_refl)
  then show ?thesis using True assms by (intro exI [of _ "gate_back k ?g"]) (simp add: Acquire_def gate_enter_def gate_back_def Let_def)
next
  case False
  then have "snd (Acquire (Some (gt_limiter g)) k) = Some (gt_limiter (gate_enter k g)) \<and> fst (Acquire (Some (gt_limiter g)) k) = None \<and>
      gt_held (gate_enter k g) k = Suc (gt_held g k)"
    using assms by (simp add: Acquire_def gate_enter_def Let_def)
  with r_into_rtranclp [of gate_step, OF Enter] show ?thesis by auto
qed

lemma release_step:
  assumes "0 < cl_maxPerAgent (gt_limiter g)" and "gate_ok m g" and "0 < gt_held g k"
  shows "gate_step g (gate_leave k g) \<and> Release (Some (gt_limiter g)) k = Some (gt_limiter (gate_leave k g))"
proof -
  have "slot_count (gt_limiter g) k = int (gt_held g k) + int (gt_refused g k)" using assms(2) by (simp add: gate_ok_def)
  moreover from this assms(3) have "cl_counts (gt_limiter g) k \<noteq> None" by (auto simp: slot_count_def split: option.splits)
  ultimately show ?thesis using assms gate_step.Leave [OF assms(3)] by (auto simp: Release_def gate_leave_def Let_def)
qed

subsection \<open>The circuit of the requested model\<close>

definition Enabled :: "LLMHealthMonitor option \<Rightarrow> bool" where
  "Enabled m = (case m of None \<Rightarrow> False | Some m \<Rightarrow> lc_Enabled (lm_config m))"

text \<open>The order of \<open>GetAllStatuses\<close> is that of the iteration over the map of endpoints.\<close>

definition GetAllStatuses :: "LLMHealthMonitor \<Rightarrow> LLMEndpointStatus list" where
  "GetAllStatuses m = map snd (lm_endpoints m)"

definition firstUnavailableEndpoint :: "LLMEndpointStatus list \<Rightarrow> LLMEndpointStatus option" where
  "firstUnavailableEndpoint statuses = find (\<lambda>st. le_CircuitState st = CircuitOpen) statuses"

definition newLLMUnavailableError :: "string \<Rightarrow> string \<Rightarrow> int \<Rightarrow> exec_error" where
  "newLLMUnavailableError message lastErr retryAfter =
     PreconditionError 503 (if TrimSpace lastErr \<noteq> [] then message @ '': '' @ lastErr else message)
       ErrorCategoryLLMUnavailable [] retryAfter"

definition newControlPlaneShutdownError :: "string \<Rightarrow> exec_error" where
  "newControlPlaneShutdownError message = PreconditionError 503 message ErrorCategoryControlPlaneShutdown [] 1"

definition checkLLMEndpointHealth :: "LLMHealthMonitor option \<Rightarrow> instant \<Rightarrow> string \<Rightarrow> exec_error option" where
  "checkLLMEndpointHealth mon now llmEndpoint =
     (case mon of
        None \<Rightarrow> None
      | Some m \<Rightarrow>
          if \<not> Enabled mon \<or> EndpointCount mon = 0 then None
          else
            (let name = TrimSpace llmEndpoint;
                 unavailable = (\<lambda>before st after.
                   Some (newLLMUnavailableError (before @ go_quote (le_Name st) @ after) (le_LastError st)
                     (RetryAfterSeconds mon (le_Name st) now)));
                 others = (case firstUnavailableEndpoint (GetAllStatuses m) of
                     None \<Rightarrow> None
                   | Some st \<Rightarrow>
                       if EndpointCount mon = 1 then unavailable ''LLM backend '' st '' unavailable''
                       else unavailable ''LLM backend health is degraded and request backend could not be determined (endpoint ''
                         st '' unavailable)'')
             in if name = [] then others
                else case find_endpoint m name of
                    None \<Rightarrow> others
                  | Some st \<Rightarrow> if le_CircuitState st \<noteq> CircuitOpen then None
                               else unavailable ''LLM backend '' st '' unavailable''))"

definition CheckExecutionPreconditions ::
    "LLMHealthMonitor option \<Rightarrow> instant \<Rightarrow> string \<Rightarrow> string \<Rightarrow> AgentConcurrencyLimiter option \<Rightarrow>
     exec_error option \<times> AgentConcurrencyLimiter option" where
  "CheckExecutionPreconditions mon now agentNodeID llmEndpoint limiter =
     (case checkLLMEndpointHealth mon now llmEndpoint of
        Some e \<Rightarrow> (Some e, limiter)
      | None \<Rightarrow>
          (case Acquire limiter agentNodeID of
             (Some msg, limiter) \<Rightarrow> (Some (PreconditionError 429 msg ErrorCategoryConcurrencyLimit [] 0), limiter)
           | (None, limiter) \<Rightarrow> (None, limiter)))"

definition ReleaseExecutionSlot :: "string \<Rightarrow> AgentConcurrencyLimiter option \<Rightarrow> AgentConcurrencyLimiter option" where
  "ReleaseExecutionSlot agentNodeID limiter = Release limiter agentNodeID"

subsection \<open>Properties\<close>

lemma Acquire_exact:
  assumes "0 < cl_maxPerAgent l"
  shows "fst (Acquire (Some l) k) = None \<longleftrightarrow> slot_count l k < cl_maxPerAgent l"
  using assms by (auto simp: Acquire_def Let_def)

lemma Acquire_count:
  "GetRunningCount (snd (Acquire limiter k)) j =
     (if j = k \<and> 0 < MaxPerAgent limiter \<and> fst (Acquire limiter k) = None then GetRunningCount limiter k + 1
      else GetRunningCount limiter j)"
  by (auto simp: Acquire_def GetRunningCount_def MaxPerAgent_def Let_def split: option.splits)



text \<open>
  A refused caller that has not taken its increment back makes the limiter refuse others although every slot is free:
  with a limit of one, b is refused while a runs, a ends, and c is refused as well.
\<close>

lemma refusal_with_free_slots:
  defines "g \<equiv> gate_leave ''n'' (gate_enter ''n'' (gate_enter ''n'' (fresh_gate 1)))"
  shows "gate_step\<^sup>*\<^sup>* (fresh_gate 1) g \<and> gt_held g ''n'' = 0 \<and> fst (Acquire (Some (gt_limiter g)) ''n'') \<noteq> None"
proof -
  have "0 < gt_held (gate_enter ''n'' (gate_enter ''n'' (fresh_gate 1))) ''n''"
    by (simp add: gate_enter_def fresh_gate_def slot_count_def slot_add_def slot_set_def)
  then have "gate_step\<^sup>*\<^sup>* (fresh_gate 1) g" unfolding g_def
    by (meson Enter Leave rtranclp.rtrancl_into_rtrancl rtranclp.rtrancl_refl)
  moreover have "gt_held g ''n'' = 0 \<and> fst (Acquire (Some (gt_limiter g)) ''n'') \<noteq> None"
    by (simp add: g_def gate_enter_def gate_leave_def fresh_gate_def slot_count_def slot_add_def slot_set_def Acquire_def)
  ultimately show ?thesis by blast
qed

definition circuit_closed :: "LLMHealthMonitor option \<Rightarrow> string \<Rightarrow> bool" where
  "circuit_closed mon llmEndpoint \<longleftrightarrow>
     (case mon of
        None \<Rightarrow> True
      | Some m \<Rightarrow> \<not> lc_Enabled (lm_config m) \<or>
          (case if TrimSpace llmEndpoint = [] then None else find_endpoint m (TrimSpace llmEndpoint) of
             Some st \<Rightarrow> le_CircuitState st \<noteq> CircuitOpen
           | None \<Rightarrow> \<forall>(_, st) \<in> set (lm_endpoints m). le_CircuitState st \<noteq> CircuitOpen))"

lemma llm_gate_exact: "checkLLMEndpointHealth mon now llmEndpoint = None \<longleftrightarrow> circuit_closed mon llmEndpoint"
proof (cases mon)
  case (Some m)
  have all: "firstUnavailableEndpoint (GetAllStatuses m) = None \<longleftrightarrow> (\<forall>(_, st) \<in> set (lm_endpoints m). le_CircuitState st \<noteq> CircuitOpen)"
    by (auto simp: firstUnavailableEndpoint_def GetAllStatuses_def find_None_iff)
  show ?thesis
  proof (cases "lc_Enabled (lm_config m) \<and> lm_endpoints m \<noteq> []")
    case True
    then show ?thesis using Some all
      by (auto simp: checkLLMEndpointHealth_def circuit_closed_def Enabled_def EndpointCount_def Let_def split: option.splits)
  next
    case False
    then show ?thesis using Some
      by (auto simp: checkLLMEndpointHealth_def circuit_closed_def Enabled_def EndpointCount_def find_endpoint_def split: option.splits)
  qed
qed (simp add: checkLLMEndpointHealth_def circuit_closed_def)

lemma llm_error_code: "checkLLMEndpointHealth mon now llmEndpoint = Some e \<Longrightarrow>
    \<exists>msg after. e = PreconditionError 503 msg ErrorCategoryLLMUnavailable [] after"
  by (auto simp: checkLLMEndpointHealth_def newLLMUnavailableError_def Let_def split: option.splits if_splits)

text \<open>
  What admits an execution. An execution passes the gate exactly when the circuit of the model it names is not open
  (of every model, if it names none that is known) and its agent has a free slot; it then holds one more slot, of this
  agent only. Otherwise it is refused with 503 for the circuit or 429 for the slots, and no counter has changed.
\<close>

theorem admission_gate:
  "case CheckExecutionPreconditions mon now k ep limiter of (refusal, limiter') \<Rightarrow>
     (refusal = None \<longleftrightarrow>
        circuit_closed mon ep \<and> (MaxPerAgent limiter \<le> 0 \<or> GetRunningCount limiter k < MaxPerAgent limiter)) \<and>
     (\<forall>j. GetRunningCount limiter' j =
        GetRunningCount limiter j + (if j = k \<and> 0 < MaxPerAgent limiter \<and> refusal = None then 1 else 0)) \<and>
     (case refusal of None \<Rightarrow> True | Some e \<Rightarrow> pe_code e = (if circuit_closed mon ep then 429 else 503))"
proof (cases "checkLLMEndpointHealth mon now ep")
  case None
  have ac: "fst (Acquire limiter k) = None \<longleftrightarrow> MaxPerAgent limiter \<le> 0 \<or> GetRunningCount limiter k < MaxPerAgent limiter"
  proof (cases limiter)
    case (Some l)
    then show ?thesis using Acquire_exact [of l k]
      by (cases "0 < cl_maxPerAgent l") (auto simp: MaxPerAgent_def GetRunningCount_def Acquire_def)
  qed (simp add: Acquire_def MaxPerAgent_def)
  have "circuit_closed mon ep" using llm_gate_exact [of mon now ep] None by simp
  then show ?thesis using ac Acquire_count [of limiter k] None
    by (cases "Acquire limiter k") (auto simp: CheckExecutionPreconditions_def split: option.splits)
next
  case (Some e)
  then have "\<not> circuit_closed mon ep" and "pe_code e = 503"
    using llm_gate_exact [of mon now ep] llm_error_code [OF Some] by auto
  then show ?thesis using Some by (simp add: CheckExecutionPreconditions_def)
qed

end
