(* ===== verification/Async_Pool.thy ===== *)
theory Async_Pool
  imports Prelude "HOL-Library.Multiset"
begin

text \<open>
  The worker pool of asynchronous executions (\<open>asyncWorkerPool\<close> in \<open>internal/handlers/execute_helpers.go\<close>): handlers
  reserve a place, submit a job or give the place back; workers take jobs from the queue; a stop closes the queue, waits,
  and after its deadline drains what is left. Each critical section and channel operation is a step, and the steps of
  all goroutines interleave. Jobs are numbers.
\<close>

subsection \<open>Size\<close>

definition resolveIntFromEnv :: "string \<Rightarrow> int \<Rightarrow> int" where
  "resolveIntFromEnv raw fallback =
     (if TrimSpace raw = [] then fallback else case Atoi (TrimSpace raw) of None \<Rightarrow> fallback | Some n \<Rightarrow> n)"

text \<open>The worker count and the queue capacity, from two environment variables and the number of processors.\<close>

definition pool_size :: "string \<Rightarrow> string \<Rightarrow> int \<Rightarrow> nat \<times> nat" where
  "pool_size workers capacity numCPU =
     (let standard = max numCPU 16;
          w = resolveIntFromEnv workers standard; w = (if w \<le> 0 then standard else w);
          q = resolveIntFromEnv capacity 1024; q = (if q \<le> 0 then 1024 else q)
      in (nat w, nat q))"

subsection \<open>State\<close>

text \<open>What a worker does with its job: it has yet to look whether the pool has stopped, it runs it, it ends it
  unstarted, or it has reported it done and has yet to release its reservation.\<close>

datatype phase = Fetched | Processing | Terminating | Ended

text \<open>
  \<open>po_admitting\<close> counts the handlers that hold a reservation and have not submitted; \<open>po_jobs\<close> is the wait group;
  \<open>po_expired\<close> says that the deadline of the stop has passed. The lists \<open>po_accepted\<close>, \<open>po_processed\<close> and
  \<open>po_terminated\<close> record what happened to jobs.
\<close>

record pool =
  po_workers :: nat
  po_capacity :: nat
  po_queue :: "nat list"
  po_reservations :: nat
  po_stopped :: bool
  po_expired :: bool
  po_jobs :: nat
  po_admitting :: nat
  po_running :: "(nat \<times> phase) list"
  po_accepted :: "nat list"
  po_processed :: "nat list"
  po_terminated :: "nat list"

definition newAsyncWorkerPool :: "nat \<Rightarrow> nat \<Rightarrow> pool" where
  "newAsyncWorkerPool workerCount queueCapacity = \<lparr>po_workers = workerCount, po_capacity = workerCount + queueCapacity,
     po_queue = [], po_reservations = 0, po_stopped = False, po_expired = False, po_jobs = 0, po_admitting = 0,
     po_running = [], po_accepted = [], po_processed = [], po_terminated = []\<rparr>"

subsection \<open>Operations\<close>

definition reserveForAdmission :: "pool \<Rightarrow> (bool \<times> bool) \<times> pool" where
  "reserveForAdmission p =
     (if po_stopped p then ((False, True), p)
      else if po_reservations p < po_capacity p
      then ((True, False), p\<lparr>po_reservations := po_reservations p + 1, po_admitting := po_admitting p + 1\<rparr>)
      else ((False, False), p))"

text \<open>A release of an empty channel does nothing.\<close>

definition releaseReservation :: "pool \<Rightarrow> pool" where
  "releaseReservation p = p\<lparr>po_reservations := po_reservations p - 1\<rparr>"

definition give_back :: "pool \<Rightarrow> pool" where
  "give_back p = (releaseReservation p)\<lparr>po_admitting := po_admitting p - 1\<rparr>"

definition submitReserved :: "nat \<Rightarrow> pool \<Rightarrow> bool \<times> pool" where
  "submitReserved j p =
     (if po_stopped p then (False, p)
      else (True, p\<lparr>po_jobs := po_jobs p + 1, po_queue := po_queue p @ [j], po_admitting := po_admitting p - 1,
              po_accepted := po_accepted p @ [j]\<rparr>))"

definition pool_take :: "pool \<Rightarrow> pool" where
  "pool_take p = (case po_queue p of [] \<Rightarrow> p
     | j # js \<Rightarrow> p\<lparr>po_queue := js, po_running := po_running p @ [(j, Fetched)]\<rparr>)"

definition set_phase :: "nat \<Rightarrow> phase \<Rightarrow> pool \<Rightarrow> pool" where
  "set_phase i ph p = p\<lparr>po_running := (po_running p)[i := (fst (po_running p ! i), ph)]\<rparr>"

definition look_stopped :: "nat \<Rightarrow> pool \<Rightarrow> pool" where
  "look_stopped i p = set_phase i (if po_stopped p then Terminating else Processing) p"

text \<open>\<open>jobs.Done()\<close>, once the job has been processed or ended unstarted.\<close>

definition job_done :: "nat \<Rightarrow> pool \<Rightarrow> pool" where
  "job_done i p =
     (let (j, ph) = po_running p ! i; p = (set_phase i Ended p)\<lparr>po_jobs := po_jobs p - 1\<rparr>
      in if ph = Terminating then p\<lparr>po_terminated := po_terminated p @ [j]\<rparr>
         else p\<lparr>po_processed := po_processed p @ [j]\<rparr>)"

definition worker_release :: "nat \<Rightarrow> pool \<Rightarrow> pool" where
  "worker_release i p =
     (releaseReservation p)\<lparr>po_running := take i (po_running p) @ drop (Suc i) (po_running p)\<rparr>"

definition Stop :: "pool \<Rightarrow> pool" where
  "Stop p = p\<lparr>po_stopped := True\<rparr>"

definition stop_expires :: "pool \<Rightarrow> pool" where
  "stop_expires p = p\<lparr>po_expired := True\<rparr>"

definition drain_job :: "pool \<Rightarrow> pool" where
  "drain_job p = (case po_queue p of [] \<Rightarrow> p
     | j # js \<Rightarrow> (releaseReservation p)\<lparr>po_queue := js, po_terminated := po_terminated p @ [j], po_jobs := po_jobs p - 1\<rparr>)"

text \<open>A submission is a send on a channel: it can happen only while the queue has room.\<close>

inductive pool_step :: "pool \<Rightarrow> pool \<Rightarrow> bool" where
  Reserve: "pool_step p (snd (reserveForAdmission p))"
| GiveBack: "0 < po_admitting p \<Longrightarrow> pool_step p (give_back p)"
| Submit: "0 < po_admitting p \<Longrightarrow> length (po_queue p) < po_capacity p \<Longrightarrow> pool_step p (snd (submitReserved j p))"
| Take: "length (po_running p) < po_workers p \<Longrightarrow> po_queue p \<noteq> [] \<Longrightarrow> pool_step p (pool_take p)"
| Look: "i < length (po_running p) \<Longrightarrow> snd (po_running p ! i) = Fetched \<Longrightarrow> pool_step p (look_stopped i p)"
| Done: "i < length (po_running p) \<Longrightarrow> snd (po_running p ! i) = Processing \<or> snd (po_running p ! i) = Terminating \<Longrightarrow> pool_step p (job_done i p)"
| Free: "i < length (po_running p) \<Longrightarrow> snd (po_running p ! i) = Ended \<Longrightarrow> pool_step p (worker_release i p)"
| Stop: "pool_step p (Stop p)"
| Expire: "po_stopped p \<Longrightarrow> pool_step p (stop_expires p)"
| Drain: "po_expired p \<Longrightarrow> po_queue p \<noteq> [] \<Longrightarrow> pool_step p (drain_job p)"

inductive_cases pool_step_elim: "pool_step p p'"

subsection \<open>Places and jobs\<close>

definition active_jobs :: "pool \<Rightarrow> nat list" where
  "active_jobs p = map fst (filter (\<lambda>(j, ph). ph \<noteq> Ended) (po_running p))"

definition pool_ok :: "pool \<Rightarrow> bool" where
  "pool_ok p \<longleftrightarrow> po_reservations p = po_admitting p + length (po_queue p) + length (po_running p) \<and>
     po_reservations p \<le> po_capacity p \<and> length (po_running p) \<le> po_workers p \<and>
     po_jobs p = length (po_queue p) + length (active_jobs p) \<and>
     mset (po_accepted p) = mset (po_queue p) + mset (active_jobs p) + mset (po_processed p) + mset (po_terminated p)"

lemma split_at: "i < length xs \<Longrightarrow> \<exists>as x bs. xs = as @ x # bs \<and> length as = i \<and> xs ! i = x"
  by (intro exI [of _ "take i xs"] exI [of _ "xs ! i"] exI [of _ "drop (Suc i) xs"]) (simp add: id_take_nth_drop)

lemma new_pool_ok: "pool_ok (newAsyncWorkerPool w q)"
  by (simp add: pool_ok_def newAsyncWorkerPool_def active_jobs_def)

lemma pool_step_ok: "pool_step p p' \<Longrightarrow> pool_ok p \<Longrightarrow> pool_ok p'"
proof (erule pool_step_elim)
  assume "pool_ok p" "p' = snd (reserveForAdmission p)"
  then show "pool_ok p'" by (auto simp: pool_ok_def reserveForAdmission_def active_jobs_def)
next
  assume "pool_ok p" "p' = give_back p" "0 < po_admitting p"
  then show "pool_ok p'" by (auto simp: pool_ok_def give_back_def releaseReservation_def active_jobs_def)
next
  fix j assume "pool_ok p" "p' = snd (submitReserved j p)" "0 < po_admitting p"
  then show "pool_ok p'" by (auto simp: pool_ok_def submitReserved_def active_jobs_def)
next
  assume "pool_ok p" "p' = pool_take p" "length (po_running p) < po_workers p" "po_queue p \<noteq> []"
  then show "pool_ok p'" by (auto simp: pool_ok_def pool_take_def active_jobs_def split: list.splits)
next
  fix i assume h: "pool_ok p" "p' = look_stopped i p" "i < length (po_running p)" "snd (po_running p ! i) = Fetched"
  obtain as x bs where r: "po_running p = as @ x # bs" "length as = i" "po_running p ! i = x" using split_at [OF h(3)] by blast
  obtain j where j: "x = (j, Fetched)" using h(4) r(3) by (cases x) auto
  have "active_jobs p' = active_jobs p" using h(2) r j
    by (subst (1 2) active_jobs_def) (auto simp: look_stopped_def set_phase_def list_update_append)
  then show "pool_ok p'" using h by (simp add: pool_ok_def look_stopped_def set_phase_def)
next
  fix i assume h: "pool_ok p" "p' = job_done i p" "i < length (po_running p)" "snd (po_running p ! i) = Processing \<or> snd (po_running p ! i) = Terminating"
  obtain as x bs where r: "po_running p = as @ x # bs" "length as = i" "po_running p ! i = x" using split_at [OF h(3)] by blast
  obtain j ph where j: "x = (j, ph)" "ph \<noteq> Ended" using h(4) r(3) by (cases x) auto
  have "mset (active_jobs p) = add_mset j (mset (active_jobs p'))" "length (active_jobs p) = Suc (length (active_jobs p'))"
    using h(2) r j by (auto simp: active_jobs_def job_done_def set_phase_def list_update_append Let_def)
  then show "pool_ok p'" using h r(3) j by (auto simp: pool_ok_def job_done_def set_phase_def Let_def)
next
  fix i assume h: "pool_ok p" "p' = worker_release i p" "i < length (po_running p)" "snd (po_running p ! i) = Ended"
  obtain as x bs where r: "po_running p = as @ x # bs" "length as = i" "po_running p ! i = x" using split_at [OF h(3)] by blast
  obtain j where j: "x = (j, Ended)" using h(4) r(3) by (cases x) auto
  have run: "po_running p' = as @ bs" unfolding h(2) worker_release_def releaseReservation_def using r(1,2) by simp
  have same: "active_jobs p' = active_jobs p" unfolding active_jobs_def run r(1) j by simp
  have rest: "po_reservations p' = po_reservations p - 1" "po_admitting p' = po_admitting p" "po_queue p' = po_queue p"
    "po_capacity p' = po_capacity p" "po_workers p' = po_workers p" "po_jobs p' = po_jobs p" "po_accepted p' = po_accepted p"
    "po_processed p' = po_processed p" "po_terminated p' = po_terminated p"
    unfolding h(2) worker_release_def releaseReservation_def by simp_all
  show "pool_ok p'" using h(1) unfolding pool_ok_def same rest run r(1) by auto
next
  assume "pool_ok p" "p' = Stop p"
  then show "pool_ok p'" by (simp add: pool_ok_def Stop_def active_jobs_def)
next
  assume "pool_ok p" "p' = stop_expires p"
  then show "pool_ok p'" by (simp add: pool_ok_def stop_expires_def active_jobs_def)
next
  assume "pool_ok p" "p' = drain_job p" "po_queue p \<noteq> []"
  then show "pool_ok p'" by (auto simp: pool_ok_def drain_job_def releaseReservation_def active_jobs_def split: list.splits)
qed

lemma pool_size_kept: "pool_step p p' \<Longrightarrow> po_capacity p' = po_capacity p \<and> po_workers p' = po_workers p"
  by (erule pool_step_elim) (auto simp: reserveForAdmission_def give_back_def releaseReservation_def submitReserved_def
      pool_take_def look_stopped_def set_phase_def job_done_def worker_release_def Stop_def stop_expires_def drain_job_def
      Let_def split: list.splits prod.splits)

lemma pool_steps_ok:
  assumes "pool_step\<^sup>*\<^sup>* (newAsyncWorkerPool w q) p"
  shows "pool_ok p \<and> po_capacity p = w + q \<and> po_workers p = w"
  using assms
proof (induction rule: rtranclp_induct)
  case base
  then show ?case using new_pool_ok by (simp add: newAsyncWorkerPool_def)
next
  case (step p p')
  then show ?case using pool_step_ok pool_size_kept by metis
qed

text \<open>
  C37. The pool bounds its work and loses no job. However handlers, workers and a stop interleave, the admitted work never
  exceeds the workers and the capacity of the queue, and a handler that holds a reservation never blocks on the queue.
  Every accepted job is waiting, with one worker, or has ended, exactly once, as processed or as terminated; and when the
  wait group is at zero, which is what a stop waits for, every accepted job has ended.
\<close>

theorem pool_conserves:
  assumes "pool_step\<^sup>*\<^sup>* (newAsyncWorkerPool w q) p"
  shows "po_admitting p + length (po_queue p) + length (po_running p) \<le> w + q \<and> length (po_running p) \<le> w \<and>
    (0 < po_admitting p \<longrightarrow> length (po_queue p) < w + q) \<and>
    mset (po_accepted p) = mset (po_queue p) + mset (active_jobs p) + mset (po_processed p) + mset (po_terminated p) \<and>
    (po_jobs p = 0 \<longrightarrow> mset (po_accepted p) = mset (po_processed p) + mset (po_terminated p))"
  using pool_steps_ok [OF assms] by (auto simp: pool_ok_def)

theorem pool_conserves_witness:
  "mset (po_accepted (snd (submitReserved 7 (snd (reserveForAdmission (newAsyncWorkerPool 1 1)))))) = {#7#}"
proof -
  let ?p = "newAsyncWorkerPool 1 1"
  have "0 < po_admitting (snd (reserveForAdmission ?p))" "length (po_queue (snd (reserveForAdmission ?p))) < po_capacity (snd (reserveForAdmission ?p))"
    by (simp_all add: reserveForAdmission_def newAsyncWorkerPool_def)
  then have "pool_step\<^sup>*\<^sup>* ?p (snd (submitReserved 7 (snd (reserveForAdmission ?p))))"
    by (meson Reserve Submit rtranclp.rtrancl_into_rtrancl rtranclp.rtrancl_refl)
  from conjunct1 [OF conjunct2 [OF conjunct2 [OF conjunct2 [OF pool_conserves [OF this]]]]]
  show ?thesis by (simp add: submitReserved_def reserveForAdmission_def newAsyncWorkerPool_def active_jobs_def)
qed

text \<open>
  A job that still waits in the queue when the pool is stopped is never processed, however long the stop waits: a worker
  that takes it sees the pool stopped and ends it unstarted.
\<close>

definition doomed :: "nat \<Rightarrow> pool \<Rightarrow> bool" where
  "doomed j p \<longleftrightarrow> po_stopped p \<and> (j, Processing) \<notin> set (po_running p) \<and> j \<notin> set (po_processed p)"

lemma doomed_step: "pool_step p p' \<Longrightarrow> doomed j p \<Longrightarrow> doomed j p'"
proof (erule pool_step_elim)
  fix i assume h: "doomed j p" "p' = look_stopped i p"
  then show "doomed j p'" by (auto simp: doomed_def look_stopped_def set_phase_def dest!: set_update_subset_insert [THEN subsetD])
next
  fix i assume h: "doomed j p" "p' = job_done i p" "i < length (po_running p)" "snd (po_running p ! i) = Processing \<or> snd (po_running p ! i) = Terminating"
  obtain j' ph where r: "po_running p ! i = (j', ph)" "(j', ph) \<in> set (po_running p)"
    using nth_mem [OF h(3)] by (metis prod.collapse)
  then have "j' \<noteq> j" if "ph \<noteq> Terminating" using h(1,4) that by (auto simp: doomed_def)
  then show "doomed j p'" using h(1,2) r
    by (auto simp: doomed_def job_done_def set_phase_def Let_def dest!: set_update_subset_insert [THEN subsetD])
next
  fix i assume h: "doomed j p" "p' = worker_release i p"
  then show "doomed j p'" by (auto simp: doomed_def worker_release_def releaseReservation_def dest: in_set_takeD in_set_dropD)
qed (auto simp: doomed_def reserveForAdmission_def give_back_def releaseReservation_def submitReserved_def pool_take_def
    Stop_def stop_expires_def drain_job_def split: list.splits if_splits)

lemma queued_at_stop_not_processed:
  assumes "pool_step\<^sup>*\<^sup>* p p'" and "po_stopped p" and "(j, Processing) \<notin> set (po_running p)" and "j \<notin> set (po_processed p)"
  shows "j \<notin> set (po_processed p')"
proof -
  have "doomed j p" using assms by (simp add: doomed_def)
  from assms(1) this have "doomed j p'" by (induction rule: rtranclp_induct) (auto intro: doomed_step)
  then show ?thesis by (simp add: doomed_def)
qed

end
