(* ===== verification/Run_Metadata.thy ===== *)
theory Run_Metadata
  imports Exec_Query Outbound "HOL-Library.AList"
begin

text \<open>
  The name, labels and links of a run (\<open>internal/handlers/run_metadata.go\<close>, \<open>pkg/types/run_metadata.go\<close>) and the
  metadata column they are stored in (\<open>UpdateWorkflowRunMetadata\<close> in \<open>internal/storage/local.go\<close>): an object of
  namespaces of which this code owns one. The JSON encoder and decoder are parameters, strings are byte strings.
\<close>

subsection \<open>UTF-8\<close>

definition continuation :: "char \<Rightarrow> bool" where
  "continuation c \<longleftrightarrow> 128 \<le> (of_char c :: nat) \<and> (of_char c :: nat) < 192"

text \<open>\<open>utf8.ValidString\<close>: after a lead byte its first continuation byte has a range of its own.\<close>

definition utf8_second :: "nat \<Rightarrow> nat \<Rightarrow> bool" where
  "utf8_second lead b \<longleftrightarrow>
     (if lead = 224 then 160 else if lead = 240 then 144 else 128) \<le> b \<and>
     b < (if lead = 237 then 160 else if lead = 244 then 144 else 192)"

fun ValidString :: "string \<Rightarrow> bool" where
  "ValidString [] = True"
| "ValidString (c # s) =
     (let n = (of_char c :: nat)
      in if n < 128 then ValidString s
         else if 194 \<le> n \<and> n < 224
         then (case s of a # s' \<Rightarrow> utf8_second n (of_char a) \<and> ValidString s' | _ \<Rightarrow> False)
         else if 224 \<le> n \<and> n < 240
         then (case s of a # b # s' \<Rightarrow> utf8_second n (of_char a) \<and> continuation b \<and> ValidString s' | _ \<Rightarrow> False)
         else if 240 \<le> n \<and> n < 245
         then (case s of a # b # d # s' \<Rightarrow> utf8_second n (of_char a) \<and> continuation b \<and> continuation d \<and> ValidString s'
               | _ \<Rightarrow> False)
         else False)"

text \<open>\<open>utf8.RuneCountInString\<close> of a valid string: its bytes that do not continue a rune.\<close>

definition RuneCount :: "string \<Rightarrow> nat" where
  "RuneCount s = length (filter (\<lambda>c. \<not> continuation c) s)"

subsection \<open>Metadata and patches\<close>

definition MaxRunDisplayNameRunes :: nat where "MaxRunDisplayNameRunes = 200"
definition MaxRunLabels :: nat where "MaxRunLabels = 20"
definition MaxRunLabelRunes :: nat where "MaxRunLabelRunes = 64"
definition MaxRunLinks :: nat where "MaxRunLinks = 10"
definition MaxRunLinkLabelRunes :: nat where "MaxRunLinkLabelRunes = 64"
definition MaxRunLinkURLBytes :: nat where "MaxRunLinkURLBytes = 2048"
definition MaxRunMetadataSetByRunes :: nat where "MaxRunMetadataSetByRunes = 200"

lemmas metadata_bounds = MaxRunDisplayNameRunes_def MaxRunLabels_def MaxRunLabelRunes_def MaxRunLinks_def
  MaxRunLinkLabelRunes_def MaxRunLinkURLBytes_def MaxRunMetadataSetByRunes_def

record RunMetadataLink =
  rl_Label :: string
  rl_URL :: string

record RunMetadata =
  rm_DisplayName :: string
  rm_Labels :: "string list"
  rm_Links :: "RunMetadataLink list"
  rm_SetBy :: string
  rm_UpdatedAt :: "instant option"

definition no_metadata :: RunMetadata where
  "no_metadata = \<lparr>rm_DisplayName = [], rm_Labels = [], rm_Links = [], rm_SetBy = [], rm_UpdatedAt = None\<rparr>"

text \<open>A member of a patch: left out, \<open>null\<close>, a value, or a JSON text of another type.\<close>

datatype 'a patch = Absent | Null | Set_To 'a | Mistyped

record RunMetadataInput =
  ri_DisplayName :: "string patch"
  ri_Labels :: "string list patch"
  ri_Links :: "RunMetadataLink list patch"

definition ValidateRunLinkURL :: "(string \<Rightarrow> string + parsed_url) \<Rightarrow> string \<Rightarrow> string option" where
  "ValidateRunLinkURL parse raw =
     (if MaxRunLinkURLBytes < length raw then Some (''url exceeds '' @ show_nat MaxRunLinkURLBytes @ '' bytes'')
      else case parse raw of
        Inl e \<Rightarrow> Some (''invalid url: '' @ e)
      | Inr u \<Rightarrow>
          if pu_Scheme u \<noteq> ''http'' \<and> pu_Scheme u \<noteq> ''https'' then Some ''url scheme must be http or https''
          else if pu_Host u = [] then Some ''url must include a host''
          else if pu_User u then Some ''url must not include credentials''
          else None)"

definition apply_name :: "string patch \<Rightarrow> RunMetadata \<Rightarrow> string + RunMetadata" where
  "apply_name p cur =
     (case p of
        Absent \<Rightarrow> Inr cur
      | Null \<Rightarrow> Inr (cur\<lparr>rm_DisplayName := []\<rparr>)
      | Mistyped \<Rightarrow> Inl ''display_name must be a string''
      | Set_To raw \<Rightarrow>
          (let v = TrimSpace raw
           in if MaxRunDisplayNameRunes < RuneCount v
              then Inl (''display_name exceeds '' @ show_nat MaxRunDisplayNameRunes @ '' runes'')
              else Inr (cur\<lparr>rm_DisplayName := v\<rparr>)))"

fun collect_labels :: "string list \<Rightarrow> string list \<Rightarrow> string + string list" where
  "collect_labels acc [] = Inr acc"
| "collect_labels acc (raw # rest) =
     (let v = TrimSpace raw
      in if MaxRunLabelRunes < RuneCount v then Inl (''label exceeds '' @ show_nat MaxRunLabelRunes @ '' runes'')
         else if v = [] \<or> v \<in> set acc then collect_labels acc rest
         else collect_labels (acc @ [v]) rest)"

definition apply_labels :: "string list patch \<Rightarrow> RunMetadata \<Rightarrow> string + RunMetadata" where
  "apply_labels p cur =
     (case p of
        Absent \<Rightarrow> Inr cur
      | Null \<Rightarrow> Inr (cur\<lparr>rm_Labels := []\<rparr>)
      | Mistyped \<Rightarrow> Inl ''labels must be an array of strings''
      | Set_To values \<Rightarrow>
          if MaxRunLabels < length values then Inl (''labels exceeds '' @ show_nat MaxRunLabels @ '' items'')
          else (case collect_labels [] values of Inl e \<Rightarrow> Inl e | Inr ls \<Rightarrow> Inr (cur\<lparr>rm_Labels := ls\<rparr>)))"

fun check_links :: "(string \<Rightarrow> string + parsed_url) \<Rightarrow> RunMetadataLink list \<Rightarrow> string + RunMetadataLink list" where
  "check_links parse [] = Inr []"
| "check_links parse (l # rest) =
     (let l = l\<lparr>rl_Label := TrimSpace (rl_Label l)\<rparr>
      in if MaxRunLinkLabelRunes < RuneCount (rl_Label l)
         then Inl (''link label exceeds '' @ show_nat MaxRunLinkLabelRunes @ '' runes'')
         else case ValidateRunLinkURL parse (rl_URL l) of
             Some e \<Rightarrow> Inl (''invalid link url: '' @ e)
           | None \<Rightarrow> (case check_links parse rest of Inl e \<Rightarrow> Inl e | Inr ls \<Rightarrow> Inr (l # ls)))"

definition apply_links ::
    "(string \<Rightarrow> string + parsed_url) \<Rightarrow> RunMetadataLink list patch \<Rightarrow> RunMetadata \<Rightarrow> string + RunMetadata" where
  "apply_links parse p cur =
     (case p of
        Absent \<Rightarrow> Inr cur
      | Null \<Rightarrow> Inr (cur\<lparr>rm_Links := []\<rparr>)
      | Mistyped \<Rightarrow> Inl ''links must be an array of links''
      | Set_To links \<Rightarrow>
          if MaxRunLinks < length links then Inl (''links exceeds '' @ show_nat MaxRunLinks @ '' items'')
          else (case check_links parse links of Inl e \<Rightarrow> Inl e | Inr ls \<Rightarrow> Inr (cur\<lparr>rm_Links := ls\<rparr>)))"

definition applyRunMetadataInput ::
    "(string \<Rightarrow> string + parsed_url) \<Rightarrow> RunMetadata \<Rightarrow> RunMetadataInput \<Rightarrow> string + RunMetadata" where
  "applyRunMetadataInput parse current patch =
     (case apply_name (ri_DisplayName patch) current of
        Inl e \<Rightarrow> Inl e
      | Inr current \<Rightarrow>
          (case apply_labels (ri_Labels patch) current of
             Inl e \<Rightarrow> Inl e
           | Inr current \<Rightarrow> apply_links parse (ri_Links patch) current))"

definition normalizeRunMetadataActor :: "string \<Rightarrow> string + string" where
  "normalizeRunMetadataActor raw =
     (let actor = TrimSpace raw
      in if actor = [] then Inr ''api''
         else if \<not> ValidString actor then Inl ''X-Actor-ID must be valid UTF-8''
         else if MaxRunMetadataSetByRunes < RuneCount actor
         then Inl (''X-Actor-ID exceeds '' @ show_nat MaxRunMetadataSetByRunes @ '' runes'')
         else Inr actor)"

subsection \<open>The metadata column\<close>

text \<open>
  The runs that have a row, each with its namespaces (name, JSON text). \<open>md_enc\<close> and \<open>md_dec\<close> are the encoder and
  the decoder of one namespace: the decoder
  also says whether it met an error, which leaves the members it could read. \<open>md_valid\<close> is \<open>json.Valid\<close>.
\<close>

type_synonym namespaces = "(string \<times> string) list"
type_synonym runs = "(string \<times> namespaces) list"

record metadata_codec =
  md_enc :: "RunMetadata \<Rightarrow> string"
  md_dec :: "string \<Rightarrow> bool \<times> RunMetadata"
  md_valid :: "string \<Rightarrow> bool"
  md_parse :: "string \<Rightarrow> string + parsed_url"

definition RunMetadataNamespace :: string where "RunMetadataNamespace = ''run''"

definition namespaces_of :: "runs \<Rightarrow> string \<Rightarrow> namespaces" where
  "namespaces_of t runID = (case map_of t runID of None \<Rightarrow> [] | Some ns \<Rightarrow> ns)"

definition UpdateWorkflowRunMetadata ::
    "metadata_codec \<Rightarrow> string \<Rightarrow> (namespaces \<Rightarrow> goerr + (namespaces \<times> 'c)) \<Rightarrow> runs \<Rightarrow> (goerr + 'c) \<times> runs" where
  "UpdateWorkflowRunMetadata mc runID mutate t =
     (let runID = TrimSpace runID
      in if runID = [] then (Inl (Errorf ''run_id cannot be empty''), t)
         else case mutate (namespaces_of t runID) of
             Inl e \<Rightarrow> (Inl e, t)
           | Inr (ns, c) \<Rightarrow>
               (case find (\<lambda>(_, raw). \<not> md_valid mc raw) ns of
                  Some (k, _) \<Rightarrow> (Inl (Errorf (''metadata namespace '' @ go_quote k @ '' is invalid JSON'')), t)
                | None \<Rightarrow> (Inr c, AList.update runID ns t)))"

text \<open>The transaction on the rows of the store.\<close>

definition update_run :: "metadata_codec \<Rightarrow> string \<Rightarrow> (namespaces \<Rightarrow> goerr + (namespaces \<times> 'c)) \<Rightarrow> (goerr + 'c) proc" where
  "update_run mc runID mutate = db_call (\<lambda>d. case UpdateWorkflowRunMetadata mc runID mutate (run_rows d) of
     (r, t) \<Rightarrow> (r, d\<lparr>run_rows := t\<rparr>))"

text \<open>What a stored run is known as: \<open>ParseRunMetadata\<close> of its column.\<close>

definition ParseRunMetadata :: "metadata_codec \<Rightarrow> namespaces \<Rightarrow> RunMetadata option" where
  "ParseRunMetadata mc ns =
     (case map_of ns RunMetadataNamespace of
        None \<Rightarrow> None
      | Some raw \<Rightarrow> (case TrimSpace raw of
            [] \<Rightarrow> None
          | c # s \<Rightarrow> if c = CHR ''{'' \<and> fst (md_dec mc raw) then Some (snd (md_dec mc raw)) else None))"

definition current_metadata :: "metadata_codec \<Rightarrow> namespaces \<Rightarrow> RunMetadata" where
  "current_metadata mc ns =
     (case map_of ns RunMetadataNamespace of None \<Rightarrow> no_metadata | Some raw \<Rightarrow> snd (md_dec mc raw))"

definition set_metadata ::
    "metadata_codec \<Rightarrow> string \<Rightarrow> instant \<Rightarrow> RunMetadataInput \<Rightarrow> namespaces \<Rightarrow> goerr + (namespaces \<times> RunMetadata)" where
  "set_metadata mc actor now patch ns =
     (case applyRunMetadataInput (md_parse mc) (current_metadata mc ns) patch of
        Inl e \<Rightarrow> Inl (Errorf e)
      | Inr merged \<Rightarrow>
          (let merged = merged\<lparr>rm_SetBy := actor, rm_UpdatedAt := Some now\<rparr>
           in if rm_DisplayName merged = [] \<and> rm_Labels merged = [] \<and> rm_Links merged = []
              then Inr (AList.delete RunMetadataNamespace ns, merged)
              else Inr (AList.update RunMetadataNamespace (md_enc mc merged) ns, merged)))"

text \<open>The same step for the metadata an execute request carries, which keeps an empty namespace.\<close>

definition store_metadata ::
    "metadata_codec \<Rightarrow> string \<Rightarrow> instant \<Rightarrow> RunMetadataInput \<Rightarrow> namespaces \<Rightarrow> goerr + (namespaces \<times> RunMetadata)" where
  "store_metadata mc actor now patch ns =
     (case applyRunMetadataInput (md_parse mc) (current_metadata mc ns) patch of
        Inl e \<Rightarrow> Inl (Errorf e)
      | Inr merged \<Rightarrow>
          (let merged = merged\<lparr>rm_SetBy := actor, rm_UpdatedAt := Some now\<rparr>
           in Inr (AList.update RunMetadataNamespace (md_enc mc merged) ns, merged)))"

definition persistExecuteRunMetadata ::
    "metadata_codec \<Rightarrow> string \<Rightarrow> instant \<Rightarrow> RunMetadataInput \<Rightarrow> string option \<Rightarrow> runs \<Rightarrow> runs" where
  "persistExecuteRunMetadata mc runID now patch actorID t =
     (case normalizeRunMetadataActor (case actorID of None \<Rightarrow> [] | Some a \<Rightarrow> a) of
        Inl _ \<Rightarrow> t
      | Inr actor \<Rightarrow> snd (UpdateWorkflowRunMetadata mc runID (store_metadata mc actor now patch) t))"

subsection \<open>The request\<close>

definition metadata_reply :: "RunMetadata \<Rightarrow> (string \<times> json) list" where
  "metadata_reply m =
     (if rm_DisplayName m = [] then [] else [(''display_name'', JStr (rm_DisplayName m))]) @
     (if rm_Labels m = [] then [] else [(''labels'', JArr (map JStr (rm_Labels m)))]) @
     (if rm_Links m = [] then [] else [(''links'', JArr (map (\<lambda>l. JObj
        ((if rl_Label l = [] then [] else [(''label'', JStr (rl_Label l))]) @ [(''url'', JStr (rl_URL l))])) (rm_Links m)))]) @
     (if rm_SetBy m = [] then [] else [(''set_by'', JStr (rm_SetBy m))]) @
     (case rm_UpdatedAt m of None \<Rightarrow> [] | Some t \<Rightarrow> [(''updated_at'', JTime t)])"

text \<open>The body of a request: too large, not JSON, or a patch.\<close>

datatype metadata_body = TooLarge | NotJSON string | Patch RunMetadataInput

definition SetRunMetadataHandler ::
    "metadata_codec \<Rightarrow> string \<Rightarrow> metadata_body \<Rightarrow> string \<Rightarrow> reply proc" where
  "SetRunMetadataHandler mc param b actorHeader =
     (let runID = TrimSpace param; answer = (\<lambda>n m. State_Monad.return (JSONreply n [(''error'', JStr m)]))
      in if runID = [] then answer 400 ''run_id is required''
         else case b of
             TooLarge \<Rightarrow> answer 413 ''request body too large''
           | NotJSON e \<Rightarrow> answer 400 (''invalid request body: '' @ e)
           | Patch patch \<Rightarrow>
               (case applyRunMetadataInput (md_parse mc) no_metadata patch of
                  Inl e \<Rightarrow> answer 400 e
                | Inr _ \<Rightarrow> do {
                    got \<leftarrow> QueryExecutionRecords (no_filter\<lparr>fl_RunID := Some runID, fl_Limit := 1\<rparr>);
                    now \<leftarrow> time_Now;
                    case got of
                      Inl e \<Rightarrow> answer 500 (err_msg e)
                    | Inr [] \<Rightarrow> answer 404 ''workflow run not found''
                    | Inr (_ # _) \<Rightarrow>
                        (case normalizeRunMetadataActor actorHeader of
                           Inl e \<Rightarrow> answer 400 e
                         | Inr actor \<Rightarrow> do {
                             r \<leftarrow> update_run mc runID (set_metadata mc actor now patch);
                             case r of
                               Inl e \<Rightarrow> answer 500 (err_msg e)
                             | Inr merged \<Rightarrow> State_Monad.return (JSONreply 200 (metadata_reply merged))
                           })
                  }))"

subsection \<open>Bounds\<close>

definition link_ok :: "(string \<Rightarrow> string + parsed_url) \<Rightarrow> RunMetadataLink \<Rightarrow> bool" where
  "link_ok parse l \<longleftrightarrow> RuneCount (rl_Label l) \<le> 64 \<and> length (rl_URL l) \<le> 2048 \<and>
     (\<exists>u. parse (rl_URL l) = Inr u \<and> (pu_Scheme u = ''http'' \<or> pu_Scheme u = ''https'') \<and> pu_Host u \<noteq> [] \<and> \<not> pu_User u)"

definition label_ok :: "string \<Rightarrow> bool" where
  "label_ok l \<longleftrightarrow> l \<noteq> [] \<and> TrimSpace l = l \<and> RuneCount l \<le> 64"

definition metadata_ok :: "(string \<Rightarrow> string + parsed_url) \<Rightarrow> RunMetadata \<Rightarrow> bool" where
  "metadata_ok parse m \<longleftrightarrow> RuneCount (rm_DisplayName m) \<le> 200 \<and>
     length (rm_Labels m) \<le> 20 \<and> distinct (rm_Labels m) \<and> list_all label_ok (rm_Labels m) \<and>
     length (rm_Links m) \<le> 10 \<and> list_all (link_ok parse) (rm_Links m)"

lemma no_metadata_ok: "metadata_ok parse no_metadata"
  by (simp add: metadata_ok_def no_metadata_def RuneCount_def)

lemma collect_labels_ok:
  "collect_labels acc raws = Inr ls \<Longrightarrow> distinct acc \<Longrightarrow> list_all label_ok acc \<Longrightarrow>
     distinct ls \<and> list_all label_ok ls \<and> length ls \<le> length acc + length raws"
proof (induction raws arbitrary: acc)
  case (Cons raw raws)
  have small: "\<not> MaxRunLabelRunes < RuneCount (TrimSpace raw)" using Cons.prems(1) by (auto simp: Let_def)
  show ?case
  proof (cases "TrimSpace raw = [] \<or> TrimSpace raw \<in> set acc")
    case True
    then have "collect_labels acc raws = Inr ls" using Cons.prems(1) small by (auto simp: Let_def split: if_splits)
    from Cons.IH [OF this Cons.prems(2,3)] show ?thesis by simp
  next
    case False
    then have "collect_labels (acc @ [TrimSpace raw]) raws = Inr ls" "label_ok (TrimSpace raw)"
      using Cons.prems(1) small by (simp_all add: Let_def label_ok_def metadata_bounds)
    then show ?thesis using Cons.IH [of "acc @ [TrimSpace raw]"] False Cons.prems(2,3) by simp
  qed
qed simp

lemma valid_link: "ValidateRunLinkURL parse (rl_URL l) = None \<Longrightarrow> RuneCount (rl_Label l) \<le> MaxRunLinkLabelRunes \<Longrightarrow> link_ok parse l"
  by (auto simp: ValidateRunLinkURL_def link_ok_def metadata_bounds split: if_splits sum.splits)

lemma check_links_ok: "check_links parse ls = Inr ls' \<Longrightarrow> list_all (link_ok parse) ls' \<and> length ls' = length ls"
proof (induction ls arbitrary: ls')
  case (Cons l ls)
  let ?l = "l\<lparr>rl_Label := TrimSpace (rl_Label l)\<rparr>"
  have r: "RuneCount (rl_Label ?l) \<le> MaxRunLinkLabelRunes" and v: "ValidateRunLinkURL parse (rl_URL ?l) = None"
    using Cons.prems by (auto simp: Let_def split: if_splits option.splits)
  obtain rest where rest: "check_links parse ls = Inr rest" "ls' = ?l # rest"
    using Cons.prems r v by (auto simp: Let_def split: sum.splits)
  show ?case using Cons.IH [OF rest(1)] rest(2) valid_link [OF v r] by simp
qed simp

lemma apply_parts_ok:
  "apply_name p m = Inr m' \<Longrightarrow> metadata_ok parse m \<Longrightarrow> metadata_ok parse m'"
  "apply_labels q m = Inr m' \<Longrightarrow> metadata_ok parse m \<Longrightarrow> metadata_ok parse m'"
  "apply_links parse r m = Inr m' \<Longrightarrow> metadata_ok parse m \<Longrightarrow> metadata_ok parse m'"
  by (auto simp: apply_name_def apply_labels_def apply_links_def metadata_ok_def Let_def RuneCount_def metadata_bounds
      split: patch.splits if_splits sum.splits dest!: collect_labels_ok check_links_ok)

lemma apply_ok:
  assumes "applyRunMetadataInput parse m patch = Inr m'" and "metadata_ok parse m"
  shows "metadata_ok parse m'"
  using assms apply_parts_ok by (auto simp: applyRunMetadataInput_def split: sum.splits)

text \<open>Each member of the result comes from its own member of the patch.\<close>

lemma apply_parts_frame:
  "apply_name p m = Inr m' \<Longrightarrow> m' = m\<lparr>rm_DisplayName := rm_DisplayName m'\<rparr>"
  "apply_labels q m = Inr m' \<Longrightarrow> m' = m\<lparr>rm_Labels := rm_Labels m'\<rparr>"
  "apply_links parse r m = Inr m' \<Longrightarrow> m' = m\<lparr>rm_Links := rm_Links m'\<rparr>"
  by (auto simp: apply_name_def apply_labels_def apply_links_def Let_def split: patch.splits if_splits sum.splits)

subsection \<open>Histories of patches\<close>

text \<open>A write of the metadata of a run: by the metadata request or by an execute request.\<close>

datatype metadata_write =
    SetWrite (mw_run: string) (mw_actor: string) (mw_now: instant) (mw_patch: RunMetadataInput)
  | ExecuteWrite (mw_run: string) (mw_header: "string option") (mw_now: instant) (mw_patch: RunMetadataInput)

fun write_metadata :: "metadata_codec \<Rightarrow> metadata_write \<Rightarrow> runs \<Rightarrow> runs" where
  "write_metadata mc (SetWrite k actor now patch) t = snd (UpdateWorkflowRunMetadata mc k (set_metadata mc actor now patch) t)"
| "write_metadata mc (ExecuteWrite k actor now patch) t = persistExecuteRunMetadata mc k now patch actor t"

definition runs_ok :: "metadata_codec \<Rightarrow> runs \<Rightarrow> bool" where
  "runs_ok mc t \<longleftrightarrow> (\<forall>k. metadata_ok (md_parse mc) (current_metadata mc (namespaces_of t k)))"

definition others_kept :: "runs \<Rightarrow> runs \<Rightarrow> bool" where
  "others_kept t t' \<longleftrightarrow> (\<forall>k n. n \<noteq> RunMetadataNamespace \<longrightarrow>
     map_of (namespaces_of t' k) n = map_of (namespaces_of t k) n)"

lemma namespaces_update: "namespaces_of (AList.update k ns t) j = (if j = k then ns else namespaces_of t j)"
  by (simp add: namespaces_of_def update_conv')

lemma update_metadata_cases:
  "(\<exists>e. UpdateWorkflowRunMetadata mc k mutate t = (Inl e, t)) \<or>
   (\<exists>ns c. mutate (namespaces_of t (TrimSpace k)) = Inr (ns, c) \<and>
      UpdateWorkflowRunMetadata mc k mutate t = (Inr c, AList.update (TrimSpace k) ns t))"
  by (simp add: UpdateWorkflowRunMetadata_def Let_def split: if_split sum.split option.split prod.split)

definition sound_codec :: "metadata_codec \<Rightarrow> bool" where
  "sound_codec mc \<longleftrightarrow> (\<forall>m. snd (md_dec mc (md_enc mc m)) = m)"

lemma merge_ok:
  assumes "sound_codec mc" and "set_metadata mc actor now patch ns = Inr (ns', m) \<or> store_metadata mc actor now patch ns = Inr (ns', m)"
    and "metadata_ok (md_parse mc) (current_metadata mc ns)"
  shows "metadata_ok (md_parse mc) (current_metadata mc ns') \<and>
    (\<forall>n. n \<noteq> RunMetadataNamespace \<longrightarrow> map_of ns' n = map_of ns n)"
proof -
  obtain m0 where m0: "applyRunMetadataInput (md_parse mc) (current_metadata mc ns) patch = Inr m0"
    using assms(2) by (auto simp: set_metadata_def store_metadata_def split: sum.splits)
  let ?m = "m0\<lparr>rm_SetBy := actor, rm_UpdatedAt := Some now\<rparr>"
  have "metadata_ok (md_parse mc) ?m" using apply_ok [OF m0 assms(3)] by (simp add: metadata_ok_def)
  moreover have "ns' = AList.delete RunMetadataNamespace ns \<or> ns' = AList.update RunMetadataNamespace (md_enc mc ?m) ns"
    using assms(2) m0 by (auto simp: set_metadata_def store_metadata_def Let_def split: if_splits)
  ultimately show ?thesis
    using assms(1) no_metadata_ok
    by (auto simp: current_metadata_def sound_codec_def delete_conv' update_conv')
qed

lemma merged_ok:
  assumes "sound_codec mc" and "runs_ok mc t"
    and "f = set_metadata mc actor now patch \<or> f = store_metadata mc actor now patch"
  shows "runs_ok mc (snd (UpdateWorkflowRunMetadata mc k f t)) \<and> others_kept t (snd (UpdateWorkflowRunMetadata mc k f t))"
  using update_metadata_cases [of mc k f t]
proof (elim disjE exE conjE)
  fix e assume "UpdateWorkflowRunMetadata mc k f t = (Inl e, t)"
  then show ?thesis using assms(2) by (simp add: others_kept_def)
next
  fix ns c
  assume 2: "f (namespaces_of t (TrimSpace k)) = Inr (ns, c)"
    "UpdateWorkflowRunMetadata mc k f t = (Inr c, AList.update (TrimSpace k) ns t)"
  then have "metadata_ok (md_parse mc) (current_metadata mc ns) \<and>
      (\<forall>n. n \<noteq> RunMetadataNamespace \<longrightarrow> map_of ns n = map_of (namespaces_of t (TrimSpace k)) n)"
    using assms(2,3) by (intro merge_ok [OF assms(1), of actor now patch]) (auto simp: runs_ok_def)
  with 2 assms(2) show ?thesis by (auto simp: runs_ok_def others_kept_def namespaces_update)
qed

lemma write_ok:
  assumes "sound_codec mc" and "runs_ok mc t"
  shows "runs_ok mc (write_metadata mc op t) \<and> others_kept t (write_metadata mc op t)"
proof (cases op)
  case (SetWrite k actor now patch)
  then show ?thesis using merged_ok [OF assms disjI1 [OF refl]] by simp
next
  case (ExecuteWrite k actor now patch)
  show ?thesis
  proof (cases "normalizeRunMetadataActor (case actor of None \<Rightarrow> [] | Some a \<Rightarrow> a)")
    case (Inl e)
    then show ?thesis using ExecuteWrite assms(2) by (simp add: persistExecuteRunMetadata_def others_kept_def)
  next
    case (Inr a)
    then show ?thesis using ExecuteWrite merged_ok [OF assms disjI2 [OF refl]] by (simp add: persistExecuteRunMetadata_def)
  qed
qed


text \<open>A codec that is an inverse, to see that there is one: counts in unary, every list after its length.\<close>

definition wr_nat :: "nat \<Rightarrow> string" where "wr_nat n = replicate n (CHR ''1'') @ ''0''"

definition rd_nat :: "string \<Rightarrow> nat \<times> string" where
  "rd_nat s = (length (takeWhile (\<lambda>c. c = CHR ''1'') s), drop 1 (dropWhile (\<lambda>c. c = CHR ''1'') s))"

definition wr_str :: "string \<Rightarrow> string" where "wr_str s = wr_nat (length s) @ s"

definition rd_str :: "string \<Rightarrow> string \<times> string" where
  "rd_str s = (case rd_nat s of (n, s) \<Rightarrow> (take n s, drop n s))"

fun rd_many :: "(string \<Rightarrow> 'a \<times> string) \<Rightarrow> nat \<Rightarrow> string \<Rightarrow> 'a list \<times> string" where
  "rd_many rd 0 s = ([], s)"
| "rd_many rd (Suc n) s = (case rd s of (x, s) \<Rightarrow> (case rd_many rd n s of (xs, s) \<Rightarrow> (x # xs, s)))"

definition wr_list :: "('a \<Rightarrow> string) \<Rightarrow> 'a list \<Rightarrow> string" where
  "wr_list wr xs = wr_nat (length xs) @ concat (map wr xs)"

definition rd_list :: "(string \<Rightarrow> 'a \<times> string) \<Rightarrow> string \<Rightarrow> 'a list \<times> string" where
  "rd_list rd s = (case rd_nat s of (n, s) \<Rightarrow> rd_many rd n s)"

definition wr_link :: "RunMetadataLink \<Rightarrow> string" where "wr_link l = wr_str (rl_Label l) @ wr_str (rl_URL l)"

definition rd_link :: "string \<Rightarrow> RunMetadataLink \<times> string" where
  "rd_link s = (case rd_str s of (a, s) \<Rightarrow> (case rd_str s of (b, s) \<Rightarrow> (\<lparr>rl_Label = a, rl_URL = b\<rparr>, s)))"

definition wr_time :: "instant option \<Rightarrow> string" where
  "wr_time t = (case t of None \<Rightarrow> wr_nat 0 | Some i \<Rightarrow> wr_nat 1 @ wr_nat (nat i) @ wr_nat (nat (- i)))"

definition rd_time :: "string \<Rightarrow> instant option \<times> string" where
  "rd_time s = (case rd_nat s of (n, s) \<Rightarrow>
     if n = 0 then (None, s) else (case rd_nat s of (a, s) \<Rightarrow> (case rd_nat s of (b, s) \<Rightarrow> (Some (int a - int b), s))))"

definition demo_codec :: metadata_codec where
  "demo_codec = \<lparr>
     md_enc = (\<lambda>m. wr_str (rm_DisplayName m) @ wr_list wr_str (rm_Labels m) @ wr_list wr_link (rm_Links m) @
       wr_str (rm_SetBy m) @ wr_time (rm_UpdatedAt m)),
     md_dec = (\<lambda>s. (True, case rd_str s of (a, s) \<Rightarrow> (case rd_list rd_str s of (b, s) \<Rightarrow>
       (case rd_list rd_link s of (c, s) \<Rightarrow> (case rd_str s of (d, s) \<Rightarrow> (case rd_time s of (e, s) \<Rightarrow>
       \<lparr>rm_DisplayName = a, rm_Labels = b, rm_Links = c, rm_SetBy = d, rm_UpdatedAt = e\<rparr>)))))),
     md_valid = (\<lambda>_. True),
     md_parse = (\<lambda>s. Inr \<lparr>pu_Scheme = ''https'', pu_Host = s, pu_Hostname = s, pu_User = False, pu_String = s\<rparr>)\<rparr>"

lemma rd_wr_nat [simp]: "rd_nat (wr_nat n @ r) = (n, r)"
  by (induction n) (auto simp: rd_nat_def wr_nat_def)

lemma rd_wr_nat_end [simp]: "rd_nat (wr_nat n) = (n, [])"
  using rd_wr_nat [of n "[]"] by simp

lemma rd_wr_str [simp]: "rd_str (wr_str s @ r) = (s, r)"
  by (simp add: rd_str_def wr_str_def)

lemma rd_wr_list [simp]:
  assumes "\<And>x r. rd (wr x @ r) = (x, r)"
  shows "rd_list rd (wr_list wr xs @ r) = (xs, r)"
proof -
  have "rd_many rd (length xs) (concat (map wr xs) @ r) = (xs, r)" by (induction xs) (simp_all add: assms)
  then show ?thesis by (simp add: rd_list_def wr_list_def)
qed

lemma rd_wr_link [simp]: "rd_link (wr_link l @ r) = (l, r)"
  by (simp add: rd_link_def wr_link_def)

lemma rd_wr_time: "rd_time (wr_time t) = (t, [])"
  by (auto simp: rd_time_def wr_time_def split: option.splits)

lemma demo_codec_sound: "snd (md_dec demo_codec (md_enc demo_codec m)) = m"
  by (simp add: demo_codec_def rd_wr_time)


end
