(* ===== verification/Dispatch.thy ===== *)
theory Dispatch
  imports Routing Admission Async_Pool Run_Metadata Permission
begin

text \<open>
  The dispatch of an execution (\<open>internal/handlers/execute_prepare.go\<close>, \<open>execute.go\<close>, \<open>execute_helpers.go\<close>,
  \<open>execute_lifecycle.go\<close>, \<open>execute_agent_restart.go\<close>): the preparation with its admission and its rows, the call of
  the node across restarts, pauses and cancellations, the synchronous and the asynchronous handler and the job of the
  worker pool.

  A handler runs on the execution tables as every handler does (\<open>Exec_Store\<close>). What else it looks at while others
  act (the node table, the restart configuration, the admission gate, the worker pool, the answer of the node) is an
  observation, arbitrary at each step. The external-model calls that \<open>handleSync\<close> tries first are not modelled.
\<close>

subsection \<open>What a dispatch observes\<close>

text \<open>
  The answer of a node: a status with a body or the error of reading it; no connection; or a request that failed on a
  connection. A wait is woken by polls and events until its context ends with an error, or its timer fires.
\<close>

datatype http_answer = Responded int "exec_error + string" | NotConnected exec_error | CallFailed exec_error

datatype wake = Ticked | Woken ExecutionEvent

record wait_script =
  ws_wakes :: "wake list"
  ws_timer :: bool
  ws_error :: exec_error

record observations =
  ob_node :: "nat \<Rightarrow> string \<Rightarrow> goerr + callee"
  ob_versions :: "nat \<Rightarrow> string \<Rightarrow> goerr + callee list"
  ob_counter :: "nat \<Rightarrow> 64 word"
  ob_restart :: "nat \<Rightarrow> restart_config"
  ob_gate :: "nat \<Rightarrow> LLMHealthMonitor option \<times> AgentConcurrencyLimiter option"
  ob_pool :: "nat \<Rightarrow> pool"
  ob_answer :: "nat \<Rightarrow> http_answer"
  ob_wait :: "nat \<Rightarrow> wait_script"
  ob_stopping :: "nat \<Rightarrow> bool"
  ob_queueFull :: "nat \<Rightarrow> bool"

text \<open>
  What does not change: the identifiers that the generators give, the encoder and decoders of JSON (\<open>dc_object\<close> decodes
  an object, \<open>dc_metadata\<close> the metadata of a run), the formats of values and URLs, the resolver behind the check of
  webhook URLs, the token and the timeout of calls.
\<close>

record dispatch_config =
  dc_controller :: controller
  dc_runID :: string
  dc_executionID :: string
  dc_requestID :: string
  dc_marshal :: "json \<Rightarrow> string + string"
  dc_canonical :: "string \<Rightarrow> string option"
  dc_validJSON :: "string \<Rightarrow> bool"
  dc_sprint :: "json \<Rightarrow> string"
  dc_usage :: "string \<Rightarrow> string option"
  dc_forNode :: "string \<Rightarrow> string \<Rightarrow> string list \<Rightarrow> string + string"
  dc_resolver :: resolver
  dc_metadata :: metadata_codec
  dc_object :: "string \<Rightarrow> (string \<times> json) list option"
  dc_allowed :: "string list"
  dc_internalToken :: string
  dc_timeout :: duration

definition observe :: "(nat \<Rightarrow> 'a) \<Rightarrow> 'a proc" where
  "observe f = State (\<lambda>w. (f (calls w), w\<lparr>data := env w (calls w) (data w), calls := Suc (calls w)\<rparr>))"

text \<open>Slots and places: taken and given back by the handler itself.\<close>

definition move_slot :: "string \<Rightarrow> int \<Rightarrow> unit proc" where
  "move_slot k n = State (\<lambda>w. ((), w\<lparr>slots_held := (slots_held w)(k := slots_held w k + n)\<rparr>))"

definition move_place :: "int \<Rightarrow> unit proc" where
  "move_place n = State (\<lambda>w. ((), w\<lparr>places_held := places_held w + n\<rparr>))"

text \<open>A request is counted as sent unless no connection came about.\<close>

definition http_Do :: "observations \<Rightarrow> string \<times> (string \<times> string) list \<times> string \<Rightarrow> http_answer proc" where
  "http_Do ob req = State (\<lambda>w.
     (ob_answer ob (calls w),
      w\<lparr>data := env w (calls w) (data w), calls := Suc (calls w),
        requests_sent := requests_sent w @
          (case ob_answer ob (calls w) of NotConnected _ \<Rightarrow> [] | _ \<Rightarrow> [req])\<rparr>))"

text \<open>Programs that stop at an error.\<close>

definition and_then :: "('e + 'a) proc \<Rightarrow> ('a \<Rightarrow> ('e + 'b) proc) \<Rightarrow> ('e + 'b) proc" where
  "and_then p f = do { r \<leftarrow> p; case r of Inl e \<Rightarrow> State_Monad.return (Inl e) | Inr a \<Rightarrow> f a }"

definition raw :: "string \<Rightarrow> exec_error" where
  "raw m = RawError m False False"

definition require :: "'e option \<Rightarrow> ('e + unit) proc" where
  "require r = State_Monad.return (case r of None \<Rightarrow> Inr () | Some e \<Rightarrow> Inl e)"

subsection \<open>The request\<close>

record ExecuteRequest =
  rq_Input :: "(string \<times> json) list option"
  rq_Context :: "(string \<times> json) list"
  rq_Webhook :: "WebhookRequest option"
  rq_RunMetadata :: "RunMetadataInput option"

definition readExecutionHeaders :: "(string \<Rightarrow> string) \<Rightarrow> executionHeaders" where
  "readExecutionHeaders hdr =
     (let value = (\<lambda>k. TrimSpace (hdr k))
      in \<lparr>eh_runID = value ''X-Run-ID'', eh_parentExecutionID = reason_ptr (value ''X-Parent-Execution-ID''),
          eh_sessionID = reason_ptr (value ''X-Session-ID''), eh_actorID = reason_ptr (value ''X-Actor-ID''),
          eh_replaySourceRunID = value ''X-AgentField-Replay-Source-Run-ID'',
          eh_replayBeforeExecutionID = value ''X-AgentField-Replay-Before-Execution-ID'',
          eh_replayMode = value ''X-AgentField-Replay-Mode''\<rparr>)"

definition buildClientPayload :: "ExecuteRequest \<Rightarrow> json" where
  "buildClientPayload req = JObj
     ([(''input'', JObj (case rq_Input req of None \<Rightarrow> [] | Some ms \<Rightarrow> ms))] @
      (if rq_Context req = [] then [] else [(''context'', JObj (rq_Context req))]))"

definition extractRequestedLLMEndpoint :: "(json \<Rightarrow> string) \<Rightarrow> ExecuteRequest \<Rightarrow> string" where
  "extractRequestedLLMEndpoint sprint req =
     (case find (\<lambda>s. s \<noteq> [])
        (map (\<lambda>k. case map_of (rq_Context req) k of None \<Rightarrow> [] | Some v \<Rightarrow> TrimSpace (sprint v))
          [''llm_endpoint'', ''llm_backend'', ''backend'', ''provider'', ''model_provider'']) of
        None \<Rightarrow> [] | Some s \<Rightarrow> s)"

definition buildServerlessPayload ::
    "string \<Rightarrow> string \<Rightarrow> Execution \<Rightarrow> executionHeaders \<Rightarrow> (string \<times> json) list \<Rightarrow> json" where
  "buildServerlessPayload name targetType e h input =
     (let member = (\<lambda>k v. case v of None \<Rightarrow> [] | Some x \<Rightarrow> if x = [] then [] else [(k, JStr x)]);
          execCtx = [(''execution_id'', JStr (ex_ExecutionID e)), (''run_id'', JStr (ex_RunID e)),
                     (''workflow_id'', JStr (ex_RunID e))] @
            member ''parent_execution_id'' (eh_parentExecutionID h) @ member ''session_id'' (eh_sessionID h) @
            member ''actor_id'' (eh_actorID h)
      in JObj ([(''path'', JStr (''/execute/'' @ name)), (''target'', JStr name), (''reasoner'', JStr name),
                (''input'', JObj input), (''execution_context'', JObj execCtx)] @
               (if targetType = [] then [] else [(''type'', JStr targetType)] @
                  (if targetType = ''skill'' then [(''skill'', JStr name)] else []))))"

record preparedExecution = plan +
  pp_requestBody :: string
  pp_agent :: callee
  pp_llmEndpoint :: string
  pp_slotHeld :: bool
  pp_webhookError :: "string option"
  pp_callerDID :: string
  pp_targetDID :: string
  pp_routedVersion :: string
  pp_replaySourceRunID :: string
  pp_replayBeforeExecutionID :: string
  pp_replayMode :: string
  pp_replayHit :: "replayHit option"

definition releaseSlot :: "preparedExecution \<Rightarrow> unit proc" where
  "releaseSlot pl = (if pp_slotHeld pl then move_slot (pl_NodeID pl) (-1) else State_Monad.return ())"

subsection \<open>The node\<close>

definition resolve_node :: "observations \<Rightarrow> string \<Rightarrow> (exec_error + callee \<times> string) proc" where
  "resolve_node ob nodeID = do {
     got \<leftarrow> observe (\<lambda>n. ob_node ob n nodeID);
     case got of
       Inr a \<Rightarrow> State_Monad.return (Inr (a, []))
     | Inl _ \<Rightarrow> do {
         versions \<leftarrow> observe (\<lambda>n. ob_versions ob n nodeID);
         counter \<leftarrow> observe (ob_counter ob);
         State_Monad.return (case versions of
             Inl _ \<Rightarrow> Inl (raw (''agent '' @ quoted nodeID @ '' not found''))
           | Inr vs \<Rightarrow>
               if vs = [] then Inl (raw (''agent '' @ quoted nodeID @ '' not found''))
               else case fst (selectVersionedAgent vs counter) of
                   None \<Rightarrow> Inl (raw (''agent '' @ quoted nodeID @ '' has no healthy versioned nodes''))
                 | Some r \<Rightarrow> Inr r)
       }
   }"

definition pending_approval :: "string \<Rightarrow> callee \<Rightarrow> exec_error option" where
  "pending_approval nodeID a =
     (if an_LifecycleStatus a = LcPendingApproval
      then Some (PreconditionError 503 (''agent node '' @ quoted nodeID @ '' is awaiting tag approval and cannot execute'')
        ErrorCategoryAgentError ''agent_pending_approval'' 0)
      else None)"

definition infer_deployment :: "callee \<Rightarrow> callee" where
  "infer_deployment a = (if an_DeploymentType a = [] \<and> ce_Serverless a then a\<lparr>an_DeploymentType := ''serverless''\<rparr> else a)"

primrec drain_wait :: "observations \<Rightarrow> callee \<Rightarrow> string \<Rightarrow> wait_script \<Rightarrow> wake list \<Rightarrow> (exec_error + callee) proc" where
  "drain_wait ob observed nodeID ws [] =
     (if ws_timer ws
      then do {
        rc \<leftarrow> observe (ob_restart ob);
        State_Monad.return (case ensureAgentDispatchable rc observed nodeID of Some e \<Rightarrow> Inl e | None \<Rightarrow> Inr observed)
      }
      else State_Monad.return (Inl (ws_error ws)))"
| "drain_wait ob observed nodeID ws (_ # wakes) = do {
     got \<leftarrow> observe (\<lambda>n. ob_node ob n nodeID);
     case got of
       Inl _ \<Rightarrow> drain_wait ob observed nodeID ws wakes
     | Inr a \<Rightarrow>
         if agentCameBack a (an_InstanceID observed) (an_LastHeartbeat observed) \<and> an_LifecycleStatus a \<noteq> LcOffline
         then State_Monad.return (Inr a)
         else drain_wait ob observed nodeID ws wakes
   }"

definition waitForDrainingAgent :: "observations \<Rightarrow> callee \<Rightarrow> string \<Rightarrow> (exec_error + callee) proc" where
  "waitForDrainingAgent ob observed nodeID = do {
     rc \<leftarrow> observe (ob_restart ob);
     if \<not> agentMayRestart rc observed nodeID
     then State_Monad.return (case ensureAgentDispatchable rc observed nodeID of Some e \<Rightarrow> Inl e | None \<Rightarrow> Inr observed)
     else do {
       ws \<leftarrow> observe (ob_wait ob);
       drain_wait ob observed nodeID ws (ws_wakes ws)
     }
   }"

text \<open>The check of a node before anything is recorded. Serverless nodes and replays are exempt.\<close>

definition reachable_node :: "observations \<Rightarrow> executionHeaders \<Rightarrow> string \<Rightarrow> callee \<Rightarrow> (exec_error + callee) proc" where
  "reachable_node ob h nodeID a =
     (if an_DeploymentType a \<noteq> ''serverless'' \<and> TrimSpace (eh_replaySourceRunID h) = []
      then and_then
        (do {
          rc \<leftarrow> observe (ob_restart ob);
          now \<leftarrow> time_Now;
          if agentIsDraining rc now a then waitForDrainingAgent ob a nodeID else State_Monad.return (Inr a)
        })
        (\<lambda>a. do {
          rc \<leftarrow> observe (ob_restart ob);
          State_Monad.return (case ensureAgentDispatchable rc a nodeID of Some e \<Rightarrow> Inl e | None \<Rightarrow> Inr a)
        })
      else State_Monad.return (Inr a))"

definition serverless_url :: "dispatch_config \<Rightarrow> callee \<Rightarrow> exec_error + callee" where
  "serverless_url dc a =
     (if an_DeploymentType a = ''serverless'' \<and> (case ce_InvocationURL a of None \<Rightarrow> True | Some u \<Rightarrow> u = [])
      then (case dc_forNode dc (an_ID a) (an_BaseURL a) [''execute''] of
              Inl e \<Rightarrow> Inl (raw e)
            | Inr url \<Rightarrow> Inr (a\<lparr>ce_InvocationURL := Some url\<rparr>))
      else Inr a)"

subsection \<open>Preparation\<close>

definition check_run_metadata :: "dispatch_config \<Rightarrow> ExecuteRequest \<Rightarrow> executionHeaders \<Rightarrow> exec_error option" where
  "check_run_metadata dc req h =
     (case rq_RunMetadata req of
        None \<Rightarrow> None
      | Some patch \<Rightarrow>
          if eh_parentExecutionID h \<noteq> None then None
          else case applyRunMetadataInput (md_parse (dc_metadata dc)) no_metadata patch of
              Inl e \<Rightarrow> Some (raw (''invalid run_metadata: '' @ e))
            | Inr _ \<Rightarrow>
                (case normalizeRunMetadataActor (case eh_actorID h of None \<Rightarrow> [] | Some a \<Rightarrow> a) of
                   Inl e \<Rightarrow> Some (raw (''invalid run_metadata: '' @ e))
                 | Inr _ \<Rightarrow> None))"

text \<open>The webhook of a request: a refused one is reported, not fatal.\<close>

definition request_webhook :: "dispatch_config \<Rightarrow> ExecuteRequest \<Rightarrow> normalizedWebhookConfig option \<times> string option" where
  "request_webhook dc req =
     (case rq_Webhook req of
        None \<Rightarrow> (None, None)
      | Some _ \<Rightarrow>
          (case normalizeWebhookRequest (dc_resolver dc) (md_parse (dc_metadata dc)) (dc_allowed dc) (rq_Webhook req) of
             Inl e \<Rightarrow> (None, Some e)
           | Inr cfg \<Rightarrow> (cfg, None)))"

definition take_slot :: "observations \<Rightarrow> string \<Rightarrow> string \<Rightarrow> (exec_error + unit) proc" where
  "take_slot ob nodeID llmEndpoint = do {
     (mon, limiter) \<leftarrow> observe (ob_gate ob);
     now \<leftarrow> time_Now;
     case fst (CheckExecutionPreconditions mon now nodeID llmEndpoint limiter) of
       Some e \<Rightarrow> State_Monad.return (Inl e)
     | None \<Rightarrow> do { move_slot nodeID 1; State_Monad.return (Inr ()) }
   }"

text \<open>The deferred release: a slot taken here goes back unless a plan takes it over.\<close>

definition or_free_slot :: "bool \<Rightarrow> string \<Rightarrow> ('e + 'a) proc \<Rightarrow> ('e + 'a) proc" where
  "or_free_slot acquired nodeID p = do {
     r \<leftarrow> p;
     case r of
       Inr a \<Rightarrow> State_Monad.return (Inr a)
     | Inl e \<Rightarrow> do {
         (if acquired then move_slot nodeID (-1) else State_Monad.return ());
         State_Monad.return (Inl e)
       }
   }"

definition register_webhook :: "string \<Rightarrow> (goerr + unit) proc" where
  "register_webhook executionID = db_call (\<lambda>d. (Inr (), d\<lparr>webhooks := webhooks d @ [executionID]\<rparr>))"

definition new_execution ::
    "dispatch_config \<Rightarrow> executionHeaders \<Rightarrow> callee \<Rightarrow> string \<Rightarrow> string \<Rightarrow> status \<Rightarrow> string \<Rightarrow> instant \<Rightarrow> Execution" where
  "new_execution dc h a nodeID name initialStatus storedPayload now = zero_execution\<lparr>
     ex_ExecutionID := dc_executionID dc, ex_RunID := (if eh_runID h = [] then dc_runID dc else eh_runID h),
     ex_ParentExecutionID := eh_parentExecutionID h, ex_AgentNodeID := an_ID a, ex_InstanceID := an_InstanceID a,
     ex_ReasonerID := name, ex_NodeID := nodeID, ex_Status := initialStatus, ex_InputPayload := storedPayload,
     ex_StartedAt := now, ex_CreatedAt := now, ex_UpdatedAt := now\<rparr>"

definition persist_metadata :: "dispatch_config \<Rightarrow> string \<Rightarrow> RunMetadataInput \<Rightarrow> string option \<Rightarrow> unit proc" where
  "persist_metadata dc runID patch actorID = do {
     now \<leftarrow> time_Now;
     _ \<leftarrow> db_call (\<lambda>d. (Inr (),
       d\<lparr>run_rows := persistExecuteRunMetadata (dc_metadata dc) runID now patch actorID (run_rows d)\<rparr>));
     State_Monad.return ()
   }"

text \<open>The rows of an admitted execution. Only the first of them can refuse it.\<close>

definition record_rest ::
    "dispatch_config \<Rightarrow> ExecuteRequest \<Rightarrow> executionHeaders \<Rightarrow> string \<Rightarrow> Execution \<Rightarrow> (Execution \<times> string option) proc" where
  "record_rest dc req h targetType e = do {
     let (webhook, webhookError) = request_webhook dc req;
     (case rq_RunMetadata req of
        Some patch \<Rightarrow> if eh_parentExecutionID h = None then persist_metadata dc (ex_RunID e) patch (eh_actorID h)
          else State_Monad.return ()
      | None \<Rightarrow> State_Monad.return ());
     registered \<leftarrow> (case webhook of
         None \<Rightarrow> State_Monad.return (Inr False)
       | Some _ \<Rightarrow>
           if webhookError \<noteq> None then State_Monad.return (Inr False)
           else do { r \<leftarrow> register_webhook (ex_ExecutionID e);
                     State_Monad.return (case r of Inl er \<Rightarrow> Inl (err_msg er) | Inr _ \<Rightarrow> Inr True) });
     let e = e\<lparr>ex_WebhookRegistered := (case registered of Inl _ \<Rightarrow> False | Inr b \<Rightarrow> b)\<rparr>;
     ensureWorkflowExecutionRecord (dc_runID dc) (dc_requestID dc) e targetType (ex_InputPayload e);
     State_Monad.return (e, case registered of Inl er \<Rightarrow> Some er | Inr _ \<Rightarrow> webhookError)
   }"

definition record_execution ::
    "dispatch_config \<Rightarrow> ExecuteRequest \<Rightarrow> executionHeaders \<Rightarrow> string \<Rightarrow> Execution \<Rightarrow>
     (exec_error + Execution \<times> string option) proc" where
  "record_execution dc req h targetType e = do {
     r \<leftarrow> CreateExecutionRecord (e\<lparr>ex_InputURI := savePayload (dc_controller dc) (ex_InputPayload e),
            ex_SessionID := eh_sessionID h, ex_ActorID := eh_actorID h\<rparr>);
     case r of
       Inl er \<Rightarrow> State_Monad.return (Inl (raw (''create execution record: '' @ err_msg er)))
     | Inr e \<Rightarrow> do { x \<leftarrow> record_rest dc req h targetType e; State_Monad.return (Inr x) }
   }"

text \<open>The part of the preparation that holds the slot.\<close>

definition prepare_plan ::
    "dispatch_config \<Rightarrow> ExecuteRequest \<Rightarrow> executionHeaders \<Rightarrow> string \<Rightarrow> string \<Rightarrow> callee \<Rightarrow> string \<Rightarrow> string \<Rightarrow> string \<Rightarrow>
     string \<Rightarrow> string \<Rightarrow> status \<Rightarrow> string \<Rightarrow> replayHit option \<Rightarrow> bool \<Rightarrow> (exec_error + preparedExecution) proc" where
  "prepare_plan dc req h callerDID targetDID a routedVersion nodeID name targetType storedPayload initialStatus
       llmEndpoint hit acquired = do {
     now \<leftarrow> time_Now;
     let e = new_execution dc h a nodeID name initialStatus storedPayload now;
     let input = (case rq_Input req of None \<Rightarrow> [] | Some ms \<Rightarrow> ms);
     case dc_marshal dc (if an_DeploymentType a = ''serverless''
                         then buildServerlessPayload name targetType e h input else JObj input) of
       Inl er \<Rightarrow> State_Monad.return (Inl (raw (''encode agent payload: '' @ er)))
     | Inr requestBody \<Rightarrow> and_then (record_execution dc req h targetType e) (\<lambda>(e, webhookError).
         State_Monad.return (Inr
           \<lparr>pl_exec = e, pl_NodeID = nodeID, pl_TargetName = name, pl_targetType = targetType, pl_executionMode = [],
            pl_webhookRegistered = ex_WebhookRegistered e, pp_requestBody = requestBody, pp_agent = a,
            pp_llmEndpoint = llmEndpoint, pp_slotHeld = acquired, pp_webhookError = webhookError,
            pp_callerDID = callerDID, pp_targetDID = targetDID, pp_routedVersion = routedVersion,
            pp_replaySourceRunID = eh_replaySourceRunID h, pp_replayBeforeExecutionID = eh_replayBeforeExecutionID h,
            pp_replayMode = eh_replayMode h, pp_replayHit = hit\<rparr>))
   }"

definition prepareExecution ::
    "dispatch_config \<Rightarrow> observations \<Rightarrow> string \<Rightarrow> ExecuteRequest \<Rightarrow> executionHeaders \<Rightarrow> string \<Rightarrow> string \<Rightarrow> bool \<Rightarrow> status \<Rightarrow>
     (exec_error + preparedExecution) proc" where
  "prepareExecution dc ob targetParam req h callerDID targetDID acquireSlot initialStatus =
     (case parseTarget targetParam of
        Inl e \<Rightarrow> State_Monad.return (Inl (raw (''invalid target: '' @ err_msg e)))
      | Inr (nodeID, name) \<Rightarrow>
          and_then (require (check_run_metadata dc req h)) (\<lambda>_.
          and_then (resolve_node ob nodeID) (\<lambda>(a, routedVersion).
          and_then (require (pending_approval nodeID a)) (\<lambda>_.
          and_then (reachable_node ob h nodeID (infer_deployment a)) (\<lambda>a.
          and_then (State_Monad.return (serverless_url dc a)) (\<lambda>a.
          case determineTargetType a name of
            Inl e \<Rightarrow> State_Monad.return (Inl (raw e))
          | Inr targetType \<Rightarrow>
          (case checkedAgentURL (dc_forNode dc) a name targetType of
            Inl e \<Rightarrow> State_Monad.return (Inl (raw e))
          | Inr _ \<Rightarrow>
          (case dc_marshal dc (buildClientPayload req) of
            Inl er \<Rightarrow> State_Monad.return (Inl (raw (''encode execution payload: '' @ er)))
          | Inr storedPayload \<Rightarrow> do {
              found \<leftarrow> findReplayHit (dc_canonical dc) h nodeID name storedPayload;
              case found of
                Inl e \<Rightarrow> State_Monad.return (Inl (raw (err_msg e)))
              | Inr hit \<Rightarrow>
                  (let acquire = acquireSlot \<and> hit = None; llmEndpoint = extractRequestedLLMEndpoint (dc_sprint dc) req
                   in and_then (if acquire then take_slot ob nodeID llmEndpoint else State_Monad.return (Inr ())) (\<lambda>_.
                      or_free_slot acquire nodeID
                        (prepare_plan dc req h callerDID targetDID a routedVersion nodeID name targetType storedPayload
                           (if hit = None then initialStatus else stRunning) llmEndpoint hit acquire)))
            }))))))))"

subsection \<open>Waiting for a resume or for a completion\<close>

text \<open>A wait for a resume has no timer; the events of other executions do not end it.\<close>

fun resume_wait :: "string \<Rightarrow> exec_error \<Rightarrow> wake list \<Rightarrow> exec_error option" where
  "resume_wait k err [] = Some err"
| "resume_wait k err (Ticked # wakes) = resume_wait k err wakes"
| "resume_wait k err (Woken ev # wakes) =
     (if ev_ExecutionID ev \<noteq> k then resume_wait k err wakes
      else if ev_Type ev = ExecutionResumed then None
      else if ev_Type ev = ExecutionCancelledEvent then Some (raw ''execution cancelled'')
      else resume_wait k err wakes)"

definition waitForResume :: "dispatch_config \<Rightarrow> observations \<Rightarrow> string \<Rightarrow> exec_error option proc" where
  "waitForResume dc ob k =
     (if \<not> cfg_eventBus (dc_controller dc) then State_Monad.return (Some (raw ''event bus not available''))
      else do {
        got \<leftarrow> GetExecutionRecord k;
        let st = map_option ex_Status (non_fatal got);
        if st = Some stCancelled then State_Monad.return (Some (raw ''execution cancelled''))
        else if st \<noteq> None \<and> st \<noteq> Some stPaused then State_Monad.return None
        else do {
          ws \<leftarrow> observe (ob_wait ob);
          State_Monad.return (resume_wait k (ws_error ws) (ws_wakes ws))
        }
      })"

definition fmt_frac :: "nat \<Rightarrow> nat \<Rightarrow> string" where
  "fmt_frac v prec =
     (let digits = show_nat (v mod 10 ^ prec);
          padded = replicate (prec - length digits) (CHR ''0'') @ digits;
          shown = rev (dropWhile (\<lambda>c. c = CHR ''0'') (rev padded))
      in if shown = [] then [] else CHR ''.'' # shown)"

text \<open>\<open>Duration.String\<close>; the micro sign is two bytes.\<close>

definition Duration_String :: "duration \<Rightarrow> string" where
  "Duration_String d =
     (let u = nat \<bar>d\<bar>; part = (\<lambda>p. show_nat (u div 10 ^ p) @ (if p = 0 then [] else fmt_frac u p));
          s = u div 1000000000;
          text = (if u = 0 then ''0s''
            else if u < 1000 then part 0 @ ''ns''
            else if u < 1000000 then part 3 @ [CHR 0xC2, CHR 0xB5, CHR ''s'']
            else if u < 1000000000 then part 6 @ ''ms''
            else (if s < 60 then []
                  else (if s < 3600 then [] else show_nat (s div 3600) @ ''h'') @ show_nat (s div 60 mod 60) @ ''m'') @
                 show_nat (s mod 60) @ fmt_frac u 9 @ ''s'')
      in if d < 0 then CHR ''-'' # text else text)"

definition stored_terminal :: "string \<Rightarrow> Execution option proc" where
  "stored_terminal k = do {
     got \<leftarrow> GetExecutionRecord k;
     State_Monad.return (case non_fatal got of
         Some e \<Rightarrow> if IsTerminalExecutionStatus (ex_Status e) then Some e else None
       | None \<Rightarrow> None)
   }"

primrec completion_wait ::
    "dispatch_config \<Rightarrow> string \<Rightarrow> wait_script \<Rightarrow> wake list \<Rightarrow> (exec_error + Execution) proc" where
  "completion_wait dc k ws [] = State_Monad.return (Inl
     (if ws_timer ws \<and> 0 < dc_timeout dc
      then raw (''execution timeout after '' @ Duration_String (dc_timeout dc)) else ws_error ws))"
| "completion_wait dc k ws (wake # wakes) =
     (case wake of
        Ticked \<Rightarrow> do {
          done \<leftarrow> stored_terminal k;
          case done of Some e \<Rightarrow> State_Monad.return (Inr e) | None \<Rightarrow> completion_wait dc k ws wakes
        }
      | Woken ev \<Rightarrow>
          if ev_ExecutionID ev = k \<and> (ev_Type ev = ExecutionCompleted \<or> ev_Type ev = ExecutionFailed)
          then do {
            got \<leftarrow> GetExecutionRecord k;
            State_Monad.return (case got of
                Inl e \<Rightarrow> Inl (raw (''failed to fetch execution after completion: '' @ err_msg e))
              | Inr None \<Rightarrow> Inl (raw (''execution '' @ k @ '' not found after completion event''))
              | Inr (Some e) \<Rightarrow> Inr e)
          }
          else completion_wait dc k ws wakes)"

definition waitForExecutionCompletion ::
    "dispatch_config \<Rightarrow> observations \<Rightarrow> string \<Rightarrow> (exec_error + Execution) proc" where
  "waitForExecutionCompletion dc ob k =
     (if \<not> cfg_eventBus (dc_controller dc) then State_Monad.return (Inl (raw ''event bus not available''))
      else do {
        done \<leftarrow> stored_terminal k;
        case done of
          Some e \<Rightarrow> State_Monad.return (Inr e)
        | None \<Rightarrow> do { ws \<leftarrow> observe (ob_wait ob); completion_wait dc k ws (ws_wakes ws) }
      })"

subsection \<open>The call of the node\<close>

definition newAgentRequest ::
    "dispatch_config \<Rightarrow> preparedExecution \<Rightarrow> exec_error + string \<times> (string \<times> string) list \<times> string" where
  "newAgentRequest dc pl =
     (let e = pl_exec pl;
          present = (\<lambda>k v. case v of None \<Rightarrow> [] | Some x \<Rightarrow> [(k, x)]);
          nonempty = (\<lambda>k v. if v = [] then [] else [(k, v)])
      in case checkedAgentURL (dc_forNode dc) (pp_agent pl) (pl_TargetName pl) (pl_targetType pl) of
           Inl er \<Rightarrow> Inl (raw er)
         | Inr url \<Rightarrow> Inr (url,
             [(''Content-Type'', ''application/json''), (''X-Run-ID'', ex_RunID e),
              (''X-Execution-ID'', ex_ExecutionID e), (''X-Workflow-ID'', ex_RunID e)] @
             present ''X-Parent-Execution-ID'' (ex_ParentExecutionID e) @ present ''X-Session-ID'' (ex_SessionID e) @
             present ''X-Actor-ID'' (ex_ActorID e) @
             (if dc_internalToken dc = [] then [] else [(''Authorization'', ''Bearer '' @ dc_internalToken dc)]) @
             nonempty ''X-Caller-DID'' (pp_callerDID pl) @ nonempty ''X-Target-DID'' (pp_targetDID pl) @
             nonempty ''X-AgentField-Replay-Source-Run-ID'' (pp_replaySourceRunID pl) @
             nonempty ''X-AgentField-Replay-Before-Execution-ID'' (pp_replayBeforeExecutionID pl) @
             nonempty ''X-AgentField-Replay-Mode'' (pp_replayMode pl),
             pp_requestBody pl))"

definition set_reason :: "string \<Rightarrow> string option \<Rightarrow> string option option" where
  "set_reason reason current =
     (if reason \<noteq> [] then Some (Some reason)
      else if current = Some ExecutionReasonAwaitingAgentRestart then Some None
      else None)"

definition restart_reason_updater :: "string \<Rightarrow> string \<Rightarrow> (Execution, unit) updater" where
  "restart_reason_updater k reason now current =
     (case current of
        None \<Rightarrow> Inl (Errorf (''execution '' @ k @ '' not found''))
      | Some e \<Rightarrow>
          if ex_Status e \<noteq> stRunning then Inr (Some e, ())
          else (case set_reason reason (ex_StatusReason e) of
                  None \<Rightarrow> Inr (Some e, ())
                | Some r \<Rightarrow> Inr (Some (e\<lparr>ex_StatusReason := r, ex_UpdatedAt := now\<rparr>), ())))"

definition restart_reason_workflow_updater :: "string \<Rightarrow> string \<Rightarrow> wf_updater" where
  "restart_reason_workflow_updater k reason now current =
     (case current of
        None \<Rightarrow> Inl (Errorf (''workflow execution '' @ k @ '' not found''))
      | Some f \<Rightarrow>
          if wf_Status f \<noteq> stRunning then Inr f
          else (case set_reason reason (wf_StatusReason f) of
                  None \<Rightarrow> Inr f
                | Some r \<Rightarrow> Inr (f\<lparr>wf_StatusReason := r, wf_UpdatedAt := now\<rparr>)))"

definition setExecutionRestartReason :: "preparedExecution \<Rightarrow> string \<Rightarrow> unit proc" where
  "setExecutionRestartReason pl reason = do {
     let k = ex_ExecutionID (pl_exec pl);
     _ \<leftarrow> UpdateExecutionRecord k (restart_reason_updater k reason);
     _ \<leftarrow> UpdateWorkflowExecution k (restart_reason_workflow_updater k reason);
     State_Monad.return ()
   }"

definition markAgentUnreachable :: "preparedExecution \<Rightarrow> unit proc" where
  "markAgentUnreachable pl = emit (NodeDemoted (pl_NodeID pl) (an_LastHeartbeat (pp_agent pl)))"

definition give_up_restart :: "preparedExecution \<Rightarrow> bool \<Rightarrow> unit proc" where
  "give_up_restart pl updateGrace = do {
     setExecutionRestartReason pl [];
     if updateGrace then State_Monad.return () else markAgentUnreachable pl
   }"

text \<open>What may have happened to the execution while its node was away: \<open>Some\<close> ends the wait.\<close>

definition moved_on :: "dispatch_config \<Rightarrow> observations \<Rightarrow> string \<Rightarrow> exec_error option proc" where
  "moved_on dc ob k = do {
     got \<leftarrow> GetExecutionRecord k;
     let st = map_option ex_Status (non_fatal got);
     if st = Some stCancelled then State_Monad.return (Some (raw ''execution cancelled while waiting for agent restart''))
     else if st = Some stPaused then do {
       r \<leftarrow> waitForResume dc ob k;
       State_Monad.return (map_option (Wrapped ''execution paused during agent restart and then cancelled or timed out: '') r)
     }
     else State_Monad.return None
   }"

text \<open>
  The polls of \<open>retryAfterAgentRestart\<close>: each wake is a tick. \<open>inst\<close> and \<open>heartbeat\<close> are what the node record said
  when the node was last called. The result is the answer and the plan with the node it came from.
\<close>

primrec restart_polls ::
    "dispatch_config \<Rightarrow> observations \<Rightarrow> instant \<Rightarrow> wake list \<Rightarrow> preparedExecution \<Rightarrow> string \<Rightarrow> instant \<Rightarrow> exec_error \<Rightarrow>
     ((exec_error + http_answer) \<times> preparedExecution) proc" where
  "restart_polls dc ob started [] pl inst heartbeat lastErr = do {
     setExecutionRestartReason pl [];
     State_Monad.return (Inl lastErr, pl)
   }"
| "restart_polls dc ob started (_ # wakes) pl inst heartbeat lastErr = do {
     rc \<leftarrow> observe (ob_restart ob);
     now \<leftarrow> time_Now;
     let (grace, updateGrace) = agentRestartGraceFor rc (pl_NodeID pl);
     if started + grace < now
     then do { give_up_restart pl updateGrace; State_Monad.return (Inl lastErr, pl) }
     else do {
       got \<leftarrow> observe (\<lambda>n. ob_node ob n (pl_NodeID pl));
       case got of
         Inl _ \<Rightarrow> restart_polls dc ob started wakes pl inst heartbeat lastErr
       | Inr a \<Rightarrow>
           if \<not> agentCameBack a inst heartbeat
           then (if \<not> updateGrace \<and> (an_HealthStatus a = HealthInactive \<or> an_LifecycleStatus a = LcOffline)
                 then do { give_up_restart pl updateGrace; State_Monad.return (Inl lastErr, pl) }
                 else restart_polls dc ob started wakes pl inst heartbeat lastErr)
           else do {
             gone \<leftarrow> moved_on dc ob (ex_ExecutionID (pl_exec pl));
             case gone of
               Some er \<Rightarrow> State_Monad.return (Inl er, pl)
             | None \<Rightarrow>
                 (let pl = pl\<lparr>pp_agent := a\<rparr>
                  in case newAgentRequest dc pl of
                       Inl er \<Rightarrow> do { setExecutionRestartReason pl []; State_Monad.return (Inl er, pl) }
                     | Inr req \<Rightarrow> do {
                         ans \<leftarrow> http_Do ob req;
                         case ans of
                           NotConnected er \<Rightarrow>
                             restart_polls dc ob started wakes pl (an_InstanceID a) (an_LastHeartbeat a) er
                         | CallFailed er \<Rightarrow> do { setExecutionRestartReason pl []; State_Monad.return (Inl er, pl) }
                         | Responded n b \<Rightarrow> do { setExecutionRestartReason pl []; State_Monad.return (Inr ans, pl) }
                       })
           }
     }
   }"

definition retryAfterAgentRestart ::
    "dispatch_config \<Rightarrow> observations \<Rightarrow> preparedExecution \<Rightarrow> exec_error \<Rightarrow>
     ((exec_error + http_answer) \<times> preparedExecution) proc" where
  "retryAfterAgentRestart dc ob pl dialErr = do {
     started \<leftarrow> time_Now;
     setExecutionRestartReason pl ExecutionReasonAwaitingAgentRestart;
     ws \<leftarrow> observe (ob_wait ob);
     restart_polls dc ob started (ws_wakes ws) pl (an_InstanceID (pp_agent pl)) (an_LastHeartbeat (pp_agent pl)) dialErr
   }"

definition dispatchAgentRequest ::
    "dispatch_config \<Rightarrow> observations \<Rightarrow> preparedExecution \<Rightarrow> ((exec_error + http_answer) \<times> preparedExecution) proc" where
  "dispatchAgentRequest dc ob pl =
     (case newAgentRequest dc pl of
        Inl er \<Rightarrow> State_Monad.return (Inl er, pl)
      | Inr req \<Rightarrow> do {
          ans \<leftarrow> http_Do ob req;
          case ans of
            Responded n b \<Rightarrow> State_Monad.return (Inr ans, pl)
          | CallFailed er \<Rightarrow> State_Monad.return (Inl er, pl)
          | NotConnected er \<Rightarrow> do {
              rc \<leftarrow> observe (ob_restart ob);
              if agentMayRestart rc (pp_agent pl) (pl_NodeID pl)
              then retryAfterAgentRestart dc ob pl er
              else State_Monad.return (Inl er, pl)
            }
        })"

definition truncateForLog :: "string \<Rightarrow> string" where
  "truncateForLog b = (if length b \<le> 1024 then b else take 1024 b @ ''...'')"

text \<open>The result of a call: the body, the time it took, whether the node accepted it for later, the error.\<close>

type_synonym call_result = "string \<times> duration \<times> bool \<times> exec_error option"

definition agent_result :: "instant \<Rightarrow> instant \<Rightarrow> http_answer \<Rightarrow> call_result" where
  "agent_result start now ans =
     (let elapsed = time_Sub now start
      in case ans of
           Responded n b \<Rightarrow>
             if n = 202 then ([], elapsed, True, None)
             else (case b of
                 Inl er \<Rightarrow> ([], elapsed, False, Some (Wrapped ''read agent response: '' er))
               | Inr text \<Rightarrow>
                   if 400 \<le> n
                   then (text, elapsed, False, Some (CallError n
                     (''agent error ('' @ show_int n @ ''): '' @ truncateForLog text) text))
                   else (text, elapsed, False, None))
         | NotConnected er \<Rightarrow> ([], elapsed, False, Some (Wrapped ''agent call failed: '' er))
         | CallFailed er \<Rightarrow> ([], elapsed, False, Some (Wrapped ''agent call failed: '' er)))"

text \<open>The state of the execution before its node is called: \<open>Some\<close> is the error that ends the call.\<close>

definition before_call :: "dispatch_config \<Rightarrow> observations \<Rightarrow> string \<Rightarrow> exec_error option proc" where
  "before_call dc ob k = do {
     got \<leftarrow> GetExecutionRecord k;
     let st = map_option ex_Status (non_fatal got);
     if st = Some stCancelled then State_Monad.return (Some (raw ''execution cancelled''))
     else if st = Some stPaused then do {
       r \<leftarrow> waitForResume dc ob k;
       State_Monad.return (map_option (Wrapped ''execution paused and then cancelled or timed out: '') r)
     }
     else State_Monad.return None
   }"

definition callAgent ::
    "dispatch_config \<Rightarrow> observations \<Rightarrow> preparedExecution \<Rightarrow> (call_result \<times> preparedExecution) proc" where
  "callAgent dc ob pl = do {
     start \<leftarrow> time_Now;
     PublishExecutionLog (plan.truncate pl) ''info'' ''calling agent''
       [(''agent'', JStr (pl_NodeID pl)), (''reasoner'', JStr (pl_TargetName pl)), (''base_url'', JStr (an_BaseURL (pp_agent pl)))];
     ended \<leftarrow> before_call dc ob (ex_ExecutionID (pl_exec pl));
     case ended of
       Some er \<Rightarrow> State_Monad.return (([], 0, False, Some er), pl)
     | None \<Rightarrow> do {
         (r, pl) \<leftarrow> dispatchAgentRequest dc ob pl;
         now \<leftarrow> time_Now;
         State_Monad.return
           (case r of
              Inl er \<Rightarrow> ([], time_Sub now start, False, Some (Wrapped ''agent call failed: '' er))
            | Inr ans \<Rightarrow> agent_result start now ans, pl)
       }
   }"

subsection \<open>Replays and completions\<close>

definition replay_updater :: "string \<Rightarrow> string \<Rightarrow> string \<Rightarrow> string option \<Rightarrow> instant \<Rightarrow> (Execution, unit) updater" where
  "replay_updater k reason result resultURI now _ current =
     (case current of
        None \<Rightarrow> Inl (Errorf (''execution '' @ k @ '' not found''))
      | Some e \<Rightarrow> Inr (Some (e\<lparr>ex_Status := stSucceeded, ex_StatusReason := Some reason, ex_ResultPayload := result,
          ex_ResultURI := resultURI, ex_ErrorMessage := None, ex_CompletedAt := Some now, ex_DurationMS := Some 0,
          ex_UpdatedAt := now\<rparr>), ()))"

definition completeReplayHit :: "dispatch_config \<Rightarrow> preparedExecution \<Rightarrow> replayHit \<Rightarrow> (goerr + unit) proc" where
  "completeReplayHit dc pl hit = do {
     let c = dc_controller dc;
     let k = ex_ExecutionID (pl_exec pl);
     let reason = ''replayed_from_execution:'' @ rh_SourceExecutionID hit;
     now \<leftarrow> time_Now;
     r \<leftarrow> UpdateExecutionRecord k (replay_updater k reason (rh_Result hit) (savePayload c (rh_Result hit)) now);
     case r of
       Inl er \<Rightarrow> State_Monad.return (Inl er)
     | Inr (updated, _) \<Rightarrow> do {
         updateWorkflowExecutionFinalState k stSucceeded (rh_Result hit) 0 None;
         updateWorkflowExecutionStatus k stSucceeded (Some reason);
         (if pl_webhookRegistered pl \<or> (case updated of None \<Rightarrow> False | Some e \<Rightarrow> ex_WebhookRegistered e)
          then triggerWebhook c k else State_Monad.return ());
         let dat = [(''target_type'', JStr (pl_targetType pl)), (''execution_mode'', JStr (pl_executionMode pl)),
           (''transition_source'', JStr ''replay''),
           (''replay'', JObj [(''source_execution_id'', JStr (rh_SourceExecutionID hit)),
                             (''source_run_id'', JStr (rh_SourceRunID hit))])];
         let dat = (if cfg_redactPayloads c then dat else set_field ''result'' (decodeJSON (rh_Result hit)) dat);
         let dat = (if cfg_redactPayloads c \<or> ex_InputPayload (pl_exec pl) = [] then dat
                    else set_field ''input'' (decodeJSON (ex_InputPayload (pl_exec pl))) dat);
         (case updated of
            None \<Rightarrow> State_Monad.return ()
          | Some e \<Rightarrow> publishExecutionEvent c e stSucceeded dat (Some (pl_TargetName pl)));
         State_Monad.return (Inr ())
       }
   }"

definition publishExecutionPlanStatusEvent :: "dispatch_config \<Rightarrow> preparedExecution \<Rightarrow> status \<Rightarrow> unit proc" where
  "publishExecutionPlanStatusEvent dc pl st =
     publishExecutionEvent (dc_controller dc) (pl_exec pl) st
       ([(''target_type'', JStr (pl_targetType pl)), (''execution_mode'', JStr (pl_executionMode pl)),
         (''transition_source'', JStr ''execution_controller'')] @
        (if ex_InputPayload (pl_exec pl) = [] then []
         else [(''input_size'', JInt (int (length (ex_InputPayload (pl_exec pl)))))]))
       (Some (pl_TargetName pl))"

definition processCompletionJob :: "dispatch_config \<Rightarrow> preparedExecution \<Rightarrow> call_result \<Rightarrow> (goerr + unit) proc" where
  "processCompletionJob dc pl r =
     (case r of (result, elapsed, _, callErr) \<Rightarrow>
        (case callErr of
           Some er \<Rightarrow> failExecution (dc_controller dc) (dc_validJSON dc) (plan.truncate pl) er elapsed result
         | None \<Rightarrow> completeExecution (dc_controller dc) (plan.truncate pl) result elapsed))"

text \<open>The usage a node reports inside a successful result is recorded and cut out of it.\<close>

definition take_usage :: "dispatch_config \<Rightarrow> preparedExecution \<Rightarrow> call_result \<Rightarrow> call_result proc" where
  "take_usage dc pl r =
     (case r of (result, elapsed, accepted, callErr) \<Rightarrow>
        if callErr \<noteq> None then State_Monad.return r
        else case dc_usage dc result of
            None \<Rightarrow> State_Monad.return r
          | Some stripped \<Rightarrow> do {
              emit (IngestUsage (ex_ExecutionID (pl_exec pl)));
              State_Monad.return (stripped, elapsed, accepted, callErr)
            })"

subsection \<open>The synchronous handler\<close>

type_synonym response = "reply \<times> (string \<times> string) list"

definition error_response :: "dispatch_config \<Rightarrow> exec_error \<Rightarrow> response" where
  "error_response dc er =
     (case writeExecutionError (dc_validJSON dc) er of
        (r, retry) \<Rightarrow> (r, if 0 < retry then [(''Retry-After'', show_int retry)] else []))"

definition execution_headers :: "Execution \<Rightarrow> (string \<times> string) list" where
  "execution_headers e = [(''X-Execution-ID'', ex_ExecutionID e), (''X-Run-ID'', ex_RunID e)]"

definition routed_header :: "preparedExecution \<Rightarrow> (string \<times> string) list" where
  "routed_header pl = (if pp_routedVersion pl = [] then [] else [(''X-Routed-Version'', pp_routedVersion pl)])"

definition execute_body ::
    "Execution \<Rightarrow> status \<Rightarrow> json option \<Rightarrow> string option \<Rightarrow> json option \<Rightarrow> int \<Rightarrow> instant \<Rightarrow> bool \<Rightarrow> (string \<times> json) list" where
  "execute_body e st result message details durationMS finishedAt registered =
     [(''execution_id'', JStr (ex_ExecutionID e)), (''run_id'', JStr (ex_RunID e)), (''status'', JStr st)] @
     opt_field ''result'' id result @ opt_field ''error_message'' JStr message @ opt_field ''error_details'' id details @
     [(''duration_ms'', JInt durationMS), (''finished_at'', JTime finishedAt)] @
     (if registered then [(''webhook_registered'', JBool True)] else [])"

definition json_member :: "string \<Rightarrow> json option" where
  "json_member p = (if p = [] then None else Some (decodeJSON p))"

text \<open>What a synchronous caller is told once the callback of its node has ended the execution.\<close>

definition completion_response :: "preparedExecution \<Rightarrow> Execution \<Rightarrow> instant \<Rightarrow> response" where
  "completion_response pl e now =
     (let duration = (case ex_DurationMS e of None \<Rightarrow> 0 | Some n \<Rightarrow> n);
          finished = (case ex_CompletedAt e of None \<Rightarrow> now | Some t \<Rightarrow> t);
          result = json_member (ex_ResultPayload e)
      in if ex_Status e = stFailed
         then (JSONreply (nat (httpStatusForFailedExecution e))
                 (execute_body e (ex_Status e) None
                    (Some (case ex_ErrorMessage e of None \<Rightarrow> ''execution failed'' | Some m \<Rightarrow> m))
                    result duration finished (ex_WebhookRegistered e)),
               execution_headers e)
         else (JSONreply 200
                 (execute_body e (ex_Status e) result None None duration finished (ex_WebhookRegistered e)),
               execution_headers e @ routed_header pl))"

definition answer_replay :: "dispatch_config \<Rightarrow> preparedExecution \<Rightarrow> replayHit \<Rightarrow> response proc" where
  "answer_replay dc pl hit = do {
     r \<leftarrow> completeReplayHit dc pl hit;
     now \<leftarrow> time_Now;
     State_Monad.return (case r of
         Inl er \<Rightarrow> error_response dc (raw (err_msg er))
       | Inr _ \<Rightarrow> (JSONreply 200 (execute_body (pl_exec pl) stSucceeded (json_member (rh_Result hit)) None None 0 now
             (pl_webhookRegistered pl)),
           execution_headers (pl_exec pl) @ [(''X-AgentField-Replay-Hit'', rh_SourceExecutionID hit)]))
   }"

text \<open>
  \<open>handleSync\<close> once a plan exists. The completion is done by a worker of its own while the handler waits for it; a
  full completion queue leaves it undone.
\<close>

definition run_sync :: "dispatch_config \<Rightarrow> observations \<Rightarrow> preparedExecution \<Rightarrow> response proc" where
  "run_sync dc ob pl =
     (case pp_replayHit pl of
        Some hit \<Rightarrow> answer_replay dc pl hit
      | None \<Rightarrow> do {
          publishExecutionPlanStatusEvent dc pl stRunning;
          (r, pl) \<leftarrow> callAgent dc ob pl;
          if snd (snd (snd r)) = None \<and> fst (snd (snd r))
          then do {
            done \<leftarrow> waitForExecutionCompletion dc ob (ex_ExecutionID (pl_exec pl));
            now \<leftarrow> time_Now;
            State_Monad.return (case done of Inl er \<Rightarrow> error_response dc er | Inr e \<Rightarrow> completion_response pl e now)
          }
          else do {
            r \<leftarrow> take_usage dc pl r;
            full \<leftarrow> observe (ob_queueFull ob);
            if full then State_Monad.return (error_response dc (raw ''completion queue is full''))
            else do {
              done \<leftarrow> processCompletionJob dc pl r;
              now \<leftarrow> time_Now;
              State_Monad.return (case done of
                  Inl er \<Rightarrow> error_response dc (raw (err_msg er))
                | Inr _ \<Rightarrow>
                    (case snd (snd (snd r)) of
                       Some er \<Rightarrow> error_response dc er
                     | None \<Rightarrow> (JSONreply 200 (execute_body (pl_exec pl) stSucceeded (json_member (fst r)) None None
                           (milliseconds (fst (snd r))) now (pl_webhookRegistered pl)),
                         execution_headers (pl_exec pl) @ routed_header pl)))
            }
          }
        })"

definition handleSync ::
    "dispatch_config \<Rightarrow> observations \<Rightarrow> string \<Rightarrow> ExecuteRequest \<Rightarrow> executionHeaders \<Rightarrow> string \<Rightarrow> string \<Rightarrow> response proc" where
  "handleSync dc ob target req h callerDID targetDID = do {
     r \<leftarrow> prepareExecution dc ob target req h callerDID targetDID True stRunning;
     case r of
       Inl er \<Rightarrow> State_Monad.return (error_response dc er)
     | Inr pl \<Rightarrow> do {
         answer \<leftarrow> run_sync dc ob (pl\<lparr>pl_executionMode := ''sync''\<rparr>);
         releaseSlot pl;
         State_Monad.return answer
       }
   }"

subsection \<open>The job of an asynchronous execution\<close>

definition queued_updater :: "string \<Rightarrow> (Execution, unit) updater" where
  "queued_updater k now current =
     (case current of
        None \<Rightarrow> Inl (Errorf (''execution '' @ k @ '' not found''))
      | Some e \<Rightarrow>
          if ex_Status e \<noteq> stQueued then Inr (None, ())
          else Inr (Some (e\<lparr>ex_Status := stRunning, ex_UpdatedAt := now\<rparr>), ()))"

definition queued_workflow_updater :: "string \<Rightarrow> wf_updater" where
  "queued_workflow_updater k now current =
     (case current of
        None \<Rightarrow> Inl (Errorf (''workflow execution '' @ k @ '' not found''))
      | Some f \<Rightarrow> Inr (if wf_Status f \<noteq> stQueued then f else f\<lparr>wf_Status := stRunning, wf_UpdatedAt := now\<rparr>))"

definition transitionQueuedExecutionToRunning :: "preparedExecution \<Rightarrow> (goerr + Execution option \<times> bool) proc" where
  "transitionQueuedExecutionToRunning pl = do {
     let k = ex_ExecutionID (pl_exec pl);
     r \<leftarrow> UpdateExecutionRecord k (queued_updater k);
     case r of
       Inl er \<Rightarrow> State_Monad.return (Inl er)
     | Inr (updated, _) \<Rightarrow>
         if ex_Status (pl_exec pl) = stQueued \<and> map_option ex_Status updated = Some stRunning
         then do {
           _ \<leftarrow> UpdateWorkflowExecution k (queued_workflow_updater k);
           State_Monad.return (Inr (updated, True))
         }
         else State_Monad.return (Inr (updated, False))
   }"

text \<open>
  The loop in front of the call: \<open>None\<close> gives the job up, \<open>Some\<close> is the plan to dispatch. Each round of it waits for a
  resume; \<open>rounds\<close> is how often that can happen before the context of the job ends.
\<close>

primrec start_queued ::
    "dispatch_config \<Rightarrow> observations \<Rightarrow> preparedExecution \<Rightarrow> nat \<Rightarrow> preparedExecution option proc" where
  "start_queued dc ob pl 0 = State_Monad.return None"
| "start_queued dc ob pl (Suc rounds) = do {
     r \<leftarrow> transitionQueuedExecutionToRunning pl;
     case r of
       Inl _ \<Rightarrow> State_Monad.return (Some pl)
     | Inr (updated, transitioned) \<Rightarrow>
         (case updated of
            Some e \<Rightarrow>
              if IsTerminalExecutionStatus (ex_Status e) then State_Monad.return None
              else if ex_Status e = stPaused then do {
                w \<leftarrow> waitForResume dc ob (ex_ExecutionID (pl_exec pl));
                if w \<noteq> None then State_Monad.return None else start_queued dc ob pl rounds
              }
              else if transitioned then do {
                let pl = pl\<lparr>pl_exec := (pl_exec pl)\<lparr>ex_Status := stRunning, ex_UpdatedAt := ex_UpdatedAt e\<rparr>\<rparr>;
                publishExecutionPlanStatusEvent dc pl stRunning;
                State_Monad.return (Some pl)
              }
              else State_Monad.return (Some pl)
          | None \<Rightarrow> State_Monad.return (Some pl))
   }"

definition still_wanted :: "dispatch_config \<Rightarrow> observations \<Rightarrow> string \<Rightarrow> bool proc" where
  "still_wanted dc ob k = do {
     got \<leftarrow> GetExecutionRecord k;
     case non_fatal got of
       None \<Rightarrow> State_Monad.return True
     | Some e \<Rightarrow>
         if IsTerminalExecutionStatus (ex_Status e) then State_Monad.return False
         else if ex_Status e = stPaused then do {
           w \<leftarrow> waitForResume dc ob k;
           State_Monad.return (w = None)
         }
         else State_Monad.return True
   }"

definition shutdown_workflow_updater :: "string \<Rightarrow> Execution \<Rightarrow> wf_updater" where
  "shutdown_workflow_updater k e now current =
     (case current of
        None \<Rightarrow> Inl (Errorf (''workflow execution '' @ k @ '' not found''))
      | Some f \<Rightarrow> Inr (f\<lparr>wf_Status := ex_Status e, wf_StatusReason := ex_StatusReason e,
          wf_CompletedAt := ex_CompletedAt e, wf_UpdatedAt := ex_UpdatedAt e\<rparr>))"

definition failForControlPlaneShutdown :: "dispatch_config \<Rightarrow> preparedExecution \<Rightarrow> exec_error \<Rightarrow> unit proc" where
  "failForControlPlaneShutdown dc pl shutdownErr = do {
     let k = ex_ExecutionID (pl_exec pl);
     r \<leftarrow> failExecution (dc_controller dc) (dc_validJSON dc) (plan.truncate pl) shutdownErr 0 [];
     case r of
       Inl _ \<Rightarrow> State_Monad.return ()
     | Inr _ \<Rightarrow> do {
         got \<leftarrow> GetExecutionRecord k;
         case non_fatal got of
           None \<Rightarrow> State_Monad.return ()
         | Some e \<Rightarrow> do {
             _ \<leftarrow> UpdateWorkflowExecution k (shutdown_workflow_updater k e);
             State_Monad.return ()
           }
       }
   }"

definition terminateForControlPlaneShutdown :: "dispatch_config \<Rightarrow> preparedExecution \<Rightarrow> exec_error \<Rightarrow> unit proc" where
  "terminateForControlPlaneShutdown dc pl shutdownErr = do {
     failForControlPlaneShutdown dc pl shutdownErr;
     releaseSlot pl
   }"

text \<open>\<open>processWithContext\<close> up to its deferred release.\<close>

definition process_job :: "dispatch_config \<Rightarrow> observations \<Rightarrow> nat \<Rightarrow> preparedExecution \<Rightarrow> unit proc" where
  "process_job dc ob rounds pl = do {
     wanted \<leftarrow> still_wanted dc ob (ex_ExecutionID (pl_exec pl));
     if \<not> wanted then State_Monad.return ()
     else do {
       started \<leftarrow> start_queued dc ob pl rounds;
       case started of
         None \<Rightarrow> State_Monad.return ()
       | Some pl \<Rightarrow> do {
           (r, pl) \<leftarrow> callAgent dc ob pl;
           stopping \<leftarrow> observe (ob_stopping ob);
           if stopping
           then failForControlPlaneShutdown dc pl
                  (newControlPlaneShutdownError ''execution was interrupted because the control plane shut down'')
           else if snd (snd (snd r)) = None \<and> fst (snd (snd r)) then State_Monad.return ()
           else do {
             r \<leftarrow> take_usage dc pl r;
             _ \<leftarrow> processCompletionJob dc pl r;
             State_Monad.return ()
           }
         }
     }
   }"

text \<open>What a worker of the pool does with a job: end it unstarted when the pool has stopped, else process it.\<close>

definition run_job :: "dispatch_config \<Rightarrow> observations \<Rightarrow> nat \<Rightarrow> bool \<Rightarrow> preparedExecution \<Rightarrow> unit proc" where
  "run_job dc ob rounds stopped pl = do {
     (if stopped
      then terminateForControlPlaneShutdown dc pl
             (newControlPlaneShutdownError ''execution was not started before the control plane shut down'')
      else do { process_job dc ob rounds pl; releaseSlot pl });
     move_place (-1)
   }"

subsection \<open>The asynchronous handler\<close>

definition async_body :: "preparedExecution \<Rightarrow> status \<Rightarrow> (string \<times> json) list" where
  "async_body pl st =
     (let e = pl_exec pl
      in [(''execution_id'', JStr (ex_ExecutionID e)), (''run_id'', JStr (ex_RunID e)), (''workflow_id'', JStr (ex_RunID e)),
          (''status'', JStr st), (''target'', JStr (pl_NodeID pl @ ''.'' @ pl_TargetName pl)), (''type'', JStr (pl_targetType pl)),
          (''created_at'', JTime (ex_CreatedAt e)), (''enqueued_at'', JTime (ex_CreatedAt e)),
          (''webhook_registered'', JBool (pl_webhookRegistered pl))] @
         opt_field ''webhook_error'' JStr (pp_webhookError pl))"

definition queue_full_response :: response where
  "queue_full_response =
     (JSONreply 503 [(''error'', JStr ''async execution queue is full; retry later''),
        (''error_category'', JStr ''concurrency_limit''), (''retry_after'', JInt 1)], [(''Retry-After'', ''1'')])"

text \<open>The second component is the plan of a submitted job; its slot and its place go with it.\<close>

definition run_async ::
    "dispatch_config \<Rightarrow> observations \<Rightarrow> preparedExecution \<Rightarrow> (response \<times> preparedExecution option) proc" where
  "run_async dc ob pl =
     (case pp_replayHit pl of
        Some hit \<Rightarrow> do {
          r \<leftarrow> completeReplayHit dc pl hit;
          releaseSlot pl;
          move_place (-1);
          State_Monad.return
            (case r of
               Inl er \<Rightarrow> error_response dc (raw (err_msg er))
             | Inr _ \<Rightarrow> (JSONreply 202 (async_body pl stSucceeded),
                 execution_headers (pl_exec pl) @ [(''X-AgentField-Replay-Hit'', rh_SourceExecutionID hit)]), None)
        }
      | None \<Rightarrow> do {
          p \<leftarrow> observe (ob_pool ob);
          if \<not> fst (submitReserved 0 p)
          then do {
            let er = newControlPlaneShutdownError ''async execution queue stopped; retry later'';
            terminateForControlPlaneShutdown dc pl er;
            move_place (-1);
            State_Monad.return (error_response dc er, None)
          }
          else do {
            emit (JobQueued (ex_ExecutionID (pl_exec pl)));
            publishExecutionPlanStatusEvent dc pl stQueued;
            State_Monad.return ((JSONreply 202 (async_body pl stQueued), execution_headers (pl_exec pl)), Some pl)
          }
        })"

definition handleAsync ::
    "dispatch_config \<Rightarrow> observations \<Rightarrow> string \<Rightarrow> ExecuteRequest \<Rightarrow> executionHeaders \<Rightarrow> string \<Rightarrow> string \<Rightarrow>
     (response \<times> preparedExecution option) proc" where
  "handleAsync dc ob target req h callerDID targetDID = do {
     p \<leftarrow> observe (ob_pool ob);
     case fst (reserveForAdmission p) of
       (False, True) \<Rightarrow> State_Monad.return
         (error_response dc (newControlPlaneShutdownError ''async execution queue stopped; retry later''), None)
     | (False, False) \<Rightarrow> State_Monad.return (queue_full_response, None)
     | (True, _) \<Rightarrow> do {
         move_place 1;
         r \<leftarrow> prepareExecution dc ob target req h callerDID targetDID True stQueued;
         case r of
           Inl er \<Rightarrow> do { move_place (-1); State_Monad.return (error_response dc er, None) }
         | Inr pl \<Rightarrow> run_async dc ob (pl\<lparr>pl_executionMode := ''async''\<rparr>)
       }
   }"

end
