(* ===== verification/Restart.thy ===== *)
theory Restart
  imports Dispatch
begin

text \<open>
  The restart of a run from one of its executions (\<open>internal/handlers/execute_restart.go\<close>) and the automatic resumption
  of runs that a shutdown or a restarted node has interrupted (\<open>execute_resume_interrupted.go\<close>). Both start a new
  execution on the asynchronous lane, write the lineage of the new run and point the old rows to it.
\<close>

subsection \<open>The stored payload\<close>

definition map_field :: "json \<Rightarrow> (string \<times> json) list option \<Rightarrow> (string \<times> json) list option option" where
  "map_field v cur =
     (case v of
        JNull \<Rightarrow> Some None
      | JObj ms \<Rightarrow> Some (Some (fold (\<lambda>(k, x). AList.update k x) ms (case cur of None \<Rightarrow> [] | Some m \<Rightarrow> m)))
      | _ \<Rightarrow> None)"

fun decode_envelope :: "(string \<times> json) list \<Rightarrow> (string \<times> json) list option \<times> (string \<times> json) list option \<Rightarrow>
    ((string \<times> json) list option \<times> (string \<times> json) list option) option" where
  "decode_envelope [] (i, c) = Some (i, c)"
| "decode_envelope ((k, v) # ms) (i, c) =
     (if ToLower k = ''input'' then (case map_field v i of None \<Rightarrow> None | Some i \<Rightarrow> decode_envelope ms (i, c))
      else if ToLower k = ''context'' then (case map_field v c of None \<Rightarrow> None | Some c \<Rightarrow> decode_envelope ms (i, c))
      else decode_envelope ms (i, c))"

text \<open>The input and the context; \<open>decode\<close> decodes a JSON object.\<close>

definition DecodeStoredExecutionPayload ::
    "(string \<Rightarrow> (string \<times> json) list option) \<Rightarrow> string \<Rightarrow> (string \<times> json) list option \<times> (string \<times> json) list option" where
  "DecodeStoredExecutionPayload decode text =
     (if text = [] then (None, None)
      else case decode text of
          None \<Rightarrow> (None, None)
        | Some ms \<Rightarrow>
            (case decode_envelope ms (None, None) of
               Some (i, c) \<Rightarrow> if i \<noteq> None \<or> c \<noteq> None then (i, c) else (Some ms, None)
             | None \<Rightarrow> (Some ms, None)))"

subsection \<open>Lineage\<close>

record restartOptions =
  ro_Scope :: string
  ro_Reuse :: string
  ro_Reason :: string
  ro_Fork :: bool
  ro_Input :: "(string \<times> json) list option"
  ro_Context :: "(string \<times> json) list option"
  ro_Webhook :: "WebhookRequest option"
  ro_Kind :: string
  ro_ResumeAttempt :: int

definition lineage_members :: "Execution \<Rightarrow> Execution \<Rightarrow> restartOptions \<Rightarrow> string \<Rightarrow> (string \<times> json) list" where
  "lineage_members source first opts kind =
     [(''kind'', JStr kind), (''restarted_execution_id'', JStr (ex_ExecutionID first))] @
     (if kind = ''resume'' then [(''resume_attempt'', JInt (ro_ResumeAttempt opts))] else []) @
     [(''reuse'', JStr (ro_Reuse opts)), (''scope'', JStr (ro_Scope opts)),
      (''source_execution_id'', JStr (ex_ExecutionID source)), (''source_run_id'', JStr (ex_RunID source))]"

definition set_lineage :: "string \<Rightarrow> string option \<Rightarrow> namespaces \<Rightarrow> goerr + (namespaces \<times> unit)" where
  "set_lineage encoded reason ns =
     (let ns = AList.update ''lineage'' encoded ns
      in Inr (case reason of None \<Rightarrow> AList.delete ''reason'' ns | Some r \<Rightarrow> AList.update ''reason'' r ns, ()))"

definition persistRestartRunMetadata ::
    "dispatch_config \<Rightarrow> preparedExecution \<Rightarrow> Execution \<Rightarrow> Execution \<Rightarrow> restartOptions \<Rightarrow> string \<Rightarrow> unit proc" where
  "persistRestartRunMetadata dc pl source first opts kind =
     (let reason = TrimSpace (ro_Reason opts);
          encodedReason = (if reason = [] then None
            else case dc_marshal dc (JStr reason) of Inl _ \<Rightarrow> None | Inr t \<Rightarrow> Some t)
      in case dc_marshal dc (JObj (lineage_members source first opts kind)) of
           Inl _ \<Rightarrow> State_Monad.return ()
         | Inr encoded \<Rightarrow> do {
             _ \<leftarrow> update_run (dc_metadata dc) (ex_RunID (pl_exec pl)) (set_lineage encoded encodedReason);
             State_Monad.return ()
           })"

definition point_forward :: "dispatch_config \<Rightarrow> Execution \<Rightarrow> instant \<Rightarrow> namespaces \<Rightarrow> goerr + (namespaces \<times> unit)" where
  "point_forward dc successor at_time ns =
     (let lineage = (case map_of ns ''lineage'' of
            None \<Rightarrow> []
          | Some t \<Rightarrow> if t = [] then [] else (case dc_object dc t of None \<Rightarrow> [] | Some ms \<Rightarrow> ms));
          lineage = AList.update ''restarted_as'' (JObj [(''at'', JTime at_time),
            (''execution_id'', JStr (ex_ExecutionID successor)), (''run_id'', JStr (ex_RunID successor))]) lineage
      in case dc_marshal dc (JObj lineage) of
           Inl e \<Rightarrow> Inl (Errorf e)
         | Inr encoded \<Rightarrow> Inr (AList.update ''lineage'' encoded ns, ()))"

fun set_pointers :: "string list \<Rightarrow> string \<Rightarrow> unit proc" where
  "set_pointers [] new = State_Monad.return ()"
| "set_pointers (k # ks) new = do {
     (if k = [] then State_Monad.return () else do { _ \<leftarrow> SetExecutionRestartedAs k new; State_Monad.return () });
     set_pointers ks new
   }"

definition persistRestartForwardPointers :: "dispatch_config \<Rightarrow> Execution \<Rightarrow> Execution \<Rightarrow> Execution \<Rightarrow> unit proc" where
  "persistRestartForwardPointers dc source first successor = do {
     set_pointers (ex_ExecutionID source #
       (if ex_ExecutionID first \<noteq> ex_ExecutionID source then [ex_ExecutionID first] else [])) (ex_ExecutionID successor);
     now \<leftarrow> time_Now;
     _ \<leftarrow> update_run (dc_metadata dc) (ex_RunID source) (point_forward dc successor now);
     State_Monad.return ()
   }"

subsection \<open>The restart\<close>

text \<open>The first of the executions without a parent, in the order they started, else the first of all.\<close>

definition restart_root :: "Execution list \<Rightarrow> Execution option" where
  "restart_root es =
     (case sort_key ex_StartedAt es of
        [] \<Rightarrow> None
      | e # es \<Rightarrow> (case find (\<lambda>e. trimmed_empty (ex_ParentExecutionID e)) (e # es) of None \<Rightarrow> Some e | Some r \<Rightarrow> Some r))"

definition findWorkflowRestartRoot :: "string \<Rightarrow> (goerr + Execution option) proc" where
  "findWorkflowRestartRoot runID = do {
     got \<leftarrow> QueryExecutionRecords (no_filter\<lparr>fl_RunID := Some runID, fl_SortBy := ''started_at''\<rparr>);
     State_Monad.return (case got of Inl e \<Rightarrow> Inl e | Inr es \<Rightarrow> Inr (restart_root es))
   }"

definition restart_headers :: "dispatch_config \<Rightarrow> Execution \<Rightarrow> Execution \<Rightarrow> restartOptions \<Rightarrow> executionHeaders" where
  "restart_headers dc source first opts =
     (let h = \<lparr>eh_runID = dc_runID dc, eh_parentExecutionID = None, eh_sessionID = ex_SessionID first,
            eh_actorID = ex_ActorID first, eh_replaySourceRunID = ex_RunID source,
            eh_replayBeforeExecutionID = ex_ExecutionID source, eh_replayMode = ro_Reuse opts\<rparr>;
          h = (if ro_Reuse opts = ''none'' then h\<lparr>eh_replaySourceRunID := [], eh_replayBeforeExecutionID := []\<rparr> else h)
      in if ro_Scope opts = ''execution'' \<and> ro_Reuse opts = ''succeeded-before''
         then h\<lparr>eh_replayMode := ''all-succeeded'', eh_replayBeforeExecutionID := []\<rparr> else h)"

definition restart_request :: "dispatch_config \<Rightarrow> Execution \<Rightarrow> restartOptions \<Rightarrow> ExecuteRequest" where
  "restart_request dc first opts =
     (case DecodeStoredExecutionPayload (dc_object dc) (ex_InputPayload first) of
        (input, context) \<Rightarrow>
          \<lparr>rq_Input = Some (case ro_Input opts of Some ms \<Rightarrow> ms | None \<Rightarrow> (case input of None \<Rightarrow> [] | Some ms \<Rightarrow> ms)),
           rq_Context = (case ro_Context opts of Some ms \<Rightarrow> ms | None \<Rightarrow> (case context of None \<Rightarrow> [] | Some ms \<Rightarrow> ms)),
           rq_Webhook = ro_Webhook opts, rq_RunMetadata = None\<rparr>)"

definition restart_kind :: "restartOptions \<Rightarrow> string" where
  "restart_kind opts =
     (let kind = TrimSpace (ro_Kind opts)
      in if kind \<noteq> [] then kind
         else if ro_Fork opts \<or> ro_Input opts \<noteq> None \<or> ro_Context opts \<noteq> None then ''fork'' else ''restart'')"

datatype restart_error = ResponseError nat string | QueueError bool | Refused exec_error

record restartExecutionResponse =
  rx_ExecutionID :: string
  rx_RunID :: string
  rx_Target :: string
  rx_Type :: string
  rx_CreatedAt :: instant
  rx_SourceExecutionID :: string
  rx_SourceRunID :: string
  rx_RestartedExecutionID :: string
  rx_ReplayBefore :: string
  rx_ReplayMode :: string
  rx_Scope :: string
  rx_Kind :: string
  rx_WebhookRegistered :: bool
  rx_WebhookError :: "string option"

definition restart_response ::
    "Execution \<Rightarrow> Execution \<Rightarrow> restartOptions \<Rightarrow> executionHeaders \<Rightarrow> string \<Rightarrow> preparedExecution \<Rightarrow> restartExecutionResponse" where
  "restart_response source first opts h target pl =
     \<lparr>rx_ExecutionID = ex_ExecutionID (pl_exec pl), rx_RunID = ex_RunID (pl_exec pl), rx_Target = target,
      rx_Type = pl_targetType pl, rx_CreatedAt = ex_CreatedAt (pl_exec pl),
      rx_SourceExecutionID = ex_ExecutionID source, rx_SourceRunID = ex_RunID source,
      rx_RestartedExecutionID = ex_ExecutionID first, rx_ReplayBefore = eh_replayBeforeExecutionID h,
      rx_ReplayMode = eh_replayMode h, rx_Scope = ro_Scope opts, rx_Kind = restart_kind opts,
      rx_WebhookRegistered = pl_webhookRegistered pl, rx_WebhookError = pp_webhookError pl\<rparr>"

text \<open>
  The plan of a submitted job is the second component, as in \<open>handleAsync\<close>. \<open>submit_restart\<close> begins with the new
  execution on record; its place in the pool has been reserved.
\<close>

definition submit_restart ::
    "dispatch_config \<Rightarrow> observations \<Rightarrow> Execution \<Rightarrow> Execution \<Rightarrow> restartOptions \<Rightarrow> executionHeaders \<Rightarrow> string \<Rightarrow>
     preparedExecution \<Rightarrow> ((restart_error + restartExecutionResponse) \<times> preparedExecution option) proc" where
  "submit_restart dc ob source first opts h target pl = do {
     persistRestartRunMetadata dc pl source first opts (restart_kind opts);
     publishExecutionPlanStatusEvent dc pl stRunning;
     p \<leftarrow> observe (ob_pool ob);
     if \<not> fst (submitReserved 0 p)
     then do {
       terminateForControlPlaneShutdown dc pl (newControlPlaneShutdownError ''async execution queue stopped; retry later'');
       move_place (-1);
       State_Monad.return (Inl (QueueError True), None)
     }
     else do {
       emit (JobQueued (ex_ExecutionID (pl_exec pl)));
       persistRestartForwardPointers dc source first (pl_exec pl);
       State_Monad.return (Inr (restart_response source first opts h target pl), Some pl)
     }
   }"

definition restart_from ::
    "dispatch_config \<Rightarrow> observations \<Rightarrow> Execution \<Rightarrow> Execution \<Rightarrow> restartOptions \<Rightarrow>
     ((restart_error + restartExecutionResponse) \<times> preparedExecution option) proc" where
  "restart_from dc ob source first opts = do {
     let h = restart_headers dc source first opts;
     let target = ex_NodeID first @ ''.'' @ ex_ReasonerID first;
     p \<leftarrow> observe (ob_pool ob);
     case fst (reserveForAdmission p) of
       (False, stopped) \<Rightarrow> State_Monad.return (Inl (QueueError stopped), None)
     | (True, _) \<Rightarrow> do {
         move_place 1;
         r \<leftarrow> prepareExecution dc ob target (restart_request dc first opts) h [] [] True stRunning;
         case r of
           Inl er \<Rightarrow> do { move_place (-1); State_Monad.return (Inl (Refused er), None) }
         | Inr pl \<Rightarrow> submit_restart dc ob source first opts h target pl
       }
   }"

definition startRestart ::
    "dispatch_config \<Rightarrow> observations \<Rightarrow> Execution \<Rightarrow> restartOptions \<Rightarrow>
     ((restart_error + restartExecutionResponse) \<times> preparedExecution option) proc" where
  "startRestart dc ob source opts =
     (if ro_Scope opts = ''workflow''
      then do {
        first \<leftarrow> findWorkflowRestartRoot (ex_RunID source);
        case first of
          Inl _ \<Rightarrow> State_Monad.return (Inl (ResponseError 500 ''failed to load workflow root''), None)
        | Inr None \<Rightarrow> State_Monad.return (Inl (ResponseError 404 (''run '' @ ex_RunID source @ '' not found'')), None)
        | Inr (Some first) \<Rightarrow> restart_from dc ob source first opts
      }
      else restart_from dc ob source source opts)"

subsection \<open>The endpoint\<close>

record restartExecutionRequest =
  rr_Scope :: string
  rr_Reuse :: string
  rr_Fork :: bool
  rr_Reason :: string
  rr_Input :: "(string \<times> json) list option"
  rr_Context :: "(string \<times> json) list option"
  rr_Webhook :: "WebhookRequest option"

definition restart_body :: "restartExecutionResponse \<Rightarrow> (string \<times> json) list" where
  "restart_body x =
     [(''execution_id'', JStr (rx_ExecutionID x)), (''run_id'', JStr (rx_RunID x)), (''workflow_id'', JStr (rx_RunID x)),
      (''status'', JStr stQueued), (''target'', JStr (rx_Target x)), (''type'', JStr (rx_Type x)),
      (''created_at'', JTime (rx_CreatedAt x)), (''enqueued_at'', JTime (rx_CreatedAt x)),
      (''source_execution_id'', JStr (rx_SourceExecutionID x)), (''source_run_id'', JStr (rx_SourceRunID x)),
      (''restarted_execution_id'', JStr (rx_RestartedExecutionID x))] @
     (if rx_ReplayBefore x = [] then [] else [(''replay_before_execution_id'', JStr (rx_ReplayBefore x))]) @
     [(''replay_mode'', JStr (rx_ReplayMode x)), (''scope'', JStr (rx_Scope x)), (''kind'', JStr (rx_Kind x)),
      (''webhook_registered'', JBool (rx_WebhookRegistered x))] @
     opt_field ''webhook_error'' JStr (rx_WebhookError x)"

definition restart_answer :: "dispatch_config \<Rightarrow> restart_error + restartExecutionResponse \<Rightarrow> response" where
  "restart_answer dc r =
     (case r of
        Inr x \<Rightarrow> (JSONreply 202 (restart_body x), [(''X-Execution-ID'', rx_ExecutionID x), (''X-Run-ID'', rx_RunID x)])
      | Inl (ResponseError n m) \<Rightarrow> (JSONreply n [(''error'', JStr m)], [])
      | Inl (QueueError True) \<Rightarrow>
          error_response dc (newControlPlaneShutdownError ''async execution queue stopped; retry later'')
      | Inl (QueueError False) \<Rightarrow> queue_full_response
      | Inl (Refused er) \<Rightarrow> error_response dc er)"

definition handleRestart ::
    "dispatch_config \<Rightarrow> observations \<Rightarrow> string \<Rightarrow> restartExecutionRequest bound \<Rightarrow> (response \<times> preparedExecution option) proc" where
  "handleRestart dc ob param b =
     (let k = TrimSpace param;
          answer = (\<lambda>n m. State_Monad.return ((JSONreply n [(''error'', JStr m)], []), None));
          req = (case b of Bound req \<Rightarrow> req | _ \<Rightarrow> \<lparr>rr_Scope = [], rr_Reuse = [], rr_Fork = False, rr_Reason = [],
            rr_Input = None, rr_Context = None, rr_Webhook = None\<rparr>);
          scope = (let s = TrimSpace (rr_Scope req) in if s = [] then ''workflow'' else s);
          reuse = (let s = TrimSpace (rr_Reuse req) in if s = [] then ''succeeded-before'' else s)
      in if k = [] then answer 400 ''execution_id is required''
         else case b of BoundErr m \<Rightarrow> answer 400 (''invalid request body: '' @ m) | _ \<Rightarrow>
         if scope \<noteq> ''workflow'' \<and> scope \<noteq> ''execution'' then answer 400 ''scope must be one of: workflow, execution''
         else if reuse \<noteq> ''succeeded-before'' \<and> reuse \<noteq> ''all-succeeded'' \<and> reuse \<noteq> ''none''
         then answer 400 ''reuse must be one of: succeeded-before, all-succeeded, none''
         else do {
           got \<leftarrow> GetExecutionRecord k;
           case got of
             Inl _ \<Rightarrow> answer 500 ''failed to load source execution''
           | Inr None \<Rightarrow> answer 404 (''execution '' @ k @ '' not found'')
           | Inr (Some e) \<Rightarrow> do {
               (r, job) \<leftarrow> startRestart dc ob e
                 \<lparr>ro_Scope = scope, ro_Reuse = reuse, ro_Reason = rr_Reason req, ro_Fork = rr_Fork req,
                  ro_Input = rr_Input req, ro_Context = rr_Context req, ro_Webhook = rr_Webhook req, ro_Kind = [],
                  ro_ResumeAttempt = 0\<rparr>;
               State_Monad.return (restart_answer dc r, job)
             }
         })"

subsection \<open>The resumption of interrupted runs\<close>

text \<open>Whether runs are resumed at all is \<open>cfg_resumeInterrupted\<close> of the controller.\<close>

record resume_config =
  rz_MaxAttempts :: int
  rz_Window :: duration
  rz_Limit :: int
  rz_Delay :: duration

definition default_resume_config :: resume_config where
  "default_resume_config = \<lparr>rz_MaxAttempts = 1, rz_Window = 3600000000000, rz_Limit = 25, rz_Delay = 15000000000\<rparr>"

text \<open>The claims of the process: \<open>LoadOrStore\<close> and \<open>Delete\<close>.\<close>

definition claim_handoff :: "string \<Rightarrow> bool proc" where
  "claim_handoff k = State (\<lambda>w.
     let d = env w (calls w) (data w); fresh = (k \<notin> set (handoff_claims d))
     in (fresh, w\<lparr>data := (if fresh then d\<lparr>handoff_claims := k # handoff_claims d\<rparr> else d), calls := Suc (calls w)\<rparr>))"

definition release_handoff :: "string \<Rightarrow> unit proc" where
  "release_handoff k = State (\<lambda>w.
     ((), w\<lparr>data := (data w)\<lparr>handoff_claims := removeAll k (handoff_claims (data w))\<rparr>\<rparr>))"

definition GetWorkflowRun :: "string \<Rightarrow> (goerr + namespaces option) proc" where
  "GetWorkflowRun runID = db_call (\<lambda>d. (Inr (map_of (run_rows d) runID), d))"

text \<open>The members of the lineage are written by \<open>lineage_members\<close>; names that differ in case only are not considered.\<close>

definition lineage_attempt :: "(string \<times> json) list \<Rightarrow> int" where
  "lineage_attempt ms =
     (case map_of ms ''kind'' of
        Some (JStr kind) \<Rightarrow>
          if kind \<noteq> ''resume'' then 0
          else (case map_of ms ''resume_attempt'' of Some (JInt n) \<Rightarrow> n | _ \<Rightarrow> 0)
      | _ \<Rightarrow> 0)"

definition namespaces_attempt :: "(string \<Rightarrow> (string \<times> json) list option) \<Rightarrow> namespaces \<Rightarrow> int" where
  "namespaces_attempt decode ns =
     (case map_of ns ''lineage'' of
        None \<Rightarrow> 0
      | Some t \<Rightarrow> (case decode t of None \<Rightarrow> 0 | Some ms \<Rightarrow> lineage_attempt ms))"

definition resumeAttemptForRun :: "dispatch_config \<Rightarrow> string \<Rightarrow> int proc" where
  "resumeAttemptForRun dc runID =
     (if TrimSpace runID = [] then State_Monad.return 0
      else do {
        got \<leftarrow> GetWorkflowRun runID;
        State_Monad.return (case non_fatal got of None \<Rightarrow> 0 | Some ns \<Rightarrow> namespaces_attempt (dc_object dc) ns)
      })"

definition resume_options :: "string \<Rightarrow> int \<Rightarrow> restartOptions" where
  "resume_options reason attempt =
     \<lparr>ro_Scope = ''workflow'', ro_Reuse = ''all-succeeded'', ro_Reason = ''auto-resume after '' @ reason, ro_Fork = False,
      ro_Input = None, ro_Context = None, ro_Webhook = None, ro_Kind = ''resume'', ro_ResumeAttempt = attempt\<rparr>"

text \<open>The identifier of the successor and the plan of its job, if the run was handed off.\<close>

definition handOffClaimedInterruptedRun ::
    "dispatch_config \<Rightarrow> observations \<Rightarrow> resume_config \<Rightarrow> string \<Rightarrow> (string \<times> preparedExecution) option proc" where
  "handOffClaimedInterruptedRun dc ob rz k = do {
     got \<leftarrow> GetExecutionRecord k;
     case non_fatal got of
       None \<Rightarrow> State_Monad.return None
     | Some e \<Rightarrow>
         (case interruptedRunHandoffReason (dc_controller dc) e of
            None \<Rightarrow> State_Monad.return None
          | Some reason \<Rightarrow> do {
              attempt \<leftarrow> resumeAttemptForRun dc (ex_RunID e);
              if rz_MaxAttempts rz \<le> attempt then State_Monad.return None
              else do {
                (r, job) \<leftarrow> startRestart dc ob e (resume_options reason (attempt + 1));
                State_Monad.return (case (r, job) of (Inr x, Some pl) \<Rightarrow> Some (rx_ExecutionID x, pl) | _ \<Rightarrow> None)
              }
            })
   }"

definition handOffInterruptedRun ::
    "dispatch_config \<Rightarrow> observations \<Rightarrow> resume_config \<Rightarrow> Execution \<Rightarrow> (string \<times> preparedExecution) option proc" where
  "handOffInterruptedRun dc ob rz e =
     (case interruptedRunHandoffReason (dc_controller dc) e of
        None \<Rightarrow> State_Monad.return None
      | Some _ \<Rightarrow> do {
          fresh \<leftarrow> claim_handoff (ex_ExecutionID e);
          if \<not> fresh then State_Monad.return None
          else do {
            r \<leftarrow> handOffClaimedInterruptedRun dc ob rz (ex_ExecutionID e);
            release_handoff (ex_ExecutionID e);
            State_Monad.return r
          }
        })"

text \<open>The goroutine that a scheduled hand-off runs in: the delay first, unless its context ends before.\<close>

definition delayed_handoff ::
    "dispatch_config \<Rightarrow> observations \<Rightarrow> resume_config \<Rightarrow> Execution \<Rightarrow> (string \<times> preparedExecution) option proc" where
  "delayed_handoff dc ob rz e =
     (case interruptedRunHandoffReason (dc_controller dc) e of
        None \<Rightarrow> State_Monad.return None
      | Some _ \<Rightarrow> do {
          fresh \<leftarrow> claim_handoff (ex_ExecutionID e);
          if \<not> fresh then State_Monad.return None
          else do {
            fired \<leftarrow> (if 0 < rz_Delay rz then do { ws \<leftarrow> observe (ob_wait ob); State_Monad.return (ws_timer ws) }
                     else State_Monad.return True);
            r \<leftarrow> (if fired then handOffClaimedInterruptedRun dc ob rz (ex_ExecutionID e) else State_Monad.return None);
            release_handoff (ex_ExecutionID e);
            State_Monad.return r
          }
        })"

text \<open>The hand-offs at startup: each has identifiers of its own, \<open>dcs i\<close>.\<close>

primrec hand_off_all ::
    "(nat \<Rightarrow> dispatch_config) \<Rightarrow> observations \<Rightarrow> resume_config \<Rightarrow> nat \<Rightarrow> Execution list \<Rightarrow> (string \<times> preparedExecution) list proc" where
  "hand_off_all dcs ob rz i [] = State_Monad.return []"
| "hand_off_all dcs ob rz i (e # es) = do {
     r \<leftarrow> handOffInterruptedRun (dcs i) ob rz e;
     rs \<leftarrow> hand_off_all dcs ob rz (Suc i) es;
     State_Monad.return (case r of None \<Rightarrow> rs | Some x \<Rightarrow> x # rs)
   }"

definition startup_filter :: "resume_config \<Rightarrow> instant \<Rightarrow> ExecutionFilter" where
  "startup_filter rz now = no_filter\<lparr>fl_UpdatedAfter := Some (now - rz_Window rz), fl_TerminalOnly := True, fl_RootOnly := True,
     fl_WithoutRestartedAs := True,
     fl_StatusReasons := [ErrorCategoryControlPlaneShutdown, ExecutionReasonAgentShutdownCancelled],
     fl_StatusReasonPrefixes := [''agent_restart_orphaned''], fl_Limit := rz_Limit rz, fl_SortBy := ''updated_at''\<rparr>"

definition ResumeInterruptedRunsOnStartup ::
    "(nat \<Rightarrow> dispatch_config) \<Rightarrow> observations \<Rightarrow> resume_config \<Rightarrow> (string \<times> preparedExecution) list proc" where
  "ResumeInterruptedRunsOnStartup dcs ob rz =
     (if \<not> cfg_resumeInterrupted (dc_controller (dcs 0)) then State_Monad.return []
      else do {
        fired \<leftarrow> (if 0 < rz_Delay rz then do { ws \<leftarrow> observe (ob_wait ob); State_Monad.return (ws_timer ws) }
                 else State_Monad.return True);
        if \<not> fired \<or> rz_Limit rz \<le> 0 then State_Monad.return []
        else do {
          now \<leftarrow> time_Now;
          got \<leftarrow> QueryExecutionRecords (startup_filter rz now);
          case got of
            Inl _ \<Rightarrow> State_Monad.return []
          | Inr es \<Rightarrow> hand_off_all dcs ob rz 0 (take (nat (rz_Limit rz)) (sort_key ex_UpdatedAt es))
        }
      })"

definition reaped_by_restart :: "string \<Rightarrow> Execution \<Rightarrow> bool" where
  "reaped_by_restart instanceID e \<longleftrightarrow> ex_InstanceID e = instanceID \<and>
     (case ex_StatusReason e of None \<Rightarrow> False | Some r \<Rightarrow> HasPrefix r ''agent_restart_orphaned'')"

primrec schedule_all :: "controller \<Rightarrow> Execution list \<Rightarrow> unit proc" where
  "schedule_all c [] = State_Monad.return ()"
| "schedule_all c (e # es) = do { scheduleInterruptedRunHandoff c e; schedule_all c es }"

definition handOffInterruptedAgentExecutions :: "controller \<Rightarrow> string \<Rightarrow> string \<Rightarrow> unit proc" where
  "handOffInterruptedAgentExecutions c agentNodeID instanceID =
     (if \<not> cfg_resumeInterrupted c then State_Monad.return ()
      else do {
        got \<leftarrow> QueryExecutionRecords
          (no_filter\<lparr>fl_AgentNodeID := Some agentNodeID, fl_Status := Some stFailed, fl_RootOnly := True\<rparr>);
        case got of
          Inl _ \<Rightarrow> State_Monad.return ()
        | Inr es \<Rightarrow> schedule_all c (filter (reaped_by_restart instanceID) es)
      })"

end
