(* ===== verification/Dispatch_Ledger.thy ===== *)
theory Dispatch_Ledger
  imports Restart
begin

text \<open>
  What a dispatch takes and sends: every slot and place it takes goes back, and its node gets its request at most once.
\<close>

subsection \<open>Operations that leave the ledger alone\<close>

definition untouched :: "(world \<Rightarrow> 'b) \<Rightarrow> 'a proc \<Rightarrow> bool" where
  "untouched f p \<longleftrightarrow> (\<forall>w. f (snd (run_state p w)) = f w)"

lemma untouched_case_sum [intro]:
  "(\<And>e. x = Inl e \<Longrightarrow> untouched f (g e)) \<Longrightarrow> (\<And>a. x = Inr a \<Longrightarrow> untouched f (h a)) \<Longrightarrow>
     untouched f (case x of Inl e \<Rightarrow> g e | Inr a \<Rightarrow> h a)"
  by (cases x) auto

lemma untouched_case_option [intro]:
  "(x = None \<Longrightarrow> untouched f g) \<Longrightarrow> (\<And>a. x = Some a \<Longrightarrow> untouched f (h a)) \<Longrightarrow>
     untouched f (case x of None \<Rightarrow> g | Some a \<Rightarrow> h a)"
  by (cases x) auto

lemma untouched_case_prod [intro]:
  "(\<And>a b. x = (a, b) \<Longrightarrow> untouched f (g a b)) \<Longrightarrow> untouched f (case x of (a, b) \<Rightarrow> g a b)"
  by (cases x) auto

lemma untouched_if [intro]: "(b \<Longrightarrow> untouched f p) \<Longrightarrow> (\<not> b \<Longrightarrow> untouched f q) \<Longrightarrow> untouched f (if b then p else q)"
  by simp

lemma untouched_Let [intro]: "(\<And>x. x = a \<Longrightarrow> untouched f (g x)) \<Longrightarrow> untouched f (let x = a in g x)"
  by (simp add: Let_def)

lemma untouched_case_nat [intro]:
  "(n = 0 \<Longrightarrow> untouched f g) \<Longrightarrow> (\<And>m. n = Suc m \<Longrightarrow> untouched f (h m)) \<Longrightarrow>
     untouched f (case n of 0 \<Rightarrow> g | Suc m \<Rightarrow> h m)"
  by (cases n) auto

lemma untouched_case_wake [intro]:
  "(x = Ticked \<Longrightarrow> untouched f g) \<Longrightarrow> (\<And>e. x = Woken e \<Longrightarrow> untouched f (h e)) \<Longrightarrow>
     untouched f (case x of Ticked \<Rightarrow> g | Woken e \<Rightarrow> h e)"
  by (cases x) auto

lemma untouched_case_bool [intro]: "(b \<Longrightarrow> untouched f g) \<Longrightarrow> (\<not> b \<Longrightarrow> untouched f h) \<Longrightarrow> untouched f (case b of True \<Rightarrow> g | False \<Rightarrow> h)"
  by (cases b) auto

lemmas untouched_cases = untouched_case_sum untouched_case_option untouched_case_prod untouched_if untouched_Let untouched_case_nat
  untouched_case_wake untouched_case_bool

lemma untouched_return: "untouched f (State_Monad.return a)"
  by (simp add: untouched_def)

lemma untouched_bind: "untouched f p \<Longrightarrow> (\<And>a. untouched f (g a)) \<Longrightarrow> untouched f (State_Monad.bind p g)"
  by (auto simp: untouched_def split: prod.splits) (metis snd_conv)

locale ledger =
  fixes f :: "world \<Rightarrow> 'b"
  assumes blind_data: "f (w\<lparr>data := d\<rparr>) = f w" and blind_calls: "f (w\<lparr>calls := n\<rparr>) = f w"
begin

lemmas blind [simp] = blind_data blind_calls

lemma untouched_time: "untouched f time_Now"
  by (simp add: untouched_def)

lemma untouched_publish: "untouched f (publish e)"
  by (simp add: untouched_def publish_def)

lemma untouched_emit: "untouched f (emit x)"
  by (simp add: untouched_def emit_def)

lemma untouched_db_call: "untouched f (db_call tx)"
  by (simp add: untouched_def db_call_def Let_def split: option.split prod.split)

lemma untouched_observe: "untouched f (observe g)"
  by (simp add: untouched_def observe_def)

lemmas untouched_steps = untouched_cases untouched_return untouched_bind untouched_time untouched_publish untouched_emit untouched_db_call
  untouched_observe

lemma untouched_publish_event: "untouched f (publish_event t k wid node st dat)"
  unfolding publish_event_def by (intro untouched_steps)

lemma untouched_retry: "untouched f p \<Longrightarrow> untouched f (retryDatabaseOperation n p)"
  by (induction n) (subst retryDatabaseOperation.simps, intro untouched_steps; simp)+

lemma untouched_reads: "untouched f (HasExecutionWebhook k)" "untouched f (enrichExecutionWebhook e)"
    "untouched f (GetExecutionRecord k)" "untouched f (GetWorkflowExecution k)"
proof -
  show has: "untouched f (HasExecutionWebhook k)" for k unfolding HasExecutionWebhook_def by (intro untouched_steps)
  show enrich: "untouched f (enrichExecutionWebhook e)" for e
    unfolding enrichExecutionWebhook_def by (intro untouched_steps has)
  show "untouched f (GetExecutionRecord k)" unfolding GetExecutionRecord_def by (intro untouched_steps enrich)
  show "untouched f (GetWorkflowExecution k)" unfolding GetWorkflowExecution_def by (intro untouched_steps)
qed

lemma untouched_writes: "untouched f (CreateExecutionRecord e)" "untouched f (UpdateExecutionRecord k upd)"
    "untouched f (UpdateWorkflowExecution k wupd)" "untouched f (StoreWorkflowExecution we)"
proof -
  show "untouched f (CreateExecutionRecord e)" unfolding CreateExecutionRecord_def by (intro untouched_steps)
  show "untouched f (UpdateExecutionRecord k upd)"
    unfolding UpdateExecutionRecord_def by (intro untouched_steps untouched_reads)
  have "untouched f (update_workflow_attempts n k wupd)" for n
    by (induction n) (subst update_workflow_attempts.simps, intro untouched_steps; simp)+
  then show "untouched f (UpdateWorkflowExecution k wupd)" by (simp add: UpdateWorkflowExecution_def)
  show "untouched f (StoreWorkflowExecution we)"
    unfolding StoreWorkflowExecution_def by (intro untouched_retry untouched_steps)
qed

lemma untouched_query: "untouched f (QueryExecutionRecords flt)"
  unfolding QueryExecutionRecords_def populateWebhookRegistration_def by (intro untouched_steps)

lemma untouched_replay: "untouched f (findReplayHit canonical h nodeID name payload)"
  unfolding findReplayHit_def by (intro untouched_steps untouched_query)

lemma untouched_workflow_sync: "untouched f (updateWorkflowExecutionStatus k st r)"
    "untouched f (updateWorkflowExecutionFinalState k st res el er)"
  unfolding updateWorkflowExecutionStatus_def updateWorkflowExecutionFinalState_def
  by (intro untouched_steps untouched_writes)+

lemma untouched_publishers: "untouched f (publishExecutionEvent c e st dat r)" "untouched f (triggerWebhook c k)"
    "untouched f (PublishExecutionLog pl lv m md)" "untouched f (publishExecutionPlanStatusEvent dc pp st)"
  unfolding publishExecutionEvent_def triggerWebhook_def PublishExecutionLog_def publishExecutionPlanStatusEvent_def
  by (intro untouched_steps untouched_reads untouched_publish_event)+

lemma untouched_finish: "untouched f (finish_execution c pl st res el er dat upd)"
proof -
  have "untouched f (update_with_retries n k upd)" for n k
    by (induction n) (subst update_with_retries.simps, intro untouched_steps untouched_writes; simp)+
  then show ?thesis unfolding finish_execution_def
    by (intro untouched_steps untouched_workflow_sync untouched_publishers)
qed

lemma untouched_completions: "untouched f (completeExecution c pl res el)" "untouched f (failExecution c v pl er el res)"
    "untouched f (processCompletionJob dc pp r)" "untouched f (completeReplayHit dc pp hit)" "untouched f (take_usage dc pp r)"
  unfolding processCompletionJob_def completeExecution_def failExecution_def completeReplayHit_def take_usage_def
  by (intro untouched_steps untouched_publishers untouched_finish untouched_writes untouched_workflow_sync)+

lemma untouched_rows: "untouched f (ensureWorkflowExecutionRecord a b e t p)" "untouched f (register_webhook k)"
  unfolding ensureWorkflowExecutionRecord_def buildWorkflowExecutionRecord_def deriveWorkflowHierarchy_def
    register_webhook_def
  by (intro untouched_steps untouched_writes untouched_reads)+

lemma untouched_waits: "untouched f (waitForResume dc ob k)" "untouched f (stored_terminal k)"
    "untouched f (waitForExecutionCompletion dc ob k)" "untouched f (before_call dc ob k)" "untouched f (moved_on dc ob k)"
    "untouched f (still_wanted dc ob k)"
proof -
  show resume: "untouched f (waitForResume dc ob k)"
    unfolding waitForResume_def by (intro untouched_steps untouched_reads)
  show terminal: "untouched f (stored_terminal k)" unfolding stored_terminal_def by (intro untouched_steps untouched_reads)
  have "untouched f (completion_wait dc k ws wakes)" for ws wakes
  proof (induction wakes)
    case (Cons wake wakes)
    then show ?case unfolding completion_wait.simps by (intro untouched_steps untouched_reads terminal)
  qed (simp add: untouched_return)
  then show "untouched f (waitForExecutionCompletion dc ob k)"
    unfolding waitForExecutionCompletion_def by (intro untouched_steps terminal)
  show "untouched f (before_call dc ob k)" "untouched f (moved_on dc ob k)" "untouched f (still_wanted dc ob k)"
    unfolding before_call_def moved_on_def still_wanted_def by (intro untouched_steps untouched_reads resume)+
qed

lemma untouched_node: "untouched f (resolve_node ob k)" "untouched f (reachable_node ob h k a)"
proof -
  show "untouched f (resolve_node ob k)" unfolding resolve_node_def by (intro untouched_steps)
  have drain: "untouched f (drain_wait ob a k ws wakes)" for a ws wakes
  proof (induction wakes)
    case Nil
    show ?case unfolding drain_wait.simps by (intro untouched_steps)
  next
    case (Cons wake wakes)
    then show ?case unfolding drain_wait.simps by (intro untouched_steps)
  qed
  show "untouched f (reachable_node ob h k a)"
    unfolding reachable_node_def and_then_def waitForDrainingAgent_def by (intro untouched_steps drain)
qed

lemma untouched_lineage: "untouched f (persistRestartRunMetadata dc pl source first opts kind)"
    "untouched f (persistRestartForwardPointers dc source first successor)" "untouched f (findWorkflowRestartRoot k)"
    "untouched f (resumeAttemptForRun dc k)"
proof -
  have "untouched f (set_pointers ks new)" for ks new
    by (induction ks) (simp_all only: set_pointers.simps SetExecutionRestartedAs_def, (intro untouched_steps; assumption?)+)
  then show "untouched f (persistRestartForwardPointers dc source first successor)"
    unfolding persistRestartForwardPointers_def update_run_def by (intro untouched_steps)
  show "untouched f (persistRestartRunMetadata dc pl source first opts kind)" "untouched f (findWorkflowRestartRoot k)"
      "untouched f (resumeAttemptForRun dc k)"
    unfolding persistRestartRunMetadata_def update_run_def findWorkflowRestartRoot_def resumeAttemptForRun_def GetWorkflowRun_def
    by (intro untouched_steps untouched_query)+
qed

lemma untouched_claims: "untouched f (claim_handoff k)" "untouched f (release_handoff k)"
  by (simp_all add: untouched_def claim_handoff_def release_handoff_def Let_def)

lemma untouched_restart_reason: "untouched f (setExecutionRestartReason pl r)" "untouched f (give_up_restart pl b)"
  unfolding give_up_restart_def setExecutionRestartReason_def markAgentUnreachable_def
  by (intro untouched_steps untouched_writes)+

lemma untouched_queue: "untouched f (transitionQueuedExecutionToRunning pl)" "untouched f (start_queued dc ob pl n)"
    "untouched f (failForControlPlaneShutdown dc pl er)"
proof -
  show transition: "untouched f (transitionQueuedExecutionToRunning pl)" for pl
    unfolding transitionQueuedExecutionToRunning_def by (intro untouched_steps untouched_writes)
  show "untouched f (start_queued dc ob pl n)"
  proof (induction n arbitrary: pl)
    case (Suc n)
    then show ?case unfolding start_queued.simps by (intro untouched_steps transition untouched_waits untouched_publishers)
  qed (simp add: untouched_return)
  show "untouched f (failForControlPlaneShutdown dc pl er)"
    unfolding failForControlPlaneShutdown_def by (intro untouched_steps untouched_completions untouched_reads untouched_writes)
qed

end

text \<open>What a request does not change, and what a slot does not change.\<close>

locale resource_ledger = ledger +
  assumes blind_sent: "f (w\<lparr>requests_sent := r\<rparr>) = f w"
begin

lemma untouched_http: "untouched f (http_Do ob req)"
  by (simp add: untouched_def http_Do_def blind_sent)

lemma untouched_call: "untouched f (callAgent dc ob pl)"
proof -
  have case_answer: "untouched f (case x of Responded n b \<Rightarrow> g n b | NotConnected er \<Rightarrow> h er | CallFailed er \<Rightarrow> j er)"
    if "\<And>n b. untouched f (g n b)" "\<And>er. untouched f (h er)" "\<And>er. untouched f (j er)" for x g h and j :: "exec_error \<Rightarrow> 'x proc"
    using that by (cases x) auto
  have polls: "untouched f (restart_polls dc ob t wakes pl i hb er)" for t wakes pl i hb er
  proof (induction wakes arbitrary: pl i hb er)
    case Nil
    show ?case unfolding restart_polls.simps by (intro untouched_steps untouched_restart_reason)
  next
    case (Cons wake wakes)
    show ?case unfolding restart_polls.simps
      by (intro untouched_steps untouched_restart_reason untouched_waits case_answer untouched_http Cons.IH)
  qed
  show ?thesis
    unfolding callAgent_def dispatchAgentRequest_def retryAfterAgentRestart_def
    by (intro untouched_steps untouched_publishers untouched_waits case_answer untouched_http untouched_restart_reason polls)
qed

lemma untouched_runs: "untouched f (run_sync dc ob pl)" "untouched f (process_job dc ob n pl)"
  unfolding run_sync_def process_job_def answer_replay_def
  by (intro untouched_steps untouched_call untouched_completions untouched_publishers untouched_waits untouched_queue)+

end

locale request_ledger = ledger +
  assumes blind_slots: "f (w\<lparr>slots_held := s\<rparr>) = f w" and blind_places: "f (w\<lparr>places_held := m\<rparr>) = f w"
begin

lemma untouched_moves: "untouched f (move_slot k n)" "untouched f (move_place n)" "untouched f (releaseSlot pl)"
  by (simp_all add: untouched_def move_slot_def move_place_def releaseSlot_def blind_slots blind_places State_Monad.return_def)

lemma untouched_prepare: "untouched f (prepareExecution dc ob target req h caller callee acquire st)"
  unfolding prepareExecution_def and_then_def require_def take_slot_def or_free_slot_def prepare_plan_def record_execution_def record_rest_def
    persist_metadata_def
  by (intro untouched_steps untouched_node untouched_replay untouched_moves untouched_rows untouched_writes)

lemma untouched_restart: "untouched f (startRestart dc ob source opts)"
  unfolding startRestart_def restart_from_def submit_restart_def terminateForControlPlaneShutdown_def
  by (intro untouched_steps untouched_lineage untouched_moves untouched_prepare untouched_publishers untouched_queue)

lemma untouched_handoff: "untouched f (handOffInterruptedRun dc ob rz e)"
  unfolding handOffInterruptedRun_def handOffClaimedInterruptedRun_def
  by (intro untouched_steps untouched_reads untouched_lineage untouched_claims untouched_restart)

lemma untouched_handle_restart: "untouched f (handleRestart dc ob param b)"
  unfolding handleRestart_def
  by (cases b) (simp only: bound.case, intro untouched_steps untouched_reads untouched_restart)+

end

interpretation resource: resource_ledger "\<lambda>w. (slots_held w, places_held w)"
  by unfold_locales simp_all

interpretation sent: request_ledger requests_sent
  by unfold_locales simp_all

subsection \<open>Slots and places\<close>

abbreviation resources :: "world \<Rightarrow> (string \<Rightarrow> int) \<times> int" where
  "resources w \<equiv> (slots_held w, places_held w)"

definition slot_of :: "preparedExecution \<Rightarrow> (string \<Rightarrow> int) \<Rightarrow> (string \<Rightarrow> int)" where
  "slot_of pl s = (if pp_slotHeld pl then s(pl_NodeID pl := s (pl_NodeID pl) + 1) else s)"

text \<open>A program that ends in a plan holds the slot of the plan; one that fails holds nothing new.\<close>

definition accounts :: "(exec_error + preparedExecution) proc \<Rightarrow> bool" where
  "accounts p \<longleftrightarrow> (\<forall>w. case run_state p w of
     (Inl _, w') \<Rightarrow> resources w' = resources w
   | (Inr pl, w') \<Rightarrow> resources w' = (slot_of pl (slots_held w), places_held w))"

lemma accountsD:
  assumes "accounts p" and "run_state p w = (r, w')"
  shows "resources w' = (case r of Inl _ \<Rightarrow> resources w | Inr pl \<Rightarrow> (slot_of pl (slots_held w), places_held w))"
  using assms(1) [unfolded accounts_def, rule_format, of w] assms(2) by (cases r) auto

lemma untouched_run: "untouched f p \<Longrightarrow> run_state p w = (a, w') \<Longrightarrow> f w' = f w"
  unfolding untouched_def by (metis snd_conv)

lemma accounts_fail: "accounts (State_Monad.return (Inl e))"
  by (simp add: accounts_def)

lemma accounts_bind:
  assumes "untouched resources p" and "\<And>a. accounts (g a)"
  shows "accounts (State_Monad.bind p g)"
  unfolding accounts_def
proof
  fix w
  obtain a w1 where p: "run_state p w = (a, w1)" by fastforce
  obtain r w2 where g: "run_state (g a) w1 = (r, w2)" by fastforce
  have "resources w1 = resources w" by (rule untouched_run [OF assms(1) p])
  then show "case run_state (State_Monad.bind p g) w of (Inl _, w') \<Rightarrow> resources w' = resources w
      | (Inr pl, w') \<Rightarrow> resources w' = (slot_of pl (slots_held w), places_held w)"
    using accountsD [OF assms(2) g] p g by (simp split: sum.split)
qed

lemma accounts_cases:
  "(\<And>e. x = Inl e \<Longrightarrow> accounts (g1 e)) \<Longrightarrow> (\<And>a. x = Inr a \<Longrightarrow> accounts (h1 a)) \<Longrightarrow> accounts (case_sum g1 h1 x)"
  "(y = None \<Longrightarrow> accounts g2) \<Longrightarrow> (\<And>a. y = Some a \<Longrightarrow> accounts (h2 a)) \<Longrightarrow> accounts (case_option g2 h2 y)"
  "(\<And>a b. z = (a, b) \<Longrightarrow> accounts (h3 a b)) \<Longrightarrow> accounts (case_prod h3 z)"
  by (cases x, auto) (cases y, auto, cases z, auto)

lemma accounts_and_then:
  assumes "untouched resources p" and "\<And>a. accounts (g a)"
  shows "accounts (and_then p g)"
  unfolding and_then_def by (intro accounts_bind accounts_cases accounts_fail assms)

lemma prepare_plan_result:
  assumes "run_state (prepare_plan dc req h cd td a rv nodeID name tt sp st le hit acquired) w = (Inr pl, w')"
  shows "pp_slotHeld pl = acquired \<and> pl_NodeID pl = nodeID \<and> pp_replayHit pl = hit"
  using assms
  by (auto simp: prepare_plan_def and_then_def State_Monad.return_def Let_def split: sum.splits prod.splits)

lemma prepare_plan_leaves: "untouched resources (prepare_plan dc req h cd td a rv nodeID name tt sp st le hit acquired)"
  unfolding prepare_plan_def and_then_def record_execution_def record_rest_def
    persist_metadata_def
  by (intro resource.untouched_steps resource.untouched_rows resource.untouched_writes)

lemma accounts_admitted:
  "accounts (and_then (if acquire then take_slot ob nodeID le else State_Monad.return (Inr ()))
     (\<lambda>_. or_free_slot acquire nodeID (prepare_plan dc req h cd td a rv nodeID name tt sp st le hit acquire)))"
  unfolding accounts_def
proof
  fix w
  let ?a = "if acquire then take_slot ob nodeID le else State_Monad.return (Inr ())"
  let ?p = "prepare_plan dc req h cd td a rv nodeID name tt sp st le hit acquire"
  obtain r w1 where r: "run_state ?a w = (r, w1)" by fastforce
  have w1: "resources w1 = (case r of Inl _ \<Rightarrow> resources w
      | Inr _ \<Rightarrow> (if acquire then (slots_held w)(nodeID := slots_held w nodeID + 1) else slots_held w, places_held w))"
    using r by (auto simp: take_slot_def observe_def move_slot_def State_Monad.return_def split: if_splits option.splits prod.splits)
  obtain q w2 where q: "run_state ?p w1 = (q, w2)" by fastforce
  have w2: "resources w2 = resources w1" by (rule untouched_run [OF prepare_plan_leaves q])
  show "case run_state (and_then ?a (\<lambda>_. or_free_slot acquire nodeID ?p)) w of
      (Inl _, w') \<Rightarrow> resources w' = resources w
    | (Inr pl, w') \<Rightarrow> resources w' = (slot_of pl (slots_held w), places_held w)"
    using r q w1 w2 prepare_plan_result [of dc req h cd td a rv nodeID name tt sp st le hit acquire w1]
    by (auto simp: and_then_def or_free_slot_def move_slot_def slot_of_def State_Monad.return_def fun_eq_iff
        split: sum.split sum.splits if_splits)
qed

lemma prepare_accounts: "accounts (prepareExecution dc ob target req h caller callee acquire st)"
  unfolding prepareExecution_def Let_def require_def
  by (intro accounts_cases accounts_and_then accounts_bind accounts_fail accounts_admitted
      resource.untouched_steps resource.untouched_node resource.untouched_replay)

lemma release_slot: "run_state (releaseSlot pl) w = (x, w') \<Longrightarrow> places_held w' = places_held w \<and>
    slot_of pl (slots_held w') = slots_held w"
  by (auto simp: releaseSlot_def move_slot_def slot_of_def State_Monad.return_def split: if_splits)

lemma slot_of_inj: "slot_of pl s = slot_of pl t \<Longrightarrow> s = t"
  by (auto simp: slot_of_def fun_eq_iff split: if_splits)

lemma slot_of_mode [simp]: "slot_of (pl\<lparr>pl_executionMode := m\<rparr>) = slot_of pl"
  by (simp add: slot_of_def fun_eq_iff)

lemma run_async_accounts:
  assumes "run_state (run_async dc ob pl) w = ((ans, job), w')"
  shows "case job of None \<Rightarrow> places_held w' = places_held w - 1 \<and> slot_of pl (slots_held w') = slots_held w
    | Some pl' \<Rightarrow> pl' = pl \<and> resources w' = resources w"
proof (cases "pp_replayHit pl")
  case (Some hit)
  obtain r w1 where r: "run_state (completeReplayHit dc pl hit) w = (r, w1)" by fastforce
  obtain x w2 where x: "run_state (releaseSlot pl) w1 = (x, w2)" by (rule prod.exhaust)
  have "job = None" "w' = w2\<lparr>places_held := places_held w2 - 1\<rparr>"
    using assms Some r x by (auto simp: run_async_def move_place_def State_Monad.return_def)
  with untouched_run [OF resource.untouched_completions(4) r] release_slot [OF x] show ?thesis by simp
next
  case None
  let ?er = "newControlPlaneShutdownError ''async execution queue stopped; retry later''"
  obtain p w1 where p: "run_state (observe (ob_pool ob)) w = (p, w1)" by fastforce
  have w1: "resources w1 = resources w" by (rule untouched_run [OF resource.untouched_observe p])
  show ?thesis
  proof (cases "fst (submitReserved 0 p)")
    case False
    obtain a w2 where a: "run_state (failForControlPlaneShutdown dc pl ?er) w1 = (a, w2)" by (rule prod.exhaust)
    obtain x w3 where x: "run_state (releaseSlot pl) w2 = (x, w3)" by (rule prod.exhaust)
    have "job = None" "w' = w3\<lparr>places_held := places_held w3 - 1\<rparr>"
      using assms None p False a x
      by (auto simp: run_async_def terminateForControlPlaneShutdown_def move_place_def State_Monad.return_def Let_def)
    with untouched_run [OF resource.untouched_queue(3) a] release_slot [OF x] w1 show ?thesis by simp
  next
    case True
    obtain x w2 where x: "run_state (emit (JobQueued (ex_ExecutionID (pl_exec pl)))) w1 = (x, w2)" by (rule prod.exhaust)
    obtain y w3 where y: "run_state (publishExecutionPlanStatusEvent dc pl stQueued) w2 = (y, w3)" by (rule prod.exhaust)
    have "job = Some pl" "w' = w3"
      using assms None p True x y by (auto simp: run_async_def State_Monad.return_def simp del: run_emit)
    with untouched_run [OF resource.untouched_emit x] untouched_run [OF resource.untouched_publishers(4) y] w1 show ?thesis by simp
  qed
qed

lemma run_job_releases:
  assumes "run_state (run_job dc ob n stopped pl) w = (x, w')"
  shows "places_held w' = places_held w - 1 \<and> slot_of pl (slots_held w') = slots_held w"
proof -
  let ?er = "newControlPlaneShutdownError ''execution was not started before the control plane shut down''"
  let ?q = "if stopped then failForControlPlaneShutdown dc pl ?er else process_job dc ob n pl"
  obtain a w1 where a: "run_state ?q w = (a, w1)" by (rule prod.exhaust)
  obtain y w2 where y: "run_state (releaseSlot pl) w1 = (y, w2)" by (rule prod.exhaust)
  have l: "untouched resources ?q" by (simp add: resource.untouched_queue(3) resource.untouched_runs(2))
  have "w' = w2\<lparr>places_held := places_held w2 - 1\<rparr>"
    using assms a y
    by (auto simp: run_job_def terminateForControlPlaneShutdown_def move_place_def split: if_splits)
  with untouched_run [OF l a] release_slot [OF y] show ?thesis by simp
qed

lemma sync_returns_resources:
  "case run_state (handleSync dc ob target req h caller callee) w of (_, w') \<Rightarrow>
      slots_held w' = slots_held w \<and> places_held w' = places_held w"
proof -
  obtain r w1 where r: "run_state (prepareExecution dc ob target req h caller callee True stRunning) w = (r, w1)"
    by fastforce
  show ?thesis
  proof (cases r)
    case (Inl er)
    with r accountsD [OF prepare_accounts r] show ?thesis by (simp add: handleSync_def State_Monad.return_def)
  next
    case (Inr pl)
    obtain ans w2 where a: "run_state (run_sync dc ob (pl\<lparr>pl_executionMode := ''sync''\<rparr>)) w1 = (ans, w2)" by fastforce
    obtain x w3 where x: "run_state (releaseSlot pl) w2 = (x, w3)" by (rule prod.exhaust)
    have "slot_of pl (slots_held w3) = slot_of pl (slots_held w)" "places_held w3 = places_held w"
      using accountsD [OF prepare_accounts r] Inr untouched_run [OF resource.untouched_runs(1) a] release_slot [OF x] by simp_all
    with r Inr a x slot_of_inj show ?thesis by (auto simp: handleSync_def State_Monad.return_def)
  qed
qed

text \<open>What a handler that may submit a job ends with: all it had, or less by the place and the slot of that job.\<close>

definition hands_job :: "preparedExecution option \<Rightarrow> world \<Rightarrow> world \<Rightarrow> bool" where
  "hands_job job w w' \<longleftrightarrow>
     (case job of
        None \<Rightarrow> slots_held w' = slots_held w \<and> places_held w' = places_held w
      | Some pl \<Rightarrow> slot_of pl (slots_held w) = slots_held w' \<and> places_held w' = places_held w + 1)"

definition hands :: "('r \<Rightarrow> preparedExecution option) \<Rightarrow> 'r proc \<Rightarrow> bool" where
  "hands job p \<longleftrightarrow> (\<forall>w. case run_state p w of (r, w') \<Rightarrow> hands_job (job r) w w')"

lemma hands_return: "job r = None \<Longrightarrow> hands job (State_Monad.return r)"
  by (simp add: hands_def hands_job_def State_Monad.return_def)

lemma hands_bind:
  assumes "untouched resources p" and "\<And>a. hands job (g a)"
  shows "hands job (State_Monad.bind p g)"
  unfolding hands_def
proof
  fix w
  obtain a w1 where p: "run_state p w = (a, w1)" by fastforce
  show "case run_state (State_Monad.bind p g) w of (r, w') \<Rightarrow> hands_job (job r) w w'"
    using untouched_run [OF assms(1) p] assms(2) [of a, unfolded hands_def, rule_format, of w1] p
    by (auto simp: hands_job_def split: prod.splits option.splits)
qed

lemma hands_after:
  assumes "hands job p" and "\<And>a. untouched resources (g a)" and "\<And>a w r w'. run_state (g a) w = (r, w') \<Longrightarrow> job' r = job a"
  shows "hands job' (State_Monad.bind p g)"
  unfolding hands_def
proof
  fix w
  obtain a w1 where p: "run_state p w = (a, w1)" by fastforce
  obtain r w2 where g: "run_state (g a) w1 = (r, w2)" by fastforce
  show "case run_state (State_Monad.bind p g) w of (r, w') \<Rightarrow> hands_job (job' r) w w'"
    using assms(1) [unfolded hands_def, rule_format, of w] untouched_run [OF assms(2) g] assms(3) [OF g] p g
    by (cases "job a") (simp_all add: hands_job_def)
qed

lemma hands_cases:
  "(\<And>e. x = Inl e \<Longrightarrow> hands job (g1 e)) \<Longrightarrow> (\<And>a. x = Inr a \<Longrightarrow> hands job (h1 a)) \<Longrightarrow> hands job (case_sum g1 h1 x)"
  "(y = None \<Longrightarrow> hands job g2) \<Longrightarrow> (\<And>a. y = Some a \<Longrightarrow> hands job (h2 a)) \<Longrightarrow> hands job (case_option g2 h2 y)"
  "(b \<Longrightarrow> hands job g3) \<Longrightarrow> (\<not> b \<Longrightarrow> hands job h3) \<Longrightarrow> hands job (if b then g3 else h3)"
  by (cases x, auto) (cases y, auto)

text \<open>A handler that reserves a place, prepares a plan and submits it.\<close>

lemma hands_reserved:
  assumes "\<And>er. job (fail er) = None"
    and "\<And>pl w r w'. run_state (submit pl) w = (r, w') \<Longrightarrow>
      (case job r of None \<Rightarrow> places_held w' = places_held w - 1 \<and> slot_of pl (slots_held w') = slots_held w
       | Some pl' \<Rightarrow> slot_of pl' = slot_of pl \<and> resources w' = resources w)"
  shows "hands job (do {
    move_place 1;
    r \<leftarrow> prepareExecution dc ob target req h caller callee acquire st;
    case r of
      Inl er \<Rightarrow> do { move_place (-1); State_Monad.return (fail er) }
    | Inr pl \<Rightarrow> submit pl })"
  unfolding hands_def
proof
  fix w :: world
  let ?w = "w\<lparr>places_held := places_held w + 1\<rparr>"
  obtain r w1 where r: "run_state (prepareExecution dc ob target req h caller callee acquire st) ?w = (r, w1)" by fastforce
  let ?p = "do {
    move_place 1;
    r \<leftarrow> prepareExecution dc ob target req h caller callee acquire st;
    case r of
      Inl er \<Rightarrow> do { move_place (-1); State_Monad.return (fail er) }
    | Inr pl \<Rightarrow> submit pl }"
  show "case run_state ?p w of (x, w') \<Rightarrow> hands_job (job x) w w'"
  proof (cases r)
    case (Inl er)
    with r accountsD [OF prepare_accounts r] assms(1) show ?thesis
      by (simp add: move_place_def State_Monad.return_def hands_job_def)
  next
    case (Inr pl)
    obtain x w2 where x: "run_state (submit pl) w1 = (x, w2)" by fastforce
    have p: "run_state ?p w = (x, w2)" using r Inr x by (simp add: move_place_def)
    show ?thesis
    proof (cases "job x")
      case None
      with assms(2) [OF x] accountsD [OF prepare_accounts r] Inr have "slot_of pl (slots_held w2) = slot_of pl (slots_held w)"
          "places_held w2 = places_held w" by simp_all
      with p None slot_of_inj show ?thesis by (auto simp: hands_job_def)
    next
      case (Some pl')
      with assms(2) [OF x] accountsD [OF prepare_accounts r] Inr p show ?thesis by (simp add: hands_job_def)
    qed
  qed
qed

lemma async_hands: "hands snd (handleAsync dc ob target req h caller callee)"
proof -
  have submit: "case snd r of None \<Rightarrow> places_held w' = places_held w - 1 \<and> slot_of pl (slots_held w') = slots_held w
      | Some pl' \<Rightarrow> slot_of pl' = slot_of pl \<and> resources w' = resources w"
    if "run_state (run_async dc ob (pl\<lparr>pl_executionMode := ''async''\<rparr>)) w = (r, w')" for pl w r w'
    using run_async_accounts [of dc ob "pl\<lparr>pl_executionMode := ''async''\<rparr>" w "fst r" "snd r" w'] that
    by (cases r) (auto split: option.splits)
  have "hands snd (case x of
      (False, True) \<Rightarrow> State_Monad.return
        (error_response dc (newControlPlaneShutdownError ''async execution queue stopped; retry later''), None)
    | (False, False) \<Rightarrow> State_Monad.return (queue_full_response, None)
    | (True, _) \<Rightarrow> do {
        move_place 1;
        r \<leftarrow> prepareExecution dc ob target req h caller callee True stQueued;
        case r of
          Inl er \<Rightarrow> do { move_place (-1); State_Monad.return (error_response dc er, None) }
        | Inr pl \<Rightarrow> run_async dc ob (pl\<lparr>pl_executionMode := ''async''\<rparr>)
      })" for x :: "bool \<times> bool"
    using hands_reserved [where job = snd and fail = "\<lambda>er. (error_response dc er, None)"
        and submit = "\<lambda>pl. run_async dc ob (pl\<lparr>pl_executionMode := ''async''\<rparr>)", OF _ submit]
    by (auto intro: hands_return split: prod.split bool.split)
  then show ?thesis
    unfolding handleAsync_def by (intro hands_bind resource.untouched_observe)
qed

lemma submit_restart_hands:
  assumes "run_state (submit_restart dc ob source first opts h target pl) w = (r, w')"
  shows "case snd r of None \<Rightarrow> places_held w' = places_held w - 1 \<and> slot_of pl (slots_held w') = slots_held w
    | Some pl' \<Rightarrow> slot_of pl' = slot_of pl \<and> resources w' = resources w"
proof -
  let ?er = "newControlPlaneShutdownError ''async execution queue stopped; retry later''"
  obtain a w1 where a: "run_state (do {
      persistRestartRunMetadata dc pl source first opts (restart_kind opts);
      publishExecutionPlanStatusEvent dc pl stRunning;
      observe (ob_pool ob) }) w = (a, w1)" by fastforce
  have w1: "resources w1 = resources w"
    by (rule untouched_run [OF _ a])
      (intro resource.untouched_steps resource.untouched_lineage resource.untouched_publishers)
  show ?thesis
  proof (cases "fst (submitReserved 0 a)")
    case False
    obtain b w2 where b: "run_state (failForControlPlaneShutdown dc pl ?er) w1 = (b, w2)" by (rule prod.exhaust)
    obtain x w3 where x: "run_state (releaseSlot pl) w2 = (x, w3)" by (rule prod.exhaust)
    have "snd r = None" "w' = w3\<lparr>places_held := places_held w3 - 1\<rparr>"
      using assms a False b x
      by (auto simp: submit_restart_def terminateForControlPlaneShutdown_def move_place_def State_Monad.return_def
          split: prod.splits)
    with untouched_run [OF resource.untouched_queue(3) b] release_slot [OF x] w1 show ?thesis by simp
  next
    case True
    obtain b w2 where b: "run_state (do {
        emit (JobQueued (ex_ExecutionID (pl_exec pl)));
        persistRestartForwardPointers dc source first (pl_exec pl) }) w1 = (b, w2)" by (rule prod.exhaust)
    have "resources w2 = resources w1"
      by (rule untouched_run [OF _ b]) (intro resource.untouched_steps resource.untouched_lineage)
    moreover have "snd r = Some pl" "w' = w2"
      using assms a True b by (auto simp: submit_restart_def State_Monad.return_def split: prod.splits)
    ultimately show ?thesis using w1 by simp
  qed
qed

lemma restart_hands: "hands snd (startRestart dc ob source opts)"
proof -
  have from_hands: "hands snd (restart_from dc ob source first opts)" for first
  proof -
    let ?target = "ex_NodeID first @ ''.'' @ ex_ReasonerID first" and ?h = "restart_headers dc source first opts"
    have placed: "hands snd (do {
          move_place 1;
          r \<leftarrow> prepareExecution dc ob ?target (restart_request dc first opts) ?h [] [] True stRunning;
          case r of
            Inl er \<Rightarrow> do { move_place (-1); State_Monad.return (Inl (Refused er), None) }
          | Inr pl \<Rightarrow> submit_restart dc ob source first opts ?h ?target pl })"
      by (rule hands_reserved) (simp, rule submit_restart_hands)
    have "hands snd (case x of
        (False, stopped) \<Rightarrow> State_Monad.return (Inl (QueueError stopped), None)
      | (True, _) \<Rightarrow> do {
          move_place 1;
          r \<leftarrow> prepareExecution dc ob ?target (restart_request dc first opts) ?h [] [] True stRunning;
          case r of
            Inl er \<Rightarrow> do { move_place (-1); State_Monad.return (Inl (Refused er), None) }
          | Inr pl \<Rightarrow> submit_restart dc ob source first opts ?h ?target pl
        })" for x :: "bool \<times> bool"
    proof (cases x)
      case (Pair a b)
      show ?thesis unfolding Pair prod.case by (cases a; simp only: bool.case) (rule placed, simp add: hands_return)
    qed
    then show ?thesis
      unfolding restart_from_def Let_def by (intro hands_bind resource.untouched_observe)
  qed
  show ?thesis
    unfolding startRestart_def
    by (intro hands_cases hands_bind resource.untouched_lineage from_hands) (simp_all add: hands_return)
qed

lemma handle_restart_hands: "hands snd (handleRestart dc ob param b)"
proof -
  have started: "hands snd (do { (r, job) \<leftarrow> startRestart dc ob e opts; State_Monad.return (restart_answer dc r, job) })" for e opts
    by (rule hands_after [OF restart_hands], intro resource.untouched_steps) (auto simp: State_Monad.return_def)
  have bounds: "(\<And>a. hands job (f a)) \<Longrightarrow> hands job g \<Longrightarrow> (\<And>m. hands job (h m)) \<Longrightarrow>
      hands job (case b of Bound a \<Rightarrow> f a | BoundEOF \<Rightarrow> g | BoundErr m \<Rightarrow> h m)"
    for job :: "response \<times> preparedExecution option \<Rightarrow> preparedExecution option" and f g h
    by (cases b) simp_all
  show ?thesis
    unfolding handleRestart_def Let_def
    by (intro started bounds hands_cases hands_bind hands_return resource.untouched_reads) simp_all
qed

lemma restart_results:
  assumes "run_state (startRestart dc ob source opts) w = (r, w')"
  shows "snd r = None \<or> (\<exists>x. fst r = Inr x)"
  using assms
  by (auto simp: startRestart_def restart_from_def submit_restart_def State_Monad.return_def Let_def
      split: if_splits sum.splits option.splits prod.splits bool.splits)

lemma handoff_hands: "hands (map_option snd) (handOffInterruptedRun dc ob rz e)"
proof -
  have started: "hands (map_option snd) (do { (r, job) \<leftarrow> startRestart dc ob e opts;
      State_Monad.return (case (r, job) of (Inr x, Some pl) \<Rightarrow> Some (rx_ExecutionID x, pl) | _ \<Rightarrow> None) })" for e opts
    unfolding hands_def
  proof
    fix w
    obtain r w1 where r: "run_state (startRestart dc ob e opts) w = (r, w1)" by fastforce
    show "case run_state (do { (r, job) \<leftarrow> startRestart dc ob e opts;
        State_Monad.return (case (r, job) of (Inr x, Some pl) \<Rightarrow> Some (rx_ExecutionID x, pl) | _ \<Rightarrow> None) }) w of
        (r, w') \<Rightarrow> hands_job (map_option snd r) w w'"
      using restart_hands [of dc ob e opts, unfolded hands_def, rule_format, of w] restart_results [OF r] r
      by (auto simp: State_Monad.return_def case_prod_unfold split: sum.split option.split)
  qed
  have claimed: "hands (map_option snd) (handOffClaimedInterruptedRun dc ob rz k)" for k
    unfolding handOffClaimedInterruptedRun_def
    by (intro started hands_cases hands_bind hands_return resource.untouched_reads resource.untouched_lineage) simp_all
  have held: "hands (map_option snd) (do { r \<leftarrow> handOffClaimedInterruptedRun dc ob rz k; release_handoff k; State_Monad.return r })" for k
    by (rule hands_after [OF claimed], intro resource.untouched_steps resource.untouched_claims)
      (auto simp: State_Monad.return_def split: prod.splits)
  show ?thesis
    unfolding handOffInterruptedRun_def
    by (intro held hands_cases hands_bind hands_return resource.untouched_claims) simp_all
qed

text \<open>
  C3. A dispatch gives back what it takes. Whatever fails and whatever others do in between, a synchronous request ends
  with the execution slots and the places of the worker pool it began with. So do an asynchronous request, the restart
  of a run and the resumption of an interrupted one, unless they submit a job; the job then carries one place and the
  slot of its plan, and a worker gives both back, at whatever time it runs the job and whether or not the pool has
  stopped.
\<close>

theorem dispatch_returns_resources:
  "(case run_state (handleSync dc ob target req h caller callee) w of (_, w') \<Rightarrow> hands_job None w w') \<and>
   (case run_state (handleAsync dc ob target req h caller callee) w of ((_, job), w') \<Rightarrow> hands_job job w w') \<and>
   (case run_state (handleRestart dc ob param b) w of ((_, job), w') \<Rightarrow> hands_job job w w') \<and>
   (case run_state (handOffInterruptedRun dc ob rz e) w of (r, w') \<Rightarrow> hands_job (map_option snd r) w w') \<and>
   (case run_state (run_job dc ob n stopped pl) w of (_, w') \<Rightarrow>
      slot_of pl (slots_held w') = slots_held w \<and> places_held w' = places_held w - 1)"
  using sync_returns_resources [of w dc ob target req h caller callee]
    async_hands [of dc ob target req h caller callee, unfolded hands_def, rule_format, of w]
    handle_restart_hands [of dc ob param b, unfolded hands_def, rule_format, of w]
    handoff_hands [of dc ob rz e, unfolded hands_def, rule_format, of w] run_job_releases [of dc ob n stopped pl w]
  by (auto simp: hands_job_def split: prod.splits)

subsection \<open>Requests\<close>

text \<open>Nothing is sent, or one request: the one built from the plan for some node record.\<close>

definition may_send ::
    "dispatch_config \<Rightarrow> preparedExecution \<Rightarrow> (string \<times> (string \<times> string) list \<times> string) list \<Rightarrow>
     (string \<times> (string \<times> string) list \<times> string) list \<Rightarrow> bool" where
  "may_send dc pl s s' \<longleftrightarrow> s' = s \<or> (\<exists>a req. newAgentRequest dc (pl\<lparr>pp_agent := a\<rparr>) = Inr req \<and> s' = s @ [req])"

definition sends_once :: "dispatch_config \<Rightarrow> preparedExecution \<Rightarrow> 'a proc \<Rightarrow> bool" where
  "sends_once dc pl p \<longleftrightarrow> (\<forall>w. may_send dc pl (requests_sent w) (requests_sent (snd (run_state p w))))"

lemma may_send_refl [simp]: "may_send dc pl s s"
  by (simp add: may_send_def)

lemma may_send_node [simp]: "may_send dc (pl\<lparr>pp_agent := a\<rparr>) = may_send dc pl"
  by (simp add: may_send_def fun_eq_iff)

lemma sends_none: "untouched requests_sent p \<Longrightarrow> sends_once dc pl p"
  by (simp add: sends_once_def untouched_def)

lemma sends_before: "sends_once dc pl p \<Longrightarrow> (\<And>a. untouched requests_sent (g a)) \<Longrightarrow> sends_once dc pl (State_Monad.bind p g)"
  unfolding sends_once_def untouched_def by (simp add: case_prod_unfold)

lemma sends_after: "untouched requests_sent p \<Longrightarrow> (\<And>a. sends_once dc pl (g a)) \<Longrightarrow> sends_once dc pl (State_Monad.bind p g)"
  unfolding sends_once_def untouched_def by (simp add: case_prod_unfold) (metis (no_types))

lemma sends_cases:
  "(\<And>e. x = Inl e \<Longrightarrow> sends_once dc pl (g1 e)) \<Longrightarrow> (\<And>a. x = Inr a \<Longrightarrow> sends_once dc pl (h1 a)) \<Longrightarrow>
     sends_once dc pl (case_sum g1 h1 x)"
  "(y = None \<Longrightarrow> sends_once dc pl g2) \<Longrightarrow> (\<And>a. y = Some a \<Longrightarrow> sends_once dc pl (h2 a)) \<Longrightarrow>
     sends_once dc pl (case_option g2 h2 y)"
  "(\<And>a b. z = (a, b) \<Longrightarrow> sends_once dc pl (h3 a b)) \<Longrightarrow> sends_once dc pl (case_prod h3 z)"
  "(b \<Longrightarrow> sends_once dc pl p) \<Longrightarrow> (\<not> b \<Longrightarrow> sends_once dc pl q) \<Longrightarrow> sends_once dc pl (if b then p else q)"
  by (cases x, auto) (cases y, auto, cases z, auto)

text \<open>After a failure to connect nothing has been sent, after any other answer nothing more is.\<close>

lemma sends_http:
  assumes req: "newAgentRequest dc (pl\<lparr>pp_agent := a\<rparr>) = Inr req"
    and answered: "\<And>n b. untouched requests_sent (g (Responded n b))"
    and failed: "\<And>er. untouched requests_sent (g (CallFailed er))"
    and again: "\<And>er. sends_once dc pl (g (NotConnected er))"
  shows "sends_once dc pl (State_Monad.bind (http_Do ob req) g)"
  unfolding sends_once_def
proof
  fix w
  obtain ans w1 where w1: "run_state (http_Do ob req) w = (ans, w1)" by fastforce
  then have s: "requests_sent w1 = requests_sent w @ (case ans of NotConnected _ \<Rightarrow> [] | _ \<Rightarrow> [req])"
    by (auto simp: http_Do_def)
  have one: "may_send dc pl sent (sent @ [req])" for sent unfolding may_send_def using req by blast
  have "may_send dc pl (requests_sent w) (requests_sent (snd (run_state (g ans) w1)))"
  proof (cases ans)
    case (Responded n b)
    then show ?thesis using answered [of n b] s one by (simp add: untouched_def)
  next
    case (NotConnected er)
    then show ?thesis using again [of er] s by (simp add: sends_once_def) (metis (no_types))
  next
    case (CallFailed er)
    then show ?thesis using failed [of er] s one by (simp add: untouched_def)
  qed
  then show "may_send dc pl (requests_sent w) (requests_sent (snd (run_state (State_Monad.bind (http_Do ob req) g) w)))"
    by (simp add: w1)
qed

lemma sends_node: "sends_once dc (pl\<lparr>pp_agent := a\<rparr>) p \<longleftrightarrow> sends_once dc pl p"
  by (simp add: sends_once_def)

lemma polls_send_once: "sends_once dc pl (restart_polls dc ob t wakes pl i hb er)"
proof (induction wakes arbitrary: pl i hb er)
  case Nil
  show ?case unfolding restart_polls.simps by (intro sends_none sent.untouched_steps sent.untouched_restart_reason)
next
  case (Cons wake wakes)
  have call: "sends_once dc pl (case newAgentRequest dc pl' of
      Inl er \<Rightarrow> do { setExecutionRestartReason pl' []; State_Monad.return (Inl er, pl') }
    | Inr req \<Rightarrow> do {
        ans \<leftarrow> http_Do ob req;
        case ans of
          NotConnected er \<Rightarrow> restart_polls dc ob t wakes pl' i' hb' er
        | CallFailed er \<Rightarrow> do { setExecutionRestartReason pl' []; State_Monad.return (Inl er, pl') }
        | Responded n b \<Rightarrow> do { setExecutionRestartReason pl' []; State_Monad.return (Inr ans, pl') } })"
    if "pl' = pl\<lparr>pp_agent := a\<rparr>" for pl' a i' hb'
    using Cons.IH [of pl' i' hb'] that
    by (intro sends_cases sends_http [where a = a]) (auto simp: sends_node intro!: sends_none sent.untouched_steps sent.untouched_restart_reason)
  show ?case
    unfolding restart_polls.simps Let_def
    by (intro call [OF refl] sends_cases sends_after Cons.IH sent.untouched_waits sent.untouched_steps)
       (intro sends_none sent.untouched_steps sent.untouched_restart_reason)+
qed

lemma call_sends_once: "sends_once dc pl (callAgent dc ob pl)"
proof -
  have retry: "sends_once dc pl (retryAfterAgentRestart dc ob pl er)" for er
    unfolding retryAfterAgentRestart_def
    by (intro sends_after polls_send_once sent.untouched_steps sent.untouched_restart_reason)
  have dispatch: "sends_once dc pl (dispatchAgentRequest dc ob pl)"
  proof (cases "newAgentRequest dc pl")
    case (Inl er)
    then show ?thesis by (simp add: dispatchAgentRequest_def sends_none untouched_return)
  next
    case (Inr req)
    have "newAgentRequest dc (pl\<lparr>pp_agent := pp_agent pl\<rparr>) = Inr req" using Inr by simp
    then show ?thesis unfolding dispatchAgentRequest_def Inr sum.case
      by (rule sends_http)
        (simp_all add: untouched_return, intro sends_after sends_cases retry sends_none untouched_return sent.untouched_observe)
  qed
  show ?thesis unfolding callAgent_def
    by (intro sends_after sends_cases sends_before [OF dispatch] sends_none sent.untouched_steps sent.untouched_publishers
        sent.untouched_waits)
qed

lemma run_sync_sends_once: "sends_once dc pl (run_sync dc ob pl)"
  unfolding run_sync_def answer_replay_def
  by (intro sends_cases sends_after sends_before [OF call_sends_once] sends_none sent.untouched_steps sent.untouched_publishers
      sent.untouched_waits sent.untouched_completions)

text \<open>A job may set the status of its plan to running first, which no request shows.\<close>

lemma start_queued_plan:
  "run_state (start_queued dc ob pl n) w = (Some pl', w') \<Longrightarrow>
     may_send dc pl' = may_send dc pl \<and> ex_ExecutionID (pl_exec pl') = ex_ExecutionID (pl_exec pl)"
proof (induction n arbitrary: w)
  case (Suc n)
  obtain r w1 where r: "run_state (transitionQueuedExecutionToRunning pl) w = (r, w1)" by fastforce
  have "newAgentRequest dc (pl\<lparr>pl_exec := (pl_exec pl)\<lparr>ex_Status := st, ex_UpdatedAt := t\<rparr>, pp_agent := a\<rparr>) =
      newAgentRequest dc (pl\<lparr>pp_agent := a\<rparr>)" for st t a
    by (cases "checkedAgentURL (dc_forNode dc) a (pl_TargetName pl) (pl_targetType pl)")
       (simp_all add: newAgentRequest_def Let_def del: if_split)
  then have status: "may_send dc (pl\<lparr>pl_exec := (pl_exec pl)\<lparr>ex_Status := st, ex_UpdatedAt := t\<rparr>\<rparr>) = may_send dc pl" for st t
    by (simp add: may_send_def fun_eq_iff)
  from Suc show ?case
    by (auto simp: r State_Monad.return_def Let_def status split: sum.splits option.splits if_splits prod.splits)
qed (simp add: State_Monad.return_def)

lemma sends_after_result:
  assumes "untouched requests_sent p" and "\<And>a w w'. run_state p w = (a, w') \<Longrightarrow> sends_once dc pl (g a)"
  shows "sends_once dc pl (State_Monad.bind p g)"
  unfolding sends_once_def
proof
  fix w
  obtain a w1 where p: "run_state p w = (a, w1)" by fastforce
  then show "may_send dc pl (requests_sent w) (requests_sent (snd (run_state (State_Monad.bind p g) w)))"
    using untouched_run [OF assms(1) p] assms(2) [OF p] by (simp add: sends_once_def) (metis (no_types))
qed

lemma process_sends_once: "sends_once dc pl (process_job dc ob n pl)"
proof -
  have call: "sends_once dc pl (callAgent dc ob pl')" if "may_send dc pl' = may_send dc pl" for pl'
    using call_sends_once [of dc pl' ob] that by (simp add: sends_once_def)
  have go: "sends_once dc pl (do {
      (r, pl) \<leftarrow> callAgent dc ob pl';
      stopping \<leftarrow> observe (ob_stopping ob);
      if stopping
      then failForControlPlaneShutdown dc pl
             (newControlPlaneShutdownError ''execution was interrupted because the control plane shut down'')
      else if snd (snd (snd r)) = None \<and> fst (snd (snd r)) then State_Monad.return ()
      else do { r \<leftarrow> take_usage dc pl r; _ \<leftarrow> processCompletionJob dc pl r; State_Monad.return () } })"
    if "may_send dc pl' = may_send dc pl" for pl'
    by (intro sends_before [OF call [OF that]] sent.untouched_steps sent.untouched_queue sent.untouched_completions)
  show ?thesis
    unfolding process_job_def
    by (intro sends_after sends_after_result [of "start_queued dc ob pl n"] sends_cases go sends_none untouched_return
        sent.untouched_waits sent.untouched_queue start_queued_plan [THEN conjunct1]) simp
qed

subsection \<open>The results of a preparation\<close>

definition yields :: "('a \<Rightarrow> bool) \<Rightarrow> ('e + 'a) proc \<Rightarrow> bool" where
  "yields P p \<longleftrightarrow> (\<forall>w a. fst (run_state p w) = Inr a \<longrightarrow> P a)"

lemma yieldsD: "yields P p \<Longrightarrow> run_state p w = (Inr a, w') \<Longrightarrow> P a"
  unfolding yields_def by (metis fst_conv)

lemma yields_return: "yields P (State_Monad.return (Inl e))" "P a \<Longrightarrow> yields P (State_Monad.return (Inr a))"
  by (simp_all add: yields_def State_Monad.return_def)

lemma yields_bind: "(\<And>a. yields P (g a)) \<Longrightarrow> yields P (State_Monad.bind p g)"
  unfolding yields_def by (simp add: case_prod_unfold)

lemma yields_cases:
  "(\<And>e. x = Inl e \<Longrightarrow> yields P (g1 e)) \<Longrightarrow> (\<And>a. x = Inr a \<Longrightarrow> yields P (h1 a)) \<Longrightarrow> yields P (case_sum g1 h1 x)"
  "(y = None \<Longrightarrow> yields P g2) \<Longrightarrow> (\<And>a. y = Some a \<Longrightarrow> yields P (h2 a)) \<Longrightarrow> yields P (case_option g2 h2 y)"
  "(\<And>a b. z = (a, b) \<Longrightarrow> yields P (h3 a b)) \<Longrightarrow> yields P (case_prod h3 z)"
  by (cases x, auto) (cases y, auto, cases z, auto)

lemma yields_and_then: "yields Q p \<Longrightarrow> (\<And>a. Q a \<Longrightarrow> yields P (g a)) \<Longrightarrow> yields P (and_then p g)"
  unfolding yields_def and_then_def State_Monad.return_def by (auto split: prod.splits sum.splits) (metis fst_conv)

lemma yields_any: "yields (\<lambda>_. True) p"
  by (simp add: yields_def)

lemma yields_or_free: "yields P p \<Longrightarrow> yields P (or_free_slot b k p)"
  unfolding yields_def or_free_slot_def State_Monad.return_def
  by (auto split: prod.splits sum.splits) (metis fst_conv)

lemma rest_result:
  assumes "run_state (record_rest dc req h tt e) w = (x, w')"
  shows "\<exists>b er. x = (e\<lparr>ex_WebhookRegistered := b\<rparr>, er)"
  using assms by (auto simp: record_rest_def persist_metadata_def State_Monad.return_def case_prod_unfold Let_def split: if_splits option.splits)

lemma create_result:
  "run_state (CreateExecutionRecord e) w = (Inr e', w') \<Longrightarrow>
     ex_ExecutionID e' = ex_ExecutionID e \<and> ex_RunID e' = ex_RunID e"
  by (auto simp: CreateExecutionRecord_def db_call_def Let_def split: option.splits if_splits)

lemma record_yields:
  "yields (\<lambda>(e', _). ex_ExecutionID e' = ex_ExecutionID e \<and> ex_RunID e' = ex_RunID e) (record_execution dc req h tt e)"
  unfolding yields_def
proof (intro allI impI)
  fix w a assume a: "fst (run_state (record_execution dc req h tt e) w) = Inr a"
  let ?e = "e\<lparr>ex_InputURI := savePayload (dc_controller dc) (ex_InputPayload e), ex_SessionID := eh_sessionID h, ex_ActorID := eh_actorID h\<rparr>"
  obtain r w1 where c: "run_state (CreateExecutionRecord ?e) w = (r, w1)" by fastforce
  obtain x w2 where x: "run_state (record_rest dc req h tt (projr r)) w1 = (x, w2)" by fastforce
  show "case a of (e', _) \<Rightarrow> ex_ExecutionID e' = ex_ExecutionID e \<and> ex_RunID e' = ex_RunID e"
    using a c x rest_result [OF x] create_result [of ?e w _ w1]
    by (cases r) (auto simp: record_execution_def State_Monad.return_def)
qed

lemma prepare_yields:
  "yields (\<lambda>pl. ex_ExecutionID (pl_exec pl) = dc_executionID dc \<and>
      ex_RunID (pl_exec pl) = (if eh_runID h = [] then dc_runID dc else eh_runID h)) (prepareExecution dc ob target req h caller callee acquire st)"
proof -
  have plan: "yields (\<lambda>pl. ex_ExecutionID (pl_exec pl) = dc_executionID dc \<and>
      ex_RunID (pl_exec pl) = (if eh_runID h = [] then dc_runID dc else eh_runID h))
      (prepare_plan dc req h cd td a rv nodeID name tt sp st le hit acq)" for cd td a rv nodeID name tt sp st le hit acq
    unfolding prepare_plan_def Let_def
    by (intro yields_cases yields_bind yields_return yields_and_then [OF record_yields]) (simp add: new_execution_def)
  show ?thesis
    unfolding prepareExecution_def Let_def
    by (intro yields_cases yields_and_then [OF yields_any] yields_bind yields_return yields_or_free plan)
qed

definition sent_one :: "string \<Rightarrow> world \<Rightarrow> world \<Rightarrow> bool" where
  "sent_one k w w' \<longleftrightarrow> requests_sent w' = requests_sent w \<or>
     (\<exists>url hs b. requests_sent w' = requests_sent w @ [(url, hs, b)] \<and> map_of hs ''X-Execution-ID'' = Some k)"

lemma sent_one_may: "may_send dc pl (requests_sent w) (requests_sent w') \<Longrightarrow> sent_one (ex_ExecutionID (pl_exec pl)) w w'"
  unfolding may_send_def
proof (elim disjE exE conjE)
  fix a req
  assume r: "newAgentRequest dc (pl\<lparr>pp_agent := a\<rparr>) = Inr req" "requests_sent w' = requests_sent w @ [req]"
  obtain url hs b where req: "req = (url, hs, b)" by (metis prod_cases3)
  have "map_of hs ''X-Execution-ID'' = Some (ex_ExecutionID (pl_exec pl))"
    using r(1) unfolding req by (auto simp: newAgentRequest_def Let_def split: sum.splits)
  with r(2) req show ?thesis by (auto simp: sent_one_def)
qed (simp add: sent_one_def)


end
