(* ===== verification/Dispatch_Outcome.thy ===== *)
theory Dispatch_Outcome
  imports Dispatch_Ledger
begin

text \<open>
  What a dispatch does to the tables: a refused request leaves none of its rows, an execution that has ended is not
  dispatched, a node that comes back in time gets the request, and no dispatch breaks the invariants of the store.
\<close>

subsection \<open>What a dispatch keeps\<close>

context store_relation begin

lemma keeps_observe: "keeps R (observe g)"
  using refl by (simp add: keeps_def observe_def)

lemma keeps_http: "keeps R (http_Do ob req)"
  using refl by (simp add: keeps_def http_Do_def)

lemma keeps_moves: "keeps R (move_slot k n)" "keeps R (move_place m)" "keeps R (releaseSlot pl)"
  using refl by (simp_all add: keeps_def move_slot_def move_place_def releaseSlot_def State_Monad.return_def)

lemma keeps_case_wake:
  "(x = Ticked \<Longrightarrow> keeps R f) \<Longrightarrow> (\<And>e. x = Woken e \<Longrightarrow> keeps R (g e)) \<Longrightarrow> keeps R (case x of Ticked \<Rightarrow> f | Woken e \<Rightarrow> g e)"
  by (cases x) auto

lemma keeps_case_answer:
  "(\<And>n b. keeps R (f n b)) \<Longrightarrow> (\<And>er. keeps R (g er)) \<Longrightarrow> (\<And>er. keeps R (h er)) \<Longrightarrow>
     keeps R (case x of Responded n b \<Rightarrow> f n b | NotConnected er \<Rightarrow> g er | CallFailed er \<Rightarrow> h er)"
  by (cases x) auto

lemma keeps_case_bool: "(b \<Longrightarrow> keeps R f) \<Longrightarrow> (\<not> b \<Longrightarrow> keeps R g) \<Longrightarrow> keeps R (case b of True \<Rightarrow> f | False \<Rightarrow> g)"
  by (cases b) auto

lemmas keeps_steps = keeps_cases keeps_case_wake keeps_case_answer keeps_case_bool keeps_reads keeps_observe keeps_http
  keeps_moves

lemma keeps_record_query: "keeps R (QueryExecutionRecords flt)"
  unfolding QueryExecutionRecords_def populateWebhookRegistration_def
  by (intro keeps_steps keeps_db_call) (simp_all add: refl)

lemma keeps_replay: "keeps R (findReplayHit canonical h nodeID name payload)"
  unfolding findReplayHit_def by (intro keeps_steps keeps_record_query)

lemma keeps_register: "keeps R (register_webhook k)"
  unfolding register_webhook_def by (intro keeps_db_call) (simp add: rows_frame)

lemma keeps_event: "keeps R (publishExecutionEvent c e st dat r)" "keeps R (triggerWebhook c k)"
    "keeps R (PublishExecutionLog pl lv m md)" "keeps R (publishExecutionPlanStatusEvent dc pp st)"
    "keeps R (take_usage dc pp res)"
  unfolding publishExecutionEvent_def triggerWebhook_def PublishExecutionLog_def publishExecutionPlanStatusEvent_def
    take_usage_def
  by (intro keeps_steps)+

lemma keeps_lineage_reads: "keeps R (findWorkflowRestartRoot k)" "keeps R (resumeAttemptForRun dc k)"
  unfolding findWorkflowRestartRoot_def resumeAttemptForRun_def GetWorkflowRun_def
  by (intro keeps_steps keeps_record_query keeps_db_call; simp add: refl)+

lemma keeps_claims: "keeps R (claim_handoff k)" "keeps R (release_handoff k)"
proof -
  have claimed: "R d (d\<lparr>handoff_claims := x\<rparr>)" for d x by (simp add: rows_frame)
  show "keeps R (claim_handoff k)"
    unfolding keeps_def
  proof (intro allI impI)
    fix w :: world assume "\<forall>n d. R d (env w n d)"
    then have "R (data w) (env w (calls w) (data w))" by blast
    then show "R (data w) (data (snd (run_state (claim_handoff k) w))) \<and>
        env (snd (run_state (claim_handoff k) w)) = env w \<and> fault (snd (run_state (claim_handoff k) w)) = fault w"
      using trans claimed by (simp add: claim_handoff_def Let_def)
  qed
  show "keeps R (release_handoff k)" by (simp add: keeps_def release_handoff_def claimed)
qed

lemma keeps_waits: "keeps R (waitForResume dc ob k)" "keeps R (stored_terminal k)"
    "keeps R (waitForExecutionCompletion dc ob k)" "keeps R (before_call dc ob k)" "keeps R (moved_on dc ob k)"
    "keeps R (still_wanted dc ob k)"
proof -
  show resume: "keeps R (waitForResume dc ob k)" unfolding waitForResume_def by (intro keeps_steps)
  show terminal: "keeps R (stored_terminal k)" unfolding stored_terminal_def by (intro keeps_steps)
  have "keeps R (completion_wait dc k ws wakes)" for ws wakes
  proof (induction wakes)
    case (Cons wake wakes)
    then show ?case unfolding completion_wait.simps by (intro keeps_steps terminal)
  qed (simp add: keeps_return)
  then show "keeps R (waitForExecutionCompletion dc ob k)"
    unfolding waitForExecutionCompletion_def by (intro keeps_steps terminal)
  show "keeps R (before_call dc ob k)" "keeps R (moved_on dc ob k)" "keeps R (still_wanted dc ob k)"
    unfolding before_call_def moved_on_def still_wanted_def by (intro keeps_steps resume)+
qed

lemma keeps_node: "keeps R (resolve_node ob k)" "keeps R (reachable_node ob h k a)"
proof -
  show "keeps R (resolve_node ob k)" unfolding resolve_node_def by (intro keeps_steps)
  have drain: "keeps R (drain_wait ob a k ws wakes)" for a ws wakes
  proof (induction wakes)
    case Nil
    show ?case unfolding drain_wait.simps by (intro keeps_steps)
  next
    case (Cons wake wakes)
    then show ?case unfolding drain_wait.simps by (intro keeps_steps)
  qed
  show "keeps R (reachable_node ob h k a)"
    unfolding reachable_node_def and_then_def waitForDrainingAgent_def by (intro keeps_steps drain)
qed

lemma keeps_admission: "keeps R (require x)" "keeps R (take_slot ob k le)"
  unfolding require_def take_slot_def by (intro keeps_steps)+

end

context rely_guarantee begin

lemma keeps_metadata: "keeps R (persist_metadata dc k patch actor)"
  unfolding persist_metadata_def by (intro keeps_steps keeps_db_call) (simp add: frame)

lemma keeps_run_update: "keeps R (update_run mc k mutate)" "keeps R (persistRestartRunMetadata dc pl source first opts kind)"
proof -
  show one: "keeps R (update_run mc k mutate)" for mc k and mutate :: "namespaces \<Rightarrow> goerr + (namespaces \<times> 'c)"
    unfolding update_run_def by (intro keeps_db_call) (simp add: frame case_prod_unfold)
  show "keeps R (persistRestartRunMetadata dc pl source first opts kind)"
    unfolding persistRestartRunMetadata_def by (intro keeps_steps one)
qed

end

subsection \<open>The invariants of the store\<close>

lemma store_kept_create:
  "find_execution d (ex_ExecutionID e) = None \<Longrightarrow> store_kept d (d\<lparr>executions := executions d @ [e]\<rparr>)"
  by (auto simp: store_kept_def workflow_settled_def tables_kept_def tables_ok_def lookup_None_iff)

lemma create_keeps_store: "keeps store_kept (CreateExecutionRecord e)"
  unfolding CreateExecutionRecord_def
proof (rule store.keeps_db_call)
  fix d :: db
  let ?e = "(if ex_StartedAt e = 0 then e\<lparr>ex_StartedAt := clock d\<rparr> else e)\<lparr>ex_CreatedAt := clock d, ex_UpdatedAt := clock d, ex_WebhookRegistered := False\<rparr>"
  have "store_kept d (d\<lparr>executions := executions d @ [?e]\<rparr>)" if "find_execution d (ex_ExecutionID e) = None"
    using that by (intro store_kept_create) simp
  then show "store_kept d (snd (let now = clock d;
         exec = (if ex_StartedAt e = 0 then e\<lparr>ex_StartedAt := now\<rparr> else e);
         exec = exec\<lparr>ex_CreatedAt := now, ex_UpdatedAt := now\<rparr>
     in if find_execution d (ex_ExecutionID exec) \<noteq> None
        then (Inl (Errorf ''insert execution: UNIQUE constraint failed: executions.execution_id''), d)
        else (Inr exec, d\<lparr>executions := executions d @ [exec\<lparr>ex_WebhookRegistered := False\<rparr>]\<rparr>)))"
    by (cases "find_execution d (ex_ExecutionID e)") (simp_all add: Let_def store.refl)
qed

lemma dispatch_updaters_ok:
  "keeps_id (restart_reason_updater k r)" "keeps_id (replay_updater k m res uri t)" "keeps_id (queued_updater k)"
  by (auto simp: keeps_id_def restart_reason_updater_def replay_updater_def queued_updater_def
      split: option.splits if_splits)

lemma rows_keep_store: "keeps store_kept (ensureWorkflowExecutionRecord a b e t p)"
  unfolding ensureWorkflowExecutionRecord_def buildWorkflowExecutionRecord_def deriveWorkflowHierarchy_def
  by (intro store.keeps_steps store_keeps)

lemma prepare_keeps_store: "keeps store_kept (prepareExecution dc ob target req h caller callee acquire st)"
  unfolding prepareExecution_def and_then_def or_free_slot_def prepare_plan_def record_execution_def record_rest_def
  by (intro store.keeps_steps store.keeps_node store.keeps_replay store.keeps_register store.keeps_metadata store.keeps_admission
      create_keeps_store rows_keep_store)

lemma reason_keeps_store: "keeps store_kept (setExecutionRestartReason pl r)" "keeps store_kept (give_up_restart pl b)"
  unfolding give_up_restart_def setExecutionRestartReason_def markAgentUnreachable_def
  by (intro store.keeps_steps store_keeps dispatch_updaters_ok)+

lemma call_keeps_store: "keeps store_kept (callAgent dc ob pl)"
proof -
  have polls: "keeps store_kept (restart_polls dc ob t wakes pl i hb er)" for t wakes pl i hb er
  proof (induction wakes arbitrary: pl i hb er)
    case Nil
    show ?case unfolding restart_polls.simps by (intro store.keeps_steps reason_keeps_store)
  next
    case (Cons wake wakes)
    show ?case unfolding restart_polls.simps
      by (intro store.keeps_steps reason_keeps_store store.keeps_waits Cons.IH)
  qed
  show ?thesis
    unfolding callAgent_def dispatchAgentRequest_def retryAfterAgentRestart_def
    by (intro store.keeps_steps store.keeps_waits store.keeps_event reason_keeps_store polls)
qed

lemma completions_keep_store: "keeps store_kept (processCompletionJob dc pl r)" "keeps store_kept (completeReplayHit dc pl hit)"
  unfolding processCompletionJob_def completeReplayHit_def
  by (intro store.keeps_steps completion_keeps_store store_keeps keeps_workflow_sync store.keeps_event dispatch_updaters_ok)+

lemma shutdown_keeps_store: "keeps store_kept (failForControlPlaneShutdown dc pl er)"
    "keeps store_kept (terminateForControlPlaneShutdown dc pl er)"
  unfolding terminateForControlPlaneShutdown_def failForControlPlaneShutdown_def
  by (intro store.keeps_steps completion_keeps_store store_keeps)+

lemma queue_keeps_store: "keeps store_kept (start_queued dc ob pl n)"
proof (induction n arbitrary: pl)
  case (Suc n)
  have "keeps store_kept (transitionQueuedExecutionToRunning pl)"
    unfolding transitionQueuedExecutionToRunning_def by (intro store.keeps_steps store_keeps dispatch_updaters_ok)
  then show ?case
    unfolding start_queued.simps by (intro store.keeps_steps store.keeps_waits store.keeps_event Suc.IH)
qed (simp add: store.keeps_return)

lemma dispatch_keeps_store:
  "keeps store_kept (handleSync dc ob target req h caller callee)"
  "keeps store_kept (handleAsync dc ob target req h caller callee)"
  "keeps store_kept (run_job dc ob n stopped pl)"
  unfolding handleSync_def run_sync_def answer_replay_def handleAsync_def run_async_def run_job_def process_job_def
  by (intro store.keeps_steps prepare_keeps_store call_keeps_store completions_keep_store store.keeps_waits
      store.keeps_event shutdown_keeps_store queue_keeps_store)+

lemma pointers_keep_store: "keeps store_kept (persistRestartForwardPointers dc source first successor)"
proof -
  have one: "keeps store_kept (SetExecutionRestartedAs k new)" for k new
  proof -
    let ?d = "\<lambda>d. d\<lparr>executions := modify ex_ExecutionID (TrimSpace k)
           (\<lambda>r. r\<lparr>ex_RestartedAsExecutionID := Some (TrimSpace new), ex_UpdatedAt := clock d\<rparr>) (executions d),
         workflows := modify wf_ExecutionID (TrimSpace k)
           (\<lambda>r. r\<lparr>wf_RestartedAsExecutionID := Some (TrimSpace new), wf_UpdatedAt := clock d\<rparr>) (workflows d)\<rparr>"
    have keys: "map ex_ExecutionID (executions (?d d)) = map ex_ExecutionID (executions d)"
        "map wf_ExecutionID (workflows (?d d)) = map wf_ExecutionID (workflows d)" for d
      by (simp_all add: modify_keys)
    have "workflow_settled d (?d d)" for d
      by (auto simp: workflow_settled_def lookup_modify)
    then have "store_kept d (?d d)" for d
      unfolding store_kept_def tables_kept_def tables_ok_def keys map_keys_set [OF keys(1)] map_keys_set [OF keys(2)]
      by simp
    then show ?thesis
      unfolding SetExecutionRestartedAs_def Let_def
      by (intro store.keeps_steps store.keeps_db_call) (simp_all add: store.refl)
  qed
  have all: "keeps store_kept (set_pointers ks new)" for ks new
  proof (induction ks)
    case (Cons k ks)
    then show ?case unfolding set_pointers.simps by (intro store.keeps_steps one)
  qed (simp add: store.keeps_return)
  show ?thesis
    unfolding persistRestartForwardPointers_def by (intro all store.keeps_steps store.keeps_run_update)
qed

lemma restart_keeps_store: "keeps store_kept (startRestart dc ob source opts)"
  unfolding startRestart_def restart_from_def submit_restart_def
  by (intro store.keeps_steps store.keeps_run_update store.keeps_lineage_reads store.keeps_event prepare_keeps_store shutdown_keeps_store pointers_keep_store)

lemma restarts_keep_store: "keeps store_kept (handleRestart dc ob param b)" "keeps store_kept (handOffInterruptedRun dc ob rz e)"
proof -
  show "keeps store_kept (handleRestart dc ob param b)"
    unfolding handleRestart_def
    by (cases b) (simp only: bound.case, intro store.keeps_steps restart_keeps_store)+
  show "keeps store_kept (handOffInterruptedRun dc ob rz e)"
    unfolding handOffInterruptedRun_def handOffClaimedInterruptedRun_def
    by (intro store.keeps_steps store.keeps_lineage_reads store.keeps_claims restart_keeps_store)
qed

subsection \<open>Ended executions\<close>

lemma read_terminal:
  assumes "\<forall>n. fault w n = None" and "\<forall>n d. terminal_kept d (env w n d)"
    and "find_execution (data w) k = Some e" and "IsTerminalExecutionStatus (ex_Status e)"
    and "run_state (GetExecutionRecord k) w = (r, w')"
  shows "\<exists>e'. r = Inr (Some e') \<and> ex_Status e' = ex_Status e"
proof -
  let ?d = "env w (calls w) (data w)"
  obtain e1 where e1: "find_execution ?d k = Some e1" "ex_Status e1 = ex_Status e"
    using assms(2-4) unfolding terminal_kept_def by blast
  show ?thesis
    using assms(1,5) e1
    by (auto simp: GetExecutionRecord_def db_call_def enrichExecutionWebhook_def HasExecutionWebhook_def
        State_Monad.return_def Let_def split: sum.splits option.splits prod.splits)
qed

text \<open>
  C7. An execution that has ended is not dispatched. When the execution of a queued job has reached a terminal status
  (it was cancelled, swept or finished by a callback) before a worker takes the job, the worker sends nothing to the
  node and the status stays, whatever the other requests do that keep terminal statuses, as long as the storage answers.
\<close>

theorem ended_not_dispatched:
  assumes "\<forall>n. fault w n = None" and "\<forall>n d. terminal_kept d (env w n d)"
    and "find_execution (data w) (ex_ExecutionID (pl_exec pl)) = Some e" and "IsTerminalExecutionStatus (ex_Status e)"
  shows "case run_state (run_job dc ob n False pl) w of (_, w') \<Rightarrow>
    requests_sent w' = requests_sent w \<and>
    (\<exists>e'. find_execution (data w') (ex_ExecutionID (pl_exec pl)) = Some e' \<and> ex_Status e' = ex_Status e)"
proof -
  let ?k = "ex_ExecutionID (pl_exec pl)"
  obtain r w1 where r: "run_state (GetExecutionRecord ?k) w = (r, w1)" by fastforce
  obtain e1 where e1: "r = Inr (Some e1)" "ex_Status e1 = ex_Status e" using read_terminal [OF assms r] by blast
  have w1: "terminal_kept (data w) (data w1)" "requests_sent w1 = requests_sent w"
    using keepsD [OF terminal.keeps_GetExecutionRecord, of w ?k] assms(2) r untouched_run [OF sent.untouched_reads(3) r] by simp_all
  have run: "run_state (run_job dc ob n False pl) w =
      ((), (snd (run_state (releaseSlot pl) w1))\<lparr>places_held := places_held (snd (run_state (releaseSlot pl) w1)) - 1\<rparr>)"
    using r e1 assms(4)
    by (simp add: run_job_def process_job_def still_wanted_def State_Monad.return_def non_fatal_def move_place_def
        case_prod_unfold)
  show ?thesis
    using w1 assms(3,4) unfolding run terminal_kept_def
    by (auto simp: releaseSlot_def move_slot_def State_Monad.return_def)
qed

subsection \<open>The rows of a request\<close>

definition tables_same :: "db \<Rightarrow> db \<Rightarrow> bool" where
  "tables_same d d' \<longleftrightarrow> executions d' = executions d \<and> workflows d' = workflows d"

definition executions_same :: "db \<Rightarrow> db \<Rightarrow> bool" where
  "executions_same d d' \<longleftrightarrow> executions d' = executions d"

interpretation same: rely_guarantee tables_same
  by unfold_locales (simp_all add: tables_same_def)

interpretation execs: rely_guarantee executions_same
  by unfold_locales (simp_all add: executions_same_def)

text \<open>
  A program that changes no table when it ends in an error, and otherwise adds one row that satisfies \<open>P\<close> for its
  result, while others leave the tables alone.
\<close>

definition new_row :: "world \<Rightarrow> Execution \<Rightarrow> bool" where
  "new_row w row \<longleftrightarrow> find_execution (data w) (ex_ExecutionID row) = None"

definition adds_row :: "('a \<Rightarrow> Execution \<Rightarrow> bool) \<Rightarrow> ('e + 'a) proc \<Rightarrow> bool" where
  "adds_row P p \<longleftrightarrow> (\<forall>w. (\<forall>n d. tables_same d (env w n d)) \<longrightarrow>
     (case run_state p w of
        (Inl _, w') \<Rightarrow> tables_same (data w) (data w')
      | (Inr a, w') \<Rightarrow> \<exists>row. P a row \<and> new_row w row \<and> executions (data w') = executions (data w) @ [row]))"

lemma adds_row_fail: "adds_row P (State_Monad.return (Inl e))"
  by (simp add: adds_row_def same.refl)

lemma adds_row_cases:
  "(\<And>e. x = Inl e \<Longrightarrow> adds_row P (g1 e)) \<Longrightarrow> (\<And>a. x = Inr a \<Longrightarrow> adds_row P (h1 a)) \<Longrightarrow> adds_row P (case_sum g1 h1 x)"
  "(y = None \<Longrightarrow> adds_row P g2) \<Longrightarrow> (\<And>a. y = Some a \<Longrightarrow> adds_row P (h2 a)) \<Longrightarrow> adds_row P (case_option g2 h2 y)"
  "(\<And>a b. z = (a, b) \<Longrightarrow> adds_row P (h3 a b)) \<Longrightarrow> adds_row P (case_prod h3 z)"
  by (cases x, auto) (cases y, auto, cases z, auto)

lemma adds_row_bind:
  assumes "keeps tables_same p" and "\<And>a. adds_row P (g a)"
  shows "adds_row P (State_Monad.bind p g)"
  unfolding adds_row_def
proof (intro allI impI)
  fix w :: world assume rely: "\<forall>n d. tables_same d (env w n d)"
  obtain a w1 where p: "run_state p w = (a, w1)" by fastforce
  have w1: "tables_same (data w) (data w1)" "env w1 = env w" using keeps_run [OF assms(1) rely p] by simp_all
  obtain r w2 where g: "run_state (g a) w1 = (r, w2)" by fastforce
  have "case (r, w2) of (Inl _, w') \<Rightarrow> tables_same (data w1) (data w')
      | (Inr a, w') \<Rightarrow> \<exists>row. P a row \<and> new_row w1 row \<and> executions (data w') = executions (data w1) @ [row]"
    using assms(2) [of a, unfolded adds_row_def, rule_format, of w1] rely w1(2) g by simp
  then show "case run_state (State_Monad.bind p g) w of (Inl _, w') \<Rightarrow> tables_same (data w) (data w')
      | (Inr a, w') \<Rightarrow> \<exists>row. P a row \<and> new_row w row \<and> executions (data w') = executions (data w) @ [row]"
    using w1(1) p g by (cases r) (simp_all add: tables_same_def new_row_def)
qed

lemma adds_row_and_then:
  assumes "keeps tables_same p" and "\<And>a. adds_row P (g a)"
  shows "adds_row P (and_then p g)"
  unfolding and_then_def by (intro adds_row_bind adds_row_cases adds_row_fail assms)

lemma create_row:
  assumes "\<forall>n d. tables_same d (env w n d)" and "run_state (CreateExecutionRecord e) w = (r, w')"
  shows "env w' = env w \<and> (case r of Inl _ \<Rightarrow> tables_same (data w) (data w')
    | Inr e' \<Rightarrow> ex_ExecutionID e' = ex_ExecutionID e \<and> ex_Status e' = ex_Status e \<and> ex_NodeID e' = ex_NodeID e \<and>
        executions (data w') = executions (data w) @ [e'\<lparr>ex_WebhookRegistered := False\<rparr>] \<and>
        workflows (data w') = workflows (data w) \<and> find_execution (data w) (ex_ExecutionID e) = None)"
  using assms
  by (auto simp: CreateExecutionRecord_def db_call_def tables_same_def Let_def
      split: option.splits if_splits sum.splits)

lemma rows_keep_executions: "keeps executions_same (ensureWorkflowExecutionRecord a b e t p)"
  unfolding ensureWorkflowExecutionRecord_def buildWorkflowExecutionRecord_def deriveWorkflowHierarchy_def
  by (intro execs.keeps_steps execs.keeps_StoreWorkflowExecution)
     (simp add: executions_same_def executeWorkflowInsert_def Let_def split: option.split)

lemma adds_row_map:
  assumes "adds_row Q p" and "\<And>a row. Q a row \<Longrightarrow> P (f a) row"
  shows "adds_row P (and_then p (\<lambda>a. State_Monad.return (Inr (f a))))"
  unfolding adds_row_def
proof (intro allI impI)
  fix w :: world assume rely: "\<forall>n d. tables_same d (env w n d)"
  obtain r w1 where p: "run_state p w = (r, w1)" by fastforce
  show "case run_state (and_then p (\<lambda>a. State_Monad.return (Inr (f a)))) w of
      (Inl _, w') \<Rightarrow> tables_same (data w) (data w')
    | (Inr a, w') \<Rightarrow> \<exists>row. P a row \<and> new_row w row \<and> executions (data w') = executions (data w) @ [row]"
    using assms(1) [unfolded adds_row_def, rule_format, of w] rely p assms(2)
    by (cases r) (auto simp: and_then_def State_Monad.return_def)
qed

lemma adds_row_free:
  assumes "adds_row P p"
  shows "adds_row P (or_free_slot b k p)"
  unfolding adds_row_def
proof (intro allI impI)
  fix w :: world assume rely: "\<forall>n d. tables_same d (env w n d)"
  obtain r w1 where p: "run_state p w = (r, w1)" by fastforce
  show "case run_state (or_free_slot b k p) w of (Inl _, w') \<Rightarrow> tables_same (data w) (data w')
    | (Inr a, w') \<Rightarrow> \<exists>row. P a row \<and> new_row w row \<and> executions (data w') = executions (data w) @ [row]"
    using assms [unfolded adds_row_def, rule_format, of w] rely p
    by (cases r) (auto simp: or_free_slot_def move_slot_def State_Monad.return_def)
qed

text \<open>The row of a plan: the record that the plan carries, before its webhook is registered.\<close>

definition planned_row :: "string \<Rightarrow> status \<Rightarrow> Execution \<Rightarrow> Execution \<Rightarrow> bool" where
  "planned_row k st e row \<longleftrightarrow>
     row = e\<lparr>ex_WebhookRegistered := False\<rparr> \<and> ex_ExecutionID e = k \<and> ex_Status e = st"

lemma record_row: "adds_row (\<lambda>(e', _). planned_row (ex_ExecutionID e) (ex_Status e) e') (record_execution dc req h tt e)"
  unfolding adds_row_def
proof (intro allI impI)
  fix w :: world assume rely: "\<forall>n d. tables_same d (env w n d)"
  let ?e = "e\<lparr>ex_InputURI := savePayload (dc_controller dc) (ex_InputPayload e), ex_SessionID := eh_sessionID h, ex_ActorID := eh_actorID h\<rparr>"
  obtain r w1 where c: "run_state (CreateExecutionRecord ?e) w = (r, w1)" by fastforce
  note created = create_row [OF rely c]
  show "case run_state (record_execution dc req h tt e) w of (Inl _, w') \<Rightarrow> tables_same (data w) (data w')
    | (Inr a, w') \<Rightarrow> \<exists>row. (case a of (e', _) \<Rightarrow> planned_row (ex_ExecutionID e) (ex_Status e) e') row \<and>
        new_row w row \<and> executions (data w') = executions (data w) @ [row]"
  proof (cases r)
    case (Inl er)
    then show ?thesis
      using created c by (simp add: record_execution_def State_Monad.return_def)
  next
    case (Inr e1)
    obtain x w2 where x: "run_state (record_rest dc req h tt e1) w1 = (x, w2)" by fastforce
    have "keeps executions_same (record_rest dc req h tt e1)"
      unfolding record_rest_def by (intro execs.keeps_steps execs.keeps_register execs.keeps_metadata rows_keep_executions)
    then have "executions (data w2) = executions (data w1)"
      using keeps_run [OF _ _ x, of executions_same] rely created by (auto simp: executions_same_def tables_same_def)
    then show ?thesis
      using created c x Inr rest_result [OF x] by (auto simp: record_execution_def State_Monad.return_def planned_row_def new_row_def)
  qed
qed

lemma plan_row:
  "adds_row (\<lambda>pl. planned_row (dc_executionID dc) (if pp_replayHit pl = None then st else stRunning) (pl_exec pl))
     (prepare_plan dc req h cd td a rv nodeID name tt sp (if hit = None then st else stRunning) le hit acq)"
  unfolding prepare_plan_def Let_def
proof (intro adds_row_bind adds_row_cases adds_row_fail same.keeps_time)
  fix now body
  let ?e = "new_execution dc h a nodeID name (if hit = None then st else stRunning) sp now"
  let ?p = "\<lambda>x. \<lparr>pl_exec = fst x, pl_NodeID = nodeID, pl_TargetName = name, pl_targetType = tt, pl_executionMode = [],
      pl_webhookRegistered = ex_WebhookRegistered (fst x), pp_requestBody = body, pp_agent = a,
      pp_llmEndpoint = le, pp_slotHeld = acq, pp_webhookError = snd x,
      pp_callerDID = cd, pp_targetDID = td, pp_routedVersion = rv,
      pp_replaySourceRunID = eh_replaySourceRunID h, pp_replayBeforeExecutionID = eh_replayBeforeExecutionID h,
      pp_replayMode = eh_replayMode h, pp_replayHit = hit\<rparr>"
  have "ex_ExecutionID ?e = dc_executionID dc" "ex_Status ?e = (if hit = None then st else stRunning)"
    by (simp_all add: new_execution_def)
  then have "adds_row (\<lambda>pl. planned_row (dc_executionID dc) (if pp_replayHit pl = None then st else stRunning) (pl_exec pl))
      (and_then (record_execution dc req h tt ?e) (\<lambda>x. State_Monad.return (Inr (?p x))))"
    by (intro adds_row_map [OF record_row]) (auto simp: case_prod_unfold)
  then show "adds_row (\<lambda>pl. planned_row (dc_executionID dc) (if pp_replayHit pl = None then st else stRunning) (pl_exec pl))
      (and_then (record_execution dc req h tt ?e) (\<lambda>(e, webhookError). State_Monad.return (Inr
        \<lparr>pl_exec = e, pl_NodeID = nodeID, pl_TargetName = name, pl_targetType = tt, pl_executionMode = [],
         pl_webhookRegistered = ex_WebhookRegistered e, pp_requestBody = body, pp_agent = a,
         pp_llmEndpoint = le, pp_slotHeld = acq, pp_webhookError = webhookError,
         pp_callerDID = cd, pp_targetDID = td, pp_routedVersion = rv,
         pp_replaySourceRunID = eh_replaySourceRunID h, pp_replayBeforeExecutionID = eh_replayBeforeExecutionID h,
         pp_replayMode = eh_replayMode h, pp_replayHit = hit\<rparr>)))"
    by (simp add: case_prod_unfold)
qed

lemma prepare_row:
  "adds_row (\<lambda>pl. planned_row (dc_executionID dc) (if pp_replayHit pl = None then st else stRunning) (pl_exec pl))
     (prepareExecution dc ob target req h caller callee acquire st)"
  unfolding prepareExecution_def Let_def
  by (intro adds_row_bind adds_row_and_then adds_row_cases adds_row_fail adds_row_free plan_row same.keeps_node
      same.keeps_replay same.keeps_admission same.keeps_steps)


subsection \<open>A node that comes back\<close>

definition status_same :: "string \<Rightarrow> db \<Rightarrow> db \<Rightarrow> bool" where
  "status_same k d d' \<longleftrightarrow> map_option ex_Status (find_execution d' k) = map_option ex_Status (find_execution d k)"

interpretation status: rely_guarantee "status_same k" for k
  by unfold_locales (simp_all add: status_same_def)

lemma status_same_update: "status_same k d (snd (update_execution_tx i (restart_reason_updater i r) d))"
proof (rule update_execution_tx_cases [of "restart_reason_updater i r" i d])
  show "keeps_id (restart_reason_updater i r)" by (rule dispatch_updaters_ok)
  fix e u c
  assume e: "find_execution d i = Some e" "restart_reason_updater i r (clock d) (Some e) = Inr (Some u, c)"
      "ex_ExecutionID u = i"
    and d': "snd (update_execution_tx i (restart_reason_updater i r) d) = persist_execution (u\<lparr>ex_UpdatedAt := clock d\<rparr>) d"
  have "ex_Status u = ex_Status e" using e(2) by (auto simp: restart_reason_updater_def split: if_splits option.splits)
  then show ?thesis using e unfolding status_same_def d' by (auto simp: find_persist)
qed (simp add: status.refl)

lemma reason_keeps_status: "keeps (status_same k) (setExecutionRestartReason pl r)"
  unfolding setExecutionRestartReason_def
  by (intro status.keeps_steps status.keeps_UpdateExecutionRecord status_same_update
      status.keeps_UpdateWorkflowExecution)
     (simp add: status_same_def)

text \<open>What is true of the execution while its node is away: it is neither cancelled nor paused, and nobody changes that.\<close>

definition undisturbed :: "string \<Rightarrow> world \<Rightarrow> bool" where
  "undisturbed k w \<longleftrightarrow> (\<forall>n d. status_same k d (env w n d)) \<and>
     map_option ex_Status (find_execution (data w) k) \<notin> {Some stCancelled, Some stPaused}"

lemma undisturbed_keeps:
  assumes "undisturbed k w" and "keeps (status_same k) p" and "run_state p w = (a, w')"
  shows "undisturbed k w' \<and> env w' = env w"
  using assms(1) keeps_run [OF assms(2) _ assms(3)] by (auto simp: undisturbed_def status_same_def)

lemma read_status:
  assumes "run_state (GetExecutionRecord k) w = (r, w')"
  shows "map_option ex_Status (non_fatal r) \<in>
      {None, map_option ex_Status (find_execution (env w (calls w) (data w)) k)} \<and> calls w \<le> calls w'"
  using assms
  by (auto simp: GetExecutionRecord_def db_call_def enrichExecutionWebhook_def HasExecutionWebhook_def non_fatal_def
      State_Monad.return_def Let_def split: option.splits sum.splits prod.splits)

lemma moved_on_not:
  assumes "undisturbed k w" and "run_state (moved_on dc ob k) w = (gone, w')"
  shows "gone = None \<and> undisturbed k w' \<and> env w' = env w \<and> requests_sent w' = requests_sent w \<and> calls w \<le> calls w'"
proof -
  obtain r w1 where r: "run_state (GetExecutionRecord k) w = (r, w1)" by fastforce
  have neither: "x \<in> {None, y} \<Longrightarrow> y \<notin> {Some stCancelled, Some stPaused} \<Longrightarrow> x \<notin> {Some stCancelled, Some stPaused}" for x y
    by auto
  have "map_option ex_Status (find_execution (env w (calls w) (data w)) k) = map_option ex_Status (find_execution (data w) k)"
    using assms(1) by (simp add: undisturbed_def status_same_def)
  then have "map_option ex_Status (non_fatal r) \<notin> {Some stCancelled, Some stPaused}"
    using neither [OF conjunct1 [OF read_status [OF r]]] assms(1) unfolding undisturbed_def by metis
  then have "gone = None" "w' = w1"
    using assms(2) r by (cases "non_fatal r"; simp add: moved_on_def State_Monad.return_def)+
  then show ?thesis
    using undisturbed_keeps [OF assms(1) status.keeps_GetExecutionRecord r] read_status [OF r]
      untouched_run [OF sent.untouched_reads(3) r] by simp
qed

text \<open>
  A node whose record is \<open>old\<close> and which refuses connections until the \<open>N\<close>th look at it, and which from then on has the
  record \<open>new\<close> of a restarted node and answers \<open>ans\<close>.
\<close>

definition comes_back :: "nat \<Rightarrow> callee \<Rightarrow> callee \<Rightarrow> string \<Rightarrow> exec_error \<Rightarrow> int \<Rightarrow> exec_error + string \<Rightarrow> observations \<Rightarrow> bool" where
  "comes_back N old new nodeID er n b ob \<longleftrightarrow>
     (\<forall>i. ob_node ob i nodeID = Inr (if i < N then old else new)) \<and>
     (\<forall>i. ob_answer ob i = (if i < N then NotConnected er else Responded n b)) \<and>
     agentCameBack new (an_InstanceID old) (an_LastHeartbeat old)"

lemma polls_answered:
  assumes down: "comes_back N (pp_agent pl) new (pl_NodeID pl) refused n b ob" and rc: "\<forall>i. ob_restart ob i = rc"
    and old: "ensureAgentDispatchable rc (pp_agent pl) (pl_NodeID pl) = None"
    and req: "newAgentRequest dc (pl\<lparr>pp_agent := new\<rparr>) = Inr req"
    and "undisturbed (ex_ExecutionID (pl_exec pl)) w"
    and "\<forall>i d. clock (env w i d) \<le> started + fst (agentRestartGraceFor rc (pl_NodeID pl))"
    and "N \<le> calls w + length wakes" and "wakes \<noteq> []"
  shows "\<exists>w'. run_state (restart_polls dc ob started wakes pl (an_InstanceID (pp_agent pl)) (an_LastHeartbeat (pp_agent pl)) er) w =
      ((Inr (Responded n b), pl\<lparr>pp_agent := new\<rparr>), w') \<and> requests_sent w' = requests_sent w @ [req]"
  using assms(5-)
proof (induction wakes arbitrary: w)
  case (Cons wake wakes)
  let ?k = "ex_ExecutionID (pl_exec pl)" and ?old = "pp_agent pl"
  let ?w1 = "w\<lparr>data := env w (calls w) (data w), calls := Suc (calls w)\<rparr>"
  let ?w2 = "?w1\<lparr>data := env w (Suc (calls w)) (data ?w1), calls := Suc (Suc (calls w))\<rparr>"
  obtain grace updating where g: "agentRestartGraceFor rc (pl_NodeID pl) = (grace, updating)" by fastforce
  have time: "\<not> started + grace < clock (env w (calls w) (data w))" using Cons.prems(2) g by (simp add: not_less)
  have w2: "undisturbed ?k ?w2" using Cons.prems(1) by (simp add: undisturbed_def status_same_def)
  show ?case
  proof (cases "Suc (calls w) < N")
    case True
    then have "run_state (restart_polls dc ob started (wake # wakes) pl (an_InstanceID ?old) (an_LastHeartbeat ?old) er) w =
        run_state (restart_polls dc ob started wakes pl (an_InstanceID ?old) (an_LastHeartbeat ?old) er) ?w2"
      using down rc old g time
      by (simp add: observe_def comes_back_def agentCameBack_def ensureAgentDispatchable_def split: if_splits)
    then show ?thesis using Cons.IH [OF w2] Cons.prems(2,3) True by (cases wakes) simp_all
  next
    case False
    obtain gone w3 where m: "run_state (moved_on dc ob ?k) ?w2 = (gone, w3)" by fastforce
    note w3 = moved_on_not [OF w2 m]
    let ?w4 = "w3\<lparr>data := env w3 (calls w3) (data w3), calls := Suc (calls w3), requests_sent := requests_sent w3 @ [req]\<rparr>"
    obtain u w5 where s: "run_state (setExecutionRestartReason (pl\<lparr>pp_agent := new\<rparr>) []) ?w4 = (u, w5)" by (rule prod.exhaust)
    have "requests_sent w5 = requests_sent w @ [req]"
      using untouched_run [OF sent.untouched_restart_reason(1) s] w3 by simp
    moreover have "\<not> calls w3 < N" using w3 False by simp
    ultimately show ?thesis
      using down rc g time False m w3 req s
      by (simp add: observe_def comes_back_def http_Do_def State_Monad.return_def Let_def)
  qed
qed simp


subsection \<open>Requests and nodes to try them on\<close>

definition demo_node :: "string \<Rightarrow> callee" where
  "demo_node instance_id = \<lparr>an_ID = ''n'', an_GroupID = [], an_TeamID = [], an_BaseURL = ''http://n'', an_Version = [],
     an_TrafficWeight = 0, an_DeploymentType = [], an_HealthStatus = HealthActive, an_LifecycleStatus = LcReady,
     an_LastHeartbeat = 1, an_RegisteredAt = 0, an_InstanceID = instance_id, an_ProposedTags = [], an_ApprovedTags = [],
     ce_Reasoners = [''f''], ce_Skills = [], ce_InvocationURL = None, ce_Serverless = False\<rparr>"

definition demo_dispatch :: dispatch_config where
  "demo_dispatch = \<lparr>dc_controller = demo_controller, dc_runID = ''r'', dc_executionID = ''e'', dc_requestID = ''q'',
     dc_marshal = (\<lambda>_. Inr ''{}''), dc_canonical = Some, dc_validJSON = (\<lambda>_. True), dc_sprint = (\<lambda>_. []),
     dc_usage = (\<lambda>_. None), dc_forNode = (\<lambda>_ base path. Inr (concat (base # map (\<lambda>p. CHR ''/'' # p) path))),
     dc_resolver = \<lparr>rs_split = (\<lambda>a. Inr (a, [])), rs_lookup = (\<lambda>_. Inr []), rs_parse = (\<lambda>_. None), rs_cidr = (\<lambda>_. None)\<rparr>,
     dc_metadata = demo_codec,
     dc_object = (\<lambda>_. Some []), dc_allowed = [], dc_internalToken = [], dc_timeout = 90000000000\<rparr>"

text \<open>A node that is down for the first five looks at it and then back with another instance.\<close>

definition demo_observations :: observations where
  "demo_observations = \<lparr>ob_node = (\<lambda>n _. Inr (demo_node (if n < 5 then ''old'' else ''new''))), ob_versions = (\<lambda>_ _. Inr []),
     ob_counter = (\<lambda>_. 0), ob_restart = (\<lambda>_. default_restart_config), ob_gate = (\<lambda>_. (None, None)),
     ob_pool = (\<lambda>_. newAsyncWorkerPool 1 1),
     ob_answer = (\<lambda>n. if n < 5 then NotConnected (raw ''connection refused'') else Responded 200 (Inr ''{}'')),
     ob_wait = (\<lambda>_. \<lparr>ws_wakes = replicate 5 Ticked, ws_timer = False, ws_error = raw ''context canceled''\<rparr>),
     ob_stopping = (\<lambda>_. False), ob_queueFull = (\<lambda>_. False)\<rparr>"

definition demo_prepared :: preparedExecution where
  "demo_prepared = \<lparr>pl_exec = zero_execution\<lparr>ex_ExecutionID := ''e1''\<rparr>, pl_NodeID = ''n'', pl_TargetName = ''f'',
     pl_targetType = ''reasoner'', pl_executionMode = ''async'', pl_webhookRegistered = False, pp_requestBody = ''{}'',
     pp_agent = demo_node ''old'', pp_llmEndpoint = [], pp_slotHeld = True, pp_webhookError = None, pp_callerDID = [],
     pp_targetDID = [], pp_routedVersion = [], pp_replaySourceRunID = [], pp_replayBeforeExecutionID = [],
     pp_replayMode = [], pp_replayHit = None\<rparr>"

lemma idle_sent: "requests_sent (idle d) = []"
  by (simp add: idle_def)

theorem ended_not_dispatched_witness:
  "requests_sent (snd (run_state (run_job demo_dispatch demo_observations 5 False demo_prepared)
     (idle (one_row ''e1'' stCancelled 5)))) = []"
  using ended_not_dispatched [of "idle (one_row ''e1'' stCancelled 5)" demo_prepared
      "zero_execution\<lparr>ex_ExecutionID := ''e1'', ex_Status := stCancelled\<rparr>" demo_dispatch demo_observations 5]
  by (simp add: terminal.refl demo_prepared_def case_prod_unfold idle_sent)

definition demo_execute :: ExecuteRequest where
  "demo_execute = \<lparr>rq_Input = Some [], rq_Context = [], rq_Webhook = None, rq_RunMetadata = None\<rparr>"

definition demo_execute_headers :: executionHeaders where
  "demo_execute_headers = \<lparr>eh_runID = [], eh_parentExecutionID = None, eh_sessionID = None, eh_actorID = None,
     eh_replaySourceRunID = [], eh_replayBeforeExecutionID = [], eh_replayMode = []\<rparr>"

lemma demo_target: "parseTarget ''n.f'' = Inr (''n'', ''f'')"
  by code_simp

lemma demo_id: "dc_executionID demo_dispatch = ''e''"
  by (simp add: demo_dispatch_def)


definition demo_restart :: world where
  "demo_restart = (idle (one_row ''e1'' stRunning 5))\<lparr>env := (\<lambda>_ d. d\<lparr>clock := 7\<rparr>)\<rparr>"


end
