(* ===== verification/Restart_Outcome.thy ===== *)
theory Restart_Outcome
  imports Dispatch_Outcome
begin

text \<open>
  The resumption of interrupted runs is bounded: the lineage of a run counts its resumptions, every hand-off counts one
  more, and none happens at the limit.
\<close>

subsection \<open>What a hand-off reads and keeps\<close>

definition runs_same :: "db \<Rightarrow> db \<Rightarrow> bool" where
  "runs_same d d' \<longleftrightarrow> run_rows d' = run_rows d"

definition run_ids_kept :: "db \<Rightarrow> db \<Rightarrow> bool" where
  "run_ids_kept d d' \<longleftrightarrow>
     (\<forall>k e. find_execution d k = Some e \<longrightarrow> (\<exists>e'. find_execution d' k = Some e' \<and> ex_RunID e' = ex_RunID e))"

interpretation runs: store_relation runs_same
  by unfold_locales (simp_all add: runs_same_def)

interpretation ids: rely_guarantee run_ids_kept
proof
  show "run_ids_kept d d''" if "run_ids_kept d d'" "run_ids_kept d' d''" for d d' d''
    using that unfolding run_ids_kept_def by metis
qed (simp_all add: run_ids_kept_def)

text \<open>How often a run has been resumed, by its lineage; \<open>decode\<close> decodes a JSON object.\<close>

definition run_attempt :: "(string \<Rightarrow> (string \<times> json) list option) \<Rightarrow> db \<Rightarrow> string \<Rightarrow> int" where
  "run_attempt decode d runID =
     (if TrimSpace runID = [] then 0
      else case map_of (run_rows d) runID of None \<Rightarrow> 0 | Some ns \<Rightarrow> namespaces_attempt decode ns)"

text \<open>A world without faults in which nobody touches the tables and the rows of the runs during a hand-off.\<close>

definition calm :: "world \<Rightarrow> bool" where
  "calm w \<longleftrightarrow> (\<forall>n. fault w n = None) \<and> (\<forall>n d. tables_same d (env w n d) \<and> runs_same d (env w n d))"

lemma calm_run:
  assumes "calm w" and "keeps R p" and "run_state p w = (a, w')" and "\<And>d d'. tables_same d d' \<Longrightarrow> runs_same d d' \<Longrightarrow> R d d'"
  shows "R (data w) (data w') \<and> calm w'"
  using keeps_run [OF assms(2) _ assms(3)] assms(1,4) unfolding calm_def by metis

lemma calm_runs:
  "calm w \<Longrightarrow> keeps runs_same p \<Longrightarrow> run_state p w = (a, w') \<Longrightarrow> run_rows (data w') = run_rows (data w) \<and> calm w'"
  using calm_run [of w runs_same p a w'] by (simp add: runs_same_def)

lemma calm_ids:
  "calm w \<Longrightarrow> keeps run_ids_kept p \<Longrightarrow> run_state p w = (a, w') \<Longrightarrow> run_ids_kept (data w) (data w') \<and> calm w'"
  using calm_run [of w run_ids_kept p a w'] by (simp add: run_ids_kept_def tables_same_def)

lemma rows_keep_runs: "keeps runs_same (ensureWorkflowExecutionRecord a b e t p)"
  unfolding ensureWorkflowExecutionRecord_def buildWorkflowExecutionRecord_def deriveWorkflowHierarchy_def
  by (intro runs.keeps_steps runs.keeps_StoreWorkflowExecution)
     (simp add: runs_same_def executeWorkflowInsert_def Let_def split: option.split)

lemma create_keeps_runs: "keeps runs_same (CreateExecutionRecord e)"
  unfolding CreateExecutionRecord_def
  by (intro runs.keeps_db_call) (simp add: runs_same_def Let_def)

lemma prepare_keeps_runs:
  assumes "rq_RunMetadata req = None"
  shows "keeps runs_same (prepareExecution dc ob target req h caller callee acquire st)"
proof -
  have "keeps runs_same (record_rest dc req h tt e)" for tt e
    unfolding record_rest_def assms option.case
    by (intro runs.keeps_steps runs.keeps_register rows_keep_runs)
  then show ?thesis
    unfolding prepareExecution_def and_then_def or_free_slot_def prepare_plan_def record_execution_def
    by (intro runs.keeps_steps runs.keeps_node runs.keeps_replay runs.keeps_admission create_keeps_runs)
qed

lemma calm_call:
  assumes "calm w" and "run_state (db_call tx) w = (r, w')"
  shows "\<exists>d. tables_same (data w) d \<and> runs_same (data w) d \<and> (r, data w') = tx d \<and> calm w'"
  using assms
  by (auto simp: db_call_def calm_def Let_def split: prod.splits intro!: exI [of _ "env w (calls w) (data w)"])

lemma calm_get:
  assumes "calm w" and "run_state (GetExecutionRecord k) w = (r, w')"
  shows "case find_execution (data w) k of None \<Rightarrow> r = Inr None | Some e \<Rightarrow> \<exists>b. r = Inr (Some (e\<lparr>ex_WebhookRegistered := b\<rparr>))"
proof -
  have "find_execution (env w (calls w) (data w)) k = find_execution (data w) k"
    using assms(1) by (simp add: calm_def tables_same_def)
  moreover have "e\<lparr>ex_WebhookRegistered := ex_WebhookRegistered e\<rparr> = e" for e :: Execution by simp
  ultimately show ?thesis
    using assms
    by (auto simp: calm_def GetExecutionRecord_def db_call_def enrichExecutionWebhook_def HasExecutionWebhook_def
        State_Monad.return_def Let_def split: option.splits sum.splits prod.splits)
qed

lemma calm_attempt:
  assumes "calm w" and "run_state (resumeAttemptForRun dc k) w = (n, w')"
  shows "n = run_attempt (dc_object dc) (data w) k"
  using assms
  by (auto simp: calm_def resumeAttemptForRun_def GetWorkflowRun_def db_call_def run_attempt_def runs_same_def non_fatal_def
      State_Monad.return_def Let_def split: if_splits option.splits prod.splits)

subsection \<open>Lineage on record\<close>

definition printable :: "string \<Rightarrow> bool" where
  "printable s \<longleftrightarrow> list_all (\<lambda>c. 32 \<le> (of_char c :: nat) \<and> (of_char c :: nat) < 127) s"

text \<open>
  What the code relies on of \<open>encoding/json\<close>: what it encodes is valid JSON, and an object of strings and of integers of
  64 bits is encoded and decoded to the same, as far as its keys and strings are printable ASCII.
\<close>

definition json_law :: "dispatch_config \<Rightarrow> bool" where
  "json_law dc \<longleftrightarrow>
     (\<forall>v t. dc_marshal dc v = Inr t \<longrightarrow> md_valid (dc_metadata dc) t) \<and>
     (\<forall>ms. distinct (map fst ms) \<longrightarrow>
       (\<forall>(k, v) \<in> set ms. case v of JStr _ \<Rightarrow> True | JInt n \<Rightarrow> 0 \<le> n \<and> n < 2 ^ 63 | _ \<Rightarrow> False) \<longrightarrow>
       (\<exists>t ms'. dc_marshal dc (JObj ms) = Inr t \<and> dc_object dc t = Some ms' \<and>
         (\<forall>(k, v) \<in> set ms. printable k \<longrightarrow> (case v of JStr s \<Rightarrow> printable s | _ \<Rightarrow> True) \<longrightarrow> map_of ms' k = Some v)))"

lemma lineage_encoded:
  assumes "json_law dc" and "0 \<le> ro_ResumeAttempt opts" and "ro_ResumeAttempt opts < 2 ^ 63"
  shows "\<exists>t ms. dc_marshal dc (JObj (lineage_members source first opts ''resume'')) = Inr t \<and> dc_object dc t = Some ms \<and>
    lineage_attempt ms = ro_ResumeAttempt opts \<and> md_valid (dc_metadata dc) t"
proof -
  let ?ms = "lineage_members source first opts ''resume''"
  have "distinct (map fst ?ms)" "\<forall>(k, v) \<in> set ?ms. case v of JStr _ \<Rightarrow> True | JInt n \<Rightarrow> 0 \<le> n \<and> n < 2 ^ 63 | _ \<Rightarrow> False"
    using assms(2,3) by (simp_all add: lineage_members_def)
  then obtain t ms where t: "dc_marshal dc (JObj ?ms) = Inr t" "dc_object dc t = Some ms"
      "\<forall>(k, v) \<in> set ?ms. printable k \<longrightarrow> (case v of JStr s \<Rightarrow> printable s | _ \<Rightarrow> True) \<longrightarrow> map_of ms k = Some v"
    using assms(1) unfolding json_law_def by blast
  have "printable ''kind''" "printable ''resume''" "printable ''resume_attempt''" by code_simp+
  then have "map_of ms ''kind'' = Some (JStr ''resume'')" "map_of ms ''resume_attempt'' = Some (JInt (ro_ResumeAttempt opts))"
    using t(3) by (auto simp: lineage_members_def)
  moreover have "md_valid (dc_metadata dc) t" using assms(1) t(1) by (simp add: json_law_def)
  ultimately show ?thesis using t(1,2) by (simp add: lineage_attempt_def)
qed

lemma lineage_recorded:
  assumes "calm w" and "json_law dc" and "0 \<le> ro_ResumeAttempt opts" and "ro_ResumeAttempt opts < 2 ^ 63"
    and "TrimSpace k = k" and "k \<noteq> []" and "map_of (run_rows (data w)) k = None" and "ex_RunID (pl_exec pl) = k"
    and "run_state (persistRestartRunMetadata dc pl source first opts ''resume'') w = (u, w')"
  shows "run_attempt (dc_object dc) (data w') k = ro_ResumeAttempt opts \<and> calm w'"
proof -
  obtain t ms where t: "dc_marshal dc (JObj (lineage_members source first opts ''resume'')) = Inr t" "dc_object dc t = Some ms"
      "lineage_attempt ms = ro_ResumeAttempt opts" "md_valid (dc_metadata dc) t"
    using lineage_encoded [OF assms(2-4)] by blast
  let ?reason = "if TrimSpace (ro_Reason opts) = [] then None
    else case dc_marshal dc (JStr (TrimSpace (ro_Reason opts))) of Inl _ \<Rightarrow> None | Inr t \<Rightarrow> Some t"
  have r: "?reason = Some q \<Longrightarrow> md_valid (dc_metadata dc) q" for q
    using assms(2) by (auto simp: json_law_def split: if_splits sum.splits)
  obtain x w1 where x: "run_state (update_run (dc_metadata dc) k (set_lineage t ?reason)) w = (x, w1)" by fastforce
  have w': "w' = w1" using assms(8,9) t(1) x by (simp add: persistRestartRunMetadata_def State_Monad.return_def Let_def)
  from calm_call [OF assms(1) x [unfolded update_run_def]] obtain d where d: "runs_same (data w) d" "calm w1"
      "(x, data w1) =
        (case UpdateWorkflowRunMetadata (dc_metadata dc) k (set_lineage t ?reason) (run_rows d) of (r, t) \<Rightarrow> (r, d\<lparr>run_rows := t\<rparr>))"
    by blast
  have ns: "namespaces_of (run_rows d) k = []" using assms(7) d(1) by (simp add: namespaces_of_def runs_same_def)
  have "\<exists>ns. UpdateWorkflowRunMetadata (dc_metadata dc) k (set_lineage t ?reason) (run_rows d) =
      (Inr (), AList.update k ns (run_rows d)) \<and> map_of ns ''lineage'' = Some t"
    using r t(4) assms(5,6) ns
    by (cases ?reason) (auto simp: UpdateWorkflowRunMetadata_def set_lineage_def Let_def)
  then obtain ns where "run_rows (data w1) = AList.update k ns (run_rows d)" "map_of ns ''lineage'' = Some t"
    using d(3) by auto
  then show ?thesis
    using d(2) t(2,3) assms(5,6) unfolding w' by (simp add: run_attempt_def namespaces_attempt_def update_conv')
qed

lemma other_run_kept:
  assumes "calm w" and "run_state (update_run mc k f) w = (x, w')" and "TrimSpace k \<noteq> j"
  shows "map_of (run_rows (data w')) j = map_of (run_rows (data w)) j \<and> calm w' \<and> run_ids_kept (data w) (data w')"
proof -
  from calm_call [OF assms(1) assms(2) [unfolded update_run_def]] obtain d where d: "runs_same (data w) d" "tables_same (data w) d" "calm w'"
      "(x, data w') = (case UpdateWorkflowRunMetadata mc k f (run_rows d) of (r, t) \<Rightarrow> (r, d\<lparr>run_rows := t\<rparr>))"
    by blast
  then show ?thesis
    using update_metadata_cases [of mc k f "run_rows d"] assms(3)
    by (auto simp: runs_same_def run_ids_kept_def tables_same_def update_conv' split: prod.splits)
qed

lemma pointers_keep: "keeps runs_same (set_pointers ks new)" "keeps run_ids_kept (set_pointers ks new)"
proof -
  have one: "keeps runs_same (SetExecutionRestartedAs k new)" "keeps run_ids_kept (SetExecutionRestartedAs k new)" for k new
    unfolding SetExecutionRestartedAs_def Let_def
    by (intro runs.keeps_steps runs.keeps_db_call; simp add: runs_same_def)
       (intro ids.keeps_steps ids.keeps_db_call; auto simp: run_ids_kept_def lookup_modify)
  show "keeps runs_same (set_pointers ks new)"
  proof (induction ks)
    case (Cons k ks)
    then show ?case unfolding set_pointers.simps by (intro runs.keeps_steps one)
  qed (simp add: runs.keeps_return)
  show "keeps run_ids_kept (set_pointers ks new)"
  proof (induction ks)
    case (Cons k ks)
    then show ?case unfolding set_pointers.simps by (intro ids.keeps_steps one)
  qed (simp add: ids.keeps_return)
qed

text \<open>The execution \<open>k\<close> is on record, and the lineage of its run counts \<open>n\<close> resumptions.\<close>

definition on_record :: "(string \<Rightarrow> (string \<times> json) list option) \<Rightarrow> string \<Rightarrow> string \<Rightarrow> int \<Rightarrow> world \<Rightarrow> bool" where
  "on_record decode k runID n w \<longleftrightarrow>
     (\<exists>e. find_execution (data w) k = Some e \<and> ex_RunID e = runID) \<and> run_attempt decode (data w) runID = n"

lemma on_record_kept:
  assumes "on_record decode k r n w" and "run_ids_kept (data w) (data w')" and "map_of (run_rows (data w')) r = map_of (run_rows (data w)) r"
  shows "on_record decode k r n w'"
  using assms unfolding on_record_def run_ids_kept_def run_attempt_def by metis

lemma forward_pointers_kept:
  assumes "calm w" and "on_record decode k r n w" and "TrimSpace (ex_RunID source) \<noteq> r"
    and "run_state (persistRestartForwardPointers dc source first successor) w = (u, w')"
  shows "on_record decode k r n w' \<and> calm w'"
proof -
  let ?ks = "ex_ExecutionID source # (if ex_ExecutionID first \<noteq> ex_ExecutionID source then [ex_ExecutionID first] else [])"
  obtain a w1 where a: "run_state (set_pointers ?ks (ex_ExecutionID successor)) w = (a, w1)" by (rule prod.exhaust)
  obtain x w2 where x: "run_state (update_run (dc_metadata dc) (ex_RunID source) (point_forward dc successor (clock (data w1)))) w1 = (x, w2)"
    by fastforce
  have "w' = w2" using assms(4) a x
    by (simp add: persistRestartForwardPointers_def time_Now_def State_Monad.return_def del: set_pointers.simps)
  moreover have "run_rows (data w1) = run_rows (data w)" "run_ids_kept (data w) (data w1)" "calm w1"
    using calm_runs [OF assms(1) pointers_keep(1) a] calm_ids [OF assms(1) pointers_keep(2) a] by simp_all
  moreover note other_run_kept [OF \<open>calm w1\<close> x assms(3)]
  ultimately show ?thesis using on_record_kept [OF assms(2), of w2] ids.trans by metis
qed

lemma resumed_from:
  assumes "calm w" and "json_law dc" and "0 \<le> ro_ResumeAttempt opts" and "ro_ResumeAttempt opts < 2 ^ 63"
    and "restart_kind opts = ''resume''" and fresh: "TrimSpace (dc_runID dc) = dc_runID dc" "dc_runID dc \<noteq> []"
      "map_of (run_rows (data w)) (dc_runID dc) = None" "TrimSpace (ex_RunID source) \<noteq> dc_runID dc"
    and "run_state (restart_from dc ob source first opts) w = ((Inr x, job), w')"
  shows "on_record (dc_object dc) (rx_ExecutionID x) (dc_runID dc) (ro_ResumeAttempt opts) w' \<and> calm w'"
proof -
  let ?h = "restart_headers dc source first opts" and ?target = "ex_NodeID first @ ''.'' @ ex_ReasonerID first"
  obtain p w1 where p: "run_state (observe (ob_pool ob)) w = (p, w1)" by fastforce
  let ?w1 = "w1\<lparr>places_held := places_held w1 + 1\<rparr>"
  obtain r w2 where r: "run_state (prepareExecution dc ob ?target (restart_request dc first opts) ?h [] [] True stRunning) ?w1 = (r, w2)"
    by fastforce
  obtain reserved stopped where res: "fst (reserveForAdmission p) = (reserved, stopped)" by fastforce
  have "reserved" using assms(10) p res by (cases reserved) (auto simp: restart_from_def State_Monad.return_def Let_def)
  obtain pl where pl: "r = Inr pl"
    using assms(10) p res \<open>reserved\<close> r
    by (cases r) (auto simp: restart_from_def State_Monad.return_def move_place_def Let_def)
  have submit: "run_state (submit_restart dc ob source first opts ?h ?target pl) w2 = ((Inr x, job), w')"
    using assms(10) p res \<open>reserved\<close> r pl by (simp add: restart_from_def move_place_def Let_def)
  have w1: "run_rows (data ?w1) = run_rows (data w)" "calm ?w1"
    using calm_runs [OF assms(1) runs.keeps_observe p] by (simp_all add: calm_def)
  have req: "rq_RunMetadata (restart_request dc first opts) = None" by (simp add: restart_request_def case_prod_unfold)
  have w2: "run_rows (data w2) = run_rows (data w)" "calm w2"
    using calm_runs [OF w1(2) prepare_keeps_runs [OF req] r] w1(1) by simp_all
  have ids: "ex_ExecutionID (pl_exec pl) = dc_executionID dc" "ex_RunID (pl_exec pl) = dc_runID dc"
    using yieldsD [OF prepare_yields r [unfolded pl]] fresh(2) by (simp_all add: restart_headers_def Let_def split: if_splits)
  have "\<forall>n d. tables_same d (env ?w1 n d)" using w1(2) by (simp add: calm_def)
  then obtain row where row: "planned_row (dc_executionID dc) (if pp_replayHit pl = None then stRunning else stRunning) (pl_exec pl) row"
      "new_row ?w1 row" "executions (data w2) = executions (data ?w1) @ [row]"
    using prepare_row [of dc stRunning ob ?target "restart_request dc first opts" ?h "[]" "[]" True, unfolded adds_row_def,
        rule_format, of ?w1] r pl by auto
  then have found: "find_execution (data w2) (dc_executionID dc) = Some row" "ex_RunID row = dc_runID dc"
    using ids by (simp_all add: planned_row_def new_row_def lookup_append)
  obtain u w3 where u: "run_state (persistRestartRunMetadata dc pl source first opts ''resume'') w2 = (u, w3)" by (rule prod.exhaust)
  have w3: "run_attempt (dc_object dc) (data w3) (dc_runID dc) = ro_ResumeAttempt opts" "calm w3"
    using lineage_recorded [OF w2(2) assms(2-4) fresh(1,2) _ ids(2) u] w2(1) fresh(3) by simp_all
  have "run_ids_kept (data w2) (data w3)"
    using calm_ids [OF w2(2) ids.keeps_run_update(2) u] by simp
  then have 3: "on_record (dc_object dc) (dc_executionID dc) (dc_runID dc) (ro_ResumeAttempt opts) w3"
    using found w3(1) unfolding on_record_def run_ids_kept_def by metis
  let ?mid = "do { publishExecutionPlanStatusEvent dc pl stRunning; observe (ob_pool ob) }"
  obtain q w4 where q: "run_state ?mid w3 = (q, w4)" by fastforce
  have w4: "run_rows (data w4) = run_rows (data w3)" "run_ids_kept (data w3) (data w4)" "calm w4"
    using calm_runs [OF w3(2) _ q] calm_ids [OF w3(2) _ q]
    by (simp_all add: runs.keeps_bind ids.keeps_bind runs.keeps_event ids.keeps_event runs.keeps_observe ids.keeps_observe)
  obtain z w5 where z: "run_state (emit (JobQueued (ex_ExecutionID (pl_exec pl)))) w4 = (z, w5)" by (rule prod.exhaust)
  obtain v w6 where v: "run_state (persistRestartForwardPointers dc source first (pl_exec pl)) w5 = (v, w6)" by (rule prod.exhaust)
  have "fst (submitReserved 0 q)"
    using submit u q assms(5) by (auto simp: submit_restart_def State_Monad.return_def split: if_splits prod.splits)
  then have "w' = w6" "x = restart_response source first opts ?h ?target pl"
    using submit u q z v assms(5)
    by (simp_all add: submit_restart_def State_Monad.return_def split: prod.splits del: run_emit)
  moreover have "on_record (dc_object dc) (dc_executionID dc) (dc_runID dc) (ro_ResumeAttempt opts) w4"
    using on_record_kept [OF 3 w4(2)] w4(1) by simp
  then have "on_record (dc_object dc) (dc_executionID dc) (dc_runID dc) (ro_ResumeAttempt opts) w5"
    using on_record_kept [of _ _ _ _ w4 w5] calm_runs [OF w4(3) runs.keeps_emit z] calm_ids [OF w4(3) ids.keeps_emit z] by simp
  then have "on_record (dc_object dc) (dc_executionID dc) (dc_runID dc) (ro_ResumeAttempt opts) w6 \<and> calm w6"
    using forward_pointers_kept [OF _ _ fresh(4) v] calm_runs [OF w4(3) runs.keeps_emit z] by simp
  ultimately show ?thesis using ids(1) by (simp add: restart_response_def)
qed

text \<open>
  The identifier generated for the new run is not blank, and no run on record has it.
\<close>

definition fresh_run :: "dispatch_config \<Rightarrow> world \<Rightarrow> bool" where
  "fresh_run dc w \<longleftrightarrow> TrimSpace (dc_runID dc) = dc_runID dc \<and> dc_runID dc \<noteq> [] \<and>
     map_of (run_rows (data w)) (dc_runID dc) = None \<and>
     (\<forall>e \<in> set (executions (data w)). TrimSpace (ex_RunID e) \<noteq> dc_runID dc)"

lemma calm_tables:
  "calm w \<Longrightarrow> keeps tables_same p \<Longrightarrow> run_state p w = (a, w') \<Longrightarrow> executions (data w') = executions (data w) \<and> calm w'"
  using calm_run [of w tables_same p a w'] by (simp add: tables_same_def)

lemma claimed_counts:
  assumes w: "calm w" and "json_law dc" and "rz_MaxAttempts rz < 2 ^ 63" and "fresh_run dc w"
    and rec: "on_record (dc_object dc) k r n w" and "0 \<le> n"
    and h: "run_state (handOffClaimedInterruptedRun dc ob rz k) w = (Some (k', pl), w')"
  shows "n < rz_MaxAttempts rz \<and> on_record (dc_object dc) k' (dc_runID dc) (n + 1) w' \<and> calm w'"
proof -
  obtain e where e: "find_execution (data w) k = Some e" "ex_RunID e = r" "run_attempt (dc_object dc) (data w) r = n"
    using rec by (auto simp: on_record_def)
  obtain g w1 where g: "run_state (GetExecutionRecord k) w = (g, w1)" by fastforce
  obtain b where b: "g = Inr (Some (e\<lparr>ex_WebhookRegistered := b\<rparr>))" using calm_get [OF w g] e(1) by auto
  let ?e = "e\<lparr>ex_WebhookRegistered := b\<rparr>"
  have w1: "run_rows (data w1) = run_rows (data w)" "calm w1"
    using calm_runs [OF w runs.keeps_GetExecutionRecord g] by simp_all
  obtain reason where reason: "interruptedRunHandoffReason (dc_controller dc) ?e = Some reason"
    using h g b by (auto simp: handOffClaimedInterruptedRun_def non_fatal_def State_Monad.return_def split: option.splits)
  obtain m w2 where m: "run_state (resumeAttemptForRun dc r) w1 = (m, w2)" by fastforce
  have "m = n" using calm_attempt [OF w1(2) m] e(3) unfolding run_attempt_def w1(1) by (rule trans)
  have w2: "run_rows (data w2) = run_rows (data w)" "calm w2"
    using calm_runs [OF w1(2) runs.keeps_lineage_reads(2) m] w1(1) by simp_all
  have below: "n < rz_MaxAttempts rz"
    using h g b reason m e(2) \<open>m = n\<close>
    by (auto simp: handOffClaimedInterruptedRun_def non_fatal_def State_Monad.return_def not_le split: if_splits)
  let ?opts = "resume_options reason (n + 1)"
  obtain x job w3 where start: "run_state (startRestart dc ob ?e ?opts) w2 = ((x, job), w3)" by (metis surj_pair)
  have x: "\<exists>y. x = Inr y \<and> rx_ExecutionID y = k'" "w' = w3"
    using h g b reason m e(2) \<open>m = n\<close> below start
    by (auto simp: handOffClaimedInterruptedRun_def non_fatal_def State_Monad.return_def split: sum.splits option.splits)
  then obtain y where y: "x = Inr y" "rx_ExecutionID y = k'" by blast
  obtain q w4 where q: "run_state (findWorkflowRestartRoot (ex_RunID ?e)) w2 = (q, w4)" by fastforce
  have w4: "run_rows (data w4) = run_rows (data w)" "calm w4"
    using calm_runs [OF w2(2) runs.keeps_lineage_reads(1) q] w2(1) by simp_all
  have workflow: "ro_Scope ?opts = ''workflow''" by (simp add: resume_options_def)
  then obtain first where "q = Inr (Some first)"
    using start q y by (auto simp: startRestart_def State_Monad.return_def split: sum.splits option.splits)
  then have from_first: "run_state (restart_from dc ob ?e first ?opts) w4 = ((Inr y, job), w')"
    using start q y x(2) workflow by (simp add: startRestart_def)
  have "TrimSpace ''resume'' = ''resume''" by code_simp
  then have "restart_kind ?opts = ''resume''" by (simp add: restart_kind_def resume_options_def)
  moreover have "TrimSpace (ex_RunID ?e) \<noteq> dc_runID dc"
    using assms(4) lookup_mem [OF e(1)] by (simp add: fresh_run_def)
  moreover have "TrimSpace (dc_runID dc) = dc_runID dc" "dc_runID dc \<noteq> []" "map_of (run_rows (data w4)) (dc_runID dc) = None"
    using assms(4) w4(1) by (simp_all add: fresh_run_def)
  moreover have "0 \<le> ro_ResumeAttempt ?opts" "ro_ResumeAttempt ?opts < 2 ^ 63"
    using assms(3,6) below by (simp_all add: resume_options_def)
  ultimately have "on_record (dc_object dc) (rx_ExecutionID y) (dc_runID dc) (ro_ResumeAttempt ?opts) w' \<and> calm w'"
    using resumed_from [OF w4(2) assms(2) _ _ _ _ _ _ _ from_first] by blast
  then show ?thesis using below y(2) by (simp add: resume_options_def)
qed

lemma hand_off_counts:
  assumes w: "calm w" and "json_law dc" and "rz_MaxAttempts rz < 2 ^ 63" and fresh: "fresh_run dc w"
    and rec: "on_record (dc_object dc) (ex_ExecutionID e) r n w" and "0 \<le> n"
    and h: "run_state (handOffInterruptedRun dc ob rz e) w = (Some (k', pl), w')"
  shows "n < rz_MaxAttempts rz \<and> on_record (dc_object dc) k' (dc_runID dc) (n + 1) w' \<and> calm w'"
proof -
  let ?k = "ex_ExecutionID e"
  obtain c w1 where c: "run_state (claim_handoff ?k) w = (c, w1)" by fastforce
  obtain x w2 where x: "run_state (handOffClaimedInterruptedRun dc ob rz ?k) w1 = (x, w2)" by fastforce
  have x': "x = Some (k', pl)" "w' = w2\<lparr>data := (data w2)\<lparr>handoff_claims := removeAll ?k (handoff_claims (data w2))\<rparr>\<rparr>"
    using h c x
    by (auto simp: handOffInterruptedRun_def release_handoff_def State_Monad.return_def split: option.splits if_splits)
  have w1: "run_rows (data w1) = run_rows (data w)" "executions (data w1) = executions (data w)" "calm w1"
    using calm_runs [OF w runs.keeps_claims(1) c] calm_tables [OF w same.keeps_claims(1) c] by simp_all
  have "fresh_run dc w1" "on_record (dc_object dc) ?k r n w1"
    using fresh rec unfolding fresh_run_def on_record_def run_attempt_def w1 .
  then have "n < rz_MaxAttempts rz \<and> on_record (dc_object dc) k' (dc_runID dc) (n + 1) w2 \<and> calm w2"
    using claimed_counts [OF w1(3) assms(2,3) _ _ assms(6)] x x'(1) by blast
  moreover have "run_rows (data w') = run_rows (data w2)" "executions (data w') = executions (data w2)" "calm w2 \<Longrightarrow> calm w'"
    unfolding x'(2) by (simp_all add: calm_def)
  ultimately show ?thesis unfolding on_record_def run_attempt_def by metis
qed

subsection \<open>Chains of resumptions\<close>

text \<open>
  \<open>resumptions decode rz n k w k' w'\<close>: starting with execution \<open>k\<close> in \<open>w\<close>, \<open>n\<close> hand-offs have each resumed the run that the
  one before had started, and \<open>k'\<close> is the last execution. Between two hand-offs anything may happen that leaves the
  run and the lineage of the last execution.
\<close>

inductive resumptions ::
    "(string \<Rightarrow> (string \<times> json) list option) \<Rightarrow> resume_config \<Rightarrow> nat \<Rightarrow> string \<Rightarrow> world \<Rightarrow> string \<Rightarrow> world \<Rightarrow> bool"
    for decode rz where
  Start: "resumptions decode rz 0 k w k w"
| Meanwhile: "resumptions decode rz n k w k1 w1 \<Longrightarrow> calm w2 \<Longrightarrow>
    (\<And>r m. on_record decode k1 r m w1 \<Longrightarrow> on_record decode k1 r m w2) \<Longrightarrow> resumptions decode rz n k w k1 w2"
| Hand_Off: "resumptions decode rz n k w (ex_ExecutionID e) w1 \<Longrightarrow> dc_object dc = decode \<Longrightarrow> json_law dc \<Longrightarrow> fresh_run dc w1 \<Longrightarrow>
    run_state (handOffInterruptedRun dc ob rz e) w1 = (Some (k2, pl), w2) \<Longrightarrow> resumptions decode rz (Suc n) k w k2 w2"

text \<open>
  C40. Interrupted runs are not resumed for ever. However often the control plane and the nodes are shut down, a chain of
  resumptions, each of the run that the one before has started, is never longer than the configured number of attempts,
  less those that the lineage of the first run already counts. Faults of the storage are excluded: a lineage that cannot
  be read counts as none.
\<close>

theorem resumptions_bounded:
  assumes "resumptions decode rz n k w k' w'" and "calm w" and "on_record decode k r m w" and "0 \<le> m"
    and "m \<le> rz_MaxAttempts rz" and "rz_MaxAttempts rz < 2 ^ 63"
  shows "m + int n \<le> rz_MaxAttempts rz"
proof -
  have "calm w' \<and> (\<exists>r'. on_record decode k' r' (m + int n) w') \<and> m + int n \<le> rz_MaxAttempts rz"
    using assms(1,2,3)
  proof (induction rule: resumptions.induct)
    case (Start k w)
    then show ?case using assms(5) by auto
  next
    case (Meanwhile n k w k1 w1 w2)
    then show ?case by blast
  next
    case (Hand_Off n k w e w1 dc ob k2 pl w2)
    then obtain r' where "calm w1" "on_record (dc_object dc) (ex_ExecutionID e) r' (m + int n) w1" by blast
    from hand_off_counts [OF this(1) Hand_Off.hyps(3) assms(6) Hand_Off.hyps(4) this(2) _ Hand_Off.hyps(5)] assms(4)
    have "m + int n < rz_MaxAttempts rz" "on_record (dc_object dc) k2 (dc_runID dc) (m + int n + 1) w2" "calm w2" by simp_all
    then show ?case using Hand_Off.hyps(2) by (auto simp: algebra_simps)
  qed
  then show ?thesis by blast
qed


text \<open>An encoder of the objects the law is about, with their members in order, and its decoder.\<close>

definition wr_member :: "string \<times> json \<Rightarrow> string" where
  "wr_member m = wr_str (fst m) @
     (case snd m of JStr s \<Rightarrow> wr_nat 0 @ wr_str s | JInt n \<Rightarrow> wr_nat 1 @ wr_nat (nat n) | _ \<Rightarrow> wr_nat 2)"

definition rd_member :: "string \<Rightarrow> (string \<times> json) \<times> string" where
  "rd_member s = (case rd_str s of (k, s) \<Rightarrow> (case rd_nat s of (tag, s) \<Rightarrow>
     if tag = 0 then (case rd_str s of (v, s) \<Rightarrow> ((k, JStr v), s))
     else if tag = 1 then (case rd_nat s of (n, s) \<Rightarrow> ((k, JInt (int n)), s))
     else ((k, JNull), s)))"

definition flat :: "json \<Rightarrow> bool" where
  "flat v \<longleftrightarrow> (case v of JStr _ \<Rightarrow> True | JInt n \<Rightarrow> 0 \<le> n \<and> n < 2 ^ 63 | _ \<Rightarrow> False)"

lemma rd_wr_member: "flat (snd m) \<Longrightarrow> rd_member (wr_member m @ r) = (m, r)"
  by (cases m) (auto simp: flat_def rd_member_def wr_member_def split: json.splits)

lemma rd_wr_members:
  "\<forall>m \<in> set ms. flat (snd m) \<Longrightarrow> rd_list rd_member (wr_list wr_member ms) = (ms, [])"
proof -
  have "\<forall>m \<in> set ms. flat (snd m) \<Longrightarrow> rd_many rd_member (length ms) (concat (map wr_member ms)) = (ms, [])"
    by (induction ms) (simp_all add: rd_wr_member)
  then show "\<forall>m \<in> set ms. flat (snd m) \<Longrightarrow> rd_list rd_member (wr_list wr_member ms) = (ms, [])"
    by (simp add: rd_list_def wr_list_def)
qed

definition demo_resume :: dispatch_config where
  "demo_resume = demo_dispatch\<lparr>dc_runID := ''r2'', dc_executionID := ''e2'',
     dc_marshal := (\<lambda>v. Inr (case v of JObj ms \<Rightarrow> wr_list wr_member ms | _ \<Rightarrow> [])),
     dc_object := (\<lambda>t. Some (fst (rd_list rd_member t)))\<rparr>"

lemma demo_json_law: "json_law demo_resume"
proof -
  have "map_of ms k = Some v" if "distinct (map fst ms)" "(k, v) \<in> set ms" for ms :: "(string \<times> json) list" and k v
    using that by simp
  moreover have "fst (rd_list rd_member (wr_list wr_member ms)) = ms"
    if "\<forall>(k, v) \<in> set ms. case v of JStr _ \<Rightarrow> True | JInt n \<Rightarrow> 0 \<le> n \<and> n < 2 ^ 63 | _ \<Rightarrow> False" for ms
    using rd_wr_members [of ms] that unfolding flat_def case_prod_unfold by simp
  ultimately show ?thesis
    by (auto simp: json_law_def demo_resume_def demo_dispatch_def demo_codec_def)
qed

lemma demo_trims [simp]: "TrimSpace ''r1'' = ''r1''" "TrimSpace ''r2'' = ''r2''" "TrimSpace ''e2'' = ''e2''"
    "TrimSpace ''all-succeeded'' = ''all-succeeded''" "TrimSpace ''resume'' = ''resume''"
  by code_simp+

definition demo_row :: Execution where
  "demo_row = zero_execution\<lparr>ex_ExecutionID := ''e1'', ex_RunID := ''r1'', ex_NodeID := ''n'', ex_ReasonerID := ''f'',
     ex_Status := stFailed, ex_StatusReason := Some ErrorCategoryControlPlaneShutdown\<rparr>"

lemma demo_found:
  "run_state (findWorkflowRestartRoot ''r1'') ((idle d)\<lparr>calls := n\<rparr>) = (Inr (Some demo_row), (idle d)\<lparr>calls := n + 2\<rparr>)"
  if "executions d = [demo_row]" "webhooks d = []"
  using that
  by (simp add: findWorkflowRestartRoot_def QueryExecutionRecords_def select_executions_def populateWebhookRegistration_def
      db_call_def idle_def State_Monad.return_def Let_def no_filter_def restart_root_def demo_row_def zero_execution_def window_def
      filter_matches_def eq_arg_def reason_matches_def order_executions_def order_by_def)

lemma demo_loaded:
  "run_state (GetExecutionRecord ''e1'') ((idle d)\<lparr>calls := n\<rparr>) = (Inr (Some demo_row), (idle d)\<lparr>calls := n + 2\<rparr>)"
  if "executions d = [demo_row]" "webhooks d = []"
  using that
  by (simp add: GetExecutionRecord_def enrichExecutionWebhook_def HasExecutionWebhook_def
      db_call_def idle_def State_Monad.return_def Let_def demo_row_def zero_execution_def lookup_def)

lemma demo_attempt:
  "run_state (resumeAttemptForRun dc ''r1'') ((idle d)\<lparr>calls := n\<rparr>) = (0, (idle d)\<lparr>calls := n + 1\<rparr>)"
  if "run_rows d = []"
  using that
  by (simp add: resumeAttemptForRun_def GetWorkflowRun_def non_fatal_def db_call_def idle_def State_Monad.return_def Let_def)

lemma demo_submitted:
  "\<exists>x w'. run_state (submit_restart dc demo_observations source first opts h target pl) w = ((Inr x, Some pl), w')"
  by (simp add: submit_restart_def demo_observations_def submitReserved_def newAsyncWorkerPool_def observe_def case_prod_unfold
      State_Monad.return_def)

lemma demo_slot:
  assumes "ob_gate ob = (\<lambda>_. (None, None))"
  shows "run_state (take_slot ob nodeID endpoint) w =
    (Inr (), w\<lparr>data := env w (calls w) (data w), calls := Suc (calls w), slots_held := (slots_held w)(nodeID := slots_held w nodeID + 1)\<rparr>)"
  by (simp add: take_slot_def CheckExecutionPreconditions_def checkLLMEndpointHealth_def Acquire_def observe_def assms
      move_slot_def time_Now_def State_Monad.return_def case_prod_unfold)

lemma demo_restarted:
  "\<exists>x pl w'. run_state (restart_from demo_resume demo_observations demo_row demo_row (resume_options reason 1)) 
     ((idle d)\<lparr>calls := n\<rparr>) = ((Inr x, Some pl), w')"
  if "executions d = [demo_row]" "webhooks d = []"
proof -
  have prepared: "\<exists>pl. fst (run_state (prepareExecution demo_resume demo_observations ''n.f''
      (restart_request demo_resume demo_row (resume_options reason 1))
      (restart_headers demo_resume demo_row demo_row (resume_options reason 1)) [] [] True stRunning)
      ((idle d)\<lparr>calls := m, places_held := 1\<rparr>)) = Inr pl" for m
    using that
    by (simp add: prepareExecution_def demo_target check_run_metadata_def require_def and_then_def
        State_Monad.return_def resolve_node_def observe_def demo_observations_def pending_approval_def demo_node_def
        infer_deployment_def reachable_node_def TrimSpace_def is_space_def default_restart_config_def
        agentIsDraining_def ensureAgentDispatchable_def agentRestartGraceFor_def serverless_url_def
        determineTargetType_def checkedAgentURL_def demo_dispatch_def demo_resume_def findReplayHit_def or_free_slot_def
        prepare_plan_def record_execution_def CreateExecutionRecord_def db_call_def idle_def
        zero_execution_def new_execution_def Let_def case_prod_unfold demo_row_def restart_request_def restart_headers_def
        resume_options_def DecodeStoredExecutionPayload_def
        demo_slot)
  from prepared [of "Suc n"] obtain pl w1 where "run_state (prepareExecution demo_resume demo_observations ''n.f''
      (restart_request demo_resume demo_row (resume_options reason 1))
      (restart_headers demo_resume demo_row demo_row (resume_options reason 1)) [] [] True stRunning)
      ((idle d)\<lparr>calls := Suc n, places_held := 1\<rparr>) = (Inr pl, w1)"
    by (metis prod.collapse)
  moreover have "fst (reserveForAdmission (newAsyncWorkerPool 1 1)) = (True, False)"
    by (simp add: reserveForAdmission_def newAsyncWorkerPool_def)
  moreover have seen: "run_state (observe (ob_pool demo_observations)) ((idle d)\<lparr>calls := n\<rparr>) =
      (newAsyncWorkerPool 1 1, (idle d)\<lparr>calls := Suc n\<rparr>)"
    by (simp add: observe_def demo_observations_def idle_def)
  moreover have held: "run_state (move_place 1) ((idle d)\<lparr>calls := Suc n\<rparr>) = ((), (idle d)\<lparr>calls := Suc n, places_held := 1\<rparr>)"
    by (simp add: move_place_def idle_def)
  moreover have at_n: "ex_NodeID demo_row @ ''.'' @ ex_ReasonerID demo_row = ''n.f''" by (simp add: demo_row_def)
  ultimately show ?thesis
    using demo_submitted [of demo_resume demo_row demo_row "resume_options reason 1"
        "restart_headers demo_resume demo_row demo_row (resume_options reason 1)" "''n.f''" pl w1]
    by (auto simp: restart_from_def seen held at_n Let_def simp del: One_nat_def)
qed

definition demo_interrupted :: db where
  "demo_interrupted = (one_row ''e1'' stFailed 5)\<lparr>executions := [demo_row]\<rparr>"

lemma demo_handed_off:
  "\<exists>k pl w. run_state (handOffInterruptedRun demo_resume demo_observations default_resume_config demo_row)
     (idle demo_interrupted) = (Some (k, pl), w)"
proof -
  let ?d = "demo_interrupted\<lparr>handoff_claims := [''e1'']\<rparr>"
  have d: "executions ?d = [demo_row]" "webhooks ?d = []" "run_rows ?d = []" by (simp_all add: demo_interrupted_def one_row_def)
  have reason: "interruptedRunHandoffReason (dc_controller demo_resume) demo_row = Some ErrorCategoryControlPlaneShutdown"
    by code_simp
  have e: "ex_ExecutionID demo_row = ''e1''" "ex_RunID demo_row = ''r1''" by (simp_all add: demo_row_def)
  have claim: "run_state (claim_handoff ''e1'') (idle demo_interrupted) = (True, (idle ?d)\<lparr>calls := 1\<rparr>)"
    by (simp add: claim_handoff_def idle_def demo_interrupted_def one_row_def)
  have "ro_Scope (resume_options r n) = ''workflow''" for r n by (simp add: resume_options_def)
  then have "\<exists>k pl w. run_state (handOffClaimedInterruptedRun demo_resume demo_observations default_resume_config ''e1'')
      ((idle ?d)\<lparr>calls := 1\<rparr>) = (Some (k, pl), w)"
    using demo_restarted [OF d(1,2), of ErrorCategoryControlPlaneShutdown "Suc (Suc (Suc (Suc (Suc (Suc 0)))))"]
    by (auto simp: handOffClaimedInterruptedRun_def demo_loaded [OF d(1,2)] non_fatal_def reason e demo_attempt [OF d(3)]
        demo_found [OF d(1,2)] startRestart_def default_resume_config_def State_Monad.return_def)
  then show ?thesis
    by (auto simp: handOffInterruptedRun_def reason e claim release_handoff_def State_Monad.return_def)
qed

theorem resumptions_bounded_witness:
  "\<exists>k w. resumptions (dc_object demo_resume) default_resume_config 1 ''e1'' (idle demo_interrupted) k w \<and>
     0 + int 1 \<le> rz_MaxAttempts default_resume_config"
proof -
  obtain k pl w where h: "run_state (handOffInterruptedRun demo_resume demo_observations default_resume_config demo_row)
     (idle demo_interrupted) = (Some (k, pl), w)"
    using demo_handed_off by blast
  have "calm (idle demo_interrupted)" by (simp add: calm_def idle_def tables_same_def runs_same_def)
  moreover have "on_record (dc_object demo_resume) ''e1'' ''r1'' 0 (idle demo_interrupted)"
    by (simp add: on_record_def idle_def demo_interrupted_def one_row_def demo_row_def zero_execution_def run_attempt_def lookup_def)
  moreover have "fresh_run demo_resume (idle demo_interrupted)"
    by (simp add: fresh_run_def idle_def demo_interrupted_def one_row_def demo_row_def zero_execution_def demo_resume_def)
  moreover have "ex_ExecutionID demo_row = ''e1''" by (simp add: demo_row_def)
  ultimately show ?thesis
    using resumptions.Hand_Off [OF _ refl demo_json_law _ h] resumptions.Start
      resumptions_bounded [of "dc_object demo_resume" default_resume_config 1 "''e1''" "idle demo_interrupted" k w "''r1''" 0]
    by (fastforce simp: default_resume_config_def)
qed

end
