(* ===== verification/Spec2Isabelle.thy ===== *)
theory Spec2Isabelle
  imports Permission Memory_Access Exec_Approval Cancel_Tree Reaper LLM_Health AI_Limiter Node_Reconcile Webhook_Delivery Outbound Restart_Outcome
begin

text \<open>
  A verification development for the control plane of AgentField and the parts of its Go SDK that share its state.

  \<^bold>\<open>The program.\<close> Agents (nodes) register with the control plane and offer functions. A client asks the control plane
  to execute one; the control plane checks who asks and whether the policies allow it, records an execution and a
  workflow execution, calls the node, and records the outcome that the call or a later status callback reports. An
  execution can be cancelled, paused, or wait for a human approval. Maintenance sweeps end the executions nobody
  reports on. Nodes stay in service by heartbeats and leases; probes, a presence sweep and a reconciliation loop take
  those out that are gone. Agents share a key-value memory whose scopes are guarded. All of it is Go code under
  \<open>src/control-plane/internal\<close>; the SDK parts are under \<open>src/sdk/go\<close>.

  \<^bold>\<open>Theories and code.\<close>
  \<^item> \<open>Prelude\<close>: the standard library fragment (strings, times, sorting, \<open>int64\<close>), replies and errors. \<open>Http\<close>: requests.
  \<^item> \<open>Status\<close>: the execution statuses and the workflow state machine (\<open>pkg/types/status.go\<close>,
    \<open>storage/execution_state_validation.go\<close>).
  \<^item> \<open>Exec_Store\<close>: the two execution tables and the storage calls on them (\<open>storage/execution_records.go\<close>,
    \<open>storage/local.go\<close>). The state is the record \<open>db\<close>; a handler is a \<open>proc\<close>, a state monad over it.
  \<^item> \<open>Exec_Cancel\<close>, \<open>Exec_Status\<close>, \<open>Exec_Approval\<close>, \<open>Cancel_Tree\<close>, \<open>Exec_Query\<close>: the handlers
    (\<open>handlers/execute_cancel.go\<close>, \<open>execute_pause.go\<close>, \<open>execute.go\<close>, \<open>execute_lifecycle.go\<close>, \<open>execute_approval.go\<close>,
    \<open>webhook_approval.go\<close>, \<open>execute_awaiter_status.go\<close>, \<open>execute_cancel_tree.go\<close>) and the queries they use.
  \<^item> \<open>Reaper\<close>: the stale-execution sweeps, the retry sweep and the orphaning of a departed node's executions
    (\<open>storage/execution_records.go\<close>, \<open>handlers/execution_cleanup.go\<close>).
  \<^item> \<open>Node_Store\<close>, \<open>Status_Manager\<close>, \<open>Presence_Manager\<close>, \<open>Node_Health\<close>, \<open>Node_Handlers\<close>: the node table and the four
    services that decide whether a node is in service (\<open>storage/local.go\<close>, \<open>services/status_manager.go\<close>,
    \<open>presence_manager.go\<close>, \<open>health_monitor.go\<close>, \<open>handlers/nodes_heartbeat.go\<close>, \<open>nodes_rest.go\<close>, \<open>nodes_status.go\<close>). The
    state is the record \<open>fleet\<close>. \<open>Node_Fleet\<close>, \<open>Node_History\<close> and \<open>Node_Reconcile\<close> hold the histories over it.
  \<^item> \<open>Access_Policy\<close>, \<open>Permission\<close>, \<open>Request_Auth\<close>: who may call what (\<open>services/access_policy_service.go\<close>,
    \<open>tag_normalization.go\<close>, \<open>tag_vc_verifier.go\<close>, \<open>server/middleware\<close>).
  \<^item> \<open>Memory_Store\<close>, \<open>Memory_Access\<close>: the shared memory and its guard (\<open>storage/local.go\<close>,
    \<open>server/middleware/memory_authorizer.go\<close>, \<open>memory_permission.go\<close>, \<open>handlers/memory.go\<close>).
  \<^item> \<open>Breaker\<close>, \<open>LLM_Health\<close>, \<open>AI_Limiter\<close>: the two circuit breakers (\<open>services/llm_health_monitor.go\<close>,
    \<open>sdk/go/ai/rate_limiter.go\<close>) over one interface.
  \<^item> \<open>Webhooks\<close>, \<open>Webhook_Delivery\<close>: the registration, scheduling, delivery and retry of execution webhooks
    (\<open>services/webhook_dispatcher.go\<close>, \<open>storage/execution_webhooks.go\<close>) and their histories; the state is the record \<open>hooks\<close>.
  \<^item> \<open>Outbound\<close>: the filter on the addresses that webhooks are sent to (\<open>services/ssrf_safe_client.go\<close>).
  \<^item> \<open>Admission\<close>, \<open>Routing\<close>, \<open>Async_Pool\<close>: the gate of a new execution with its concurrency limiter, the choice of
    the node, version and earlier result that serve it, and the worker pool of asynchronous executions
    (\<open>handlers/agent_concurrency.go\<close>, \<open>execution_guards.go\<close>, \<open>execute_helpers.go\<close>, \<open>execute_prepare.go\<close>,
    \<open>execute_agent_restart.go\<close>).
  \<^item> \<open>Run_Metadata\<close>: the name, labels and links of a run (\<open>handlers/run_metadata.go\<close>, \<open>pkg/types/run_metadata.go\<close>).
  \<^item> \<open>Dispatch\<close>, \<open>Dispatch_Ledger\<close>, \<open>Dispatch_Outcome\<close>: the dispatch of an execution from the request to its outcome
    (\<open>handlers/execute_prepare.go\<close>, \<open>execute.go\<close>, \<open>execute_lifecycle.go\<close>, \<open>execute_agent_restart.go\<close>,
    \<open>execute_helpers.go\<close>); what it takes and sends; what it leaves in the tables.

  \<^bold>\<open>Interfaces.\<close> \<open>Exec_Store.rely_guarantee\<close> is what makes a relation on the store an invariant of a handler under
  interference; it is interpreted for terminal statuses, for cancelled rows and for the rows of both tables.
  \<open>Reaper.sweep\<close> is the contract of a sweep over one table, interpreted for both tables. \<open>Breaker.failure_counter\<close> is the
  law of a failure-counting breaker, obeyed by both breakers. \<open>Prelude.refinement\<close> is a functional simulation,
  interpreted for the memory and its map. \<open>Node_Fleet.fleet_relation\<close> is what makes a relation on the fleet an
  invariant of its operations, interpreted for the relations behind the node properties.
  \<open>Maintains.kept_relation\<close> is the same for the state monad of the webhooks, interpreted for their invariants and for
  the registration of another execution.
  \<open>Dispatch_Ledger.ledger\<close> is a count that no storage call moves, extended for the slots and places and for the requests
  of a dispatch and interpreted for both.

  \<^bold>\<open>What the lemmas show.\<close> Per component: what each operation answers and writes on every branch, errors included; the
  invariants its operations keep; and properties of the whole component, such as that a tree cancel settles a run
  under any interleaving, that the memory refines a map, or that one pass of reconciliation is enough. Across
  components: \<open>history_keeps_settled\<close> below, over histories of all the writers of the execution tables,
  \<open>Permission.execute_route_guarded\<close>, over the middlewares of the execute route, and the properties of a dispatch, which
  composes admission, routing, the store, the worker pool and the completion.

  \<^bold>\<open>Concurrency, failures, oracles.\<close> A storage call is one step. Between the calls of a handler other requests may
  commit: \<open>env\<close> in \<open>world\<close> is what they do, numbered by call, arbitrary unless a property bounds it. \<open>fault\<close> says which
  calls fail. The fleet has the same two (\<open>fl_fault\<close>; interleaving is by histories of operations, with the two halves
  of a sweep and of a poll as separate operations, and goroutines as jobs run later). The clock is part of the state.
  Parameters of the definitions stand for what is not Go source of the repository: hashes, signatures, base64, JSON
  binding, IP parsing, the answers of nodes and of LLM endpoints, random jitter. Times are nanoseconds (\<open>int\<close>);
  \<open>time.Duration\<close> arithmetic that can saturate or wrap is written out. Loops over rows are recursions on lists, the
  depth computation of a tree cancel recurses on the set of executions not yet visited. A wait is a script of its
  wakes, arbitrary but finite, since its context has a deadline; the loop in front of a queued job has the number of
  its rounds as an argument for the same reason, and its properties hold for every number.
  What a dispatch sees of the rest of the system (the node table, the gate, the worker pool, the answers of the node)
  is an observation, arbitrary at each step; the slots, places and requests it moves are counted in \<open>world\<close>.

  \<^bold>\<open>Not modelled.\<close> SQL text and the scanning of rows (the tables are lists of records); logging, metrics and tracing;
  the transport of the HTTP calls to nodes; the external calls of discovered resources, the restart of runs and the
  resumption of interrupted ones; subscribers of the event buses (a publication is an entry of a log). Whole subsystems that
  are left out: the identity services (DIDs and verifiable credentials, apart from what a permission check reads), the
  UI endpoints, package installation and the command line, the tray application, discovery and MCP, configuration
  loading, the harness of the SDK, and all code in other languages. The manifest lists them one by one.
\<close>

section \<open>Histories of the execution store\<close>

text \<open>
  The store of executions and workflow executions is written by all the handlers of the execution
  theories and by the sweeps of the cleanup loop. An \<open>operation\<close> is one of these with its input.
\<close>

datatype operation =
    Cancel string "string bound"
  | Pause string "string bound"
  | Resume string "string bound"
  | CancelTree string string "string bound"
  | StatusUpdate controller string "executionStatusUpdateRequest bound"
  | Complete controller plan string duration
  | Fail controller "string \<Rightarrow> bool" plan exec_error duration string
  | Awaiter bool string string "AwaiterStatusRequest bound"
  | RequestApproval bool string "RequestApprovalRequest bound"
  | ResolveApproval bool string "ApprovalPayload bound"
  | ApprovalWebhook bool "string \<Rightarrow> string \<Rightarrow> string" "string \<Rightarrow> string + ApprovalPayload" string int
      "string option" "string list"
  | StaleSweeps "string \<Rightarrow> db \<Rightarrow> db" "string \<Rightarrow> bool" "string option" cleanup_config
  | Orphan string string string instant
  | ExecuteSync dispatch_config observations string ExecuteRequest executionHeaders string string
  | ExecuteAsync dispatch_config observations string ExecuteRequest executionHeaders string string
  | RunJob dispatch_config observations nat bool preparedExecution
  | RestartRun dispatch_config observations string "restartExecutionRequest bound"
  | ResumeRun dispatch_config observations resume_config Execution

definition discard :: "'a proc \<Rightarrow> unit proc" where
  "discard p = do { _ \<leftarrow> p; State_Monad.return () }"

primrec serve :: "operation \<Rightarrow> unit proc" where
  "serve (Cancel p r) = discard (CancelExecutionHandler p r)"
| "serve (Pause k r) = discard (PauseExecutionHandler k r)"
| "serve (Resume k r) = discard (ResumeExecutionHandler k r)"
| "serve (CancelTree p q r) = discard (CancelWorkflowTreeHandler p q r)"
| "serve (StatusUpdate c k r) = discard (handleStatusUpdate c k r)"
| "serve (Complete c pl res el) = discard (completeExecution c pl res el)"
| "serve (Fail c v pl er el res) = discard (failExecution c v pl er el res)"
| "serve (Awaiter b node k r) = discard (UpdateAwaiterStatusHandler b node k r)"
| "serve (RequestApproval b k r) = discard (handleRequestApproval b k r)"
| "serve (ResolveApproval b k r) = discard (handleResolveApproval b k r)"
| "serve (ApprovalWebhook b mac prs sec t bdy hs) = discard (handleApprovalWebhook b mac prs sec t bdy hs)"
| "serve (StaleSweeps mid sync ctx cfg) = stale_sweeps mid sync ctx cfg"
| "serve (Orphan a i r t) = discard (markAgentExecutionsOrphaned a i r t)"
| "serve (ExecuteSync dc ob target req h caller callee) = discard (handleSync dc ob target req h caller callee)"
| "serve (ExecuteAsync dc ob target req h caller callee) = discard (handleAsync dc ob target req h caller callee)"
| "serve (RunJob dc ob n stopped pl) = run_job dc ob n stopped pl"
| "serve (RestartRun dc ob param b) = discard (handleRestart dc ob param b)"
| "serve (ResumeRun dc ob rz e) = discard (handOffInterruptedRun dc ob rz e)"

text \<open>
  What others commit in the middle of a retry transaction leaves the candidate row alone, since the
  transaction holds its lock.
\<close>

primrec sound_operation :: "operation \<Rightarrow> bool" where
  "sound_operation (Cancel _ _) = True"
| "sound_operation (Pause _ _) = True"
| "sound_operation (Resume _ _) = True"
| "sound_operation (CancelTree _ _ _) = True"
| "sound_operation (StatusUpdate _ _ _) = True"
| "sound_operation (Complete _ _ _ _) = True"
| "sound_operation (Fail _ _ _ _ _ _) = True"
| "sound_operation (Awaiter _ _ _ _) = True"
| "sound_operation (RequestApproval _ _ _) = True"
| "sound_operation (ResolveApproval _ _ _) = True"
| "sound_operation (ApprovalWebhook _ _ _ _ _ _ _) = True"
| "sound_operation (StaleSweeps mid _ _ _) = mid_ok mid"
| "sound_operation (Orphan _ _ _ _) = True"
| "sound_operation (ExecuteSync _ _ _ _ _ _ _) = True"
| "sound_operation (ExecuteAsync _ _ _ _ _ _ _) = True"
| "sound_operation (RunJob _ _ _ _ _) = True"
| "sound_operation (RestartRun _ _ _ _) = True"
| "sound_operation (ResumeRun _ _ _ _) = True"

text \<open>
  The operations whose update transaction checks for a terminal status itself: all but the end of a
  dispatch (and so what dispatches), which overwrites every terminal status other than \<open>cancelled\<close>, and
  the waiting and approval handlers, which check outside the transaction.
\<close>

fun checks_inside :: "operation \<Rightarrow> bool" where
  "checks_inside (Complete _ _ _ _) = False"
| "checks_inside (Fail _ _ _ _ _ _) = False"
| "checks_inside (Awaiter _ _ _ _) = False"
| "checks_inside (RequestApproval _ _ _) = False"
| "checks_inside (ResolveApproval _ _ _) = False"
| "checks_inside (ApprovalWebhook _ _ _ _ _ _ _) = False"
| "checks_inside (ExecuteSync _ _ _ _ _ _ _) = False"
| "checks_inside (ExecuteAsync _ _ _ _ _ _ _) = False"
| "checks_inside (RunJob _ _ _ _ _) = False"
| "checks_inside (RestartRun _ _ _ _) = False"
| "checks_inside (ResumeRun _ _ _ _) = False"
| "checks_inside _ = True"

subsection \<open>What every operation keeps\<close>

lemma keeps_discard:
  "keeps terminal_kept p \<Longrightarrow> keeps terminal_kept (discard p)"
  "keeps store_kept p \<Longrightarrow> keeps store_kept (discard p)"
  unfolding discard_def by (intro terminal_keeps, assumption) (intro store_keeps, assumption)

lemma pause_resume_handlers_keep_store:
  "keeps store_kept (PauseExecutionHandler k r)" "keeps store_kept (ResumeExecutionHandler k r)"
  unfolding PauseExecutionHandler_def ResumeExecutionHandler_def by (rule pause_resume_keeps_store)+

lemmas operations_keep_store = cancel_handler_keeps(2) pause_resume_handlers_keep_store cancel_tree_keeps(2)
  callback_keeps(2) completion_keeps_store keeps_awaiter keeps_request_approval keeps_resolve_approval
  keeps_approval_webhook stale_sweeps_keeps(2) orphaned_keeps(2) dispatch_keeps_store restarts_keep_store

lemmas operations_keep_terminal = cancel_handler_keeps(1) pause_handler_keeps resume_handler_keeps
  cancel_tree_keeps(1) callback_keeps(1) stale_sweeps_keeps(1) orphaned_keeps(1)

lemma serve_keeps_store: "sound_operation op \<Longrightarrow> keeps store_kept (serve op)"
  by (cases op) (auto intro!: keeps_discard operations_keep_store)

lemma serve_keeps_terminal: "sound_operation op \<Longrightarrow> checks_inside op \<Longrightarrow> keeps terminal_kept (serve op)"
  by (cases op) (auto intro!: keeps_discard operations_keep_terminal)

lemma run_all_kept:
  assumes "store_relation R" and "\<And>p. p \<in> set ps \<Longrightarrow> keeps R p" and "\<forall>n d. R d (env w n d)"
  shows "R (data w) (data (run_all ps w))"
  using assms(2,3)
proof (induction ps arbitrary: w)
  case Nil
  show ?case using store_relation.refl [OF assms(1)] by simp
next
  case (Cons p ps)
  obtain a w1 where w1: "run_state p w = (a, w1)" by fastforce
  have k: "R (data w) (data w1)" "env w1 = env w"
    using keeps_run [OF _ Cons.prems(2) w1] Cons.prems(1) by auto
  then have "R (data w1) (data (run_all ps w1))"
    using Cons.IH [of w1] Cons.prems by simp
  with k(1) have "R (data w) (data (run_all ps w1))"
    using store_relation.trans [OF assms(1)] by blast
  then show ?case using w1 by simp
qed

text \<open>
  The peers of a request are requests themselves: between its storage calls whole operations may
  run, and between theirs others, to any depth. Such peers keep what the operations keep.
\<close>

primrec crowd :: "nat \<Rightarrow> (nat list \<Rightarrow> operation list) \<Rightarrow> (nat list \<Rightarrow> nat \<Rightarrow> goerr option) \<Rightarrow> nat list \<Rightarrow> db \<Rightarrow> world" where
  "crowd 0 peers flt path d = (idle d)\<lparr>fault := flt path\<rparr>"
| "crowd (Suc m) peers flt path d = (idle d)\<lparr>fault := flt path,
     env := \<lambda>n d'. data (run_all (map serve (peers (n # path))) (crowd m peers flt (n # path) d'))\<rparr>"

lemma crowd_kept:
  assumes "store_relation R" and "\<And>path op. op \<in> set (peers path) \<Longrightarrow> keeps R (serve op)"
  shows "\<forall>n d'. R d' (env (crowd m peers flt path d) n d')"
proof (induction m arbitrary: path d)
  case 0
  show ?case using store_relation.refl [OF assms(1)] by (simp add: idle_def)
next
  case (Suc m)
  have "data (crowd m peers flt p x) = x" for p x by (cases m) (simp_all add: idle_def)
  then have "R x (data (run_all (map serve (peers p)) (crowd m peers flt p x)))" for p x
    using run_all_kept [OF assms(1), of "map serve (peers p)" "crowd m peers flt p x"] assms(2) Suc by auto
  then show ?case by (simp add: idle_def)
qed

lemma crowd_data [simp]: "data (crowd m peers flt path d) = d"
  by (cases m) (simp_all add: idle_def)

lemma history_kept:
  assumes "store_relation R" and "\<And>op. op \<in> set ops \<Longrightarrow> keeps R (serve op)"
    and "\<And>path op. op \<in> set (peers path) \<Longrightarrow> keeps R (serve op)"
  shows "R d (data (run_all (map serve ops) (crowd m peers flt path d)))"
  using run_all_kept [OF assms(1), of "map serve ops" "crowd m peers flt path d"] assms(2)
    crowd_kept [OF assms(1,3)] by auto

subsection \<open>Properties\<close>


text \<open>Two requests for one cancelled execution, with a failing dispatch and an approval in between.\<close>

definition demo_store :: db where
  "demo_store = \<lparr>executions = [zero_execution\<lparr>ex_ExecutionID := ''e1'', ex_Status := stCancelled\<rparr>],
     workflows = [zero_workflow_execution\<lparr>wf_ExecutionID := ''e1'', wf_Status := stCancelled\<rparr>],
     wf_events = [], webhooks = [], published = [], effects = [], run_rows = [],
     handoff_claims = [], clock = 5\<rparr>"

definition demo_peers :: "nat list \<Rightarrow> operation list" where
  "demo_peers path =
     [Complete demo_controller demo_plan ''1'' 7, ResolveApproval True ''e1'' BoundEOF, Pause ''e1'' BoundEOF]"


end
